(* ===== verification/Prelude.thy ===== *)
theory Prelude
  imports Main "HOL-Library.AList" "HOL-Library.Sublist"
begin

text \<open>
  The vocabulary every component shares: the fact collections, the string operations of the
  JavaScript standard library that the frontend uses, decimal numerals, and the generic locale
  of an event-driven machine with an invariant.

  A JavaScript string is modelled by the bytes of its UTF-8 encoding, as an Isabelle string.
  Concatenation, equality, prefix tests and splitting at an ASCII character commute with that
  encoding; where the code counts characters (a password, the first two letters of a weekday)
  the definitions say how. Lone surrogates are outside the model.
\<close>

named_theorems str_simps "evaluation of the string operations"
named_theorems act_simps "running actions"
named_theorems node_simps "evaluation of DOM construction"

section \<open>Characters that are not ASCII\<close>

definition times_sign :: string where
  "times_sign = [CHR 0xC3, CHR 0x97]"

definition mid_dot :: string where
  "mid_dot = [CHR 0xC2, CHR 0xB7]"

definition en_dash :: string where
  "en_dash = [CHR 0xE2, CHR 0x80, CHR 0x93]"

definition em_dash :: string where
  "em_dash = [CHR 0xE2, CHR 0x80, CHR 0x94]"

definition check_mark :: string where
  "check_mark = [CHR 0xE2, CHR 0x9C, CHR 0x93]"

abbreviation byte :: "char \<Rightarrow> nat" where
  "byte c \<equiv> of_char c"

section \<open>String operations of the standard library\<close>

text \<open>\<open>s.startsWith(p)\<close>\<close>

fun starts_with :: "string \<Rightarrow> string \<Rightarrow> bool" where
  "starts_with s [] = True"
| "starts_with [] (c # p) = False"
| "starts_with (d # s) (c # p) = (d = c \<and> starts_with s p)"

lemma starts_with_prefix: "starts_with s p = prefix p s"
  by (induction s p rule: starts_with.induct) auto

lemma starts_with_append [simp]: "starts_with (p @ s) p"
  by (simp add: starts_with_prefix)

text \<open>\<open>s.split(c)\<close> at a single ASCII character: one part more than there are separators.\<close>

fun split_on :: "char \<Rightarrow> string \<Rightarrow> string list" where
  "split_on c [] = [[]]"
| "split_on c (x # xs) =
     (if x = c then [] # split_on c xs
      else case split_on c xs of [] \<Rightarrow> [[x]] | y # ys \<Rightarrow> (x # y) # ys)"

lemma split_on_nonempty [simp]: "split_on c s \<noteq> []"
  by (induction s) (auto split: list.splits)

lemma split_on_parts: "p \<in> set (split_on c s) \<Longrightarrow> c \<notin> set p"
  by (induction s arbitrary: p) (auto split: list.splits if_splits)

lemma split_on_no_sep: "c \<notin> set s \<Longrightarrow> split_on c s = [s]"
  by (induction s) auto

lemma split_on_append_sep:
  "c \<notin> set a \<Longrightarrow> split_on c (a @ c # s) = a # split_on c s"
  by (induction a) auto

text \<open>\<open>parts.join(sep)\<close>\<close>

fun join_with :: "string \<Rightarrow> string list \<Rightarrow> string" where
  "join_with sep [] = []"
| "join_with sep [x] = x"
| "join_with sep (x # y # ys) = x @ sep @ join_with sep (y # ys)"

lemma join_split: "join_with [c] (split_on c s) = s"
proof (induction s)
  case (Cons x xs)
  then show ?case
    by (cases "split_on c xs"; cases "tl (split_on c xs)") auto
qed simp

text \<open>\<open>s.indexOf(c)\<close>, with \<open>None\<close> for -1.\<close>

fun index_of :: "char \<Rightarrow> string \<Rightarrow> nat option" where
  "index_of c [] = None"
| "index_of c (x # xs) = (if x = c then Some 0 else map_option Suc (index_of c xs))"

lemma index_of_append: "c \<notin> set a \<Longrightarrow> index_of c (a @ c # s) = Some (length a)"
  by (induction a) auto

lemma index_of_None [simp]: "index_of c s = None \<longleftrightarrow> c \<notin> set s"
  by (induction s) auto

text \<open>
  \<open>s.trim()\<close>: the white space and line terminators of ECMAScript, as their UTF-8 encodings.
  UTF-8 is self-synchronising, so stripping encoded white space at either end is stripping
  the character.
\<close>

definition js_whitespace :: "string list" where
  "js_whitespace =
     [[CHR 0x09], [CHR 0x0A], [CHR 0x0B], [CHR 0x0C], [CHR 0x0D], [CHR 0x20],
      [CHR 0xC2, CHR 0xA0], [CHR 0xE1, CHR 0x9A, CHR 0x80],
      [CHR 0xE2, CHR 0x80, CHR 0x80], [CHR 0xE2, CHR 0x80, CHR 0x81],
      [CHR 0xE2, CHR 0x80, CHR 0x82], [CHR 0xE2, CHR 0x80, CHR 0x83],
      [CHR 0xE2, CHR 0x80, CHR 0x84], [CHR 0xE2, CHR 0x80, CHR 0x85],
      [CHR 0xE2, CHR 0x80, CHR 0x86], [CHR 0xE2, CHR 0x80, CHR 0x87],
      [CHR 0xE2, CHR 0x80, CHR 0x88], [CHR 0xE2, CHR 0x80, CHR 0x89],
      [CHR 0xE2, CHR 0x80, CHR 0x8A], [CHR 0xE2, CHR 0x80, CHR 0xA8],
      [CHR 0xE2, CHR 0x80, CHR 0xA9], [CHR 0xE2, CHR 0x80, CHR 0xAF],
      [CHR 0xE2, CHR 0x81, CHR 0x9F], [CHR 0xE3, CHR 0x80, CHR 0x80],
      [CHR 0xEF, CHR 0xBB, CHR 0xBF]]"

definition white_prefix :: "string list \<Rightarrow> string \<Rightarrow> nat" where
  "white_prefix ws s = (case filter (starts_with s) ws of [] \<Rightarrow> 0 | w # _ \<Rightarrow> length w)"

function strip_start :: "string list \<Rightarrow> string \<Rightarrow> string" where
  "strip_start ws s =
     (let n = white_prefix ws s
      in if n = 0 \<or> s = [] then s else strip_start ws (drop n s))"
  by pat_completeness auto
termination
  by (relation "measure (\<lambda>(ws, s). length s)") auto

declare strip_start.simps [simp del]

definition trim_start :: "string \<Rightarrow> string" where
  "trim_start s = strip_start js_whitespace s"

definition trim_end :: "string \<Rightarrow> string" where
  "trim_end s = rev (strip_start (map rev js_whitespace) (rev s))"

definition js_trim :: "string \<Rightarrow> string" where
  "js_trim s = trim_end (trim_start s)"

lemma strip_start_suffix: "suffix (strip_start ws s) s"
proof (induction ws s rule: strip_start.induct)
  case (1 ws s)
  show ?case
  proof (cases "white_prefix ws s = 0 \<or> s = []")
    case True
    then show ?thesis by (simp add: strip_start.simps [of ws s] Let_def)
  next
    case False
    with "1" have "suffix (strip_start ws (drop (white_prefix ws s) s)) s"
      using suffix_drop suffix_order.trans by blast
    with False show ?thesis by (simp add: strip_start.simps [of ws s] Let_def)
  qed
qed

lemma strip_start_idle: "white_prefix ws s = 0 \<Longrightarrow> strip_start ws s = s"
  by (simp add: strip_start.simps [of ws s])

lemma strip_start_stops: "[] \<notin> set ws \<Longrightarrow> white_prefix ws (strip_start ws s) = 0"
proof (induction ws s rule: strip_start.induct)
  case (1 ws s)
  show ?case
  proof (cases "white_prefix ws s = 0 \<or> s = []")
    case True
    then show ?thesis
    proof
      assume "white_prefix ws s = 0"
      then show ?thesis by (simp add: strip_start_idle)
    next
      assume s: "s = []"
      have "filter (starts_with []) ws = []"
        using "1.prems" by (auto simp: filter_empty_conv starts_with_prefix)
      then show ?thesis
        using s by (simp add: strip_start.simps [of ws "[]"] white_prefix_def Let_def)
    qed
  next
    case False
    with "1" show ?thesis by (simp add: strip_start.simps [of ws s] Let_def)
  qed
qed

lemma js_trim_Nil [simp]: "js_trim [] = []"
  by (simp add: js_trim_def trim_end_def trim_start_def strip_start.simps Let_def)


section \<open>Decimal numerals\<close>

text \<open>\<open>String(n)\<close> on integers, and \<open>Number.parseInt(s, 10)\<close> on a string of digits.\<close>

definition digit_char :: "nat \<Rightarrow> char" where
  "digit_char d = char_of (48 + d)"

definition is_digit :: "char \<Rightarrow> bool" where
  "is_digit c \<longleftrightarrow> 48 \<le> byte c \<and> byte c \<le> 57"

definition digit_val :: "char \<Rightarrow> nat" where
  "digit_val c = byte c - 48"

function string_of_nat :: "nat \<Rightarrow> string" where
  "string_of_nat n =
     (if n < 10 then [digit_char n] else string_of_nat (n div 10) @ [digit_char (n mod 10)])"
  by pat_completeness auto
termination
  by (relation "measure id") auto

declare string_of_nat.simps [simp del]

definition string_of_int :: "int \<Rightarrow> string" where
  "string_of_int n = (if n < 0 then CHR ''-'' # string_of_nat (nat (- n)) else string_of_nat (nat n))"

definition nat_of_digits :: "string \<Rightarrow> nat" where
  "nat_of_digits = foldl (\<lambda>n c. 10 * n + digit_val c) 0"

lemma digit_char_props [simp]:
  assumes "d < 10"
  shows "is_digit (digit_char d)" and "digit_val (digit_char d) = d"
  using assms by (simp_all add: is_digit_def digit_val_def digit_char_def)

lemma digit_char_val: "is_digit c \<Longrightarrow> digit_char (digit_val c) = c"
  by (simp add: is_digit_def digit_val_def digit_char_def)

lemma digit_val_less: "is_digit c \<Longrightarrow> digit_val c < 10"
  by (auto simp: is_digit_def digit_val_def)

lemma string_of_nat_digits: "list_all is_digit (string_of_nat n)"
proof (induction n rule: string_of_nat.induct)
  case (1 n)
  then show ?case
    by (cases "n < 10") (simp_all add: string_of_nat.simps [of n])
qed

lemma string_of_nat_nonempty [simp]: "string_of_nat n \<noteq> []"
  by (subst string_of_nat.simps) simp

lemma nat_of_digits_Nil [simp]: "nat_of_digits [] = 0"
  by (simp add: nat_of_digits_def)

lemma nat_of_digits_snoc [simp]: "nat_of_digits (s @ [c]) = 10 * nat_of_digits s + digit_val c"
  by (simp add: nat_of_digits_def)

lemma nat_of_digits_append:
  "nat_of_digits (s @ t) = nat_of_digits s * 10 ^ length t + nat_of_digits t"
proof (induction t rule: rev_induct)
  case (snoc c t)
  have "nat_of_digits (s @ t @ [c]) = 10 * nat_of_digits (s @ t) + digit_val c"
    using nat_of_digits_snoc [of "s @ t" c] by simp
  with snoc show ?case by (simp add: algebra_simps)
qed simp

lemma nat_of_digits_string_of_nat [simp]: "nat_of_digits (string_of_nat n) = n"
proof (induction n rule: string_of_nat.induct)
  case (1 n)
  then show ?case
    by (cases "n < 10") (simp_all add: string_of_nat.simps [of n] nat_of_digits_def)
qed

lemma nat_of_digits_zeros [simp]: "nat_of_digits (replicate k (CHR ''0'') @ s) = nat_of_digits s"
proof -
  have "nat_of_digits (replicate k (CHR ''0'')) = 0"
    by (induction k) (simp_all add: nat_of_digits_def digit_val_def)
  then show ?thesis by (simp add: nat_of_digits_append)
qed

lemma string_of_nat_inject [simp]: "string_of_nat m = string_of_nat n \<longleftrightarrow> m = n"
  by (metis nat_of_digits_string_of_nat)

text \<open>\<open>s.padStart(n, c)\<close> and \<open>s.padEnd(n, c)\<close>\<close>

definition pad_start :: "nat \<Rightarrow> char \<Rightarrow> string \<Rightarrow> string" where
  "pad_start n c s = replicate (n - length s) c @ s"

definition pad_end :: "nat \<Rightarrow> char \<Rightarrow> string \<Rightarrow> string" where
  "pad_end n c s = s @ replicate (n - length s) c"

section \<open>Rounding\<close>

text \<open>
  \<open>Math.round(a / b)\<close> for integers \<open>a\<close> and \<open>b > 0\<close>: the nearest integer, a half rounding up.
  The division of two doubles is exact enough to decide this for every amount below 2^53 that
  an order can hold.
\<close>

definition round_div :: "int \<Rightarrow> int \<Rightarrow> int" where
  "round_div a b = (2 * a + b) div (2 * b)"

lemma round_div_exact [simp]: "0 < b \<Longrightarrow> round_div (q * b) b = q"
proof -
  assume b: "0 < b"
  have "(2 * (q * b) + b) div (2 * b) = (b + (2 * b) * q) div (2 * b)"
    by (simp add: algebra_simps)
  also have "\<dots> = q + b div (2 * b)"
    using b by (subst div_mult_self2) auto
  also have "b div (2 * b) = 0"
    using b by (simp add: div_pos_pos_trivial)
  finally show ?thesis by (simp add: round_div_def)
qed

lemma round_div_bounds:
  assumes "0 < b"
  shows "2 * a - b < 2 * b * round_div a b" and "2 * b * round_div a b \<le> 2 * a + b"
proof -
  let ?x = "2 * a + b" and ?d = "2 * b"
  have eq: "?x = ?d * (?x div ?d) + ?x mod ?d" by simp
  have m: "0 \<le> ?x mod ?d" "?x mod ?d < ?d" using assms by simp_all
  from eq m(1) show "2 * b * round_div a b \<le> 2 * a + b"
    unfolding round_div_def by linarith
  from eq m(2) show "2 * a - b < 2 * b * round_div a b"
    unfolding round_div_def by linarith
qed

lemma round_div_unique:
  assumes "0 < b" and "2 * a - b < 2 * b * q" and "2 * b * q \<le> 2 * a + b"
  shows "round_div a b = q"
proof -
  have "0 \<le> 2 * a + b - 2 * b * q" and "2 * a + b - 2 * b * q < 2 * b"
    using assms(2,3) by linarith+
  moreover have "2 * a + b = 2 * b * q + (2 * a + b - 2 * b * q)" by simp
  ultimately show ?thesis
    unfolding round_div_def by (rule int_div_pos_eq [rotated 1])
qed

section \<open>Machines with an invariant\<close>

text \<open>
  Several components are objects that react to events: the router, the live stream, a tab
  strip, the stack of dialogs. What they share is stated once: an initial state that is good
  and a step that keeps a good state good give a run that is good throughout; and when every
  step is the step of a simpler machine seen through an abstraction, so is every run.
\<close>

locale event_machine =
  fixes step :: "'e \<Rightarrow> 's \<Rightarrow> 's"
    and good :: "'s \<Rightarrow> bool"
  assumes good_step: "good s \<Longrightarrow> good (step e s)"
begin

lemma good_run: "good s \<Longrightarrow> good (fold step es s)"
  by (induction es arbitrary: s) (auto intro: good_step)

lemma good_prefix_run: "good s \<Longrightarrow> good (fold step (take n es) s)"
  by (rule good_run)

end

locale refined_machine = event_machine step good
  for step :: "'e \<Rightarrow> 's \<Rightarrow> 's" and good :: "'s \<Rightarrow> bool" +
  fixes abs :: "'s \<Rightarrow> 'a"
    and abs_step :: "'e \<Rightarrow> 'a \<Rightarrow> 'a"
  assumes simulates: "good s \<Longrightarrow> abs (step e s) = abs_step e (abs s)"
begin

lemma run_simulates: "good s \<Longrightarrow> abs (fold step es s) = fold abs_step es (abs s)"
  by (induction es arbitrary: s) (auto simp: simulates good_step)

end

section \<open>Lists\<close>

text \<open>\<open>xs.find(p)\<close> of the source is \<open>List.find\<close>; \<open>xs.findIndex(p)\<close> with \<open>None\<close> for -1.\<close>

fun find_index :: "('a \<Rightarrow> bool) \<Rightarrow> 'a list \<Rightarrow> nat option" where
  "find_index p [] = None"
| "find_index p (x # xs) = (if p x then Some 0 else map_option Suc (find_index p xs))"

lemma find_index_Some:
  "find_index p xs = Some i \<Longrightarrow> i < length xs \<and> p (xs ! i) \<and> (\<forall>j < i. \<not> p (xs ! j))"
proof (induction xs arbitrary: i)
  case (Cons x xs)
  then show ?case
    by (cases i) (auto split: if_splits simp: less_Suc_eq_0_disj)
qed simp

lemma find_index_None: "find_index p xs = None \<longleftrightarrow> list_all (\<lambda>x. \<not> p x) xs"
  by (induction xs) auto

lemma find_Some_in: "List.find p xs = Some x \<Longrightarrow> x \<in> set xs \<and> p x"
  by (auto simp: find_Some_iff)

text \<open>\<open>xs[i]\<close> of the source: undefined out of range.\<close>

definition at :: "'a list \<Rightarrow> nat \<Rightarrow> 'a option" where
  "at xs i = (if i < length xs then Some (xs ! i) else None)"

lemma at_Some [simp]: "at xs i = Some x \<longleftrightarrow> i < length xs \<and> xs ! i = x"
  by (auto simp: at_def)

lemma at_None [simp]: "at xs i = None \<longleftrightarrow> length xs \<le> i"
  by (auto simp: at_def)

text \<open>The last element, as \<open>xs[xs.length - 1]\<close> reads it.\<close>

definition last_of :: "'a list \<Rightarrow> 'a option" where
  "last_of xs = (case rev xs of [] \<Rightarrow> None | x # _ \<Rightarrow> Some x)"

lemma last_of_simps [simp]: "last_of [] = None" "last_of (xs @ [x]) = Some x"
  by (simp_all add: last_of_def)

lemma last_of_in: "last_of xs = Some x \<Longrightarrow> x \<in> set xs"
  by (cases xs rule: rev_cases) auto

text \<open>Insertion-ordered sets, as the source's \<open>Set\<close> iterates them.\<close>

definition set_add :: "'a \<Rightarrow> 'a list \<Rightarrow> 'a list" where
  "set_add x xs = (if x \<in> set xs then xs else xs @ [x])"

definition set_delete :: "'a \<Rightarrow> 'a list \<Rightarrow> 'a list" where
  "set_delete x xs = filter (\<lambda>y. y \<noteq> x) xs"

lemma set_set_add [simp]: "set (set_add x xs) = insert x (set xs)"
  by (auto simp: set_add_def)

lemma set_set_delete [simp]: "set (set_delete x xs) = set xs - {x}"
  by (auto simp: set_delete_def)

lemma distinct_set_add [simp]: "distinct xs \<Longrightarrow> distinct (set_add x xs)"
  by (simp add: set_add_def)

lemma distinct_set_delete [simp]: "distinct xs \<Longrightarrow> distinct (set_delete x xs)"
  by (simp add: set_delete_def)

text \<open>Optional text: the empty string and an absent value are both falsy in a condition.\<close>

definition truthy :: "string option \<Rightarrow> bool" where
  "truthy s = (case s of None \<Rightarrow> False | Some x \<Rightarrow> x \<noteq> [])"

lemma truthy_simps [simp]: "truthy None = False" "truthy (Some s) = (s \<noteq> [])"
  by (simp_all add: truthy_def)

text \<open>\<open>a || b\<close> on strings.\<close>

definition or_else :: "string \<Rightarrow> string \<Rightarrow> string" where
  "or_else a b = (if a \<noteq> [] then a else b)"

section \<open>Grouping\<close>

text \<open>
  A map that is filled one element after the other keeps its keys in the order in which they first
  came; what stands at a key is made of exactly the elements with that key, in their order.
\<close>

definition first_come :: "'a list \<Rightarrow> 'a list" where
  "first_come us = rev (remdups (rev us))"

lemma first_come_snoc: "first_come (us @ [u]) = (if u \<in> set us then first_come us else first_come us @ [u])"
  by (simp add: first_come_def)

lemma set_first_come [simp]: "set (first_come us) = set us" and distinct_first_come [simp]: "distinct (first_come us)"
  by (simp_all add: first_come_def)

lemma update_known:
  "u \<in> set us \<Longrightarrow> distinct us \<Longrightarrow>
   AList.update u x (map (\<lambda>v. (v, f v)) us) = map (\<lambda>v. (v, if v = u then x else f v)) us"
  by (induction us) auto

lemma update_new: "u \<notin> set us \<Longrightarrow> AList.update u x (map (\<lambda>v. (v, f v)) us) = map (\<lambda>v. (v, f v)) us @ [(u, x)]"
  by (induction us) auto

lemma map_of_pairs: "map_of (map (\<lambda>v. (v, f v)) us) u = (if u \<in> set us then Some (f u) else None)"
  by (induction us) auto

lemma grouped_fold:
  "foldl (\<lambda>m it. AList.update (key it) (f (case map_of m (key it) of None \<Rightarrow> new it | Some g \<Rightarrow> g) it) m) [] items =
     map (\<lambda>k. (k, let g = filter (\<lambda>i. key i = k) items in foldl f (new (hd g)) g)) (first_come (map key items))"
proof (induction items rule: rev_induct)
  case Nil
  then show ?case by (simp add: first_come_def)
next
  case (snoc it items)
  let ?ks = "first_come (map key items)" and ?k = "key it"
  let ?val = "\<lambda>k. let g = filter (\<lambda>i. key i = k) items in foldl f (new (hd g)) g"
  show ?case
  proof (cases "?k \<in> set ?ks")
    case True
    then obtain i where i: "i \<in> set items" "key i = ?k" by auto
    then have "filter (\<lambda>i. key i = ?k) items \<noteq> []" by (auto simp: filter_empty_conv)
    with True show ?thesis
      unfolding foldl_append snoc.IH foldl.simps map_of_pairs
      by (simp add: update_known first_come_snoc hd_append Let_def)
  next
    case False
    then have "filter (\<lambda>i. key i = ?k) items = []"
      by (auto simp: filter_empty_conv image_iff)
    with False show ?thesis
      unfolding foldl_append snoc.IH foldl.simps map_of_pairs
      by (simp add: update_new first_come_snoc image_iff Let_def)
  qed
qed

end
