(* ===== verification/Types.thy ===== *)
theory Types
  imports Prelude "HOL-Library.Sorting_Algorithms"
begin

text \<open>
  The shapes the API answers with (\<open>src/types.ts\<close>, \<open>src/reference.ts\<close>, \<open>src/accounts.ts\<close> and the
  session and version shapes of \<open>src/api.ts\<close>), as records; a TypeScript interface that extends
  another is a record extension. Fields carry a prefix of their record, because record selectors
  are global names. A field that may be null is an option; one that may be absent or null is an
  option too, since every reader treats the two alike.

  The last record is the part of the browser the code calls and does not contain: the \<open>Intl\<close>
  formatters, the time zone and the collation order. It is a parameter of everything that
  formats.
\<close>

section \<open>Reference tables\<close>

record currency =
  cu_code :: string
  cu_symbol :: string
  cu_minor_unit :: nat
  cu_minor_per_major :: "int option"
  cu_sort_order :: int

record contact_type =
  ct_id :: string
  ct_code :: string
  ct_render_as :: string
  ct_sort_order :: int

record tag =
  tag_id :: string
  tag_code :: string
  tag_text :: string
  tag_sort_order :: int

record classification =
  cl_id :: string
  cl_code :: string
  cl_reference :: string
  cl_sort_order :: int

record reference_data =
  ref_currencies :: "currency list"
  ref_contact_types :: "contact_type list"
  ref_tags :: "tag list"
  ref_allergens :: "classification list"
  ref_additives :: "classification list"

section \<open>Restaurants\<close>

record restaurant =
  r_id :: string
  r_name :: string
  r_logo_image_id :: "string option"
  r_currency_code :: string
  r_min_order_value_cents :: "int option"
  r_delivery_fee_cents :: "int option"
  r_notes :: string

text \<open>The fields of a contact that decide what it opens (\<open>Linkable\<close> of \<open>src/contacts.ts\<close>).\<close>

record linkable =
  contact_type_code :: string
  render_as :: string
  contact_value :: string

record contact = linkable +
  co_id :: string
  co_contact_type_id :: string
  co_label :: string
  co_sort_order :: int

record opening_period =
  op_day_of_week :: nat
  op_start :: string
  op_end :: string

record opening_period_row = opening_period +
  opr_id :: string
  opr_crosses_midnight :: bool

record restaurant_detail = restaurant +
  rd_contacts :: "contact list"
  rd_opening_hours :: "opening_period_row list"

record availability_filter =
  af_id :: string
  af_restaurant_id :: string
  af_name :: string
  af_on_date :: "string option"
  af_weekdays :: "nat list"
  af_start_time :: "string option"
  af_end_time :: "string option"
  af_sort_order :: int

record category =
  ca_id :: string
  ca_name :: string
  ca_sort_order :: int
  ca_availability :: "availability_filter list option"

record modification =
  mo_id :: string
  mo_name :: string
  mo_price_delta_cents :: int
  mo_sort_order :: int

record menu_item =
  mi_id :: string
  mi_category_id :: "string option"
  mi_external_id :: string
  mi_name :: string
  mi_description :: string
  mi_image_id :: "string option"
  mi_price_cents :: int
  mi_available :: bool
  mi_tags :: "tag list"
  mi_allergens :: "classification list"
  mi_additives :: "classification list"
  mi_modifications :: "modification list option"
  mi_availability :: "availability_filter list option"
  mi_available_at :: "bool option"

section \<open>Orders\<close>

record order_header =
  o_id :: string
  o_title :: string
  o_restaurant_id :: string
  o_restaurant_name :: string
  o_restaurant_logo_image_id :: "string option"
  o_fulfilment :: string
  o_fulfilment_at :: string
  o_deadline_at :: string
  o_status :: string
  o_currency_code :: string
  o_min_order_value_cents :: "int option"
  o_delivery_fee_cents :: "int option"
  o_item_count :: int

record order_list_entry = order_header +
  le_creator_id :: "string option"
  le_creator_name :: "string option"
  le_money_collector_id :: "string option"
  le_money_collector_name :: "string option"
  le_pickup_person_id :: "string option"
  le_pickup_person_name :: "string option"
  le_money_collector_drawn :: "bool option"
  le_pickup_person_drawn :: "bool option"

record item_modification =
  im_id :: string
  im_modification_id :: "string option"
  im_name :: string
  im_price_delta_cents :: int

record order_item =
  oi_id :: string
  oi_user_id :: string
  oi_user_name :: string
  oi_menu_item_id :: string
  oi_quantity :: int
  oi_item_name :: string
  oi_unit_price_cents :: int
  oi_note :: string
  oi_modifications :: "item_modification list"
  oi_line_total_cents :: int
  oi_paid :: bool

record order_detail = order_header +
  od_creator_id :: string
  od_creator_name :: string
  od_money_collector_id :: "string option"
  od_money_collector_name :: string
  od_pickup_person_id :: "string option"
  od_pickup_person_name :: string
  od_money_collector_drawn :: bool
  od_pickup_person_drawn :: bool
  od_items :: "order_item list"
  od_item_total_cents :: int
  od_unpaid_total_cents :: int
  od_paid_total_cents :: int
  od_grand_total_cents :: int
  od_below_minimum :: bool
  od_message_count :: nat

text \<open>
  What \<open>GET /orders/:id\<close> answers: the header to anybody, the detail to somebody signed in. The
  code tells them apart by the presence of \<open>items\<close>.
\<close>

datatype order_view = Header order_header | Detail order_detail

definition header_of :: "order_view \<Rightarrow> order_header" where
  "header_of v = (case v of Header h \<Rightarrow> h | Detail d \<Rightarrow> order_header.truncate d)"

lemma header_of_simps [simp]:
  "header_of (Header h) = h"
  "o_id (header_of (Detail d)) = o_id d"
  "o_restaurant_id (header_of (Detail d)) = o_restaurant_id d"
  "o_restaurant_name (header_of (Detail d)) = o_restaurant_name d"
  "o_fulfilment (header_of (Detail d)) = o_fulfilment d"
  "o_fulfilment_at (header_of (Detail d)) = o_fulfilment_at d"
  "o_deadline_at (header_of (Detail d)) = o_deadline_at d"
  "o_currency_code (header_of (Detail d)) = o_currency_code d"
  "o_min_order_value_cents (header_of (Detail d)) = o_min_order_value_cents d"
  "o_delivery_fee_cents (header_of (Detail d)) = o_delivery_fee_cents d"
  "o_item_count (header_of (Detail d)) = o_item_count d"
  by (simp_all add: header_of_def order_header.defs)

record order_message =
  om_id :: string
  om_user_id :: string
  om_user_name :: string
  om_body :: string
  om_created_at :: string

record deletion_impact =
  active_orders :: int
  active_items :: int
  expired_items :: int
  created_active_orders :: int
  active_jobs :: int

section \<open>Accounts, the session and the server\<close>

record account =
  ac_id :: string
  ac_name :: string
  ac_display_name :: string

record session_user =
  su_id :: string
  su_name :: string
  su_display_name :: string
  su_is_admin :: bool

record ended_notice =
  en_code :: int
  en_message :: string

record session_body =
  sb_user :: "session_user option"
  sb_ended :: "ended_notice option"

record version_info =
  v_version :: string
  v_commit :: string
  v_build_date :: string
  v_swagger :: bool
  v_max_image_size :: int

section \<open>What the application sends\<close>

datatype json =
    JNull
  | JBool bool
  | JNum int
  | JStr string
  | JArr "json list"
  | JObj "(string \<times> json) list"

text \<open>A string that may be null, as it is sent.\<close>

definition json_opt :: "string option \<Rightarrow> json" where
  "json_opt s = (case s of None \<Rightarrow> JNull | Some x \<Rightarrow> JStr x)"

definition json_num_opt :: "int option \<Rightarrow> json" where
  "json_num_opt n = (case n of None \<Rightarrow> JNull | Some x \<Rightarrow> JNum x)"

section \<open>The browser's formatters\<close>

datatype time_unit = Second | Minute | Hour | Day | Week

text \<open>The parts of a moment in the viewer's own time zone, as \<open>Date\<close> hands them out.\<close>

record local_time =
  lt_year :: int
  lt_month :: nat
  lt_date :: nat
  lt_day :: nat
  lt_hours :: nat
  lt_minutes :: nat

text \<open>
  A fraction is a pair of a numerator and a denominator: the quotient the code hands to a number
  formatter. \<open>parse_date\<close> is \<open>new Date(s).getTime()\<close>, with \<open>None\<close> for NaN, and
  \<open>currency_format\<close> gives \<open>None\<close> where the constructor throws on a code it does not know.
\<close>

record intl =
  parse_date :: "string \<Rightarrow> int option"
  local_time_of :: "int \<Rightarrow> local_time"
  date_format :: "string \<Rightarrow> int \<Rightarrow> string"
  date_time_format :: "string \<Rightarrow> int \<Rightarrow> string"
  time_format :: "string \<Rightarrow> int \<Rightarrow> string"
  weekday_format :: "string \<Rightarrow> int \<Rightarrow> string"
  clock_format :: "string \<Rightarrow> int \<Rightarrow> string"
  number_format :: "string \<Rightarrow> int \<times> int \<Rightarrow> string"
  plain_format :: "string \<Rightarrow> nat \<Rightarrow> int \<times> int \<Rightarrow> string"
  currency_format :: "string \<Rightarrow> string \<Rightarrow> nat \<Rightarrow> (int \<times> int \<Rightarrow> string) option"
  relative_format :: "string \<Rightarrow> int \<Rightarrow> time_unit \<Rightarrow> string"
  plural_category :: "string \<Rightarrow> int \<Rightarrow> string"
  iso_string :: "int \<Rightarrow> string"
  collation :: "string option \<Rightarrow> string comparator"

text \<open>
  A browser small enough to evaluate: a timestamp is a decimal number of milliseconds, the time
  zone is a single day, and every formatter shows the number it is given. It only serves the
  examples; no theorem about the code assumes it.
\<close>

definition sample_intl :: intl where
  "sample_intl =
     \<lparr>parse_date = \<lambda>s. if s \<noteq> [] \<and> list_all is_digit s then Some (int (nat_of_digits s)) else None,
      local_time_of = \<lambda>n. \<lparr>lt_year = 2026, lt_month = 0, lt_date = 5, lt_day = 1,
        lt_hours = nat (n div 60), lt_minutes = nat (n mod 60)\<rparr>,
      date_format = \<lambda>_ n. string_of_int n,
      date_time_format = \<lambda>_ n. string_of_int n,
      time_format = \<lambda>_ n. string_of_int n,
      weekday_format = \<lambda>_ n. string_of_int n,
      clock_format = \<lambda>_ n. string_of_int n,
      number_format = \<lambda>_ (n, d). string_of_int n,
      plain_format = \<lambda>_ _ (n, d). string_of_int n,
      currency_format = \<lambda>_ c _. if c = ''EUR'' then Some (\<lambda>(n, d). string_of_int n) else None,
      relative_format = \<lambda>_ n _. string_of_int n,
      plural_category = \<lambda>_ n. if n = 1 then ''one'' else ''other'',
      iso_string = string_of_int,
      collation = \<lambda>_. flat\<rparr>"

lemma sample_plural [simp]: "plural_category sample_intl l n = (if n = 1 then ''one'' else ''other'')"
  by (simp add: sample_intl_def)

end
