(* ===== verification/I18n.thy ===== *)
theory I18n
  imports Types
begin

text \<open>
  The translation runtime (\<open>src/i18n/index.ts\<close>): the registry of catalogs, the resolution of the
  interface language, the translator with its plural forms and its fall back to English, and the
  interpolation of placeholders. A catalog is a JSON object, kept as the list of its entries in
  order; the registry maps a language code to its catalog and is a parameter, since the module
  that holds it is written by the build.
\<close>

type_synonym catalog = "(string \<times> json) list"
type_synonym registry = "(string \<times> catalog) list"

definition META_KEY :: string where
  "META_KEY = ''_meta''"

definition SOURCE_LANGUAGE :: string where
  "SOURCE_LANGUAGE = ''en''"

text \<open>What a catalog says about itself.\<close>

record catalog_meta =
  cm_code :: string
  cm_endonym :: string
  cm_dir :: string

definition json_text :: "json option \<Rightarrow> string" where
  "json_text j = (case j of Some (JStr s) \<Rightarrow> s | _ \<Rightarrow> [])"

definition catalog_meta_of :: "catalog \<Rightarrow> catalog_meta option" where
  "catalog_meta_of c =
     (case map_of c META_KEY of
        Some (JObj m) \<Rightarrow>
          Some \<lparr>cm_code = json_text (map_of m ''code''),
                cm_endonym = json_text (map_of m ''endonym''),
                cm_dir = json_text (map_of m ''dir'')\<rparr>
      | _ \<Rightarrow> None)"

definition by_text :: "string comparator \<Rightarrow> ('a \<Rightarrow> string) \<Rightarrow> 'a comparator" where
  "by_text cmp f = key f cmp"

definition languages :: "intl \<Rightarrow> registry \<Rightarrow> catalog_meta list" where
  "languages i cs =
     Sorting_Algorithms.sort (by_text (collation i None) cm_endonym)
       (List.map_filter (\<lambda>(_, c). catalog_meta_of c) cs)"

definition hasLanguage :: "registry \<Rightarrow> string \<Rightarrow> bool" where
  "hasLanguage cs code \<longleftrightarrow> map_of cs code \<noteq> None"

section \<open>The language of the interface\<close>

text \<open>\<open>toLowerCase\<close> on the ASCII letters a language tag is written in.\<close>

definition lower_char :: "char \<Rightarrow> char" where
  "lower_char c = (if 65 \<le> byte c \<and> byte c \<le> 90 then char_of (byte c + 32) else c)"

definition lower_case :: "string \<Rightarrow> string" where
  "lower_case = map lower_char"

definition primary_subtag :: "string \<Rightarrow> string" where
  "primary_subtag tg = lower_case (hd (split_on (CHR ''-'') tg))"

fun first_supported :: "registry \<Rightarrow> string list \<Rightarrow> string" where
  "first_supported cs [] = SOURCE_LANGUAGE"
| "first_supported cs (tg # tgs) =
     (let primary = primary_subtag tg
      in if primary \<noteq> [] \<and> hasLanguage cs primary then primary else first_supported cs tgs)"

definition resolveLanguage :: "registry \<Rightarrow> string option \<Rightarrow> string list \<Rightarrow> string" where
  "resolveLanguage cs cookieValue acceptLanguages =
     (case cookieValue of
        Some c \<Rightarrow> if c \<noteq> [] \<and> hasLanguage cs c then c else first_supported cs acceptLanguages
      | None \<Rightarrow> first_supported cs acceptLanguages)"

lemma first_supported_known:
  "hasLanguage cs SOURCE_LANGUAGE \<Longrightarrow> hasLanguage cs (first_supported cs tgs)"
  by (induction tgs) (auto simp: Let_def)

lemma first_supported_first:
  assumes "hasLanguage cs p" and "p = primary_subtag tg" and "p \<noteq> []"
    and "list_all (\<lambda>x. \<not> hasLanguage cs (primary_subtag x)) before"
  shows "first_supported cs (before @ tg # after) = p"
  using assms(4,1,3) by (induction before) (auto simp: Let_def assms(2))

lemma resolveLanguage_known:
  "hasLanguage cs SOURCE_LANGUAGE \<Longrightarrow> hasLanguage cs (resolveLanguage cs cookie tgs)"
  by (auto simp: resolveLanguage_def first_supported_known split: option.splits)

section \<open>Placeholders\<close>

text \<open>
  The matches of \<open>/\{(\w+)\}/g\<close>: a message read as the characters between the matches and the
  names inside them.
\<close>

datatype piece = Plain char | Hole string

definition is_word :: "char \<Rightarrow> bool" where
  "is_word c \<longleftrightarrow> is_digit c \<or> (65 \<le> byte c \<and> byte c \<le> 90) \<or> (97 \<le> byte c \<and> byte c \<le> 122)
     \<or> c = CHR ''_''"

definition closes_hole :: "string \<Rightarrow> bool" where
  "closes_hole s \<longleftrightarrow> takeWhile is_word s \<noteq> [] \<and> starts_with (dropWhile is_word s) ''}''"

function pieces :: "string \<Rightarrow> piece list" where
  "pieces [] = []"
| "pieces (c # cs) =
     (if c = CHR ''{'' \<and> closes_hole cs
      then Hole (takeWhile is_word cs) # pieces (drop 1 (dropWhile is_word cs))
      else Plain c # pieces cs)"
  by pat_completeness auto
termination
proof (relation "measure length")
  fix c :: char and cs :: string
  have "length (dropWhile is_word cs) \<le> length cs"
    by (rule length_dropWhile_le)
  then show "(drop 1 (dropWhile is_word cs), c # cs) \<in> measure length"
    by simp
qed auto

datatype placeholder = PStr string | PNum int

type_synonym translate_options = "(string \<times> placeholder) list"

definition placeholder_text :: "placeholder \<Rightarrow> string" where
  "placeholder_text p = (case p of PStr s \<Rightarrow> s | PNum n \<Rightarrow> string_of_int n)"

definition as_written :: "string \<Rightarrow> string" where
  "as_written name = CHR ''{'' # name @ ''}''"

fun fill :: "translate_options \<Rightarrow> piece \<Rightarrow> string" where
  "fill vs (Plain c) = [c]"
| "fill vs (Hole name) =
     (case map_of vs name of None \<Rightarrow> as_written name | Some v \<Rightarrow> placeholder_text v)"

definition interpolate :: "string \<Rightarrow> translate_options \<Rightarrow> string" where
  "interpolate template vs = concat (map (fill vs) (pieces template))"

fun hole_names :: "piece list \<Rightarrow> string list" where
  "hole_names [] = []"
| "hole_names (Plain c # ps) = hole_names ps"
| "hole_names (Hole n # ps) = n # hole_names ps"

lemma set_hole_names: "set (hole_names ps) = {n. Hole n \<in> set ps}"
  by (induction ps rule: hole_names.induct) auto

lemma pieces_write: "concat (map (fill []) (pieces s)) = s"
proof (induction s rule: pieces.induct)
  case (2 c cs)
  show ?case
  proof (cases "c = CHR ''{'' \<and> closes_hole cs")
    case True
    then obtain r where r: "dropWhile is_word cs = CHR ''}'' # r"
      by (auto simp: closes_hole_def starts_with_prefix prefix_def)
    have "cs = takeWhile is_word cs @ dropWhile is_word cs" by simp
    with r have cs: "takeWhile is_word cs @ CHR ''}'' # r = cs" by simp
    from True r "2.IH"(1) have ih: "concat (map (fill []) (pieces r)) = r" by simp
    show ?thesis using True r ih cs by (simp add: as_written_def)
  next
    case False
    with "2.IH"(2) show ?thesis by auto
  qed
qed simp

lemma interpolate_none: "interpolate template [] = template"
  by (simp add: interpolate_def pieces_write)

lemma fill_cong:
  "(\<And>n. p = Hole n \<Longrightarrow> map_of vs n = map_of ws n) \<Longrightarrow> fill vs p = fill ws p"
  by (cases p) auto

lemma interpolate_cong:
  assumes "\<And>n. Hole n \<in> set (pieces template) \<Longrightarrow> map_of vs n = map_of ws n"
  shows "interpolate template vs = interpolate template ws"
  unfolding interpolate_def
  by (rule arg_cong [of _ _ concat], rule map_cong [OF refl], rule fill_cong) (auto simp: assms)

lemma interpolate_no_holes:
  "hole_names (pieces template) = [] \<Longrightarrow> interpolate template vs = template"
  using interpolate_cong [of template vs "[]"] set_hole_names [of "pieces template"]
  by (auto simp: interpolate_none)

section \<open>The translator\<close>

record translator =
  tr_language :: string
  tr_meta :: "catalog_meta option"
  tr_catalog :: catalog
  tr_fallback :: catalog
  tr_plurals :: "int \<Rightarrow> string"

definition catalog_at :: "registry \<Rightarrow> string \<Rightarrow> catalog" where
  "catalog_at cs code = (case map_of cs code of None \<Rightarrow> [] | Some c \<Rightarrow> c)"

definition new_translator :: "intl \<Rightarrow> registry \<Rightarrow> string \<Rightarrow> translator" where
  "new_translator i cs language =
     (let l = (if hasLanguage cs language then language else SOURCE_LANGUAGE);
          c = catalog_at cs l
      in \<lparr>tr_language = l, tr_meta = catalog_meta_of c, tr_catalog = c,
          tr_fallback = catalog_at cs SOURCE_LANGUAGE, tr_plurals = plural_category i l\<rparr>)"

definition readString :: "catalog \<Rightarrow> string \<Rightarrow> string option" where
  "readString c k = (case map_of c k of Some (JStr s) \<Rightarrow> Some s | _ \<Rightarrow> None)"

text \<open>\<open>a ?? b\<close>\<close>

definition coalesce :: "'a option \<Rightarrow> 'a option \<Rightarrow> 'a option" where
  "coalesce a b = (case a of None \<Rightarrow> b | Some x \<Rightarrow> Some x)"

lemma coalesce_simps [simp]:
  "coalesce None b = b" "coalesce (Some x) b = Some x" "coalesce a None = a"
  by (simp_all add: coalesce_def split: option.splits)

lemma coalesce_None [simp]: "coalesce a b = None \<longleftrightarrow> a = None \<and> b = None"
  by (auto simp: coalesce_def split: option.splits)

definition plural_key :: "string \<Rightarrow> string \<Rightarrow> string" where
  "plural_key k cat = k @ ''.'' @ cat"

definition plural_lookup :: "translator \<Rightarrow> string \<Rightarrow> int \<Rightarrow> string option" where
  "plural_lookup t k n =
     (let cat = tr_plurals t n
      in coalesce (readString (tr_catalog t) (plural_key k cat))
          (coalesce (readString (tr_fallback t) (plural_key k cat))
            (readString (tr_fallback t) (plural_key k ''other''))))"

definition lookup_message :: "translator \<Rightarrow> string \<Rightarrow> int option \<Rightarrow> string option" where
  "lookup_message t k amount =
     coalesce (case amount of None \<Rightarrow> None | Some n \<Rightarrow> plural_lookup t k n)
       (coalesce (readString (tr_catalog t) k) (readString (tr_fallback t) k))"

definition count_of :: "translate_options \<Rightarrow> int option" where
  "count_of vs = (case map_of vs ''count'' of Some (PNum n) \<Rightarrow> Some n | _ \<Rightarrow> None)"

definition translate :: "translator \<Rightarrow> string \<Rightarrow> translate_options \<Rightarrow> string" where
  "translate t k vs =
     (case lookup_message t k (count_of vs) of
        None \<Rightarrow> k
      | Some template \<Rightarrow> interpolate template vs)"

definition has_key :: "translator \<Rightarrow> string \<Rightarrow> bool" where
  "has_key t k \<longleftrightarrow> lookup_message t k None \<noteq> None"

lemma translate_missing: "\<not> has_key t k \<Longrightarrow> count_of vs = None \<Longrightarrow> translate t k vs = k"
  by (simp add: translate_def has_key_def)

lemma translate_own:
  "readString (tr_catalog t) k = Some m \<Longrightarrow> count_of vs = None \<Longrightarrow> translate t k vs = interpolate m vs"
  by (simp add: translate_def lookup_message_def)

lemma translate_own_plural:
  "readString (tr_catalog t) (plural_key k (tr_plurals t n)) = Some m \<Longrightarrow> count_of vs = Some n \<Longrightarrow>
   translate t k vs = interpolate m vs"
  by (simp add: translate_def lookup_message_def plural_lookup_def Let_def)

section \<open>Names of reference data\<close>

definition referenceName :: "translator \<Rightarrow> string \<Rightarrow> string \<Rightarrow> string" where
  "referenceName t pref code =
     (let k = pref @ ''.'' @ code in if has_key t k then translate t k [] else code)"

definition tagName :: "translator \<Rightarrow> tag \<Rightarrow> string" where
  "tagName t tg =
     (let k = ''tag.'' @ tag_code tg
      in if has_key t k then translate t k [] else or_else (tag_text tg) (tag_code tg))"

end
