(* ===== verification/Catalogs.thy ===== *)
theory Catalogs
  imports I18n "HOL-Library.List_Lexorder" "HOL-Library.Char_ord"
begin

text \<open>
  The build-time half of the translation system (\<open>scripts/i18n.mjs\<close>): the classification of the
  source catalog into single messages and plural groups, and the completeness check that fails
  the build. Problems are constructors instead of formatted sentences; each names the constructor
  for one message of the script. The plural categories of a language
  (\<open>Intl.PluralRules(...).resolvedOptions().pluralCategories\<close>) are the parameter \<open>categoriesFor\<close>.
\<close>

record cat_file =
  cf_code :: string
  cf_name :: string
  cf_data :: catalog

datatype catalog_problem =
    NoMetaBlock string
  | WrongCode string
  | NoEndonym string
  | WrongDir string
  | NotText string string
  | NoSourceLanguage
  | MissingKey string string

datatype catalog_warning =
    ExtraKey string string
  | UnknownPlaceholder string string string

definition pluralCategories :: "string list" where
  "pluralCategories = [''zero'', ''one'', ''two'', ''few'', ''many'', ''other'']"

section \<open>Loading\<close>

definition json_suffix :: string where
  "json_suffix = ''.json''"

definition ends_with :: "string \<Rightarrow> string \<Rightarrow> bool" where
  "ends_with s p \<longleftrightarrow> starts_with (rev s) (rev p)"

text \<open>The directory is a parameter: the names in it and what \<open>JSON.parse\<close> makes of each file.\<close>

definition loadCatalogs :: "string list \<Rightarrow> (string \<Rightarrow> catalog) \<Rightarrow> cat_file list" where
  "loadCatalogs names read =
     map (\<lambda>name. \<lparr>cf_code = take (length name - length json_suffix) name, cf_name = name,
                   cf_data = read name\<rparr>)
       (List.sort (filter (\<lambda>name. ends_with name json_suffix) names))"

section \<open>Classification\<close>

text \<open>A key cut at its last full stop: the part before it and the part after it.\<close>

definition last_cut :: "string \<Rightarrow> (string \<times> string) option" where
  "last_cut k =
     (let ending = takeWhile (\<lambda>c. c \<noteq> CHR ''.'') (rev k)
      in if length ending = length k then None
         else Some (take (length k - length ending - 1) k, rev ending))"

lemma last_cut_Some:
  assumes "last_cut k = Some (b, s)"
  shows "k = plural_key b s"
proof -
  define w where "w = takeWhile (\<lambda>c. c \<noteq> CHR ''.'') (rev k)"
  define d where "d = dropWhile (\<lambda>c. c \<noteq> CHR ''.'') (rev k)"
  have split: "rev k = w @ d" by (simp add: w_def d_def)
  have cut: "length w \<noteq> length k" "b = take (length k - length w - 1) k" "s = rev w"
    using assms by (auto simp: last_cut_def Let_def w_def [symmetric] split: if_splits)
  have "d \<noteq> []" using split cut(1) by (metis append_Nil2 length_rev)
  then obtain r where d: "d = CHR ''.'' # r"
    using hd_dropWhile [of "\<lambda>c. c \<noteq> CHR ''.''" "rev k"] by (cases d) (auto simp: d_def)
  have k: "k = rev r @ CHR ''.'' # rev w"
    using split d by (simp add: rev_swap)
  have "take (length k - length w - 1) k = rev r"
    by (simp add: k)
  with cut k show ?thesis by (simp add: plural_key_def)
qed

lemma last_cut_plural_key:
  assumes "CHR ''.'' \<notin> set s"
  shows "last_cut (plural_key b s) = Some (b, s)"
proof -
  have "takeWhile (\<lambda>c. c \<noteq> CHR ''.'') (rev (plural_key b s)) = rev s"
    using assms by (simp add: plural_key_def takeWhile_append2 takeWhile_append)
  then show ?thesis by (simp add: last_cut_def Let_def plural_key_def)
qed

type_synonym candidates = "(string \<times> string list) list"

definition add_candidate :: "candidates \<Rightarrow> string \<Rightarrow> candidates" where
  "add_candidate m k =
     (case last_cut k of
        None \<Rightarrow> m
      | Some (base, ending) \<Rightarrow>
          if ending \<notin> set pluralCategories then m
          else AList.update base
                 (set_add ending (case map_of m base of None \<Rightarrow> [] | Some f \<Rightarrow> f)) m)"

definition message_keys :: "catalog \<Rightarrow> string list" where
  "message_keys d = filter (\<lambda>k. k \<noteq> META_KEY) (map fst d)"

definition plural_bases :: "string list \<Rightarrow> catalog \<Rightarrow> string list" where
  "plural_bases categories d =
     map fst (filter (\<lambda>(b, found). list_all (\<lambda>c. c \<in> set found) categories)
               (foldl add_candidate [] (message_keys d)))"

definition is_single :: "string list \<Rightarrow> string \<Rightarrow> bool" where
  "is_single plurals k =
     (case last_cut k of None \<Rightarrow> True | Some (base, _) \<Rightarrow> base \<notin> set plurals)"

definition classify :: "(string \<Rightarrow> string list) \<Rightarrow> catalog \<Rightarrow> string \<Rightarrow> string list \<times> string list" where
  "classify categoriesFor d code =
     (let plurals = plural_bases (categoriesFor code) d
      in (filter (is_single plurals) (message_keys d), plurals))"

text \<open>The names a message interpolates, each once, in order.\<close>

definition placeholders :: "string \<Rightarrow> string list" where
  "placeholders m = foldl (\<lambda>ns n. set_add n ns) [] (hole_names (pieces m))"

lemma set_fold_set_add [simp]: "set (foldl (\<lambda>ns n. set_add n ns) ms xs) = set ms \<union> set xs"
  by (induction xs arbitrary: ms) auto

lemma set_placeholders: "set (placeholders m) = {n. Hole n \<in> set (pieces m)}"
  by (simp add: placeholders_def set_hole_names)

section \<open>The checks\<close>

definition member :: "json \<Rightarrow> string \<Rightarrow> json option" where
  "member j k = (case j of JObj m \<Rightarrow> map_of m k | _ \<Rightarrow> None)"

definition is_object :: "json \<Rightarrow> bool" where
  "is_object j = (case j of JObj _ \<Rightarrow> True | JArr _ \<Rightarrow> True | _ \<Rightarrow> False)"

definition is_text :: "json \<Rightarrow> bool" where
  "is_text j = (case j of JStr _ \<Rightarrow> True | _ \<Rightarrow> False)"

definition only_when :: "bool \<Rightarrow> 'a \<Rightarrow> 'a list" where
  "only_when b x = (if b then [x] else [])"

lemma only_when_simps [simp]: "only_when True x = [x]" "only_when False x = []" "only_when b x = [] \<longleftrightarrow> \<not> b"
  by (simp_all add: only_when_def)

definition meta_fields :: "cat_file \<Rightarrow> json \<Rightarrow> catalog_problem list" where
  "meta_fields c meta =
     only_when (member meta ''code'' \<noteq> Some (JStr (cf_code c))) (WrongCode (cf_name c))
     @ only_when (\<not> (case member meta ''endonym'' of Some (JStr e) \<Rightarrow> e \<noteq> [] | _ \<Rightarrow> False))
         (NoEndonym (cf_name c))
     @ only_when (member meta ''dir'' \<noteq> Some (JStr ''ltr'') \<and> member meta ''dir'' \<noteq> Some (JStr ''rtl''))
         (WrongDir (cf_name c))"

definition checkMeta :: "cat_file \<Rightarrow> catalog_problem list" where
  "checkMeta c =
     (case map_of (cf_data c) META_KEY of
        None \<Rightarrow> [NoMetaBlock (cf_name c)]
      | Some meta \<Rightarrow>
          if \<not> is_object meta then [NoMetaBlock (cf_name c)]
          else meta_fields c meta
               @ concat (map (\<lambda>(k, v). only_when (k \<noteq> META_KEY \<and> \<not> is_text v) (NotText (cf_name c) k))
                   (cf_data c)))"

text \<open>
  The keys a translation owes: every single key of the source, and each plural group in the
  categories of the language itself, in insertion order without repetition.
\<close>

definition required_keys :: "string list \<Rightarrow> string list \<times> string list \<Rightarrow> string list" where
  "required_keys categories shape =
     foldl (\<lambda>ks k. set_add k ks) []
       (fst shape @ concat (map (\<lambda>base. map (plural_key base) categories) (snd shape)))"

lemma set_required_keys:
  "set (required_keys cats shape) =
     set (fst shape) \<union> {plural_key b c | b c. b \<in> set (snd shape) \<and> c \<in> set cats}"
  by (auto simp: required_keys_def)

definition missing_keys :: "cat_file \<Rightarrow> string list \<Rightarrow> catalog_problem list" where
  "missing_keys c required =
     concat (map (\<lambda>k. only_when (readString (cf_data c) k = None) (MissingKey (cf_name c) k))
       (List.sort required))"

definition key_warnings :: "cat_file \<Rightarrow> catalog \<Rightarrow> string list \<Rightarrow> string \<Rightarrow> catalog_warning list" where
  "key_warnings c source required k =
     only_when (k \<noteq> META_KEY \<and> k \<notin> set required) (ExtraKey (cf_name c) k)
     @ (case (readString (cf_data c) k, readString source k) of
          (Some translated, Some original) \<Rightarrow>
            concat (map (\<lambda>n. only_when (n \<notin> set (placeholders original))
                               (UnknownPlaceholder (cf_name c) k n))
                     (placeholders translated))
        | _ \<Rightarrow> [])"

definition checkCatalogs ::
  "(string \<Rightarrow> string list) \<Rightarrow> cat_file list \<Rightarrow> catalog_problem list \<times> catalog_warning list" where
  "checkCatalogs categoriesFor cs =
     (case List.find (\<lambda>c. cf_code c = SOURCE_LANGUAGE) cs of
        None \<Rightarrow> (concat (map checkMeta cs) @ [NoSourceLanguage], [])
      | Some source \<Rightarrow>
          let shape = classify categoriesFor (cf_data source) (cf_code source);
              others = filter (\<lambda>c. cf_code c \<noteq> SOURCE_LANGUAGE) cs;
              required = (\<lambda>c. required_keys (categoriesFor (cf_code c)) shape)
          in (concat (map checkMeta cs) @ concat (map (\<lambda>c. missing_keys c (required c)) others),
              concat (map (\<lambda>c. concat (map (key_warnings c (cf_data source) (required c))
                                      (map fst (cf_data c)))) others)))"

text \<open>
  \<open>generateRegistry\<close>: the registry the build writes, or the problems it stops on. Without
  \<open>strict\<close> the problems are only printed.
\<close>

definition registry_entries :: "cat_file list \<Rightarrow> registry" where
  "registry_entries cs = map (\<lambda>c. (cf_code c, cf_data c)) cs"

definition generateRegistry ::
  "(string \<Rightarrow> string list) \<Rightarrow> bool \<Rightarrow> cat_file list \<Rightarrow> catalog_problem list + registry" where
  "generateRegistry categoriesFor strict cs =
     (let errors = fst (checkCatalogs categoriesFor cs)
      in if errors \<noteq> [] \<and> strict then Inl errors else Inr (registry_entries cs))"

section \<open>What an accepted set of catalogs guarantees\<close>

lemma checkCatalogs_accepts:
  assumes "fst (checkCatalogs cats cs) = []"
  obtains src where "List.find (\<lambda>c. cf_code c = SOURCE_LANGUAGE) cs = Some src"
    and "\<And>c. c \<in> set cs \<Longrightarrow> checkMeta c = []"
    and "\<And>c. c \<in> set cs \<Longrightarrow> cf_code c \<noteq> SOURCE_LANGUAGE \<Longrightarrow>
           missing_keys c (required_keys (cats (cf_code c)) (classify cats (cf_data src) SOURCE_LANGUAGE)) = []"
proof (cases "List.find (\<lambda>c. cf_code c = SOURCE_LANGUAGE) cs")
  case None
  with assms show ?thesis by (simp add: checkCatalogs_def)
next
  case (Some src)
  then have "cf_code src = SOURCE_LANGUAGE" by (auto dest: find_Some_in)
  with Some assms show ?thesis
    by (intro that [OF Some]) (auto simp: checkCatalogs_def Let_def)
qed

lemma missing_keys_none:
  "missing_keys c ks = [] \<Longrightarrow> k \<in> set ks \<Longrightarrow> readString (cf_data c) k \<noteq> None"
  by (auto simp: missing_keys_def)

lemma checkMeta_text:
  assumes "checkMeta c = []" and "k \<in> set (message_keys (cf_data c))"
  shows "readString (cf_data c) k \<noteq> None"
proof -
  from assms(1) have texts: "\<And>k v. (k, v) \<in> set (cf_data c) \<Longrightarrow> k = META_KEY \<or> is_text v"
    by (auto simp: checkMeta_def split: option.splits if_splits)
  from assms(2) have ne: "k \<noteq> META_KEY" and "k \<in> set (map fst (cf_data c))"
    by (auto simp: message_keys_def)
  then obtain v where v: "map_of (cf_data c) k = Some v"
    by (metis map_of_eq_None_iff option.exhaust set_map)
  with texts ne have "is_text v" by (blast dest: map_of_SomeD)
  with v show ?thesis by (auto simp: readString_def is_text_def split: json.splits)
qed

lemma candidates_from_keys:
  assumes "map_of (foldl add_candidate m ks) b = Some f" and "s \<in> set f"
  shows "plural_key b s \<in> set ks \<or> (\<exists>g. map_of m b = Some g \<and> s \<in> set g)"
  using assms
proof (induction ks arbitrary: m)
  case (Cons k ks)
  then consider "plural_key b s \<in> set ks"
    | g where "map_of (add_candidate m k) b = Some g" "s \<in> set g"
    by auto
  then show ?case
  proof cases
    case 2
    then show ?thesis
      by (auto simp: add_candidate_def update_conv dest!: last_cut_Some
          split: option.splits prod.splits if_splits)
  qed simp
qed simp

lemma distinct_candidates: "distinct (map fst m) \<Longrightarrow> distinct (map fst (foldl add_candidate m ks))"
proof (induction ks arbitrary: m)
  case (Cons k ks)
  have "distinct (map fst (add_candidate m k))"
    using Cons.prems by (auto simp: add_candidate_def distinct_update split: option.splits)
  with Cons.IH show ?case by simp
qed simp

lemma plural_base_keys:
  assumes "b \<in> set (plural_bases categories d)" and "c \<in> set categories"
  shows "plural_key b c \<in> set (message_keys d)"
proof -
  from assms obtain f where f: "(b, f) \<in> set (foldl add_candidate [] (message_keys d))" "c \<in> set f"
    by (auto simp: plural_bases_def list_all_iff)
  then have "map_of (foldl add_candidate [] (message_keys d)) b = Some f"
    using distinct_candidates [of "[]" "message_keys d"] by simp
  from candidates_from_keys [OF this f(2)] show ?thesis by simp
qed

lemma classify_simps [simp]:
  "fst (classify cats d code) = filter (is_single (plural_bases (cats code) d)) (message_keys d)"
  "snd (classify cats d code) = plural_bases (cats code) d"
  by (simp_all add: classify_def Let_def)

lemma generated_translator:
  assumes "distinct (map cf_code cs)" and "c \<in> set cs"
  shows "tr_catalog (new_translator i (registry_entries cs) (cf_code c)) = cf_data c"
    and "tr_plurals (new_translator i (registry_entries cs) (cf_code c)) = plural_category i (cf_code c)"
proof -
  have "map_of (registry_entries cs) (cf_code c) = Some (cf_data c)"
    using assms by (auto simp: registry_entries_def comp_def intro!: map_of_is_SomeI)
  then show "tr_catalog (new_translator i (registry_entries cs) (cf_code c)) = cf_data c"
    and "tr_plurals (new_translator i (registry_entries cs) (cf_code c)) = plural_category i (cf_code c)"
    by (simp_all add: new_translator_def Let_def hasLanguage_def catalog_at_def)
qed

text \<open>The keys a catalog owes are in it, whichever language it is.\<close>

lemma accepted_catalog_complete:
  assumes "fst (checkCatalogs cats cs) = []" and "c \<in> set cs"
    and "distinct (map cf_code cs)"
    and "List.find (\<lambda>c. cf_code c = SOURCE_LANGUAGE) cs = Some src"
    and "k \<in> set (required_keys (cats (cf_code c)) (classify cats (cf_data src) SOURCE_LANGUAGE))"
  shows "readString (cf_data c) k \<noteq> None"
proof (cases "cf_code c = SOURCE_LANGUAGE")
  case True
  from assms(4) have "src \<in> set cs" "cf_code src = SOURCE_LANGUAGE"
    by (auto dest: find_Some_in)
  with True assms(2,3) have "c = src" by (metis distinct_map inj_onD)
  moreover have "k \<in> set (message_keys (cf_data src))"
    using assms(5) True by (auto simp: set_required_keys plural_base_keys)
  moreover have "checkMeta c = []"
    using checkCatalogs_accepts [OF assms(1)] assms(2) by blast
  ultimately show ?thesis by (metis checkMeta_text)
next
  case False
  then have "missing_keys c (required_keys (cats (cf_code c)) (classify cats (cf_data src) SOURCE_LANGUAGE)) = []"
    using checkCatalogs_accepts [OF assms(1)] assms(2,4) by (metis option.inject)
  then show ?thesis using assms(5) by (rule missing_keys_none)
qed

lemma strict_registry:
  "generateRegistry cats True cs = Inr reg \<longleftrightarrow>
     fst (checkCatalogs cats cs) = [] \<and> reg = registry_entries cs"
  by (auto simp: generateRegistry_def Let_def)

text \<open>
  C36: a build that the completeness check lets through has every single message of the source
  language in every language it ships: the translator of a language answers with that
  language's own text, never with the English one and never with the bare key.
\<close>

theorem build_translates_every_message:
  assumes "generateRegistry cats True files = Inr reg"
    and "distinct (map cf_code files)" and "c \<in> set files"
    and "List.find (\<lambda>f. cf_code f = SOURCE_LANGUAGE) files = Some src"
    and "k \<in> set (fst (classify cats (cf_data src) SOURCE_LANGUAGE))"
    and "count_of vs = None"
  shows "\<exists>m. readString (cf_data c) k = Some m \<and>
           translate (new_translator i reg (cf_code c)) k vs = interpolate m vs"
proof -
  from assms(1) have ok: "fst (checkCatalogs cats files) = []" and reg: "reg = registry_entries files"
    by (simp_all add: strict_registry)
  have "readString (cf_data c) k \<noteq> None"
    using accepted_catalog_complete [OF ok assms(3,2,4)] assms(5) by (auto simp: set_required_keys)
  then show ?thesis
    using translate_own [OF _ assms(6)] generated_translator(1) [OF assms(2,3)] reg by fastforce
qed

text \<open>
  The same for plurals: whatever category the language's own rules choose for a number, the
  catalog of that language has the text for it.
\<close>

theorem build_translates_every_plural:
  assumes "generateRegistry cats True files = Inr reg"
    and "distinct (map cf_code files)" and "c \<in> set files"
    and "List.find (\<lambda>f. cf_code f = SOURCE_LANGUAGE) files = Some src"
    and "b \<in> set (snd (classify cats (cf_data src) SOURCE_LANGUAGE))"
    and "count_of vs = Some n" and "plural_category i (cf_code c) n \<in> set (cats (cf_code c))"
  shows "\<exists>m. readString (cf_data c) (plural_key b (plural_category i (cf_code c) n)) = Some m \<and>
           translate (new_translator i reg (cf_code c)) b vs = interpolate m vs"
proof -
  from assms(1) have ok: "fst (checkCatalogs cats files) = []" and reg: "reg = registry_entries files"
    by (simp_all add: strict_registry)
  have "readString (cf_data c) (plural_key b (plural_category i (cf_code c) n)) \<noteq> None"
    using accepted_catalog_complete [OF ok assms(3,2,4)] assms(5,7) by (auto simp: set_required_keys)
  then show ?thesis
    using translate_own_plural [OF _ assms(6)] generated_translator [OF assms(2,3)] reg by fastforce
qed

definition sample_catalog :: "string \<Rightarrow> string \<Rightarrow> catalog" where
  "sample_catalog code text =
     [(META_KEY, JObj [(''code'', JStr code), (''endonym'', JStr text), (''dir'', JStr ''ltr'')]),
      (''hello'', JStr text), (''n.one'', JStr ''1''), (''n.other'', JStr text)]"

definition sample_files :: "cat_file list" where
  "sample_files =
     [\<lparr>cf_code = ''de'', cf_name = ''de.json'', cf_data = sample_catalog ''de'' ''Hallo''\<rparr>,
      \<lparr>cf_code = ''en'', cf_name = ''en.json'', cf_data = sample_catalog ''en'' ''Hi''\<rparr>]"

definition two_categories :: "string \<Rightarrow> string list" where
  "two_categories code = [''one'', ''other'']"

lemma sample_accepted:
  "generateRegistry two_categories True sample_files = Inr (registry_entries sample_files)"
proof -
  have "fst (checkCatalogs two_categories sample_files) = []" by code_simp
  then show ?thesis by (simp add: strict_registry)
qed

lemma sample_facts:
  "distinct (map cf_code sample_files)"
  "hd sample_files \<in> set sample_files"
  "List.find (\<lambda>f. cf_code f = SOURCE_LANGUAGE) sample_files = Some (last sample_files)"
  "fst (classify two_categories (cf_data (last sample_files)) SOURCE_LANGUAGE) = [''hello'']"
  "snd (classify two_categories (cf_data (last sample_files)) SOURCE_LANGUAGE) = [''n'']"
  by code_simp+

theorem build_translates_every_message_witness:
  "\<forall>i. \<exists>m. readString (cf_data (hd sample_files)) ''hello'' = Some m \<and>
     translate (new_translator i (registry_entries sample_files) (cf_code (hd sample_files))) ''hello'' []
       = interpolate m []"
  using build_translates_every_message [OF sample_accepted sample_facts(1-3), of "''hello''" "[]"]
  by (simp add: sample_facts(4) count_of_def del: classify_simps)

theorem build_translates_every_plural_witness:
  "\<exists>m. readString (cf_data (hd sample_files)) (plural_key ''n'' ''one'') = Some m \<and>
     translate (new_translator sample_intl
         (registry_entries sample_files) (cf_code (hd sample_files)))
       ''n'' [(''count'', PNum 1)] = interpolate m [(''count'', PNum 1)]"
  using build_translates_every_plural [OF sample_accepted sample_facts(1-3), of "''n''"
      "[(''count'', PNum 1)]" 1 sample_intl]
  by (simp add: sample_facts(5) count_of_def two_categories_def del: classify_simps)

end
