(* ===== verification/Effects.thy ===== *)
theory Effects
  imports Types
begin

text \<open>
  Errors, requests and the actions of the application. An action is a function of a world: the
  trace of everything it has done to the outside, and the local state of the page it belongs to.
  It ends with a value or with what it threw. The server, the person answering a question and the
  clock are arguments of the actions that consult them; a server is a function of the trace so
  far and the call, so it may answer anything at any time.
\<close>

section \<open>What can be thrown\<close>

record api_error =
  ae_code :: int
  ae_status :: nat
  ae_message :: string
  ae_field :: "string option"
  ae_request_id :: string

text \<open>
  An \<open>ApiError\<close>, the two errors of the standard library the code can run into, a request that was
  aborted, reading a member of something undefined, and a body that is not JSON.
\<close>

datatype js_error =
    ApiFailure api_error
  | UriError
  | RangeError
  | AbortError
  | TypeError
  | SyntaxError

section \<open>What is done to the outside\<close>

datatype http_call = Call (call_method: string) (call_path: string) (call_body: "json option")

datatype effect =
    Sent http_call
  | Navigated string
  | Asked string
  | Copied string
  | Told string string

record 'l world =
  trace :: "effect list"
  local :: 'l

type_synonym ('l, 'a) act = "'l world \<Rightarrow> (js_error + 'a) \<times> 'l world"
type_synonym 'a server = "effect list \<Rightarrow> http_call \<Rightarrow> js_error + 'a"

definition ret :: "'a \<Rightarrow> ('l, 'a) act" where
  "ret x w = (Inr x, w)"

definition raise :: "js_error \<Rightarrow> ('l, 'a) act" where
  "raise e w = (Inl e, w)"

definition bind :: "('l, 'a) act \<Rightarrow> ('a \<Rightarrow> ('l, 'b) act) \<Rightarrow> ('l, 'b) act" where
  "bind m f w = (case m w of (Inl e, w') \<Rightarrow> (Inl e, w') | (Inr x, w') \<Rightarrow> f x w')"

definition andthen :: "('l, 'a) act \<Rightarrow> ('l, 'b) act \<Rightarrow> ('l, 'b) act" where
  "andthen m n = bind m (\<lambda>_. n)"

definition try_catch :: "('l, 'a) act \<Rightarrow> (js_error \<Rightarrow> ('l, 'a) act) \<Rightarrow> ('l, 'a) act" where
  "try_catch m h w = (case m w of (Inl e, w') \<Rightarrow> h e w' | (Inr x, w') \<Rightarrow> (Inr x, w'))"

text \<open>\<open>try { m } finally { n }\<close> where \<open>n\<close> does not throw.\<close>

definition finally_do :: "('l, 'a) act \<Rightarrow> ('l world \<Rightarrow> 'l world) \<Rightarrow> ('l, 'a) act" where
  "finally_do m n w = (case m w of (r, w') \<Rightarrow> (r, n w'))"

definition emit :: "effect \<Rightarrow> ('l, unit) act" where
  "emit e w = (Inr (), w\<lparr>trace := trace w @ [e]\<rparr>)"

definition gets :: "('l \<Rightarrow> 'a) \<Rightarrow> ('l, 'a) act" where
  "gets f w = (Inr (f (local w)), w)"

definition modify :: "('l \<Rightarrow> 'l) \<Rightarrow> ('l, unit) act" where
  "modify f w = (Inr (), w\<lparr>local := f (local w)\<rparr>)"

text \<open>A request: recorded, and answered by the server.\<close>

definition call :: "'a server \<Rightarrow> http_call \<Rightarrow> ('l, 'a) act" where
  "call srv c w = (srv (trace w) c, w\<lparr>trace := trace w @ [Sent c]\<rparr>)"

text \<open>\<open>await Promise.all(...)\<close> of two requests: both are sent, and the first failure is thrown.\<close>

definition both :: "('l, 'a) act \<Rightarrow> ('l, 'b) act \<Rightarrow> ('l, 'a \<times> 'b) act" where
  "both m n w =
     (case m w of (r, w') \<Rightarrow>
       case n w' of (s, w'') \<Rightarrow>
         (case r of
            Inl e \<Rightarrow> Inl e
          | Inr x \<Rightarrow> (case s of Inl e \<Rightarrow> Inl e | Inr y \<Rightarrow> Inr (x, y)), w''))"

text \<open>\<open>confirm(question)\<close>: what the person answers is a function of what happened so far.\<close>

definition ask :: "(effect list \<Rightarrow> string \<Rightarrow> bool) \<Rightarrow> string \<Rightarrow> ('l, bool) act" where
  "ask person question w = (Inr (person (trace w) question), w\<lparr>trace := trace w @ [Asked question]\<rparr>)"

definition new_world :: "'l \<Rightarrow> 'l world" where
  "new_world l = \<lparr>trace = [], local = l\<rparr>"

lemma ret_run [act_simps]: "ret x w = (Inr x, w)"
  by (simp add: ret_def)

lemma raise_run [act_simps]: "raise e w = (Inl e, w)"
  by (simp add: raise_def)

lemma emit_run [act_simps]: "emit e w = (Inr (), w\<lparr>trace := trace w @ [e]\<rparr>)"
  by (simp add: emit_def)

lemma gets_run [act_simps]: "gets f w = (Inr (f (local w)), w)"
  by (simp add: gets_def)

lemma modify_run [act_simps]: "modify f w = (Inr (), w\<lparr>local := f (local w)\<rparr>)"
  by (simp add: modify_def)

lemma call_run [act_simps]: "call srv c w = (srv (trace w) c, w\<lparr>trace := trace w @ [Sent c]\<rparr>)"
  by (simp add: call_def)

lemma ask_run [act_simps]:
  "ask person q w = (Inr (person (trace w) q), w\<lparr>trace := trace w @ [Asked q]\<rparr>)"
  by (simp add: ask_def)

lemma bind_run [act_simps]:
  "bind m f w = (case m w of (Inl e, w') \<Rightarrow> (Inl e, w') | (Inr x, w') \<Rightarrow> f x w')"
  by (simp add: bind_def)

lemma andthen_run [act_simps]:
  "andthen m n w = (case m w of (Inl e, w') \<Rightarrow> (Inl e, w') | (Inr x, w') \<Rightarrow> n w')"
  by (simp add: andthen_def bind_def)

lemma try_catch_run [act_simps]:
  "try_catch m h w = (case m w of (Inl e, w') \<Rightarrow> h e w' | (Inr x, w') \<Rightarrow> (Inr x, w'))"
  by (simp add: try_catch_def)

lemma finally_run [act_simps]: "finally_do m n w = (case m w of (r, w') \<Rightarrow> (r, n w'))"
  by (simp add: finally_do_def)

lemma both_run [act_simps]:
  "both m n w =
     (case m w of (r, w') \<Rightarrow>
       case n w' of (s, w'') \<Rightarrow>
         (case r of
            Inl e \<Rightarrow> Inl e
          | Inr x \<Rightarrow> (case s of Inl e \<Rightarrow> Inl e | Inr y \<Rightarrow> Inr (x, y)), w''))"
  by (simp add: both_def)

text \<open>An action that only adds to the trace, whatever the world it starts in.\<close>

definition extends :: "('l, 'a) act \<Rightarrow> bool" where
  "extends m \<longleftrightarrow> (\<forall>w. \<exists>es. trace (snd (m w)) = trace w @ es)"

lemma extendsI: "(\<And>w. \<exists>es. trace (snd (m w)) = trace w @ es) \<Longrightarrow> extends m"
  by (simp add: extends_def)

lemma extendsD: "extends m \<Longrightarrow> m w = (r, w') \<Longrightarrow> \<exists>es. trace w' = trace w @ es"
  by (metis extends_def snd_conv)

lemma extends_basic [intro, simp]:
  "extends (ret x)" "extends (raise e)" "extends (emit ef)" "extends (gets f)" "extends (modify g)"
  "extends (call srv c)" "extends (ask person q)"
  by (auto simp: extends_def act_simps)

lemma extends_bind [intro]:
  assumes "extends m" and "\<And>x. extends (f x)"
  shows "extends (bind m f)"
proof (rule extendsI)
  fix w
  obtain r w' where m: "m w = (r, w')" by (cases "m w")
  from extendsD [OF assms(1) m] obtain es where es: "trace w' = trace w @ es" ..
  show "\<exists>es. trace (snd (bind m f w)) = trace w @ es"
  proof (cases r)
    case (Inr x)
    obtain s w'' where f: "f x w' = (s, w'')" by (cases "f x w'")
    from extendsD [OF assms(2) f] es m Inr f show ?thesis by (auto simp: act_simps)
  qed (use m es in \<open>auto simp: act_simps\<close>)
qed

lemma extends_andthen [intro]: "extends m \<Longrightarrow> extends n \<Longrightarrow> extends (andthen m n)"
  by (auto simp: andthen_def)

text \<open>The effects an action adds to a world.\<close>

definition adds :: "('l, 'a) act \<Rightarrow> 'l world \<Rightarrow> effect list" where
  "adds m w = drop (length (trace w)) (trace (snd (m w)))"

end
