(* ===== verification/Uri.thy ===== *)
theory Uri
  imports Prelude
begin

text \<open>
  Percent-encoding as the frontend relies on it: \<open>encodeURIComponent\<close> and
  \<open>decodeURIComponent\<close> of ECMAScript, and reading one parameter of a query string. On the
  UTF-8 bytes of a string the encoder works byte by byte; the decoder reads escapes as UTF-8
  and throws a URIError (here \<open>None\<close>) on a malformed escape or on escaped bytes that are not
  UTF-8.
\<close>

section \<open>UTF-8\<close>

definition continuation :: "char \<Rightarrow> bool" where
  "continuation c \<longleftrightarrow> 128 \<le> byte c \<and> byte c < 192"

definition ascii :: "char \<Rightarrow> bool" where
  "ascii c \<longleftrightarrow> byte c < 128"

text \<open>Whether a string begins with a character of two, three or four bytes.\<close>

definition two_bytes :: "string \<Rightarrow> bool" where
  "two_bytes s = (case s of
     a # b # _ \<Rightarrow> 194 \<le> byte a \<and> byte a < 224 \<and> continuation b
   | _ \<Rightarrow> False)"

definition three_bytes :: "string \<Rightarrow> bool" where
  "three_bytes s = (case s of
     a # b # c # _ \<Rightarrow> 224 \<le> byte a \<and> byte a < 240 \<and> continuation b \<and> continuation c
       \<and> (if byte a = 224 then 160 \<le> byte b else True)
       \<and> (if byte a = 237 then byte b < 160 else True)
   | _ \<Rightarrow> False)"

definition four_bytes :: "string \<Rightarrow> bool" where
  "four_bytes s = (case s of
     a # b # c # d # _ \<Rightarrow> 240 \<le> byte a \<and> byte a < 245
       \<and> continuation b \<and> continuation c \<and> continuation d
       \<and> (if byte a = 240 then 144 \<le> byte b else True)
       \<and> (if byte a = 244 then byte b < 144 else True)
   | _ \<Rightarrow> False)"

text \<open>How many bytes the first character of a string has; 0 when there is none.\<close>

definition char_bytes :: "string \<Rightarrow> nat" where
  "char_bytes s =
     (case s of
        [] \<Rightarrow> 0
      | a # _ \<Rightarrow>
          if ascii a then 1
          else if two_bytes s then 2
          else if three_bytes s then 3
          else if four_bytes s then 4
          else 0)"

lemma char_bytes_le: "char_bytes s \<le> length s"
  by (auto simp: char_bytes_def two_bytes_def three_bytes_def four_bytes_def split: list.splits)

text \<open>
  The characters of a string: each character's bytes together. \<open>None\<close> when the bytes are not
  the UTF-8 encoding of anything.
\<close>

function utf8_chars :: "string \<Rightarrow> string list option" where
  "utf8_chars s =
     (if s = [] then Some []
      else if char_bytes s = 0 then None
      else map_option ((#) (take (char_bytes s) s)) (utf8_chars (drop (char_bytes s) s)))"
  by pat_completeness auto
termination
  by (relation "measure length") auto

declare utf8_chars.simps [simp del]

definition valid_utf8 :: "string \<Rightarrow> bool" where
  "valid_utf8 s \<longleftrightarrow> utf8_chars s \<noteq> None"

lemma utf8_chars_Nil [simp]: "utf8_chars [] = Some []"
  by (simp add: utf8_chars.simps)

lemma utf8_chars_ascii [simp]: "ascii a \<Longrightarrow> utf8_chars (a # s) = map_option ((#) [a]) (utf8_chars s)"
  by (subst utf8_chars.simps) (simp add: char_bytes_def)

lemma utf8_chars_concat: "utf8_chars s = Some cs \<Longrightarrow> concat cs = s"
proof (induction s arbitrary: cs rule: utf8_chars.induct)
  case (1 s)
  show ?case
  proof (cases "s = [] \<or> char_bytes s = 0")
    case True
    with "1.prems" show ?thesis by (auto simp: utf8_chars.simps [of s] split: if_splits)
  next
    case False
    with "1.prems" obtain r where r: "utf8_chars (drop (char_bytes s) s) = Some r"
      and cs: "cs = take (char_bytes s) s # r"
      by (auto simp: utf8_chars.simps [of s])
    from "1.IH" False r have "concat r = drop (char_bytes s) s" by simp
    with cs show ?thesis by simp
  qed
qed

lemma valid_utf8_ascii: "list_all ascii s \<Longrightarrow> valid_utf8 s"
proof (induction s)
  case (Cons a s)
  then show ?case by (auto simp: valid_utf8_def)
qed (simp add: valid_utf8_def)

text \<open>\<open>s.slice(0, n)\<close> on text of the basic plane, where a character is one code unit.\<close>

definition take_chars :: "nat \<Rightarrow> string \<Rightarrow> string" where
  "take_chars n s = (case utf8_chars s of None \<Rightarrow> take n s | Some cs \<Rightarrow> concat (take n cs))"

section \<open>encodeURIComponent\<close>

definition hex_digit :: "nat \<Rightarrow> char" where
  "hex_digit n = (if n < 10 then char_of (48 + n) else char_of (55 + n))"

definition unreserved :: "char \<Rightarrow> bool" where
  "unreserved c \<longleftrightarrow>
     (48 \<le> byte c \<and> byte c \<le> 57) \<or> (65 \<le> byte c \<and> byte c \<le> 90) \<or> (97 \<le> byte c \<and> byte c \<le> 122)
     \<or> c \<in> set ''-_.!~*'' \<or> byte c = 39 \<or> byte c = 40 \<or> byte c = 41"

definition escape :: "char \<Rightarrow> string" where
  "escape c = [CHR ''%'', hex_digit (byte c div 16), hex_digit (byte c mod 16)]"

fun encodeURIComponent :: "string \<Rightarrow> string" where
  "encodeURIComponent [] = []"
| "encodeURIComponent (c # s) =
     (if unreserved c then [c] else escape c) @ encodeURIComponent s"

section \<open>decodeURIComponent\<close>

definition hex_val :: "char \<Rightarrow> nat option" where
  "hex_val c =
     (if 48 \<le> byte c \<and> byte c \<le> 57 then Some (byte c - 48)
      else if 65 \<le> byte c \<and> byte c \<le> 70 then Some (byte c - 55)
      else if 97 \<le> byte c \<and> byte c \<le> 102 then Some (byte c - 87)
      else None)"

text \<open>First the escapes are read: each byte with whether it came from one.\<close>

fun unescape :: "string \<Rightarrow> (bool \<times> char) list option" where
  "unescape [] = Some []"
| "unescape (c # s) =
     (if c = CHR ''%'' then
        (case s of
           h # l # r \<Rightarrow>
             (case (hex_val h, hex_val l) of
                (Some x, Some y) \<Rightarrow> map_option ((#) (True, char_of (16 * x + y))) (unescape r)
              | _ \<Rightarrow> None)
         | _ \<Rightarrow> None)
      else map_option ((#) (False, c)) (unescape s))"

text \<open>Then escaped bytes outside ASCII have to form complete UTF-8 characters.\<close>

function assemble :: "(bool \<times> char) list \<Rightarrow> string option" where
  "assemble ts =
     (if ts = [] then Some []
      else let n = (if fst (hd ts) then char_bytes (map snd (takeWhile fst ts)) else 1)
           in if n = 0 then None
              else map_option ((@) (map snd (take n ts))) (assemble (drop n ts)))"
  by pat_completeness auto
termination
  by (relation "measure length") (auto simp: Let_def)

declare assemble.simps [simp del]

definition decodeURIComponent :: "string \<Rightarrow> string option" where
  "decodeURIComponent s = Option.bind (unescape s) assemble"

section \<open>The round trip\<close>

lemma hex_parts: "byte c div 16 < 16" "byte c mod 16 < 16"
proof -
  have "byte c < 256" by simp
  then show "byte c div 16 < 16" by (simp add: div_less_iff_less_mult)
qed simp

lemma hex_val_digit [simp]: "n < 16 \<Longrightarrow> hex_val (hex_digit n) = Some n"
  by (auto simp: hex_val_def hex_digit_def)

lemma unreserved_props:
  assumes "unreserved c"
  shows "c \<noteq> CHR ''%''" and "ascii c"
  using assms by (auto simp: unreserved_def ascii_def)

definition mark :: "char \<Rightarrow> bool \<times> char" where
  "mark c = (\<not> unreserved c, c)"

lemma unescape_encode: "unescape (encodeURIComponent s) = Some (map mark s)"
proof (induction s)
  case (Cons c s)
  note lt = hex_parts [of c]
  have again: "char_of (16 * (byte c div 16) + byte c mod 16) = c" by simp
  show ?case
  proof (cases "unreserved c")
    case True
    with Cons unreserved_props(1) [OF True] show ?thesis by (simp add: mark_def)
  next
    case False
    with Cons lt again show ?thesis by (simp add: escape_def mark_def)
  qed
qed simp

lemma marked_run: "map snd (takeWhile fst (map mark s)) = takeWhile (\<lambda>c. \<not> unreserved c) s"
  by (induction s) (auto simp: mark_def)

lemma not_ascii_run:
  assumes "\<not> ascii a"
  shows "char_bytes (takeWhile (\<lambda>c. \<not> unreserved c) (a # s)) = char_bytes (a # s)"
proof -
  have skip: "\<not> unreserved x" if "\<not> ascii x" for x
    using that unreserved_props(2) by blast
  have cont: "\<not> unreserved x" if "continuation x" for x
    using that by (intro skip) (simp add: continuation_def ascii_def)
  show ?thesis
    using assms
    by (auto simp: char_bytes_def two_bytes_def three_bytes_def four_bytes_def skip cont
        split: list.splits if_splits)
qed

lemma assemble_mark: "utf8_chars s \<noteq> None \<Longrightarrow> assemble (map mark s) = Some s"
proof (induction s rule: utf8_chars.induct)
  case (1 s)
  show ?case
  proof (cases s)
    case Nil
    then show ?thesis by (simp add: assemble.simps)
  next
    case (Cons a r)
    let ?n = "char_bytes s"
    from Cons have "s \<noteq> []" by simp
    with "1.prems" have n: "?n \<noteq> 0" and rest: "utf8_chars (drop ?n s) \<noteq> None"
      by (simp_all add: utf8_chars.simps [of s] split: if_splits)
    have "(if fst (mark a) then char_bytes (map snd (takeWhile fst (map mark s))) else 1) = ?n"
    proof (cases "ascii a")
      case True
      then show ?thesis
        using Cons by (simp add: mark_def char_bytes_def marked_run)
    next
      case False
      then show ?thesis
        using Cons not_ascii_run [OF False, of r] unreserved_props(2) [of a]
        by (auto simp: mark_def marked_run)
    qed
    moreover have "fst (hd (map mark s)) = fst (mark a)" and "map mark s \<noteq> []"
      using Cons by simp_all
    moreover have "map snd (take ?n (map mark s)) = take ?n s"
      by (simp add: take_map o_def mark_def)
    ultimately have "assemble (map mark s) = map_option ((@) (take ?n s)) (assemble (map mark (drop ?n s)))"
      using n by (simp only: assemble.simps [of "map mark s"] Let_def drop_map if_False)
    also have "assemble (map mark (drop ?n s)) = Some (drop ?n s)"
      using "1.IH" Cons n rest by simp
    finally show ?thesis by simp
  qed
qed

lemma decode_encode:
  "valid_utf8 s \<Longrightarrow> decodeURIComponent (encodeURIComponent s) = Some s"
  by (simp add: decodeURIComponent_def unescape_encode assemble_mark valid_utf8_def)

text \<open>What an encoded component never contains.\<close>

lemma hex_digit_props: "n < 16 \<Longrightarrow> is_digit (hex_digit n) \<or> (65 \<le> byte (hex_digit n) \<and> byte (hex_digit n) \<le> 70)"
  by (auto simp: hex_digit_def is_digit_def)

lemma encode_set:
  "c \<in> set (encodeURIComponent s) \<Longrightarrow> unreserved c \<or> c = CHR ''%''"
proof (induction s)
  case (Cons x s)
  have "unreserved (hex_digit (byte x div 16))" "unreserved (hex_digit (byte x mod 16))"
    using hex_digit_props [OF hex_parts(1) [of x]] hex_digit_props [OF hex_parts(2) [of x]]
    by (auto simp: unreserved_def is_digit_def)
  with Cons show ?case by (auto simp: escape_def split: if_splits)
qed simp

lemma encode_no_separator:
  assumes "\<not> unreserved c" and "c \<noteq> CHR ''%''"
  shows "c \<notin> set (encodeURIComponent s)"
  using assms encode_set by blast

lemma encode_empty [simp]: "encodeURIComponent s = [] \<longleftrightarrow> s = []"
  by (cases s) (auto simp: escape_def)

lemma encode_ascii: "list_all ascii (encodeURIComponent s)"
  using encode_set unreserved_props(2) by (fastforce simp: list_all_iff ascii_def)

section \<open>Query strings\<close>

text \<open>
  \<open>new URLSearchParams(q).get(name)\<close>: pairs separated by an ampersand, the first of that name,
  plus signs standing for spaces, and escapes decoded; a malformed escape is kept as written.
\<close>

fun query_unescape :: "string \<Rightarrow> string" where
  "query_unescape [] = []"
| "query_unescape (c # s) =
     (if c = CHR ''+'' then CHR '' '' # query_unescape s
      else if c = CHR ''%'' then
        (case s of
           h # l # r \<Rightarrow>
             (case (hex_val h, hex_val l) of
                (Some x, Some y) \<Rightarrow> char_of (16 * x + y) # query_unescape r
              | _ \<Rightarrow> c # query_unescape s)
         | _ \<Rightarrow> c # query_unescape s)
      else c # query_unescape s)"

definition query_pair :: "string \<Rightarrow> string \<times> string" where
  "query_pair part =
     (case index_of (CHR ''='') part of
        None \<Rightarrow> (query_unescape part, [])
      | Some i \<Rightarrow> (query_unescape (take i part), query_unescape (drop (Suc i) part)))"

definition query_pairs :: "string \<Rightarrow> (string \<times> string) list" where
  "query_pairs q = map query_pair (filter (\<lambda>p. p \<noteq> []) (split_on (CHR ''&'') q))"

definition query_get :: "string \<Rightarrow> string \<Rightarrow> string option" where
  "query_get q name = map_of (query_pairs q) name"

lemma query_unescape_encode: "query_unescape (encodeURIComponent s) = s"
proof (induction s)
  case (Cons c s)
  note lt = hex_parts [of c]
  have plus: "unreserved c \<Longrightarrow> c \<noteq> CHR ''+''" by (auto simp: unreserved_def)
  show ?case
  proof (cases "unreserved c")
    case True
    with Cons unreserved_props(1) [OF True] plus show ?thesis by simp
  next
    case False
    with Cons lt show ?thesis by (simp add: escape_def)
  qed
qed simp

lemma query_get_single:
  assumes "name \<noteq> []" and "list_all unreserved name"
  shows "query_get (name @ CHR ''='' # encodeURIComponent v) name = Some v"
proof -
  let ?part = "name @ CHR ''='' # encodeURIComponent v"
  have amp: "CHR ''&'' \<notin> set ?part"
    using assms(2) encode_no_separator [of "CHR ''&''" v] by (auto simp: list_all_iff unreserved_def)
  have eq: "CHR ''='' \<notin> set name" using assms(2) by (auto simp: list_all_iff unreserved_def)
  have plain: "encodeURIComponent name = name"
    using assms(2) by (induction name) auto
  have name: "query_unescape name = name"
    using query_unescape_encode [of name] plain by simp
  have "query_pairs ?part = [(name, v)]"
    using assms(1) amp eq name
    by (simp add: query_pairs_def split_on_no_sep query_pair_def index_of_append query_unescape_encode)
  then show ?thesis by (simp add: query_get_def)
qed

end
