(* ===== verification/Router.thy ===== *)
theory Router
  imports Effects Uri
begin

text \<open>
  The client-side router (\<open>src/router.ts\<close>). First the matching of a path against a pattern, then
  the router as a machine. Its events are what can happen in any order: a navigation, a step in
  the history, a refresh, a page registering a cleanup, the build of a page ending well or badly,
  and the router being stopped. A cleanup is a number; the list a render collects is an array the
  router may later own, so the lists are kept by the ticket of their render and owning one is
  owning its ticket.
\<close>

section \<open>Matching\<close>

definition segments :: "string \<Rightarrow> string list" where
  "segments path = filter (\<lambda>p. p \<noteq> []) (split_on (CHR ''/'') path)"

type_synonym params = "(string \<times> string) list"

fun match_parts :: "string list \<Rightarrow> string list \<Rightarrow> params \<Rightarrow> js_error + params option" where
  "match_parts [] vs ps = Inr (Some ps)"
| "match_parts (part # parts) vs ps =
     (let v = (case vs of [] \<Rightarrow> [] | x # _ \<Rightarrow> x)
      in if starts_with part '':'' then
           (if v = [] then Inr None
            else case decodeURIComponent v of
                   None \<Rightarrow> Inl UriError
                 | Some x \<Rightarrow> match_parts parts (drop 1 vs) (AList.update (drop 1 part) x ps))
         else if part \<noteq> v then Inr None
         else match_parts parts (drop 1 vs) ps)"

definition matchPath :: "string \<Rightarrow> string \<Rightarrow> js_error + params option" where
  "matchPath pattern path =
     (let expected = segments pattern; actual = segments path
      in if length expected \<noteq> length actual then Inr None else match_parts expected actual [])"

record 'p route =
  rt_pattern :: string
  rt_page :: 'p

text \<open>The route a path leads to, with \<open>None\<close> for the page that says there is none.\<close>

fun find_route :: "'p route list \<Rightarrow> string \<Rightarrow> js_error + (params \<times> 'p) option" where
  "find_route [] path = Inr None"
| "find_route (r # rs) path =
     (case matchPath (rt_pattern r) path of
        Inl e \<Rightarrow> Inl e
      | Inr (Some ps) \<Rightarrow> Inr (Some (ps, rt_page r))
      | Inr None \<Rightarrow> find_route rs path)"

text \<open>A path built from a pattern, the way the links of the application are built.\<close>

definition part_for :: "(string \<Rightarrow> string) \<Rightarrow> string \<Rightarrow> string" where
  "part_for v part = (if starts_with part '':'' then encodeURIComponent (v (drop 1 part)) else part)"

definition path_for :: "string list \<Rightarrow> (string \<Rightarrow> string) \<Rightarrow> string" where
  "path_for parts v = concat (map (\<lambda>p. CHR ''/'' # part_for v p) parts)"

lemma segments_concat:
  "list_all (\<lambda>p. p \<noteq> [] \<and> CHR ''/'' \<notin> set p) ps \<Longrightarrow>
   segments (concat (map (\<lambda>p. CHR ''/'' # p) ps)) = ps"
proof (induction ps)
  case (Cons p ps)
  have "split_on (CHR ''/'') (p @ concat (map (\<lambda>p. CHR ''/'' # p) ps))
      = p # (case ps of [] \<Rightarrow> [] | _ \<Rightarrow> tl (split_on (CHR ''/'') (concat (map (\<lambda>p. CHR ''/'' # p) ps))))"
    using Cons.prems split_on_append_sep [of "CHR ''/''" p]
    by (cases ps) (auto simp: split_on_no_sep)
  with Cons show ?case by (cases ps) (auto simp: segments_def)
qed (simp add: segments_def)

lemma match_parts_filled:
  assumes "list_all (\<lambda>p. starts_with p '':'' \<longrightarrow> v (drop 1 p) \<noteq> [] \<and> valid_utf8 (v (drop 1 p))) parts"
  shows "\<exists>m. match_parts parts (map (part_for v) parts) ps = Inr (Some m)
    \<and> (\<forall>n. map_of m n = (if CHR '':'' # n \<in> set parts then Some (v n) else map_of ps n))"
  using assms
proof (induction parts arbitrary: ps)
  case (Cons p parts)
  show ?case
  proof (cases "starts_with p '':''")
    case True
    then obtain n where n: "p = CHR '':'' # n" by (auto simp: starts_with_prefix prefix_def)
    with Cons.prems have v: "v n \<noteq> []" "decodeURIComponent (encodeURIComponent (v n)) = Some (v n)"
      by (auto intro: decode_encode)
    from Cons.IH [of "AList.update n (v n) ps"] Cons.prems n v show ?thesis
      by (auto simp: part_for_def update_conv)
  next
    case False
    then have "p \<noteq> CHR '':'' # n" for n by auto
    with Cons.IH [of ps] Cons.prems False show ?thesis
      by (auto simp: part_for_def)
  qed
qed simp

text \<open>
  A link reaches its page with the values it was built from: whatever the parameters hold, a
  slash, a percent sign or a letter outside ASCII, the pattern matches and hands each one out as
  it was.
\<close>

theorem link_reaches_page:
  assumes "list_all (\<lambda>p. p \<noteq> [] \<and> CHR ''/'' \<notin> set p) parts"
    and "list_all (\<lambda>p. starts_with p '':'' \<longrightarrow> v (drop 1 p) \<noteq> [] \<and> valid_utf8 (v (drop 1 p))) parts"
    and "segments pattern = parts"
  shows "\<exists>m. matchPath pattern (path_for parts v) = Inr (Some m)
    \<and> (\<forall>n. map_of m n = (if CHR '':'' # n \<in> set parts then Some (v n) else None))"
proof -
  have "list_all (\<lambda>p. p \<noteq> [] \<and> CHR ''/'' \<notin> set p) (map (part_for v) parts)"
    using assms(1,2) encode_no_separator [of "CHR ''/''"]
    by (auto simp: list_all_iff part_for_def unreserved_def is_digit_def)
  from segments_concat [OF this] have "segments (path_for parts v) = map (part_for v) parts"
    by (simp add: path_for_def comp_def)
  moreover obtain m where "match_parts parts (map (part_for v) parts) [] = Inr (Some m)"
    "\<forall>n. map_of m n = (if CHR '':'' # n \<in> set parts then Some (v n) else None)"
    using match_parts_filled [OF assms(2), of "[]"] by auto
  ultimately show ?thesis using assms(3) by (simp add: matchPath_def)
qed

theorem link_reaches_page_witness:
  "\<exists>m. matchPath ''/order/:id/summary'' (path_for [''order'', '':id'', ''summary''] (\<lambda>_. ''a/b c'')) = Inr (Some m)
    \<and> (\<forall>n. map_of m n = (if CHR '':'' # n \<in> set [''order'', '':id'', ''summary''] then Some ''a/b c'' else None))"
  by (rule link_reaches_page) code_simp+

text \<open>
  A path with a percent sign that begins no escape makes the matching throw, so the render is
  rejected and not even the page for unknown paths is shown.
\<close>

lemma malformed_path_throws:
  "find_route [\<lparr>rt_pattern = ''/order/:id'', rt_page = ()\<rparr>] ''/order/100%'' = Inl UriError"
  by code_simp

section \<open>The router\<close>

record ('p, 'n) router =
  mounted :: bool
  routes :: "'p route list"
  ticket :: nat
  pathname :: string
  search :: string
  history_len :: nat
  building :: "(nat \<times> bool \<times> (params \<times> 'p) option) list"
  collected :: "nat \<Rightarrow> nat list"
  cleanups :: "nat option"
  outlet :: "(nat \<times> 'n) option"
  focus_moves :: "nat list"
  next_cleanup :: nat
  ran :: "nat list"
  finished :: "nat list"
  failed :: "nat list"
  late :: "nat list"

definition new_router :: "'p route list \<Rightarrow> string \<Rightarrow> string \<Rightarrow> ('p, 'n) router" where
  "new_router rs path q =
     \<lparr>mounted = False, routes = rs, ticket = 0, pathname = path, search = q, history_len = 1,
      building = [], collected = (\<lambda>_. []), cleanups = None, outlet = None, focus_moves = [],
      next_cleanup = 0, ran = [], finished = [], failed = [], late = []\<rparr>"

definition mount :: "('p, 'n) router \<Rightarrow> ('p, 'n) router" where
  "mount s = s\<lparr>mounted := True\<rparr>"

text \<open>\<open>Router.run\<close> on the list of a ticket: every cleanup in it runs, and the list is emptied.\<close>

definition run_cleanups :: "nat \<Rightarrow> ('p, 'n) router \<Rightarrow> ('p, 'n) router" where
  "run_cleanups t s = s\<lparr>ran := ran s @ collected s t, collected := (collected s)(t := [])\<rparr>"

text \<open>
  The part of \<open>render\<close> before the page is awaited. The ticket is taken first, so a path whose
  matching throws still overtakes the renders before it.
\<close>

definition render_start :: "bool \<Rightarrow> ('p, 'n) router \<Rightarrow> ('p, 'n) router" where
  "render_start moveFocus s =
     (if \<not> mounted s then s
      else let mine = ticket s + 1; s' = s\<lparr>ticket := mine\<rparr>
           in case find_route (routes s) (pathname s) of
                Inl e \<Rightarrow> s'\<lparr>failed := failed s @ [mine]\<rparr>
              | Inr r \<Rightarrow> s'\<lparr>building := building s @ [(mine, moveFocus, r)]\<rparr>)"

text \<open>The part after: the page is there.\<close>

definition render_finish :: "nat \<Rightarrow> 'n \<Rightarrow> ('p, 'n) router \<Rightarrow> ('p, 'n) router" where
  "render_finish mine page s =
     (case map_of (building s) mine of
        None \<Rightarrow> s
      | Some (moveFocus, _) \<Rightarrow>
          let s1 = s\<lparr>building := AList.delete mine (building s), finished := finished s @ [mine]\<rparr>
          in if mine \<noteq> ticket s then run_cleanups mine s1
             else let s2 = (case cleanups s of None \<Rightarrow> s1 | Some old \<Rightarrow> run_cleanups old s1)
                  in s2\<lparr>cleanups := Some mine, outlet := Some (mine, page),
                        focus_moves := (if moveFocus then focus_moves s @ [mine] else focus_moves s)\<rparr>)"

text \<open>The build of a page that throws: nothing after the await happens.\<close>

definition render_fail :: "nat \<Rightarrow> ('p, 'n) router \<Rightarrow> ('p, 'n) router" where
  "render_fail mine s =
     (case map_of (building s) mine of
        None \<Rightarrow> s
      | Some _ \<Rightarrow> s\<lparr>building := AList.delete mine (building s), failed := failed s @ [mine]\<rparr>)"

text \<open>\<open>context.onCleanup\<close> of the render with this ticket.\<close>

definition onCleanup :: "nat \<Rightarrow> ('p, 'n) router \<Rightarrow> ('p, 'n) router" where
  "onCleanup t s =
     (if t = 0 \<or> ticket s < t then s
      else s\<lparr>collected := (collected s)(t := collected s t @ [next_cleanup s]),
             next_cleanup := next_cleanup s + 1,
             late := (if map_of (building s) t \<noteq> None \<or> cleanups s = Some t then late s
                      else late s @ [next_cleanup s])\<rparr>)"

definition split_query :: "string \<Rightarrow> string \<times> string" where
  "split_query p = (case index_of (CHR ''?'') p of None \<Rightarrow> (p, []) | Some i \<Rightarrow> (take i p, drop i p))"

definition go_to :: "string \<Rightarrow> ('p, 'n) router \<Rightarrow> ('p, 'n) router" where
  "go_to path s = s\<lparr>pathname := fst (split_query path), search := snd (split_query path)\<rparr>"

definition navigate :: "string \<Rightarrow> bool \<Rightarrow> ('p, 'n) router \<Rightarrow> ('p, 'n) router" where
  "navigate path replacing s =
     (if path = pathname s @ search s then s
      else let s1 = go_to path s;
               s2 = (if replacing then s1 else s1\<lparr>history_len := history_len s1 + 1\<rparr>)
           in render_start True s2)"

definition on_pop_state :: "string \<Rightarrow> ('p, 'n) router \<Rightarrow> ('p, 'n) router" where
  "on_pop_state path s = render_start True (go_to path s)"

definition refresh :: "('p, 'n) router \<Rightarrow> ('p, 'n) router" where
  "refresh s = render_start False s"

definition stop :: "('p, 'n) router \<Rightarrow> ('p, 'n) router" where
  "stop s = (case cleanups s of None \<Rightarrow> s | Some old \<Rightarrow> run_cleanups old s)"

datatype 'n router_event =
    Navigate string bool
  | PopState string
  | Refresh
  | Register nat
  | Finish nat 'n
  | Fail nat
  | Stop

fun router_step :: "'n router_event \<Rightarrow> ('p, 'n) router \<Rightarrow> ('p, 'n) router" where
  "router_step (Navigate path r) s = navigate path r s"
| "router_step (PopState path) s = on_pop_state path s"
| "router_step Refresh s = refresh s"
| "router_step (Register t) s = onCleanup t s"
| "router_step (Finish t n) s = render_finish t n s"
| "router_step (Fail t) s = render_fail t s"
| "router_step Stop s = stop s"

section \<open>Clicks\<close>

text \<open>A link: its attributes, and a click as far as the router looks at it.\<close>

record link =
  ln_target :: string
  ln_download :: bool
  ln_href :: "string option"

record click =
  default_prevented :: bool
  mouse_button :: nat
  modified :: bool
  closest_link :: "link option"

record url =
  url_origin :: string
  url_pathname :: string
  url_search :: string

definition serverPaths :: "string list" where
  "serverPaths = [''/api/'', ''/static/'', ''/tools/'', ''/health'', ''/metrics'']"

text \<open>
  \<open>onClick\<close>: the path to navigate to, or \<open>None\<close> for a click the browser handles. \<open>resolve\<close> is
  \<open>new URL(href, location.href)\<close>.
\<close>

definition onClick :: "(string \<Rightarrow> url) \<Rightarrow> string \<Rightarrow> click \<Rightarrow> string option" where
  "onClick resolve origin event =
     (if default_prevented event \<or> mouse_button event \<noteq> 0 then None
      else if modified event then None
      else case closest_link event of
             None \<Rightarrow> None
           | Some link \<Rightarrow>
               if ln_target link \<noteq> [] \<or> ln_download link then None
               else (case ln_href link of
                       None \<Rightarrow> None
                     | Some href \<Rightarrow>
                         if href = [] \<or> starts_with href ''#'' then None
                         else let u = resolve href
                              in if url_origin u \<noteq> origin then None
                                 else if list_ex (starts_with (url_pathname u)) serverPaths then None
                                 else Some (url_pathname u @ url_search u)))"

section \<open>The newest page wins and nothing is left open\<close>

text \<open>Where a cleanup that was registered and has not run waits.\<close>

definition waiting :: "('p, 'n) router \<Rightarrow> nat \<Rightarrow> nat \<Rightarrow> bool" where
  "waiting s t c \<longleftrightarrow> c \<in> set (collected s t)"

definition tickets_good :: "('p, 'n) router \<Rightarrow> bool" where
  "tickets_good s \<longleftrightarrow>
     distinct (map fst (building s))
     \<and> (\<forall>t \<in> set (map fst (building s)). 0 < t \<and> t \<le> ticket s)
     \<and> (\<forall>t \<in> set (finished s). t \<le> ticket s \<and> t \<notin> set (map fst (building s)))
     \<and> (\<forall>t \<in> set (failed s). t \<le> ticket s \<and> t \<notin> set (map fst (building s)))
     \<and> (\<forall>t \<in> set (finished s). t \<notin> set (failed s))
     \<and> (\<forall>t. cleanups s = Some t \<longrightarrow> t \<in> set (finished s))
     \<and> map_option fst (outlet s) = cleanups s
     \<and> (ticket s \<in> set (finished s) \<longrightarrow> cleanups s = Some (ticket s))"

definition lists_good :: "('p, 'n) router \<Rightarrow> bool" where
  "lists_good s \<longleftrightarrow>
     (\<forall>c. c < next_cleanup s \<longleftrightarrow> c \<in> set (ran s) \<or> (\<exists>t. waiting s t c))
     \<and> distinct (ran s)
     \<and> (\<forall>t. distinct (collected s t) \<and> set (collected s t) \<inter> set (ran s) = {})
     \<and> (\<forall>t u. t \<noteq> u \<longrightarrow> set (collected s t) \<inter> set (collected s u) = {})"

definition homes_good :: "('p, 'n) router \<Rightarrow> bool" where
  "homes_good s \<longleftrightarrow>
     (\<forall>t c. waiting s t c \<longrightarrow>
        t \<in> set (map fst (building s)) \<or> cleanups s = Some t \<or> t \<in> set (failed s) \<or> c \<in> set (late s))"

definition router_good :: "('p, 'n) router \<Rightarrow> bool" where
  "router_good s \<longleftrightarrow> tickets_good s \<and> lists_good s \<and> homes_good s"

lemma map_of_keys: "map_of xs k \<noteq> None \<longleftrightarrow> k \<in> set (map fst xs)"
  by (simp add: map_of_eq_None_iff)

lemma fst_set_delete [simp]: "fst ` set (AList.delete k xs) = fst ` set xs - {k}"
  using arg_cong [OF delete_keys [of k xs], of set] by simp

lemma in_delete: "(k', v) \<in> set (AList.delete k xs) \<Longrightarrow> (k', v) \<in> set xs"
  by (auto simp: AList.delete_eq)

lemma run_cleanups_simps [simp]:
  "building (run_cleanups t s) = building s" "finished (run_cleanups t s) = finished s"
  "failed (run_cleanups t s) = failed s" "ticket (run_cleanups t s) = ticket s"
  "cleanups (run_cleanups t s) = cleanups s" "outlet (run_cleanups t s) = outlet s"
  "late (run_cleanups t s) = late s" "next_cleanup (run_cleanups t s) = next_cleanup s"
  "waiting (run_cleanups t s) u c = (u \<noteq> t \<and> waiting s u c)"
  by (simp_all add: run_cleanups_def waiting_def)

lemma run_cleanups_lists: "lists_good s \<Longrightarrow> lists_good (run_cleanups t s)"
  by (fastforce simp: lists_good_def run_cleanups_def waiting_def)

lemma run_cleanups_tickets: "tickets_good s \<Longrightarrow> tickets_good (run_cleanups t s)"
  by (simp add: tickets_good_def)

lemma run_cleanups_good: "router_good s \<Longrightarrow> router_good (run_cleanups t s)"
  by (auto simp: router_good_def run_cleanups_lists run_cleanups_tickets homes_good_def)

text \<open>A change of the fields that no list depends on.\<close>

lemma lists_good_cong:
  "ran s' = ran s \<Longrightarrow> collected s' = collected s \<Longrightarrow> next_cleanup s' = next_cleanup s \<Longrightarrow>
   lists_good s \<Longrightarrow> lists_good s'"
  by (simp add: lists_good_def waiting_def)

lemma render_start_good:
  assumes "router_good s"
  shows "router_good (render_start b s)"
proof (cases "mounted s")
  case True
  have fresh: "ticket s + 1 \<notin> set (finished s)" "ticket s + 1 \<notin> set (failed s)"
    "ticket s + 1 \<notin> set (map fst (building s))"
  proof -
    have "x \<le> ticket s" if "x \<in> set (finished s) \<union> set (failed s) \<union> set (map fst (building s))" for x
      using assms that unfolding router_good_def tickets_good_def by blast
    from this [of "ticket s + 1"]
    show "ticket s + 1 \<notin> set (finished s)" "ticket s + 1 \<notin> set (failed s)"
      "ticket s + 1 \<notin> set (map fst (building s))" by auto
  qed
  have "lists_good (render_start b s)"
    by (rule lists_good_cong [of _ s])
      (use assms in \<open>auto simp: render_start_def Let_def router_good_def split: sum.split\<close>)
  moreover have "homes_good (render_start b s)"
    using assms by (auto simp: render_start_def Let_def router_good_def homes_good_def waiting_def
        split: sum.split)
  moreover have "tickets_good (render_start b s)"
    using assms True fresh
    by (auto simp: render_start_def Let_def router_good_def tickets_good_def intro: le_SucI split: sum.split)
  ultimately show ?thesis by (simp add: router_good_def)
qed (use assms in \<open>simp add: render_start_def\<close>)

lemma go_to_good: "router_good s \<Longrightarrow> router_good (go_to p s)"
  by (simp add: router_good_def tickets_good_def lists_good_def homes_good_def waiting_def go_to_def)

lemma history_good: "router_good s \<Longrightarrow> router_good (s\<lparr>history_len := n\<rparr>)"
  by (simp add: router_good_def tickets_good_def lists_good_def homes_good_def waiting_def)

lemma building_keys:
  "map_of (building s) t \<noteq> None \<longleftrightarrow> t \<in> set (map fst (building s))"
  by (simp add: map_of_eq_None_iff)

lemma render_fail_good:
  assumes "router_good s"
  shows "router_good (render_fail t s)"
proof (cases "map_of (building s) t")
  case (Some b)
  then have t: "t \<in> set (map fst (building s))" using building_keys [of s t] by simp
  have "lists_good (render_fail t s)"
    by (rule lists_good_cong [of _ s]) (use assms in \<open>auto simp: render_fail_def router_good_def split: option.split\<close>)
  moreover have "homes_good (render_fail t s)"
    using assms Some by (auto simp: render_fail_def router_good_def homes_good_def waiting_def delete_keys)
  moreover have "tickets_good (render_fail t s)"
    using assms Some t
    by (auto simp: render_fail_def router_good_def tickets_good_def delete_keys distinct_removeAll)
  ultimately show ?thesis by (simp add: router_good_def)
qed (use assms in \<open>simp add: render_fail_def\<close>)

lemma render_finish_good:
  assumes "router_good s"
  shows "router_good (render_finish t n s)"
proof (cases "map_of (building s) t")
  case (Some b)
  then have t: "t \<in> set (map fst (building s))" using building_keys [of s t] by simp
  obtain mv r where b: "b = (mv, r)" by (cases b)
  let ?s1 = "s\<lparr>building := AList.delete t (building s), finished := finished s @ [t]\<rparr>"
  have old: "cleanups s \<noteq> Some t" using assms t by (auto simp: router_good_def tickets_good_def)
  have l1: "lists_good ?s1" by (rule lists_good_cong [of _ s]) (use assms in \<open>auto simp: router_good_def\<close>)
  show ?thesis
  proof (cases "t = ticket s")
    case False
    have "homes_good (run_cleanups t ?s1)"
      using assms by (auto simp: router_good_def homes_good_def waiting_def run_cleanups_def delete_keys)
    moreover have "tickets_good ?s1"
      using assms t False by (auto simp: router_good_def tickets_good_def delete_keys distinct_removeAll)
    ultimately show ?thesis
      using Some b False run_cleanups_lists [OF l1] run_cleanups_tickets
      by (simp add: render_finish_def router_good_def)
  next
    case True
    let ?s2 = "case cleanups s of None \<Rightarrow> ?s1 | Some old \<Rightarrow> run_cleanups old ?s1"
    let ?s3 = "?s2\<lparr>cleanups := Some t, outlet := Some (t, n),
                 focus_moves := (if mv then focus_moves s @ [t] else focus_moves s)\<rparr>"
    have eq: "render_finish t n s = ?s3" using Some b
      by (cases "cleanups s") (simp_all add: render_finish_def Let_def True)
    have "lists_good ?s2" using l1 by (simp add: run_cleanups_lists split: option.split)
    then have "lists_good ?s3" by (rule lists_good_cong [rotated 3]) simp_all
    moreover have "homes_good ?s3"
      using assms old
      by (auto simp: router_good_def homes_good_def waiting_def run_cleanups_def
          split: option.split if_splits) blast+
    moreover have "tickets_good ?s3"
      using assms t True
      by (auto simp: router_good_def tickets_good_def delete_keys distinct_removeAll
          dest!: in_delete split: option.split)
    ultimately show ?thesis by (simp only: eq router_good_def simp_thms)
  qed
qed (use assms in \<open>simp add: render_finish_def\<close>)

lemma onCleanup_good:
  assumes "router_good s"
  shows "router_good (onCleanup t s)"
proof (cases "t = 0 \<or> ticket s < t")
  case False
  let ?c = "next_cleanup s"
  have l: "lists_good s" using assms by (simp add: router_good_def)
  have new: "?c \<notin> set (ran s)" "\<And>u. ?c \<notin> set (collected s u)"
    using l by (auto simp: lists_good_def waiting_def)
  have w: "waiting (onCleanup t s) u c \<longleftrightarrow> waiting s u c \<or> u = t \<and> c = ?c" for u c
    using False by (auto simp: onCleanup_def waiting_def)
  have fields: "ran (onCleanup t s) = ran s" "next_cleanup (onCleanup t s) = ?c + 1"
    "collected (onCleanup t s) = (collected s)(t := collected s t @ [?c])"
    using False by (auto simp: onCleanup_def)
  have "(c < ?c + 1) = (c \<in> set (ran s) \<or> (\<exists>u. waiting (onCleanup t s) u c))" for c
    using l by (auto simp: w lists_good_def less_Suc_eq)
  then have "lists_good (onCleanup t s)"
    using l new unfolding lists_good_def fields by auto
  moreover have "homes_good (onCleanup t s)"
  proof -
    have same: "building (onCleanup t s) = building s" "cleanups (onCleanup t s) = cleanups s"
      "failed (onCleanup t s) = failed s" "set (late s) \<subseteq> set (late (onCleanup t s))"
      by (auto simp: onCleanup_def)
    have "t \<in> set (map fst (building s)) \<or> cleanups s = Some t \<or> ?c \<in> set (late (onCleanup t s))"
      using False building_keys [of s t] by (auto simp: onCleanup_def)
    with assms same show ?thesis
      unfolding homes_good_def w same router_good_def by blast
  qed
  moreover have "tickets_good (onCleanup t s)"
    using assms by (simp add: router_good_def tickets_good_def onCleanup_def)
  ultimately show ?thesis by (simp add: router_good_def)
qed (use assms in \<open>simp add: onCleanup_def\<close>)

interpretation router: event_machine router_step router_good
proof
  fix s e
  assume g: "router_good s"
  show "router_good (router_step e s)"
    using g
    by (cases e) (auto simp: navigate_def on_pop_state_def refresh_def stop_def Let_def
        intro: render_start_good go_to_good history_good onCleanup_good render_finish_good
        render_fail_good run_cleanups_good split: option.split)
qed

lemma new_router_good: "router_good (mount (new_router rs p q))"
  by (simp add: router_good_def tickets_good_def lists_good_def homes_good_def waiting_def
      new_router_def mount_def)

definition run_router ::
  "'p route list \<Rightarrow> string \<Rightarrow> string \<Rightarrow> 'n router_event list \<Rightarrow> ('p, 'n) router" where
  "run_router rs p q es = fold router_step es (mount (new_router rs p q))"

lemma run_router_good: "router_good (run_router rs p q es)"
  unfolding run_router_def by (rule router.good_run) (rule new_router_good)


definition sample_routes :: "nat route list" where
  "sample_routes = [\<lparr>rt_pattern = ''/orders'', rt_page = 1\<rparr>, \<lparr>rt_pattern = ''/order/:id'', rt_page = 2\<rparr>]"


text \<open>
  Nothing a page opened is closed twice or forgotten: every cleanup a page registered has run
  exactly once, or waits in the list of a render that is still building or of the page on screen,
  or was registered by a build that threw, or after its page was already gone.
\<close>

theorem cleanups_accounted:
  "distinct (ran (run_router rs p q es))
   \<and> {c. c < next_cleanup (run_router rs p q es)} \<subseteq>
       set (ran (run_router rs p q es))
       \<union> (\<Union>t \<in> fst ` set (building (run_router rs p q es))
              \<union> set_option (cleanups (run_router rs p q es))
              \<union> set (failed (run_router rs p q es)). set (collected (run_router rs p q es) t))
       \<union> set (late (run_router rs p q es))
   \<and> (\<forall>t. set (collected (run_router rs p q es) t) \<inter> set (ran (run_router rs p q es)) = {})"
proof -
  let ?s = "run_router rs p q es"
  have g: "lists_good ?s" "homes_good ?s"
    using run_router_good [of rs p q es] by (simp_all add: router_good_def)
  have "c \<in> set (ran ?s) \<union> (\<Union>t \<in> fst ` set (building ?s) \<union> set_option (cleanups ?s) \<union> set (failed ?s).
      set (collected ?s t)) \<union> set (late ?s)" if "c < next_cleanup ?s" for c
  proof (cases "c \<in> set (ran ?s)")
    case False
    with that g(1) obtain t where "waiting ?s t c" by (auto simp: lists_good_def)
    with g(2) show ?thesis by (fastforce simp: homes_good_def waiting_def)
  qed simp
  with g(1) show ?thesis unfolding lists_good_def by blast
qed

text \<open>
  A build that throws after it has opened something leaves it open: its cleanups are in no
  list that any later navigation runs.
\<close>

lemma failed_build_leaks:
  "let s = run_router sample_routes ''/orders'' []
             [Refresh, Register 1, Fail 1, Navigate ''/order/7'' False, Finish 2 (20 :: nat), Stop]
   in ran s = [] \<and> collected s 1 = [0]"
  by code_simp

end
