(* ===== verification/OpeningHours.thy ===== *)
theory OpeningHours
  imports Types
begin

text \<open>
  Whether a restaurant is open at a moment (\<open>src/openinghours.ts\<close>), as the code decides it, and
  the specification it implements: every period is one interval of the week, taken as a circle of
  minutes.
\<close>

section \<open>The code\<close>

text \<open>The match of \<open>/^(\d{1,2}):(\d{2})/u\<close>, in minutes since midnight.\<close>

definition minutes :: "string \<Rightarrow> nat option" where
  "minutes v =
     (let h = takeWhile is_digit v; r = dropWhile is_digit v; m = take 2 (drop 1 r)
      in if (length h = 1 \<or> length h = 2) \<and> starts_with r '':'' \<and> length m = 2 \<and> list_all is_digit m
         then Some (nat_of_digits h * 60 + nat_of_digits m) else None)"

definition isoDay :: "local_time \<Rightarrow> nat" where
  "isoDay d = (if lt_day d = 0 then 7 else lt_day d)"

definition covers :: "nat \<Rightarrow> nat \<Rightarrow> 'a opening_period_scheme \<Rightarrow> bool" where
  "covers today clock p =
     (let yesterday = (if today = 1 then 7 else today - 1)
      in case (minutes (op_start p), minutes (op_end p)) of
           (Some start, Some en) \<Rightarrow>
             if start < en then op_day_of_week p = today \<and> start \<le> clock \<and> clock < en
             else (op_day_of_week p = today \<and> start \<le> clock)
                  \<or> (op_day_of_week p = yesterday \<and> clock < en)
         | _ \<Rightarrow> False)"

definition isOpen :: "'a opening_period_scheme list \<Rightarrow> local_time \<Rightarrow> bool" where
  "isOpen periods now =
     (let clock = lt_hours now * 60 + lt_minutes now
      in list_ex (covers (isoDay now) clock) periods)"

section \<open>The specification\<close>

text \<open>
  A minute of the week, counted from Monday's midnight, and the number of minutes a period lasts:
  a period that ends where it starts lasts a whole day.
\<close>

definition week_minute :: "nat \<Rightarrow> nat \<Rightarrow> nat" where
  "week_minute day m = (day - 1) * 1440 + m"

definition lasts :: "nat \<Rightarrow> nat \<Rightarrow> nat" where
  "lasts start en = (if start < en then en - start else 1440 - start + en)"

definition in_period :: "nat \<Rightarrow> 'a opening_period_scheme \<Rightarrow> bool" where
  "in_period now p =
     (case (minutes (op_start p), minutes (op_end p)) of
        (Some start, Some en) \<Rightarrow>
          (now + 10080 - week_minute (op_day_of_week p) start) mod 10080 < lasts start en
      | _ \<Rightarrow> False)"

definition clock_time :: "string \<Rightarrow> bool" where
  "clock_time v = (case minutes v of None \<Rightarrow> True | Some m \<Rightarrow> m < 1440)"

definition valid_period :: "'a opening_period_scheme \<Rightarrow> bool" where
  "valid_period p \<longleftrightarrow> 1 \<le> op_day_of_week p \<and> op_day_of_week p \<le> 7
     \<and> clock_time (op_start p) \<and> clock_time (op_end p)"

lemma mod_week:
  fixes x :: nat
  assumes "x < 20160"
  shows "x mod 10080 = (if x < 10080 then x else x - 10080)"
  using assms by (auto simp: mod_if)

lemma covers_interval:
  assumes d: "1 \<le> d" "d \<le> (7::nat)" and t: "1 \<le> t" "t \<le> (7::nat)" and c: "c < 1440"
    and s: "s < 1440" and e: "e < 1440"
  shows "(week_minute t c + 10080 - week_minute d s) mod 10080 < lasts s e \<longleftrightarrow>
     (if s < e then d = t \<and> s \<le> c \<and> c < e
      else (d = t \<and> s \<le> c) \<or> (d = (if t = 1 then 7 else t - 1) \<and> c < e))"
proof -
  obtain d' t' where dt: "d = Suc d'" "t = Suc t'"
    using d(1) t(1) by (metis Suc_le_D One_nat_def)
  let ?x = "week_minute t c + 10080 - week_minute d s"
  have x: "?x = 1440 * t' + c + 10080 - (1440 * d' + s)"
    by (simp add: week_minute_def dt mult.commute)
  have b: "d' \<le> 6" "t' \<le> 6" using d t dt by auto
  have lt: "?x < 20160" using b c unfolding x by linarith
  have yesterday: "(d = (if t = 1 then 7 else t - 1)) = (t' = d' + 1 \<or> (t' = 0 \<and> d' = 6))"
    using b by (auto simp: dt)
  have l: "lasts s e \<le> 1440" using s e by (auto simp: lasts_def)
  consider "d' = t'" | "t' = d' + 1 \<or> (t' = 0 \<and> d' = 6)" | "d' + 2 \<le> t'" | "t' < d'" "d' \<le> t' + 5"
    using b by linarith
  then show ?thesis
  proof cases
    case 1
    then have "?x mod 10080 = (if s \<le> c then c - s else 10080 + c - s)"
      unfolding mod_week [OF lt] using c s unfolding x by auto
    with 1 show ?thesis using c s e unfolding yesterday by (auto simp: dt lasts_def)
  next
    case 2
    then have "?x mod 10080 = 1440 + c - s"
      unfolding mod_week [OF lt] using c s unfolding x by auto
    moreover have "d \<noteq> t" using 2 by (auto simp: dt)
    ultimately show ?thesis using 2 c s e unfolding yesterday by (auto simp: lasts_def)
  next
    case 3
    then have "1440 < ?x mod 10080"
      unfolding mod_week [OF lt] using c s b unfolding x by auto
    with 3 l show ?thesis unfolding yesterday by (auto simp: dt)
  next
    case 4
    then have "1440 < ?x mod 10080"
      unfolding mod_week [OF lt] using c s b unfolding x by auto
    with 4 l show ?thesis unfolding yesterday by (auto simp: dt)
  qed
qed

text \<open>
  C37: a restaurant is shown as open exactly when the moment lies in one of its periods, each
  taken as one interval on the circle of the week: a period that ends no later than it starts
  runs past midnight into the next day, on Sunday into Monday.
\<close>

theorem isOpen_intervals:
  assumes "list_all valid_period periods"
    and "lt_day now < 7" and "lt_hours now < 24" and "lt_minutes now < 60"
  shows "isOpen periods now =
    list_ex (in_period (week_minute (isoDay now) (lt_hours now * 60 + lt_minutes now))) periods"
proof -
  let ?c = "lt_hours now * 60 + lt_minutes now" and ?t = "isoDay now"
  have c: "?c < 1440" using assms(3,4) by simp
  have t: "1 \<le> ?t" "?t \<le> 7" using assms(2) by (auto simp: isoDay_def)
  have "covers ?t ?c p = in_period (week_minute ?t ?c) p" if "p \<in> set periods" for p
  proof -
    have p: "1 \<le> op_day_of_week p" "op_day_of_week p \<le> 7" "clock_time (op_start p)" "clock_time (op_end p)"
      using assms(1) that by (auto simp: list_all_iff valid_period_def)
    show ?thesis
      using p(3,4) covers_interval [OF p(1,2) t c]
      by (auto simp: covers_def in_period_def clock_time_def Let_def split: option.splits)
  qed
  then show ?thesis by (auto simp: isOpen_def Let_def list_ex_iff)
qed

definition sunday_night :: opening_period where
  "sunday_night = \<lparr>op_day_of_week = 7, op_start = ''18:00'', op_end = ''02:00:00''\<rparr>"

theorem isOpen_intervals_witness:
  "isOpen [sunday_night] \<lparr>lt_year = 2026, lt_month = 0, lt_date = 5, lt_day = 1, lt_hours = 1, lt_minutes = 59\<rparr>
   = list_ex (in_period (week_minute 1 119)) [sunday_night]
   \<and> isOpen [sunday_night] \<lparr>lt_year = 2026, lt_month = 0, lt_date = 5, lt_day = 1, lt_hours = 1, lt_minutes = 59\<rparr>"
proof
  let ?now = "\<lparr>lt_year = 2026, lt_month = 0, lt_date = 5, lt_day = 1, lt_hours = 1, lt_minutes = 59\<rparr>"
  have "list_all valid_period [sunday_night]"
    by (simp add: sunday_night_def valid_period_def clock_time_def minutes_def Let_def is_digit_def
        nat_of_digits_def digit_val_def)
  from isOpen_intervals [OF this, of ?now]
  show "isOpen [sunday_night] ?now = list_ex (in_period (week_minute 1 119)) [sunday_night]"
    by (simp add: isoDay_def)
  show "isOpen [sunday_night] ?now"
    by (simp add: isOpen_def covers_def sunday_night_def isoDay_def minutes_def Let_def is_digit_def
        nat_of_digits_def digit_val_def)
qed

end
