(* ===== verification/Dom.thy ===== *)
theory Dom
  imports I18n
begin

text \<open>
  Element construction (\<open>src/dom.ts\<close>). A node of the document is a text node or an element with
  its attributes, the properties the code assigns directly (\<open>value\<close>, \<open>checked\<close>), its listeners
  and its children. A listener does not hold a closure but a value of the page's own type of
  actions: a page model says what each of its actions does, and a theorem about a page can ask
  which actions it offers at all.
\<close>

section \<open>Nodes\<close>

datatype 'a node =
    TextNode string
  | Elem (tag_name: string) (attrs: "(string \<times> string) list") (props: "(string \<times> string) list")
      (listeners: "(string \<times> 'a) list") (kids: "'a node list")
  where
    "tag_name (TextNode s) = []"
  | "attrs (TextNode s) = []"
  | "props (TextNode s) = []"
  | "listeners (TextNode s) = []"
  | "kids (TextNode s) = []"

datatype 'a attr_value =
    AStr string
  | ANum int
  | ABool bool
  | ANull
  | AUndefined
  | AFun 'a
  | AObject

datatype 'a child =
    CNode "'a node"
  | CStr string
  | CNum int
  | CNull
  | CUndefined
  | CFalse

fun set_attribute :: "string \<Rightarrow> string \<Rightarrow> 'a node \<Rightarrow> 'a node" where
  "set_attribute n v (TextNode s) = TextNode s"
| "set_attribute n v (Elem t as ps ls cs) = Elem t (AList.update n v as) ps ls cs"

fun remove_attribute :: "string \<Rightarrow> 'a node \<Rightarrow> 'a node" where
  "remove_attribute n (TextNode s) = TextNode s"
| "remove_attribute n (Elem t as ps ls cs) = Elem t (AList.delete n as) ps ls cs"

fun set_property :: "string \<Rightarrow> string \<Rightarrow> 'a node \<Rightarrow> 'a node" where
  "set_property n v (TextNode s) = TextNode s"
| "set_property n v (Elem t as ps ls cs) = Elem t as (AList.update n v ps) ls cs"

fun add_listener :: "string \<Rightarrow> 'a \<Rightarrow> 'a node \<Rightarrow> 'a node" where
  "add_listener e a (TextNode s) = TextNode s"
| "add_listener e a (Elem t as ps ls cs) = Elem t as ps (ls @ [(e, a)]) cs"

text \<open>\<open>element.textContent = s\<close>: the empty string leaves no child at all.\<close>

fun set_text :: "string \<Rightarrow> 'a node \<Rightarrow> 'a node" where
  "set_text v (TextNode s) = TextNode v"
| "set_text v (Elem t as ps ls cs) = Elem t as ps ls (if v = [] then [] else [TextNode v])"

fun add_child :: "'a node \<Rightarrow> 'a node \<Rightarrow> 'a node" where
  "add_child c (TextNode s) = TextNode s"
| "add_child c (Elem t as ps ls cs) = Elem t as ps ls (cs @ [c])"

text \<open>A boolean property that the attribute of the same name reflects, such as \<open>hidden\<close>.\<close>

definition set_flag :: "string \<Rightarrow> bool \<Rightarrow> 'a node \<Rightarrow> 'a node" where
  "set_flag n b x = (if b then set_attribute n [] x else remove_attribute n x)"

definition get_attribute :: "'a node \<Rightarrow> string \<Rightarrow> string option" where
  "get_attribute x n = map_of (attrs x) n"

definition has_attribute :: "'a node \<Rightarrow> string \<Rightarrow> bool" where
  "has_attribute x n \<longleftrightarrow> get_attribute x n \<noteq> None"

section \<open>\<open>el\<close> and \<open>append\<close>\<close>

definition attribute_text :: "'a attr_value \<Rightarrow> string" where
  "attribute_text v =
     (case v of AStr s \<Rightarrow> s | ANum n \<Rightarrow> string_of_int n | ABool True \<Rightarrow> ''true'' | _ \<Rightarrow> [])"

definition apply_attribute :: "'a node \<Rightarrow> string \<times> 'a attr_value \<Rightarrow> 'a node" where
  "apply_attribute x nv =
     (let (name, v) = nv
      in if v = ANull \<or> v = AUndefined \<or> v = ABool False then x
         else case v of
           AFun f \<Rightarrow>
             if starts_with name ''on'' then add_listener (lower_case (drop 2 name)) f x else x
         | AObject \<Rightarrow> x
         | _ \<Rightarrow>
             if name = ''text'' then set_text (attribute_text v) x
             else set_attribute name (if v = ABool True then [] else attribute_text v) x)"

fun append_child :: "'a node \<Rightarrow> 'a child \<Rightarrow> 'a node" where
  "append_child p CNull = p"
| "append_child p CUndefined = p"
| "append_child p CFalse = p"
| "append_child p (CNode n) = add_child n p"
| "append_child p (CStr s) = add_child (TextNode s) p"
| "append_child p (CNum n) = add_child (TextNode (string_of_int n)) p"

definition append :: "'a node \<Rightarrow> 'a child list \<Rightarrow> 'a node" where
  "append p cs = foldl append_child p cs"

definition el :: "string \<Rightarrow> (string \<times> 'a attr_value) list \<Rightarrow> 'a child list \<Rightarrow> 'a node" where
  "el t attributes cs = append (foldl apply_attribute (Elem t [] [] [] []) attributes) cs"

fun without_kids :: "'a node \<Rightarrow> 'a node" where
  "without_kids (TextNode s) = TextNode s"
| "without_kids (Elem t as ps ls cs) = Elem t as ps ls []"

definition replace :: "'a node \<Rightarrow> 'a child list \<Rightarrow> 'a node" where
  "replace p cs = append (without_kids p) cs"

definition keyed :: "'a node \<Rightarrow> string \<Rightarrow> 'a node" where
  "keyed x k = set_attribute ''data-key'' k x"

text \<open>What a list of children comes to.\<close>

fun child_nodes :: "'a child \<Rightarrow> 'a node list" where
  "child_nodes (CNode n) = [n]"
| "child_nodes (CStr s) = [TextNode s]"
| "child_nodes (CNum n) = [TextNode (string_of_int n)]"
| "child_nodes _ = []"

lemma append_child_simps [simp]:
  "tag_name (append_child p c) = tag_name p"
  "attrs (append_child p c) = attrs p"
  "props (append_child p c) = props p"
  "listeners (append_child p c) = listeners p"
  by (cases c; cases p; simp)+

lemma kids_append_child [simp]:
  "kids (append_child (Elem t as ps ls cs) c) = cs @ child_nodes c"
  by (cases c) simp_all

lemma append_Elem: "append (Elem t as ps ls cs) xs = Elem t as ps ls (cs @ concat (map child_nodes xs))"
proof (induction xs arbitrary: cs)
  case (Cons x xs)
  have "append_child (Elem t as ps ls cs) x = Elem t as ps ls (cs @ child_nodes x)"
    by (cases x) simp_all
  then show ?case using Cons.IH [of "cs @ child_nodes x"] by (simp add: append_def)
qed (simp add: append_def)

section \<open>What a node offers\<close>

text \<open>The nodes below a node, with the path that leads to each, in document order.\<close>

fun below :: "'a node \<Rightarrow> (nat list \<times> 'a node) list"
  and below_all :: "nat \<Rightarrow> 'a node list \<Rightarrow> (nat list \<times> 'a node) list" where
  "below (TextNode s) = []"
| "below (Elem t as ps ls cs) = below_all 0 cs"
| "below_all n [] = []"
| "below_all n (c # cs) =
     ([n], c) # map (\<lambda>(p, x). (n # p, x)) (below c) @ below_all (Suc n) cs"

text \<open>The actions attached anywhere in a node.\<close>

fun actions_of :: "'a node \<Rightarrow> 'a list" where
  "actions_of (TextNode s) = []"
| "actions_of (Elem t as ps ls cs) = map snd ls @ concat (map actions_of cs)"

fun text_content :: "'a node \<Rightarrow> string" where
  "text_content (TextNode s) = s"
| "text_content (Elem t as ps ls cs) = concat (map text_content cs)"

fun child_actions :: "'a child \<Rightarrow> 'a list" where
  "child_actions (CNode n) = actions_of n"
| "child_actions _ = []"

definition attribute_actions :: "string \<times> 'a attr_value \<Rightarrow> 'a list" where
  "attribute_actions nv =
     (case snd nv of AFun f \<Rightarrow> if starts_with (fst nv) ''on'' then [f] else [] | _ \<Rightarrow> [])"

lemma actions_of_update [simp]:
  "actions_of (set_attribute n v x) = actions_of x"
  "actions_of (remove_attribute n x) = actions_of x"
  "actions_of (set_property n v x) = actions_of x"
  "actions_of (set_flag n b x) = actions_of x"
  "actions_of (keyed x n) = actions_of x"
  by (cases x; simp add: set_flag_def keyed_def)+

lemma set_actions_append_child [simp]:
  "tag_name p \<noteq> [] \<Longrightarrow> set (actions_of (append_child p c)) = set (actions_of p) \<union> set (child_actions c)"
  by (cases c; cases p) auto

lemma set_actions_append:
  "tag_name p \<noteq> [] \<Longrightarrow>
   set (actions_of (append p cs)) = set (actions_of p) \<union> (\<Union>c \<in> set cs. set (child_actions c))"
  by (induction cs arbitrary: p) (auto simp: append_def)

lemma set_text_no_kids: "kids x = [] \<Longrightarrow> set (actions_of (set_text s x)) = set (actions_of x)"
  by (cases x) auto

definition text_only :: "'a node \<Rightarrow> bool" where
  "text_only x \<longleftrightarrow> concat (map actions_of (kids x)) = []"

lemma apply_attribute_actions:
  assumes "tag_name x \<noteq> []" and "text_only x"
  shows "set (actions_of (apply_attribute x nv)) = set (actions_of x) \<union> set (attribute_actions nv)"
    and "tag_name (apply_attribute x nv) = tag_name x" and "text_only (apply_attribute x nv)"
proof -
  obtain name v where nv: "nv = (name, v)" by (cases nv)
  obtain t as ps ls cs where x: "x = Elem t as ps ls cs"
    using assms(1) by (cases x) auto
  show "set (actions_of (apply_attribute x nv)) = set (actions_of x) \<union> set (attribute_actions nv)"
    and "tag_name (apply_attribute x nv) = tag_name x" and "text_only (apply_attribute x nv)"
    using assms(2) unfolding nv x
    by (cases v; auto simp: apply_attribute_def attribute_actions_def text_only_def)+
qed

lemma fold_attribute_actions:
  assumes "tag_name x \<noteq> []" and "text_only x"
  shows "set (actions_of (foldl apply_attribute x nvs))
           = set (actions_of x) \<union> (\<Union>nv \<in> set nvs. set (attribute_actions nv))
         \<and> tag_name (foldl apply_attribute x nvs) = tag_name x"
  using assms
proof (induction nvs arbitrary: x)
  case (Cons nv nvs)
  from Cons.IH [of "apply_attribute x nv"] apply_attribute_actions [OF Cons.prems, of nv] Cons.prems(1)
  show ?case by auto
qed simp

text \<open>
  What an element built by \<open>el\<close> offers is what was handed to it: the functions under a name that
  begins with \<open>on\<close>, and whatever its children offer.
\<close>

lemma actions_el [node_simps]:
  "t \<noteq> [] \<Longrightarrow> set (actions_of (el t attributes cs)) =
     (\<Union>nv \<in> set attributes. set (attribute_actions nv)) \<union> (\<Union>c \<in> set cs. set (child_actions c))"
  using fold_attribute_actions [of "Elem t [] [] [] []" attributes]
  by (simp add: el_def set_actions_append text_only_def)

lemma tag_name_append [simp]: "tag_name (append p cs) = tag_name p"
  by (induction cs arbitrary: p) (simp_all add: append_def)

lemma tag_name_el [simp]: "t \<noteq> [] \<Longrightarrow> tag_name (el t attributes cs) = t"
proof -
  assume t: "t \<noteq> []"
  have "tag_name (foldl apply_attribute (Elem t [] [] [] []) attributes) = t"
    using fold_attribute_actions [of "Elem t [] [] [] []" attributes] t by (simp add: text_only_def)
  then show ?thesis by (simp add: el_def)
qed

lemma attribute_actions_simps [node_simps]:
  "attribute_actions (n, AStr s) = []" "attribute_actions (n, ANum k) = []"
  "attribute_actions (n, ABool b) = []" "attribute_actions (n, ANull) = []"
  "attribute_actions (n, AUndefined) = []" "attribute_actions (n, AObject) = []"
  "attribute_actions (''on'' @ e, AFun f) = [f]"
  "attribute_actions (''onclick'', AFun f) = [f]" "attribute_actions (''onchange'', AFun f) = [f]"
  "attribute_actions (''oninput'', AFun f) = [f]" "attribute_actions (''onsubmit'', AFun f) = [f]"
  by (simp_all add: attribute_actions_def)

section \<open>Rebuilding a region\<close>

text \<open>
  The keyboard focus inside a region is a path in it (the empty path is the region itself) and,
  in a text field, the range of the caret. \<open>rerender\<close> replaces the contents of the region and
  answers where the focus is afterwards: \<open>None\<close> when the browser drops it. A focus outside the
  region is not touched and is not modelled here.
\<close>

record focus =
  focus_path :: "nat list"
  focus_caret :: "(nat \<times> nat) option"

fun node_at :: "'a node \<Rightarrow> nat list \<Rightarrow> 'a node option" where
  "node_at x [] = Some x"
| "node_at x (i # p) = (case at (kids x) i of None \<Rightarrow> None | Some c \<Rightarrow> node_at c p)"

definition data_key :: "'a node \<Rightarrow> string" where
  "data_key x = (case get_attribute x ''data-key'' of None \<Rightarrow> [] | Some k \<Rightarrow> k)"

definition dom_id :: "'a node \<Rightarrow> string" where
  "dom_id x = (case get_attribute x ''id'' of None \<Rightarrow> [] | Some k \<Rightarrow> k)"

text \<open>A field whose caret can be read and set: a text area, or an input of a textual type.\<close>

definition text_field :: "'a node \<Rightarrow> bool" where
  "text_field x \<longleftrightarrow> tag_name x = ''textarea'' \<or>
     (tag_name x = ''input'' \<and>
      (case get_attribute x ''type'' of
         None \<Rightarrow> True
       | Some t \<Rightarrow> t \<in> {''text'', ''search'', ''url'', ''tel'', ''password''}))"

definition caretOf :: "'a node \<Rightarrow> (nat \<times> nat) option \<Rightarrow> (nat \<times> nat) option" where
  "caretOf x caret = (if text_field x then caret else None)"

definition same_control :: "string \<Rightarrow> string \<Rightarrow> 'a node \<Rightarrow> bool" where
  "same_control k ident x =
     (if k \<noteq> [] then data_key x = k else if ident \<noteq> [] then dom_id x = ident else False)"

definition marked_below :: "'a node \<Rightarrow> (nat list \<times> 'a node) list" where
  "marked_below x =
     filter (\<lambda>(p, y). has_attribute y ''data-key'' \<or> has_attribute y ''id'') (below x)"

definition rerender :: "'a node \<Rightarrow> focus option \<Rightarrow> 'a child list \<Rightarrow> 'a node \<times> focus option" where
  "rerender container foc cs =
     (let container' = replace container cs
      in (container',
          case foc of
            None \<Rightarrow> None
          | Some f \<Rightarrow>
              (case node_at container (focus_path f) of
                 None \<Rightarrow> None
               | Some focused \<Rightarrow>
                   let k = data_key focused; ident = dom_id focused;
                       caret = caretOf focused (focus_caret f)
                   in (case List.find (\<lambda>(p, y). same_control k ident y) (marked_below container') of
                         None \<Rightarrow> None
                       | Some (p, replacement) \<Rightarrow>
                           Some \<lparr>focus_path = p, focus_caret = caretOf replacement caret\<rparr>))))"

lemma below_node_at:
  "(p, y) \<in> set (below x) \<Longrightarrow> node_at x p = Some y"
  "(p, y) \<in> set (below_all n cs) \<Longrightarrow>
     \<exists>i q. p = (n + i) # q \<and> i < length cs \<and> node_at (cs ! i) q = Some y"
proof (induction x and n cs arbitrary: p y and p y rule: below_below_all.induct)
  case (2 t as ps ls cs)
  then obtain i q where "p = i # q" "i < length cs" "node_at (cs ! i) q = Some y"
    by fastforce
  then show ?case by (simp add: at_def)
next
  case (4 n c cs)
  from "4.prems" consider "p = [n]" "y = c"
    | q where "p = n # q" "(q, y) \<in> set (below c)"
    | "(p, y) \<in> set (below_all (Suc n) cs)"
    by auto
  then show ?case
  proof cases
    case 1
    then show ?thesis by (intro exI [of _ 0] exI [of _ "[]"]) simp
  next
    case (2 q)
    with "4.IH"(1) show ?thesis by (intro exI [of _ 0] exI [of _ q]) simp
  next
    case 3
    with "4.IH"(2) obtain i q where "p = (Suc n + i) # q" "i < length cs" "node_at (cs ! i) q = Some y"
      by blast
    then show ?thesis by (intro exI [of _ "Suc i"] exI [of _ q]) simp
  qed
qed simp_all

lemma data_key_marked: "data_key y \<noteq> [] \<Longrightarrow> has_attribute y ''data-key''"
  by (auto simp: data_key_def has_attribute_def split: option.splits)

text \<open>
  A rebuilt region keeps the keyboard focus on the control it was on: if the focused control
  carries a key and the new contents have a control with that key, the focus is on such a control
  afterwards, and its caret is where it was when both are text fields.
\<close>

theorem rerender_follows_key:
  assumes "node_at container (focus_path f) = Some focused" and "data_key focused \<noteq> []"
    and "y \<in> snd ` set (below (replace container cs))" and "data_key y = data_key focused"
  shows "\<exists>g z. snd (rerender container (Some f) cs) = Some g
           \<and> node_at (fst (rerender container (Some f) cs)) (focus_path g) = Some z
           \<and> data_key z = data_key focused
           \<and> focus_caret g = caretOf z (caretOf focused (focus_caret f))"
proof -
  let ?new = "replace container cs"
  let ?same = "\<lambda>(p :: nat list, y). same_control (data_key focused) (dom_id focused) y"
  obtain q where q: "(q, y) \<in> set (below ?new)" using assms(3) by auto
  have "(q, y) \<in> set (marked_below ?new)"
    using q data_key_marked [of y] assms(2,4) by (simp add: marked_below_def)
  moreover have "?same (q, y)" using assms(2,4) by (simp add: same_control_def)
  ultimately have "List.find ?same (marked_below ?new) \<noteq> None"
    by (auto simp: find_None_iff)
  then obtain p z where found: "List.find ?same (marked_below ?new) = Some (p, z)" by auto
  from find_Some_in [OF found] have z: "(p, z) \<in> set (below ?new)" "data_key z = data_key focused"
    using assms(2) by (auto simp: marked_below_def same_control_def)
  show ?thesis
    using assms(1) found z below_node_at(1) [OF z(1)]
    by (simp add: rerender_def Let_def)
qed

definition sample_button :: "string \<Rightarrow> nat node" where
  "sample_button k = keyed (el ''button'' [(''onclick'', AFun 1)] [CStr k]) k"

theorem rerender_follows_key_witness:
  "\<exists>g z. snd (rerender (el ''div'' [] [CNode (sample_button ''a'')]) (Some \<lparr>focus_path = [0], focus_caret = None\<rparr>)
            [CStr ''new'', CNode (sample_button ''a'')]) = Some g
     \<and> node_at (fst (rerender (el ''div'' [] [CNode (sample_button ''a'')])
            (Some \<lparr>focus_path = [0], focus_caret = None\<rparr>) [CStr ''new'', CNode (sample_button ''a'')]))
         (focus_path g) = Some z
     \<and> data_key z = data_key (sample_button ''a'')
     \<and> focus_caret g = caretOf z (caretOf (sample_button ''a'') (focus_caret \<lparr>focus_path = [0], focus_caret = None\<rparr>))"
proof (rule rerender_follows_key [of _ _ _ "sample_button ''a''"])
  show "node_at (el ''div'' [] [CNode (sample_button ''a'')]) (focus_path \<lparr>focus_path = [0], focus_caret = None\<rparr>)
      = Some (sample_button ''a'')"
    by code_simp
  show "data_key (sample_button ''a'') \<noteq> []" by code_simp
  show "sample_button ''a'' \<in> snd ` set (below (replace (el ''div'' [] [CNode (sample_button ''a'')])
      [CStr ''new'', CNode (sample_button ''a'')]))"
    by code_simp
qed simp

section \<open>Focusable elements\<close>

definition selectable :: "'a node \<Rightarrow> bool" where
  "selectable x \<longleftrightarrow>
     (tag_name x = ''a'' \<and> has_attribute x ''href'')
     \<or> (tag_name x = ''button'' \<and> \<not> has_attribute x ''disabled'')
     \<or> (tag_name x = ''input'' \<and> \<not> has_attribute x ''disabled''
          \<and> get_attribute x ''type'' \<noteq> Some ''hidden'')
     \<or> (tag_name x = ''select'' \<and> \<not> has_attribute x ''disabled'')
     \<or> (tag_name x = ''textarea'' \<and> \<not> has_attribute x ''disabled'')
     \<or> (has_attribute x ''tabindex'' \<and> get_attribute x ''tabindex'' \<noteq> Some ''-1'')"

definition screened :: "'a node \<Rightarrow> bool" where
  "screened x \<longleftrightarrow> has_attribute x ''hidden'' \<or> has_attribute x ''inert''"

text \<open>\<open>shut\<close>: whether an ancestor, the root included, is hidden or inert.\<close>

fun focusable_below :: "bool \<Rightarrow> 'a node \<Rightarrow> 'a node list" where
  "focusable_below shut (TextNode s) = []"
| "focusable_below shut (Elem t as ps ls cs) =
     (let x = Elem t as ps ls cs; off = shut \<or> screened x
      in (if selectable x \<and> \<not> off \<and> get_attribute x ''aria-hidden'' \<noteq> Some ''true'' then [x] else [])
         @ concat (map (focusable_below off) cs))"

definition focusable :: "bool \<Rightarrow> 'a node \<Rightarrow> 'a node list" where
  "focusable shut root = concat (map (focusable_below (shut \<or> screened root)) (kids root))"

lemma focusable_below_off: "focusable_below True x = []"
  by (induction x) (auto simp: Let_def)

lemma focusable_below_ok: "x \<in> set (focusable_below b y) \<Longrightarrow> selectable x \<and> \<not> screened x"
  by (induction y arbitrary: b) (auto simp: Let_def split: if_splits)

section \<open>Icons\<close>

definition iconPaths :: "(string \<times> string list) list" where
  "iconPaths =
    [
     (''menu'',
        [''M4 6h16'',
         ''M4 12h16'',
         ''M4 18h16'']),
     (''close'',
        [''M6 6l12 12'',
         ''M18 6L6 18'']),
     (''sun'',
        [''M12 4v2'',
         ''M12 18v2'',
         ''M4 12h2'',
         ''M18 12h2'',
         ''M6.3 6.3l1.4 1.4'',
         ''M16.3 16.3l1.4 1.4'',
         ''M17.7 6.3l-1.4 1.4'',
         ''M7.7 16.3l-1.4 1.4'']),
     (''moon'',
        [''M20 14.5A8.5 8.5 0 0 1 9.5 4a8.5 8.5 0 1 0 10.5 10.5z'']),
     (''logout'',
        [''M9 20H5V4h4'',
         ''M15 16l4-4-4-4'',
         ''M19 12H9'']),
     (''plus'',
        [''M12 5v14'',
         ''M5 12h14'']),
     (''user'',
        [''M12 12a4 4 0 1 0 0-8 4 4 0 0 0 0 8z'',
         ''M4 21a8 8 0 0 1 16 0'']),
     (''pencil'',
        [''M12 20h9'',
         ''M16.5 3.5a2.12 2.12 0 0 1 3 3L7 19l-4 1 1-4z'']),
     (''chevron-down'',
        [''M6 9l6 6 6-6'']),
     (''chevron-right'',
        [''M9 6l6 6-6 6'']),
     (''phone'',
        [''M22 16.9v3a2 2 0 0 1-2.2 2 19.8 19.8 0 0 1-8.6-3.1 19.5 19.5 0 0 1-6-6A19.8 19.8 0 0 1 2.1 4.2 2 2 0 0 1 4.1 2h3a2 2 0 0 1 2 1.7c.1 1 .4 1.9.7 2.8a2 2 0 0 1-.5 2.1L8.1 9.9a16 16 0 0 0 6 6l1.3-1.3a2 2 0 0 1 2.1-.4c.9.3 1.8.5 2.8.6a2 2 0 0 1 1.7 2z'']),
     (''mobile'',
        [''M7 2h10a1 1 0 0 1 1 1v18a1 1 0 0 1-1 1H7a1 1 0 0 1-1-1V3a1 1 0 0 1 1-1z'',
         ''M11 18h2'']),
     (''fax'',
        [''M6 9V3h12v6'',
         ''M6 18h12v3H6z'',
         ''M4 9h16a2 2 0 0 1 2 2v5a2 2 0 0 1-2 2h-1'',
         ''M6 18H5a2 2 0 0 1-2-2v-5a2 2 0 0 1 2-2'']),
     (''mail'',
        [''M4 4h16a1 1 0 0 1 1 1v14a1 1 0 0 1-1 1H4a1 1 0 0 1-1-1V5a1 1 0 0 1 1-1z'',
         ''M3 6l9 7 9-7'']),
     (''globe'',
        [''M12 21a9 9 0 1 0 0-18 9 9 0 0 0 0 18z'',
         ''M3 12h18'',
         ''M12 3a15 15 0 0 1 0 18a15 15 0 0 1 0-18z'']),
     (''map-pin'',
        [''M20 10c0 6-8 12-8 12s-8-6-8-12a8 8 0 0 1 16 0z'',
         ''M12 12a2.5 2.5 0 1 0 0-5 2.5 2.5 0 0 0 0 5z'']),
     (''clock'',
        [''M12 21a9 9 0 1 0 0-18 9 9 0 0 0 0 18z'',
         ''M12 7v5l3 2'']),
     (''trash'',
        [''M3 6h18'',
         ''M8 6V4a1 1 0 0 1 1-1h6a1 1 0 0 1 1 1v2'',
         ''M19 6l-1 14a2 2 0 0 1-2 2H8a2 2 0 0 1-2-2L5 6'',
         ''M10 11v6'',
         ''M14 11v6''])]"

definition icon :: "string \<Rightarrow> string option \<Rightarrow> 'a node" where
  "icon name label =
     (let svg = Elem ''svg''
            [(''viewBox'', ''0 0 24 24''), (''fill'', ''none''), (''stroke'', ''currentColor''),
             (''stroke-width'', ''1.75''), (''stroke-linecap'', ''round''),
             (''stroke-linejoin'', ''round''), (''class'', ''icon'')] [] [] [];
          named = (case label of
              None \<Rightarrow> set_attribute ''aria-hidden'' ''true'' svg
            | Some l \<Rightarrow> add_child (set_text l (Elem ''title'' [] [] [] [])) (set_attribute ''role'' ''img'' svg));
          paths = (case map_of iconPaths name of None \<Rightarrow> [] | Some ps \<Rightarrow> ps)
      in foldl (\<lambda>x d. add_child (Elem ''path'' [(''d'', d)] [] [] []) x) named paths)"

lemma icon_no_actions [node_simps, simp]: "actions_of (icon name label) = []"
proof -
  have "actions_of (foldl (\<lambda>x d. add_child (Elem ''path'' [(''d'', d)] [] [] []) x) x ds) = actions_of x"
    for x :: "'a node" and ds :: "string list"
  proof (induction ds arbitrary: x)
    case (Cons d ds)
    then show ?case by (cases x) simp_all
  qed simp
  then show ?thesis by (simp add: icon_def Let_def split: option.splits)
qed

end
