(* ===== verification/Format.thy ===== *)
theory Format
  imports I18n
begin

text \<open>
  Formatting (\<open>src/format.ts\<close>): money between integer minor units and what a person reads or
  types, dates and times in the viewer's locale, relative times, byte counts, and the cache of
  formatters. The formatters themselves belong to the browser and are the parameter \<open>intl\<close>; what
  is modelled is everything the code does around them. The formatting functions come in two
  forms: the plain one, which the pages use, and \<open>run_format\<close>, which threads the cache the code
  keeps; \<open>format_cache_transparent\<close> shows that they agree.
\<close>

section \<open>Money\<close>

record money_format =
  mf_digits :: nat
  mf_per_major :: int

definition DEFAULT_MONEY_FORMAT :: money_format where
  "DEFAULT_MONEY_FORMAT = \<lparr>mf_digits = 2, mf_per_major = 100\<rparr>"

text \<open>\<open>currency\<close> in the style of the locale, or a plain number where the constructor threw.\<close>

definition formatMoney :: "intl \<Rightarrow> string \<Rightarrow> int \<Rightarrow> string \<Rightarrow> money_format \<Rightarrow> string" where
  "formatMoney i locale minorUnits currency money =
     (let amount = (minorUnits, mf_per_major money)
      in case currency_format i locale currency (mf_digits money) of
           Some f \<Rightarrow> f amount
         | None \<Rightarrow> plain_format i locale (mf_digits money) amount @ '' '' @ currency)"

text \<open>\<open>s.replace(/\s/gu, "")\<close>\<close>

function remove_white :: "string \<Rightarrow> string" where
  "remove_white [] = []"
| "remove_white (c # cs) =
     (let n = white_prefix js_whitespace (c # cs)
      in if n = 0 then c # remove_white cs else remove_white (drop n (c # cs)))"
  by pat_completeness auto
termination
  by (relation "measure length") auto

definition money_char :: "char \<Rightarrow> bool" where
  "money_char c \<longleftrightarrow> is_digit c \<or> c = CHR ''.'' \<or> c = CHR '','' \<or> c = CHR ''-''"

text \<open>
  The match of \<open>/^(-?)(\d*)(?:[.,](\d*))?$/u\<close>: whether there is a sign, the whole part and the
  fraction.
\<close>

definition money_match :: "string \<Rightarrow> (bool \<times> string \<times> string) option" where
  "money_match s =
     (let neg = starts_with s ''-'';
          body = (if neg then drop 1 s else s);
          whole = takeWhile is_digit body
      in case dropWhile is_digit body of
           [] \<Rightarrow> Some (neg, whole, [])
         | c # rest \<Rightarrow>
             if (c = CHR ''.'' \<or> c = CHR '','') \<and> list_all is_digit rest
             then Some (neg, whole, rest) else None)"

definition parseMoney :: "string \<Rightarrow> money_format \<Rightarrow> int option" where
  "parseMoney txt money =
     (let digits = mf_digits money;
          trimmed = remove_white (js_trim txt)
      in if trimmed = [] then None
         else case money_match (filter money_char trimmed) of
           None \<Rightarrow> None
         | Some (neg, whole, fraction) \<Rightarrow>
             if whole = [] \<and> fraction = [] then None
             else let scaled = take digits (pad_end digits (CHR ''0'') fraction);
                      written = nat_of_digits (or_else whole ''0'' @ scaled);
                      value = round_div (int written * mf_per_major money) (10 ^ digits)
                  in Some (if neg then - value else value))"

definition moneyInputValue :: "int \<Rightarrow> money_format \<Rightarrow> string" where
  "moneyInputValue minorUnits money =
     (let digits = mf_digits money
      in if digits = 0 then string_of_int minorUnits
         else let written = round_div (minorUnits * 10 ^ digits) (mf_per_major money);
                  places = pad_start (digits + 1) (CHR ''0'') (string_of_nat (nat \<bar>written\<bar>))
              in (if written < 0 then ''-'' else []) @ take (length places - digits) places
                 @ ''.'' @ drop (length places - digits) places)"

subsection \<open>What is written is read back\<close>

lemma money_char_simps [simp]:
  "is_digit c \<Longrightarrow> money_char c" "money_char (CHR ''.'')" "money_char (CHR ''-'')"
  by (simp_all add: money_char_def)

lemma money_char_range: "money_char c \<Longrightarrow> 44 \<le> byte c \<and> byte c \<le> 57"
  by (auto simp: money_char_def is_digit_def)

lemma white_first:
  assumes "44 \<le> byte c" and "byte c \<le> 57"
  shows "white_prefix js_whitespace (c # s) = 0"
    and "white_prefix (map rev js_whitespace) (c # s) = 0"
proof -
  have ne: "\<not> starts_with (c # s) w"
    if "w \<noteq> []" and "byte (hd w) < 44 \<or> 57 < byte (hd w)" for w :: string
    using that assms by (cases w) auto
  have "list_all (\<lambda>w. w \<noteq> [] \<and> (byte (hd w) < 44 \<or> 57 < byte (hd w))) js_whitespace"
    by (simp add: js_whitespace_def)
  then have "filter (starts_with (c # s)) js_whitespace = []"
    by (auto simp: filter_empty_conv list_all_iff dest: ne)
  moreover have "list_all (\<lambda>w. w \<noteq> [] \<and> (byte (hd w) < 44 \<or> 57 < byte (hd w))) (map rev js_whitespace)"
    by (simp add: js_whitespace_def)
  then have "filter (starts_with (c # s)) (map rev js_whitespace) = []"
    unfolding filter_empty_conv list_all_iff using ne by blast
  ultimately show "white_prefix js_whitespace (c # s) = 0"
    and "white_prefix (map rev js_whitespace) (c # s) = 0"
    by (simp_all add: white_prefix_def)
qed

lemma strip_money: "list_all money_char s \<Longrightarrow> ws \<in> {js_whitespace, map rev js_whitespace} \<Longrightarrow>
   strip_start ws s = s"
proof (cases s)
  case Nil
  then show ?thesis by (simp add: strip_start.simps [of ws "[]"] Let_def)
next
  case (Cons c r)
  moreover assume "list_all money_char s" and "ws \<in> {js_whitespace, map rev js_whitespace}"
  ultimately show ?thesis
    by (auto intro!: strip_start_idle white_first dest: money_char_range)
qed

lemma trim_money [simp]: "list_all money_char s \<Longrightarrow> js_trim s = s"
  by (simp add: js_trim_def trim_start_def trim_end_def strip_money)

lemma remove_white_money [simp]: "list_all money_char s \<Longrightarrow> remove_white s = s"
  by (induction s) (auto simp: Let_def white_first dest: money_char_range)

lemma filter_money [simp]: "list_all money_char s \<Longrightarrow> filter money_char s = s"
  by (induction s) auto

lemma takeWhile_digits:
  assumes "list_all is_digit w"
  shows "takeWhile is_digit (w @ CHR ''.'' # f) = w"
    and "dropWhile is_digit (w @ CHR ''.'' # f) = CHR ''.'' # f"
  using assms by (induction w) (auto simp: is_digit_def)

lemma digits_not_sign: "list_all is_digit w \<Longrightarrow> w \<noteq> [] \<Longrightarrow> \<not> starts_with (w @ r) ''-''"
  by (cases w) (auto simp: is_digit_def)

lemma money_match_plain:
  assumes "list_all is_digit w" and "list_all is_digit f" and "w \<noteq> []"
  shows "money_match ((if neg then ''-'' else []) @ w @ ''.'' @ f) = Some (neg, w, f)"
  using assms digits_not_sign [of w "CHR ''.'' # f"]
  by (cases neg) (simp_all add: money_match_def takeWhile_digits)

lemma money_match_whole:
  assumes "list_all is_digit w" and "w \<noteq> []"
  shows "money_match ((if neg then ''-'' else []) @ w) = Some (neg, w, [])"
proof -
  have w: "takeWhile is_digit w = w" "dropWhile is_digit w = []"
    using assms by (auto simp: takeWhile_eq_all_conv dropWhile_eq_Nil_conv list_all_iff)
  have "\<not> starts_with w ''-''"
    using assms digits_not_sign [of w "[]"] by simp
  then show ?thesis
    by (cases neg) (simp_all add: money_match_def w Let_def)
qed

lemma parseMoney_match:
  assumes "list_all money_char s" and "s \<noteq> []" and "money_match s = Some (neg, w, f)" and "w \<noteq> []"
  shows "parseMoney s mf =
     (let v = round_div (int (nat_of_digits (w @ take (mf_digits mf) (pad_end (mf_digits mf) (CHR ''0'') f)))
                * mf_per_major mf) (10 ^ mf_digits mf)
      in Some (if neg then - v else v))"
  using assms by (simp add: parseMoney_def or_else_def Let_def)

text \<open>The arithmetic: two nearest-integer conversions undo one another while the minor unit is
  not finer than the written places.\<close>

lemma round_trip_pos:
  fixes m p t :: int
  assumes "0 < p" and "p \<le> t"
  shows "round_div (round_div (m * t) p * p) t = m"
proof (cases "p = t")
  case True
  then show ?thesis using assms by simp
next
  case False
  let ?w = "round_div (m * t) p"
  note b = round_div_bounds [OF assms(1), of "m * t"]
  show ?thesis
  proof (rule round_div_unique)
    show "0 < t" using assms by simp
    show "2 * (?w * p) - t < 2 * t * m"
      using b(2) False assms by (simp add: algebra_simps)
    show "2 * t * m \<le> 2 * (?w * p) + t"
      using b(1) assms by (simp add: algebra_simps)
  qed
qed

lemma round_trip_neg:
  fixes m p t :: int
  assumes "0 < p" and "p \<le> t"
  shows "round_div (- round_div (m * t) p * p) t = - m"
proof -
  let ?w = "round_div (m * t) p"
  note b = round_div_bounds [OF assms(1), of "m * t"]
  show ?thesis
  proof (rule round_div_unique)
    show "0 < t" using assms by simp
    show "2 * (- ?w * p) - t < 2 * t * (- m)"
      using b(1) assms by (simp add: algebra_simps)
    show "2 * t * (- m) \<le> 2 * (- ?w * p) + t"
      using b(2) assms by (simp add: algebra_simps)
  qed
qed

lemma pad_start_digits:
  "list_all is_digit s \<Longrightarrow> list_all is_digit (pad_start n (CHR ''0'') s)"
  by (auto simp: pad_start_def list_all_iff is_digit_def)

lemma nat_of_digits_pad [simp]: "nat_of_digits (pad_start n (CHR ''0'') s) = nat_of_digits s"
  by (simp add: pad_start_def)

lemma length_pad_start: "n \<le> length (pad_start n c s)"
  by (simp add: pad_start_def)

lemma money_roundtrip_digits:
  assumes "0 < mf_digits f" and "0 < mf_per_major f" and "mf_per_major f \<le> 10 ^ mf_digits f"
  shows "parseMoney (moneyInputValue m f) f = Some m"
proof -
  define d where "d = mf_digits f"
  define w where "w = round_div (m * 10 ^ d) (mf_per_major f)"
  define places where "places = pad_start (d + 1) (CHR ''0'') (string_of_nat (nat \<bar>w\<bar>))"
  define k where "k = length places - d"
  have dig: "list_all is_digit places"
    by (simp add: places_def pad_start_digits string_of_nat_digits)
  have len: "d < length places"
    using length_pad_start [of "d + 1"] by (simp add: places_def less_eq_Suc_le)
  have out: "moneyInputValue m f = (if w < 0 then ''-'' else []) @ take k places @ ''.'' @ drop k places"
    using assms(1) by (simp add: moneyInputValue_def Let_def d_def w_def places_def k_def)
  have td: "list_all is_digit (take k places)" "list_all is_digit (drop k places)" "take k places \<noteq> []"
    using dig len by (auto simp: list_all_iff k_def dest: in_set_takeD in_set_dropD)
  have mc: "list_all money_char (moneyInputValue m f)"
    using td(1,2) by (auto simp: out list_all_iff)
  have frac: "take d (pad_end d (CHR ''0'') (drop k places)) = drop k places"
    using len by (simp add: pad_end_def k_def)
  have joined: "nat_of_digits (take k places @ drop k places) = nat \<bar>w\<bar>"
    by (simp add: places_def)
  have match: "money_match (moneyInputValue m f) = Some (w < 0, take k places, drop k places)"
    using money_match_plain [OF td, of "w < 0"] by (simp only: out)
  have "moneyInputValue m f \<noteq> []" by (simp add: out)
  from parseMoney_match [OF mc this match td(3), of f]
  have "parseMoney (moneyInputValue m f) f =
     Some (if w < 0 then - round_div (\<bar>w\<bar> * mf_per_major f) (10 ^ d)
           else round_div (\<bar>w\<bar> * mf_per_major f) (10 ^ d))"
    by (simp only: d_def [symmetric] frac joined Let_def int_nat_eq abs_ge_zero if_True)
  also have "\<dots> = Some m"
    using round_trip_pos [of "mf_per_major f" "10 ^ d" m] round_trip_neg [of "mf_per_major f" "10 ^ d" m]
      assms(2,3) by (simp add: w_def d_def)
  finally show ?thesis .
qed

lemma money_roundtrip_whole:
  assumes "mf_digits f = 0" and "mf_per_major f = 1"
  shows "parseMoney (moneyInputValue m f) f = Some m"
proof -
  let ?s = "string_of_nat (nat \<bar>m\<bar>)"
  have dig: "list_all is_digit ?s" by (rule string_of_nat_digits)
  have out: "moneyInputValue m f = (if m < 0 then ''-'' else []) @ ?s"
    using assms(1) by (simp add: moneyInputValue_def string_of_int_def)
  have mc: "list_all money_char (moneyInputValue m f)"
    using dig by (auto simp: out list_all_iff)
  have "round_div \<bar>m\<bar> 1 = \<bar>m\<bar>"
    using round_div_exact [of 1 "\<bar>m\<bar>"] by simp
  moreover have "money_match (moneyInputValue m f) = Some (m < 0, ?s, [])"
    using money_match_whole [OF dig, of "m < 0"] by (simp only: out) simp
  moreover have "moneyInputValue m f \<noteq> []" by (simp add: out)
  ultimately show ?thesis
    using mc assms by (simp add: parseMoney_match [of _ "m < 0" ?s "[]"] Let_def)
qed



section \<open>Moments\<close>

text \<open>
  A value that is formatted is a \<open>Date\<close>, which may be invalid, or a timestamp the API sent.
\<close>

datatype moment = AtTime "int option" | Stamp string

definition toDate :: "intl \<Rightarrow> moment \<Rightarrow> int option" where
  "toDate i v = (case v of AtTime d \<Rightarrow> d | Stamp s \<Rightarrow> parse_date i s)"

definition unformattable :: "moment \<Rightarrow> int option \<Rightarrow> string option" where
  "unformattable v d =
     (case d of Some _ \<Rightarrow> None | None \<Rightarrow> Some (case v of Stamp s \<Rightarrow> s | AtTime _ \<Rightarrow> []))"

text \<open>What a formatter makes of a moment, or the moment as it stands.\<close>

definition formatted :: "intl \<Rightarrow> (int \<Rightarrow> string) \<Rightarrow> moment \<Rightarrow> string" where
  "formatted i f v =
     (let d = toDate i v
      in case unformattable v d of Some s \<Rightarrow> s | None \<Rightarrow> f (the d))"

definition formatDate :: "intl \<Rightarrow> string \<Rightarrow> moment \<Rightarrow> string" where
  "formatDate i locale v = formatted i (date_format i locale) v"

definition formatDateTime :: "intl \<Rightarrow> string \<Rightarrow> moment \<Rightarrow> string" where
  "formatDateTime i locale v = formatted i (date_time_format i locale) v"

definition same_day :: "intl \<Rightarrow> int option \<Rightarrow> int \<Rightarrow> bool" where
  "same_day i d now =
     (case d of
        None \<Rightarrow> False
      | Some n \<Rightarrow>
          let a = local_time_of i n; b = local_time_of i now
          in lt_year a = lt_year b \<and> lt_month a = lt_month b \<and> lt_date a = lt_date b)"

definition formatChatTime :: "intl \<Rightarrow> string \<Rightarrow> moment \<Rightarrow> int \<Rightarrow> string" where
  "formatChatTime i locale v now =
     (if \<not> same_day i (toDate i v) now then formatDateTime i locale v
      else formatted i (time_format i locale) v)"

definition orderTitle :: "intl \<Rightarrow> string \<Rightarrow> 'a order_header_scheme \<Rightarrow> string" where
  "orderTitle i locale order =
     o_restaurant_name order @ '' '' @ em_dash @ '' ''
     @ formatDateTime i locale (Stamp (o_fulfilment_at order))"

text \<open>Midnight of 2024-01-01 in UTC, a Monday.\<close>

definition reference_monday :: int where
  "reference_monday = 1704067200000"

definition formatWeekday :: "intl \<Rightarrow> string \<Rightarrow> nat \<Rightarrow> string" where
  "formatWeekday i locale isoDay =
     weekday_format i locale (reference_monday + (int isoDay - 1) * 86400000 + 12 * 3600000)"

text \<open>
  \<open>Number.parseInt(s, 10)\<close>: leading white space and a sign are read, and whatever follows the
  digits is ignored; \<open>None\<close> is NaN.
\<close>

definition parse_int :: "string \<Rightarrow> int option" where
  "parse_int s =
     (let t = trim_start s;
          neg = starts_with t ''-'';
          body = (if neg \<or> starts_with t ''+'' then drop 1 t else t);
          digits = takeWhile is_digit body
      in if digits = [] then None
         else Some (if neg then - int (nat_of_digits digits) else int (nat_of_digits digits)))"

text \<open>
  A clock time. A value with no colon leaves the minutes undefined, which is not NaN: the code
  goes on, and the formatter throws on the invalid date. That is the outer \<open>None\<close>.
\<close>

definition formatClockTime :: "intl \<Rightarrow> string \<Rightarrow> string \<Rightarrow> string option" where
  "formatClockTime i locale value =
     (let parts = split_on (CHR '':'') value
      in case parse_int (hd parts) of
           None \<Rightarrow> Some value
         | Some hours \<Rightarrow>
             (case at parts 1 of
                None \<Rightarrow> None
              | Some m \<Rightarrow>
                  (case parse_int m of
                     None \<Rightarrow> Some value
                   | Some minutes \<Rightarrow>
                       Some (clock_format i locale (reference_monday + hours * 3600000 + minutes * 60000)))))"

definition formatNumber :: "intl \<Rightarrow> string \<Rightarrow> int \<times> int \<Rightarrow> string" where
  "formatNumber i locale value = number_format i locale value"

definition formatBytes :: "intl \<Rightarrow> string \<Rightarrow> int \<Rightarrow> string" where
  "formatBytes i locale bytes =
     (let kib = 1024; mib = kib * kib
      in if mib \<le> bytes then formatNumber i locale (round_div (bytes * 10) mib, 10) @ '' MiB''
         else if kib \<le> bytes then formatNumber i locale (round_div bytes kib, 1) @ '' KiB''
         else formatNumber i locale (bytes, 1) @ '' B'')"

section \<open>Relative time\<close>

definition chooseUnit :: "int \<Rightarrow> int \<Rightarrow> int \<times> time_unit" where
  "chooseUnit seconds absolute =
     (let minute = 60; hour = 60 * minute; day = 24 * hour; week = 7 * day
      in if absolute < minute then (seconds, Second)
         else if absolute < hour then (round_div seconds minute, Minute)
         else if absolute < day then (round_div seconds hour, Hour)
         else if absolute < week then (round_div seconds day, Day)
         else (round_div seconds week, Week))"

definition formatRelativeTime :: "intl \<Rightarrow> string \<Rightarrow> moment \<Rightarrow> int \<Rightarrow> string" where
  "formatRelativeTime i locale target now =
     formatted i
       (\<lambda>n. let seconds = round_div (n - now) 1000; (value, unit) = chooseUnit seconds \<bar>seconds\<bar>
             in relative_format i locale value unit)
       target"

fun unit_seconds :: "time_unit \<Rightarrow> int" where
  "unit_seconds Second = 1"
| "unit_seconds Minute = 60"
| "unit_seconds Hour = 3600"
| "unit_seconds Day = 86400"
| "unit_seconds Week = 604800"

lemma round_div_near:
  assumes "0 < b"
  shows "2 * \<bar>b * round_div a b - a\<bar> \<le> b"
  using round_div_bounds [OF assms, of a] by (simp add: abs_if algebra_simps)

lemma round_div_zero: "0 < b \<Longrightarrow> b \<le> \<bar>a\<bar> \<Longrightarrow> round_div a b \<noteq> 0"
  using round_div_bounds [of b a] by auto

lemma round_div_le:
  assumes "0 < b" and "\<bar>a\<bar> < k * b"
  shows "\<bar>round_div a b\<bar> \<le> k"
proof -
  note n = round_div_bounds [OF assms(1), of a]
  have "2 * b * round_div a b < 2 * b * (k + 1)" and "2 * b * (- k - 1) < 2 * b * round_div a b"
    using n assms by (simp_all add: algebra_simps abs_if split: if_splits)
  then have "round_div a b < k + 1" and "- k - 1 < round_div a b"
    using assms(1) by (simp_all add: mult_less_cancel_left_pos)
  then show ?thesis by linarith
qed

text \<open>
  C40: the unit of a relative time fits the distance: what is said is within half a unit of the
  distance, is never a rounded-off zero, and no unit but the week is asked to count further than
  the next larger one.
\<close>

theorem chooseUnit_fits:
  "case chooseUnit s \<bar>s\<bar> of (value, unit) \<Rightarrow>
     2 * \<bar>unit_seconds unit * value - s\<bar> \<le> unit_seconds unit
     \<and> (value = 0) = (s = 0)
     \<and> (unit = Week \<or> \<bar>value\<bar> \<le> (if unit = Day then 7 else if unit = Hour then 24 else 60))"
proof -
  consider "\<bar>s\<bar> < 60" | "60 \<le> \<bar>s\<bar>" "\<bar>s\<bar> < 3600" | "3600 \<le> \<bar>s\<bar>" "\<bar>s\<bar> < 86400"
    | "86400 \<le> \<bar>s\<bar>" "\<bar>s\<bar> < 604800" | "604800 \<le> \<bar>s\<bar>"
    by linarith
  then show ?thesis
  proof cases
    case 2
    then show ?thesis
      using round_div_near [of 60 s] round_div_zero [of 60 s] round_div_le [of 60 s 60]
      by (auto simp: chooseUnit_def)
  next
    case 3
    then show ?thesis
      using round_div_near [of 3600 s] round_div_zero [of 3600 s] round_div_le [of 3600 s 24]
      by (auto simp: chooseUnit_def)
  next
    case 4
    then show ?thesis
      using round_div_near [of 86400 s] round_div_zero [of 86400 s] round_div_le [of 86400 s 7]
      by (auto simp: chooseUnit_def)
  next
    case 5
    then show ?thesis
      using round_div_near [of 604800 s] round_div_zero [of 604800 s]
      by (auto simp: chooseUnit_def)
  qed (simp add: chooseUnit_def)
qed

section \<open>Timestamps and inputs\<close>

text \<open>\<open>toISOString\<close> throws on an invalid date.\<close>

definition toApiTimestamp :: "intl \<Rightarrow> int option \<Rightarrow> string option" where
  "toApiTimestamp i d = map_option (iso_string i) d"

definition two_digits :: "nat \<Rightarrow> string" where
  "two_digits n = pad_start 2 (CHR ''0'') (string_of_nat n)"

definition localInputValue :: "intl \<Rightarrow> moment \<Rightarrow> string" where
  "localInputValue i v =
     (case toDate i v of
        None \<Rightarrow> ''NaN-NaN-NaNTNaN:NaN''
      | Some n \<Rightarrow>
          let d = local_time_of i n
          in string_of_int (lt_year d) @ ''-'' @ two_digits (lt_month d + 1) @ ''-''
             @ two_digits (lt_date d) @ ''T'' @ two_digits (lt_hours d) @ '':''
             @ two_digits (lt_minutes d))"

definition fulfilmentLabel :: "translator \<Rightarrow> string \<Rightarrow> string" where
  "fulfilmentLabel t fulfilment =
     translate t (if fulfilment = ''delivery'' then ''order.fulfilment.delivery''
                  else ''order.fulfilment.pickup'') []"

section \<open>The cache of formatters\<close>

text \<open>A formatter object is what it was constructed from.\<close>

datatype formatter =
    DateF string
  | DateTimeF string
  | TimeF string
  | WeekdayF string
  | ClockF string
  | NumberF string
  | RelativeF string
  | CurrencyF string string nat
  | PlainF string nat

text \<open>The options a formatter is asked for; each call site has one.\<close>

datatype options = ODate | ODateTime | OTime | OWeekday | OClock | ONumber | ORelative | OMoney string nat

type_synonym formatter_cache = "(string \<times> formatter) list"

fun option_key :: "options \<Rightarrow> string \<Rightarrow> string" where
  "option_key ODate locale = ''d:'' @ locale"
| "option_key ODateTime locale = ''dt:'' @ locale"
| "option_key OTime locale = ''t:'' @ locale"
| "option_key OWeekday locale = ''w:'' @ locale"
| "option_key OClock locale = ''ct:'' @ locale"
| "option_key ONumber locale = ''n:'' @ locale"
| "option_key ORelative locale = ''r:'' @ locale"
| "option_key (OMoney currency digits) locale =
     ''m:'' @ locale @ '':'' @ currency @ '':'' @ string_of_nat digits"

fun build :: "intl \<Rightarrow> options \<Rightarrow> string \<Rightarrow> formatter" where
  "build i ODate locale = DateF locale"
| "build i ODateTime locale = DateTimeF locale"
| "build i OTime locale = TimeF locale"
| "build i OWeekday locale = WeekdayF locale"
| "build i OClock locale = ClockF locale"
| "build i ONumber locale = NumberF locale"
| "build i ORelative locale = RelativeF locale"
| "build i (OMoney currency digits) locale =
     (case currency_format i locale currency digits of
        Some _ \<Rightarrow> CurrencyF locale currency digits
      | None \<Rightarrow> PlainF locale digits)"

definition cached :: "intl \<Rightarrow> options \<Rightarrow> string \<Rightarrow> formatter_cache \<Rightarrow> formatter \<times> formatter_cache" where
  "cached i opt locale c =
     (case map_of c (option_key opt locale) of
        Some existing \<Rightarrow> (existing, c)
      | None \<Rightarrow>
          let created = build i opt locale
          in (created, AList.update (option_key opt locale) created c))"

text \<open>\<open>formatter.format\<close> on a moment, on a quotient and on a relative distance.\<close>

fun format_moment :: "intl \<Rightarrow> formatter \<Rightarrow> int \<Rightarrow> string" where
  "format_moment i (DateF l) n = date_format i l n"
| "format_moment i (DateTimeF l) n = date_time_format i l n"
| "format_moment i (TimeF l) n = time_format i l n"
| "format_moment i (WeekdayF l) n = weekday_format i l n"
| "format_moment i (ClockF l) n = clock_format i l n"
| "format_moment i _ n = []"

fun format_quotient :: "intl \<Rightarrow> formatter \<Rightarrow> int \<times> int \<Rightarrow> string" where
  "format_quotient i (NumberF l) v = number_format i l v"
| "format_quotient i (PlainF l d) v = plain_format i l d v"
| "format_quotient i (CurrencyF l cur d) v =
     (case currency_format i l cur d of Some f \<Rightarrow> f v | None \<Rightarrow> [])"
| "format_quotient i _ v = []"

fun format_distance :: "intl \<Rightarrow> formatter \<Rightarrow> int \<Rightarrow> time_unit \<Rightarrow> string" where
  "format_distance i (RelativeF l) n u = relative_format i l n u"
| "format_distance i _ n u = []"

fun currency_style :: "formatter \<Rightarrow> bool" where
  "currency_style (CurrencyF _ _ _) = True"
| "currency_style _ = False"

datatype format_call =
    CallDate moment
  | CallDateTime moment
  | CallChatTime moment int
  | CallWeekday nat
  | CallNumber "int \<times> int"
  | CallMoney int string money_format
  | CallRelative moment int

definition cached_moment ::
  "intl \<Rightarrow> options \<Rightarrow> string \<Rightarrow> moment \<Rightarrow> formatter_cache \<Rightarrow> string \<times> formatter_cache" where
  "cached_moment i opt locale v c =
     (let d = toDate i v
      in case unformattable v d of
           Some s \<Rightarrow> (s, c)
         | None \<Rightarrow> let (f, c') = cached i opt locale c in (format_moment i f (the d), c'))"

fun run_format :: "intl \<Rightarrow> string \<Rightarrow> format_call \<Rightarrow> formatter_cache \<Rightarrow> string \<times> formatter_cache" where
  "run_format i locale (CallDate v) c = cached_moment i ODate locale v c"
| "run_format i locale (CallDateTime v) c = cached_moment i ODateTime locale v c"
| "run_format i locale (CallChatTime v now) c =
     (if \<not> same_day i (toDate i v) now then cached_moment i ODateTime locale v c
      else cached_moment i OTime locale v c)"
| "run_format i locale (CallWeekday isoDay) c =
     (let (f, c') = cached i OWeekday locale c
      in (format_moment i f (reference_monday + (int isoDay - 1) * 86400000 + 12 * 3600000), c'))"
| "run_format i locale (CallNumber v) c =
     (let (f, c') = cached i ONumber locale c in (format_quotient i f v, c'))"
| "run_format i locale (CallMoney minorUnits currency money) c =
     (let (f, c') = cached i (OMoney currency (mf_digits money)) locale c;
          amount = format_quotient i f (minorUnits, mf_per_major money)
      in (if currency_style f then amount else amount @ '' '' @ currency, c'))"
| "run_format i locale (CallRelative target now) c =
     (let d = toDate i target
      in case unformattable target d of
           Some s \<Rightarrow> (s, c)
         | None \<Rightarrow>
             let seconds = round_div (the d - now) 1000; (value, unit) = chooseUnit seconds \<bar>seconds\<bar>;
                 (f, c') = cached i ORelative locale c
             in (format_distance i f value unit, c'))"

text \<open>The same call on a formatter made for it alone.\<close>

fun plain_call :: "intl \<Rightarrow> string \<Rightarrow> format_call \<Rightarrow> string" where
  "plain_call i locale (CallDate v) = formatDate i locale v"
| "plain_call i locale (CallDateTime v) = formatDateTime i locale v"
| "plain_call i locale (CallChatTime v now) = formatChatTime i locale v now"
| "plain_call i locale (CallWeekday isoDay) = formatWeekday i locale isoDay"
| "plain_call i locale (CallNumber v) = formatNumber i locale v"
| "plain_call i locale (CallMoney n currency money) = formatMoney i locale n currency money"
| "plain_call i locale (CallRelative target now) = formatRelativeTime i locale target now"

definition sound_entry :: "intl \<Rightarrow> string \<times> formatter \<Rightarrow> bool" where
  "sound_entry i e \<longleftrightarrow>
     (\<exists>opt locale. CHR '':'' \<notin> set locale \<and> e = (option_key opt locale, build i opt locale))"

definition sound_cache :: "intl \<Rightarrow> formatter_cache \<Rightarrow> bool" where
  "sound_cache i c \<longleftrightarrow> (\<forall>e \<in> set c. sound_entry i e)"

lemma no_colon_in_digits: "CHR '':'' \<notin> set (string_of_nat n)"
  using string_of_nat_digits [of n] by (auto simp: list_all_iff is_digit_def)

lemma cut_at_colon:
  "CHR '':'' \<notin> set a \<Longrightarrow> CHR '':'' \<notin> set b \<Longrightarrow> a @ CHR '':'' # x = b @ CHR '':'' # y \<Longrightarrow> a = b \<and> x = y"
  by (induction a arbitrary: b; case_tac b) auto

lemma cut_at_last_colon:
  assumes "CHR '':'' \<notin> set a" and "CHR '':'' \<notin> set b"
    and "x @ CHR '':'' # a = y @ CHR '':'' # b"
  shows "a = b \<and> x = y"
proof -
  have "rev a @ CHR '':'' # rev x = rev b @ CHR '':'' # rev y"
    using arg_cong [OF assms(3), of rev] by simp
  with cut_at_colon [of "rev a" "rev b" "rev x" "rev y"] assms(1,2) show ?thesis by simp
qed

text \<open>Two call sites that share a key ask for the same formatter.\<close>

lemma option_key_inject:
  assumes "CHR '':'' \<notin> set l" and "CHR '':'' \<notin> set l'"
    and "option_key opt l = option_key opt' l'"
  shows "opt = opt' \<and> l = l'"
proof (cases "(\<exists>cur n. opt = OMoney cur n) \<and> (\<exists>cur n. opt' = OMoney cur n)")
  case True
  then obtain cur n cur' n' where o: "opt = OMoney cur n" "opt' = OMoney cur' n'" by blast
  with assms(3) have "l @ CHR '':'' # (cur @ CHR '':'' # string_of_nat n)
      = l' @ CHR '':'' # (cur' @ CHR '':'' # string_of_nat n')"
    by simp
  from cut_at_colon [OF assms(1,2) this] have "l = l'"
    and "cur @ CHR '':'' # string_of_nat n = cur' @ CHR '':'' # string_of_nat n'" by auto
  with cut_at_last_colon [OF no_colon_in_digits no_colon_in_digits this(2)] o
  show ?thesis by simp
next
  case False
  with assms show ?thesis by (cases opt; cases opt') auto
qed

lemma cached_sound:
  assumes "sound_cache i c" and "CHR '':'' \<notin> set locale"
  shows "fst (cached i opt locale c) = build i opt locale"
    and "sound_cache i (snd (cached i opt locale c))"
proof -
  have hit: "f = build i opt locale" if "map_of c (option_key opt locale) = Some f" for f
  proof -
    from that have "(option_key opt locale, f) \<in> set c" by (rule map_of_SomeD)
    with assms(1) obtain o' l' where "CHR '':'' \<notin> set l'"
      "option_key opt locale = option_key o' l'" "f = build i o' l'"
      by (auto simp: sound_cache_def sound_entry_def)
    with option_key_inject [OF assms(2)] show ?thesis by blast
  qed
  then show "fst (cached i opt locale c) = build i opt locale"
    by (simp add: cached_def Let_def split: option.splits)
  have "set (AList.update (option_key opt locale) (build i opt locale) c)
      \<subseteq> insert (option_key opt locale, build i opt locale) (set c)"
    by (induction c) auto
  then show "sound_cache i (snd (cached i opt locale c))"
    using assms by (auto simp: cached_def Let_def sound_cache_def sound_entry_def split: option.splits)
qed

lemma cached_pairs:
  assumes "sound_cache i c" and "CHR '':'' \<notin> set locale"
  obtains cc where "\<And>opt. cached i opt locale c = (build i opt locale, cc opt)"
    and "\<And>opt. sound_cache i (cc opt)"
proof (rule that [of "\<lambda>opt. snd (cached i opt locale c)"])
  show "cached i opt locale c = (build i opt locale, snd (cached i opt locale c))" for opt
    using cached_sound(1) [OF assms, of opt] by (metis prod.collapse)
qed (rule cached_sound(2) [OF assms])

lemma format_moment_build:
  "format_moment i (DateF l) = date_format i l"
  "format_moment i (DateTimeF l) = date_time_format i l"
  "format_moment i (TimeF l) = time_format i l"
  by (auto intro!: ext)

lemma run_format_sound:
  assumes "sound_cache i c" and "CHR '':'' \<notin> set locale"
  shows "fst (run_format i locale r c) = plain_call i locale r"
    and "sound_cache i (snd (run_format i locale r c))"
proof -
  obtain cc where cc: "\<And>opt. cached i opt locale c = (build i opt locale, cc opt)"
    "\<And>opt. sound_cache i (cc opt)"
    using cached_pairs [OF assms] by metis
  have m: "cached_moment i opt locale v c =
     (formatted i (format_moment i (build i opt locale)) v,
      if toDate i v = None then c else cc opt)" for opt v
    by (cases "toDate i v") (simp_all add: cached_moment_def formatted_def unformattable_def cc)
  show "fst (run_format i locale r c) = plain_call i locale r"
    by (cases r) (simp_all add: m cc format_moment_build formatDate_def formatDateTime_def
        formatChatTime_def formatWeekday_def formatNumber_def formatMoney_def formatRelativeTime_def
        formatted_def Let_def split: option.splits prod.splits)
  show "sound_cache i (snd (run_format i locale r c))"
    by (cases r) (simp_all add: m cc assms(1) Let_def split: option.splits prod.splits)
qed

text \<open>The answers of a page's calls, one after the other on one cache.\<close>

fun run_calls :: "intl \<Rightarrow> (string \<times> format_call) list \<Rightarrow> formatter_cache \<Rightarrow> string list \<times> formatter_cache" where
  "run_calls i [] c = ([], c)"
| "run_calls i ((locale, r) # rs) c =
     (let (x, c') = run_format i locale r c; (xs, c'') = run_calls i rs c' in (x # xs, c''))"

lemma run_calls_sound:
  assumes "sound_cache i c" and "list_all (\<lambda>(l, r). CHR '':'' \<notin> set l) rs"
  shows "fst (run_calls i rs c) = map (\<lambda>(l, r). plain_call i l r) rs"
  using assms
proof (induction rs arbitrary: c)
  case (Cons lr rs)
  obtain l r where lr: "lr = (l, r)" by (cases lr)
  obtain x c' where x: "run_format i l r c = (x, c')" by (cases "run_format i l r c")
  with run_format_sound [of i c l r] Cons.prems lr
  have "x = plain_call i l r" "sound_cache i c'" by auto
  with Cons.IH [of c'] Cons.prems(2) show ?case
    by (cases "run_calls i rs c'") (simp add: lr x)
qed simp

text \<open>
  The cache of formatters cannot be seen: whatever is formatted, in whatever order and in
  whatever mix of languages, currencies and kinds, every answer is the one a formatter built for
  that call alone would give. In particular no two call sites share a cache key.
\<close>

theorem format_cache_transparent:
  assumes "list_all (\<lambda>(locale, call). CHR '':'' \<notin> set locale) calls"
  shows "fst (run_calls i calls []) = map (\<lambda>(locale, call). plain_call i locale call) calls"
  using assms by (intro run_calls_sound) (simp_all add: sound_cache_def)

theorem format_cache_transparent_witness:
  "fst (run_calls sample_intl [(''en'', CallMoney 5 ''EUR'' DEFAULT_MONEY_FORMAT),
       (''en'', CallMoney 7 ''XXX'' DEFAULT_MONEY_FORMAT), (''en'', CallMoney 9 ''EUR'' DEFAULT_MONEY_FORMAT)] [])
     = [''5'', ''7 XXX'', ''9'']"
proof -
  have "map (\<lambda>(locale, call). plain_call sample_intl locale call)
       [(''en'', CallMoney 5 ''EUR'' DEFAULT_MONEY_FORMAT),
        (''en'', CallMoney 7 ''XXX'' DEFAULT_MONEY_FORMAT), (''en'', CallMoney 9 ''EUR'' DEFAULT_MONEY_FORMAT)]
      = [''5'', ''7 XXX'', ''9'']"
    by code_simp
  then show ?thesis by (subst format_cache_transparent) simp_all
qed

end
