(* ===== verification/Cookies.thy ===== *)
theory Cookies
  imports Effects Uri
begin

text \<open>
  What the application keeps in the browser: its cookies (\<open>src/cookies.ts\<close>), the theme
  (\<open>src/theme.ts\<close>), and the way back from the login page (\<open>src/returnto.ts\<close>). The cookie jar of the
  browser is a list of names and values; reading \<open>document.cookie\<close> joins it, and assigning to it
  stores the first pair of the assigned text.
\<close>

section \<open>The jar\<close>

type_synonym jar = "(string \<times> string) list"

definition document_cookie :: "jar \<Rightarrow> string" where
  "document_cookie j = join_with ''; '' (map (\<lambda>(n, v). n @ ''='' @ v) j)"

definition cut_at :: "char \<Rightarrow> string \<Rightarrow> (string \<times> string) option" where
  "cut_at c s = map_option (\<lambda>n. (take n s, drop (n + 1) s)) (index_of c s)"

definition assign_cookie :: "string \<Rightarrow> jar \<Rightarrow> jar" where
  "assign_cookie txt j =
     (case cut_at (CHR ''='') (hd (split_on (CHR '';'') txt)) of
        None \<Rightarrow> j
      | Some (n, v) \<Rightarrow> AList.update (js_trim n) (js_trim v) j)"

section \<open>Reading and writing\<close>

definition LANGUAGE_COOKIE :: string where
  "LANGUAGE_COOKIE = ''doener_lang''"

definition THEME_COOKIE :: string where
  "THEME_COOKIE = ''doener_theme''"

definition NAME_COOKIE :: string where
  "NAME_COOKIE = ''doener_name''"

definition CSRF_COOKIE :: string where
  "CSRF_COOKIE = ''doener_csrf''"

definition oneYear :: nat where
  "oneYear = 365 * 24 * 60 * 60"

fun find_cookie :: "string \<Rightarrow> string list \<Rightarrow> js_error + string option" where
  "find_cookie name [] = Inr None"
| "find_cookie name (entry # entries) =
     (case cut_at (CHR ''='') entry of
        None \<Rightarrow> find_cookie name entries
      | Some (n, v) \<Rightarrow>
          if js_trim n = name
          then (case decodeURIComponent (js_trim v) of None \<Rightarrow> Inl UriError | Some x \<Rightarrow> Inr (Some x))
          else find_cookie name entries)"

definition readCookie :: "jar \<Rightarrow> string \<Rightarrow> js_error + string option" where
  "readCookie j name = find_cookie name (split_on (CHR '';'') (document_cookie j))"

definition cookie_text :: "bool \<Rightarrow> string \<Rightarrow> string \<Rightarrow> string" where
  "cookie_text https name value =
     join_with ''; ''
       ([name @ ''='' @ encodeURIComponent value, ''path=/'',
         ''max-age='' @ string_of_nat oneYear, ''SameSite=Lax'']
        @ (if https then [''Secure''] else []))"

definition writeCookie :: "bool \<Rightarrow> string \<Rightarrow> string \<Rightarrow> jar \<Rightarrow> jar" where
  "writeCookie https name value j = assign_cookie (cookie_text https name value) j"

section \<open>What is written is read\<close>

text \<open>
  A name or a value in the jar is plain: the separators and white space do not occur in it. The
  encoding of any value is plain.
\<close>

definition plain_char :: "char \<Rightarrow> bool" where
  "plain_char c \<longleftrightarrow> 33 \<le> byte c \<and> byte c < 127 \<and> c \<noteq> CHR '';'' \<and> c \<noteq> CHR ''=''"

definition plain :: "string \<Rightarrow> bool" where
  "plain s = list_all plain_char s"

definition plain_jar :: "jar \<Rightarrow> bool" where
  "plain_jar j = list_all (\<lambda>(n, v). plain n \<and> plain v) j"

lemma white_none:
  assumes "plain_char c"
  shows "white_prefix js_whitespace (c # s) = 0"
    and "white_prefix (map rev js_whitespace) (c # s) = 0"
proof -
  have ne: "\<not> starts_with (c # s) w"
    if "w \<noteq> []" and "byte (hd w) < 33 \<or> 127 < byte (hd w)" for w :: string
    using that assms by (cases w) (auto simp: plain_char_def)
  have "list_all (\<lambda>w. w \<noteq> [] \<and> (byte (hd w) < 33 \<or> 127 < byte (hd w))) js_whitespace"
    by (simp add: js_whitespace_def)
  then have "filter (starts_with (c # s)) js_whitespace = []"
    by (auto simp: filter_empty_conv list_all_iff dest: ne)
  moreover have "list_all (\<lambda>w. w \<noteq> [] \<and> (byte (hd w) < 33 \<or> 127 < byte (hd w))) (map rev js_whitespace)"
    by (simp add: js_whitespace_def)
  then have "filter (starts_with (c # s)) (map rev js_whitespace) = []"
    unfolding filter_empty_conv list_all_iff using ne by blast
  ultimately show "white_prefix js_whitespace (c # s) = 0"
    and "white_prefix (map rev js_whitespace) (c # s) = 0"
    by (simp_all add: white_prefix_def)
qed

lemma strip_plain: "plain s \<Longrightarrow> ws \<in> {js_whitespace, map rev js_whitespace} \<Longrightarrow> strip_start ws s = s"
  by (cases s) (auto simp: plain_def strip_start.simps [of _ "[]"] Let_def
      intro!: strip_start_idle white_none)

lemma trim_plain [simp]: "plain s \<Longrightarrow> js_trim s = s"
  by (simp add: js_trim_def trim_start_def trim_end_def strip_plain plain_def)

lemma white_space: "white_prefix js_whitespace (CHR '' '' # s) = 1"
  by (simp add: white_prefix_def js_whitespace_def)

lemma trim_space_plain [simp]: "plain s \<Longrightarrow> js_trim (CHR '' '' # s) = s"
proof -
  assume p: "plain s"
  have "trim_start (CHR '' '' # s) = s"
    using p by (simp add: trim_start_def strip_start.simps [of _ "CHR '' '' # s"] white_space strip_plain)
  with p show ?thesis by (simp add: js_trim_def trim_end_def strip_plain plain_def)
qed

lemma plain_no_sep: "plain s \<Longrightarrow> CHR '';'' \<notin> set s \<and> CHR ''='' \<notin> set s"
  by (auto simp: plain_def list_all_iff plain_char_def)

lemma cut_at_plain: "plain n \<Longrightarrow> cut_at (CHR ''='') (n @ CHR ''='' # v) = Some (n, v)"
  using plain_no_sep [of n] by (simp add: cut_at_def index_of_append)

lemma plain_encode: "plain (encodeURIComponent s)"
proof -
  have "plain_char c" if "c \<in> set (encodeURIComponent s)" for c
    using encode_set [OF that] by (auto simp: plain_char_def unreserved_def hex_digit_def is_digit_def)
  then show ?thesis by (simp add: plain_def list_all_iff)
qed

lemma split_document_cookie:
  "plain_jar j \<Longrightarrow> j \<noteq> [] \<Longrightarrow> split_on (CHR '';'') (document_cookie j) =
     (case j of (n, v) # r \<Rightarrow> (n @ ''='' @ v) # map (\<lambda>(n, v). CHR '' '' # n @ ''='' @ v) r)"
proof (induction j)
  case (Cons nv j)
  obtain n v where nv: "nv = (n, v)" by (cases nv)
  have ns: "CHR '';'' \<notin> set (n @ ''='' @ v)"
    using Cons.prems(1) plain_no_sep [of n] plain_no_sep [of v] by (simp add: plain_jar_def nv)
  show ?case
  proof (cases j)
    case Nil
    with ns show ?thesis by (simp add: document_cookie_def nv split_on_no_sep)
  next
    case (Cons mw k)
    obtain m w where mw: "mw = (m, w)" by (cases mw)
    have "document_cookie (nv # j) = (n @ ''='' @ v) @ CHR '';'' # CHR '' '' # document_cookie j"
      by (simp add: document_cookie_def nv Cons)
    moreover have "split_on (CHR '';'') (document_cookie j) = (m @ ''='' @ w) # map (\<lambda>(n, v). CHR '' '' # n @ ''='' @ v) k"
      using Cons.IH Cons.prems Cons by (simp add: plain_jar_def mw)
    ultimately show ?thesis
      using split_on_append_sep [OF ns, of "CHR '' '' # document_cookie j"] by (simp add: nv Cons mw)
  qed
qed simp

lemma find_cookie_tail:
  assumes "plain_jar j" and "plain name"
  shows "find_cookie name (map (\<lambda>(n, v). CHR '' '' # n @ ''='' @ v) j) =
     (case map_of j name of
        None \<Rightarrow> Inr None
      | Some v \<Rightarrow> (case decodeURIComponent v of None \<Rightarrow> Inl UriError | Some x \<Rightarrow> Inr (Some x)))"
  using assms(1)
proof (induction j)
  case (Cons nv j)
  obtain n v where nv: "nv = (n, v)" by (cases nv)
  from Cons.prems have p: "plain n" "plain v" by (simp_all add: plain_jar_def nv)
  have "CHR ''='' \<notin> set (CHR '' '' # n)" using plain_no_sep [OF p(1)] by simp
  then have "cut_at (CHR ''='') (CHR '' '' # n @ ''='' @ v) = Some (CHR '' '' # n, v)"
    using index_of_append [of "CHR ''=''" "CHR '' '' # n" v] by (simp add: cut_at_def)
  with p Cons show ?case by (simp add: nv plain_jar_def)
qed simp

lemma readCookie_plain:
  assumes "plain_jar j" and "plain name"
  shows "readCookie j name =
     (case map_of j name of
        None \<Rightarrow> Inr None
      | Some v \<Rightarrow> (case decodeURIComponent v of None \<Rightarrow> Inl UriError | Some x \<Rightarrow> Inr (Some x)))"
proof (cases j)
  case Nil
  then show ?thesis by (simp add: readCookie_def document_cookie_def cut_at_def)
next
  case (Cons nv r)
  obtain n v where nv: "nv = (n, v)" by (cases nv)
  have p: "plain n" "plain v" "plain_jar r" using assms(1) by (simp_all add: plain_jar_def Cons nv)
  then show ?thesis
    using split_document_cookie [OF assms(1)] find_cookie_tail [OF p(3) assms(2)] cut_at_plain [OF p(1), of v]
    by (simp add: readCookie_def Cons nv)
qed

lemma writeCookie_plain:
  assumes "plain name"
  shows "writeCookie https name v j = AList.update name (encodeURIComponent v) j"
proof -
  have "hd (split_on (CHR '';'') (cookie_text https name v)) = name @ ''='' @ encodeURIComponent v"
    using plain_no_sep [OF assms] plain_no_sep [OF plain_encode [of v]]
      split_on_append_sep [of "CHR '';''" "name @ ''='' @ encodeURIComponent v"]
    by (cases https) (simp_all add: cookie_text_def)
  then show ?thesis
    using cut_at_plain [OF assms] assms plain_encode
    by (simp add: writeCookie_def assign_cookie_def)
qed

lemma plain_update: "plain_jar j \<Longrightarrow> plain n \<Longrightarrow> plain v \<Longrightarrow> plain_jar (AList.update n v j)"
  by (induction j) (auto simp: plain_jar_def)

text \<open>The contract of a store of named values.\<close>

locale key_store =
  fixes get :: "'s \<Rightarrow> string \<Rightarrow> js_error + string option"
    and put :: "string \<Rightarrow> string \<Rightarrow> 's \<Rightarrow> 's"
    and ok :: "'s \<Rightarrow> bool"
    and name_ok :: "string \<Rightarrow> bool"
    and value_ok :: "string \<Rightarrow> bool"
  assumes get_put: "ok s \<Longrightarrow> name_ok n \<Longrightarrow> value_ok v \<Longrightarrow> get (put n v s) n = Inr (Some v)"
    and get_put_other: "ok s \<Longrightarrow> name_ok n \<Longrightarrow> name_ok m \<Longrightarrow> m \<noteq> n \<Longrightarrow> get (put n v s) m = get s m"
    and ok_put: "ok s \<Longrightarrow> name_ok n \<Longrightarrow> ok (put n v s)"
begin

lemma get_puts_other:
  assumes "ok s" and "name_ok m" and "list_all (\<lambda>(n, v). name_ok n \<and> n \<noteq> m) nvs"
  shows "get (fold (\<lambda>(n, v). put n v) nvs s) m = get s m"
  using assms
  by (induction nvs arbitrary: s) (auto simp: ok_put get_put_other)

lemma ok_puts: "ok s \<Longrightarrow> list_all (\<lambda>(n, v). name_ok n) nvs \<Longrightarrow> ok (fold (\<lambda>(n, v). put n v) nvs s)"
  by (induction nvs arbitrary: s) (auto simp: ok_put)

lemma get_last_put:
  assumes "ok s" and "list_all (\<lambda>(n, v). name_ok n) before" and "name_ok m" and "value_ok x"
    and "list_all (\<lambda>(n, v). name_ok n \<and> n \<noteq> m) after"
  shows "get (fold (\<lambda>(n, v). put n v) (before @ (m, x) # after) s) m = Inr (Some x)"
  using assms by (simp add: get_puts_other get_put ok_puts ok_put)

end

interpretation cookie_store: key_store readCookie "writeCookie https" plain_jar plain valid_utf8
proof
  show "readCookie (writeCookie https n v s) n = Inr (Some v)"
    if "plain_jar s" "plain n" "valid_utf8 v" for s n v
    using that by (simp add: writeCookie_plain readCookie_plain plain_update plain_encode update_conv decode_encode)
  show "readCookie (writeCookie https n v s) m = readCookie s m"
    if "plain_jar s" "plain n" "plain m" "m \<noteq> n" for s n m v
    using that by (simp add: writeCookie_plain readCookie_plain plain_update plain_encode update_conv)
  show "plain_jar (writeCookie https n v s)" if "plain_jar s" "plain n" for s n v
    using that by (simp add: writeCookie_plain plain_update plain_encode)
qed

lemma our_names_plain [simp]:
  "plain LANGUAGE_COOKIE" "plain THEME_COOKIE" "plain NAME_COOKIE" "plain CSRF_COOKIE"
  by (simp_all add: LANGUAGE_COOKIE_def THEME_COOKIE_def NAME_COOKIE_def CSRF_COOKIE_def plain_def plain_char_def)

section \<open>The theme\<close>

datatype theme = Dark | Light

definition theme_text :: "theme \<Rightarrow> string" where
  "theme_text th = (case th of Dark \<Rightarrow> ''dark'' | Light \<Rightarrow> ''light'')"

text \<open>The document's own attribute and the cookies.\<close>

record theme_state =
  data_theme :: "string option"
  theme_jar :: jar

definition currentTheme :: "theme_state \<Rightarrow> theme" where
  "currentTheme s = (if data_theme s = Some ''light'' then Light else Dark)"

definition storedTheme :: "jar \<Rightarrow> js_error + theme option" where
  "storedTheme j =
     (case readCookie j THEME_COOKIE of
        Inl e \<Rightarrow> Inl e
      | Inr v \<Rightarrow>
          Inr (if v = Some ''dark'' then Some Dark else if v = Some ''light'' then Some Light else None))"

definition initTheme :: "theme option \<Rightarrow> theme_state \<Rightarrow> theme_state" where
  "initTheme th s = s\<lparr>data_theme := Some (case th of None \<Rightarrow> ''dark'' | Some x \<Rightarrow> theme_text x)\<rparr>"

definition applyTheme :: "bool \<Rightarrow> theme \<Rightarrow> theme_state \<Rightarrow> theme_state" where
  "applyTheme https th s =
     s\<lparr>data_theme := Some (theme_text th),
       theme_jar := writeCookie https THEME_COOKIE (theme_text th) (theme_jar s)\<rparr>"

definition toggleTheme :: "bool \<Rightarrow> theme_state \<Rightarrow> theme \<times> theme_state" where
  "toggleTheme https s =
     (let next_theme = (if currentTheme s = Dark then Light else Dark)
      in (next_theme, applyTheme https next_theme s))"

lemma valid_theme [simp]: "valid_utf8 (theme_text th)"
  by (cases th) (auto simp: theme_text_def ascii_def intro!: valid_utf8_ascii)

lemma stored_after_apply:
  "plain_jar (theme_jar s) \<Longrightarrow> storedTheme (theme_jar (applyTheme https th s)) = Inr (Some th)"
proof -
  assume "plain_jar (theme_jar s)"
  then have "readCookie (writeCookie https THEME_COOKIE (theme_text th) (theme_jar s)) THEME_COOKIE
      = Inr (Some (theme_text th))"
    by (rule cookie_store.get_put) simp_all
  then show ?thesis
    by (cases th) (simp_all add: storedTheme_def applyTheme_def theme_text_def)
qed

lemma toggle_current: "currentTheme (snd (toggleTheme https s)) = fst (toggleTheme https s)"
  by (simp add: toggleTheme_def Let_def applyTheme_def currentTheme_def theme_text_def)

text \<open>
  The theme somebody chooses survives: after a toggle, the theme in force is the one the
  toggle answered with, another page load reads exactly it back from the cookie, whatever other
  cookies the application has written in between, and toggling twice restores the theme.
\<close>

theorem toggle_persists:
  assumes "plain_jar (theme_jar s)" and "list_all (\<lambda>(n, v). plain n \<and> n \<noteq> THEME_COOKIE) writes"
  shows "storedTheme (fold (\<lambda>(n, v). writeCookie https n v) writes (theme_jar (snd (toggleTheme https s))))
           = Inr (Some (fst (toggleTheme https s)))
       \<and> currentTheme (snd (toggleTheme https s)) = fst (toggleTheme https s)
       \<and> currentTheme (snd (toggleTheme https (snd (toggleTheme https s)))) = currentTheme s"
proof -
  let ?j = "theme_jar (snd (toggleTheme https s))"
  have "plain_jar ?j"
    using cookie_store.ok_put [OF assms(1)] by (simp add: toggleTheme_def Let_def applyTheme_def)
  then have "storedTheme (fold (\<lambda>(n, v). writeCookie https n v) writes ?j) = storedTheme ?j"
    using cookie_store.get_puts_other [of ?j THEME_COOKIE writes https] assms(2)
    by (simp add: storedTheme_def)
  moreover have "storedTheme ?j = Inr (Some (fst (toggleTheme https s)))"
    using stored_after_apply [OF assms(1)] by (simp add: toggleTheme_def Let_def)
  ultimately show ?thesis
    by (simp add: toggle_current)
      (simp add: toggleTheme_def Let_def applyTheme_def currentTheme_def theme_text_def)
qed

theorem toggle_persists_witness:
  "storedTheme (fold (\<lambda>(n, v). writeCookie True n v) [(NAME_COOKIE, ''a; b'')]
     (theme_jar (snd (toggleTheme True \<lparr>data_theme = None, theme_jar = []\<rparr>)))) = Inr (Some Light)"
  using toggle_persists [of "\<lparr>data_theme = None, theme_jar = []\<rparr>" "[(NAME_COOKIE, ''a; b'')]" True]
  by (simp add: plain_jar_def NAME_COOKIE_def THEME_COOKIE_def plain_def plain_char_def
      toggleTheme_def currentTheme_def Let_def)

section \<open>The way back\<close>

definition RETURN_TO :: string where
  "RETURN_TO = ''next''"

definition backslash :: char where
  "backslash = CHR 0x5C"

definition isSafeReturnPath :: "string \<Rightarrow> bool" where
  "isSafeReturnPath v \<longleftrightarrow>
     starts_with v ''/'' \<and> \<not> starts_with v ''//'' \<and> \<not> starts_with v [CHR ''/'', backslash]
     \<and> backslash \<notin> set v"

definition loginHref :: "string \<Rightarrow> string" where
  "loginHref orig =
     (if \<not> isSafeReturnPath orig \<or> starts_with orig ''/account'' then ''/account''
      else ''/account?'' @ RETURN_TO @ ''='' @ encodeURIComponent orig)"

definition returnPathFrom :: "string \<Rightarrow> string option" where
  "returnPathFrom query =
     (case query_get query RETURN_TO of
        None \<Rightarrow> None
      | Some raw \<Rightarrow> if isSafeReturnPath raw then Some raw else None)"

definition currentPath :: "string \<Rightarrow> string \<Rightarrow> string" where
  "currentPath pathname search = pathname @ search"

text \<open>
  How a browser reads a relative reference on an http page: leading control characters and spaces
  and every tab and line break are removed, and two slashes of either kind at the front begin
  another host.
\<close>

definition url_clean :: "string \<Rightarrow> string" where
  "url_clean v =
     filter (\<lambda>c. byte c \<noteq> 9 \<and> byte c \<noteq> 10 \<and> byte c \<noteq> 13) (dropWhile (\<lambda>c. byte c \<le> 32) v)"

definition slash :: "char \<Rightarrow> bool" where
  "slash c \<longleftrightarrow> c = CHR ''/'' \<or> c = backslash"

definition leaves_site :: "string \<Rightarrow> bool" where
  "leaves_site v = (case url_clean v of a # b # _ \<Rightarrow> slash a \<and> slash b | _ \<Rightarrow> False)"

lemma safe_path_parts:
  assumes "isSafeReturnPath p"
  shows "\<exists>r. p = CHR ''/'' # r \<and> (\<forall>c \<in> set (take 1 r). \<not> slash c)"
proof -
  from assms obtain r where r: "p = CHR ''/'' # r"
    by (cases p) (auto simp: isSafeReturnPath_def)
  with assms show ?thesis
    by (cases r) (auto simp: isSafeReturnPath_def slash_def backslash_def)
qed

text \<open>
  For every path on the site that is not the account page itself, the login link carries it and the
  login page reads exactly it back out of the link's query.
\<close>

lemma login_link_read:
  assumes "isSafeReturnPath p" and "\<not> starts_with p ''/account''"
  shows "\<exists>query. loginHref p = ''/account?'' @ query \<and> returnPathFrom query = Some p"
proof -
  have "query_get (RETURN_TO @ CHR ''='' # encodeURIComponent p) RETURN_TO = Some p"
    by (rule query_get_single) (simp_all add: RETURN_TO_def unreserved_def is_digit_def)
  then show ?thesis
    using assms by (intro exI [of _ "RETURN_TO @ ''='' @ encodeURIComponent p"])
      (simp add: loginHref_def returnPathFrom_def)
qed

text \<open>
  Whatever a login link says, the path it leads to after the login is on this site, as a
  browser resolves it, unless it holds a tab or a line break.
\<close>

theorem return_path_stays:
  assumes "returnPathFrom query = Some p"
    and "list_all (\<lambda>c. byte c \<noteq> 9 \<and> byte c \<noteq> 10 \<and> byte c \<noteq> 13) p"
  shows "\<not> leaves_site p"
proof -
  from assms(1) have "isSafeReturnPath p"
    by (auto simp: returnPathFrom_def split: option.splits if_splits)
  then obtain r where r: "p = CHR ''/'' # r" "\<forall>c \<in> set (take 1 r). \<not> slash c"
    using safe_path_parts by blast
  have "url_clean p = p"
    using assms(2) by (auto simp: url_clean_def r(1) filter_id_conv list_all_iff)
  with r show ?thesis by (auto simp: leaves_site_def split: list.splits)
qed

theorem return_path_stays_witness: "\<not> leaves_site ''/order/7''"
  by (rule return_path_stays [of "''next=/order/7''"]) code_simp+

text \<open>
  A tab between the two slashes passes the check on return paths although a browser drops the
  tab and reads another host.
\<close>

lemma return_path_tab_leaves:
  "returnPathFrom ''next=/%09/evil.example'' = Some (CHR ''/'' # CHR 0x09 # ''/evil.example'')
   \<and> leaves_site (CHR ''/'' # CHR 0x09 # ''/evil.example'')"
  by code_simp

end
