(* ===== verification/Api.thy ===== *)
theory Api
  imports Cookies I18n
begin

text \<open>
  The API client (\<open>src/api.ts\<close>): the request that is sent, with its CSRF header; what becomes of
  the answer; the message a person is shown for a failure; and the session. \<open>fetch\<close> is a
  parameter: a function from the request to what happened to it.
\<close>

section \<open>Requests\<close>

definition BASE_PATH :: string where
  "BASE_PATH = ''/api/v1''"

definition NETWORK_ERROR :: int where
  "NETWORK_ERROR = 0"

definition isAuthentication :: "api_error \<Rightarrow> bool" where
  "isAuthentication e \<longleftrightarrow> 2000 \<le> ae_code e \<and> ae_code e < 3000"

datatype body = JsonBody json | FormBody | HtmlBody string

type_synonym headers = "(string \<times> string) list"

record http_request =
  hr_method :: string
  hr_url :: string
  hr_headers :: headers
  hr_body :: "body option"

text \<open>The body as text, parsed as JSON where that succeeds.\<close>

record response =
  rs_status :: nat
  rs_status_text :: string
  rs_headers :: headers
  rs_json :: "json option"
  rs_text :: string

definition rs_ok :: "response \<Rightarrow> bool" where
  "rs_ok r \<longleftrightarrow> 200 \<le> rs_status r \<and> rs_status r \<le> 299"

datatype fetch_outcome = Answered response | Aborted | Failed "string option"

type_synonym fetch = "http_request \<Rightarrow> fetch_outcome"

definition isSafe :: "string \<Rightarrow> bool" where
  "isSafe m \<longleftrightarrow> m = ''GET'' \<or> m = ''HEAD'' \<or> m = ''OPTIONS''"

definition with_token :: "jar \<Rightarrow> string \<Rightarrow> headers \<Rightarrow> js_error + headers" where
  "with_token cookies m hs =
     (if isSafe m then Inr hs
      else case readCookie cookies CSRF_COOKIE of
             Inl e \<Rightarrow> Inl e
           | Inr token \<Rightarrow>
               Inr (if truthy token then AList.update ''X-CSRF-Token'' (the token) hs else hs))"

text \<open>The request as it is handed to \<open>fetch\<close>, or what reading the cookie threw.\<close>

definition with_type :: "body option \<Rightarrow> headers \<Rightarrow> headers" where
  "with_type body hs =
     (case body of
        Some (JsonBody _) \<Rightarrow> AList.update ''Content-Type'' ''application/json; charset=utf-8'' hs
      | _ \<Rightarrow> hs)"

definition prepare ::
  "jar \<Rightarrow> string \<Rightarrow> string \<Rightarrow> headers \<Rightarrow> body option \<Rightarrow> js_error + http_request" where
  "prepare cookies m path extra body =
     (let hs = fold (\<lambda>(n, v). AList.update n v) extra [(''Accept'', ''application/json'')]
      in case with_token cookies m (with_type body hs) of
           Inl e \<Rightarrow> Inl e
         | Inr hs' \<Rightarrow>
             Inr \<lparr>hr_method = m, hr_url = BASE_PATH @ path, hr_headers = hs', hr_body = body\<rparr>)"

section \<open>Failures\<close>

definition fallbackCode :: "nat \<Rightarrow> int" where
  "fallbackCode status =
     (if status = 401 then 2000 else if status = 403 then 3000
      else if status = 404 then 4000 else if status = 503 then 9001 else 9000)"

definition field_of :: "json option \<Rightarrow> string \<Rightarrow> json option" where
  "field_of j k = (case j of Some (JObj m) \<Rightarrow> map_of m k | _ \<Rightarrow> None)"

definition text_of :: "json option \<Rightarrow> string option" where
  "text_of j = (case j of Some (JStr s) \<Rightarrow> Some s | _ \<Rightarrow> None)"

text \<open>
  A body that is the JSON value null is the one that throws: reading \<open>error\<close> of it is outside the
  guard.
\<close>

definition errorFrom :: "response \<Rightarrow> js_error" where
  "errorFrom r =
     (let envelope = (case rs_json r of Some j \<Rightarrow> j | None \<Rightarrow> JObj [])
      in if envelope = JNull then TypeError
         else let err = field_of (Some envelope) ''error''
              in ApiFailure
                   \<lparr>ae_code = (case field_of err ''code'' of Some (JNum n) \<Rightarrow> n | _ \<Rightarrow> fallbackCode (rs_status r)),
                    ae_status = rs_status r,
                    ae_message = (case text_of (field_of err ''message'') of
                       Some m \<Rightarrow> m | None \<Rightarrow> rs_status_text r),
                    ae_field = text_of (field_of err ''field''),
                    ae_request_id = (case coalesce (text_of (field_of err ''request_id''))
                        (map_of (rs_headers r) ''X-Request-Id'') of Some x \<Rightarrow> x | None \<Rightarrow> [])\<rparr>)"

definition network_error :: "string option \<Rightarrow> js_error" where
  "network_error cause =
     ApiFailure \<lparr>ae_code = NETWORK_ERROR, ae_status = 0,
                 ae_message = (case cause of Some m \<Rightarrow> m | None \<Rightarrow> ''the request failed''),
                 ae_field = None, ae_request_id = []\<rparr>"

text \<open>\<open>request\<close>: the parsed body, or \<open>None\<close> for no body.\<close>

definition request ::
  "jar \<Rightarrow> fetch \<Rightarrow> string \<Rightarrow> string \<Rightarrow> headers \<Rightarrow> body option \<Rightarrow> js_error + json option" where
  "request cookies fetch m path extra body =
     (case prepare cookies m path extra body of
        Inl e \<Rightarrow> Inl e
      | Inr req \<Rightarrow>
          (case fetch req of
             Aborted \<Rightarrow> Inl AbortError
           | Failed cause \<Rightarrow> Inl (network_error cause)
           | Answered r \<Rightarrow>
               if \<not> rs_ok r then Inl (errorFrom r)
               else if rs_status r = 204 \<or> map_of (rs_headers r) ''Content-Length'' = Some ''0'' then Inr None
               else (case rs_json r of None \<Rightarrow> Inl SyntaxError | Some j \<Rightarrow> Inr (Some j))))"

definition prepare_text :: "jar \<Rightarrow> string \<Rightarrow> string \<Rightarrow> string option \<Rightarrow> js_error + http_request" where
  "prepare_text cookies m path html =
     (let hs = [(''Accept'', ''text/html'')];
          hs' = (case html of None \<Rightarrow> hs | Some _ \<Rightarrow> AList.update ''Content-Type'' ''text/html; charset=utf-8'' hs)
      in case with_token cookies m hs' of
           Inl e \<Rightarrow> Inl e
         | Inr hs'' \<Rightarrow>
             Inr \<lparr>hr_method = m, hr_url = BASE_PATH @ path, hr_headers = hs'',
                  hr_body = map_option HtmlBody html\<rparr>)"

definition requestText ::
  "jar \<Rightarrow> fetch \<Rightarrow> string \<Rightarrow> string \<Rightarrow> string option \<Rightarrow> js_error + string" where
  "requestText cookies fetch m path html =
     (case prepare_text cookies m path html of
        Inl e \<Rightarrow> Inl e
      | Inr req \<Rightarrow>
          (case fetch req of
             Aborted \<Rightarrow> Inl (network_error None)
           | Failed cause \<Rightarrow> Inl (network_error cause)
           | Answered r \<Rightarrow> if \<not> rs_ok r then Inl (errorFrom r) else Inr (rs_text r)))"

definition api_get :: "jar \<Rightarrow> fetch \<Rightarrow> string \<Rightarrow> js_error + json option" where
  "api_get cookies fetch path = request cookies fetch ''GET'' path [] None"

definition api_text :: "jar \<Rightarrow> fetch \<Rightarrow> string \<Rightarrow> js_error + string" where
  "api_text cookies fetch path = requestText cookies fetch ''GET'' path None"

definition api_putText :: "jar \<Rightarrow> fetch \<Rightarrow> string \<Rightarrow> string \<Rightarrow> js_error + string" where
  "api_putText cookies fetch path html = requestText cookies fetch ''PUT'' path (Some html)"

definition api_post :: "jar \<Rightarrow> fetch \<Rightarrow> string \<Rightarrow> body option \<Rightarrow> js_error + json option" where
  "api_post cookies fetch path body = request cookies fetch ''POST'' path [] body"

definition api_put :: "jar \<Rightarrow> fetch \<Rightarrow> string \<Rightarrow> body option \<Rightarrow> js_error + json option" where
  "api_put cookies fetch path body = request cookies fetch ''PUT'' path [] body"

definition api_patch :: "jar \<Rightarrow> fetch \<Rightarrow> string \<Rightarrow> body option \<Rightarrow> js_error + json option" where
  "api_patch cookies fetch path body = request cookies fetch ''PATCH'' path [] body"

definition api_delete :: "jar \<Rightarrow> fetch \<Rightarrow> string \<Rightarrow> js_error + json option" where
  "api_delete cookies fetch path = request cookies fetch ''DELETE'' path [] None"

text \<open>A missing body throws, a missing key is an empty list.\<close>

definition getList :: "jar \<Rightarrow> fetch \<Rightarrow> string \<Rightarrow> string \<Rightarrow> js_error + json list" where
  "getList cookies fetch path k =
     (case api_get cookies fetch path of
        Inl e \<Rightarrow> Inl e
      | Inr None \<Rightarrow> Inl TypeError
      | Inr (Some JNull) \<Rightarrow> Inl TypeError
      | Inr (Some j) \<Rightarrow> (case field_of (Some j) k of Some (JArr xs) \<Rightarrow> Inr xs | _ \<Rightarrow> Inr []))"

lemma with_token_token:
  "with_token cookies m hs = Inr hs' \<Longrightarrow> map_of hs' ''X-CSRF-Token'' =
     (if isSafe m then map_of hs ''X-CSRF-Token''
      else case readCookie cookies CSRF_COOKIE of
             Inr (Some token) \<Rightarrow> if token = [] then map_of hs ''X-CSRF-Token'' else Some token
           | _ \<Rightarrow> map_of hs ''X-CSRF-Token'')"
  by (auto simp: with_token_def update_conv truthy_def split: if_splits sum.splits option.splits)

lemma with_token_other:
  "with_token cookies m hs = Inr hs' \<Longrightarrow> n \<noteq> ''X-CSRF-Token'' \<Longrightarrow> map_of hs' n = map_of hs n"
  by (auto simp: with_token_def update_conv split: if_splits sum.splits)

text \<open>
  Every request that can change something carries the CSRF token of the cookie, and no
  request that only reads does; each goes below the API's base path under the method it was asked
  for.
\<close>

theorem csrf_on_every_write:
  assumes "prepare cookies m path [] body = Inr req"
  shows "hr_method req = m \<and> hr_url req = BASE_PATH @ path \<and>
    map_of (hr_headers req) ''X-CSRF-Token'' =
      (if isSafe m then None
       else case readCookie cookies CSRF_COOKIE of
              Inr (Some token) \<Rightarrow> if token = [] then None else Some token
            | _ \<Rightarrow> None)"
proof -
  define hs where "hs = with_type body [(''Accept'', ''application/json'')]"
  have none: "map_of hs ''X-CSRF-Token'' = None"
    by (simp add: hs_def with_type_def split: option.split body.split)
  have "prepare cookies m path [] body =
     (case with_token cookies m hs of
        Inl e \<Rightarrow> Inl e
      | Inr hs' \<Rightarrow>
          Inr \<lparr>hr_method = m, hr_url = BASE_PATH @ path, hr_headers = hs', hr_body = body\<rparr>)"
    by (simp add: prepare_def hs_def)
  with assms obtain hs' where t: "with_token cookies m hs = Inr hs'"
    and req: "req = \<lparr>hr_method = m, hr_url = BASE_PATH @ path, hr_headers = hs', hr_body = body\<rparr>"
    by (cases "with_token cookies m hs") simp_all
  have "map_of hs' ''X-CSRF-Token'' =
      (if isSafe m then None
       else case readCookie cookies CSRF_COOKIE of
              Inr (Some token) \<Rightarrow> if token = [] then None else Some token
            | _ \<Rightarrow> None)"
    by (simp only: with_token_token [OF t] none)
  with req show ?thesis by (simp only: http_request.simps simp_thms)
qed

theorem csrf_on_every_write_witness:
  "\<exists>req. prepare (writeCookie True CSRF_COOKIE ''t0k=n'' []) ''DELETE'' ''/orders/1'' [] None = Inr req
     \<and> map_of (hr_headers req) ''X-CSRF-Token'' = Some ''t0k=n''"
proof -
  define j where "j = writeCookie True CSRF_COOKIE ''t0k=n'' []"
  have "readCookie (writeCookie True CSRF_COOKIE ''t0k=n'' []) CSRF_COOKIE = Inr (Some ''t0k=n'')"
    by (rule cookie_store.get_put) (simp_all add: plain_jar_def valid_utf8_ascii ascii_def)
  then have r: "readCookie j CSRF_COOKIE = Inr (Some ''t0k=n'')" by (simp only: j_def)
  have unsafe: "\<not> isSafe ''DELETE''" by (simp add: isSafe_def)
  have "\<exists>req. prepare j ''DELETE'' ''/orders/1'' [] None = Inr req"
    by (simp add: prepare_def with_token_def unsafe r)
  then obtain req where req: "prepare j ''DELETE'' ''/orders/1'' [] None = Inr req" ..
  from csrf_on_every_write [OF req]
  have "map_of (hr_headers req) ''X-CSRF-Token'' = Some ''t0k=n''"
    by (simp only: r unsafe) simp
  with req show ?thesis unfolding j_def by blast
qed

section \<open>What a person is shown\<close>

definition errorMessage :: "translator \<Rightarrow> js_error \<Rightarrow> string" where
  "errorMessage t e =
     (case e of
        ApiFailure a \<Rightarrow>
          if ae_code a = NETWORK_ERROR then translate t ''error.network'' []
          else let k = ''error.'' @ string_of_int (ae_code a)
               in if has_key t k then translate t k []
                  else or_else (ae_message a) (translate t ''error.unknown'' [])
      | _ \<Rightarrow> translate t ''error.unknown'' [])"

text \<open>
  Whatever a request failed with, the person reads a sentence: one that the catalogs hold, or
  the text the server sent; never a bare message key.
\<close>

theorem error_is_readable:
  assumes "has_key t ''error.unknown''" and "has_key t ''error.network''"
  shows "(\<exists>k. has_key t k \<and> errorMessage t e = translate t k [])
     \<or> (\<exists>a. e = ApiFailure a \<and> ae_message a \<noteq> [] \<and> errorMessage t e = ae_message a)"
proof (cases e)
  case (ApiFailure a)
  consider "ae_code a = NETWORK_ERROR"
    | "ae_code a \<noteq> NETWORK_ERROR" "has_key t (''error.'' @ string_of_int (ae_code a))"
    | "ae_code a \<noteq> NETWORK_ERROR" "\<not> has_key t (''error.'' @ string_of_int (ae_code a))"
    by blast
  then show ?thesis
  proof cases
    case 3
    with ApiFailure assms(1) show ?thesis
      by (cases "ae_message a = []") (auto simp: errorMessage_def or_else_def Let_def)
  qed (use assms ApiFailure in \<open>auto simp: errorMessage_def Let_def\<close>)
qed (use assms in \<open>auto simp: errorMessage_def\<close>)

definition sample_translator :: translator where
  "sample_translator =
     \<lparr>tr_language = ''en'', tr_meta = None,
      tr_catalog = [(''error.unknown'', JStr ''Sorry''), (''error.network'', JStr ''Offline'')],
      tr_fallback = [], tr_plurals = \<lambda>n. ''other''\<rparr>"

theorem error_is_readable_witness:
  "(\<exists>k. has_key sample_translator k \<and> errorMessage sample_translator RangeError = translate sample_translator k [])
   \<or> (\<exists>a. RangeError = ApiFailure a \<and> ae_message a \<noteq> []
        \<and> errorMessage sample_translator RangeError = ae_message a)"
  by (rule error_is_readable) code_simp+

end
