(* ===== verification/Reference.thy ===== *)
theory Reference
  imports Format Api
begin

text \<open>
  The reference tables, fetched once (\<open>src/reference.ts\<close>), and the list of accounts
  (\<open>src/accounts.ts\<close>). The cache holds a promise, not a result: a promise is its number, and what
  it settled to is recorded when the answers arrive.
\<close>

section \<open>The cache of the tables\<close>

record reference_cache =
  pending :: "nat option"
  started :: nat
  settled :: "(nat \<times> (js_error + reference_data)) list"

definition empty_cache :: reference_cache where
  "empty_cache = \<lparr>pending = None, started = 0, settled = []\<rparr>"

text \<open>\<open>Promise.all\<close> of the five lists: the first failure, or all of them.\<close>

definition all_tables ::
  "js_error + currency list \<Rightarrow> js_error + contact_type list \<Rightarrow> js_error + tag list \<Rightarrow>
   js_error + classification list \<Rightarrow> js_error + classification list \<Rightarrow> js_error + reference_data" where
  "all_tables a b c d e =
     (case a of Inl x \<Rightarrow> Inl x | Inr currencies \<Rightarrow>
        (case b of Inl x \<Rightarrow> Inl x | Inr contact_types \<Rightarrow>
           (case c of Inl x \<Rightarrow> Inl x | Inr tags \<Rightarrow>
              (case d of Inl x \<Rightarrow> Inl x | Inr allergens \<Rightarrow>
                 (case e of Inl x \<Rightarrow> Inl x | Inr additives \<Rightarrow>
                    Inr \<lparr>ref_currencies = currencies, ref_contact_types = contact_types,
                         ref_tags = tags, ref_allergens = allergens, ref_additives = additives\<rparr>)))))"

text \<open>The promise a caller is handed, and the cache afterwards.\<close>

definition referenceData :: "reference_cache \<Rightarrow> nat \<times> reference_cache" where
  "referenceData s =
     (case pending s of
        Some p \<Rightarrow> (p, s)
      | None \<Rightarrow> (started s, s\<lparr>pending := Some (started s), started := started s + 1\<rparr>))"

definition settle :: "nat \<Rightarrow> js_error + reference_data \<Rightarrow> reference_cache \<Rightarrow> reference_cache" where
  "settle p r s =
     (if started s \<le> p \<or> map_of (settled s) p \<noteq> None then s
      else (case r of
              Inr _ \<Rightarrow> s\<lparr>settled := settled s @ [(p, r)]\<rparr>
            | Inl _ \<Rightarrow> s\<lparr>settled := settled s @ [(p, r)], pending := None\<rparr>))"

definition resetReferenceData :: "reference_cache \<Rightarrow> reference_cache" where
  "resetReferenceData s = s\<lparr>pending := None\<rparr>"

datatype reference_event = AskFor | Settle nat "js_error + reference_data" | Forget

fun reference_step :: "reference_event \<Rightarrow> reference_cache \<Rightarrow> reference_cache" where
  "reference_step AskFor s = snd (referenceData s)"
| "reference_step (Settle p r) s = settle p r s"
| "reference_step Forget s = resetReferenceData s"

definition reference_good :: "reference_cache \<Rightarrow> bool" where
  "reference_good s \<longleftrightarrow>
     (\<forall>p r. (p, r) \<in> set (settled s) \<longrightarrow> p < started s)
     \<and> (case pending s of
          None \<Rightarrow> True
        | Some p \<Rightarrow> p < started s \<and> (\<forall>e. (p, Inl e) \<notin> set (settled s)))"

interpretation reference: event_machine reference_step reference_good
proof
  fix s e
  assume g: "reference_good s"
  show "reference_good (reference_step e s)"
  proof (cases e)
    case AskFor
    with g show ?thesis
      by (fastforce simp: referenceData_def reference_good_def split: option.splits)
  next
    case (Settle p r)
    with g show ?thesis
      by (auto simp: settle_def reference_good_def split: option.splits sum.splits)
  next
    case Forget
    with g show ?thesis by (simp add: resetReferenceData_def reference_good_def)
  qed
qed

lemma asks_start_once:
  "pending s = Some p \<Longrightarrow> list_all (\<lambda>e. e = AskFor \<or> (\<exists>q d. e = Settle q (Inr d))) es \<Longrightarrow>
   started (fold reference_step es s) = started s \<and> pending (fold reference_step es s) = Some p"
  by (induction es arbitrary: s) (auto simp: referenceData_def settle_def)

text \<open>
  A failed load of the reference tables is never handed out again: whatever has happened, the
  promise the next caller gets is one that has not failed; and while nothing fails, however many
  components ask, the tables are requested once.
\<close>

theorem reference_fetched_once:
  assumes "list_all (\<lambda>e. e = AskFor \<or> (\<exists>q d. e = Settle q (Inr d))) quiet"
  shows "(fst (referenceData (fold reference_step es empty_cache)), Inl x)
           \<notin> set (settled (fold reference_step es empty_cache))
       \<and> started (fold reference_step (AskFor # quiet) empty_cache) = 1"
proof
  have g: "reference_good (fold reference_step es empty_cache)"
    by (rule reference.good_run) (simp add: reference_good_def empty_cache_def)
  then show "(fst (referenceData (fold reference_step es empty_cache)), Inl x)
      \<notin> set (settled (fold reference_step es empty_cache))"
    by (fastforce simp: reference_good_def referenceData_def split: option.splits)
  have "pending (reference_step AskFor empty_cache) = Some 0"
    by (simp add: referenceData_def empty_cache_def)
  from asks_start_once [OF this assms]
  show "started (fold reference_step (AskFor # quiet) empty_cache) = 1"
    by (simp add: referenceData_def empty_cache_def)
qed

theorem reference_fetched_once_witness:
  "(fst (referenceData (fold reference_step [AskFor, Settle 0 (Inl AbortError)] empty_cache)), Inl AbortError)
     \<notin> set (settled (fold reference_step [AskFor, Settle 0 (Inl AbortError)] empty_cache))
   \<and> started (fold reference_step [AskFor, AskFor, AskFor] empty_cache) = 1"
  using reference_fetched_once [of "[AskFor, AskFor]" "[AskFor, Settle 0 (Inl AbortError)]" AbortError]
  by simp

section \<open>Money\<close>

definition moneyFormatOf :: "currency list \<Rightarrow> string \<Rightarrow> money_format" where
  "moneyFormatOf currencies code =
     (case List.find (\<lambda>c. cu_code c = code) currencies of
        None \<Rightarrow> DEFAULT_MONEY_FORMAT
      | Some c \<Rightarrow>
          \<lparr>mf_digits = cu_minor_unit c,
           mf_per_major = (case cu_minor_per_major c of Some n \<Rightarrow> n | None \<Rightarrow> 10 ^ cu_minor_unit c)\<rparr>)"

text \<open>The reference table divides every currency into no more minor units than it writes.\<close>

definition divisible :: "currency \<Rightarrow> bool" where
  "divisible c =
     (case cu_minor_per_major c of None \<Rightarrow> True | Some n \<Rightarrow> 1 \<le> n \<and> n \<le> 10 ^ cu_minor_unit c)"

lemma moneyFormatOf_fits:
  assumes "list_all divisible currencies"
  shows "1 \<le> mf_per_major (moneyFormatOf currencies code)
    \<and> mf_per_major (moneyFormatOf currencies code) \<le> 10 ^ mf_digits (moneyFormatOf currencies code)"
  using assms
  by (auto simp: moneyFormatOf_def DEFAULT_MONEY_FORMAT_def list_all_iff divisible_def
      split: option.splits dest: find_Some_in)

section \<open>Accounts\<close>

definition DELETED_USER_ID :: string where
  "DELETED_USER_ID = ''00000000-0000-7000-8000-000000000000''"

definition accountLabel :: "account \<Rightarrow> string" where
  "accountLabel a = or_else (js_trim (ac_display_name a)) (ac_name a)"

definition listAccounts :: "intl \<Rightarrow> js_error + account list \<Rightarrow> js_error + account list" where
  "listAccounts i answer =
     (case answer of
        Inl e \<Rightarrow> Inl e
      | Inr as \<Rightarrow> Inr (Sorting_Algorithms.sort (by_text (collation i None) accountLabel) as))"

record choice =
  ch_value :: string
  ch_label :: string

definition accountChoices :: "account list \<Rightarrow> string \<Rightarrow> choice list" where
  "accountChoices as nobody =
     \<lparr>ch_value = [], ch_label = nobody\<rparr> #
     map (\<lambda>a. \<lparr>ch_value = ac_id a, ch_label = accountLabel a\<rparr>)
       (filter (\<lambda>a. ac_id a \<noteq> DELETED_USER_ID) as)"

text \<open>
  The choices for a job are exactly "nobody", first, and every account in the list except the
  placeholder for deleted ones, in the reader's alphabetical order.
\<close>

theorem account_choices_complete:
  assumes "listAccounts i (Inr as) = Inr listed"
  shows "hd (accountChoices listed nobody) = \<lparr>ch_value = [], ch_label = nobody\<rparr>
    \<and> set (map ch_value (tl (accountChoices listed nobody))) = ac_id ` set as - {DELETED_USER_ID}
    \<and> Sorting_Algorithms.sorted (by_text (collation i None) accountLabel) listed"
proof -
  have listed: "listed = Sorting_Algorithms.sort (by_text (collation i None) accountLabel) as"
    using assms by (simp add: listAccounts_def)
  have "set listed = set as"
    unfolding listed by (metis mset_sort set_mset_mset)
  then show ?thesis
    using sorted_sort by (auto simp: accountChoices_def listed)
qed

theorem account_choices_complete_witness:
  "set (map ch_value (tl (accountChoices
     [\<lparr>ac_id = ''7'', ac_name = ''jo'', ac_display_name = '' ''\<rparr>] ''nobody''))) = {''7''}"
proof -
  have "listAccounts sample_intl (Inr [\<lparr>ac_id = ''7'', ac_name = ''jo'', ac_display_name = '' ''\<rparr>])
     = Inr [\<lparr>ac_id = ''7'', ac_name = ''jo'', ac_display_name = '' ''\<rparr>]"
    by (simp add: listAccounts_def)
  from account_choices_complete [OF this, of "''nobody''"] show ?thesis
    by (simp add: DELETED_USER_ID_def)
qed

end
