(* ===== verification/Forms.thy ===== *)
theory Forms
  imports Dom Reference
begin

text \<open>
  Form controls (\<open>src/components/forms.ts\<close>), the status line and \<open>runAction\<close>
  (\<open>src/components/status.ts\<close>), and the tiles (\<open>src/components/tiles.ts\<close>). A control is a node; an
  option that is absent is \<open>None\<close>. The counter behind generated ids is an argument and a result.
\<close>

section \<open>Controls\<close>

definition fieldId :: "string \<Rightarrow> nat \<Rightarrow> string \<times> nat" where
  "fieldId pref seq = (pref @ ''-'' @ string_of_nat (seq + 1), seq + 1)"

definition with_id :: "'a node \<Rightarrow> nat \<Rightarrow> 'a node \<times> nat" where
  "with_id control seq =
     (if dom_id control \<noteq> [] then (control, seq)
      else let (i, seq') = fieldId ''field'' seq in (set_attribute ''id'' i control, seq'))"

text \<open>An attribute that is given only for a non-empty value, and one given whenever there is one.\<close>

definition when_text :: "string \<Rightarrow> string option \<Rightarrow> (string \<times> 'a attr_value) list" where
  "when_text n v = (if truthy v then [(n, AStr (the v))] else [])"

definition when_given :: "string \<Rightarrow> string option \<Rightarrow> (string \<times> 'a attr_value) list" where
  "when_given n v = (case v of None \<Rightarrow> [] | Some x \<Rightarrow> [(n, AStr x)])"

definition when_fun :: "string \<Rightarrow> 'a option \<Rightarrow> (string \<times> 'a attr_value) list" where
  "when_fun n f = (case f of None \<Rightarrow> [] | Some x \<Rightarrow> [(n, AFun x)])"

text \<open>\<open>field\<close>: the labelled control with its hint and the element of its error.\<close>

definition field ::
  "string \<Rightarrow> 'a node \<Rightarrow> string option \<Rightarrow> 'a node option \<Rightarrow> string option \<Rightarrow> nat \<Rightarrow> 'a node \<times> nat" where
  "field label control hint err optionalLabel seq =
     (let (c, seq') = with_id control seq;
          label0 = append (el ''label'' [(''class'', AStr ''field-label''), (''for'', AStr (dom_id c))] []) [CStr label];
          label1 = (if truthy optionalLabel
                    then add_child (el ''span'' [(''class'', AStr ''field-optional''),
                           (''text'', AStr ('' ('' @ the optionalLabel @ '')''))] []) label0
                    else label0);
          hintId = dom_id c @ ''-hint'';
          c' = (if truthy hint then set_attribute ''aria-describedby'' hintId c else c);
          hints = (if truthy hint
                   then [CNode (el ''p'' [(''class'', AStr ''field-hint''), (''id'', AStr hintId),
                           (''text'', AStr (the hint))] [])] else []);
          errors = (case err of None \<Rightarrow> [] | Some e \<Rightarrow> [CNode e])
      in (el ''div'' [(''class'', AStr ''field'')] ([CNode label1, CNode c'] @ hints @ errors), seq'))"

record 'a input_options =
  in_type :: "string option"
  in_name :: "string option"
  in_value :: "string option"
  in_placeholder :: "string option"
  in_required :: bool
  in_autocomplete :: "string option"
  in_disabled :: bool
  in_mode :: "string option"
  in_min :: "string option"
  in_max :: "string option"
  in_step :: "string option"
  in_oninput :: "'a option"

definition no_input :: "'a input_options" where
  "no_input = \<lparr>in_type = None, in_name = None, in_value = None, in_placeholder = None,
     in_required = False, in_autocomplete = None, in_disabled = False, in_mode = None,
     in_min = None, in_max = None, in_step = None, in_oninput = None\<rparr>"

definition input :: "'a input_options \<Rightarrow> 'a node" where
  "input opts =
     el ''input''
       ([(''class'', AStr ''input''),
         (''type'', AStr (case in_type opts of None \<Rightarrow> ''text'' | Some x \<Rightarrow> x))]
        @ when_text ''name'' (in_name opts) @ when_given ''value'' (in_value opts)
        @ when_text ''placeholder'' (in_placeholder opts)
        @ when_text ''autocomplete'' (in_autocomplete opts)
        @ when_text ''inputmode'' (in_mode opts)
        @ when_given ''min'' (in_min opts) @ when_given ''max'' (in_max opts)
        @ when_given ''step'' (in_step opts)
        @ [(''required'', ABool (in_required opts)), (''disabled'', ABool (in_disabled opts))]
        @ when_fun ''oninput'' (in_oninput opts)) []"

definition textarea :: "'a input_options \<Rightarrow> int option \<Rightarrow> 'a node" where
  "textarea opts rows =
     (let element = el ''textarea''
            ([(''class'', AStr ''input''), (''rows'', ANum (case rows of None \<Rightarrow> 3 | Some n \<Rightarrow> n))]
             @ when_text ''name'' (in_name opts) @ when_text ''placeholder'' (in_placeholder opts)
             @ [(''required'', ABool (in_required opts)), (''disabled'', ABool (in_disabled opts))]
             @ when_fun ''oninput'' (in_oninput opts)) []
      in case in_value opts of None \<Rightarrow> element | Some v \<Rightarrow> set_property ''value'' v element)"

definition select ::
  "choice list \<Rightarrow> string option \<Rightarrow> string option \<Rightarrow> bool \<Rightarrow> 'a option \<Rightarrow> 'a node" where
  "select choices name v off onchange =
     (let element = el ''select''
            ([(''class'', AStr ''input'')] @ when_text ''name'' name @ [(''disabled'', ABool off)]
             @ when_fun ''onchange'' onchange) [];
          filled = foldl (\<lambda>x c. add_child (el ''option''
              [(''value'', AStr (ch_value c)), (''text'', AStr (ch_label c)),
               (''selected'', ABool (Some (ch_value c) = v))] []) x) element choices
      in case v of None \<Rightarrow> filled | Some x \<Rightarrow> set_property ''value'' x filled)"

definition checkbox ::
  "string \<Rightarrow> string option \<Rightarrow> string option \<Rightarrow> bool \<Rightarrow> bool \<Rightarrow> 'a option \<Rightarrow> 'a node" where
  "checkbox label name k checked off onchange =
     el ''label'' [(''class'', AStr ''checkbox-row'')]
       [CNode (el ''input''
          ([(''type'', AStr ''checkbox''), (''class'', AStr ''checkbox'')] @ when_text ''name'' name
           @ when_text ''data-key'' k @ [(''checked'', ABool checked), (''disabled'', ABool off)]
           @ when_fun ''onchange'' onchange) []),
        CNode (el ''span'' [(''text'', AStr label)] [])]"

datatype variant = Default | Primary | Danger | Quiet

definition variant_class :: "variant \<Rightarrow> string" where
  "variant_class v =
     (case v of Default \<Rightarrow> ''button'' | Primary \<Rightarrow> ''button button-primary''
      | Danger \<Rightarrow> ''button button-danger'' | Quiet \<Rightarrow> ''button button-quiet'')"

record 'a button_options =
  bt_label :: string
  bt_variant :: variant
  bt_submit :: bool
  bt_disabled :: bool
  bt_title :: "string option"
  bt_aria :: "string option"
  bt_onclick :: "'a option"

definition plain_button :: "string \<Rightarrow> 'a button_options" where
  "plain_button label =
     \<lparr>bt_label = label, bt_variant = Default, bt_submit = False, bt_disabled = False,
      bt_title = None, bt_aria = None, bt_onclick = None\<rparr>"

definition button :: "'a button_options \<Rightarrow> 'a node" where
  "button opts =
     el ''button''
       ([(''class'', AStr (variant_class (bt_variant opts))),
         (''type'', AStr (if bt_submit opts then ''submit'' else ''button'')),
         (''text'', AStr (bt_label opts)), (''disabled'', ABool (bt_disabled opts))]
        @ when_text ''title'' (bt_title opts) @ when_text ''aria-label'' (bt_aria opts)
        @ when_fun ''onclick'' (bt_onclick opts)) []"

definition form :: "'a \<Rightarrow> 'a child list \<Rightarrow> 'a node" where
  "form onSubmit cs =
     append (el ''form'' [(''class'', AStr ''form''), (''novalidate'', ABool True),
                          (''onsubmit'', AFun onSubmit)] []) cs"

definition iconButton :: "string \<Rightarrow> string \<Rightarrow> string \<Rightarrow> 'a \<Rightarrow> 'a node" where
  "iconButton name label cls onclick =
     el ''button''
       [(''type'', AStr ''button''), (''class'', AStr (''button button-icon '' @ cls)),
        (''aria-label'', AStr label), (''title'', AStr label), (''onclick'', AFun onclick)]
       [CNode (icon name None)]"

section \<open>What the controls offer\<close>

lemma attribute_actions_when [node_simps]:
  "concat (map attribute_actions (when_text n v)) = []"
  "concat (map attribute_actions (when_given n v)) = []"
  by (cases v; simp add: when_text_def when_given_def node_simps)+

lemma when_text_actions [node_simps]: "(\<Union>nv \<in> set (when_text n v). set (attribute_actions nv)) = {}"
  by (simp add: when_text_def node_simps)

lemma when_given_actions [node_simps]: "(\<Union>nv \<in> set (when_given n v). set (attribute_actions nv)) = {}"
  by (cases v) (simp_all add: when_given_def node_simps)

lemma when_fun_actions [node_simps]:
  "starts_with n ''on'' \<Longrightarrow> (\<Union>nv \<in> set (when_fun n f). set (attribute_actions nv)) = set_option f"
  by (cases f) (simp_all add: when_fun_def attribute_actions_def)

lemma button_actions [node_simps, simp]: "set (actions_of (button opts)) = set_option (bt_onclick opts)"
  by (simp add: button_def node_simps)

lemma input_actions [node_simps, simp]: "set (actions_of (input opts)) = set_option (in_oninput opts)"
  by (simp add: input_def node_simps)

lemma textarea_actions [node_simps, simp]:
  "set (actions_of (textarea opts r)) = set_option (in_oninput opts)"
  by (simp add: textarea_def node_simps Let_def split: option.split)

lemma checkbox_actions [node_simps, simp]:
  "set (actions_of (checkbox l n k c d f)) = set_option f"
  by (simp add: checkbox_def node_simps)

lemma form_actions [node_simps, simp]:
  "set (actions_of (form f cs)) = insert f (\<Union>c \<in> set cs. set (child_actions c))"
  by (simp add: form_def node_simps set_actions_append)

lemma iconButton_actions [node_simps, simp]: "set (actions_of (iconButton n l c f)) = {f}"
  by (simp add: iconButton_def node_simps)

section \<open>Errors of a field\<close>

text \<open>\<open>aria-describedby\<close> is a list of ids; an error adds its own and takes exactly it away.\<close>

definition describedBy :: "'a node \<Rightarrow> string list" where
  "describedBy control =
     filter (\<lambda>p. p \<noteq> [])
       (split_on (CHR '' '') (case get_attribute control ''aria-describedby'' of None \<Rightarrow> [] | Some x \<Rightarrow> x))"

definition error_id :: "'a node \<Rightarrow> string" where
  "error_id control = dom_id control @ ''-error''"

definition fieldError :: "'a node \<Rightarrow> 'a node" where
  "fieldError control =
     el ''p'' [(''class'', AStr ''field-error''), (''id'', AStr (error_id control)), (''role'', AStr ''alert''),
              (''hidden'', ABool True)] []"

definition set_field_error :: "string \<Rightarrow> 'a node \<times> 'a node \<Rightarrow> 'a node \<times> 'a node" where
  "set_field_error message ce =
     (let (control, err) = ce; i = error_id control; c = set_attribute ''aria-invalid'' ''true'' control
      in (if i \<in> set (describedBy c) then c
          else set_attribute ''aria-describedby'' (join_with '' '' (describedBy c @ [i])) c,
          set_flag ''hidden'' False (set_text message err)))"

definition clear_field_error :: "'a node \<times> 'a node \<Rightarrow> 'a node \<times> 'a node" where
  "clear_field_error ce =
     (let (control, err) = ce; i = error_id control; c = remove_attribute ''aria-invalid'' control;
          rest = filter (\<lambda>p. p \<noteq> i) (describedBy c)
      in (if rest \<noteq> [] then set_attribute ''aria-describedby'' (join_with '' '' rest) c
          else remove_attribute ''aria-describedby'' c,
          set_flag ''hidden'' True (set_text [] err)))"

lemma attribute_simps [simp]:
  "get_attribute (TextNode s) n = None"
  "tag_name x \<noteq> [] \<Longrightarrow> get_attribute (set_attribute n v x) m = (if m = n then Some v else get_attribute x m)"
  "get_attribute (remove_attribute n x) m = (if m = n then None else get_attribute x m)"
  "tag_name (set_attribute n v x) = tag_name x" "tag_name (remove_attribute n x) = tag_name x"
  by (cases x; simp add: get_attribute_def update_conv delete_conv)+

lemma describedBy_parts: "p \<in> set (describedBy c) \<Longrightarrow> p \<noteq> [] \<and> CHR '' '' \<notin> set p"
  by (auto simp: describedBy_def dest: split_on_parts)

lemma split_join:
  "list_all (\<lambda>p. c \<notin> set p) ps \<Longrightarrow> ps \<noteq> [] \<Longrightarrow> split_on c (join_with [c] ps) = ps"
  by (induction "[c]" ps rule: join_with.induct) (auto simp: split_on_no_sep split_on_append_sep)

lemma describedBy_set:
  assumes "tag_name x \<noteq> []" and "list_all (\<lambda>p. p \<noteq> [] \<and> CHR '' '' \<notin> set p) ps"
  shows "describedBy (set_attribute ''aria-describedby'' (join_with '' '' ps) x) = ps"
proof (cases "ps = []")
  case False
  from assms(2) have "list_all (\<lambda>p. CHR '' '' \<notin> set p) ps" and ne: "filter (\<lambda>p. p \<noteq> []) ps = ps"
    by (auto simp: list_all_iff filter_id_conv)
  from split_join [OF this(1) False] ne show ?thesis
    using assms(1) by (simp add: describedBy_def)
qed (use assms(1) in \<open>simp add: describedBy_def\<close>)

lemma describedBy_other:
  "tag_name x \<noteq> [] \<Longrightarrow> n \<noteq> ''aria-describedby'' \<Longrightarrow> describedBy (set_attribute n v x) = describedBy x"
  "n \<noteq> ''aria-describedby'' \<Longrightarrow> describedBy (remove_attribute n x) = describedBy x"
  by (simp_all add: describedBy_def)

text \<open>
  An error of a field is tied to it and untied again without touching the field's hint:
  showing it, once or twice, adds its id once, and clearing it leaves the other descriptions as
  they were and the field no longer marked invalid.
\<close>

theorem field_error_keeps_hint:
  assumes "tag_name c \<noteq> []" and "CHR '' '' \<notin> set (dom_id c)"
  shows "describedBy (fst (set_field_error m (c, e))) =
           (if error_id c \<in> set (describedBy c) then describedBy c else describedBy c @ [error_id c])
    \<and> describedBy (fst (clear_field_error (set_field_error m (c, e))))
         = filter (\<lambda>p. p \<noteq> error_id c) (describedBy c)
    \<and> get_attribute (fst (clear_field_error (set_field_error m (c, e)))) ''aria-invalid'' = None"
proof -
  let ?i = "error_id c"
  define x where "x = fst (set_field_error m (c, e))"
  have i: "?i \<noteq> []" "CHR '' '' \<notin> set ?i" using assms(2) by (auto simp: error_id_def)
  have parts: "list_all (\<lambda>p. p \<noteq> [] \<and> CHR '' '' \<notin> set p) (describedBy c)"
    using describedBy_parts [of _ c] by (auto simp: list_all_iff)
  have tag: "tag_name x \<noteq> []" using assms(1) by (simp add: x_def set_field_error_def Let_def)
  have dx: "describedBy x = (if ?i \<in> set (describedBy c) then describedBy c else describedBy c @ [?i])"
    using assms(1) i parts by (simp add: x_def set_field_error_def Let_def describedBy_set describedBy_other)
  have idx: "error_id x = ?i"
    using assms(1) by (simp add: x_def set_field_error_def Let_def error_id_def dom_id_def)
  define y where "y = fst (clear_field_error (set_field_error m (c, e)))"
  have y: "y = (let z = remove_attribute ''aria-invalid'' x; rest = filter (\<lambda>p. p \<noteq> ?i) (describedBy z)
      in if rest \<noteq> [] then set_attribute ''aria-describedby'' (join_with '' '' rest) z
         else remove_attribute ''aria-describedby'' z)"
    using idx by (cases "set_field_error m (c, e)") (simp add: y_def x_def clear_field_error_def Let_def)
  have parts': "list_all (\<lambda>p. p \<noteq> [] \<and> CHR '' '' \<notin> set p) (filter (\<lambda>p. p \<noteq> ?i) (describedBy c))"
    using parts by (auto simp: list_all_iff)
  have rest: "filter (\<lambda>p. p \<noteq> ?i) (describedBy x) = filter (\<lambda>p. p \<noteq> ?i) (describedBy c)"
    by (simp add: dx)
  have "describedBy y = filter (\<lambda>p. p \<noteq> ?i) (describedBy c)"
    using tag parts' rest
    by (simp add: y Let_def describedBy_other describedBy_set) (simp add: describedBy_def)
  moreover have "get_attribute y ''aria-invalid'' = None"
    using tag by (simp add: y Let_def)
  ultimately show ?thesis using dx unfolding x_def y_def by simp
qed

theorem field_error_keeps_hint_witness:
  "describedBy (fst (clear_field_error (set_field_error ''bad''
     (Elem ''input'' [(''id'', ''f-1''), (''aria-describedby'', ''f-1-hint'')] [] [] [], fieldError (TextNode [])))))
   = [''f-1-hint'']"
proof -
  let ?c = "Elem ''input'' [(''id'', ''f-1''), (''aria-describedby'', ''f-1-hint'')] [] [] []"
  have "tag_name ?c \<noteq> []" "CHR '' '' \<notin> set (dom_id ?c)" by (simp_all add: dom_id_def get_attribute_def)
  note kept = field_error_keeps_hint [OF this, of "''bad''" "fieldError (TextNode [])"]
  have d: "describedBy ?c = [''f-1-hint'']" and e: "error_id ?c = ''f-1-error''"
    by (simp_all add: describedBy_def error_id_def dom_id_def get_attribute_def)
  have "filter (\<lambda>p. p \<noteq> ''f-1-error'') [''f-1-hint''] = [''f-1-hint'']" by simp
  with kept show ?thesis unfolding d e by metis
qed

section \<open>Tiles\<close>

definition tileGrid :: "'a child list \<Rightarrow> 'a node" where
  "tileGrid ts = append (el ''div'' [(''class'', AStr ''tile-grid''), (''role'', AStr ''list'')] []) ts"

record 'a tile_options =
  tl_href :: string
  tl_title :: string
  tl_label :: "string option"
  tl_actions :: "'a node option"
  tl_media :: "'a node option"
  tl_faded :: bool

definition node_children :: "'a node option \<Rightarrow> 'a child list" where
  "node_children x = (case x of None \<Rightarrow> [] | Some n \<Rightarrow> [CNode n])"

definition tile :: "'a tile_options \<Rightarrow> 'a child list \<Rightarrow> 'a node" where
  "tile opts cs =
     (let card = el ''div''
            [(''class'', AStr (js_trim (''tile '' @ (if tl_faded opts then ''tile-faded'' else []))))] [];
          link = el ''a''
            ([(''class'', AStr ''tile-link''), (''href'', AStr (tl_href opts)), (''text'', AStr (tl_title opts))]
             @ when_text ''aria-label'' (tl_label opts)) []
      in el ''div'' [(''role'', AStr ''listitem''), (''class'', AStr ''tile-cell'')]
           [CNode (append (append (append card (node_children (tl_media opts) @ [CNode link])) cs)
                     (node_children (tl_actions opts)))])"

definition tileActions :: "'a child list \<Rightarrow> 'a node" where
  "tileActions cs = append (el ''div'' [(''class'', AStr ''tile-actions'')] []) cs"

definition addTile :: "string \<Rightarrow> string \<Rightarrow> 'a node" where
  "addTile href label =
     el ''div'' [(''role'', AStr ''listitem''), (''class'', AStr ''tile-cell'')]
       [CNode (el ''div'' [(''class'', AStr ''tile tile-add-card'')]
          [CNode (el ''div'' [(''class'', AStr ''tile-add'')] [CNode (icon ''plus'' None)]),
           CNode (el ''a'' [(''class'', AStr ''tile-link tile-add-label''), (''href'', AStr href),
              (''text'', AStr label)] [])])]"

lemma tile_actions_of [node_simps]:
  "set (actions_of (tile opts cs)) =
     (\<Union>n \<in> set_option (tl_media opts) \<union> set_option (tl_actions opts). set (actions_of n))
     \<union> (\<Union>c \<in> set cs. set (child_actions c))"
  by (auto simp: tile_def Let_def node_simps set_actions_append node_children_def split: option.splits)

lemma tileActions_actions [node_simps]:
  "set (actions_of (tileActions cs)) = (\<Union>c \<in> set cs. set (child_actions c))"
  by (simp add: tileActions_def set_actions_append node_simps)

lemma tileGrid_actions [node_simps]:
  "set (actions_of (tileGrid cs)) = (\<Union>c \<in> set cs. set (child_actions c))"
  by (simp add: tileGrid_def set_actions_append node_simps)

lemma addTile_actions [node_simps]: "actions_of (addTile h l) = []"
proof -
  have "set (actions_of (addTile h l)) = {}" by (simp add: addTile_def node_simps)
  then show ?thesis by simp
qed

end
