(* ===== verification/Modal.thy ===== *)
theory Modal
  imports Dom
begin

text \<open>
  Modals (\<open>src/components/modal.ts\<close>): the dialog as it is built, the stack of open ones with what
  it does to the rest of the document, the keyboard trap, and the confirmation dialog. A control
  that can hold the focus is a number; the close buttons of modal \<open>h\<close> and the page's own controls
  are told apart by the caller.
\<close>

section \<open>The dialog\<close>

datatype 'a modal_action = CloseButton | BackdropClick | Inner 'a

definition js_class :: "string \<Rightarrow> string \<Rightarrow> string" where
  "js_class a b = js_trim (a @ '' '' @ b)"

definition modal_dialog ::
  "nat \<Rightarrow> string \<Rightarrow> 'a modal_action child list \<Rightarrow> 'a modal_action node list \<Rightarrow> string \<Rightarrow> string
   \<Rightarrow> 'a modal_action node" where
  "modal_dialog seq title body actions closeLabel className =
     (let titleId = ''modal-title-'' @ string_of_nat seq;
          closeButton = el ''button''
            [(''type'', AStr ''button''), (''class'', AStr ''icon-button modal-close''),
             (''aria-label'', AStr closeLabel), (''onclick'', AFun CloseButton)]
            [CNode (icon ''close'' None)];
          header = el ''div'' [(''class'', AStr ''modal-header'')]
            [CNode (el ''h2'' [(''class'', AStr ''modal-title''), (''id'', AStr titleId), (''text'', AStr title)] []),
             CNode closeButton];
          dialog = append
            (el ''div'' [(''class'', AStr (js_class ''modal'' className)), (''role'', AStr ''dialog''),
                         (''aria-modal'', AStr ''true''), (''aria-labelledby'', AStr titleId)] [])
            [CNode header, CNode (append (el ''div'' [(''class'', AStr ''modal-body'')] []) body)]
      in if actions = [] then dialog
         else append dialog
           [CNode (append (el ''div'' [(''class'', AStr ''modal-actions'')] []) (map CNode actions))])"

definition modal_backdrop :: "'a modal_action node \<Rightarrow> 'a modal_action node" where
  "modal_backdrop dialog =
     el ''div'' [(''class'', AStr ''modal-backdrop''), (''onclick'', AFun BackdropClick)] [CNode dialog]"

text \<open>Every modal can be closed from inside, and offers nothing that was not put into it.\<close>

lemma modal_dialog_offers:
  "CloseButton \<in> set (actions_of (modal_dialog n title body actions l c))"
  "set (actions_of (modal_dialog n title body actions l c)) =
     {CloseButton} \<union> (\<Union>c \<in> set body. set (child_actions c)) \<union> (\<Union>x \<in> set actions. set (actions_of x))"
  by (auto simp: modal_dialog_def Let_def node_simps set_actions_append)

section \<open>The stack\<close>

record modals =
  stack :: "nat list"
  backdrops :: "nat list"
  key_listeners :: "nat list"
  modal_open :: bool
  app_inert :: bool
  focus_on :: nat
  openers :: "nat \<Rightarrow> nat"
  opened :: nat
  closed_modals :: "nat list"
  on_close_calls :: "nat list"

definition no_modals :: "nat \<Rightarrow> modals" where
  "no_modals f =
     \<lparr>stack = [], backdrops = [], key_listeners = [], modal_open = False, app_inert = False,
      focus_on = f, openers = (\<lambda>_. 0), opened = 0, closed_modals = [], on_close_calls = []\<rparr>"

text \<open>\<open>openModal\<close>: \<open>first\<close> is the first control of the new dialog that can be focused.\<close>

definition openModal :: "nat \<Rightarrow> modals \<Rightarrow> modals" where
  "openModal first s =
     (let h = opened s + 1
      in s\<lparr>opened := h, openers := (openers s)(h := focus_on s),
           key_listeners := key_listeners s @ [h], backdrops := backdrops s @ [h],
           modal_open := True, app_inert := True, stack := stack s @ [h], focus_on := first\<rparr>)"

text \<open>\<open>handle.close\<close>; a modal that has not been opened has no handle.\<close>

definition closeModal :: "nat \<Rightarrow> modals \<Rightarrow> modals" where
  "closeModal h s =
     (if h \<in> set (closed_modals s) \<or> h = 0 \<or> opened s < h then s
      else let st = remove1 h (stack s);
               s' = s\<lparr>closed_modals := closed_modals s @ [h],
                      key_listeners := remove1 h (key_listeners s),
                      backdrops := remove1 h (backdrops s), stack := st\<rparr>;
               s'' = (if st = [] then s'\<lparr>modal_open := False, app_inert := False\<rparr> else s')
           in s''\<lparr>focus_on := openers s h, on_close_calls := on_close_calls s @ [h]\<rparr>)"

text \<open>\<open>onKeyDown\<close> of one modal, for Escape: only the innermost reacts.\<close>

definition escape_on :: "nat \<Rightarrow> modals \<Rightarrow> modals" where
  "escape_on h s =
     (if h \<notin> set (key_listeners s) \<or> last_of (stack s) \<noteq> Some h then s else closeModal h s)"

text \<open>The key reaches the listeners in the order they were added.\<close>

definition press_escape :: "modals \<Rightarrow> modals" where
  "press_escape s = fold escape_on (key_listeners s) s"

text \<open>\<open>closeAllModals\<close>, with fuel for the loop.\<close>

fun close_all :: "nat \<Rightarrow> modals \<Rightarrow> modals option" where
  "close_all fuel s =
     (case last_of (stack s) of
        None \<Rightarrow> Some s
      | Some h \<Rightarrow> (case fuel of 0 \<Rightarrow> None | Suc n \<Rightarrow> close_all n (closeModal h s)))"

declare close_all.simps [simp del]

definition closeAllModals :: "modals \<Rightarrow> modals option" where
  "closeAllModals s = close_all (length (stack s)) s"

datatype modal_event = OpenM nat | CloseM nat | EscapeKey

fun modal_step :: "modal_event \<Rightarrow> modals \<Rightarrow> modals" where
  "modal_step (OpenM first) s = openModal first s"
| "modal_step (CloseM h) s = closeModal h s"
| "modal_step EscapeKey s = press_escape s"

definition modals_good :: "modals \<Rightarrow> bool" where
  "modals_good s \<longleftrightarrow>
     distinct (stack s) \<and> key_listeners s = stack s \<and> backdrops s = stack s
     \<and> modal_open s = (stack s \<noteq> []) \<and> app_inert s = (stack s \<noteq> [])
     \<and> (\<forall>h. h \<in> set (stack s) \<longleftrightarrow> 0 < h \<and> h \<le> opened s \<and> h \<notin> set (closed_modals s))
     \<and> on_close_calls s = closed_modals s \<and> distinct (closed_modals s)
     \<and> (\<forall>h \<in> set (closed_modals s). 0 < h \<and> h \<le> opened s)"

lemma open_good: "modals_good s \<Longrightarrow> modals_good (openModal f s)"
  by (fastforce simp: modals_good_def openModal_def Let_def)

lemma close_good:
  assumes "modals_good s"
  shows "modals_good (closeModal h s)"
proof (cases "h \<in> set (closed_modals s) \<or> h = 0 \<or> opened s < h")
  case False
  have rem: "set (remove1 h (stack s)) = set (stack s) - {h}"
    using assms by (simp add: modals_good_def)
  show ?thesis
  proof (cases "remove1 h (stack s) = []")
    case True
    with rem have "set (stack s) \<subseteq> {h}" by auto
    with False True assms show ?thesis
      by (auto simp: modals_good_def closeModal_def Let_def)
  qed (use False assms in \<open>auto simp: modals_good_def closeModal_def Let_def\<close>)
qed (use assms in \<open>auto simp: closeModal_def\<close>)

lemma escape_good: "modals_good s \<Longrightarrow> modals_good (escape_on h s)"
  by (simp add: escape_on_def close_good)

interpretation modal_stack: event_machine modal_step modals_good
proof
  show "modals_good (modal_step e s)" if "modals_good s" for e s
  proof (cases e)
    case EscapeKey
    have "modals_good (fold escape_on hs t)" if "modals_good t" for hs t
      using that by (induction hs arbitrary: t) (auto intro: escape_good)
    with that EscapeKey show ?thesis by (simp add: press_escape_def)
  qed (use that in \<open>auto intro: open_good close_good\<close>)
qed

lemma no_modals_good: "modals_good (no_modals f)"
  by (auto simp: modals_good_def no_modals_def)

lemma close_stack: "modals_good s \<Longrightarrow> stack (closeModal h s) = remove1 h (stack s)"
  by (auto simp: closeModal_def Let_def modals_good_def remove1_idem)

lemma escape_others:
  "last_of (stack s) \<notin> Some ` set hs \<Longrightarrow> fold escape_on hs s = s"
  by (induction hs) (auto simp: escape_on_def)

text \<open>
  C8: the page behind is inert, and cannot be scrolled, exactly while a modal is open, whatever
  order they are opened and closed in; every modal that closes calls its owner back exactly once,
  and Escape closes the innermost modal and no other.
\<close>

theorem modal_stack_consistent:
  "(let s = fold modal_step es (no_modals f)
    in app_inert s = (stack s \<noteq> []) \<and> modal_open s = (stack s \<noteq> [])
       \<and> distinct (on_close_calls s) \<and> set (on_close_calls s) = {1..opened s} - set (stack s)
       \<and> stack (modal_step EscapeKey s) = butlast (stack s))"
proof -
  let ?s = "fold modal_step es (no_modals f)"
  have g: "modals_good ?s" by (rule modal_stack.good_run) (rule no_modals_good)
  have "stack (press_escape ?s) = butlast (stack ?s)"
  proof (cases "stack ?s" rule: rev_cases)
    case Nil
    with g show ?thesis by (simp add: press_escape_def modals_good_def)
  next
    case (snoc hs h)
    have "fold escape_on hs ?s = ?s"
      using g snoc by (intro escape_others) (auto simp: modals_good_def)
    with g snoc have "press_escape ?s = closeModal h ?s"
      by (simp add: press_escape_def modals_good_def escape_on_def)
    with close_stack [OF g, of h] g snoc show ?thesis
      by (simp add: modals_good_def remove1_append)
  qed
  moreover have "set (on_close_calls ?s) = {1..opened ?s} - set (stack ?s)"
    using g by (fastforce simp: modals_good_def)
  ultimately show ?thesis using g by (simp add: modals_good_def Let_def)
qed

lemma close_all_empties:
  "modals_good s \<Longrightarrow> length (stack s) \<le> fuel \<Longrightarrow>
   \<exists>s'. close_all fuel s = Some s' \<and> stack s' = [] \<and> modals_good s'"
proof (induction fuel arbitrary: s)
  case 0
  then show ?case by (simp add: close_all.simps)
next
  case (Suc n)
  show ?case
  proof (cases "stack s" rule: rev_cases)
    case Nil
    with Suc.prems show ?thesis by (simp add: close_all.simps)
  next
    case (snoc hs h)
    have "stack (closeModal h s) = hs"
      using close_stack [OF Suc.prems(1), of h] Suc.prems(1) snoc
      by (simp add: modals_good_def remove1_append)
    with Suc snoc close_good [OF Suc.prems(1), of h] show ?thesis
      by (simp add: close_all.simps [of "Suc n"])
  qed
qed

text \<open>
  Closing every modal, as a navigation does, ends with no modal open and the page usable
  again, from every state the application can be in.
\<close>

theorem close_all_terminates:
  "\<exists>s. closeAllModals (fold modal_step es (no_modals f)) = Some s
     \<and> stack s = [] \<and> \<not> app_inert s \<and> \<not> modal_open s"
proof -
  have "modals_good (fold modal_step es (no_modals f))"
    by (rule modal_stack.good_run) (rule no_modals_good)
  from close_all_empties [OF this order_refl] show ?thesis
    by (auto simp: closeAllModals_def modals_good_def)
qed

section \<open>The keyboard trap\<close>

text \<open>
  What a Tab does inside the innermost modal, given the controls in it that can be focused: where
  the focus is moved to, \<open>None\<close> for leaving it to the browser, and whether the key is swallowed.
\<close>

definition trap :: "'c list \<Rightarrow> 'c \<Rightarrow> bool \<Rightarrow> 'c option \<times> bool" where
  "trap stops active shift =
     (case (at stops 0, last_of stops) of
        (Some first, Some last_stop) \<Rightarrow>
          if shift \<and> active = first then (Some last_stop, True)
          else if \<not> shift \<and> active = last_stop then (Some first, True)
          else (None, False)
      | _ \<Rightarrow> (None, True))"

section \<open>Confirmation\<close>

datatype dialog_event = PressCancel | PressConfirm | PressEscape | PressBackdrop | PressCorner

text \<open>What \<open>confirmDialog\<close> resolves to: the first of these closes the dialog.\<close>

fun confirm_result :: "dialog_event list \<Rightarrow> bool option" where
  "confirm_result [] = None"
| "confirm_result (e # es) = Some (e = PressConfirm)"

text \<open>
  The dialog: Cancel and the confirming button under the message, and Cancel has the focus. The
  labels are those the caller gave or the catalog's.
\<close>

datatype confirm_action = DoCancel | DoConfirm

record confirm_texts =
  cf_title :: string
  cf_message :: string
  cf_detail :: string
  cf_confirm :: string
  cf_cancel :: string
  cf_close :: string
  cf_danger :: bool

definition confirmDialog :: "nat \<Rightarrow> confirm_texts \<Rightarrow> confirm_action modal_action node" where
  "confirmDialog seq c =
     (let cancel = el ''button''
            [(''type'', AStr ''button''), (''class'', AStr ''button''), (''text'', AStr (cf_cancel c)),
             (''onclick'', AFun (Inner DoCancel))] [];
          confirm = el ''button''
            [(''type'', AStr ''button''),
             (''class'', AStr (if cf_danger c then ''button button-danger'' else ''button button-primary'')),
             (''text'', AStr (cf_confirm c)), (''onclick'', AFun (Inner DoConfirm))] []
      in modal_dialog seq (cf_title c)
           [CNode (el ''p'' [(''text'', AStr (cf_message c))] []),
            if cf_detail c \<noteq> [] then CNode (el ''p'' [(''class'', AStr ''muted''), (''text'', AStr (cf_detail c))] [])
            else CNull]
           [cancel, confirm] (cf_close c) ''modal-narrow'')"

end
