(* ===== verification/Editing.thy ===== *)
theory Editing
  imports Forms Modal
begin

text \<open>
  Doing something and reporting how it went: the status line and \<open>runAction\<close>
  (\<open>src/components/status.ts\<close>), the dialog that is a form (\<open>src/components/formdialog.ts\<close>), the
  deletion of an account (\<open>src/components/deleteaccount.ts\<close>), the image control
  (\<open>src/components/images.ts\<close>), copying (\<open>src/components/clipboard.ts\<close>), and sections with
  something to save (\<open>src/components/editable.ts\<close>). An action of a page works on a local state that
  extends \<open>ui\<close>: one status line and one control that is held still.
\<close>

section \<open>The status line\<close>

record status =
  st_text :: string
  st_error :: bool

definition statusLine :: status where
  "statusLine = \<lparr>st_text = [], st_error = False\<rparr>"

definition say :: "string \<Rightarrow> status \<Rightarrow> status" where
  "say m s = \<lparr>st_text = m, st_error = False\<rparr>"

definition fail_with :: "string \<Rightarrow> status \<Rightarrow> status" where
  "fail_with m s = \<lparr>st_text = m, st_error = True\<rparr>"

definition clear_status :: "status \<Rightarrow> status" where
  "clear_status s = \<lparr>st_text = [], st_error = False\<rparr>"

definition status_element :: "status \<Rightarrow> 'a node" where
  "status_element s =
     el ''p'' [(''class'', AStr (if st_error s then ''status status-error'' else ''status'')),
               (''role'', AStr ''status''), (''text'', AStr (st_text s))] []"

record ui =
  ui_status :: status
  ui_busy :: bool

definition on_status :: "(status \<Rightarrow> status) \<Rightarrow> ('x ui_scheme, unit) act" where
  "on_status f = modify (\<lambda>l. l\<lparr>ui_status := f (ui_status l)\<rparr>)"

text \<open>\<open>runAction\<close>; \<open>holds\<close> says whether there is a control to hold still.\<close>

definition runAction ::
  "translator \<Rightarrow> bool \<Rightarrow> ('x ui_scheme, 'b) act \<Rightarrow> ('x ui_scheme, bool) act" where
  "runAction t holds action =
     andthen (on_status clear_status)
       (andthen (if holds then modify (ui_busy_update (\<lambda>_. True)) else ret ())
          (finally_do
             (try_catch (andthen action (ret True))
                (\<lambda>e. andthen (on_status (fail_with (errorMessage t e))) (ret False)))
             (\<lambda>w. if holds then w\<lparr>local := (local w)\<lparr>ui_busy := False\<rparr>\<rparr> else w)))"

text \<open>The world the action itself starts in.\<close>

definition action_start :: "bool \<Rightarrow> 'x ui_scheme world \<Rightarrow> 'x ui_scheme world" where
  "action_start holds w =
     w\<lparr>local := (let l = (local w)\<lparr>ui_status := clear_status (ui_status (local w))\<rparr>
                 in if holds then l\<lparr>ui_busy := True\<rparr> else l)\<rparr>"

definition released :: "bool \<Rightarrow> 'x ui_scheme world \<Rightarrow> 'x ui_scheme world" where
  "released holds w = (if holds then w\<lparr>local := (local w)\<lparr>ui_busy := False\<rparr>\<rparr> else w)"

lemma runAction_run:
  "runAction t holds action w =
     (case action (action_start holds w) of
        (Inr x, w') \<Rightarrow> (Inr True, released holds w')
      | (Inl e, w') \<Rightarrow>
          (Inr False, released holds (w'\<lparr>local := (local w')\<lparr>ui_status := fail_with (errorMessage t e) (ui_status (local w'))\<rparr>\<rparr>)))"
  by (cases holds)
    (auto simp: runAction_def on_status_def act_simps action_start_def released_def Let_def
      split: prod.splits sum.splits)

text \<open>
  C23: an action a person started never fails silently and never leaves its button dead: whatever
  it does, \<open>runAction\<close> answers instead of throwing, says on the status line what went wrong
  exactly when something did, and lets the control it held go.
\<close>

theorem run_action_reports:
  "case action (action_start holds w) of
     (Inl e, w') \<Rightarrow>
       fst (runAction t holds action w) = Inr False
       \<and> ui_status (local (snd (runAction t holds action w))) = \<lparr>st_text = errorMessage t e, st_error = True\<rparr>
       \<and> ui_busy (local (snd (runAction t True action w))) = False
       \<and> trace (snd (runAction t holds action w)) = trace w'
   | (Inr x, w') \<Rightarrow>
       fst (runAction t holds action w) = Inr True
       \<and> ui_status (local (snd (runAction t holds action w))) = ui_status (local w')
       \<and> ui_busy (local (snd (runAction t True action w))) = False
       \<and> trace (snd (runAction t holds action w)) = trace w'"
  by (auto simp: runAction_run released_def fail_with_def split: prod.splits sum.splits)

section \<open>A dialog that is a form\<close>

record dialog = ui +
  dl_open :: bool
  dl_keep :: bool

definition send ::
  "translator \<Rightarrow> ('x dialog_scheme, bool) act \<Rightarrow> ('x dialog_scheme, unit) act \<Rightarrow> ('x dialog_scheme, unit) act" where
  "send t onSubmit after =
     andthen (modify (dl_keep_update (\<lambda>_. False)))
       (bind (runAction t True (bind onSubmit (\<lambda>r. modify (dl_keep_update (\<lambda>_. r = False)))))
         (\<lambda>worked. bind (gets dl_keep)
           (\<lambda>keepOpen. if \<not> worked \<or> keepOpen then ret ()
                       else andthen (modify (dl_open_update (\<lambda>_. False))) after)))"

definition submit_start :: "'x dialog_scheme world \<Rightarrow> 'x dialog_scheme world" where
  "submit_start w = action_start True (w\<lparr>local := (local w)\<lparr>dl_keep := False\<rparr>\<rparr>)"

text \<open>
  A form dialog closes exactly when its work succeeded and did not ask to stay: on a failure
  it is still open with the reason in it, nothing is lost, and what follows a success has not
  run.
\<close>

theorem form_dialog_closes:
  assumes "\<And>v r v'. onSubmit v = (r, v') \<Longrightarrow> dl_open (local v') = dl_open (local v)"
    and "\<And>v r v'. onSubmit v = (r, v') \<Longrightarrow> dl_keep (local v') = dl_keep (local v)"
  shows "case onSubmit (submit_start w) of
     (Inl e, w') \<Rightarrow>
       dl_open (local (snd (send t onSubmit after w))) = dl_open (local w)
       \<and> ui_status (local (snd (send t onSubmit after w))) = \<lparr>st_text = errorMessage t e, st_error = True\<rparr>
       \<and> trace (snd (send t onSubmit after w)) = trace w'
   | (Inr False, w') \<Rightarrow>
       dl_open (local (snd (send t onSubmit after w))) = dl_open (local w)
       \<and> trace (snd (send t onSubmit after w)) = trace w'
   | (Inr True, w') \<Rightarrow>
       send t onSubmit after w
         = after (w'\<lparr>local := (local w')\<lparr>dl_keep := False, ui_busy := False, dl_open := False\<rparr>\<rparr>)"
proof -
  obtain r w' where r: "onSubmit (submit_start w) = (r, w')" by (cases "onSubmit (submit_start w)")
  have keep: "dl_open (local w') = dl_open (local w)" "dl_keep (local w') = False"
    using assms(1) [OF r] assms(2) [OF r] by (simp_all add: submit_start_def action_start_def Let_def)
  show ?thesis
  proof (cases r)
    case (Inl e)
    with r keep show ?thesis
      by (simp add: send_def act_simps runAction_run submit_start_def [symmetric] released_def fail_with_def)
  next
    case (Inr b)
    with r keep show ?thesis
      by (cases b) (simp_all add: send_def act_simps runAction_run submit_start_def [symmetric] released_def)
  qed
qed

definition sample_dialog :: dialog where
  "sample_dialog = \<lparr>ui_status = statusLine, ui_busy = False, dl_open = True, dl_keep = False\<rparr>"

theorem form_dialog_closes_witness:
  "send sample_translator (ret True) (emit (Navigated ''/'')) (new_world sample_dialog)
     = emit (Navigated ''/'')
         ((submit_start (new_world sample_dialog))\<lparr>local := (local (submit_start (new_world sample_dialog)))
            \<lparr>dl_keep := False, ui_busy := False, dl_open := False\<rparr>\<rparr>)"
  using form_dialog_closes [of "ret True" sample_translator "emit (Navigated ''/'')" "new_world sample_dialog"]
  by (simp add: ret_def)

definition dialogHint :: "string \<Rightarrow> 'a node" where
  "dialogHint txt = el ''p'' [(''class'', AStr ''field-hint''), (''text'', AStr txt)] []"

section \<open>Deleting an account\<close>

definition counted :: "translator \<Rightarrow> string \<Rightarrow> int \<Rightarrow> string list" where
  "counted t k n = (if 0 < n then [translate t k [(''count'', PNum n)]] else [])"

definition impact_lines :: "translator \<Rightarrow> deletion_impact \<Rightarrow> string list" where
  "impact_lines t impact =
     counted t ''account.delete.impact.active_items'' (active_items impact)
     @ counted t ''account.delete.impact.expired_items'' (expired_items impact)
     @ counted t ''account.delete.impact.orders'' (created_active_orders impact)
     @ counted t ''account.delete.impact.jobs'' (active_jobs impact)"

definition impactList :: "translator \<Rightarrow> deletion_impact \<Rightarrow> 'a node" where
  "impactList t impact =
     (let ls = impact_lines t impact
      in if ls = [] then el ''p'' [(''class'', AStr ''muted''),
             (''text'', AStr (translate t ''account.delete.impact.none'' []))] []
         else el ''ul'' [(''class'', AStr ''impact'')]
                (map (\<lambda>l. CNode (el ''li'' [(''text'', AStr l)] [])) ls))"

record delete_dialog = dialog +
  dd_typed :: string
  dd_mismatch :: "string option"

text \<open>What the form does: the typed name is compared before anything is asked of the server.\<close>

definition confirm_delete ::
  "string \<Rightarrow> string \<Rightarrow> ('x delete_dialog_scheme, unit) act \<Rightarrow> ('x delete_dialog_scheme, bool) act" where
  "confirm_delete name mismatch remove =
     bind (gets dd_typed)
       (\<lambda>typed. if js_trim typed \<noteq> name
                then andthen (modify (dd_mismatch_update (\<lambda>_. Some mismatch))) (ret False)
                else andthen (modify (dd_mismatch_update (\<lambda>_. None))) (andthen remove (ret True)))"

definition openDeleteAccountDialog ::
  "translator \<Rightarrow> string \<Rightarrow> string \<Rightarrow> ('x delete_dialog_scheme, unit) act
   \<Rightarrow> ('x delete_dialog_scheme, unit) act \<Rightarrow> ('x delete_dialog_scheme, unit) act" where
  "openDeleteAccountDialog t name mismatch remove after = send t (confirm_delete name mismatch remove) after"

text \<open>
  An account is only deleted by somebody who has typed its name: with anything else in the
  field, pressing the button asks nothing of the server, says what is wrong and leaves the dialog
  open.
\<close>

theorem delete_needs_the_name:
  assumes "js_trim (dd_typed (local w)) \<noteq> name"
  shows "trace (snd (openDeleteAccountDialog t name mismatch remove after w)) = trace w
    \<and> dd_mismatch (local (snd (openDeleteAccountDialog t name mismatch remove after w))) = Some mismatch
    \<and> dl_open (local (snd (openDeleteAccountDialog t name mismatch remove after w))) = dl_open (local w)"
  using assms
  by (simp add: openDeleteAccountDialog_def send_def confirm_delete_def act_simps runAction_run
      action_start_def released_def Let_def)

definition sample_delete :: delete_dialog where
  "sample_delete = \<lparr>ui_status = statusLine, ui_busy = False, dl_open = True, dl_keep = False,
     dd_typed = ''joe'', dd_mismatch = None\<rparr>"

theorem delete_needs_the_name_witness:
  "trace (snd (openDeleteAccountDialog sample_translator ''jo'' ''no''
     (emit (Sent (Call ''DELETE'' ''/users/me'' None))) (ret ()) (new_world sample_delete))) = []"
proof -
  have "js_trim ''joe'' \<noteq> ''jo''" by code_simp
  then have "js_trim (dd_typed (local (new_world sample_delete))) \<noteq> ''jo''"
    by (simp add: new_world_def sample_delete_def)
  from delete_needs_the_name [OF this] show ?thesis by (simp add: new_world_def)
qed

section \<open>The image control\<close>

definition thumbnailURL :: "string \<Rightarrow> string" where
  "thumbnailURL imageId = ''/api/v1/images/'' @ encodeURIComponent imageId @ ''/thumbnail''"

record image_field =
  if_current :: "string option"
  if_text :: string
  if_failed :: bool
  if_choose_disabled :: bool
  if_file :: string
  if_changes :: "string option list"

record chosen_file =
  fi_name :: string
  fi_size :: int
  fi_type :: string

record uploaded_image =
  up_id :: string
  up_byte_size :: int

definition remove_image :: "image_field \<Rightarrow> image_field" where
  "remove_image s = s\<lparr>if_current := None, if_changes := if_changes s @ [None]\<rparr>"

definition refuse_file :: "string \<Rightarrow> image_field \<Rightarrow> image_field" where
  "refuse_file message s = s\<lparr>if_failed := True, if_text := message, if_file := []\<rparr>"

definition upload ::
  "translator \<Rightarrow> intl \<Rightarrow> string \<Rightarrow> version_info option \<Rightarrow> uploaded_image server \<Rightarrow> chosen_file
   \<Rightarrow> (image_field, unit) act" where
  "upload t i locale limits server chosen =
     andthen (modify (if_failed_update (\<lambda>_. False)))
       (let limit = (case limits of None \<Rightarrow> 0 | Some v \<Rightarrow> v_max_image_size v)
        in if 0 < limit \<and> limit < fi_size chosen
           then modify (refuse_file (translate t ''image.too_large''
                  [(''size'', PStr (formatBytes i locale (fi_size chosen))),
                   (''limit'', PStr (formatBytes i locale limit))]))
           else if \<not> starts_with (fi_type chosen) ''image/''
           then modify (refuse_file (translate t ''image.not_an_image'' []))
           else andthen
             (modify (\<lambda>s. s\<lparr>if_text := translate t ''image.uploading'' [], if_choose_disabled := True\<rparr>))
             (finally_do
                (try_catch
                   (bind (call server (Call ''POST'' ''/images'' None))
                      (\<lambda>up. modify (\<lambda>s. s\<lparr>if_current := Some (up_id up),
                         if_changes := if_changes s @ [Some (up_id up)],
                         if_text := formatBytes i locale (up_byte_size up)\<rparr>)))
                   (\<lambda>e. modify (\<lambda>s. s\<lparr>if_failed := True, if_text := errorMessage t e\<rparr>)))
                (\<lambda>w. w\<lparr>local := (local w)\<lparr>if_choose_disabled := False, if_file := []\<rparr>\<rparr>)))"

text \<open>The control as it is drawn.\<close>

datatype image_action = ChooseImage | RemoveImage | FileChosen

definition image_preview :: "translator \<Rightarrow> string option \<Rightarrow> 'a node" where
  "image_preview t cur =
     el ''div'' [(''class'', AStr ''image-preview'')]
       [CNode (if truthy cur
          then el ''img'' [(''class'', AStr ''image-thumb''), (''src'', AStr (thumbnailURL (the cur))),
                 (''alt'', AStr (translate t ''image.current'' [])), (''loading'', AStr ''lazy'')] []
          else el ''div'' [(''class'', AStr ''image-placeholder'')] [CNode (icon ''plus'' None)])]"

definition imageField :: "translator \<Rightarrow> string \<Rightarrow> image_field \<Rightarrow> image_action node" where
  "imageField t label s =
     (let file = add_listener ''change'' FileChosen
            (el ''input'' [(''type'', AStr ''file''), (''class'', AStr ''visually-hidden''),
               (''accept'', AStr ''image/jpeg,image/png,image/gif''), (''tabindex'', AStr ''-1''),
               (''aria-label'', AStr label)] []);
          chooser = set_flag ''disabled'' (if_choose_disabled s)
            (button ((plain_button (translate t (if truthy (if_current s) then ''image.replace'' else ''image.choose'') []))
               \<lparr>bt_variant := Primary, bt_onclick := Some ChooseImage\<rparr>));
          remove = set_flag ''hidden'' (if_current s = None)
            (button ((plain_button (translate t ''image.remove'' []))
               \<lparr>bt_variant := Danger, bt_onclick := Some RemoveImage\<rparr>));
          hint = el ''p'' [(''class'', AStr (if if_failed s then ''field-hint field-error'' else ''field-hint'')),
               (''text'', AStr (if_text s))] []
      in el ''div'' [(''class'', AStr ''field image-field'')]
           [CNode (el ''span'' [(''class'', AStr ''field-label''), (''text'', AStr label)] []),
            CNode (el ''div'' [(''class'', AStr ''image-row'')]
              [CNode (image_preview t (if_current s)),
               CNode (el ''div'' [(''class'', AStr ''actions'')] [CNode chooser, CNode remove])]),
            CNode file, CNode hint])"

text \<open>
  Choosing a picture: one that is too large or no picture is never sent; whatever becomes of
  one that is sent, the button works again, the same file can be chosen again, and the picture of
  the form changes exactly when the server has stored the new one.
\<close>

theorem upload_outcome:
  assumes "if_choose_disabled (local w) = False"
  shows "(let fits = (case limits of None \<Rightarrow> True
                       | Some v \<Rightarrow> v_max_image_size v \<le> 0 \<or> fi_size chosen \<le> v_max_image_size v)
              \<and> starts_with (fi_type chosen) ''image/'';
              after = snd (upload t i locale limits server chosen w)
          in trace after = trace w @ (if fits then [Sent (Call ''POST'' ''/images'' None)] else [])
             \<and> \<not> if_choose_disabled (local after) \<and> if_file (local after) = []
             \<and> (case (if fits then server (trace w) (Call ''POST'' ''/images'' None) else Inl AbortError) of
                  Inr up \<Rightarrow> if_current (local after) = Some (up_id up) \<and> \<not> if_failed (local after)
                | Inl e \<Rightarrow> if_current (local after) = if_current (local w) \<and> if_failed (local after)))"
  using assms
  by (auto simp: upload_def Let_def act_simps refuse_file_def split: option.splits sum.splits)

theorem upload_outcome_witness:
  "trace (snd (upload sample_translator sample_intl ''en'' None (\<lambda>_ _. Inl AbortError)
      \<lparr>fi_name = ''a'', fi_size = 3, fi_type = ''text/plain''\<rparr>
      (new_world \<lparr>if_current = None, if_text = [], if_failed = False, if_choose_disabled = False,
         if_file = ''a'', if_changes = []\<rparr>))) = []"
proof -
  let ?w = "new_world \<lparr>if_current = None, if_text = [], if_failed = False, if_choose_disabled = False,
         if_file = ''a'', if_changes = []\<rparr>"
  have "if_choose_disabled (local ?w) = False" by (simp add: new_world_def)
  from upload_outcome [OF this, of "\<lparr>fi_name = ''a'', fi_size = 3, fi_type = ''text/plain''\<rparr>" None
      sample_translator sample_intl "''en''" "\<lambda>_ _. Inl AbortError"]
  show ?thesis by (simp add: Let_def new_world_def)
qed

section \<open>Copying\<close>

text \<open>
  \<open>copyText\<close>: \<open>clipboard\<close> says whether the browser has one and, if it does, whether the write goes
  through at this moment.
\<close>

definition copyText :: "(effect list \<Rightarrow> bool) option \<Rightarrow> string \<Rightarrow> ('l, bool) act" where
  "copyText clipboard txt w =
     (case clipboard of
        None \<Rightarrow> (Inr False, w)
      | Some writes \<Rightarrow>
          if writes (trace w) then (Inr True, w\<lparr>trace := trace w @ [Copied txt]\<rparr>) else (Inr False, w))"

section \<open>Sections with something to save\<close>

text \<open>
  A tracker compares what is there with what was last saved; \<open>reports\<close> is what its listeners heard,
  the last one last. A section is a tracker and the outcome of the requests it makes when it is
  saved, in order.
\<close>

record 'v tracker =
  baseline :: 'v
  content :: 'v
  reports :: "bool list"

definition dirtyTracker :: "'v \<Rightarrow> 'v tracker" where
  "dirtyTracker v = \<lparr>baseline = v, content = v, reports = []\<rparr>"

definition report :: "'v tracker \<Rightarrow> 'v tracker" where
  "report s = s\<lparr>reports := reports s @ [content s \<noteq> baseline s]\<rparr>"

text \<open>A change of a control followed by \<open>touched\<close>, and \<open>saved\<close>.\<close>

definition touched :: "'v \<Rightarrow> 'v tracker \<Rightarrow> 'v tracker" where
  "touched v s = report (s\<lparr>content := v\<rparr>)"

definition saved :: "'v tracker \<Rightarrow> 'v tracker" where
  "saved s = report (s\<lparr>baseline := content s\<rparr>)"

definition heard_dirty :: "'v tracker \<Rightarrow> bool" where
  "heard_dirty s = (case last_of (reports s) of None \<Rightarrow> False | Some b \<Rightarrow> b)"

definition tracker_good :: "'v tracker \<Rightarrow> bool" where
  "tracker_good s \<longleftrightarrow> heard_dirty s = (content s \<noteq> baseline s)"

datatype 'v tracker_event = Touched 'v | Saved

fun tracker_step :: "'v tracker_event \<Rightarrow> 'v tracker \<Rightarrow> 'v tracker" where
  "tracker_step (Touched v) s = touched v s"
| "tracker_step Saved s = saved s"

interpretation tracker: event_machine tracker_step tracker_good
proof
  show "tracker_good (tracker_step e s)" for e s
    by (cases e) (simp_all add: tracker_good_def heard_dirty_def touched_def saved_def report_def)
qed

text \<open>
  The heading's Save: the flags it has been told, whether it is disabled, and the sections saved so
  far. \<open>save\<close> is the saving of one section, by its position: the section afterwards, or what it
  threw.
\<close>

record 's save_all =
  sections :: "'s list"
  save_disabled :: bool
  written :: "nat list"

fun save_loop ::
  "('s \<Rightarrow> bool) \<Rightarrow> ('s \<Rightarrow> js_error + 's) \<Rightarrow> nat list \<Rightarrow> 's save_all \<Rightarrow> (js_error + unit) \<times> 's save_all" where
  "save_loop dirty save [] s = (Inr (), s)"
| "save_loop dirty save (n # ns) s =
     (if dirty (sections s ! n)
      then case save (sections s ! n) of
             Inl e \<Rightarrow> (Inl e, s\<lparr>written := written s @ [n]\<rparr>)
           | Inr x \<Rightarrow>
               let ss = (sections s)[n := x]
               in save_loop dirty save ns
                    (s\<lparr>sections := ss, save_disabled := \<not> list_ex dirty ss, written := written s @ [n]\<rparr>)
      else save_loop dirty save ns s)"

definition press_save ::
  "('s \<Rightarrow> bool) \<Rightarrow> ('s \<Rightarrow> js_error + 's) \<Rightarrow> 's save_all \<Rightarrow> 's save_all" where
  "press_save dirty save s =
     (case save_loop dirty save [0..<length (sections s)] (s\<lparr>save_disabled := True\<rparr>) of
        (Inr _, s') \<Rightarrow> s'
      | (Inl _, s') \<Rightarrow> s'\<lparr>save_disabled := False\<rparr>)"

definition section_changed :: "('s \<Rightarrow> bool) \<Rightarrow> nat \<Rightarrow> 's \<Rightarrow> 's save_all \<Rightarrow> 's save_all" where
  "section_changed dirty n x s =
     (let ss = (sections s)[n := x] in s\<lparr>sections := ss, save_disabled := \<not> list_ex dirty ss\<rparr>)"

text \<open>The contract of a section: what was saved is no longer dirty.\<close>

locale editable_section =
  fixes dirty :: "'s \<Rightarrow> bool" and save :: "'s \<Rightarrow> js_error + 's"
  assumes saved_clean: "save x = Inr y \<Longrightarrow> \<not> dirty y"
begin

lemma loop_length:
  "save_loop dirty save ns s = (r, s') \<Longrightarrow> length (sections s') = length (sections s)"
  by (induction ns arbitrary: s) (auto simp: Let_def split: if_splits sum.splits)

lemma loop_others:
  "save_loop dirty save ns s = (r, s') \<Longrightarrow> n \<notin> set ns \<Longrightarrow> sections s' ! n = sections s ! n"
  by (induction ns arbitrary: s) (auto simp: Let_def split: if_splits sum.splits)

lemma loop_writes:
  assumes "save_loop dirty save ns s = (r, s')" and "distinct ns"
  shows "\<exists>done rest. filter (\<lambda>n. dirty (sections s ! n)) ns = done @ rest
     \<and> written s' = written s @ done \<and> (r = Inr () \<longrightarrow> rest = [])"
  using assms
proof (induction ns arbitrary: s)
  case (Cons n ns)
  show ?case
  proof (cases "dirty (sections s ! n)")
    case False
    with Cons show ?thesis by simp
  next
    case True
    show ?thesis
    proof (cases "save (sections s ! n)")
      case (Inl e)
      with True Cons.prems(1) have r: "r = Inl e" "written s' = written s @ [n]" by auto
      from True r show ?thesis
        by (intro exI [of _ "[n]"] exI [of _ "filter (\<lambda>n. dirty (sections s ! n)) ns"]) simp
    next
      case (Inr x)
      let ?s = "s\<lparr>sections := (sections s)[n := x], save_disabled := \<not> list_ex dirty ((sections s)[n := x]),
                  written := written s @ [n]\<rparr>"
      have run: "save_loop dirty save ns ?s = (r, s')"
        using True Inr Cons.prems(1) by (simp add: Let_def)
      have same: "filter (\<lambda>k. dirty (sections ?s ! k)) ns = filter (\<lambda>k. dirty (sections s ! k)) ns"
      proof (intro filter_cong refl)
        fix k
        assume "k \<in> set ns"
        with Cons.prems(2) have "n \<noteq> k" by auto
        then show "dirty (sections ?s ! k) = dirty (sections s ! k)" by simp
      qed
      obtain fs rest where "filter (\<lambda>k. dirty (sections s ! k)) ns = fs @ rest"
        "written s' = written s @ n # fs" "r = Inr () \<longrightarrow> rest = []"
        using Cons.IH [OF run] Cons.prems(2) unfolding same by auto
      with True show ?thesis
        by (intro exI [of _ "n # fs"] exI [of _ rest]) simp
    qed
  qed
qed simp

lemma loop_clean:
  assumes "save_loop dirty save ns s = (Inr (), s')" and "distinct ns" and "n \<in> set ns"
    and "\<forall>n \<in> set ns. n < length (sections s)"
  shows "\<not> dirty (sections s' ! n)"
  using assms
proof (induction ns arbitrary: s)
  case (Cons m ns)
  show ?case
  proof (cases "dirty (sections s ! m)")
    case False
    with Cons.prems have run: "save_loop dirty save ns s = (Inr (), s')" by simp
    with Cons loop_others [OF run, of m] False show ?thesis by (cases "n = m") auto
  next
    case True
    with Cons.prems obtain x where x: "save (sections s ! m) = Inr x"
      by (cases "save (sections s ! m)") auto
    let ?s = "s\<lparr>sections := (sections s)[m := x], save_disabled := \<not> list_ex dirty ((sections s)[m := x]),
                written := written s @ [m]\<rparr>"
    have run: "save_loop dirty save ns ?s = (Inr (), s')"
      using True x Cons.prems(1) by (simp add: Let_def)
    show ?thesis
    proof (cases "n = m")
      case True
      with loop_others [OF run, of m] Cons.prems saved_clean [OF x] show ?thesis by auto
    next
      case False
      with Cons.IH [OF run] Cons.prems show ?thesis by auto
    qed
  qed
qed simp

lemma loop_fails:
  assumes "save_loop dirty save ns s = (Inl e, s')" and "distinct ns"
  shows "\<exists>n \<in> set ns. dirty (sections s' ! n)"
  using assms
proof (induction ns arbitrary: s)
  case (Cons n ns)
  show ?case
  proof (cases "dirty (sections s ! n)")
    case True
    show ?thesis
    proof (cases "save (sections s ! n)")
      case (Inl x)
      with True Cons.prems have "sections s' = sections s" by auto
      with True show ?thesis by simp
    next
      case (Inr x)
      with True Cons show ?thesis by (fastforce simp: Let_def)
    qed
  next
    case False
    with Cons show ?thesis by auto
  qed
qed simp

lemma loop_disabled:
  "save_loop dirty save ns s = (r, s') \<Longrightarrow> save_disabled s \<or> list_ex dirty (sections s) \<Longrightarrow>
   save_disabled s' \<or> list_ex dirty (sections s')"
  by (induction ns arbitrary: s) (auto simp: Let_def split: if_splits sum.splits)

lemma press_save_outcome:
  "(\<exists>fs rest. filter (\<lambda>n. dirty (sections s ! n)) [0..<length (sections s)] = fs @ rest
       \<and> written (press_save dirty save s) = written s @ fs)
   \<and> save_disabled (press_save dirty save s)
       = list_all (\<lambda>x. \<not> dirty x) (sections (press_save dirty save s))"
proof -
  let ?s = "s\<lparr>save_disabled := True\<rparr>" and ?ns = "[0..<length (sections s)]"
  obtain r s' where run: "save_loop dirty save ?ns ?s = (r, s')"
    by (cases "save_loop dirty save ?ns ?s")
  have len: "length (sections s') = length (sections s)" using loop_length [OF run] by simp
  have w: "\<exists>fs rest. filter (\<lambda>n. dirty (sections s ! n)) ?ns = fs @ rest \<and> written s' = written s @ fs"
    using loop_writes [OF run] by auto
  show ?thesis
  proof (cases r)
    case (Inl e)
    with loop_fails [of ?ns ?s e s'] run len have "list_ex dirty (sections s')"
      by (auto simp: list_ex_iff intro: nth_mem)
    then have "\<not> list_all (\<lambda>x. \<not> dirty x) (sections s')" by (auto simp: list_ex_iff list_all_iff)
    with w run Inl show ?thesis by (simp add: press_save_def)
  next
    case (Inr u)
    with run have run': "save_loop dirty save ?ns ?s = (Inr (), s')" by simp
    from loop_clean [OF run'] len have clean: "list_all (\<lambda>x. \<not> dirty x) (sections s')"
      by (auto simp: list_all_length)
    with loop_disabled [OF run] have "save_disabled s'" by (auto simp: list_ex_iff list_all_iff)
    with w run Inr clean show ?thesis by (simp add: press_save_def)
  qed
qed

end

text \<open>A section that is a tracker; \<open>server\<close> is the outcome of writing what it holds.\<close>

definition save_section :: "('v \<Rightarrow> js_error + unit) \<Rightarrow> 'v tracker \<Rightarrow> js_error + 'v tracker" where
  "save_section server x = (case server (content x) of Inl e \<Rightarrow> Inl e | Inr _ \<Rightarrow> Inr (saved x))"

interpretation tracked: editable_section heard_dirty "save_section server"
  by unfold_locales
    (auto simp: save_section_def saved_def report_def heard_dirty_def split: sum.splits)

text \<open>
  The heading's Save writes only what has changed, in the order of the page, once, up to the
  first section that fails; and afterwards it is disabled exactly when nothing is left to save,
  so a failure can always be tried again.
\<close>

theorem save_all_writes_changes:
  "(\<exists>fs rest. filter (\<lambda>n. heard_dirty (sections s ! n)) [0..<length (sections s)] = fs @ rest
       \<and> written (press_save heard_dirty (save_section server) s) = written s @ fs)
   \<and> save_disabled (press_save heard_dirty (save_section server) s)
       = list_all (\<lambda>x. \<not> heard_dirty x) (sections (press_save heard_dirty (save_section server) s))"
  by (rule tracked.press_save_outcome)

text \<open>
  A section counts as changed exactly when it differs from what was loaded or last saved:
  typing a change and undoing it leaves nothing to save, and so does a save.
\<close>

theorem dirty_means_different:
  "heard_dirty (fold tracker_step es (dirtyTracker v))
     = (content (fold tracker_step es (dirtyTracker v)) \<noteq> baseline (fold tracker_step es (dirtyTracker v)))
   \<and> \<not> heard_dirty (fold tracker_step (es @ [Saved]) (dirtyTracker v))
   \<and> \<not> heard_dirty (fold tracker_step [Touched x, Touched v] (dirtyTracker v))"
proof -
  have "tracker_good (dirtyTracker v)"
    by (simp add: tracker_good_def heard_dirty_def dirtyTracker_def)
  from tracker.good_run [OF this, of es] show ?thesis
    by (simp add: tracker_good_def) (simp add: heard_dirty_def last_of_def saved_def touched_def report_def dirtyTracker_def)
qed

end
