(* ===== verification/Session.thy ===== *)
theory Session
  imports Api
begin

text \<open>
  The session (\<open>Session\<close> of \<open>src/api.ts\<close>): who is logged in, held in one place and observable.
  A listener is a number, the order of its subscription; what it has been told since it
  subscribed is recorded beside it. A listener that subscribes or unsubscribes others while it
  is being told is outside the model.
\<close>

record session =
  current :: "session_user option"
  subscribers :: "nat list"
  ended :: "ended_notice option"
  told :: "(nat \<times> session_user option) list"

definition new_session :: session where
  "new_session = \<lparr>current = None, subscribers = [], ended = None, told = []\<rparr>"

definition isAuthenticated :: "session \<Rightarrow> bool" where
  "isAuthenticated s \<longleftrightarrow> current s \<noteq> None"

definition isAdmin :: "session \<Rightarrow> bool" where
  "isAdmin s = (case current s of None \<Rightarrow> False | Some u \<Rightarrow> su_is_admin u)"

definition set_user :: "session_user option \<Rightarrow> session \<Rightarrow> session" where
  "set_user u s =
     s\<lparr>current := u, told := foldl (\<lambda>ts l. AList.update l u ts) (told s) (subscribers s)\<rparr>"

definition load_session :: "js_error + session_body \<Rightarrow> session \<Rightarrow> session_user option \<times> session" where
  "load_session answer s =
     (let s' = (case answer of
                  Inr body \<Rightarrow> set_user (sb_user body) (s\<lparr>ended := sb_ended body\<rparr>)
                | Inl _ \<Rightarrow> set_user None s)
      in (current s', s'))"

definition takeEndedNotice :: "session \<Rightarrow> ended_notice option \<times> session" where
  "takeEndedNotice s = (ended s, s\<lparr>ended := None\<rparr>)"

text \<open>A logout that failed still throws, after it has cleared the user.\<close>

definition logout :: "js_error + unit \<Rightarrow> session \<Rightarrow> (js_error + unit) \<times> session" where
  "logout answer s = (answer, set_user None s)"

definition subscribe :: "nat \<Rightarrow> session \<Rightarrow> session" where
  "subscribe l s =
     (if l \<in> set (subscribers s) then s
      else s\<lparr>subscribers := set_add l (subscribers s), told := AList.delete l (told s)\<rparr>)"

definition unsubscribe :: "nat \<Rightarrow> session \<Rightarrow> session" where
  "unsubscribe l s = s\<lparr>subscribers := set_delete l (subscribers s)\<rparr>"

section \<open>Everybody who listens knows who is logged in\<close>

datatype session_event =
    Load "js_error + session_body"
  | Logout "js_error + unit"
  | SetUser "session_user option"
  | Subscribe nat
  | Unsubscribe nat
  | TakeNotice

fun session_step :: "session_event \<Rightarrow> session \<Rightarrow> session" where
  "session_step (Load a) s = snd (load_session a s)"
| "session_step (Logout a) s = snd (logout a s)"
| "session_step (SetUser u) s = set_user u s"
| "session_step (Subscribe l) s = subscribe l s"
| "session_step (Unsubscribe l) s = unsubscribe l s"
| "session_step TakeNotice s = snd (takeEndedNotice s)"

definition session_good :: "session \<Rightarrow> bool" where
  "session_good s \<longleftrightarrow> distinct (subscribers s)
     \<and> (\<forall>l \<in> set (subscribers s). map_of (told s) l \<in> {None, Some (current s)})"

lemma told_all:
  "map_of (foldl (\<lambda>ts l. AList.update l u ts) ts ls) l
     = (if l \<in> set ls then Some u else map_of ts l)"
  by (induction ls arbitrary: ts) (auto simp: update_conv)

lemma set_user_simps [simp]:
  "current (set_user u s) = u" "subscribers (set_user u s) = subscribers s" "ended (set_user u s) = ended s"
  "l \<in> set (subscribers s) \<Longrightarrow> map_of (told (set_user u s)) l = Some u"
  by (simp_all add: set_user_def told_all)

lemma set_user_good: "distinct (subscribers s) \<Longrightarrow> session_good (set_user u s)"
  by (simp add: session_good_def)

interpretation session: event_machine session_step session_good
proof
  fix s e
  assume g: "session_good s"
  then have d: "distinct (subscribers s)" by (simp add: session_good_def)
  show "session_good (session_step e s)"
  proof (cases e)
    case (Load a)
    with d show ?thesis
      by (cases a) (simp_all add: load_session_def Let_def set_user_good)
  next
    case (Subscribe l)
    with g show ?thesis
      by (auto simp: subscribe_def session_good_def delete_conv)
  next
    case (Unsubscribe l)
    with g show ?thesis by (auto simp: unsubscribe_def session_good_def)
  next
    case TakeNotice
    with g show ?thesis by (simp add: takeEndedNotice_def session_good_def)
  qed (use d in \<open>simp_all add: logout_def set_user_good\<close>)
qed

lemma session_reachable_good: "session_good (fold session_step es new_session)"
  by (rule session.good_run) (simp add: session_good_def new_session_def)

text \<open>
  After whatever history of loads, logins, logouts and subscriptions, every subscriber that
  has been told anything since it subscribed has last been told who is logged in now; and after
  a logout that is nobody, and every subscriber knows, whether or not the server could be
  reached.
\<close>

theorem subscribers_agree:
  "(\<forall>l. map_of (told (fold session_step es new_session)) l
        \<in> (if l \<in> set (subscribers (fold session_step es new_session))
           then {None, Some (current (fold session_step es new_session))} else UNIV))
   \<and> current (fold session_step (es @ [Logout answer]) new_session) = None
   \<and> (\<forall>l. map_of (told (fold session_step (es @ [Logout answer]) new_session)) l
        \<in> (if l \<in> set (subscribers (fold session_step (es @ [Logout answer]) new_session))
           then {Some None} else UNIV))"
  using session_reachable_good [of es]
  by (auto simp: session_good_def logout_def)

text \<open>
  The notice that a session has ended is shown at most once: a second taker gets nothing
  until the server sends another.
\<close>

lemma notice_taken_once:
  "fst (takeEndedNotice (snd (takeEndedNotice s))) = None
   \<and> fst (takeEndedNotice (snd (load_session (Inr body) s))) = sb_ended body
   \<and> fst (takeEndedNotice (snd (load_session (Inl e) s))) = ended s"
  by (simp add: takeEndedNotice_def load_session_def Let_def)

end
