(* ===== verification/Parts.thy ===== *)
theory Parts
  imports Editing Session
begin

text \<open>
  The parts every page is built from: the page and its cards (\<open>src/pages/page.ts\<close>), the mark
  (\<open>src/logo.ts\<close>), lists of facts (\<open>src/components/definitions.ts\<close>), a dish as a menu shows it
  (\<open>src/components/menurow.ts\<close>) and the rules of availability
  (\<open>src/components/availability.ts\<close>). \<open>app\<close> is what drawing reads of the application object: the
  translator, the session, the browser's formatters, the moment, and the path in the address bar.
\<close>

record app =
  app_t :: translator
  app_session :: session
  app_intl :: intl
  app_now :: int
  app_path :: string

definition language :: "app \<Rightarrow> string" where
  "language a = tr_language (app_t a)"

text \<open>The id of the person looking, if somebody is logged in: \<open>app.session.user?.id\<close>.\<close>

definition me :: "app \<Rightarrow> string option" where
  "me a = map_option su_id (current (app_session a))"

abbreviation say_t :: "app \<Rightarrow> string \<Rightarrow> string" where
  "say_t a k \<equiv> translate (app_t a) k []"

lemma me_authenticated: "isAuthenticated (app_session a) \<longleftrightarrow> me a \<noteq> None"
  by (simp add: me_def isAuthenticated_def)

text \<open>Nothing to press in an element is nothing to press in its parts.\<close>

lemma no_actions_el [node_simps]:
  assumes "t \<noteq> []"
  shows "actions_of (el t attributes cs) = [] \<longleftrightarrow>
    (\<forall>nv \<in> set attributes. attribute_actions nv = []) \<and> (\<forall>c \<in> set cs. child_actions c = [])"
proof -
  have "actions_of (el t attributes cs) = [] \<longleftrightarrow> set (actions_of (el t attributes cs)) = {}"
    by (simp only: set_empty)
  also have "\<dots> \<longleftrightarrow> (\<forall>nv \<in> set attributes. attribute_actions nv = []) \<and> (\<forall>c \<in> set cs. child_actions c = [])"
    unfolding actions_el [OF assms] by auto
  finally show ?thesis .
qed

lemma children_if [node_simps]:
  "(\<Union>c \<in> set (if b then xs else ys). f c) = (if b then \<Union>c \<in> set xs. f c else \<Union>c \<in> set ys. f c)"
  by simp

section \<open>The mark\<close>

text \<open>
  The drawing is a file of the build: its view box and its contents, or \<open>None\<close> when it did not
  parse. The document is the list of the children of its body.
\<close>

record logo_asset =
  la_view_box :: "string option"
  la_content :: "unit node list"

definition SYMBOL_ID :: string where
  "SYMBOL_ID = ''doenerstag-mark''"

definition with_view_box :: "logo_asset \<Rightarrow> 'a node \<Rightarrow> 'a node" where
  "with_view_box asset x =
     (if truthy (la_view_box asset) then set_attribute ''viewBox'' (the (la_view_box asset)) x else x)"

definition sprite :: "logo_asset \<Rightarrow> unit node" where
  "sprite asset =
     (let symbol = foldl (\<lambda>x c. add_child c x)
            (with_view_box asset (set_attribute ''id'' SYMBOL_ID (Elem ''symbol'' [] [] [] []))) (la_content asset)
      in add_child symbol
           (set_attribute ''class'' ''logo-sprite''
             (set_attribute ''aria-hidden'' ''true'' (Elem ''svg'' [] [] [] []))))"

definition has_symbol :: "unit node list \<Rightarrow> bool" where
  "has_symbol body = list_ex (\<lambda>n. list_ex (\<lambda>(p, x). dom_id x = SYMBOL_ID) (([], n) # below n)) body"

definition ensureSprite :: "logo_asset option \<Rightarrow> unit node list \<Rightarrow> bool \<times> unit node list" where
  "ensureSprite template body =
     (case template of
        None \<Rightarrow> (False, body)
      | Some asset \<Rightarrow> (True, if has_symbol body then body else body @ [sprite asset]))"

definition mark_node :: "logo_asset \<Rightarrow> string option \<Rightarrow> string option \<Rightarrow> 'a node" where
  "mark_node asset cls label =
     (let mark = with_view_box asset (Elem ''svg'' [] [] [] []);
          classed = (if truthy cls then set_attribute ''class'' (the cls) mark else mark);
          named = (case label of
              None \<Rightarrow> set_attribute ''aria-hidden'' ''true'' classed
            | Some l \<Rightarrow> add_child (set_text l (Elem ''title'' [] [] [] []))
                         (set_attribute ''role'' ''img'' classed))
      in add_child (set_attribute ''href'' (CHR ''#'' # SYMBOL_ID) (Elem ''use'' [] [] [] [])) named)"

definition logoMark ::
  "logo_asset option \<Rightarrow> string option \<Rightarrow> string option \<Rightarrow> unit node list \<Rightarrow> 'a node \<times> unit node list" where
  "logoMark template cls label body =
     (let (ready, body') = ensureSprite template body
      in (case template of
            Some asset \<Rightarrow> if ready then mark_node asset cls label else Elem ''span'' [] [] [] []
          | None \<Rightarrow> Elem ''span'' [] [] [] [], body'))"

lemma actions_add_child [simp]:
  "tag_name p \<noteq> [] \<Longrightarrow> actions_of (add_child c p) = actions_of p @ actions_of c"
  by (cases p) simp_all

lemma tag_name_update [simp]:
  "tag_name (add_child c x) = tag_name x" "tag_name (set_text s x) = tag_name x"
  "tag_name (add_listener e f x) = tag_name x" "tag_name (set_property n v x) = tag_name x"
  "tag_name (keyed x k) = tag_name x" "tag_name (set_flag n b x) = tag_name x"
  by (cases x; simp add: keyed_def set_flag_def)+

lemma tag_name_view_box [simp]: "tag_name (with_view_box asset x) = tag_name x"
  by (cases x) (simp_all add: with_view_box_def)

lemma actions_view_box [simp]: "actions_of (with_view_box asset x) = actions_of x"
  by (simp add: with_view_box_def)

lemma mark_no_actions [node_simps]: "actions_of (mark_node asset cls label) = []"
  by (simp add: mark_node_def Let_def split: option.split)

lemma foldl_add_child [simp]:
  "foldl (\<lambda>x c. add_child c x) (Elem t as ps ls cs) ds = Elem t as ps ls (cs @ ds)"
  by (induction ds arbitrary: cs) simp_all

text \<open>However many copies of the mark a document draws, the drawing itself is in it once.\<close>

lemma sprite_once:
  "snd (ensureSprite template (snd (ensureSprite template body))) = snd (ensureSprite template body)"
proof (cases template)
  case (Some asset)
  have "has_symbol (body @ [sprite asset])"
    by (cases "la_view_box asset")
      (simp_all add: has_symbol_def sprite_def with_view_box_def dom_id_def get_attribute_def SYMBOL_ID_def)
  with Some show ?thesis by (auto simp: ensureSprite_def)
qed (simp add: ensureSprite_def)

section \<open>The shape of a page\<close>

text \<open>A page is its node and the title it gives the document.\<close>

definition document_title :: "string \<Rightarrow> string" where
  "document_title title = title @ '' '' @ em_dash @ '' doenerstag''"

definition page :: "string \<Rightarrow> 'a child list \<Rightarrow> 'a node \<times> string" where
  "page title cs =
     (append (el ''article'' [(''class'', AStr ''page-body'')]
        [CNode (el ''h1'' [(''class'', AStr ''page-title''), (''text'', AStr title)] [])]) cs,
      document_title title)"

text \<open>\<open>classList.add\<close> and \<open>insertBefore(..., firstChild)\<close>.\<close>

definition class_list :: "'a node \<Rightarrow> string list" where
  "class_list x =
     filter (\<lambda>c. c \<noteq> []) (split_on (CHR '' '') (case get_attribute x ''class'' of None \<Rightarrow> [] | Some v \<Rightarrow> v))"

definition class_add :: "string \<Rightarrow> 'a node \<Rightarrow> 'a node" where
  "class_add c x =
     (if c \<in> set (class_list x) then x
      else set_attribute ''class'' (join_with '' '' (class_list x @ [c])) x)"

fun insert_first :: "'a node \<Rightarrow> 'a node \<Rightarrow> 'a node" where
  "insert_first c (TextNode s) = TextNode s"
| "insert_first c (Elem t as ps ls cs) = Elem t as ps ls (c # cs)"

definition watermarked :: "logo_asset option \<Rightarrow> 'a node \<Rightarrow> 'a node" where
  "watermarked template x =
     insert_first (fst (logoMark template (Some ''page-watermark'') None []))
       (class_add ''page-watermarked'' x)"

definition overviewPage :: "logo_asset option \<Rightarrow> string \<Rightarrow> 'a child list \<Rightarrow> 'a node \<times> string" where
  "overviewPage template title cs =
     (let (article, doc) = page title cs in (watermarked template article, doc))"

text \<open>
  \<open>setPageTitle\<close>: the first element of the class \<open>page-title\<close> below the root gets the text, and
  the document its title.
\<close>

fun retitle :: "string \<Rightarrow> 'a node list \<Rightarrow> 'a node list option" where
  "retitle title [] = None"
| "retitle title (TextNode s # xs) = map_option ((#) (TextNode s)) (retitle title xs)"
| "retitle title (Elem t as ps ls cs # xs) =
     (if ''page-title'' \<in> set (class_list (Elem t as ps ls cs))
      then Some (set_text title (Elem t as ps ls cs) # xs)
      else (case retitle title cs of
              Some cs' \<Rightarrow> Some (Elem t as ps ls cs' # xs)
            | None \<Rightarrow> map_option ((#) (Elem t as ps ls cs)) (retitle title xs)))"

fun with_kids :: "'a node list \<Rightarrow> 'a node \<Rightarrow> 'a node" where
  "with_kids cs (TextNode s) = TextNode s"
| "with_kids cs (Elem t as ps ls ds) = Elem t as ps ls cs"

definition setPageTitle :: "'a node \<Rightarrow> string \<Rightarrow> 'a node \<times> string" where
  "setPageTitle root title =
     (case retitle title (kids root) of None \<Rightarrow> root | Some cs \<Rightarrow> with_kids cs root, document_title title)"

definition pageWithActions :: "string \<Rightarrow> 'a node \<Rightarrow> 'a child list \<Rightarrow> 'a node \<times> string" where
  "pageWithActions title controls cs =
     setPageTitle
       (append (el ''article'' [(''class'', AStr ''page-body'')]
          [CNode (el ''div'' [(''class'', AStr ''page-heading'')]
             [CNode (el ''h1'' [(''class'', AStr ''page-title''), (''text'', AStr title)] []), CNode controls])])
        cs) title"

definition overviewPageWithActions ::
  "logo_asset option \<Rightarrow> string \<Rightarrow> 'a node \<Rightarrow> 'a child list \<Rightarrow> 'a node \<times> string" where
  "overviewPageWithActions template title controls cs =
     (let (article, doc) = pageWithActions title controls cs in (watermarked template article, doc))"

definition section_card :: "string \<Rightarrow> 'a child list \<Rightarrow> 'a node" where
  "section_card title cs =
     append (el ''section'' [(''class'', AStr ''card'')]
       [CNode (el ''h2'' [(''class'', AStr ''card-title''), (''text'', AStr title)] [])]) cs"

definition card :: "'a child list \<Rightarrow> 'a node" where
  "card cs = append (el ''section'' [(''class'', AStr ''card'')] []) cs"

definition actions :: "'a child list \<Rightarrow> 'a node" where
  "actions cs = append (el ''div'' [(''class'', AStr ''actions'')] []) cs"

definition failedPage :: "string \<Rightarrow> translator \<Rightarrow> js_error \<Rightarrow> 'a node \<times> string" where
  "failedPage title t e =
     page title [CNode (el ''p'' [(''class'', AStr ''field-error''), (''role'', AStr ''alert''),
       (''text'', AStr (errorMessage t e))] [])]"

lemma class_add_actions [simp]:
  "actions_of (class_add c x) = actions_of x" "tag_name (class_add c x) = tag_name x"
  by (cases x; simp add: class_add_def)+

lemma insert_first_actions:
  "tag_name p \<noteq> [] \<Longrightarrow> set (actions_of (insert_first c p)) = set (actions_of c) \<union> set (actions_of p)"
  by (cases p) auto

lemma mark_actions [simp]: "actions_of (fst (logoMark template cls label body)) = []"
  by (auto simp: logoMark_def node_simps split: prod.splits option.splits)

lemma section_actions [node_simps]:
  "set (actions_of (section_card title cs)) = (\<Union>c \<in> set cs. set (child_actions c))"
  "set (actions_of (card cs)) = (\<Union>c \<in> set cs. set (child_actions c))"
  "set (actions_of (actions cs)) = (\<Union>c \<in> set cs. set (child_actions c))"
  by (simp_all add: section_card_def card_def actions_def set_actions_append node_simps)

lemma page_actions [node_simps]:
  "set (actions_of (fst (page title cs))) = (\<Union>c \<in> set cs. set (child_actions c))"
  "set (actions_of (fst (overviewPage template title cs))) = (\<Union>c \<in> set cs. set (child_actions c))"
  by (simp_all add: page_def overviewPage_def watermarked_def insert_first_actions set_actions_append node_simps)

lemma failed_page_actions [node_simps]: "actions_of (fst (failedPage title t e)) = []"
  by (simp add: failedPage_def page_def append_Elem el_def node_simps apply_attribute_def)

lemma heading_renamed:
  "fst (pageWithActions title controls cs) =
     append (el ''article'' [(''class'', AStr ''page-body'')]
        [CNode (el ''div'' [(''class'', AStr ''page-heading'')]
           [CNode (el ''h1'' [(''class'', AStr ''page-title''), (''text'', AStr title)] []), CNode controls])]) cs"
  by (simp add: pageWithActions_def setPageTitle_def el_def append_Elem apply_attribute_def attribute_text_def
    class_list_def get_attribute_def)

lemma page_with_actions [node_simps]:
  "set (actions_of (fst (pageWithActions title controls cs)))
     = set (actions_of controls) \<union> (\<Union>c \<in> set cs. set (child_actions c))"
  "set (actions_of (fst (overviewPageWithActions template title controls cs)))
     = set (actions_of controls) \<union> (\<Union>c \<in> set cs. set (child_actions c))"
  by (simp_all add: heading_renamed overviewPageWithActions_def watermarked_def insert_first_actions
    set_actions_append node_simps case_prod_beta)

section \<open>Lists of facts\<close>

definition definitionList :: "(string \<times> 'a child) list \<Rightarrow> string \<Rightarrow> 'a node" where
  "definitionList rows className =
     foldl (\<lambda>x (label, value). add_child (append (el ''dd'' [] []) [value])
                (add_child (el ''dt'' [(''text'', AStr label)] []) x))
       (el ''dl'' [(''class'', AStr className)] []) rows"

lemma definition_list_actions [node_simps]:
  "set (actions_of (definitionList rows cls)) = (\<Union>(l, v) \<in> set rows. set (child_actions v))"
proof -
  have "tag_name x \<noteq> [] \<Longrightarrow>
     set (actions_of (foldl (\<lambda>x (label, value). add_child (append (el ''dd'' [] []) [value])
         (add_child (el ''dt'' [(''text'', AStr label)] []) x)) x rows))
     = set (actions_of x) \<union> (\<Union>(l, v) \<in> set rows. set (child_actions v))" for x :: "'a node"
  proof (induction rows arbitrary: x)
    case (Cons r rows)
    obtain l v where r: "r = (l, v)" by (cases r)
    from Cons show ?case by (auto simp: r set_actions_append node_simps)
  qed simp
  from this [of "el ''dl'' [(''class'', AStr cls)] []"] show ?thesis
    by (simp add: definitionList_def node_simps)
qed

lemma tag_name_definition_list [simp]: "tag_name (definitionList rows cls) = ''dl''"
proof -
  have "tag_name (foldl (\<lambda>x (label, value). add_child (append (el ''dd'' [] []) [value])
         (add_child (el ''dt'' [(''text'', AStr label)] []) x)) x rows) = tag_name x" for x :: "'a node"
    by (induction rows arbitrary: x) (auto split: prod.split)
  then show ?thesis by (simp add: definitionList_def)
qed

section \<open>Rules of availability\<close>

text \<open>A rule in one line: its date, its days by their first two letters, its hours.\<close>

definition describeFilter :: "app \<Rightarrow> availability_filter \<Rightarrow> string" where
  "describeFilter a f =
     (let date = (if truthy (af_on_date f) then [the (af_on_date f)] else []);
          days = (if af_weekdays f \<noteq> []
                  then [join_with '', '' (map (\<lambda>d. take_chars 2 (formatWeekday (app_intl a) (language a) d)) (af_weekdays f))]
                  else []);
          hours = (if truthy (af_start_time f) \<and> truthy (af_end_time f)
                   then [the (af_start_time f) @ en_dash @ the (af_end_time f)] else []);
          parts = date @ days @ hours
      in if parts \<noteq> [] then join_with ('' '' @ mid_dot @ '' '') parts else say_t a ''availability.always'')"

definition availabilityChip :: "app \<Rightarrow> availability_filter list \<Rightarrow> 'a node option" where
  "availabilityChip a filters =
     (if filters = [] then None
      else let summary = join_with '', '' (map af_name filters)
           in Some (el ''span''
                [(''class'', AStr ''chip availability-chip''),
                 (''title'', AStr (say_t a ''availability.attached'' @ '': '' @ summary))]
                [CNode (icon ''clock'' None), CNode (el ''span'' [(''text'', AStr summary)] [])]))"

text \<open>
  The picker: a box per rule, and its reader. The reader goes over a map from rule to box, which
  keeps one box per id, in the order the ids first came.
\<close>

definition filterPicker :: "app \<Rightarrow> availability_filter list \<Rightarrow> string list \<Rightarrow> 'a node" where
  "filterPicker a filters attached =
     (if filters = [] then
        el ''p'' [(''class'', AStr ''field-hint''), (''text'', AStr (say_t a ''availability.none_defined''))] []
      else el ''fieldset'' [(''class'', AStr ''fieldset'')]
        ([CNode (el ''legend'' [(''text'', AStr (say_t a ''availability.attached''))] []),
          CNode (el ''p'' [(''class'', AStr ''field-hint''), (''text'', AStr (say_t a ''availability.attach_hint''))] [])]
         @ map (\<lambda>f. CNode (el ''label'' [(''class'', AStr ''checkbox-row'')]
             [CNode (el ''input'' [(''type'', AStr ''checkbox''), (''class'', AStr ''checkbox''),
                (''checked'', ABool (af_id f \<in> set attached))] []),
              CNode (el ''span'' []
                [CNode (el ''span'' [(''text'', AStr (af_name f))] []),
                 CNode (el ''span'' [(''class'', AStr ''muted''), (''text'', AStr ('' '' @ describeFilter a f))] [])])])) filters))"

definition picked :: "availability_filter list \<Rightarrow> (nat \<Rightarrow> bool) \<Rightarrow> string list" where
  "picked filters ticked =
     map fst (filter (\<lambda>(ident, b). ticked b)
       (foldl (\<lambda>m (b, f). AList.update (af_id f) b m) [] (enumerate 0 filters)))"

definition loadFilters ::
  "availability_filter list server \<Rightarrow> string \<Rightarrow> ('l, availability_filter list) act" where
  "loadFilters srv restaurantID =
     try_catch (call srv (Call ''GET'' (''/restaurants/'' @ restaurantID @ ''/availability'') None)) (\<lambda>_. ret [])"

definition saveAttachments ::
  "unit server \<Rightarrow> string \<Rightarrow> string \<Rightarrow> string \<Rightarrow> string list \<Rightarrow> ('l, unit) act" where
  "saveAttachments srv restaurantID kind elementID filterIDs =
     call srv (Call ''PUT'' (''/restaurants/'' @ restaurantID @ ''/'' @ kind @ ''/'' @ elementID @ ''/availability'')
       (Some (JObj [(''filter_ids'', JArr (map JStr filterIDs))])))"

text \<open>
  With distinct ids the reader answers the ids of the ticked rules in the order of the page; a
  picker nobody has touched answers the attached ones it shows.
\<close>

lemma boxes_of:
  "distinct (map af_id fs) \<Longrightarrow> fst ` set ps \<inter> af_id ` set fs = {} \<Longrightarrow>
   foldl (\<lambda>m (b, f). AList.update (af_id f) b m) ps (enumerate n fs)
     = ps @ map (\<lambda>(b, f). (af_id f, b)) (enumerate n fs)"
proof (induction fs arbitrary: n ps)
  case (Cons f fs)
  then have "af_id f \<notin> fst ` set ps" by auto
  then have up: "AList.update (af_id f) n ps = ps @ [(af_id f, n)]"
    by (induction ps) auto
  show ?case
    using Cons.IH [of "ps @ [(af_id f, n)]" "Suc n"] Cons.prems by (auto simp: up)
qed simp

lemma picked_attached:
  assumes "distinct (map af_id fs)"
  shows "picked fs (\<lambda>b. af_id (fs ! b) \<in> set attached) = filter (\<lambda>x. x \<in> set attached) (map af_id fs)"
proof -
  have boxes: "foldl (\<lambda>m (b, f). AList.update (af_id f) b m) [] (enumerate 0 fs)
      = map (\<lambda>(b, f). (af_id f, b)) (enumerate 0 fs)"
    using boxes_of [of fs "[]" 0] assms by simp
  have "map fst (filter (\<lambda>(ident, b). af_id (xs ! (b - n)) \<in> A) (map (\<lambda>(b, f). (af_id f, b)) (enumerate n xs)))
      = filter (\<lambda>x. x \<in> A) (map af_id xs)" for xs n A
  proof (induction xs arbitrary: n)
    case (Cons x xs)
    have "filter (\<lambda>(ident, b). af_id ((x # xs) ! (b - n)) \<in> A) (map (\<lambda>(b, f). (af_id f, b)) (enumerate (Suc n) xs))
        = filter (\<lambda>(ident, b). af_id (xs ! (b - Suc n)) \<in> A) (map (\<lambda>(b, f). (af_id f, b)) (enumerate (Suc n) xs))"
      by (rule filter_cong) (auto simp: in_set_enumerate_eq Suc_diff_le)
    with Cons.IH [of "Suc n"] show ?case by simp
  qed simp
  from this [of fs 0 "set attached"] show ?thesis by (simp add: picked_def boxes)
qed

lemma chip_actions [node_simps]:
  "availabilityChip a fs = Some x \<Longrightarrow> actions_of x = []"
  by (auto simp: availabilityChip_def Let_def node_simps split: if_splits)

section \<open>A dish\<close>

definition chip :: "string \<Rightarrow> string \<Rightarrow> 'a node" where
  "chip txt className = el ''span'' [(''class'', AStr (''chip '' @ className)), (''text'', AStr txt)] []"

definition itemChips :: "app \<Rightarrow> menu_item \<Rightarrow> 'a node list" where
  "itemChips a item =
     (case availabilityChip a (case mi_availability item of None \<Rightarrow> [] | Some fs \<Rightarrow> fs) of
        None \<Rightarrow> [] | Some x \<Rightarrow> [x])
     @ map (\<lambda>tg. chip (tagName (app_t a) tg) ''chip-tag'') (mi_tags item)
     @ map (\<lambda>c. chip (referenceName (app_t a) ''allergen'' (cl_code c)) ''chip-allergen'') (mi_allergens item)
     @ map (\<lambda>c. chip (referenceName (app_t a) ''additive'' (cl_code c)) ''chip-additive'') (mi_additives item)"

definition menuItemParts :: "app \<Rightarrow> menu_item \<Rightarrow> 'a node list" where
  "menuItemParts a item =
     (let marks = itemChips a item
      in [if truthy (mi_image_id item)
          then el ''img'' [(''class'', AStr ''menu-thumb''), (''src'', AStr (thumbnailURL (the (mi_image_id item)))),
                 (''alt'', AStr []), (''loading'', AStr ''lazy'')] []
          else el ''div'' [(''class'', AStr ''menu-thumb menu-thumb-empty''), (''aria-hidden'', AStr ''true'')] [],
          el ''div'' [(''class'', AStr ''menu-item-text'')]
            [CNode (el ''div'' [(''class'', AStr ''menu-item-head'')]
               [if mi_external_id item \<noteq> []
                then CNode (el ''span'' [(''class'', AStr ''menu-number''), (''text'', AStr (mi_external_id item))] [])
                else CNull,
                CNode (el ''strong'' [(''text'', AStr (mi_name item))] []),
                if mi_available item then CNull
                else CNode (el ''span'' [(''class'', AStr ''badge''),
                       (''text'', AStr (say_t a ''menu.item.unavailable''))] [])]),
             if mi_description item \<noteq> []
             then CNode (el ''p'' [(''class'', AStr ''muted''), (''text'', AStr (mi_description item))] [])
             else CNull,
             if marks \<noteq> [] then CNode (el ''div'' [(''class'', AStr ''chips'')] (map CNode marks)) else CNull]])"

lemma chips_no_actions: "x \<in> set (itemChips a item) \<Longrightarrow> actions_of x = []"
  by (auto simp: itemChips_def chip_def node_simps split: option.splits)

lemma parts_no_actions [node_simps]: "x \<in> set (menuItemParts a item) \<Longrightarrow> actions_of x = []"
  unfolding menuItemParts_def Let_def
  by (simp only: set_simps insert_iff empty_iff)
     (elim disjE; simp add: node_simps chips_no_actions if_distrib [of actions_of] if_distrib [of child_actions])

end
