(* ===== verification/Orders.thy ===== *)
theory Orders
  imports Parts Forms Modal
begin

text \<open>
  The overview of orders (\<open>src/pages/orders.ts\<close>) and the paid tick (\<open>src/components/paid.ts\<close>): who
  takes part in an order, what a tile offers to whom, deleting an order, the administrator's
  cleanup, and who may tick a line as settled.
\<close>

section \<open>Asking first\<close>

text \<open>
  \<open>confirmDialog\<close> as the action that waits for it: what the person reads is recorded, and what they
  answer is a function of what happened so far.
\<close>

definition question :: "confirm_texts \<Rightarrow> string" where
  "question c =
     cf_title c @ ''. '' @ cf_message c @ (if cf_detail c \<noteq> [] then '' '' @ cf_detail c else [])"

definition confirmed :: "(effect list \<Rightarrow> string \<Rightarrow> bool) \<Rightarrow> confirm_texts \<Rightarrow> ('l, bool) act" where
  "confirmed person c = ask person (question c)"

definition confirm_with ::
  "translator \<Rightarrow> string \<Rightarrow> string \<Rightarrow> string \<Rightarrow> string \<Rightarrow> confirm_texts" where
  "confirm_with t title message detail confirm =
     \<lparr>cf_title = title, cf_message = message, cf_detail = detail, cf_confirm = confirm,
      cf_cancel = translate t ''action.cancel'' [], cf_close = translate t ''action.close'' [],
      cf_danger = True\<rparr>"

text \<open>\<open>Promise.all\<close> over a list.\<close>

primrec all_of :: "('x \<Rightarrow> ('l, 'a) act) \<Rightarrow> 'x list \<Rightarrow> ('l, 'a list) act" where
  "all_of f [] = ret []"
| "all_of f (x # xs) = bind (f x) (\<lambda>y. bind (all_of f xs) (\<lambda>ys. ret (y # ys)))"

text \<open>A request whose failure is caught: \<open>.catch(() => null)\<close>.\<close>

definition maybe :: "'a server \<Rightarrow> http_call \<Rightarrow> ('l, 'a option) act" where
  "maybe srv c = try_catch (bind (call srv c) (\<lambda>x. ret (Some x))) (\<lambda>_. ret None)"

lemma maybe_run [act_simps]:
  "maybe srv c w =
     (Inr (case srv (trace w) c of Inl e \<Rightarrow> None | Inr x \<Rightarrow> Some x), w\<lparr>trace := trace w @ [Sent c]\<rparr>)"
  by (cases "srv (trace w) c") (simp_all add: maybe_def act_simps)

lemma all_of_Cons:
  assumes "f x w = (Inr y, w')" and "all_of f xs w' = (Inr ys, w'')"
  shows "all_of f (x # xs) w = (Inr (y # ys), w'')"
  using assms by (simp add: act_simps)

lemma all_of_maybe:
  "\<exists>answers. length answers = length xs \<and>
     all_of (\<lambda>x. maybe srv (req x)) xs w
       = (Inr answers, w\<lparr>trace := trace w @ map (\<lambda>x. Sent (req x)) xs\<rparr>)"
proof (induction xs arbitrary: w)
  case (Cons x xs)
  from Cons.IH [of "w\<lparr>trace := trace w @ [Sent (req x)]\<rparr>"] obtain answers where
    "length answers = length xs" and
    run: "all_of (\<lambda>x. maybe srv (req x)) xs (w\<lparr>trace := trace w @ [Sent (req x)]\<rparr>)
       = (Inr answers, w\<lparr>trace := trace w @ [Sent (req x)] @ map (\<lambda>x. Sent (req x)) xs\<rparr>)"
    by auto
  note all_of_Cons [OF maybe_run this(2)]
  with \<open>length answers = length xs\<close> show ?case
    by (intro exI [of _ "(case srv (trace w) (req x) of Inl e \<Rightarrow> None | Inr y \<Rightarrow> Some y) # answers"]) auto
qed (simp add: ret_run)

section \<open>Who takes part\<close>

definition isActive :: "app \<Rightarrow> 'a order_header_scheme \<Rightarrow> bool" where
  "isActive a order =
     (case parse_date (app_intl a) (o_deadline_at order) of None \<Rightarrow> False | Some d \<Rightarrow> app_now a < d)"

definition participates :: "app \<Rightarrow> order_detail \<Rightarrow> bool" where
  "participates a order =
     (case me a of
        None \<Rightarrow> False
      | Some i \<Rightarrow>
          isAdmin (app_session a) \<or> od_creator_id order = i \<or> od_money_collector_id order = Some i
          \<or> od_pickup_person_id order = Some i \<or> list_ex (\<lambda>it. oi_user_id it = i) (od_items order))"

definition summaryLink :: "app \<Rightarrow> string \<Rightarrow> bool \<Rightarrow> 'a node" where
  "summaryLink a orderID allowed =
     (if allowed then
        el ''a'' [(''class'', AStr ''button button-primary''),
          (''href'', AStr (''/orders/'' @ orderID @ ''/summary'')), (''text'', AStr (say_t a ''order.summary''))] []
      else
        el ''button'' [(''type'', AStr ''button''), (''class'', AStr ''button button-primary''),
          (''text'', AStr (say_t a ''order.summary'')), (''disabled'', ABool True),
          (''title'', AStr (say_t a ''error.3004''))] [])"

definition iconLink :: "string \<Rightarrow> string \<Rightarrow> string \<Rightarrow> 'a node" where
  "iconLink href name label =
     el ''a'' [(''class'', AStr ''button button-icon''), (''href'', AStr href), (''aria-label'', AStr label),
       (''title'', AStr label)] [CNode (icon name None)]"

lemma summary_link_actions [node_simps]: "actions_of (summaryLink a i b) = []"
  by (simp add: summaryLink_def node_simps)

lemma summary_link_tag: "tag_name (summaryLink a i b) = (if b then ''a'' else ''button'')"
  by (simp add: summaryLink_def)

lemma summary_link_disabled: "has_attribute (summaryLink a i b) ''disabled'' = (\<not> b)"
  by (cases b) (simp_all add: summaryLink_def has_attribute_def get_attribute_def el_def append_Elem
    apply_attribute_def attribute_text_def)

lemma icon_link_actions [node_simps]: "actions_of (iconLink h n l) = []"
  by (simp add: iconLink_def node_simps)

section \<open>A tile\<close>

datatype overview_action = RemoveOrder order_list_entry "order_detail option" | RunCleanup

definition order_logo :: "logo_asset option \<Rightarrow> app \<Rightarrow> 'b order_header_scheme \<Rightarrow> 'a node" where
  "order_logo template a order =
     (if \<not> truthy (o_restaurant_logo_image_id order) then
        el ''div'' [(''class'', AStr ''tile-logo tile-logo-fallback'')]
          [CNode (fst (logoMark template None (Some (say_t a ''app.name'')) []))]
      else el ''img'' [(''class'', AStr ''tile-logo''),
          (''src'', AStr (thumbnailURL (the (o_restaurant_logo_image_id order)))), (''alt'', AStr []),
          (''loading'', AStr ''lazy'')] [])"

lemma logo_no_actions [node_simps]: "actions_of (order_logo template a order) = []"
  by (simp add: order_logo_def node_simps)

definition tile_controls ::
  "app \<Rightarrow> order_list_entry \<Rightarrow> order_detail option \<Rightarrow> overview_action child list" where
  "tile_controls a order detail =
     (let participant = (case detail of None \<Rightarrow> False | Some d \<Rightarrow> participates a d);
          mine = me a \<noteq> None \<and> le_creator_id order = me a
      in [CNode (summaryLink a (o_id order) participant)]
         @ (if mine \<and> isActive a order
            then [CNode (iconLink (''/orders/'' @ o_id order) ''pencil'' (say_t a ''order.edit'')),
                  CNode (iconButton ''trash'' (say_t a ''order.delete'') ''button-danger'' (RemoveOrder order detail))]
            else []))"

definition tile_parts :: "app \<Rightarrow> order_list_entry \<Rightarrow> overview_action child list" where
  "tile_parts a order =
     (let i = app_intl a; l = language a
      in [CNode (el ''span'' [(''class'', AStr ''muted''),
            (''text'', AStr (fulfilmentLabel (app_t a) (o_fulfilment order) @ '' '' @ mid_dot @ '' ''
               @ formatDateTime i l (Stamp (o_fulfilment_at order))))] []),
          CNode (el ''span'' [(''class'', AStr ''muted'')]
            [CStr (say_t a ''order.deadline.label'' @ '': '' @ formatDateTime i l (Stamp (o_deadline_at order))),
             CNode (el ''span'' [(''class'', AStr ''tile-hint''),
               (''text'', AStr ('' ('' @ formatRelativeTime i l (Stamp (o_deadline_at order)) (app_now a) @ '')''))] [])])]
         @ (if isActive a order then []
            else [CNode (el ''span'' [(''class'', AStr ''badge''), (''text'', AStr (say_t a ''order.status.expired''))] [])]))"

definition orderTile ::
  "logo_asset option \<Rightarrow> app \<Rightarrow> order_list_entry \<Rightarrow> order_detail option \<Rightarrow> overview_action node" where
  "orderTile template a order detail =
     (let controls = tile_controls a order detail
      in tile \<lparr>tl_href = ''/orders/'' @ o_id order, tl_title = orderTitle (app_intl a) (language a) order,
               tl_label = None,
               tl_actions = (if controls \<noteq> [] then Some (tileActions controls) else None),
               tl_media = Some (order_logo template a order), tl_faded = \<not> isActive a order\<rparr>
           (tile_parts a order))"

lemma tile_parts_actions: "(\<Union>c \<in> set (tile_parts a order). set (child_actions c)) = {}"
  by (simp add: tile_parts_def Let_def node_simps)

lemma tile_controls_actions:
  "(\<Union>c \<in> set (tile_controls a order detail). set (child_actions c)) =
     (if me a \<noteq> None \<and> le_creator_id order = me a \<and> isActive a order then {RemoveOrder order detail} else {})"
  unfolding tile_controls_def Let_def set_append UN_Un children_if by (simp add: node_simps)

lemma tile_controls_some: "tile_controls a order detail \<noteq> []"
  by (simp add: tile_controls_def Let_def)

lemma order_tile_actions:
  "set (actions_of (orderTile template a order detail)) =
     (if me a \<noteq> None \<and> le_creator_id order = me a \<and> isActive a order then {RemoveOrder order detail} else {})"
  by (simp add: orderTile_def Let_def tile_actions_of tileActions_actions tile_parts_actions
    tile_controls_actions tile_controls_some logo_no_actions del: if_split)

text \<open>
  The overview offers each control exactly to whom it applies: the pencil and the bin stand on a
  tile for the creator of an order that is still open and for nobody else, the bin deletes the
  order it stands on, and the summary is a link for the participants and otherwise a disabled
  button that gives the reason.
\<close>

theorem tile_offers_what_applies:
  "set (actions_of (orderTile template a order detail)) =
     (if (case me a of None \<Rightarrow> False | Some i \<Rightarrow> le_creator_id order = Some i \<and> isActive a order)
      then {RemoveOrder order detail} else {})
   \<and> (let controls = tile_controls a order detail;
          may = (case detail of None \<Rightarrow> False | Some d \<Rightarrow> participates a d)
      in (CNode (summaryLink a (o_id order) may) \<in> set controls)
         \<and> tag_name (summaryLink a (o_id order) may :: overview_action node) = (if may then ''a'' else ''button'')
         \<and> has_attribute (summaryLink a (o_id order) may :: overview_action node) ''disabled'' = (\<not> may))"
proof (intro conjI)
  show "set (actions_of (orderTile template a order detail)) =
     (if (case me a of None \<Rightarrow> False | Some i \<Rightarrow> le_creator_id order = Some i \<and> isActive a order)
      then {RemoveOrder order detail} else {})"
    unfolding order_tile_actions by (cases "me a") simp_all
qed (simp add: Let_def tile_controls_def summary_link_tag summary_link_disabled)

section \<open>Deleting an order\<close>

text \<open>How many other people lose their items.\<close>

definition others_of :: "app \<Rightarrow> order_item list \<Rightarrow> nat" where
  "others_of a items =
     length (remdups (map oi_user_id (filter (\<lambda>it. Some (oi_user_id it) \<noteq> me a) items)))"

definition removal_texts :: "app \<Rightarrow> order_item list \<Rightarrow> confirm_texts" where
  "removal_texts a items =
     (let t = app_t a; n = others_of a items
      in confirm_with t (translate t ''confirm.title'' []) (translate t ''confirm.delete_order'' [])
           (if 0 < n then translate t ''confirm.delete_order.participants'' [(''count'', PNum (int n))] else [])
           (translate t ''action.delete'' []))"

definition removeOrder ::
  "unit server \<Rightarrow> (effect list \<Rightarrow> string \<Rightarrow> bool) \<Rightarrow> ('x ui_scheme, unit) act \<Rightarrow> app \<Rightarrow> order_list_entry \<Rightarrow>
   order_detail option \<Rightarrow> ('x ui_scheme, unit) act" where
  "removeOrder srv person reload a order detail =
     bind (confirmed person (removal_texts a (case detail of None \<Rightarrow> [] | Some d \<Rightarrow> od_items d)))
       (\<lambda>agreed.
          if \<not> agreed then ret ()
          else try_catch
                 (andthen (call srv (Call ''DELETE'' (''/orders/'' @ o_id order) None)) reload)
                 (\<lambda>e. on_status (fail_with (errorMessage (app_t a) e))))"

section \<open>The cleanup\<close>

text \<open>The server answers the cleanup with the number of things it deleted.\<close>

definition run_cleanup ::
  "int server \<Rightarrow> (effect list \<Rightarrow> string \<Rightarrow> bool) \<Rightarrow> ('x ui_scheme, unit) act \<Rightarrow> app \<Rightarrow> ('x ui_scheme, unit) act" where
  "run_cleanup srv person reload a =
     (let t = app_t a
      in bind (confirmed person (confirm_with t (translate t ''admin.cleanup'' [])
                 (translate t ''admin.cleanup_confirm'' []) [] (translate t ''admin.cleanup'' [])))
           (\<lambda>agreed.
              if \<not> agreed then ret ()
              else andthen (runAction t True
                (bind (call srv (Call ''POST'' ''/cleanup'' (Some (JObj []))))
                   (\<lambda>total. andthen
                      (on_status (say (if 0 < total then translate t ''admin.cleanup_done'' [(''count'', PNum total)]
                                       else translate t ''admin.cleanup_nothing'' [])))
                      reload)))
                (ret ())))"

definition cleanupButton :: "app \<Rightarrow> overview_action node" where
  "cleanupButton a =
     button ((plain_button (say_t a ''admin.cleanup''))\<lparr>bt_onclick := Some RunCleanup\<rparr>)"

section \<open>The overview\<close>

definition overview_body ::
  "logo_asset option \<Rightarrow> app \<Rightarrow> order_list_entry list \<Rightarrow> order_detail option list \<Rightarrow> overview_action child list" where
  "overview_body template a orders details =
     [CNode (status_element statusLine),
      CNode (tileGrid (CNode (addTile (if isAuthenticated (app_session a) then ''/orders/new''
                                       else loginHref (app_path a)) (say_t a ''order.new''))
        # map (\<lambda>(n, order). CNode (orderTile template a order (case at details n of None \<Rightarrow> None | Some d \<Rightarrow> d)))
            (enumerate 0 orders)))]"

definition orders_page_of ::
  "logo_asset option \<Rightarrow> app \<Rightarrow> order_list_entry list \<Rightarrow> order_detail option list \<Rightarrow> overview_action node \<times> string" where
  "orders_page_of template a orders details =
     (let body = overview_body template a orders details; title = say_t a ''nav.orders''
      in if \<not> isAdmin (app_session a) then overviewPage template title body
         else overviewPageWithActions template title (cleanupButton a) body)"

definition ordersPage ::
  "logo_asset option \<Rightarrow> order_list_entry list server \<Rightarrow> order_detail server \<Rightarrow> app
   \<Rightarrow> ('l, overview_action node \<times> string) act" where
  "ordersPage template list_srv detail_srv a =
     bind (try_catch (bind (call list_srv (Call ''GET'' ''/orders'' None)) (\<lambda>os. ret (Inr os))) (\<lambda>e. ret (Inl e)))
       (\<lambda>answer. case answer of
          Inl e \<Rightarrow> ret (failedPage (say_t a ''nav.orders'') (app_t a) e)
        | Inr orders \<Rightarrow>
            bind (if isAuthenticated (app_session a)
                  then all_of (\<lambda>order. maybe detail_srv (Call ''GET'' (''/orders/'' @ o_id order) None)) orders
                  else ret (map (\<lambda>_. None) orders))
              (\<lambda>details. ret (orders_page_of template a orders details)))"

text \<open>
  The overview asks for the list once, and for the orders themselves only when somebody is
  logged in, once each and in the order of the list; it never fails, because a list that cannot be
  read is a page that says why and an order that cannot be read only loses its summary link.
\<close>

theorem overview_requests:
  "adds (ordersPage template list_srv detail_srv a) w =
     (let get = Call ''GET'' ''/orders'' None
      in Sent get # (case list_srv (trace w) get of
           Inl e \<Rightarrow> []
         | Inr orders \<Rightarrow> if isAuthenticated (app_session a)
             then map (\<lambda>order. Sent (Call ''GET'' (''/orders/'' @ o_id order) None)) orders else []))
   \<and> (\<exists>p. fst (ordersPage template list_srv detail_srv a w) = Inr p)"
proof (cases "list_srv (trace w) (Call ''GET'' ''/orders'' None)")
  case (Inr orders)
  obtain answers where "all_of (\<lambda>order. maybe detail_srv (Call ''GET'' (''/orders/'' @ o_id order) None)) orders
      (w\<lparr>trace := trace w @ [Sent (Call ''GET'' ''/orders'' None)]\<rparr>)
     = (Inr answers, w\<lparr>trace := trace w @ Sent (Call ''GET'' ''/orders'' None)
          # map (\<lambda>order. Sent (Call ''GET'' (''/orders/'' @ o_id order) None)) orders\<rparr>)"
    using all_of_maybe [of orders detail_srv "\<lambda>order. Call ''GET'' (''/orders/'' @ o_id order) None"
      "w\<lparr>trace := trace w @ [Sent (Call ''GET'' ''/orders'' None)]\<rparr>"] by auto
  with Inr show ?thesis
    by (simp add: ordersPage_def adds_def act_simps Let_def)
qed (simp add: ordersPage_def adds_def act_simps Let_def)

section \<open>The paid tick\<close>

text \<open>
  Who may tick a line: the owner of the line, the creator, the collector of the money and the
  administrator. An absent creator or collector is nobody.
\<close>

definition mayTickPaid :: "app \<Rightarrow> string \<Rightarrow> string option \<Rightarrow> string option \<Rightarrow> bool" where
  "mayTickPaid a ownerID creatorID moneyCollectorID =
     (case me a of
        None \<Rightarrow> False
      | Some i \<Rightarrow> isAdmin (app_session a) \<or> ownerID = i \<or> creatorID = Some i \<or> moneyCollectorID = Some i)"

text \<open>The box of a line, as the person sees it: ticked, and whether it can be pressed.\<close>

record paid_box =
  pb_checked :: bool
  pb_disabled :: bool

definition new_paid_box :: "bool \<Rightarrow> bool \<Rightarrow> paid_box" where
  "new_paid_box paid allowed = \<lparr>pb_checked = paid, pb_disabled = \<not> allowed\<rparr>"

definition paidCheckbox :: "app \<Rightarrow> string \<Rightarrow> string \<Rightarrow> bool \<Rightarrow> bool \<Rightarrow> 'a \<Rightarrow> 'a node" where
  "paidCheckbox a itemID itemName paid allowed change =
     (let label = translate (app_t a) ''item.paid_for'' [(''item'', PStr itemName)];
          box = keyed (el ''input''
            [(''type'', AStr ''checkbox''), (''class'', AStr ''checkbox''), (''checked'', ABool paid),
             (''disabled'', ABool (\<not> allowed)), (''aria-label'', AStr label), (''title'', AStr label)] [])
            (''paid:'' @ itemID);
          live = (if allowed then add_listener ''change'' change box else box)
      in el ''label'' [(''class'', AStr ''paid-box'')]
           [CNode live, CNode (el ''span'' [(''class'', AStr ''paid-label''), (''text'', AStr (say_t a ''item.paid''))] [])])"

text \<open>
  What a change does: the browser has ticked the box already; it is held until the server has
  answered and the page has read itself again, and put back when either fails.
\<close>

definition tick_paid ::
  "unit server \<Rightarrow> ('x paid_box_scheme, unit) act \<Rightarrow> string \<Rightarrow> string \<Rightarrow> ('x paid_box_scheme, unit) act" where
  "tick_paid srv onChanged orderID itemID =
     andthen (modify (\<lambda>b. b\<lparr>pb_checked := \<not> pb_checked b\<rparr>))
       (bind (gets pb_checked)
          (\<lambda>wanted. andthen (modify (\<lambda>b. b\<lparr>pb_disabled := True\<rparr>))
             (try_catch
                (andthen (call srv (Call ''PUT'' (''/orders/'' @ orderID @ ''/items/'' @ itemID @ ''/paid'')
                                      (Some (JObj [(''paid'', JBool wanted)])))) onChanged)
                (\<lambda>_. modify (\<lambda>b. b\<lparr>pb_checked := \<not> wanted, pb_disabled := False\<rparr>)))))"

lemma add_listener_actions [node_simps]:
  "tag_name x \<noteq> [] \<Longrightarrow> set (actions_of (add_listener n f x)) = insert f (set (actions_of x))"
  by (cases x) auto

lemma paid_checkbox_actions [node_simps]:
  "set (actions_of (paidCheckbox a itemID itemName paid allowed change)) = (if allowed then {change} else {})"
  by (cases allowed) (simp_all add: paidCheckbox_def Let_def node_simps)

text \<open>
  The paid tick never claims more than the server agreed to: one request says what the box
  showed when it was pressed, and after it the box is as it was and can be pressed again if the
  server refused or the page could not be read again, and otherwise shows the new state. It never
  throws, whatever reading the page again does to the rest.
\<close>

theorem paid_tick_agrees:
  assumes "\<And>v r v'. onChanged v = (r, v') \<Longrightarrow> pb_checked (local v') = pb_checked (local v)"
  shows "(let put = Call ''PUT'' (''/orders/'' @ orderID @ ''/items/'' @ itemID @ ''/paid'')
                     (Some (JObj [(''paid'', JBool (\<not> pb_checked (local w)))]));
              held = w\<lparr>local := (local w)\<lparr>pb_checked := \<not> pb_checked (local w), pb_disabled := True\<rparr>,
                       trace := trace w @ [Sent put]\<rparr>;
              agreed = (\<exists>u. srv (trace w) put = Inr u) \<and> (\<exists>u. fst (onChanged held) = Inr u);
              after = tick_paid srv onChanged orderID itemID w
          in fst after = Inr ()
             \<and> pb_checked (local (snd after)) = (if agreed then \<not> pb_checked (local w) else pb_checked (local w))
             \<and> (agreed \<or> \<not> pb_disabled (local (snd after)))
             \<and> (case srv (trace w) put of
                  Inl e \<Rightarrow> trace (snd after) = trace w @ [Sent put]
                | Inr u \<Rightarrow> trace (snd after) = trace (snd (onChanged held))))"
proof -
  let ?put = "Call ''PUT'' (''/orders/'' @ orderID @ ''/items/'' @ itemID @ ''/paid'')
                     (Some (JObj [(''paid'', JBool (\<not> pb_checked (local w)))]))"
  let ?held = "w\<lparr>local := (local w)\<lparr>pb_checked := \<not> pb_checked (local w), pb_disabled := True\<rparr>,
                 trace := trace w @ [Sent ?put]\<rparr>"
  obtain r w' where r: "onChanged ?held = (r, w')" by (cases "onChanged ?held")
  have same: "pb_checked (local w') = (\<not> pb_checked (local w))" using assms [OF r] by simp
  show ?thesis
  proof (cases "srv (trace w) ?put")
    case (Inl e)
    then show ?thesis by (simp add: tick_paid_def act_simps Let_def)
  next
    case (Inr u)
    with r same show ?thesis by (cases r) (simp_all add: tick_paid_def act_simps Let_def)
  qed
qed

theorem paid_tick_agrees_witness:
  "pb_checked (local (snd (tick_paid (\<lambda>_ _. Inl AbortError) (ret ()) ''o1'' ''i1''
     (new_world (new_paid_box True True))))) = True"
  using paid_tick_agrees [of "ret ()" "''o1''" "''i1''" "new_world (new_paid_box True True)" "\<lambda>_ _. Inl AbortError"]
  by (simp add: ret_def Let_def new_world_def new_paid_box_def)

end
