(* ===== verification/Contacts.thy ===== *)
theory Contacts
  imports I18n Uri
begin

text \<open>What a contact opens, and its icon (\<open>src/contacts.ts\<close>).\<close>

record contact_target =
  tg_href :: string
  tg_external :: bool

text \<open>The characters \<open>/[^\d+;,*#]/g\<close> keeps, and the test \<open>/^https?:\/\//i\<close>.\<close>

definition tel_char :: "char \<Rightarrow> bool" where
  "tel_char c \<longleftrightarrow> is_digit c \<or> c \<in> set ''+;,*#''"

definition has_scheme :: "string \<Rightarrow> bool" where
  "has_scheme v \<longleftrightarrow>
     (let l = lower_case v in starts_with l ''http://'' \<or> starts_with l ''https://'')"

definition contactTarget :: "'a linkable_scheme \<Rightarrow> contact_target option" where
  "contactTarget c =
     (let v = js_trim (contact_value c)
      in if v = [] then None
         else if render_as c = ''tel'' then
           Some \<lparr>tg_href = ''tel:'' @ filter tel_char v, tg_external = False\<rparr>
         else if render_as c = ''mailto'' then
           Some \<lparr>tg_href = ''mailto:'' @ encodeURIComponent v, tg_external = False\<rparr>
         else if render_as c = ''url'' then
           Some \<lparr>tg_href = (if has_scheme v then v else ''https://'' @ v), tg_external = True\<rparr>
         else if render_as c = ''address'' then
           Some \<lparr>tg_href = ''https://www.google.com/maps/search/?api=1&query='' @ encodeURIComponent v,
                 tg_external = True\<rparr>
         else None)"

definition contactIcon :: "'a linkable_scheme \<Rightarrow> string" where
  "contactIcon c =
     (let code = contact_type_code c; r = render_as c
      in if code = ''phone'' then ''phone''
         else if code = ''mobile'' then ''mobile''
         else if code = ''fax'' then ''fax''
         else if code = ''email'' then ''mail''
         else if code = ''website'' then ''globe''
         else if code = ''address'' then ''map-pin''
         else if r = ''tel'' then ''phone''
         else if r = ''mailto'' then ''mail''
         else if r = ''url'' then ''globe''
         else if r = ''address'' then ''map-pin''
         else [])"

text \<open>The scheme of a link as a browser reads it: up to the first colon, in either case.\<close>

definition scheme_of :: "string \<Rightarrow> string" where
  "scheme_of href = lower_case (takeWhile (\<lambda>c. c \<noteq> CHR '':'') href)"

lemma lower_char_other: "c \<in> {CHR '':'', CHR ''/''} \<Longrightarrow> lower_char d = c \<longleftrightarrow> d = c"
proof -
  assume "c \<in> {CHR '':'', CHR ''/''}"
  then have c: "byte c = 58 \<or> byte c = 47" by auto
  show ?thesis
  proof (cases "65 \<le> byte d \<and> byte d \<le> 90")
    case True
    then have "byte (lower_char d) = byte d + 32" by (simp add: lower_char_def)
    with c True show ?thesis by auto
  qed (auto simp: lower_char_def)
qed

lemma takeWhile_lower:
  "lower_case (takeWhile (\<lambda>c. c \<noteq> CHR '':'') v) = takeWhile (\<lambda>c. c \<noteq> CHR '':'') (lower_case v)"
  by (induction v) (auto simp: lower_case_def lower_char_other)

lemma has_scheme_of: "has_scheme v \<Longrightarrow> scheme_of v \<in> {''http'', ''https''}"
  by (auto simp: has_scheme_def Let_def scheme_of_def takeWhile_lower starts_with_prefix prefix_def)

text \<open>
  Whatever somebody stores as a contact, the link made of it opens a telephone number, a
  letter or a web page: never a script, a file or any other scheme; and it opens a new tab
  exactly when it leads to the web.
\<close>

theorem contact_link_harmless:
  "case contactTarget c of
     None \<Rightarrow> True
   | Some t \<Rightarrow> scheme_of (tg_href t) \<in> {''tel'', ''mailto'', ''http'', ''https''}
       \<and> tg_external t = (scheme_of (tg_href t) \<in> {''http'', ''https''})"
proof -
  have s: "scheme_of (''tel:'' @ x) = ''tel''" "scheme_of (''mailto:'' @ x) = ''mailto''"
    "scheme_of (''https://'' @ x) = ''https''"
    "scheme_of (''https://www.google.com/maps/search/?api=1&query='' @ x) = ''https''" for x
    by (simp_all add: scheme_of_def lower_case_def lower_char_def)
  then show ?thesis
    using has_scheme_of [of "js_trim (contact_value c)"]
    by (simp add: contactTarget_def Let_def s del: append.simps)
qed

end
