(* ===== verification/OrderDetails.thy ===== *)
theory OrderDetails
  imports Orders Contacts
begin

text \<open>
  What every part of the order page shares (\<open>src/pages/order/context.ts\<close>) and the order's own card,
  its controls, its editor and its deletion (\<open>src/pages/order/details.ts\<close>). The context is what does
  not change while the page is open; the state is what a refresh replaces. A drawing function reads
  the order as it was last read.
\<close>

section \<open>The context\<close>

record order_context =
  cx_app :: app
  cx_id :: string
  cx_reference :: "reference_data option"
  cx_restaurant :: "restaurant_detail option"
  cx_money :: money_format

record order_state = ui +
  os_order :: order_view
  os_menu :: "menu_item list"
  os_categories :: "category list"

text \<open>What the server answers to each kind of request; it may answer anything at any time.\<close>

record order_server =
  sv_order :: "order_view server"
  sv_restaurant :: "restaurant_detail server"
  sv_categories :: "category list server"
  sv_menu :: "menu_item list server"
  sv_dish :: "menu_item server"
  sv_accounts :: "account list server"
  sv_messages :: "order_message list server"
  sv_done :: "unit server"

definition cx_t :: "order_context \<Rightarrow> translator" where
  "cx_t cx = app_t (cx_app cx)"

definition detail :: "order_view \<Rightarrow> order_detail option" where
  "detail v = (case v of Header _ \<Rightarrow> None | Detail d \<Rightarrow> Some d)"

definition active :: "order_context \<Rightarrow> order_view \<Rightarrow> bool" where
  "active cx v = isActive (cx_app cx) (header_of v)"

definition canOrder :: "order_context \<Rightarrow> order_view \<Rightarrow> bool" where
  "canOrder cx v \<longleftrightarrow> isAuthenticated (app_session (cx_app cx)) \<and> active cx v"

definition isCreator :: "order_context \<Rightarrow> order_view \<Rightarrow> bool" where
  "isCreator cx v =
     (case detail v of None \<Rightarrow> False | Some own \<Rightarrow> me (cx_app cx) = Some (od_creator_id own))"

definition isParticipant :: "order_context \<Rightarrow> order_view \<Rightarrow> bool" where
  "isParticipant cx v = (case detail v of None \<Rightarrow> False | Some own \<Rightarrow> participates (cx_app cx) own)"

definition menuPath :: "'a order_header_scheme \<Rightarrow> string" where
  "menuPath order =
     ''/restaurants/'' @ o_restaurant_id order @ ''/menu-items?at='' @ encodeURIComponent (o_fulfilment_at order)"

definition refresh_order ::
  "order_server \<Rightarrow> order_context \<Rightarrow> ('x order_state_scheme, unit) act \<Rightarrow> ('x order_state_scheme, unit) act" where
  "refresh_order srv cx render =
     andthen (runAction (cx_t cx) False
       (bind (call (sv_order srv) (Call ''GET'' (''/orders/'' @ cx_id cx) None))
          (\<lambda>v. andthen (modify (os_order_update (\<lambda>_. v))) render))) (ret ())"

definition reloadMenu ::
  "order_server \<Rightarrow> ('x order_state_scheme, unit) act \<Rightarrow> ('x order_state_scheme, unit) act" where
  "reloadMenu srv renderMenu =
     bind (gets (\<lambda>l. header_of (os_order l)))
       (\<lambda>order. bind (both
            (call (sv_categories srv) (Call ''GET'' (''/restaurants/'' @ o_restaurant_id order @ ''/categories'') None))
            (call (sv_menu srv) (Call ''GET'' (menuPath order) None)))
          (\<lambda>(cs, ms). andthen (modify (\<lambda>l. l\<lparr>os_categories := cs, os_menu := ms\<rparr>)) renderMenu))"

text \<open>What somebody can do anywhere on the page.\<close>

datatype job = PickupPerson | MoneyCollector

definition job_path :: "job \<Rightarrow> string" where
  "job_path j = (case j of PickupPerson \<Rightarrow> ''pickup-person'' | MoneyCollector \<Rightarrow> ''money-collector'')"

datatype order_action =
    EditOrder | DeleteOrder | Volunteer job | Release job
  | EditLine order_item | DeleteLine order_item | TickPaid string
  | AddMissing | EditDish menu_item | AddDish menu_item
  | FilterTag string | FilterAllergen string | FilterAdditive string | FilterAvailable | ClearFilters
  | ToggleGroup string | ToggleCategory string
  | SendMessage

section \<open>The card\<close>

definition contactLink :: "contact \<Rightarrow> 'a node" where
  "contactLink c =
     (let label = js_trim (co_label c)
      in case contactTarget c of
           None \<Rightarrow> el ''span'' [(''class'', AStr ''contact muted''),
             (''text'', AStr (if label \<noteq> [] then label @ '': '' @ contact_value c else contact_value c))] []
         | Some target \<Rightarrow> el ''a''
             ([(''class'', AStr ''link contact''), (''href'', AStr (tg_href target))]
              @ (if tg_external target then [(''rel'', AStr ''noreferrer''), (''target'', AStr ''_blank'')] else [])
              @ [(''text'', AStr (or_else label (contact_value c)))]) [])"

definition restaurantLine :: "order_context \<Rightarrow> order_view \<Rightarrow> 'a node" where
  "restaurantLine cx v =
     (let order = header_of v;
          line = append (el ''div'' [(''class'', AStr ''restaurant-line'')] [])
            [CNode (el ''a'' [(''class'', AStr ''link''), (''href'', AStr (''/restaurants/'' @ o_restaurant_id order)),
               (''text'', AStr (o_restaurant_name order))] [])];
          contacts = (case cx_restaurant cx of None \<Rightarrow> [] | Some r \<Rightarrow> rd_contacts r)
      in append line (map (\<lambda>c. CNode (contactLink c)) contacts))"

text \<open>One of the two jobs: who does it, and the way to take it or to give it back.\<close>

definition may_release :: "order_context \<Rightarrow> order_view \<Rightarrow> string option \<Rightarrow> bool" where
  "may_release cx v holderID =
     (me (cx_app cx) \<noteq> None \<and> active cx v
      \<and> (isAdmin (app_session (cx_app cx)) \<or> isCreator cx v \<or> holderID = me (cx_app cx)))"

definition personRow ::
  "order_context \<Rightarrow> order_view \<Rightarrow> string \<Rightarrow> string option \<Rightarrow> bool \<Rightarrow> job \<Rightarrow> string \<Rightarrow> order_action child" where
  "personRow cx v name holderID drawn j jobName =
     (let t = cx_t cx; k = ''job:'' @ job_path j in
      if name \<noteq> [] then
        (let who = [CNode (el ''span'' [(''text'', AStr name)] [])]
                   @ (if drawn then [CNode (el ''span'' [(''class'', AStr ''muted order-drawn''),
                        (''text'', AStr (translate t ''order.drawn'' []))] [])] else [])
         in if \<not> may_release cx v holderID
            then (if drawn then CNode (el ''span'' [(''class'', AStr ''order-person'')] who) else CStr name)
            else CNode (el ''span'' [(''class'', AStr ''order-person'')]
                   (who @ [CNode (keyed (iconButton ''close'' (translate t ''order.release'' [] @ '': '' @ jobName) []
                      (Release j)) k)])))
      else
        (let nobody = el ''span'' [(''class'', AStr ''muted''), (''text'', AStr (translate t ''order.nobody'' []))] []
         in if \<not> isAuthenticated (app_session (cx_app cx)) \<or> \<not> active cx v then CNode nobody
            else CNode (el ''span'' [(''class'', AStr ''order-person'')]
                   [CNode nobody,
                    CNode (keyed (button ((plain_button (translate t ''order.volunteer'' []))
                      \<lparr>bt_aria := Some (translate t ''order.volunteer'' [] @ '': '' @ jobName),
                       bt_onclick := Some (Volunteer j)\<rparr>)) k)])))"

definition order_rows :: "order_context \<Rightarrow> order_view \<Rightarrow> (string \<times> order_action child) list" where
  "order_rows cx v =
     (let a = cx_app cx; t = cx_t cx; order = header_of v; i = app_intl a; l = language a;
          money = (\<lambda>cents. formatMoney i l cents (o_currency_code order) (cx_money cx))
      in [(translate t ''restaurant.data'' [], CNode (restaurantLine cx v)),
          (translate t ''order.fulfilment.type'' [], CStr (fulfilmentLabel t (o_fulfilment order))),
          (translate t ''order.fulfilment.label'' [], CStr (formatDateTime i l (Stamp (o_fulfilment_at order)))),
          (translate t ''order.deadline.label'' [],
             CStr (formatDateTime i l (Stamp (o_deadline_at order)) @ '' (''
                   @ formatRelativeTime i l (Stamp (o_deadline_at order)) (app_now a) @ '')''))]
         @ (case detail v of
              None \<Rightarrow> []
            | Some own \<Rightarrow>
                [(translate t ''order.money_collector'' [],
                    personRow cx v (od_money_collector_name own) (od_money_collector_id own)
                      (od_money_collector_drawn own) MoneyCollector (translate t ''order.money_collector'' [])),
                 (translate t ''order.pickup_person'' [],
                    personRow cx v (od_pickup_person_name own) (od_pickup_person_id own)
                      (od_pickup_person_drawn own) PickupPerson (translate t ''order.pickup_person'' [])),
                 (translate t ''order.creator'' [], CStr (od_creator_name own))])
         @ (case o_min_order_value_cents order of None \<Rightarrow> []
            | Some c \<Rightarrow> [(translate t ''order.minimum'' [], CStr (money c))])
         @ (case o_delivery_fee_cents order of None \<Rightarrow> []
            | Some c \<Rightarrow> [(translate t ''order.delivery_fee'' [], CStr (money c))]))"

definition orderCard :: "order_context \<Rightarrow> status \<Rightarrow> order_view \<Rightarrow> order_action node" where
  "orderCard cx s v =
     section_card (orderTitle (app_intl (cx_app cx)) (language (cx_app cx)) (header_of v))
       [CNode (definitionList (order_rows cx v) ''definitions''), CNode (status_element s)]"

section \<open>The controls beside the title\<close>

definition heading_controls :: "order_context \<Rightarrow> order_view \<Rightarrow> order_action child list" where
  "heading_controls cx v =
     (let t = cx_t cx
      in [CNode (keyed (summaryLink (cx_app cx) (cx_id cx) (isParticipant cx v)) ''summary'')]
         @ (if isCreator cx v \<and> active cx v
            then [CNode (keyed (button ((plain_button (translate t ''order.edit'' []))\<lparr>bt_onclick := Some EditOrder\<rparr>))
                    ''edit-order'')] else [])
         @ (if (isCreator cx v \<or> isAdmin (app_session (cx_app cx))) \<and> detail v \<noteq> None
            then [CNode (keyed (button ((plain_button (translate t ''order.delete'' []))
                    \<lparr>bt_variant := Danger, bt_onclick := Some DeleteOrder\<rparr>)) ''delete-order'')] else []))"

definition renderHeading ::
  "order_context \<Rightarrow> order_view \<Rightarrow> order_action node \<Rightarrow> focus option \<Rightarrow> order_action node \<times> focus option" where
  "renderHeading cx v heading foc = rerender heading foc (heading_controls cx v)"

lemma keyed_actions [node_simps]: "actions_of (keyed x k) = actions_of x"
  by simp

lemma contact_link_actions [node_simps]: "actions_of (contactLink c) = []"
  by (auto simp: contactLink_def Let_def node_simps split: option.split)

lemma restaurant_line_actions [node_simps]: "actions_of (restaurantLine cx v) = []"
proof -
  have "set (actions_of (restaurantLine cx v)) = {}"
    by (auto simp: restaurantLine_def Let_def set_actions_append node_simps)
  then show ?thesis by simp
qed

lemma status_no_actions [node_simps]: "actions_of (status_element s) = []"
  by (simp add: status_element_def node_simps)

lemma person_row_actions [node_simps]:
  "set (child_actions (personRow cx v name holderID drawn j jobName)) =
     (if name \<noteq> [] then if may_release cx v holderID then {Release j} else {}
      else if canOrder cx v then {Volunteer j} else {})"
  by (auto simp: personRow_def canOrder_def Let_def node_simps)

lemma heading_actions:
  "(\<Union>c \<in> set (heading_controls cx v). set (child_actions c)) =
     (if isCreator cx v \<and> active cx v then {EditOrder} else {})
     \<union> (if (isCreator cx v \<or> isAdmin (app_session (cx_app cx))) \<and> detail v \<noteq> None then {DeleteOrder} else {})"
  unfolding heading_controls_def Let_def set_append UN_Un children_if by (simp add: node_simps)

lemma order_card_actions:
  "set (actions_of (orderCard cx s v)) =
     (case detail v of
        None \<Rightarrow> {}
      | Some own \<Rightarrow>
          set (child_actions (personRow cx v (od_money_collector_name own) (od_money_collector_id own)
             (od_money_collector_drawn own) MoneyCollector (translate (cx_t cx) ''order.money_collector'' [])))
          \<union> set (child_actions (personRow cx v (od_pickup_person_name own) (od_pickup_person_id own)
             (od_pickup_person_drawn own) PickupPerson (translate (cx_t cx) ''order.pickup_person'' []))))"
  by (cases "detail v"; cases "o_min_order_value_cents (header_of v)"; cases "o_delivery_fee_cents (header_of v)")
    (simp_all add: orderCard_def node_simps order_rows_def Let_def del: if_split)

text \<open>
  Who may do what to an order as a whole: the creator edits it while it is open; the creator and
  the administrator delete it, at any time; somebody logged in takes a vacant job of an open
  order; the holder, the creator and the administrator give a job of an open order back.
\<close>

fun holder :: "order_detail \<Rightarrow> job \<Rightarrow> string \<times> string option" where
  "holder own MoneyCollector = (od_money_collector_name own, od_money_collector_id own)"
| "holder own PickupPerson = (od_pickup_person_name own, od_pickup_person_id own)"

definition admin_or_creator :: "order_context \<Rightarrow> order_detail \<Rightarrow> bool" where
  "admin_or_creator cx own \<longleftrightarrow>
     isAdmin (app_session (cx_app cx)) \<or> me (cx_app cx) = Some (od_creator_id own)"

fun permitted :: "order_context \<Rightarrow> order_detail \<Rightarrow> order_action \<Rightarrow> bool" where
  "permitted cx own EditOrder \<longleftrightarrow>
     me (cx_app cx) = Some (od_creator_id own) \<and> isActive (cx_app cx) own"
| "permitted cx own DeleteOrder \<longleftrightarrow> admin_or_creator cx own"
| "permitted cx own (Volunteer j) \<longleftrightarrow>
     me (cx_app cx) \<noteq> None \<and> isActive (cx_app cx) own \<and> fst (holder own j) = []"
| "permitted cx own (Release j) \<longleftrightarrow>
     me (cx_app cx) \<noteq> None \<and> isActive (cx_app cx) own \<and> fst (holder own j) \<noteq> []
     \<and> (admin_or_creator cx own \<or> snd (holder own j) = me (cx_app cx))"
| "permitted cx own _ \<longleftrightarrow> False"

lemma isActive_truncate [simp]: "isActive a (order_header.truncate d) = isActive a (d :: order_detail)"
  by (simp add: isActive_def order_header.defs)

text \<open>
  The order page offers each control over the order as a whole, above the card or on it,
  exactly when the person looking is permitted what it does, and offers somebody who is only shown
  the header nothing at all.
\<close>

theorem order_controls_permitted:
  "x \<in> (\<Union>c \<in> set (heading_controls cx v). set (child_actions c)) \<union> set (actions_of (orderCard cx s v))
     \<longleftrightarrow> (case detail v of None \<Rightarrow> False | Some own \<Rightarrow> permitted cx own x)"
proof (cases v)
  case (Header h)
  then show ?thesis by (simp add: heading_actions order_card_actions detail_def isCreator_def)
next
  case (Detail own)
  have job: "x \<in> (\<Union>c \<in> set (heading_controls cx v). set (child_actions c)) \<longleftrightarrow>
      (x = EditOrder \<or> x = DeleteOrder) \<and> permitted cx own x"
    unfolding heading_actions
    by (auto simp: Detail detail_def isCreator_def active_def header_of_def admin_or_creator_def)
  have row: "x \<in> set (child_actions (personRow cx v (fst (holder own j)) (snd (holder own j)) drawn j n)) \<longleftrightarrow>
      (x = Volunteer j \<or> x = Release j) \<and> permitted cx own x" for j drawn n
    unfolding person_row_actions
    by (auto simp: Detail detail_def isCreator_def active_def header_of_def admin_or_creator_def may_release_def
        canOrder_def me_authenticated)
  have two: "(\<exists>j. P j) \<longleftrightarrow> P MoneyCollector \<or> P PickupPerson" for P
    by (metis job.exhaust)
  have card: "x \<in> set (actions_of (orderCard cx s v)) \<longleftrightarrow>
      (\<exists>j. x = Volunteer j \<or> x = Release j) \<and> permitted cx own x"
    using row [of MoneyCollector] row [of PickupPerson]
    unfolding order_card_actions two [of "\<lambda>j. x = Volunteer j \<or> x = Release j"]
    by (auto simp: Detail detail_def)
  show ?thesis
    unfolding Un_iff job card by (cases x) (simp_all add: Detail detail_def)
qed

section \<open>Taking a job, giving it back, deleting the order\<close>

definition job_call :: "order_context \<Rightarrow> string \<Rightarrow> job \<Rightarrow> json option \<Rightarrow> http_call" where
  "job_call cx method j body = Call method (''/orders/'' @ cx_id cx @ ''/'' @ job_path j) body"

definition volunteer ::
  "order_server \<Rightarrow> order_context \<Rightarrow> ('x order_state_scheme, unit) act \<Rightarrow> job \<Rightarrow> ('x order_state_scheme, unit) act" where
  "volunteer srv cx render j =
     andthen (runAction (cx_t cx) False
       (andthen (call (sv_done srv) (job_call cx ''POST'' j (Some (JObj [])))) (refresh_order srv cx render))) (ret ())"

definition release ::
  "order_server \<Rightarrow> order_context \<Rightarrow> ('x order_state_scheme, unit) act \<Rightarrow> job \<Rightarrow> ('x order_state_scheme, unit) act" where
  "release srv cx render j =
     andthen (runAction (cx_t cx) False
       (andthen (call (sv_done srv) (job_call cx ''DELETE'' j None)) (refresh_order srv cx render))) (ret ())"

definition own_items :: "order_view \<Rightarrow> order_item list" where
  "own_items v = (case detail v of None \<Rightarrow> [] | Some own \<Rightarrow> od_items own)"

definition remove ::
  "order_server \<Rightarrow> (effect list \<Rightarrow> string \<Rightarrow> bool) \<Rightarrow> order_context \<Rightarrow> ('x order_state_scheme, unit) act" where
  "remove srv person cx =
     bind (gets os_order)
       (\<lambda>v. bind (confirmed person (removal_texts (cx_app cx) (own_items v)))
          (\<lambda>agreed. if \<not> agreed then ret ()
             else andthen (runAction (cx_t cx) False
               (andthen (call (sv_done srv) (Call ''DELETE'' (''/orders/'' @ cx_id cx) None))
                  (emit (Navigated ''/'')))) (ret ())))"

section \<open>The editor of the order\<close>

text \<open>
  Pressing Save in a dialog opened by a page: what follows a success works on the page, the rest
  on the dialog.
\<close>

definition submit_on_page ::
  "translator \<Rightarrow> ('x dialog_scheme, bool) act \<Rightarrow> ('l, unit) act \<Rightarrow> 'x dialog_scheme \<Rightarrow> ('l, 'x dialog_scheme) act" where
  "submit_on_page t onSubmit after d w =
     (case send t onSubmit (ret ()) \<lparr>trace = trace w, local = d\<rparr> of
        (_, v) \<Rightarrow> (if dl_open (local v) then ret (local v) else andthen after (ret (local v)))
                    (w\<lparr>trace := trace v\<rparr>))"

record order_editor = dialog +
  oe_fulfilment :: string
  oe_fulfilment_at :: string
  oe_deadline_at :: string
  oe_collector :: string
  oe_pickup :: string
  oe_problem :: "string option"

text \<open>What a select shows when it is set to a value: nothing when no option has it.\<close>

definition select_value :: "choice list \<Rightarrow> string \<Rightarrow> string" where
  "select_value choices v = (if v \<in> ch_value ` set choices then v else [])"

definition opt_text :: "string option \<Rightarrow> string" where
  "opt_text v = (case v of None \<Rightarrow> [] | Some x \<Rightarrow> x)"

definition order_choices :: "order_context \<Rightarrow> js_error + account list \<Rightarrow> choice list" where
  "order_choices cx answer =
     accountChoices (case listAccounts (app_intl (cx_app cx)) answer of Inl _ \<Rightarrow> [] | Inr as \<Rightarrow> as)
       (translate (cx_t cx) ''order.nobody'' [])"

definition fulfilments :: "order_context \<Rightarrow> choice list" where
  "fulfilments cx =
     [\<lparr>ch_value = ''pickup'', ch_label = translate (cx_t cx) ''order.fulfilment.pickup'' []\<rparr>,
      \<lparr>ch_value = ''delivery'', ch_label = translate (cx_t cx) ''order.fulfilment.delivery'' []\<rparr>]"

definition order_editor_of :: "order_context \<Rightarrow> order_detail \<Rightarrow> choice list \<Rightarrow> order_editor" where
  "order_editor_of cx own choices =
     (let i = app_intl (cx_app cx)
      in \<lparr>ui_status = statusLine, ui_busy = False, dl_open = True, dl_keep = False,
          oe_fulfilment = select_value (fulfilments cx) (o_fulfilment own),
          oe_fulfilment_at = localInputValue i (Stamp (o_fulfilment_at own)),
          oe_deadline_at = localInputValue i (Stamp (o_deadline_at own)),
          oe_collector = select_value choices (opt_text (od_money_collector_id own)),
          oe_pickup = select_value choices (opt_text (od_pickup_person_id own)),
          oe_problem = None\<rparr>)"

definition openOrderEditor ::
  "order_server \<Rightarrow> order_context \<Rightarrow> ('x order_state_scheme, (order_editor \<times> choice list) option) act" where
  "openOrderEditor srv cx =
     bind (gets (\<lambda>l. detail (os_order l)))
       (\<lambda>own. case own of
          None \<Rightarrow> ret None
        | Some d \<Rightarrow>
            bind (maybe (sv_accounts srv) (Call ''GET'' ''/users'' None))
              (\<lambda>answer.
                 let choices = order_choices cx (case answer of None \<Rightarrow> Inl TypeError | Some as \<Rightarrow> Inr as)
                 in ret (Some (order_editor_of cx d choices, choices))))"

definition order_editor_fields ::
  "order_context \<Rightarrow> order_view \<Rightarrow> order_editor \<Rightarrow> choice list \<Rightarrow> nat \<Rightarrow> order_action child list \<times> nat" where
  "order_editor_fields cx v e choices seq =
     (let t = cx_t cx;
          moment = (\<lambda>x. input (no_input\<lparr>in_type := Some ''datetime-local'', in_value := Some x\<rparr>));
          (deadlineAt, n0) = with_id (moment (oe_deadline_at e)) seq;
          (f1, n1) = field (translate t ''order.fulfilment.type'' [])
                       (select (fulfilments cx) None (Some (oe_fulfilment e)) False None) None None None n0;
          (f2, n2) = field (translate t ''order.fulfilment.label'' []) (moment (oe_fulfilment_at e)) None None None n1;
          (f3, n3) = field (translate t ''order.deadline.label'' []) deadlineAt None (Some (fieldError deadlineAt)) None n2;
          note = (if 0 < o_item_count (header_of v)
                  then CNode (el ''p'' [(''class'', AStr ''field-hint''), (''text'', AStr (translate t ''order.restaurant_locked'' []))] [])
                  else CNull);
          optional = Some (translate t ''auth.optional'' []);
          (f4, n4) = field (translate t ''order.money_collector'' [])
                       (select choices None (Some (oe_collector e)) False None) None None optional n3;
          (f5, n5) = field (translate t ''order.pickup_person'' [])
                       (select choices None (Some (oe_pickup e)) False None) None None optional n4
      in ([CNode f1, CNode f2, CNode f3, note, CNode f4, CNode f5], n5))"

definition order_patch :: "order_context \<Rightarrow> order_editor \<Rightarrow> string \<Rightarrow> string \<Rightarrow> http_call" where
  "order_patch cx e fulfils_at closes_at =
     Call ''PATCH'' (''/orders/'' @ cx_id cx) (Some (JObj
       [(''fulfilment'', JStr (oe_fulfilment e)), (''fulfilment_at'', JStr fulfils_at),
        (''deadline_at'', JStr closes_at), (''money_collector_id'', JStr (oe_collector e)),
        (''pickup_person_id'', JStr (oe_pickup e))]))"

text \<open>
  What Save does. \<open>new Date(...)\<close> of an empty or malformed field is NaN, which compares false with
  every number; \<open>toISOString\<close> of it throws.
\<close>

definition submit_order ::
  "order_server \<Rightarrow> order_context \<Rightarrow> (order_editor, bool) act" where
  "submit_order srv cx =
     bind (gets id)
       (\<lambda>e. let i = app_intl (cx_app cx);
                fulfils = parse_date i (oe_fulfilment_at e);
                closes = parse_date i (oe_deadline_at e);
                late = (case (closes, fulfils) of (Some c, Some f) \<Rightarrow> f \<le> c | _ \<Rightarrow> False)
            in if fulfils = None \<or> late
               then andthen (modify (oe_problem_update (\<lambda>_. Some (translate (cx_t cx) ''order.deadline_before_fulfilment'' []))))
                      (ret False)
               else andthen (modify (oe_problem_update (\<lambda>_. None)))
                 (case (toApiTimestamp i fulfils, toApiTimestamp i closes) of
                    (Some fulfils_at, Some closes_at) \<Rightarrow>
                      andthen (call (sv_done srv) (order_patch cx e fulfils_at closes_at)) (ret True)
                  | _ \<Rightarrow> raise RangeError))"

definition save_order ::
  "order_server \<Rightarrow> order_context \<Rightarrow> ('x order_state_scheme, unit) act \<Rightarrow> order_editor
   \<Rightarrow> ('x order_state_scheme, order_editor) act" where
  "save_order srv cx render = submit_on_page (cx_t cx) (submit_order srv cx) (refresh_order srv cx render)"

text \<open>The three ways Save can go, by what the form's work came to.\<close>

abbreviation form_start :: "'l world \<Rightarrow> 'x dialog_scheme \<Rightarrow> 'x dialog_scheme world" where
  "form_start w d \<equiv> submit_start \<lparr>trace = trace w, local = d\<rparr>"

lemma submit_worked:
  assumes "onSubmit (form_start w d) = (Inr True, v)"
  shows "submit_on_page t onSubmit after d w =
    andthen after (ret ((local v)\<lparr>dl_keep := False, ui_busy := False, dl_open := False\<rparr>)) (w\<lparr>trace := trace v\<rparr>)"
  using assms
  by (simp add: submit_on_page_def send_def act_simps runAction_run submit_start_def released_def
      split: prod.split sum.split)

lemma submit_stays:
  assumes "onSubmit (form_start w d) = (Inr False, v)" and "dl_open (local v)"
  shows "submit_on_page t onSubmit after d w =
    (Inr ((local v)\<lparr>dl_keep := True, ui_busy := False\<rparr>), w\<lparr>trace := trace v\<rparr>)"
  using assms
  by (simp add: submit_on_page_def send_def act_simps runAction_run submit_start_def released_def)

lemma submit_failed:
  assumes "onSubmit (form_start w d) = (Inl e, v)" and "dl_open (local v)"
  shows "submit_on_page t onSubmit after d w =
    (Inr ((local v)\<lparr>ui_status := \<lparr>st_text = errorMessage t e, st_error = True\<rparr>, ui_busy := False\<rparr>),
     w\<lparr>trace := trace v\<rparr>)"
  using assms
  by (simp add: submit_on_page_def send_def act_simps runAction_run submit_start_def released_def fail_with_def)

lemma form_start_simps [simp]:
  "trace (form_start w d) = trace w" "dl_open (local (form_start w d)) = dl_open d"
  by (simp_all add: submit_start_def action_start_def Let_def)

abbreviation deadline_problem :: "order_context \<Rightarrow> string option" where
  "deadline_problem cx \<equiv> Some (translate (cx_t cx) ''order.deadline_before_fulfilment'' [])"

lemma submit_order_run:
  "submit_order srv cx v =
     (let i = app_intl (cx_app cx); e = local v;
          refused = (Inr False, v\<lparr>local := e\<lparr>oe_problem := deadline_problem cx\<rparr>\<rparr>);
          cleared = v\<lparr>local := e\<lparr>oe_problem := None\<rparr>\<rparr>
      in case parse_date i (oe_fulfilment_at e) of
           None \<Rightarrow> refused
         | Some f \<Rightarrow>
             (case parse_date i (oe_deadline_at e) of
                None \<Rightarrow> (Inl RangeError, cleared)
              | Some d \<Rightarrow>
                  if f \<le> d then refused
                  else let patch = order_patch cx e (iso_string i f) (iso_string i d);
                           asked = cleared\<lparr>trace := trace v @ [Sent patch]\<rparr>
                       in (case sv_done srv (trace v) patch of
                             Inl er \<Rightarrow> (Inl er, asked) | Inr u \<Rightarrow> (Inr True, asked))))"
  by (auto simp: submit_order_def act_simps toApiTimestamp_def Let_def split: option.splits sum.splits)

lemma form_start_editor [simp]:
  "oe_fulfilment_at (local (form_start w e)) = oe_fulfilment_at e"
  "oe_deadline_at (local (form_start w e)) = oe_deadline_at e"
  "order_patch cx (local (form_start w e)) f d = order_patch cx e f d"
  by (simp_all add: submit_start_def action_start_def Let_def order_patch_def)

text \<open>
  C38: the two times of an order are only sent when both are times and the deadline is the earlier
  one; then exactly one request goes out, and the dialog closes and the page is read again exactly
  when the server accepts it. Otherwise nothing is sent and the dialog stays: with the message
  about the deadline, except that an empty deadline beside a valid fulfilment time is an
  unexpected error.
\<close>

theorem order_times_checked:
  "(let i = app_intl (cx_app cx); e = e0\<lparr>dl_open := True\<rparr>; out = save_order srv cx render e w
    in case parse_date i (oe_fulfilment_at e) of
         None \<Rightarrow> (\<exists>e'. out = (Inr e', w) \<and> dl_open e' \<and> oe_problem e' = deadline_problem cx)
       | Some f \<Rightarrow>
           (case parse_date i (oe_deadline_at e) of
              None \<Rightarrow> (\<exists>e'. out = (Inr e', w) \<and> dl_open e' \<and> oe_problem e' = None
                 \<and> ui_status e' = \<lparr>st_text = errorMessage (cx_t cx) RangeError, st_error = True\<rparr>)
            | Some d \<Rightarrow>
                if f \<le> d then (\<exists>e'. out = (Inr e', w) \<and> dl_open e' \<and> oe_problem e' = deadline_problem cx)
                else let patch = order_patch cx e (iso_string i f) (iso_string i d);
                         asked = w\<lparr>trace := trace w @ [Sent patch]\<rparr>
                     in (case sv_done srv (trace w) patch of
                           Inl er \<Rightarrow> (\<exists>e'. out = (Inr e', asked) \<and> dl_open e'
                             \<and> ui_status e' = \<lparr>st_text = errorMessage (cx_t cx) er, st_error = True\<rparr>)
                         | Inr u \<Rightarrow> (\<exists>e'. out = andthen (refresh_order srv cx render) (ret e') asked \<and> \<not> dl_open e'))))"
proof -
  let ?i = "app_intl (cx_app cx)" and ?e = "e0\<lparr>dl_open := True\<rparr>"
  note outcome = submit_order_run [of srv cx "form_start w ?e", unfolded Let_def]
  note ways = submit_worked [of "submit_order srv cx" w ?e] submit_stays [of "submit_order srv cx" w ?e]
    submit_failed [of "submit_order srv cx" w ?e]
  show ?thesis
  proof (cases "parse_date ?i (oe_fulfilment_at ?e)")
    case None
    then show ?thesis using outcome ways(2) by (simp add: save_order_def)
  next
    case (Some f)
    note f = this
    show ?thesis
    proof (cases "parse_date ?i (oe_deadline_at ?e)")
      case None
      with f show ?thesis using outcome ways(3) by (simp add: save_order_def)
    next
      case (Some d)
      let ?p = "order_patch cx ?e (iso_string ?i f) (iso_string ?i d)"
      consider "f \<le> d" | er where "\<not> f \<le> d" "sv_done srv (trace w) ?p = Inl er"
        | "\<not> f \<le> d" "sv_done srv (trace w) ?p = Inr ()"
        by (cases "sv_done srv (trace w) ?p") auto
      then show ?thesis
      proof cases
        case 1
        with f Some show ?thesis using outcome ways(2) by (simp add: save_order_def)
      next
        case 2
        with f Some show ?thesis using outcome ways(3) by (simp add: save_order_def Let_def)
      next
        case 3
        with f Some show ?thesis using outcome ways(1) by (auto simp add: save_order_def Let_def)
      qed
    qed
  qed
qed

text \<open>The set of values the two job selects offer.\<close>

lemma choice_values:
  "ch_value ` set (accountChoices as nobody) = insert [] (ac_id ` set as - {DELETED_USER_ID})"
  by (simp add: accountChoices_def image_image) (auto simp: image_iff)

text \<open>
  The editor shows who has a job when that account is in the list it could read, and nobody
  otherwise; a list that could not be read shows nobody for both jobs, and that is what Save then
  sends.
\<close>

theorem editor_shows_holders:
  "(let e = order_editor_of cx own (order_choices cx answer);
        known = (case answer of Inl _ \<Rightarrow> {} | Inr as \<Rightarrow> ac_id ` set as - {DELETED_USER_ID})
    in oe_collector e = (if opt_text (od_money_collector_id own) \<in> known then opt_text (od_money_collector_id own) else [])
       \<and> oe_pickup e = (if opt_text (od_pickup_person_id own) \<in> known then opt_text (od_pickup_person_id own) else []))"
  by (cases answer)
    (simp_all add: Let_def order_editor_of_def order_choices_def select_value_def choice_values listAccounts_def)

end
