(* ===== verification/OrderItems.thy ===== *)
theory OrderItems
  imports OrderDetails "HOL-Library.Multiset"
begin

text \<open>
  What has been ordered (\<open>src/pages/order/items.ts\<close>): the lines grouped by person, the totals, what
  an anonymous visitor sees instead, the dialog that adds or changes a line, and its deletion.
\<close>

section \<open>The lines, by person\<close>

text \<open>A \<open>Map\<close> keeps its keys in the order they first came; updating one leaves it where it is.\<close>

definition by_person :: "order_item list \<Rightarrow> (string \<times> order_item list) list" where
  "by_person items =
     foldl (\<lambda>m it. AList.update (oi_user_id it)
                    ((case map_of m (oi_user_id it) of None \<Rightarrow> [] | Some g \<Rightarrow> g) @ [it]) m) [] items"

lemma by_person_groups:
  "by_person items = map (\<lambda>u. (u, filter (\<lambda>it. oi_user_id it = u) items)) (first_come (map oi_user_id items))"
proof -
  have append: "foldl (\<lambda>g it. g @ [it]) g xs = g @ xs" for g xs :: "order_item list"
    by (induction xs arbitrary: g) simp_all
  have "by_person items = map (\<lambda>u. (u, let g = filter (\<lambda>it. oi_user_id it = u) items in foldl (\<lambda>g it. g @ [it]) [] g))
      (first_come (map oi_user_id items))"
    unfolding by_person_def
    by (rule grouped_fold [where f = "\<lambda>g it. g @ [it]" and new = "\<lambda>_. []" and key = oi_user_id])
  then show ?thesis by (simp add: append)
qed

definition person_total :: "order_item list \<Rightarrow> int" where
  "person_total items = foldl (\<lambda>s it. s + oi_line_total_cents it) 0 items"

lemma person_total_sum: "person_total items = sum_list (map oi_line_total_cents items)"
proof -
  have "foldl (\<lambda>s it. s + oi_line_total_cents it) n items = n + sum_list (map oi_line_total_cents items)" for n
    by (induction items arbitrary: n) simp_all
  then show ?thesis by (simp add: person_total_def)
qed

text \<open>
  Grouping the lines by person loses and repeats nothing: there is one group for everybody who
  has ordered, in the order in which they first did, it holds exactly that person's lines in their
  order, and the persons' totals add up to the total of all the lines.
\<close>

theorem groups_partition:
  "map fst (by_person items) = first_come (map oi_user_id items)
   \<and> list_all (\<lambda>(u, g). g \<noteq> [] \<and> g = filter (\<lambda>it. oi_user_id it = u) items) (by_person items)
   \<and> mset (concat (map snd (by_person items))) = mset items
   \<and> sum_list (map (\<lambda>(u, g). person_total g) (by_person items)) = person_total items"
proof -
  let ?us = "first_come (map oi_user_id items)"
  let ?of = "\<lambda>u. filter (\<lambda>it. oi_user_id it = u) items"
  have parts: "mset (concat (map ?of us)) = mset (filter (\<lambda>it. oi_user_id it \<in> set us) items)"
    if "distinct us" for us
    using that
  proof (induction us)
    case (Cons u us)
    have "mset (filter (\<lambda>it. oi_user_id it \<in> set (u # us)) items)
        = mset (?of u) + mset (filter (\<lambda>it. oi_user_id it \<in> set us) items)"
      using Cons.prems by (induction items) auto
    with Cons show ?case by simp
  qed simp
  have all: "filter (\<lambda>it. oi_user_id it \<in> set ?us) items = items" by (simp add: filter_id_conv)
  have groups: "mset (concat (map ?of ?us)) = mset items" using parts [of ?us] all by simp
  have "sum_list (map (\<lambda>u. person_total (?of u)) us) = person_total (concat (map ?of us))" for us
    by (induction us) (simp_all add: person_total_sum)
  moreover have "person_total (concat (map ?of ?us)) = person_total items"
  proof -
    have total: "person_total xs = sum_mset (image_mset oi_line_total_cents (mset xs))" for xs
      by (simp add: person_total_sum sum_mset_sum_list flip: mset_map)
    show ?thesis unfolding total groups ..
  qed
  ultimately have sums: "sum_list (map (\<lambda>u. person_total (?of u)) ?us) = person_total items" by simp
  show ?thesis
    unfolding by_person_groups
  proof (intro conjI)
    show "list_all (\<lambda>(u, g). g \<noteq> [] \<and> g = ?of u) (map (\<lambda>u. (u, ?of u)) ?us)"
      by (auto simp: list_all_iff filter_empty_conv)
  qed (use groups sums in \<open>simp_all add: comp_def\<close>)
qed

section \<open>A line and the card\<close>

definition itemRow :: "order_context \<Rightarrow> order_view \<Rightarrow> order_item \<Rightarrow> string \<Rightarrow> order_action node" where
  "itemRow cx v item userID =
     (let a = cx_app cx; t = cx_t cx; mine = (me a = Some userID);
          extras =
            (if oi_modifications item \<noteq> []
             then [CNode (el ''span'' [(''class'', AStr ''muted''),
                     (''text'', AStr (join_with '', '' (map im_name (oi_modifications item))))] [])] else [])
            @ (if oi_note item \<noteq> []
               then [CNode (el ''span'' [(''class'', AStr ''muted item-note''), (''text'', AStr (oi_note item))] [])]
               else []);
          creator = map_option od_creator_id (detail v);
          collector = (case detail v of None \<Rightarrow> None | Some d \<Rightarrow> od_money_collector_id d)
      in el ''li'' [(''class'', AStr ''order-item'')]
        [CNode (el ''div'' [(''class'', AStr ''order-item-text'')]
           [CNode (el ''div'' [(''class'', AStr ''order-item-head'')]
              [CNode (el ''span'' [(''class'', AStr ''item-quantity''),
                 (''text'', AStr (string_of_int (oi_quantity item) @ times_sign))] []),
               CNode (el ''strong'' [(''text'', AStr (oi_item_name item))] [])]),
            if extras \<noteq> [] then CNode (el ''div'' [(''class'', AStr ''order-item-extras'')] extras) else CNull]),
         if mine \<and> canOrder cx v
         then CNode (actions
           [CNode (keyed (iconButton ''pencil'' (translate t ''action.edit'' [] @ '': '' @ oi_item_name item) []
              (EditLine item)) (''edit-line:'' @ oi_id item)),
            CNode (keyed (iconButton ''trash'' (translate t ''action.delete'' [] @ '': '' @ oi_item_name item)
              ''button-danger'' (DeleteLine item)) (''delete-line:'' @ oi_id item))])
         else CNull,
         CNode (paidCheckbox a (oi_id item) (oi_item_name item) (oi_paid item)
           (mayTickPaid a userID creator collector) (TickPaid (oi_id item))),
         CNode (el ''span'' [(''class'', AStr ''menu-price''),
           (''text'', AStr (formatMoney (app_intl a) (language a) (oi_line_total_cents item)
              (o_currency_code (header_of v)) (cx_money cx)))] [])])"

definition personGroup :: "order_context \<Rightarrow> order_view \<Rightarrow> string \<times> order_item list \<Rightarrow> order_action node" where
  "personGroup cx v ug =
     (let (userID, items) = ug; a = cx_app cx
      in el ''div'' [(''class'', AStr ''person-group'')]
        [CNode (el ''h3'' [(''class'', AStr ''person-name'')]
           [CStr (case items of [] \<Rightarrow> [] | it # _ \<Rightarrow> oi_user_name it),
            CNode (el ''span'' [(''class'', AStr ''person-total''),
              (''text'', AStr (formatMoney (app_intl a) (language a) (person_total items)
                 (o_currency_code (header_of v)) (cx_money cx)))] [])]),
         CNode (el ''ul'' [(''class'', AStr ''plain-list'')] (map (\<lambda>it. CNode (itemRow cx v it userID)) items))])"

definition itemsCard :: "order_context \<Rightarrow> order_view \<Rightarrow> order_detail \<Rightarrow> order_action node" where
  "itemsCard cx v own =
     (let t = cx_t cx; title = translate t ''order.item_list'' []
      in if od_items own = []
         then section_card title [CNode (el ''p'' [(''class'', AStr ''muted''), (''text'', AStr (translate t ''order.empty'' []))] [])]
         else section_card title (map (\<lambda>ug. CNode (personGroup cx v ug)) (by_person (od_items own))))"

definition totalsCard :: "order_context \<Rightarrow> order_view \<Rightarrow> order_detail \<Rightarrow> 'a node" where
  "totalsCard cx v own =
     (let a = cx_app cx; t = cx_t cx; order = header_of v;
          money = (\<lambda>c. formatMoney (app_intl a) (language a) c (o_currency_code order) (cx_money cx));
          rows = [(translate t ''order.total_unpaid'' [], CStr (money (od_unpaid_total_cents own))),
                  (translate t ''order.total_paid'' [], CStr (money (od_paid_total_cents own)))]
            @ (case o_delivery_fee_cents order of
                 None \<Rightarrow> []
               | Some fee \<Rightarrow> if fee = 0 then [] else [(translate t ''order.delivery_fee'' [], CStr (money fee))]);
          list = append (definitionList rows ''definitions totals'')
            [CNode (el ''dt'' [(''class'', AStr ''grand''), (''text'', AStr (translate t ''order.total'' []))] []),
             CNode (el ''dd'' [(''class'', AStr ''grand''), (''text'', AStr (money (od_grand_total_cents own)))] [])]
      in section_card (translate t ''order.totals'' [])
           [CNode list,
            if od_below_minimum own
            then CNode (el ''p'' [(''class'', AStr ''notice notice-warning notice-spaced''), (''role'', AStr ''status''),
                   (''text'', AStr (translate t ''order.below_minimum'' []))] [])
            else CNull])"

definition anonymousCard :: "order_context \<Rightarrow> order_view \<Rightarrow> 'a node" where
  "anonymousCard cx v =
     (let a = cx_app cx; t = cx_t cx
      in section_card (translate t ''order.item_list'' [])
        [CNode (el ''p'' [(''text'', AStr (translate t ''order.items_so_far''
            [(''count'', PNum (o_item_count (header_of v)))]))] []),
         CNode (el ''p'' [(''class'', AStr ''muted''), (''text'', AStr (translate t ''order.anonymous_hint'' []))] []),
         CNode (el ''p'' [] [CNode (el ''a'' [(''class'', AStr ''link''), (''href'', AStr (loginHref (app_path a))),
            (''text'', AStr (translate t ''order.join'' []))] [])])])"

lemma item_row_actions [node_simps]:
  "set (actions_of (itemRow cx v item userID)) =
     (if me (cx_app cx) = Some userID \<and> canOrder cx v then {EditLine item, DeleteLine item} else {})
     \<union> (if mayTickPaid (cx_app cx) userID (map_option od_creator_id (detail v))
           (case detail v of None \<Rightarrow> None | Some d \<Rightarrow> od_money_collector_id d)
        then {TickPaid (oi_id item)} else {})"
  by (simp add: itemRow_def Let_def node_simps if_distrib [of child_actions] del: if_split)
    (auto simp: node_simps)

lemma person_group_actions [node_simps]:
  "set (actions_of (personGroup cx v (u, items))) = (\<Union>it \<in> set items. set (actions_of (itemRow cx v it u)))"
  by (simp add: personGroup_def Let_def node_simps)

lemma items_card_actions:
  "set (actions_of (itemsCard cx v own)) = (\<Union>it \<in> set (od_items own). set (actions_of (itemRow cx v it (oi_user_id it))))"
proof (cases "od_items own = []")
  case False
  have "set (actions_of (itemsCard cx v own)) = (\<Union>u \<in> oi_user_id ` set (od_items own).
      \<Union>it \<in> {it \<in> set (od_items own). oi_user_id it = u}. set (actions_of (itemRow cx v it u)))"
    using False by (simp add: itemsCard_def Let_def node_simps by_person_groups)
  also have "\<dots> = (\<Union>it \<in> set (od_items own). set (actions_of (itemRow cx v it (oi_user_id it))))" by auto
  finally show ?thesis .
qed (simp add: itemsCard_def Let_def node_simps)

lemma totals_no_actions [node_simps]: "actions_of (totalsCard cx v own) = []"
proof -
  have "set (actions_of (totalsCard cx v own)) = {}"
    by (cases "o_delivery_fee_cents (header_of v)") (auto simp add: totalsCard_def Let_def node_simps set_actions_append)
  then show ?thesis by simp
qed

lemma anonymous_no_actions [node_simps]: "actions_of (anonymousCard cx v) = []"
proof -
  have "set (actions_of (anonymousCard cx v)) = {}"
    by (simp add: anonymousCard_def Let_def node_simps)
  then show ?thesis by simp
qed

text \<open>
  The list of lines offers each of its controls exactly to whom it is for: a line is changed or
  deleted by the person who ordered it, while the order is open; it is ticked as settled by that
  person, the creator, the collector of the money and the administrator, open or not. Nothing else
  can be pressed in it.
\<close>

theorem line_controls_permitted:
  "x \<in> set (actions_of (itemsCard cx (Detail own) own)) \<longleftrightarrow>
     (case me (cx_app cx) of
        None \<Rightarrow> False
      | Some i \<Rightarrow>
          list_ex (\<lambda>it.
            (x = EditLine it \<or> x = DeleteLine it) \<and> oi_user_id it = i \<and> isActive (cx_app cx) own
            \<or> x = TickPaid (oi_id it)
              \<and> (isAdmin (app_session (cx_app cx)) \<or> oi_user_id it = i \<or> od_creator_id own = i
                 \<or> od_money_collector_id own = Some i)) (od_items own))"
proof (cases "me (cx_app cx)")
  case None
  then show ?thesis
    unfolding items_card_actions item_row_actions by (simp add: mayTickPaid_def)
next
  case (Some i)
  then have "isAuthenticated (app_session (cx_app cx))" by (simp add: me_authenticated)
  with Some show ?thesis
    unfolding items_card_actions item_row_actions
    by (auto simp: mayTickPaid_def canOrder_def active_def header_of_def detail_def list_ex_iff split: if_splits)
qed

section \<open>The dialog for a line\<close>

record item_box =
  ib_id :: string
  ib_delta :: int
  ib_label :: string
  ib_checked :: bool

record item_editor = dialog +
  ie_source :: menu_item
  ie_existing :: "order_item option"
  ie_quantity :: string
  ie_note :: string
  ie_boxes :: "item_box list"
  ie_total :: string

text \<open>\<open>Math.max(1, Number.parseInt(text, 10) || 1)\<close>.\<close>

definition shown_count :: "string \<Rightarrow> int" where
  "shown_count q = max 1 (case parse_int q of None \<Rightarrow> 1 | Some n \<Rightarrow> if n = 0 then 1 else n)"

definition ticked :: "item_box list \<Rightarrow> item_box list" where
  "ticked bs = filter ib_checked bs"

definition line_price :: "menu_item \<Rightarrow> item_box list \<Rightarrow> int" where
  "line_price source bs = mi_price_cents source + foldl (\<lambda>sum b. sum + ib_delta b) 0 (ticked bs)"

definition total_text :: "order_context \<Rightarrow> string \<Rightarrow> item_editor \<Rightarrow> string" where
  "total_text cx currency e =
     translate (cx_t cx) ''item.line_total'' [] @ '': ''
     @ formatMoney (app_intl (cx_app cx)) (language (cx_app cx))
         (shown_count (ie_quantity e) * line_price (ie_source e) (ie_boxes e)) currency (cx_money cx)"

definition updateTotal :: "order_context \<Rightarrow> string \<Rightarrow> item_editor \<Rightarrow> item_editor" where
  "updateTotal cx currency e = e\<lparr>ie_total := total_text cx currency e\<rparr>"

definition modification_label :: "money_format \<Rightarrow> modification \<Rightarrow> string" where
  "modification_label money m =
     mo_name m @ '' ('' @ (if 0 \<le> mo_price_delta_cents m then ''+'' else [])
     @ moneyInputValue (mo_price_delta_cents m) money @ '')''"

definition item_boxes :: "money_format \<Rightarrow> order_item option \<Rightarrow> menu_item \<Rightarrow> item_box list" where
  "item_boxes money existing source =
     (let chosen = (case existing of None \<Rightarrow> []
                    | Some it \<Rightarrow> List.map_filter im_modification_id (oi_modifications it))
      in map (\<lambda>m. \<lparr>ib_id = mo_id m, ib_delta = mo_price_delta_cents m,
                   ib_label = modification_label money m, ib_checked = mo_id m \<in> set chosen\<rparr>)
           (case mi_modifications source of None \<Rightarrow> [] | Some ms \<Rightarrow> ms))"

definition item_editor_of ::
  "order_context \<Rightarrow> string \<Rightarrow> order_item option \<Rightarrow> menu_item \<Rightarrow> item_editor" where
  "item_editor_of cx currency existing source =
     updateTotal cx currency
       \<lparr>ui_status = statusLine, ui_busy = False, dl_open = True, dl_keep = False,
        ie_source = source, ie_existing = existing,
        ie_quantity = string_of_int (case existing of None \<Rightarrow> 1 | Some it \<Rightarrow> oi_quantity it),
        ie_note = (case existing of None \<Rightarrow> [] | Some it \<Rightarrow> oi_note it),
        ie_boxes = item_boxes (cx_money cx) existing source, ie_total = []\<rparr>"

text \<open>
  Opening the dialog: the dish that was given or the one the line was made from, if the menu still
  has it, read once more for its options; without them when that fails.
\<close>

definition listed_dish :: "menu_item list \<Rightarrow> order_item option \<Rightarrow> menu_item option \<Rightarrow> menu_item option" where
  "listed_dish menu existing given =
     (case given of
        Some d \<Rightarrow> Some d
      | None \<Rightarrow> (case existing of None \<Rightarrow> None | Some it \<Rightarrow> List.find (\<lambda>d. mi_id d = oi_menu_item_id it) menu))"

definition openItemEditor ::
  "order_server \<Rightarrow> order_context \<Rightarrow> order_item option \<Rightarrow> menu_item option
   \<Rightarrow> ('x order_state_scheme, item_editor option) act" where
  "openItemEditor srv cx existing given =
     bind (gets (\<lambda>l. (header_of (os_order l), listed_dish (os_menu l) existing given)))
       (\<lambda>(order, listed). case listed of
          None \<Rightarrow> ret None
        | Some d \<Rightarrow>
            bind (maybe (sv_dish srv) (Call ''GET'' (''/restaurants/'' @ o_restaurant_id order
                    @ ''/menu-items/'' @ mi_id d) None))
              (\<lambda>answer. ret (Some (item_editor_of cx (o_currency_code order) existing
                 (case answer of None \<Rightarrow> d | Some full \<Rightarrow> full)))))"

datatype item_control = QuantityTyped | BoxToggled nat

definition item_fields :: "order_context \<Rightarrow> item_editor \<Rightarrow> nat \<Rightarrow> item_control child list \<times> nat" where
  "item_fields cx e seq =
     (let t = cx_t cx;
          quantity = add_listener ''input'' QuantityTyped
            (input (no_input\<lparr>in_type := Some ''number'', in_min := Some ''1'', in_step := Some ''1'',
                             in_value := Some (ie_quantity e)\<rparr>));
          note = textarea (no_input\<lparr>in_value := Some (ie_note e),
                             in_placeholder := Some (translate t ''item.note.placeholder'' [])\<rparr>) (Some 2);
          rows = (if ie_boxes e = []
                  then [CNode (el ''p'' [(''class'', AStr ''muted''), (''text'', AStr (translate t ''menu.modification.none'' []))] [])]
                  else map (\<lambda>(n, b). CNode (checkbox (ib_label b) None None (ib_checked b) False (Some (BoxToggled n))))
                         (enumerate 0 (ie_boxes e)));
          (f1, n1) = field (translate t ''item.quantity'' []) quantity None None None seq;
          (f2, n2) = field (translate t ''item.note'' []) note None None (Some (translate t ''auth.optional'' [])) n1
      in ([CNode (el ''p'' [(''class'', AStr ''muted''), (''text'', AStr (mi_description (ie_source e)))] []),
           CNode f1,
           CNode (el ''fieldset'' [(''class'', AStr ''fieldset'')]
             [CNode (el ''legend'' [(''text'', AStr (translate t ''item.modifications'' []))] []),
              CNode (el ''div'' [(''class'', AStr ''rows'')] rows)]),
           CNode f2,
           CNode (el ''p'' [(''class'', AStr ''line-total''), (''text'', AStr (ie_total e))] [])], n2))"

text \<open>What a person does in the dialog before pressing Save.\<close>

datatype item_event = TypeQuantity string | ToggleBox nat | TypeNote string

fun item_step :: "order_context \<Rightarrow> string \<Rightarrow> item_event \<Rightarrow> item_editor \<Rightarrow> item_editor" where
  "item_step cx currency (TypeQuantity q) e = updateTotal cx currency (e\<lparr>ie_quantity := q\<rparr>)"
| "item_step cx currency (ToggleBox n) e =
     (if n < length (ie_boxes e)
      then updateTotal cx currency
             (e\<lparr>ie_boxes := (ie_boxes e)[n := (ie_boxes e ! n)\<lparr>ib_checked := \<not> ib_checked (ie_boxes e ! n)\<rparr>]\<rparr>)
      else e)"
| "item_step cx currency (TypeNote s) e = e\<lparr>ie_note := s\<rparr>"

definition item_good :: "order_context \<Rightarrow> string \<Rightarrow> item_editor \<Rightarrow> bool" where
  "item_good cx currency e \<longleftrightarrow> ie_total e = total_text cx currency e \<and> dl_open e"

lemma updateTotal_good: "dl_open e \<Longrightarrow> item_good cx currency (updateTotal cx currency e)"
  by (simp add: item_good_def updateTotal_def total_text_def)

interpretation item_dialog: event_machine "item_step cx currency" "item_good cx currency" for cx currency
proof
  show "item_good cx currency (item_step cx currency ev e)" if "item_good cx currency e" for ev e
    using that by (cases ev) (auto simp: item_good_def updateTotal_def total_text_def)
qed

definition line_body :: "item_editor \<Rightarrow> int \<Rightarrow> (string \<times> json) list" where
  "line_body e number =
     [(''quantity'', JNum number), (''note'', JStr (js_trim (ie_note e))),
      (''modification_ids'', JArr (map (\<lambda>b. JStr (ib_id b)) (ticked (ie_boxes e))))]"

definition line_call :: "order_context \<Rightarrow> item_editor \<Rightarrow> int \<Rightarrow> http_call" where
  "line_call cx e number =
     (case ie_existing e of
        Some it \<Rightarrow> Call ''PATCH'' (''/orders/'' @ cx_id cx @ ''/items/'' @ oi_id it) (Some (JObj (line_body e number)))
      | None \<Rightarrow> Call ''POST'' (''/orders/'' @ cx_id cx @ ''/items'')
          (Some (JObj ((''menu_item_id'', JStr (mi_id (ie_source e))) # line_body e number))))"

definition submit_item :: "order_server \<Rightarrow> order_context \<Rightarrow> (item_editor, bool) act" where
  "submit_item srv cx =
     bind (gets id)
       (\<lambda>e. case parse_int (ie_quantity e) of
          None \<Rightarrow> ret False
        | Some number \<Rightarrow>
            if number < 1 then ret False
            else andthen (call (sv_done srv) (line_call cx e number)) (ret True))"

definition save_item ::
  "order_server \<Rightarrow> order_context \<Rightarrow> ('x order_state_scheme, unit) act \<Rightarrow> item_editor
   \<Rightarrow> ('x order_state_scheme, item_editor) act" where
  "save_item srv cx render = submit_on_page (cx_t cx) (submit_item srv cx) (refresh_order srv cx render)"

lemma form_start_item [simp]:
  "ie_quantity (local (form_start w e)) = ie_quantity e"
  "line_call cx (local (form_start w e)) n = line_call cx e n"
  by (simp_all add: submit_start_def action_start_def Let_def line_call_def line_body_def split: option.split)

lemma submit_item_run:
  "submit_item srv cx v =
     (case parse_int (ie_quantity (local v)) of
        None \<Rightarrow> (Inr False, v)
      | Some n \<Rightarrow>
          if n < 1 then (Inr False, v)
          else let c = line_call cx (local v) n; asked = v\<lparr>trace := trace v @ [Sent c]\<rparr>
               in (case sv_done srv (trace v) c of Inl er \<Rightarrow> (Inl er, asked) | Inr u \<Rightarrow> (Inr True, asked)))"
  by (auto simp: submit_item_def act_simps Let_def split: option.splits sum.splits)


section \<open>Deleting a line\<close>

definition item_removal :: "order_context \<Rightarrow> order_item \<Rightarrow> confirm_texts" where
  "item_removal cx item =
     (let t = cx_t cx
      in confirm_with t (translate t ''confirm.title'' []) (translate t ''confirm.delete_item'' [])
           (oi_item_name item) (translate t ''action.delete'' []))"

definition removeItem ::
  "order_server \<Rightarrow> (effect list \<Rightarrow> string \<Rightarrow> bool) \<Rightarrow> order_context \<Rightarrow> ('x order_state_scheme, unit) act
   \<Rightarrow> order_item \<Rightarrow> ('x order_state_scheme, unit) act" where
  "removeItem srv person cx render item =
     bind (confirmed person (item_removal cx item))
       (\<lambda>agreed.
          if \<not> agreed then ret ()
          else try_catch
            (andthen (call (sv_done srv) (Call ''DELETE'' (''/orders/'' @ cx_id cx @ ''/items/'' @ oi_id item) None))
               (refresh_order srv cx render))
            (\<lambda>e. on_status (fail_with (errorMessage (cx_t cx) e))))"

lemma extends_try_catch [intro]:
  assumes "extends m" and "\<And>e. extends (h e)"
  shows "extends (try_catch m h)"
proof (rule extendsI)
  fix w
  obtain r w' where m: "m w = (r, w')" by (cases "m w")
  from extendsD [OF assms(1) m] obtain es where "trace w' = trace w @ es" ..
  moreover obtain fs where "trace (snd (h e w')) = trace w' @ fs" if "r = Inl e" for e
    using assms(2) by (cases r) (auto simp: extends_def)
  ultimately show "\<exists>es. trace (snd (try_catch m h w)) = trace w @ es"
    using m by (cases r) (auto simp: act_simps)
qed

lemma extends_on_status [intro, simp]: "extends (on_status f)"
  by (simp add: on_status_def)

lemma extends_runAction [intro]: "extends m \<Longrightarrow> extends (runAction t h m)"
proof (rule extendsI)
  fix w :: "'a ui_scheme world"
  assume m: "extends m"
  obtain r w' where run: "m (action_start h w) = (r, w')" by (cases "m (action_start h w)")
  from extendsD [OF m run] have "\<exists>es. trace w' = trace w @ es" by (simp add: action_start_def)
  then show "\<exists>es. trace (snd (runAction t h m w)) = trace w @ es"
    using run by (cases r) (simp_all add: runAction_run released_def)
qed

lemma extends_refresh [intro]: "extends render \<Longrightarrow> extends (refresh_order srv cx render)"
  unfolding refresh_order_def by (intro extends_andthen extends_runAction extends_bind extends_basic) simp_all

text \<open>The first thing an action does, whatever the world it starts in.\<close>

definition begins :: "effect \<Rightarrow> ('l, 'a) act \<Rightarrow> bool" where
  "begins ef m \<longleftrightarrow> (\<forall>w. \<exists>es. trace (snd (m w)) = trace w @ ef # es)"

lemma beginsD: "begins ef m \<Longrightarrow> m w = (r, w') \<Longrightarrow> \<exists>es. trace w' = trace w @ ef # es"
  by (metis begins_def snd_conv)

lemma begins_andthen [intro]:
  assumes "begins ef m" and "extends n"
  shows "begins ef (andthen m n)"
  unfolding begins_def
proof
  fix w
  obtain r w' where m: "m w = (r, w')" by (cases "m w")
  obtain s w'' where n: "n w' = (s, w'')" by (cases "n w'")
  from beginsD [OF assms(1) m] extendsD [OF assms(2) n] m n
  show "\<exists>es. trace (snd (andthen m n w)) = trace w @ ef # es"
    by (cases r) (auto simp: act_simps)
qed

lemma begins_call [intro]: "begins (Sent c) (call srv c)"
  by (simp add: begins_def act_simps)

lemma begins_try_catch [intro]:
  assumes "begins ef m" and "\<And>e. extends (h e)"
  shows "begins ef (try_catch m h)"
  unfolding begins_def
proof
  fix w
  obtain r w' where m: "m w = (r, w')" by (cases "m w")
  show "\<exists>es. trace (snd (try_catch m h w)) = trace w @ ef # es"
  proof (cases r)
    case (Inl e)
    obtain s w'' where h: "h e w' = (s, w'')" by (cases "h e w'")
    from beginsD [OF assms(1) m] extendsD [OF assms(2) h] m h Inl show ?thesis by (auto simp: act_simps)
  qed (use beginsD [OF assms(1) m] m in \<open>auto simp: act_simps\<close>)
qed

lemma begins_runAction [intro]:
  assumes "begins ef m"
  shows "begins ef (runAction t h m)"
  unfolding begins_def
proof
  fix w :: "'a ui_scheme world"
  obtain r w' where m: "m (action_start h w) = (r, w')" by (cases "m (action_start h w)")
  from beginsD [OF assms m] m show "\<exists>es. trace (snd (runAction t h m w)) = trace w @ ef # es"
    by (cases r) (auto simp: runAction_run released_def action_start_def)
qed

lemma asks_first:
  assumes "begins ef rest"
  shows "let q = question c; out = bind (confirmed person c) (\<lambda>agreed. if \<not> agreed then ret () else rest) w
    in if person (trace w) q then (\<exists>es. trace (snd out) = trace w @ [Asked q, ef] @ es)
       else out = (Inr (), w\<lparr>trace := trace w @ [Asked q]\<rparr>)"
proof -
  let ?w = "w\<lparr>trace := trace w @ [Asked (question c)]\<rparr>"
  obtain r w' where "rest ?w = (r, w')" by (cases "rest ?w")
  with beginsD [OF assms this] show ?thesis by (auto simp: confirmed_def bind_run ask_run ret_run Let_def)
qed

text \<open>
  C28: nothing is deleted that nobody agreed to: deleting an order, from its page or from its tile,
  or a line asks first; a no ends it there, with nothing sent and nothing changed; a yes sends
  exactly that deletion next.
\<close>

theorem deletions_ask_first:
  assumes "extends reload" and "extends render"
  shows "(let q = question (removal_texts a (case own of None \<Rightarrow> [] | Some d \<Rightarrow> od_items d));
              out = removeOrder list_srv person reload a order own v;
              c = Call ''DELETE'' (''/orders/'' @ o_id order) None
          in if person (trace v) q then (\<exists>es. trace (snd out) = trace v @ [Asked q, Sent c] @ es)
             else out = (Inr (), v\<lparr>trace := trace v @ [Asked q]\<rparr>))
    \<and> (let q = question (removal_texts (cx_app cx) (own_items (os_order (local w))));
           out = remove srv person cx w; c = Call ''DELETE'' (''/orders/'' @ cx_id cx) None
       in if person (trace w) q then (\<exists>es. trace (snd out) = trace w @ [Asked q, Sent c] @ es)
          else out = (Inr (), w\<lparr>trace := trace w @ [Asked q]\<rparr>))
    \<and> (let q = question (item_removal cx item); out = removeItem srv person cx render item w;
           c = Call ''DELETE'' (''/orders/'' @ cx_id cx @ ''/items/'' @ oi_id item) None
       in if person (trace w) q then (\<exists>es. trace (snd out) = trace w @ [Asked q, Sent c] @ es)
          else out = (Inr (), w\<lparr>trace := trace w @ [Asked q]\<rparr>))"
proof (intro conjI)
  show "let q = question (removal_texts a (case own of None \<Rightarrow> [] | Some d \<Rightarrow> od_items d));
            out = removeOrder list_srv person reload a order own v;
            c = Call ''DELETE'' (''/orders/'' @ o_id order) None
        in if person (trace v) q then (\<exists>es. trace (snd out) = trace v @ [Asked q, Sent c] @ es)
           else out = (Inr (), v\<lparr>trace := trace v @ [Asked q]\<rparr>)"
    unfolding removeOrder_def Let_def
    by (rule asks_first [unfolded Let_def])
      (intro begins_try_catch begins_andthen begins_call assms extends_on_status)
  show "let q = question (removal_texts (cx_app cx) (own_items (os_order (local w))));
            out = remove srv person cx w; c = Call ''DELETE'' (''/orders/'' @ cx_id cx) None
        in if person (trace w) q then (\<exists>es. trace (snd out) = trace w @ [Asked q, Sent c] @ es)
           else out = (Inr (), w\<lparr>trace := trace w @ [Asked q]\<rparr>)"
    unfolding remove_def bind_run [of "gets f" for f] gets_run Let_def sum.case prod.case
    by (rule asks_first [unfolded Let_def])
      (intro begins_runAction begins_andthen begins_call extends_basic)
  show "let q = question (item_removal cx item); out = removeItem srv person cx render item w;
            c = Call ''DELETE'' (''/orders/'' @ cx_id cx @ ''/items/'' @ oi_id item) None
        in if person (trace w) q then (\<exists>es. trace (snd out) = trace w @ [Asked q, Sent c] @ es)
           else out = (Inr (), w\<lparr>trace := trace w @ [Asked q]\<rparr>)"
    unfolding removeItem_def Let_def
    by (rule asks_first [unfolded Let_def])
      (intro begins_try_catch begins_andthen begins_call extends_refresh assms extends_on_status)
qed

text \<open>A page to evaluate on: nobody logged in, one order, no menu.\<close>

definition sample_app :: app where
  "sample_app = \<lparr>app_t = sample_translator, app_session = new_session, app_intl = sample_intl,
     app_now = 0, app_path = ''/''\<rparr>"

definition sample_context :: order_context where
  "sample_context = \<lparr>cx_app = sample_app, cx_id = ''o1'', cx_reference = None, cx_restaurant = None,
     cx_money = DEFAULT_MONEY_FORMAT\<rparr>"

definition sample_header :: order_header where
  "sample_header = \<lparr>o_id = ''o1'', o_title = ''Lunch'', o_restaurant_id = ''r1'', o_restaurant_name = ''Ali'',
     o_restaurant_logo_image_id = None, o_fulfilment = ''pickup'', o_fulfilment_at = ''200'',
     o_deadline_at = ''100'', o_status = ''active'', o_currency_code = ''EUR'',
     o_min_order_value_cents = None, o_delivery_fee_cents = None, o_item_count = 0\<rparr>"

definition sample_state :: order_state where
  "sample_state = \<lparr>ui_status = statusLine, ui_busy = False, os_order = Header sample_header,
     os_menu = [], os_categories = []\<rparr>"

definition refusing :: order_server where
  "refusing = \<lparr>sv_order = \<lambda>_ _. Inl AbortError, sv_restaurant = \<lambda>_ _. Inl AbortError,
     sv_categories = \<lambda>_ _. Inl AbortError,
     sv_menu = \<lambda>_ _. Inl AbortError, sv_dish = \<lambda>_ _. Inl AbortError, sv_accounts = \<lambda>_ _. Inl AbortError,
     sv_messages = \<lambda>_ _. Inl AbortError, sv_done = \<lambda>_ _. Inl AbortError\<rparr>"

theorem deletions_ask_first_witness:
  "\<exists>es. trace (snd (remove refusing (\<lambda>_ _. True) sample_context (new_world sample_state)))
     = [Asked (question (removal_texts sample_app [])), Sent (Call ''DELETE'' ''/orders/o1'' None)] @ es"
  using deletions_ask_first [where reload = "ret () :: (unit ui_scheme, unit) act"
      and render = "ret () :: (unit order_state_scheme, unit) act" and person = "\<lambda>_ _. True"
      and cx = sample_context and w = "new_world sample_state" and srv = refusing]
  by (simp add: Let_def new_world_def sample_context_def sample_state_def own_items_def detail_def)

end
