(* ===== verification/OrderMenu.thy ===== *)
theory OrderMenu
  imports OrderItems
begin

text \<open>
  The menu column of the order page (\<open>src/pages/order/menu.ts\<close>): the dishes the kitchen will make
  at the order's time, filtered, grouped by category, with a way to order, correct or add a dish.
  A \<open>Set\<close> of ids is the list of its members in the order they were added.
\<close>

section \<open>The filters\<close>

record menu_filters =
  fl_tags :: "string list"
  fl_allergens :: "string list"
  fl_additives :: "string list"
  fl_available_only :: bool

definition no_filters :: menu_filters where
  "no_filters = \<lparr>fl_tags = [], fl_allergens = [], fl_additives = [], fl_available_only = False\<rparr>"

record menu_column = order_state +
  mc_filters :: menu_filters
  mc_collapsed :: "string list"
  mc_open_groups :: "string list"

definition matchesFilter :: "menu_filters \<Rightarrow> menu_item \<Rightarrow> bool" where
  "matchesFilter f item =
     (if mi_available_at item = Some False then False
      else if fl_available_only f \<and> \<not> mi_available item then False
      else if fl_tags f \<noteq> [] \<and> \<not> list_ex (\<lambda>tg. tag_id tg \<in> set (fl_tags f)) (mi_tags item) then False
      else if list_ex (\<lambda>c. cl_id c \<in> set (fl_allergens f)) (mi_allergens item) then False
      else if list_ex (\<lambda>c. cl_id c \<in> set (fl_additives f)) (mi_additives item) then False
      else True)"

text \<open>
  The boxes of the filter bar. Ticking one keeps its group open for as long as the page lives,
  even once nothing in it is ticked any more.
\<close>

datatype filter_kind = Tags | Allergens | Additives

definition legend_of :: "order_context \<Rightarrow> filter_kind \<Rightarrow> string" where
  "legend_of cx k =
     translate (cx_t cx)
       (case k of Tags \<Rightarrow> ''menu.filter.tags'' | Allergens \<Rightarrow> ''menu.filter.exclude_allergens''
        | Additives \<Rightarrow> ''menu.filter.exclude_additives'') []"

fun chosen_of :: "filter_kind \<Rightarrow> menu_filters \<Rightarrow> string list" where
  "chosen_of Tags f = fl_tags f"
| "chosen_of Allergens f = fl_allergens f"
| "chosen_of Additives f = fl_additives f"

fun set_chosen :: "filter_kind \<Rightarrow> string list \<Rightarrow> menu_filters \<Rightarrow> menu_filters" where
  "set_chosen Tags ids f = f\<lparr>fl_tags := ids\<rparr>"
| "set_chosen Allergens ids f = f\<lparr>fl_allergens := ids\<rparr>"
| "set_chosen Additives ids f = f\<lparr>fl_additives := ids\<rparr>"

definition filter_changed ::
  "order_context \<Rightarrow> filter_kind \<Rightarrow> string \<Rightarrow> bool \<Rightarrow> 'x menu_column_scheme \<Rightarrow> 'x menu_column_scheme" where
  "filter_changed cx k ident checked s =
     (let chosen = chosen_of k (mc_filters s);
          chosen' = (if checked then set_add ident chosen else set_delete ident chosen)
      in s\<lparr>mc_filters := set_chosen k chosen' (mc_filters s),
           mc_open_groups := set_add (legend_of cx k) (mc_open_groups s)\<rparr>)"

definition available_only_changed :: "bool \<Rightarrow> 'x menu_column_scheme \<Rightarrow> 'x menu_column_scheme" where
  "available_only_changed checked s = s\<lparr>mc_filters := (mc_filters s)\<lparr>fl_available_only := checked\<rparr>\<rparr>"

definition clear_filters :: "'x menu_column_scheme \<Rightarrow> 'x menu_column_scheme" where
  "clear_filters s = s\<lparr>mc_filters := no_filters\<rparr>"

definition group_toggled :: "string \<Rightarrow> bool \<Rightarrow> 'x menu_column_scheme \<Rightarrow> 'x menu_column_scheme" where
  "group_toggled legend now_open s =
     s\<lparr>mc_open_groups := (if now_open then set_add legend (mc_open_groups s)
                          else set_delete legend (mc_open_groups s))\<rparr>"

definition category_toggled :: "string \<Rightarrow> 'x menu_column_scheme \<Rightarrow> 'x menu_column_scheme" where
  "category_toggled ident s =
     s\<lparr>mc_collapsed := (if ident \<in> set (mc_collapsed s) then set_delete ident (mc_collapsed s)
                        else set_add ident (mc_collapsed s))\<rparr>"

definition filter_action :: "filter_kind \<Rightarrow> string \<Rightarrow> order_action" where
  "filter_action k ident =
     (case k of Tags \<Rightarrow> FilterTag ident | Allergens \<Rightarrow> FilterAllergen ident | Additives \<Rightarrow> FilterAdditive ident)"

definition filter_group ::
  "string \<Rightarrow> filter_kind \<Rightarrow> (string \<times> string) list \<Rightarrow> string list \<Rightarrow> string list \<Rightarrow> order_action node" where
  "filter_group legend k entries chosen groups =
     (let boxes = foldl (\<lambda>x (ident, label). add_child
                     (checkbox label None (Some (''filter:'' @ ident)) (ident \<in> set chosen) False
                        (Some (filter_action k ident))) x)
                   (el ''div'' [(''class'', AStr ''chips'')] []) entries;
          label = (if chosen \<noteq> [] then legend @ '' ('' @ string_of_nat (length chosen) @ '')'' else legend)
      in add_listener ''toggle'' (ToggleGroup legend)
           (el ''details'' [(''class'', AStr ''filter-group''),
                (''open'', ABool (chosen \<noteq> [] \<or> legend \<in> set groups))]
             [CNode (el ''summary'' [(''text'', AStr label), (''data-key'', AStr (''filter-group:'' @ legend))] []),
              CNode boxes]))"

definition filter_entries :: "order_context \<Rightarrow> reference_data \<Rightarrow> filter_kind \<Rightarrow> (string \<times> string) list" where
  "filter_entries cx ref k =
     (let t = cx_t cx
      in case k of
           Tags \<Rightarrow> map (\<lambda>tg. (tag_id tg, tagName t tg)) (ref_tags ref)
         | Allergens \<Rightarrow> map (\<lambda>c. (cl_id c, translate t (''allergen.'' @ cl_code c) [])) (ref_allergens ref)
         | Additives \<Rightarrow> map (\<lambda>c. (cl_id c, translate t (''additive.'' @ cl_code c) [])) (ref_additives ref))"

definition filterBar :: "order_context \<Rightarrow> 'x menu_column_scheme \<Rightarrow> order_action node" where
  "filterBar cx s =
     (let t = cx_t cx; bar = el ''div'' [(''class'', AStr ''filter-bar'')] []
      in case cx_reference cx of
           None \<Rightarrow> bar
         | Some ref \<Rightarrow> append bar
             (map (\<lambda>k. CNode (filter_group (legend_of cx k) k (filter_entries cx ref k)
                       (chosen_of k (mc_filters s)) (mc_open_groups s))) [Tags, Allergens, Additives]
              @ [CNode (checkbox (translate t ''menu.filter.available_only'' []) None (Some ''filter:available-only'')
                    (fl_available_only (mc_filters s)) False (Some FilterAvailable)),
                 CNode (keyed (button ((plain_button (translate t ''menu.filter.clear'' []))
                    \<lparr>bt_variant := Quiet, bt_onclick := Some ClearFilters\<rparr>)) ''filter:clear'')]))"

section \<open>The dishes\<close>

definition menu_buttons :: "translator \<Rightarrow> bool \<Rightarrow> bool \<Rightarrow> menu_item \<Rightarrow> order_action child" where
  "menu_buttons t editable addable item =
     (if editable \<or> addable
      then CNode (el ''div'' [(''class'', AStr ''menu-item-buttons'')]
        [if editable
         then CNode (keyed (iconButton ''pencil'' (translate t ''action.edit'' [] @ '': '' @ mi_name item) []
                (EditDish item)) (''edit-dish:'' @ mi_id item))
         else CNull,
         if addable
         then CNode (keyed (button ((plain_button (translate t ''item.add'' []))
                \<lparr>bt_variant := Primary, bt_aria := Some (translate t ''item.add'' [] @ '': '' @ mi_name item),
                 bt_onclick := Some (AddDish item)\<rparr>)) (''add:'' @ mi_id item))
         else CNull])
      else CNull)"

lemma menu_buttons_actions [node_simps]:
  "set (child_actions (menu_buttons t editable addable item)) =
     (if editable then {EditDish item} else {}) \<union> (if addable then {AddDish item} else {})"
  by (cases editable; cases addable) (simp_all add: menu_buttons_def node_simps)

definition menuRow :: "order_context \<Rightarrow> order_view \<Rightarrow> menu_item \<Rightarrow> order_action node" where
  "menuRow cx v item =
     (let a = cx_app cx; t = cx_t cx;
          addable = (canOrder cx v \<and> mi_available item);
          editable = (isAuthenticated (app_session a) \<and> cx_reference cx \<noteq> None)
      in el ''li'' [(''class'', AStr (js_class ''menu-item'' (if mi_available item then [] else ''menu-item-unavailable'')))]
        (map CNode (menuItemParts a item)
         @ [CNode (el ''div'' [(''class'', AStr ''menu-item-side'')]
             [CNode (el ''span'' [(''class'', AStr ''menu-price''),
                (''text'', AStr (formatMoney (app_intl a) (language a) (mi_price_cents item)
                   (o_currency_code (header_of v)) (cx_money cx)))] []),
              menu_buttons t editable addable item])]))"

definition categoryBlock ::
  "order_context \<Rightarrow> order_view \<Rightarrow> string list \<Rightarrow> string \<Rightarrow> string \<Rightarrow> menu_item list \<Rightarrow> order_action node" where
  "categoryBlock cx v collapsed ident name own =
     (let now_open = (ident \<notin> set collapsed);
          list = foldl (\<lambda>x item. add_child (menuRow cx v item) x)
                   (el ''ul'' [(''class'', AStr ''plain-list menu-items''), (''hidden'', ABool (\<not> now_open))] []) own;
          toggle = el ''button''
            [(''type'', AStr ''button''), (''class'', AStr ''category-toggle''),
             (''data-key'', AStr (''category:'' @ ident)),
             (''aria-expanded'', AStr (if now_open then ''true'' else ''false'')),
             (''onclick'', AFun (ToggleCategory ident))]
            [CNode (icon (if now_open then ''chevron-down'' else ''chevron-right'') None),
             CNode (el ''span'' [(''text'', AStr name)] []),
             CNode (el ''span'' [(''class'', AStr ''muted''),
               (''text'', AStr ('' ('' @ string_of_nat (length own) @ '')''))] [])]
      in el ''div'' [(''class'', AStr ''menu-group'')] [CNode toggle, CNode list])"

definition menu_groups :: "order_context \<Rightarrow> 'x menu_column_scheme \<Rightarrow> order_action child list" where
  "menu_groups cx s =
     (let t = cx_t cx; v = os_order s; shown = filter (matchesFilter (mc_filters s)) (os_menu s);
          of_category = (\<lambda>c. filter (\<lambda>d. mi_category_id d = Some (ca_id c)) shown);
          loose = filter (\<lambda>d. mi_category_id d = None) shown
      in [CNode (filterBar cx s)]
         @ map (\<lambda>c. CNode (categoryBlock cx v (mc_collapsed s) (ca_id c) (ca_name c) (of_category c)))
             (filter (\<lambda>c. of_category c \<noteq> []) (os_categories s))
         @ (if loose \<noteq> []
            then [if os_categories s = []
                  then CNode (el ''ul'' [(''class'', AStr ''plain-list menu-items'')] (map (\<lambda>d. CNode (menuRow cx v d)) loose))
                  else CNode (categoryBlock cx v (mc_collapsed s) [] (translate t ''menu.category.none'' []) loose)]
            else [])
         @ (if shown = []
            then [CNode (el ''p'' [(''class'', AStr ''muted''), (''text'', AStr (translate t ''menu.empty'' []))] [])] else [])
         @ (if isAuthenticated (app_session (cx_app cx)) \<and> cx_reference cx \<noteq> None
            then [CNode (actions [CNode (keyed (button ((plain_button (translate t ''order.add_missing_item'' []))
                    \<lparr>bt_onclick := Some AddMissing\<rparr>)) ''add-missing'')])] else []))"

definition menu_section :: "order_context \<Rightarrow> 'x menu_column_scheme \<Rightarrow> order_action node" where
  "menu_section cx s = section_card (translate (cx_t cx) ''menu.items'' []) (menu_groups cx s)"

definition renderMenu ::
  "order_context \<Rightarrow> 'x menu_column_scheme \<Rightarrow> order_action node \<Rightarrow> focus option \<Rightarrow> order_action node \<times> focus option" where
  "renderMenu cx s right foc = rerender right foc [CNode (menu_section cx s)]"

section \<open>What the column offers\<close>

lemma fold_children_actions:
  "tag_name x \<noteq> [] \<Longrightarrow>
   set (actions_of (foldl (\<lambda>x e. add_child (f e) x) x es)) = set (actions_of x) \<union> (\<Union>e \<in> set es. set (actions_of (f e)))"
  by (induction es arbitrary: x) auto

lemma filter_group_actions [node_simps]:
  "set (actions_of (filter_group legend k entries chosen groups)) =
     insert (ToggleGroup legend) ((\<lambda>e. filter_action k (fst e)) ` set entries)"
proof -
  have "set (actions_of (foldl (\<lambda>x e. add_child
          ((\<lambda>(ident, label). checkbox label None (Some (''filter:'' @ ident)) (ident \<in> set chosen) False
             (Some (filter_action k ident))) e) x)
        (el ''div'' [(''class'', AStr ''chips'')] []) entries)) = (\<lambda>e. filter_action k (fst e)) ` set entries"
    by (subst fold_children_actions) (auto simp: node_simps split: prod.split intro: rev_image_eqI)
  then have "set (actions_of (foldl (\<lambda>x (ident, label). add_child
          (checkbox label None (Some (''filter:'' @ ident)) (ident \<in> set chosen) False
             (Some (filter_action k ident))) x)
        (el ''div'' [(''class'', AStr ''chips'')] []) entries)) = (\<lambda>e. filter_action k (fst e)) ` set entries"
    by (simp add: case_prod_unfold)
  then show ?thesis
    by (simp add: filter_group_def Let_def add_listener_actions node_simps)
qed

text \<open>The controls over the dishes, apart from those of the filters and the folding.\<close>

fun about_dish :: "order_action \<Rightarrow> bool" where
  "about_dish (AddDish d) = True"
| "about_dish (EditDish d) = True"
| "about_dish AddMissing = True"
| "about_dish _ = False"

lemma filter_bar_other: "x \<in> set (actions_of (filterBar cx s)) \<Longrightarrow> \<not> about_dish x"
  by (cases "cx_reference cx")
    (auto simp: filterBar_def Let_def node_simps set_actions_append filter_action_def split: filter_kind.splits)

lemma menu_row_actions [node_simps]:
  "set (actions_of (menuRow cx v item)) =
     (if isAuthenticated (app_session (cx_app cx)) \<and> cx_reference cx \<noteq> None then {EditDish item} else {})
     \<union> (if canOrder cx v \<and> mi_available item then {AddDish item} else {})"
proof -
  have parts: "(\<Union>n \<in> set (menuItemParts (cx_app cx) item). set (actions_of (n :: order_action node))) = {}"
    by (auto simp: parts_no_actions)
  show ?thesis
    unfolding menuRow_def Let_def by (simp add: node_simps parts del: if_split)
qed

lemma category_block_actions [node_simps]:
  "set (actions_of (categoryBlock cx v collapsed ident name own)) =
     insert (ToggleCategory ident) (\<Union>d \<in> set own. set (actions_of (menuRow cx v d)))"
  by (simp add: categoryBlock_def Let_def fold_children_actions node_simps)

lemma row_about_dish: "x \<in> set (actions_of (menuRow cx v d)) \<Longrightarrow> about_dish x"
  by (auto simp: menu_row_actions split: if_splits)

lemma menu_groups_actions:
  "set (actions_of (section_card title (menu_groups cx s))) =
     (let shown = filter (matchesFilter (mc_filters s)) (os_menu s); row = (\<lambda>d. set (actions_of (menuRow cx (os_order s) d)));
          of_category = (\<lambda>c. filter (\<lambda>d. mi_category_id d = Some (ca_id c)) shown);
          loose = filter (\<lambda>d. mi_category_id d = None) shown
      in set (actions_of (filterBar cx s))
         \<union> (\<Union>c \<in> set (filter (\<lambda>c. of_category c \<noteq> []) (os_categories s)).
               insert (ToggleCategory (ca_id c)) (\<Union>d \<in> set (of_category c). row d))
         \<union> (if loose \<noteq> [] then (if os_categories s = [] then {} else {ToggleCategory []}) \<union> (\<Union>d \<in> set loose. row d) else {})
         \<union> (if isAuthenticated (app_session (cx_app cx)) \<and> cx_reference cx \<noteq> None then {AddMissing} else {}))"
  unfolding section_actions menu_groups_def Let_def set_append UN_Un children_if
  by (cases "os_categories s = []")
    (simp_all add: category_block_actions node_simps Un_assoc del: menu_row_actions split del: if_split cong: if_cong)

lemma matches_sets:
  "matchesFilter f d \<longleftrightarrow> mi_available_at d \<noteq> Some False
     \<and> (if fl_available_only f then mi_available d else True)
     \<and> (if fl_tags f = [] then True else tag_id ` set (mi_tags d) \<inter> set (fl_tags f) \<noteq> {})
     \<and> cl_id ` set (mi_allergens d) \<inter> set (fl_allergens f) = {}
     \<and> cl_id ` set (mi_additives d) \<inter> set (fl_additives f) = {}"
  unfolding matchesFilter_def list_ex_iff by auto


end
