(* ===== verification/OrderChat.thy ===== *)
theory OrderChat
  imports OrderMenu
begin

text \<open>
  The order's chat (\<open>src/pages/order/chat.ts\<close>): its lines, its count, who may read and write it,
  what the stream makes it do, and sending. Its state is its own, with its own status line; the
  page holds it as a part. The layout of the log is a parameter: how high a list of lines is, and
  how much of it is visible.
\<close>

section \<open>A part of a larger state\<close>

definition zoom ::
  "('l \<Rightarrow> 'm) \<Rightarrow> (('m \<Rightarrow> 'm) \<Rightarrow> 'l \<Rightarrow> 'l) \<Rightarrow> ('m, 'a) act \<Rightarrow> ('l, 'a) act" where
  "zoom part change m w =
     (case m \<lparr>trace = trace w, local = part (local w)\<rparr> of
        (r, v) \<Rightarrow> (r, \<lparr>trace = trace v, local = change (\<lambda>_. local v) (local w)\<rparr>))"

lemma extends_zoom [intro]:
  fixes part :: "'b \<Rightarrow> 'm"
  shows "extends m \<Longrightarrow> extends (zoom part change m)"
proof (rule extendsI)
  fix w :: "'b world"
  assume m: "extends m"
  obtain r v where run: "m \<lparr>trace = trace w, local = part (local w)\<rparr> = (r, v)"
    by (cases "m \<lparr>trace = trace w, local = part (local w)\<rparr>")
  from extendsD [OF m run] run show "\<exists>es. trace (snd (zoom part change m w)) = trace w @ es"
    by (simp add: zoom_def)
qed

section \<open>The chat\<close>

definition MAX_MESSAGE_LENGTH :: nat where
  "MAX_MESSAGE_LENGTH = 1000"

definition FOLLOW_SLACK :: int where
  "FOLLOW_SLACK = 24"

record chat = ui +
  ct_messages :: "order_message list option"
  ct_heard :: "int option"
  ct_field :: string
  ct_log :: "order_action child list"
  ct_scroll :: int

record log_layout =
  ly_height :: "order_action child list \<Rightarrow> int"
  ly_visible :: int

definition chat_count :: "order_view \<Rightarrow> 'x chat_scheme \<Rightarrow> int" where
  "chat_count v c =
     (case ct_messages c of
        Some ms \<Rightarrow> int (length ms)
      | None \<Rightarrow> (case ct_heard c of
                   Some n \<Rightarrow> n
                 | None \<Rightarrow> (case detail v of Some d \<Rightarrow> int (od_message_count d) | None \<Rightarrow> 0)))"

definition chat_unavailable :: "order_context \<Rightarrow> order_view \<Rightarrow> string option" where
  "chat_unavailable cx v =
     (if \<not> isAuthenticated (app_session (cx_app cx)) then Some (translate (cx_t cx) ''chat.login'' [])
      else if isParticipant cx v then None else Some (translate (cx_t cx) ''chat.participants_only'' []))"

definition chat_line :: "order_context \<Rightarrow> order_message \<Rightarrow> 'a node" where
  "chat_line cx m =
     (let a = cx_app cx
      in el ''p'' [(''class'', AStr ''chat-line'')]
           [CNode (el ''strong'' [(''text'', AStr (om_user_name m))] []),
            CStr ('' ('' @ formatChatTime (app_intl a) (language a) (Stamp (om_created_at m)) (app_now a) @ ''): ''
                  @ om_body m)])"

definition render_chat :: "log_layout \<Rightarrow> order_context \<Rightarrow> 'x chat_scheme \<Rightarrow> 'x chat_scheme" where
  "render_chat ly cx c =
     (let following = (ly_height ly (ct_log c) - ct_scroll c - ly_visible ly \<le> FOLLOW_SLACK)
      in case ct_messages c of
           Some (m # ms) \<Rightarrow>
             let lines = map (\<lambda>m. CNode (chat_line cx m)) (m # ms)
             in c\<lparr>ct_log := lines, ct_scroll := (if following then ly_height ly lines else ct_scroll c)\<rparr>
         | _ \<Rightarrow> c\<lparr>ct_log := [CNode (el ''p'' [(''class'', AStr ''muted''),
                    (''text'', AStr (translate (cx_t cx) ''chat.empty'' []))] [])]\<rparr>)"

definition messages_call :: "order_context \<Rightarrow> string \<Rightarrow> json option \<Rightarrow> http_call" where
  "messages_call cx method body = Call method (''/orders/'' @ cx_id cx @ ''/messages'') body"

definition reload_chat ::
  "order_server \<Rightarrow> log_layout \<Rightarrow> order_context \<Rightarrow> order_view \<Rightarrow> ('x chat_scheme, unit) act" where
  "reload_chat srv ly cx v =
     (if \<not> isParticipant cx v then ret ()
      else andthen (runAction (cx_t cx) False
        (bind (call (sv_messages srv) (messages_call cx ''GET'' None))
           (\<lambda>ms. modify (\<lambda>c. render_chat ly cx (c\<lparr>ct_messages := Some ms, ct_heard := None\<rparr>))))) (ret ()))"

text \<open>
  The stream says how many lines there are. The number is kept at once; the lines are read only if
  the ones known are not already that many.
\<close>

definition note_heard :: "int \<Rightarrow> ('x chat_scheme, unit) act" where
  "note_heard n = modify (\<lambda>c. c\<lparr>ct_heard := Some n\<rparr>)"

definition after_heard ::
  "order_server \<Rightarrow> log_layout \<Rightarrow> order_context \<Rightarrow> order_view \<Rightarrow> int \<Rightarrow> ('x chat_scheme, unit) act" where
  "after_heard srv ly cx v n =
     bind (gets ct_messages)
       (\<lambda>ms. if map_option (\<lambda>ms. int (length ms)) ms = Some n then ret () else reload_chat srv ly cx v)"

definition heard ::
  "order_server \<Rightarrow> log_layout \<Rightarrow> order_context \<Rightarrow> order_view \<Rightarrow> int \<Rightarrow> ('x chat_scheme, unit) act" where
  "heard srv ly cx v n = andthen (note_heard n) (after_heard srv ly cx v n)"

definition post_message ::
  "order_server \<Rightarrow> log_layout \<Rightarrow> order_context \<Rightarrow> order_view \<Rightarrow> ('x chat_scheme, unit) act" where
  "post_message srv ly cx v =
     bind (gets (\<lambda>c. js_trim (ct_field c)))
       (\<lambda>txt. if txt = [] then ret ()
          else bind (runAction (cx_t cx) True
                 (call (sv_done srv) (messages_call cx ''POST'' (Some (JObj [(''body'', JStr txt)])))))
            (\<lambda>sent. if \<not> sent then ret ()
               else andthen (modify (\<lambda>c. c\<lparr>ct_field := []\<rparr>))
                 (andthen (reload_chat srv ly cx v)
                    (modify (\<lambda>c. c\<lparr>ct_scroll := ly_height ly (ct_log c)\<rparr>)))))"

definition new_chat :: "log_layout \<Rightarrow> order_context \<Rightarrow> chat" where
  "new_chat ly cx =
     render_chat ly cx
       \<lparr>ui_status = statusLine, ui_busy = False, ct_messages = None, ct_heard = None, ct_field = [],
        ct_log = [], ct_scroll = 0\<rparr>"

text \<open>The panel: the log, the form, the status line.\<close>

definition chat_panel :: "order_context \<Rightarrow> chat \<Rightarrow> order_action node" where
  "chat_panel cx c =
     (let t = cx_t cx;
          log = append (el ''div'' [(''class'', AStr ''chat-log''), (''role'', AStr ''log''), (''aria-live'', AStr ''polite''),
                  (''aria-label'', AStr (translate t ''chat.log'' [])), (''tabindex'', AStr ''0'')] []) (ct_log c);
          field = set_attribute ''aria-label'' (translate t ''chat.input'' [])
            (set_attribute ''maxlength'' (string_of_nat MAX_MESSAGE_LENGTH)
              (set_property ''value'' (ct_field c)
                (input (no_input\<lparr>in_name := Some ''message'', in_autocomplete := Some ''off''\<rparr>))));
          send_button = button ((plain_button (translate t ''chat.send'' []))
            \<lparr>bt_variant := Primary, bt_submit := True, bt_disabled := ui_busy c\<rparr>);
          compose = append (el ''form'' [(''class'', AStr ''chat-compose''), (''novalidate'', ABool True),
                      (''onsubmit'', AFun SendMessage)] []) [CNode field, CNode send_button]
      in el ''div'' [(''class'', AStr ''chat'')] [CNode log, CNode compose, CNode (status_element (ui_status c))])"

section \<open>Only participants read and write\<close>

lemma reload_chat_run:
  "reload_chat srv ly cx v w =
     (if \<not> isParticipant cx v then (Inr (), w)
      else let get = messages_call cx ''GET'' None; s = clear_status (ui_status (local w));
               asked = w\<lparr>trace := trace w @ [Sent get], local := (local w)\<lparr>ui_status := s\<rparr>\<rparr>
           in case sv_messages srv (trace w) get of
                Inl e \<Rightarrow> (Inr (), asked\<lparr>local := (local asked)\<lparr>ui_status := fail_with (errorMessage (cx_t cx) e) s\<rparr>\<rparr>)
              | Inr ms \<Rightarrow> (Inr (), asked\<lparr>local := render_chat ly cx
                    ((local asked)\<lparr>ct_messages := Some ms, ct_heard := None\<rparr>)\<rparr>))"
  by (cases "sv_messages srv (trace w) (messages_call cx ''GET'' None)")
    (simp_all add: reload_chat_def act_simps runAction_run action_start_def released_def Let_def)

lemma render_chat_simps [simp]:
  "ct_messages (render_chat ly cx c) = ct_messages c" "ct_heard (render_chat ly cx c) = ct_heard c"
  "ui_status (render_chat ly cx c) = ui_status c" "ct_field (render_chat ly cx c) = ct_field c"
  "ui_busy (render_chat ly cx c) = ui_busy c"
  by (simp_all add: render_chat_def Let_def split: option.split list.split)

text \<open>
  The lines of a chat are only ever asked for by a participant of the order: hearing of a new
  line asks for them once, unless they are known already, and never for anybody else; afterwards
  the count on the tab is the number of the lines that were read, or what was heard when none are.
\<close>

theorem chat_read_by_participants:
  "(let get = messages_call cx ''GET'' None; out = heard srv ly cx v n w;
        known = map_option (\<lambda>ms. int (length ms)) (ct_messages (local w)) = Some n
    in adds (heard srv ly cx v n) w = (if isParticipant cx v \<and> \<not> known then [Sent get] else [])
       \<and> fst out = Inr ()
       \<and> chat_count v (local (snd out)) =
           (if isParticipant cx v \<and> \<not> known
            then (case sv_messages srv (trace w) get of
                    Inr ms \<Rightarrow> int (length ms)
                  | Inl e \<Rightarrow> (case ct_messages (local w) of None \<Rightarrow> n | Some ms \<Rightarrow> int (length ms)))
            else (case ct_messages (local w) of None \<Rightarrow> n | Some ms \<Rightarrow> int (length ms))))"
proof (cases "map_option (\<lambda>ms. int (length ms)) (ct_messages (local w)) = Some n")
  case True
  then show ?thesis
    by (auto simp: heard_def note_heard_def after_heard_def act_simps adds_def chat_count_def Let_def)
next
  case False
  then show ?thesis
    by (cases "sv_messages srv (trace w) (messages_call cx ''GET'' None)")
      (auto simp: heard_def note_heard_def after_heard_def act_simps adds_def chat_count_def Let_def
        reload_chat_run split: option.splits)
qed

text \<open>
  Sending a message: spaces around it are not part of it, nothing but spaces is not sent, and
  what was typed is only cleared once the server has taken it; the button is pressable again
  however it went, and a refusal is said where it was written.
\<close>

theorem message_sent_once:
  "(let txt = js_trim (ct_field (local w)); post = messages_call cx ''POST'' (Some (JObj [(''body'', JStr txt)]));
        out = post_message srv ly cx v w
    in fst out = Inr ()
       \<and> (if txt = [] then snd out = w
          else (case sv_done srv (trace w) post of
             Inl e \<Rightarrow> trace (snd out) = trace w @ [Sent post]
                 \<and> ct_field (local (snd out)) = ct_field (local w) \<and> \<not> ui_busy (local (snd out))
                 \<and> ui_status (local (snd out)) = \<lparr>st_text = errorMessage (cx_t cx) e, st_error = True\<rparr>
           | Inr u \<Rightarrow> trace (snd out) = trace w @ Sent post
                   # (if isParticipant cx v then [Sent (messages_call cx ''GET'' None)] else [])
                 \<and> ct_field (local (snd out)) = [] \<and> \<not> ui_busy (local (snd out)))))"
proof (cases "js_trim (ct_field (local w)) = []")
  case True
  then show ?thesis by (simp add: post_message_def act_simps Let_def)
next
  case False
  let ?post = "messages_call cx ''POST'' (Some (JObj [(''body'', JStr (js_trim (ct_field (local w))))]))"
  show ?thesis
  proof (cases "sv_done srv (trace w) ?post")
    case (Inl e)
    with False show ?thesis
      by (simp add: post_message_def act_simps Let_def runAction_run action_start_def released_def fail_with_def)
  next
    case (Inr u)
    with False show ?thesis
      by (auto simp: post_message_def act_simps Let_def runAction_run action_start_def released_def reload_chat_run
        split: sum.splits)
  qed
qed

end
