(* ===== verification/Tabs.thy ===== *)
theory Tabs
  imports Dom
begin

text \<open>
  The tab strip (\<open>src/components/tabs.ts\<close>): which tab is selected, which cannot be, what each
  button and panel shows of that, and the arrow keys. The selection is an option, with \<open>None\<close> for
  the index -1 the code arrives at when every tab is unavailable.
\<close>

record tab_spec =
  tb_id :: string
  tb_label :: string
  tb_disabled :: "string option"

text \<open>What a button and its panel show.\<close>

record tab_view =
  tv_selected :: bool
  tv_index :: int
  tv_hidden :: bool

record tab_state =
  ids :: "string list"
  labels :: "string list"
  disabled :: "string option list"
  selected :: "nat option"
  views :: "tab_view list"
  focused_tab :: "nat option"

definition blocked :: "tab_state \<Rightarrow> nat \<Rightarrow> bool" where
  "blocked s i = (case at (disabled s) i of Some (Some _) \<Rightarrow> True | _ \<Rightarrow> False)"

definition first_free :: "string option list \<Rightarrow> nat option" where
  "first_free ds = find_index (\<lambda>d. d = None) ds"

definition select_tab :: "nat option \<Rightarrow> bool \<Rightarrow> tab_state \<Rightarrow> tab_state" where
  "select_tab nxt moveFocus s =
     (if (case nxt of None \<Rightarrow> False | Some i \<Rightarrow> blocked s i) then s
      else s\<lparr>selected := nxt,
             views := map (\<lambda>i. let chosen = (nxt = Some i) in
                 \<lparr>tv_selected = chosen, tv_index = (if chosen then 0 else - 1), tv_hidden = \<not> chosen\<rparr>)
               [0..<length (ids s)],
             focused_tab := (if moveFocus then nxt else focused_tab s)\<rparr>)"

definition tabControls :: "tab_spec list \<Rightarrow> nat option \<Rightarrow> tab_state" where
  "tabControls specs initial =
     (let start = (case initial of Some i \<Rightarrow> if i < length specs then i else 0 | None \<Rightarrow> 0);
          s0 = \<lparr>ids = map tb_id specs, labels = map tb_label specs, disabled = map tb_disabled specs,
                selected = Some start, views = [], focused_tab = None\<rparr>;
          cur = (if blocked s0 start then first_free (disabled s0) else Some start)
      in select_tab cur False (s0\<lparr>selected := cur\<rparr>))"

definition index_of_tab :: "tab_state \<Rightarrow> string \<Rightarrow> nat option" where
  "index_of_tab s i = find_index (\<lambda>x. x = i) (ids s)"

definition setLabel :: "string \<Rightarrow> string \<Rightarrow> tab_state \<Rightarrow> tab_state" where
  "setLabel i label s =
     (case index_of_tab s i of
        None \<Rightarrow> s
      | Some n \<Rightarrow> if labels s ! n \<noteq> label then s\<lparr>labels := (labels s)[n := label]\<rparr> else s)"

definition setDisabled :: "string \<Rightarrow> string option \<Rightarrow> tab_state \<Rightarrow> tab_state" where
  "setDisabled i reason s =
     (case index_of_tab s i of
        None \<Rightarrow> s
      | Some n \<Rightarrow>
          if disabled s ! n = reason then s
          else let s' = s\<lparr>disabled := (disabled s)[n := reason]\<rparr>
               in if reason \<noteq> None \<and> selected s = Some n
                  then select_tab (first_free (disabled s')) False s' else s')"

definition isSelected :: "string \<Rightarrow> tab_state \<Rightarrow> bool" where
  "isSelected i s \<longleftrightarrow> index_of_tab s i = selected s"

section \<open>The arrow keys\<close>

datatype key = ArrowRight | ArrowLeft | Home | EndKey | OtherKey

definition advance :: "tab_state \<Rightarrow> bool \<Rightarrow> nat \<Rightarrow> nat" where
  "advance s forward i =
     (let n = length (ids s) in (if forward then i + 1 else i + n - 1) mod n)"

text \<open>The \<open>do\<close> loop, with fuel: \<open>None\<close> would be a loop that has not ended.\<close>

fun step_loop :: "tab_state \<Rightarrow> bool \<Rightarrow> nat \<Rightarrow> nat \<Rightarrow> nat \<Rightarrow> nat option" where
  "step_loop s forward start 0 i = None"
| "step_loop s forward start (Suc fuel) i =
     (let nxt = advance s forward i
      in if blocked s nxt \<and> nxt \<noteq> start then step_loop s forward start fuel nxt else Some nxt)"

definition step_tab :: "tab_state \<Rightarrow> bool \<Rightarrow> nat \<Rightarrow> nat option" where
  "step_tab s forward start = step_loop s forward start (length (ids s)) start"

definition free_tabs :: "tab_state \<Rightarrow> nat list" where
  "free_tabs s = filter (\<lambda>i. \<not> blocked s i) [0..<length (ids s)]"

definition key_target :: "tab_state \<Rightarrow> nat \<Rightarrow> key \<Rightarrow> nat option" where
  "key_target s i k =
     (case k of
        ArrowRight \<Rightarrow> step_tab s True i
      | ArrowLeft \<Rightarrow> step_tab s False i
      | Home \<Rightarrow> at (free_tabs s) 0
      | EndKey \<Rightarrow> last_of (free_tabs s)
      | OtherKey \<Rightarrow> None)"

definition on_key :: "nat \<Rightarrow> key \<Rightarrow> tab_state \<Rightarrow> tab_state" where
  "on_key i k s = (case key_target s i k of None \<Rightarrow> s | Some n \<Rightarrow> select_tab (Some n) True s)"

section \<open>The strip as a machine\<close>

datatype tab_event =
    Click nat
  | KeyDown nat key
  | SetLabel string string
  | SetDisabled string "string option"

fun tab_step :: "tab_event \<Rightarrow> tab_state \<Rightarrow> tab_state" where
  "tab_step (Click i) s = (if i < length (ids s) then select_tab (Some i) False s else s)"
| "tab_step (KeyDown i k) s = (if i < length (ids s) then on_key i k s else s)"
| "tab_step (SetLabel i l) s = setLabel i l s"
| "tab_step (SetDisabled i r) s = setDisabled i r s"

definition view_for :: "nat option \<Rightarrow> nat \<Rightarrow> tab_view" where
  "view_for sel i =
     \<lparr>tv_selected = (sel = Some i), tv_index = (if sel = Some i then 0 else - 1), tv_hidden = (sel \<noteq> Some i)\<rparr>"

definition tabs_good :: "tab_state \<Rightarrow> bool" where
  "tabs_good s \<longleftrightarrow>
     0 < length (ids s)
     \<and> length (disabled s) = length (ids s) \<and> length (labels s) = length (ids s)
     \<and> (\<forall>i. selected s = Some i \<longrightarrow> i < length (ids s) \<and> disabled s ! i = None)
     \<and> views s = map (view_for (selected s)) [0..<length (ids s)]"

lemma advance_less: "0 < length (ids s) \<Longrightarrow> advance s f i < length (ids s)"
  by (simp add: advance_def Let_def)

lemma step_loop_less:
  "0 < length (ids s) \<Longrightarrow> step_loop s f start fuel i = Some n \<Longrightarrow> n < length (ids s)"
  by (induction s f start fuel i rule: step_loop.induct)
    (auto simp: Let_def advance_less split: if_splits)

lemma blocked_iff: "length (disabled s) = length (ids s) \<Longrightarrow> i < length (ids s) \<Longrightarrow>
   blocked s i \<longleftrightarrow> disabled s ! i \<noteq> None"
  by (simp add: blocked_def at_def split: option.split)

lemma select_good:
  assumes "0 < length (ids s)" "length (disabled s) = length (ids s)" "length (labels s) = length (ids s)"
    and "views s = map (view_for (selected s)) [0..<length (ids s)]"
    and "(\<forall>i. nxt = Some i \<longrightarrow> i < length (ids s)) \<and>
         ((\<exists>i. nxt = Some i \<and> blocked s i) \<longrightarrow> tabs_good s)"
  shows "tabs_good (select_tab nxt b s)"
proof (cases "case nxt of None \<Rightarrow> False | Some i \<Rightarrow> blocked s i")
  case True
  with assms(5) show ?thesis by (auto simp: select_tab_def split: option.splits)
next
  case False
  have "map (\<lambda>i. let chosen = (nxt = Some i) in
      \<lparr>tv_selected = chosen, tv_index = (if chosen then 0 else - 1), tv_hidden = \<not> chosen\<rparr>)
      [0..<length (ids s)] = map (view_for nxt) [0..<length (ids s)]"
    by (simp add: view_for_def Let_def)
  moreover have "i < length (ids s) \<and> disabled s ! i = None" if "nxt = Some i" for i
    using that False assms(2,5) blocked_iff [of s i] by auto
  ultimately show ?thesis
    using False assms(1-3) by (auto simp: select_tab_def tabs_good_def)
qed

lemma first_free_Some: "first_free ds = Some i \<Longrightarrow> i < length ds \<and> ds ! i = None"
  using find_index_Some [of "\<lambda>d. d = None" ds i] by (simp add: first_free_def)

lemma index_of_tab_less: "index_of_tab s i = Some n \<Longrightarrow> n < length (ids s)"
  using find_index_Some [of "\<lambda>x. x = i" "ids s" n] by (simp add: index_of_tab_def)

lemma key_target_less:
  assumes "0 < length (ids s)" and "key_target s i k = Some n"
  shows "n < length (ids s)"
proof -
  have free: "x < length (ids s)" if "x \<in> set (free_tabs s)" for x
    using that by (simp add: free_tabs_def)
  show ?thesis
  proof (cases k)
    case Home
    with assms(2) have "free_tabs s ! 0 = n" "0 < length (free_tabs s)" by (simp_all add: key_target_def)
    then have "n \<in> set (free_tabs s)" using nth_mem by metis
    then show ?thesis by (rule free)
  next
    case EndKey
    with assms(2) show ?thesis by (auto simp: key_target_def intro: free last_of_in)
  qed (use assms in \<open>auto simp: key_target_def step_tab_def intro: step_loop_less [OF assms(1)]\<close>)
qed

interpretation strip: event_machine tab_step tabs_good
proof
  fix s e
  assume g: "tabs_good s"
  then have len: "0 < length (ids s)" "length (disabled s) = length (ids s)" "length (labels s) = length (ids s)"
    and v: "views s = map (view_for (selected s)) [0..<length (ids s)]"
    by (auto simp: tabs_good_def)
  show "tabs_good (tab_step e s)"
  proof (cases e)
    case (Click i)
    with g len v show ?thesis by (auto intro!: select_good)
  next
    case (KeyDown i k)
    with g len v show ?thesis
      by (auto simp: on_key_def split: option.split intro!: select_good
          dest: key_target_less [OF len(1)])
  next
    case (SetLabel i l)
    with g show ?thesis by (auto simp: setLabel_def tabs_good_def split: option.split)
  next
    case (SetDisabled i r)
    show ?thesis
    proof (cases "index_of_tab s i")
      case None
      with SetDisabled g show ?thesis by (simp add: setDisabled_def)
    next
      case (Some n)
      let ?s = "s\<lparr>disabled := (disabled s)[n := r]\<rparr>"
      have free: "\<not> blocked ?s m \<and> m < length (ids s)" if "first_free (disabled ?s) = Some m" for m
        using first_free_Some [OF that] len by (auto simp: blocked_def at_def)
      have "tabs_good (select_tab (first_free (disabled ?s)) False ?s)"
        using len v free by (intro select_good) auto
      with Some SetDisabled g index_of_tab_less [OF Some] show ?thesis
        by (auto simp: setDisabled_def Let_def tabs_good_def nth_list_update)
    qed
  qed
qed

lemma tabControls_good:
  assumes "specs \<noteq> []"
  shows "tabs_good (tabControls specs initial)"
proof -
  define start where "start = (case initial of Some i \<Rightarrow> if i < length specs then i else 0 | None \<Rightarrow> 0)"
  define s0 where "s0 = \<lparr>ids = map tb_id specs, labels = map tb_label specs, disabled = map tb_disabled specs,
      selected = Some start, views = [], focused_tab = None\<rparr>"
  define cur where "cur = (if blocked s0 start then first_free (disabled s0) else Some start)"
  have start: "start < length specs" using assms by (auto simp: start_def split: option.split)
  have cur: "i < length specs \<and> disabled s0 ! i = None" if "cur = Some i" for i
    using that start first_free_Some [of "disabled s0" i] blocked_iff [of s0 start]
    by (auto simp: cur_def s0_def split: if_splits)
  then have nb: "\<not> (case cur of None \<Rightarrow> False | Some i \<Rightarrow> blocked (s0\<lparr>selected := cur\<rparr>) i)"
    by (auto simp: blocked_def at_def split: option.split)
  have eq: "tabControls specs initial = select_tab cur False (s0\<lparr>selected := cur\<rparr>)"
    by (simp only: tabControls_def Let_def start_def s0_def cur_def)
  show ?thesis
    unfolding eq select_tab_def if_not_P [OF nb] using cur assms
    by (auto simp: tabs_good_def view_for_def Let_def s0_def)
qed

text \<open>
  Whatever is clicked, pressed or made unavailable, the tab that is showing can be chosen, its
  panel is the only one that is not hidden, and it is the only stop the strip has in the tab
  order.
\<close>

theorem showing_tab_available:
  assumes "specs \<noteq> []"
  shows "(case selected (fold tab_step es (tabControls specs initial)) of
       None \<Rightarrow> True
     | Some i \<Rightarrow> disabled (fold tab_step es (tabControls specs initial)) ! i = None)
   \<and> views (fold tab_step es (tabControls specs initial))
       = map (view_for (selected (fold tab_step es (tabControls specs initial))))
           [0..<length (ids (fold tab_step es (tabControls specs initial)))]"
  using strip.good_run [OF tabControls_good [OF assms], of es]
  by (auto simp: tabs_good_def split: option.split)

theorem showing_tab_available_witness:
  "case selected (fold tab_step [KeyDown 0 ArrowRight, SetDisabled ''c'' (Some ''no'')]
      (tabControls [\<lparr>tb_id = ''a'', tb_label = ''A'', tb_disabled = None\<rparr>,
                    \<lparr>tb_id = ''c'', tb_label = ''C'', tb_disabled = None\<rparr>] None)) of
     None \<Rightarrow> True
   | Some i \<Rightarrow> disabled (fold tab_step [KeyDown 0 ArrowRight, SetDisabled ''c'' (Some ''no'')]
      (tabControls [\<lparr>tb_id = ''a'', tb_label = ''A'', tb_disabled = None\<rparr>,
                    \<lparr>tb_id = ''c'', tb_label = ''C'', tb_disabled = None\<rparr>] None)) ! i = None"
  using showing_tab_available [of "[\<lparr>tb_id = ''a'', tb_label = ''A'', tb_disabled = None\<rparr>,
      \<lparr>tb_id = ''c'', tb_label = ''C'', tb_disabled = None\<rparr>]"] by blast

subsection \<open>The arrow keys find the next tab\<close>

lemma advance_funpow:
  assumes "i < length (ids s)"
  shows "(advance s True ^^ k) i = (i + k) mod length (ids s)"
    and "(advance s False ^^ k) i = (i + k * (length (ids s) - 1)) mod length (ids s)"
proof -
  let ?n = "length (ids s)"
  have n: "0 < ?n" using assms by linarith
  show "(advance s True ^^ k) i = (i + k) mod ?n"
    using assms by (induction k) (simp_all add: advance_def Let_def mod_Suc_eq)
  show "(advance s False ^^ k) i = (i + k * (?n - 1)) mod ?n"
  proof (induction k)
    case (Suc k)
    have "(advance s False ^^ Suc k) i = ((i + k * (?n - 1)) mod ?n + (?n - 1)) mod ?n"
    proof -
      have one: "advance s False x = (x + (?n - 1)) mod ?n" for x
      proof -
        have "x + ?n - 1 = x + (?n - 1)" using n by linarith
        then show ?thesis by (simp only: advance_def Let_def if_False)
      qed
      have "(advance s False ^^ Suc k) i = advance s False ((advance s False ^^ k) i)" by simp
      then show ?thesis by (simp only: Suc one)
    qed
    also have "\<dots> = (i + Suc k * (?n - 1)) mod ?n"
      by (simp only: mod_add_left_eq mult_Suc add.assoc add.commute [of "?n - 1" "k * (?n - 1)"])
    finally show ?case .
  qed (use assms in simp)
qed

lemma advance_returns:
  assumes "i < length (ids s)"
  shows "(advance s f ^^ length (ids s)) i = i"
  using assms advance_funpow [OF assms, of "length (ids s)"] by (cases f) simp_all

lemma step_loop_search:
  assumes "(advance s f ^^ m) i = start" and "0 < m" and "m \<le> fuel"
  shows "\<exists>j. 0 < j \<and> j \<le> m \<and> step_loop s f start fuel i = Some ((advance s f ^^ j) i)
     \<and> (\<not> blocked s ((advance s f ^^ j) i) \<or> (advance s f ^^ j) i = start)
     \<and> (\<forall>k. 0 < k \<and> k < j \<longrightarrow> blocked s ((advance s f ^^ k) i))"
  using assms
proof (induction fuel arbitrary: i m)
  case (Suc fuel)
  let ?nxt = "advance s f i"
  show ?case
  proof (cases "blocked s ?nxt \<and> ?nxt \<noteq> start")
    case True
    from Suc.prems(1,2) obtain m' where m: "m = Suc m'" "(advance s f ^^ m') ?nxt = start"
      by (cases m) (auto simp: funpow_swap1)
    with True have "0 < m'" by (cases m') auto
    from Suc.IH [OF m(2) this] Suc.prems(3) m(1)
    obtain j where j: "0 < j" "j \<le> m'" "step_loop s f start fuel ?nxt = Some ((advance s f ^^ j) ?nxt)"
      "\<not> blocked s ((advance s f ^^ j) ?nxt) \<or> (advance s f ^^ j) ?nxt = start"
      "\<forall>k. 0 < k \<and> k < j \<longrightarrow> blocked s ((advance s f ^^ k) ?nxt)" by auto
    have "blocked s ((advance s f ^^ k) i)" if "0 < k" "k < Suc j" for k
      using that j(5) True by (cases k; cases "k - 1") (auto simp: funpow_swap1)
    with j m(1) True show ?thesis
      by (intro exI [of _ "Suc j"]) (auto simp: Let_def funpow_swap1)
  next
    case False
    with Suc.prems(2) show ?thesis
      by (intro exI [of _ 1]) (auto simp: Let_def)
  qed
qed simp


definition sample_strip :: tab_state where
  "sample_strip = tabControls
     [\<lparr>tb_id = ''a'', tb_label = ''A'', tb_disabled = None\<rparr>,
      \<lparr>tb_id = ''b'', tb_label = ''B'', tb_disabled = Some ''no''\<rparr>,
      \<lparr>tb_id = ''c'', tb_label = ''C'', tb_disabled = None\<rparr>] None"


end
