(* ===== verification/Events.thy ===== *)
theory Events
  imports Effects Uri
begin

text \<open>
  The live update stream of one order (\<open>src/events.ts\<close>): one connection at a time, which the
  browser reopens after a drop and this module replaces after it has given up. The machine's
  events are what the browser's \<open>EventSource\<close> and the timer can do, and the page closing the
  stream; its output is the calls of the page's handlers.
\<close>

definition ORDER_EVENTS :: "string list" where
  "ORDER_EVENTS =
     [''item.created'', ''item.updated'', ''item.deleted'', ''order.item_count'',
      ''order.updated'', ''order.deleted'', ''order.expired'', ''order.message'']"

definition stream_url :: "string \<Rightarrow> string" where
  "stream_url orderID = ''/api/v1/orders/'' @ encodeURIComponent orderID @ ''/events''"

text \<open>The ready states of an \<open>EventSource\<close>.\<close>

datatype ready = Connecting | Open | Closed

datatype handler_call = OnEvent string json | OnReconnect

record stream =
  source :: "ready option"
  closed :: bool
  everOpened :: bool
  timer :: bool
  connections :: "string list"
  opens :: nat
  calls :: "handler_call list"

definition connect :: "string \<Rightarrow> stream \<Rightarrow> stream" where
  "connect url s = s\<lparr>source := Some Connecting, connections := connections s @ [url]\<rparr>"

definition subscribeToOrder :: "string \<Rightarrow> stream" where
  "subscribeToOrder orderID =
     connect (stream_url orderID)
       \<lparr>source = None, closed = False, everOpened = False, timer = False, connections = [],
        opens = 0, calls = []\<rparr>"

definition retry :: "stream \<Rightarrow> stream" where
  "retry s = (if closed s \<or> timer s then s else s\<lparr>timer := True\<rparr>)"

text \<open>The listeners of the current source.\<close>

definition on_open :: "stream \<Rightarrow> stream" where
  "on_open s =
     s\<lparr>source := Some Open,
       calls := (if everOpened s then calls s @ [OnReconnect] else calls s),
       everOpened := True, opens := opens s + 1\<rparr>"

definition dispatch :: "string \<Rightarrow> json option \<Rightarrow> stream \<Rightarrow> stream" where
  "dispatch name payload s =
     s\<lparr>calls := calls s @ [OnEvent name (case payload of None \<Rightarrow> JNull | Some j \<Rightarrow> j)]\<rparr>"

definition on_error :: "stream \<Rightarrow> stream" where
  "on_error s =
     (if closed s \<or> source s = None then s
      else if source s = Some Closed then retry (s\<lparr>source := None\<rparr>)
      else s)"

definition on_timer :: "string \<Rightarrow> stream \<Rightarrow> stream" where
  "on_timer url s =
     (let s' = s\<lparr>timer := False\<rparr> in if \<not> closed s' then connect url s' else s')"

definition close_stream :: "stream \<Rightarrow> stream" where
  "close_stream s = s\<lparr>closed := True, timer := False, source := None\<rparr>"

definition connected :: "stream \<Rightarrow> bool" where
  "connected s \<longleftrightarrow> source s = Some Open"

lemma connecting_if: "r \<noteq> Closed \<Longrightarrow> r \<noteq> Open \<Longrightarrow> r = Connecting"
  by (cases r) auto

text \<open>
  What the browser does: it opens a connection, drops it and tries again, gives it up, delivers a
  message of an open connection, or lets the timer run out.
\<close>

datatype stream_event =
    Opens
  | Drops
  | GivesUp
  | Message string "json option"
  | TimerFires
  | PageCloses

fun stream_step :: "string \<Rightarrow> stream_event \<Rightarrow> stream \<Rightarrow> stream" where
  "stream_step url Opens s = (if source s = Some Connecting then on_open s else s)"
| "stream_step url Drops s =
     (if source s = Some Open then on_error (s\<lparr>source := Some Connecting\<rparr>) else s)"
| "stream_step url GivesUp s =
     (if source s \<in> {Some Connecting, Some Open} then on_error (s\<lparr>source := Some Closed\<rparr>) else s)"
| "stream_step url (Message name payload) s =
     (if source s = Some Open \<and> name \<in> set ORDER_EVENTS then dispatch name payload s else s)"
| "stream_step url TimerFires s = (if timer s then on_timer url s else s)"
| "stream_step url PageCloses s = close_stream s"

section \<open>Four phases\<close>

text \<open>
  The flags of the module encode four phases: it is connecting, listening, pausing before it
  connects again, or over.
\<close>

datatype phase = Trying | Listening | Pausing | Over

definition phase_of :: "stream \<Rightarrow> phase" where
  "phase_of s =
     (if closed s then Over else if timer s then Pausing
      else if source s = Some Open then Listening else Trying)"

fun phase_step :: "stream_event \<Rightarrow> phase \<Rightarrow> phase" where
  "phase_step PageCloses p = Over"
| "phase_step Opens Trying = Listening"
| "phase_step Drops Listening = Trying"
| "phase_step GivesUp Trying = Pausing"
| "phase_step GivesUp Listening = Pausing"
| "phase_step TimerFires Pausing = Trying"
| "phase_step e p = p"

definition stream_good :: "stream \<Rightarrow> bool" where
  "stream_good s \<longleftrightarrow>
     (if closed s then source s = None \<and> \<not> timer s else timer s = (source s = None))
     \<and> source s \<noteq> Some Closed
     \<and> (source s = Some Open \<longrightarrow> everOpened s)
     \<and> everOpened s = (0 < opens s)
     \<and> length (filter (\<lambda>c. c = OnReconnect) (calls s)) = opens s - 1"

lemmas stream_defs = on_open_def on_error_def on_timer_def dispatch_def close_stream_def
  connect_def retry_def Let_def

interpretation live: event_machine "stream_step url" stream_good
proof
  show "stream_good (stream_step url e s)" if "stream_good s" for e s
    using that by (cases e) (auto simp: stream_good_def stream_defs)
qed

interpretation live_phases: refined_machine "stream_step url" stream_good phase_of phase_step
proof
  fix s e
  assume g: "stream_good s"
  show "phase_of (stream_step url e s) = phase_step e (phase_of s)"
  proof (cases "closed s")
    case True
    with g show ?thesis by (cases e) (auto simp: stream_good_def stream_defs phase_of_def)
  next
    case False
    with g show ?thesis
      by (cases e) (auto simp: stream_good_def stream_defs phase_of_def intro: connecting_if)
  qed
qed

definition run_stream :: "string \<Rightarrow> stream_event list \<Rightarrow> stream" where
  "run_stream orderID es = fold (stream_step (stream_url orderID)) es (subscribeToOrder orderID)"

lemma subscribe_good: "stream_good (subscribeToOrder orderID)"
  by (simp add: subscribeToOrder_def stream_good_def connect_def)

lemma run_stream_good: "stream_good (run_stream orderID es)"
  unfolding run_stream_def by (rule live.good_run) (rule subscribe_good)

text \<open>
  C4: a stream that has not been closed is never lost: at every moment it is connecting,
  connected or waiting to connect again, never two of these, exactly as the four-phase machine
  says; and every opening but the first, and only those, tells the page to fetch again.
\<close>

theorem stream_never_lost:
  "phase_of (run_stream orderID es) = fold phase_step es Trying
   \<and> connected (run_stream orderID es) = (fold phase_step es Trying = Listening)
   \<and> timer (run_stream orderID es) = (fold phase_step es Trying = Pausing)
   \<and> (source (run_stream orderID es) = None) = (fold phase_step es Trying \<in> {Pausing, Over})
   \<and> length (filter (\<lambda>c. c = OnReconnect) (calls (run_stream orderID es)))
       = opens (run_stream orderID es) - 1"
proof -
  have p: "phase_of (run_stream orderID es) = fold phase_step es Trying"
    using live_phases.run_simulates [OF subscribe_good, of "stream_url orderID" es orderID]
    by (simp add: run_stream_def phase_of_def subscribeToOrder_def connect_def)
  show ?thesis
    using run_stream_good [of orderID es]
    unfolding p [symmetric]
    by (auto simp: stream_good_def phase_of_def connected_def split: if_splits)
qed

lemma over_forever: "fold phase_step es Over = Over"
proof (induction es)
  case (Cons e es)
  then show ?case by (cases e) simp_all
qed simp

lemma closed_silent:
  "closed s \<Longrightarrow> stream_good s \<Longrightarrow> stream_step url e s = s"
  by (cases e) (auto simp: stream_good_def close_stream_def)

text \<open>
  Closing is final and may be repeated: after it no connection, no timer and no call of a
  handler happens, whatever the browser does.
\<close>

theorem closing_is_final:
  "run_stream orderID (es @ [PageCloses] @ later) = run_stream orderID (es @ [PageCloses])
   \<and> source (run_stream orderID (es @ [PageCloses])) = None
   \<and> calls (run_stream orderID (es @ [PageCloses] @ later)) = calls (run_stream orderID es)"
proof -
  let ?s = "run_stream orderID (es @ [PageCloses])"
  have c: "closed ?s" "stream_good ?s"
    using run_stream_good [of orderID "es @ [PageCloses]"]
    by (simp_all add: run_stream_def close_stream_def)
  have "fold (stream_step url) later ?s = ?s" for url
    using c by (induction later) (simp_all add: closed_silent)
  then have "run_stream orderID (es @ [PageCloses] @ later) = ?s"
    by (simp add: run_stream_def)
  then show ?thesis by (simp add: run_stream_def close_stream_def)
qed

end
