(* ===== verification/OrderPage.thy ===== *)
theory OrderPage
  imports OrderChat Tabs Events Catalogs
begin

text \<open>
  The order page (\<open>src/pages/order/index.ts\<close>): it loads the order, lays out the two columns and
  keeps them live. Its state joins the states of its parts: the order, the menu column, the chat,
  the tab strip and the stream; the context is part of it, because the session in it changes when
  somebody logs in or out. What the code starts without waiting for it is taken to end before the
  next event of the page.
\<close>

section \<open>The page and what it draws\<close>

text \<open>A part of the document that is drawn again as a whole.\<close>

record region =
  rg_node :: "order_action node"
  rg_focus :: "focus option"

definition new_region :: "order_action node \<Rightarrow> region" where
  "new_region x = \<lparr>rg_node = x, rg_focus = None\<rparr>"

definition redraw :: "order_action child list \<Rightarrow> region \<Rightarrow> region" where
  "redraw cs r = (case rerender (rg_node r) (rg_focus r) cs of (x, foc) \<Rightarrow> \<lparr>rg_node = x, rg_focus = foc\<rparr>)"

definition put_in :: "order_action child list \<Rightarrow> region \<Rightarrow> region" where
  "put_in cs r = \<lparr>rg_node = replace (rg_node r) cs, rg_focus = None\<rparr>"

record order_page = menu_column +
  op_context :: order_context
  op_heading :: region
  op_left :: region
  op_banner :: region
  op_menu :: region
  op_chat :: chat
  op_tabs :: tab_state
  op_chat_open :: bool
  op_stream :: stream

definition chatLabel :: "order_context \<Rightarrow> order_view \<Rightarrow> chat \<Rightarrow> string" where
  "chatLabel cx v c =
     (if isAuthenticated (app_session (cx_app cx))
      then translate (cx_t cx) ''chat.tab'' [(''count'', PNum (chat_count v c))]
      else translate (cx_t cx) ''chat.tab.plain'' [])"

definition relabel :: "order_page \<Rightarrow> order_page" where
  "relabel l =
     l\<lparr>op_tabs := setLabel ''order-chat'' (chatLabel (op_context l) (os_order l) (op_chat l)) (op_tabs l)\<rparr>"

definition left_cards :: "order_context \<Rightarrow> status \<Rightarrow> order_view \<Rightarrow> order_action child list" where
  "left_cards cx s v =
     [CNode (orderCard cx s v)]
     @ (case detail v of
          Some own \<Rightarrow> [CNode (itemsCard cx v own), CNode (totalsCard cx v own)]
        | None \<Rightarrow> [CNode (anonymousCard cx v)])"

definition banner_of :: "order_context \<Rightarrow> order_view \<Rightarrow> order_action child" where
  "banner_of cx v =
     (if active cx v then CNode (el ''span'' [(''hidden'', ABool True)] [])
      else CNode (el ''p'' [(''class'', AStr ''notice''), (''role'', AStr ''status''),
        (''text'', AStr (translate (cx_t cx) ''order.closed_notice'' []))] []))"

definition renderLeft :: "order_page \<Rightarrow> order_page" where
  "renderLeft l =
     (let cx = op_context l; v = os_order l
      in l\<lparr>op_heading := redraw (heading_controls cx v) (op_heading l),
           op_left := redraw (left_cards cx (ui_status l) v) (op_left l),
           op_banner := put_in [banner_of cx v] (op_banner l)\<rparr>)"

definition renderMenuPanel :: "order_page \<Rightarrow> order_page" where
  "renderMenuPanel l =
     (case renderMenu (op_context l) l (rg_node (op_menu l)) (rg_focus (op_menu l)) of
        (x, foc) \<Rightarrow> l\<lparr>op_menu := \<lparr>rg_node = x, rg_focus = foc\<rparr>\<rparr>)"

text \<open>The part of the page that is the chat, and the label of its tab once it has been read.\<close>

definition in_chat :: "(chat, unit) act \<Rightarrow> (order_page, unit) act" where
  "in_chat = zoom op_chat op_chat_update"

definition chat_reload ::
  "order_server \<Rightarrow> log_layout \<Rightarrow> order_context \<Rightarrow> order_view \<Rightarrow> (order_page, unit) act" where
  "chat_reload srv ly cx v = andthen (in_chat (reload_chat srv ly cx v)) (modify relabel)"

definition renderChatTab :: "order_server \<Rightarrow> log_layout \<Rightarrow> (order_page, unit) act" where
  "renderChatTab srv ly =
     bind (gets (\<lambda>l. (op_context l, os_order l, op_chat_open l)))
       (\<lambda>(cx, v, was_open).
          let reason = chat_unavailable cx v
          in andthen (modify (\<lambda>l. relabel
               (l\<lparr>op_tabs := setDisabled ''order-chat'' reason (op_tabs l), op_chat_open := (reason = None)\<rparr>)))
             (if reason = None \<and> \<not> was_open then chat_reload srv ly cx v else ret ()))"

definition render_order :: "order_server \<Rightarrow> log_layout \<Rightarrow> (order_page, unit) act" where
  "render_order srv ly =
     andthen (modify renderLeft) (andthen (modify renderMenuPanel) (renderChatTab srv ly))"

definition page_refresh :: "order_server \<Rightarrow> log_layout \<Rightarrow> (order_page, unit) act" where
  "page_refresh srv ly = bind (gets op_context) (\<lambda>cx. refresh_order srv cx (render_order srv ly))"

section \<open>What the stream makes the page do\<close>

definition message_count :: "json \<Rightarrow> int option" where
  "message_count data = (case Catalogs.member data ''message_count'' of Some (JNum n) \<Rightarrow> Some n | _ \<Rightarrow> None)"

text \<open>A message put in the live region.\<close>

definition announce :: "string \<Rightarrow> ('l, unit) act" where
  "announce m = emit (Told ''live'' m)"

definition on_message :: "order_server \<Rightarrow> log_layout \<Rightarrow> json \<Rightarrow> (order_page, unit) act" where
  "on_message srv ly data =
     (case message_count data of
        None \<Rightarrow> ret ()
      | Some n \<Rightarrow> bind (gets (\<lambda>l. (op_context l, os_order l)))
          (\<lambda>(cx, v). andthen (in_chat (note_heard n)) (andthen (modify relabel)
             (andthen (in_chat (after_heard srv ly cx v n)) (modify relabel)))))"

definition on_deleted :: "(order_page, unit) act" where
  "on_deleted =
     bind (gets (\<lambda>l. (op_context l, os_order l)))
       (\<lambda>(cx, v).
          let gone = translate (cx_t cx) ''order.deleted'' []
          in andthen (announce gone) (modify (\<lambda>l. l\<lparr>
               op_left := put_in [CNode (section_card (orderTitle (app_intl (cx_app cx)) (language (cx_app cx)) (header_of v))
                   [CNode (el ''p'' [(''text'', AStr gone)] [])])] (op_left l),
               op_stream := close_stream (op_stream l)\<rparr>)))"

definition on_other :: "order_server \<Rightarrow> log_layout \<Rightarrow> string \<Rightarrow> (order_page, unit) act" where
  "on_other srv ly name =
     andthen (page_refresh srv ly)
       (bind (gets op_context)
          (\<lambda>cx. announce (translate (cx_t cx)
             (if name = ''order.expired'' then ''order.closed_notice'' else ''order.live.changed'') [])))"

definition onEvent :: "order_server \<Rightarrow> log_layout \<Rightarrow> string \<Rightarrow> json \<Rightarrow> (order_page, unit) act" where
  "onEvent srv ly name data =
     (if name = ''order.message'' then on_message srv ly data
      else if name = ''order.deleted'' then on_deleted
      else on_other srv ly name)"

text \<open>
  After a reconnect the order and the lines of the chat are asked for together: whether the lines
  may be read is decided by the order as it is before the answer.
\<close>

definition onReconnect :: "order_server \<Rightarrow> log_layout \<Rightarrow> (order_page, unit) act" where
  "onReconnect srv ly =
     bind (gets (\<lambda>l. (op_context l, os_order l)))
       (\<lambda>(cx, v). andthen (page_refresh srv ly) (chat_reload srv ly cx v))"

fun on_call :: "order_server \<Rightarrow> log_layout \<Rightarrow> handler_call \<Rightarrow> (order_page, unit) act" where
  "on_call srv ly (OnEvent name data) = onEvent srv ly name data"
| "on_call srv ly OnReconnect = onReconnect srv ly"

text \<open>The browser moves the stream on, and the page answers the handlers it calls.\<close>

definition from_browser :: "order_server \<Rightarrow> log_layout \<Rightarrow> stream_event \<Rightarrow> (order_page, unit) act" where
  "from_browser srv ly e =
     bind (gets (\<lambda>l. (cx_id (op_context l), op_stream l)))
       (\<lambda>(ident, s).
          let s' = stream_step (stream_url ident) e s
          in andthen (modify (\<lambda>l. l\<lparr>op_stream := s'\<rparr>))
               (foldr (\<lambda>c rest. andthen (on_call srv ly c) rest) (drop (length (calls s)) (calls s')) (ret ())))"

definition session_changed ::
  "order_server \<Rightarrow> log_layout \<Rightarrow> session_user option \<Rightarrow> (order_page, unit) act" where
  "session_changed srv ly who =
     andthen (modify (\<lambda>l.
        let cx = op_context l; a = cx_app cx
        in l\<lparr>op_context := cx\<lparr>cx_app := a\<lparr>app_session := set_user who (app_session a)\<rparr>\<rparr>,
             op_stream := subscribeToOrder (cx_id cx)\<rparr>))
       (page_refresh srv ly)"

section \<open>Opening the page\<close>

definition some_or :: "'a \<Rightarrow> 'a option \<Rightarrow> 'a" where
  "some_or d x = (case x of None \<Rightarrow> d | Some y \<Rightarrow> y)"

definition new_order_page ::
  "log_layout \<Rightarrow> order_context \<Rightarrow> order_view \<Rightarrow> menu_item list \<Rightarrow> category list \<Rightarrow> order_page" where
  "new_order_page ly cx v menu categories =
     (let t = cx_t cx; c = new_chat ly cx; column = el ''div'' [(''class'', AStr ''order-column'')] []
      in \<lparr>ui_status = statusLine, ui_busy = False, os_order = v, os_menu = menu, os_categories = categories,
          mc_filters = no_filters, mc_collapsed = [], mc_open_groups = [], op_context = cx,
          op_heading = new_region (el ''div'' [(''class'', AStr ''page-heading-actions'')] []),
          op_left = new_region column, op_banner = new_region (el ''div'' [] []), op_menu = new_region (el ''div'' [] []),
          op_chat = c,
          op_tabs = tabControls
            [\<lparr>tb_id = ''order-menu'', tb_label = translate t ''menu.items'' [], tb_disabled = None\<rparr>,
             \<lparr>tb_id = ''order-chat'', tb_label = chatLabel cx v c, tb_disabled = chat_unavailable cx v\<rparr>] None,
          op_chat_open = (chat_unavailable cx v = None), op_stream = subscribeToOrder (cx_id cx)\<rparr>)"

text \<open>An action on a state that is made by it.\<close>

definition on_new :: "'p \<Rightarrow> ('p, unit) act \<Rightarrow> ('l, 'p) act" where
  "on_new p m w =
     (case m \<lparr>trace = trace w, local = p\<rparr> of
        (Inl e, v) \<Rightarrow> (Inl e, w\<lparr>trace := trace v\<rparr>)
      | (Inr _, v) \<Rightarrow> (Inr (local v), w\<lparr>trace := trace v\<rparr>))"

definition first_drawing :: "order_server \<Rightarrow> log_layout \<Rightarrow> (order_page, unit) act" where
  "first_drawing srv ly =
     bind (gets (\<lambda>l. (op_context l, os_order l)))
       (\<lambda>(cx, v). andthen (in_chat (reload_chat srv ly cx v)) (andthen (modify renderLeft) (modify renderMenuPanel)))"

text \<open>
  Loading: without the order there is only the page that says why; everything else may fail, and
  the page is drawn without it. The reference tables come from their cache.
\<close>

definition orderPage ::
  "order_server \<Rightarrow> log_layout \<Rightarrow> reference_data option \<Rightarrow> app \<Rightarrow> string
   \<Rightarrow> ('l, (order_action node \<times> string) + order_page) act" where
  "orderPage srv ly reference a ident =
     bind (try_catch (bind (call (sv_order srv) (Call ''GET'' (''/orders/'' @ ident) None)) (\<lambda>v. ret (Inr v)))
             (\<lambda>e. ret (Inl e)))
       (\<lambda>answer. case answer of
          Inl e \<Rightarrow> ret (Inl (failedPage (say_t a ''nav.orders'') (app_t a) e))
        | Inr v \<Rightarrow>
            let order = header_of v; at_restaurant = ''/restaurants/'' @ o_restaurant_id order
            in bind (maybe (sv_restaurant srv) (Call ''GET'' at_restaurant None))
              (\<lambda>restaurant. bind (maybe (sv_categories srv) (Call ''GET'' (at_restaurant @ ''/categories'') None))
              (\<lambda>categories. bind (maybe (sv_menu srv) (Call ''GET'' (menuPath order) None))
              (\<lambda>menu. bind (ret \<lparr>cx_app = a, cx_id = ident, cx_reference = reference, cx_restaurant = restaurant,
                   cx_money = moneyFormatOf (case reference of None \<Rightarrow> [] | Some r \<Rightarrow> ref_currencies r)
                     (o_currency_code order)\<rparr>)
              (\<lambda>cx. bind (on_new (new_order_page ly cx v (some_or [] menu) (some_or [] categories)) (first_drawing srv ly))
              (\<lambda>l. ret (Inr l)))))))"

definition order_layout :: "order_page \<Rightarrow> order_action child \<Rightarrow> order_action node \<times> string" where
  "order_layout l right =
     (let a = cx_app (op_context l)
      in pageWithActions (orderTitle (app_intl a) (language a) (header_of (os_order l))) (rg_node (op_heading l))
           [CNode (rg_node (op_banner l)),
            CNode (el ''div'' [(''class'', AStr ''order-layout'')]
              [CNode (rg_node (op_left l)), CNode (append (el ''div'' [(''class'', AStr ''order-column'')] []) [right])])])"

section \<open>The page as a machine\<close>

text \<open>What can happen to an open page, the dialogs over it apart.\<close>

datatype page_event =
    Browser stream_event
  | SessionIs "session_user option"
  | Pressed nat
  | KeyedTab nat key
  | Take job
  | GiveBack job
  | DeleteTheOrder
  | DeleteTheLine order_item
  | Filter filter_kind string bool
  | AvailableOnly bool
  | NoFilters
  | GroupToggled string bool
  | CategoryToggled string
  | Typed string
  | Post

definition with_order ::
  "(order_context \<Rightarrow> order_view \<Rightarrow> (order_page, unit) act) \<Rightarrow> (order_page, unit) act" where
  "with_order f = bind (gets (\<lambda>l. (op_context l, os_order l))) (\<lambda>(cx, v). f cx v)"

fun page_do ::
  "order_server \<Rightarrow> log_layout \<Rightarrow> (effect list \<Rightarrow> string \<Rightarrow> bool) \<Rightarrow> page_event \<Rightarrow> (order_page, unit) act" where
  "page_do srv ly person (Browser e) = from_browser srv ly e"
| "page_do srv ly person (SessionIs who) = session_changed srv ly who"
| "page_do srv ly person (Pressed i) = modify (op_tabs_update (tab_step (Click i)))"
| "page_do srv ly person (KeyedTab i k) = modify (op_tabs_update (tab_step (KeyDown i k)))"
| "page_do srv ly person (Take j) = with_order (\<lambda>cx v. volunteer srv cx (render_order srv ly) j)"
| "page_do srv ly person (GiveBack j) = with_order (\<lambda>cx v. release srv cx (render_order srv ly) j)"
| "page_do srv ly person DeleteTheOrder = with_order (\<lambda>cx v. remove srv person cx)"
| "page_do srv ly person (DeleteTheLine i) =
     with_order (\<lambda>cx v. removeItem srv person cx (render_order srv ly) i)"
| "page_do srv ly person (Filter k i b) =
     with_order (\<lambda>cx v. modify (\<lambda>l. renderMenuPanel (filter_changed cx k i b l)))"
| "page_do srv ly person (AvailableOnly b) = modify (\<lambda>l. renderMenuPanel (available_only_changed b l))"
| "page_do srv ly person NoFilters = modify (\<lambda>l. renderMenuPanel (clear_filters l))"
| "page_do srv ly person (GroupToggled g b) = modify (group_toggled g b)"
| "page_do srv ly person (CategoryToggled c) = modify (\<lambda>l. renderMenuPanel (category_toggled c l))"
| "page_do srv ly person (Typed txt) = in_chat (modify (\<lambda>c. c\<lparr>ct_field := txt\<rparr>))"
| "page_do srv ly person Post = with_order (\<lambda>cx v. in_chat (post_message srv ly cx v))"

definition page_step ::
  "order_server \<Rightarrow> log_layout \<Rightarrow> (effect list \<Rightarrow> string \<Rightarrow> bool) \<Rightarrow> page_event
   \<Rightarrow> order_page world \<Rightarrow> order_page world" where
  "page_step srv ly person e w = snd (page_do srv ly person e w)"

text \<open>An action that keeps a property of the local state, whatever it does and however it ends.\<close>

definition keeps :: "('l \<Rightarrow> bool) \<Rightarrow> ('l, 'a) act \<Rightarrow> bool" where
  "keeps P m \<longleftrightarrow> (\<forall>w. P (local w) \<longrightarrow> P (local (snd (m w))))"

lemma keepsD: "keeps P m \<Longrightarrow> m w = (r, w') \<Longrightarrow> P (local w) \<Longrightarrow> P (local w')"
  by (metis keeps_def snd_conv)

lemma keeps_local: "keeps P m \<Longrightarrow> P (local w) \<Longrightarrow> P (local (snd (m w)))"
  by (simp add: keeps_def)

lemma keeps_basic [intro, simp]:
  "keeps P (ret x)" "keeps P (raise e)" "keeps P (emit ef)" "keeps P (gets f)" "keeps P (call srv c)"
  "keeps P (ask person q)"
  by (simp_all add: keeps_def act_simps)

lemma keeps_modify [intro]: "(\<And>l. P l \<Longrightarrow> P (g l)) \<Longrightarrow> keeps P (modify g)"
  by (simp add: keeps_def act_simps)

lemma keeps_bind [intro]:
  fixes m :: "('l, 'a) act"
  assumes "keeps P m" and "\<And>x. keeps P (f x)"
  shows "keeps P (bind m f)"
  unfolding keeps_def
proof (intro allI impI)
  fix w :: "'l world"
  assume P: "P (local w)"
  obtain r w' where m: "m w = (r, w')" by (cases "m w")
  show "P (local (snd (bind m f w)))"
  proof (cases r)
    case (Inr x)
    obtain s w'' where f: "f x w' = (s, w'')" by (cases "f x w'")
    from keepsD [OF assms(2) f keepsD [OF assms(1) m P]] m f Inr show ?thesis by (simp add: act_simps)
  qed (use keepsD [OF assms(1) m P] m in \<open>simp add: act_simps\<close>)
qed

lemma keeps_andthen [intro]: "keeps P m \<Longrightarrow> keeps P n \<Longrightarrow> keeps P (andthen m n)"
  by (simp add: andthen_def keeps_bind)

lemma keeps_pair [intro]: "(\<And>x y. keeps P (f x y)) \<Longrightarrow> keeps P (case p of (x, y) \<Rightarrow> f x y)"
  by (cases p) simp

lemma keeps_try_catch [intro]:
  fixes m :: "('l, 'a) act"
  assumes "keeps P m" and "\<And>e. keeps P (h e)"
  shows "keeps P (try_catch m h)"
  unfolding keeps_def
proof (intro allI impI)
  fix w :: "'l world"
  assume P: "P (local w)"
  obtain r w' where m: "m w = (r, w')" by (cases "m w")
  show "P (local (snd (try_catch m h w)))"
  proof (cases r)
    case (Inl e)
    obtain s w'' where h: "h e w' = (s, w'')" by (cases "h e w'")
    from keepsD [OF assms(2) h keepsD [OF assms(1) m P]] m h Inl show ?thesis by (simp add: act_simps)
  qed (use keepsD [OF assms(1) m P] m in \<open>simp add: act_simps\<close>)
qed

lemma keeps_runAction:
  fixes m :: "('x ui_scheme, 'b) act"
  assumes m: "keeps P m" and ui: "\<And>l s b. P (l\<lparr>ui_status := s, ui_busy := b\<rparr>) = P l"
  shows "keeps P (runAction t h m)"
  unfolding keeps_def
proof (intro allI impI)
  fix w :: "'x ui_scheme world"
  assume P: "P (local w)"
  have st: "P (l\<lparr>ui_status := s\<rparr>) = P l" for l :: "'x ui_scheme" and s using ui [where l = l and s = s and b = "ui_busy l"] by simp
  have bu: "P (l\<lparr>ui_busy := b\<rparr>) = P l" for l :: "'x ui_scheme" and b using ui [where l = l and s = "ui_status l" and b = b] by simp
  obtain r w' where r: "m (action_start h w) = (r, w')" by (cases "m (action_start h w)")
  have "P (local (action_start h w))" using P by (simp add: action_start_def Let_def st bu)
  from keepsD [OF m r this] r show "P (local (snd (runAction t h m w)))"
    by (cases r) (simp_all add: runAction_run released_def st bu)
qed

lemma keeps_zoom [intro]:
  fixes part :: "'b \<Rightarrow> 'm"
  assumes "\<And>l f. P (change f l) = P l"
  shows "keeps P (zoom part change m)"
  using assms by (auto simp: keeps_def zoom_def split: prod.splits)

section \<open>What holds of the page at every moment\<close>

text \<open>
  The strip is in order, the menu's tab can always be chosen, the page knows whether the chat's tab
  can, and the stream is in one of its phases.
\<close>

definition two_tabs :: "tab_state \<Rightarrow> bool" where
  "two_tabs s \<longleftrightarrow>
     tabs_good s \<and> selected s \<noteq> None \<and> ids s = [''order-menu'', ''order-chat''] \<and> disabled s ! 0 = None"

definition page_good :: "order_page \<Rightarrow> bool" where
  "page_good l \<longleftrightarrow>
     two_tabs (op_tabs l) \<and> op_chat_open l = (disabled (op_tabs l) ! 1 = None) \<and> stream_good (op_stream l)"

lemma setLabel_parts [simp]:
  "ids (setLabel i t s) = ids s" "disabled (setLabel i t s) = disabled s" "selected (setLabel i t s) = selected s"
  "tabs_good s \<Longrightarrow> tabs_good (setLabel i t s)"
  using strip.good_step [of s "SetLabel i t"] by (auto simp: setLabel_def split: option.split)

lemma select_tab_parts [simp]:
  "ids (select_tab n b s) = ids s" "disabled (select_tab n b s) = disabled s" "labels (select_tab n b s) = labels s"
  by (simp_all add: select_tab_def)

lemma setDisabled_parts [simp]:
  "ids (setDisabled i r s) = ids s" "labels (setDisabled i r s) = labels s"
  "tabs_good s \<Longrightarrow> tabs_good (setDisabled i r s)"
  "disabled (setDisabled i r s) =
     (case index_of_tab s i of None \<Rightarrow> disabled s | Some n \<Rightarrow> (disabled s)[n := r])"
proof -
  have same: "disabled s ! n = r \<Longrightarrow> disabled s = (disabled s)[n := r]" for n r
    by auto
  show "ids (setDisabled i r s) = ids s" "labels (setDisabled i r s) = labels s"
    "tabs_good s \<Longrightarrow> tabs_good (setDisabled i r s)"
    "disabled (setDisabled i r s) =
       (case index_of_tab s i of None \<Rightarrow> disabled s | Some n \<Rightarrow> (disabled s)[n := r])"
    using strip.good_step [of s "SetDisabled i r"]
    by (auto simp: setDisabled_def Let_def intro: same split: option.split)
qed

lemma tabs_good_length: "tabs_good s \<Longrightarrow> length (disabled s) = length (ids s) \<and> length (labels s) = length (ids s)"
  by (simp add: tabs_good_def)

lemma chat_tab_index:
  "ids s = [''order-menu'', ''order-chat''] \<Longrightarrow> index_of_tab s ''order-chat'' = Some 1"
  by (simp add: index_of_tab_def)

lemma on_key_parts [simp]: "ids (on_key i k s) = ids s" "disabled (on_key i k s) = disabled s"
  by (auto simp: on_key_def split: option.split)

lemma two_tabs_length: "two_tabs s \<Longrightarrow> length (disabled s) = 2 \<and> length (labels s) = 2"
  by (auto simp: two_tabs_def dest: tabs_good_length)

lemma two_tabs_disabled: "two_tabs s \<Longrightarrow> disabled (setDisabled ''order-chat'' r s) = [None, r]"
  by (cases "disabled s"; cases "tl (disabled s)")
    (auto simp: two_tabs_def chat_tab_index dest: tabs_good_length)

lemma two_tabs_label [simp]: "two_tabs s \<Longrightarrow> two_tabs (setLabel i t s)"
  by (simp add: two_tabs_def)

lemma two_tabs_setDisabled [simp]:
  assumes "two_tabs s"
  shows "two_tabs (setDisabled ''order-chat'' r s)"
proof -
  have "selected (setDisabled ''order-chat'' r s) \<noteq> None"
    using assms two_tabs_disabled [OF assms, of r]
    by (cases "disabled s")
      (auto simp: two_tabs_def setDisabled_def select_tab_def first_free_def Let_def chat_tab_index
        dest: tabs_good_length split: option.split)
  with assms two_tabs_disabled [OF assms, of r] show ?thesis by (simp add: two_tabs_def)
qed

lemma two_tabs_step [simp]:
  assumes "two_tabs s"
  shows "two_tabs (tab_step (Click i) s)" "two_tabs (tab_step (KeyDown i k) s)"
proof -
  have sel: "selected (select_tab (Some n) b s) \<noteq> None" for n b
    using assms by (simp add: select_tab_def two_tabs_def)
  then have "selected (on_key i k s) \<noteq> None" for i
    using assms by (auto simp: on_key_def two_tabs_def split: option.split)
  with sel show "two_tabs (tab_step (Click i) s)" "two_tabs (tab_step (KeyDown i k) s)"
    using assms strip.good_step [of s "Click i"] strip.good_step [of s "KeyDown i k"]
    by (auto simp: two_tabs_def simp del: not_None_eq)
qed

lemma drawing_parts [simp]:
  "op_tabs (renderLeft l) = op_tabs l" "op_chat_open (renderLeft l) = op_chat_open l"
  "op_stream (renderLeft l) = op_stream l" "op_context (renderLeft l) = op_context l"
  "os_order (renderLeft l) = os_order l" "op_chat (renderLeft l) = op_chat l"
  "op_tabs (renderMenuPanel l) = op_tabs l" "op_chat_open (renderMenuPanel l) = op_chat_open l"
  "op_stream (renderMenuPanel l) = op_stream l" "op_context (renderMenuPanel l) = op_context l"
  "os_order (renderMenuPanel l) = os_order l" "op_chat (renderMenuPanel l) = op_chat l"
  by (simp_all add: renderLeft_def renderMenuPanel_def Let_def split: prod.split)

lemma page_good_ui: "page_good (l\<lparr>ui_status := s, ui_busy := b\<rparr>) = page_good l"
  by (simp add: page_good_def)

lemma keeps_run: "keeps page_good m \<Longrightarrow> keeps page_good (runAction t h m)"
  by (rule keeps_runAction) (auto simp: page_good_ui)

lemma keeps_in_chat [intro, simp]: "keeps page_good (in_chat m)"
  unfolding in_chat_def by (rule keeps_zoom) (simp add: page_good_def)

lemma keeps_relabel [intro, simp]: "keeps page_good (modify relabel)"
  by (rule keeps_modify) (simp add: page_good_def relabel_def)

lemma keeps_chat_reload [intro, simp]: "keeps page_good (chat_reload srv ly cx v)"
  unfolding chat_reload_def by (intro keeps_andthen keeps_in_chat keeps_relabel)

lemma keeps_chat_tab:
  "keeps page_good (modify (\<lambda>l. relabel
     (l\<lparr>op_tabs := setDisabled ''order-chat'' r (op_tabs l), op_chat_open := (r = None)\<rparr>)))"
  by (rule keeps_modify) (auto simp: page_good_def relabel_def two_tabs_disabled simp del: setDisabled_parts)

lemma keeps_drawing: "keeps page_good (modify renderLeft)" "keeps page_good (modify renderMenuPanel)"
  by (auto intro!: keeps_modify simp: page_good_def)

lemma keeps_if: "keeps P m \<Longrightarrow> keeps P n \<Longrightarrow> keeps P (if b then m else n)"
  by simp

lemmas keeps_rules = keeps_andthen keeps_bind keeps_pair keeps_if keeps_basic keeps_in_chat keeps_relabel
  keeps_chat_reload keeps_chat_tab keeps_drawing keeps_run

lemma keeps_render [intro, simp]: "keeps page_good (render_order srv ly)"
  unfolding render_order_def renderChatTab_def Let_def by (intro keeps_rules)

lemma keeps_refresh [intro, simp]: "keeps page_good (refresh_order srv cx (render_order srv' ly))"
  unfolding refresh_order_def
  by (intro keeps_rules keeps_render keeps_modify) (auto simp: page_good_def)

lemma keeps_page_refresh [intro, simp]: "keeps page_good (page_refresh srv ly)"
  unfolding page_refresh_def by (intro keeps_rules keeps_refresh)

lemma closing_good [simp]: "stream_good s \<Longrightarrow> stream_good (close_stream s)"
  using live.good_step [of s undefined PageCloses] by simp

lemma keeps_on_call: "keeps page_good (on_call srv ly c)"
proof (cases c)
  case (OnEvent name data)
  have "keeps page_good (on_message srv ly data)"
    unfolding on_message_def by (cases "message_count data") (auto intro!: keeps_rules)
  moreover have "keeps page_good on_deleted"
    unfolding on_deleted_def announce_def Let_def
    by (intro keeps_rules keeps_modify) (auto simp: page_good_def)
  moreover have "keeps page_good (on_other srv ly name)"
    unfolding on_other_def announce_def by (intro keeps_rules keeps_page_refresh)
  ultimately show ?thesis by (simp add: OnEvent onEvent_def)
next
  case OnReconnect
  then show ?thesis by (auto simp: onReconnect_def intro!: keeps_rules)
qed

lemma keeps_from_browser: "keeps page_good (from_browser srv ly e)"
proof -
  have all: "keeps page_good (foldr (\<lambda>c rest. andthen (on_call srv ly c) rest) cs (ret ()))" for cs
    by (induction cs) (auto intro: keeps_on_call)
  show ?thesis
    unfolding keeps_def
  proof (intro allI impI)
    fix w :: "order_page world"
    assume g: "page_good (local w)"
    let ?s = "stream_step (stream_url (cx_id (op_context (local w)))) e (op_stream (local w))"
    have "page_good (local (w\<lparr>local := (local w)\<lparr>op_stream := ?s\<rparr>\<rparr>))"
      using g by (simp add: page_good_def live.good_step)
    from keeps_local [OF all this] show "page_good (local (snd (from_browser srv ly e w)))"
      by (simp add: from_browser_def act_simps Let_def)
  qed
qed

lemma keeps_tab: "keeps page_good (modify (op_tabs_update (tab_step (Click i))))"
  "keeps page_good (modify (op_tabs_update (tab_step (KeyDown i k))))"
  by (auto intro!: keeps_modify simp: page_good_def simp del: tab_step.simps) (auto split: if_splits)

lemma keeps_page_do: "keeps page_good (page_do srv ly person e)"
proof (cases e)
  case (Browser x)
  then show ?thesis by (simp add: keeps_from_browser)
next
  case (SessionIs who)
  have "stream_good (subscribeToOrder i)" for i by (rule subscribe_good)
  with SessionIs show ?thesis
    by (auto simp: session_changed_def Let_def page_good_def intro!: keeps_rules keeps_page_refresh keeps_modify)
next
  case DeleteTheOrder
  then show ?thesis
    by (auto simp: with_order_def remove_def confirmed_def intro!: keeps_rules)
next
  case (DeleteTheLine i)
  have "keeps page_good (on_status f)" for f
    unfolding on_status_def by (rule keeps_modify) (simp add: page_good_def)
  with DeleteTheLine show ?thesis
    by (auto simp: with_order_def removeItem_def confirmed_def intro!: keeps_rules keeps_try_catch keeps_refresh)
qed (auto simp: with_order_def volunteer_def release_def filter_changed_def available_only_changed_def Let_def
      clear_filters_def group_toggled_def category_toggled_def page_good_def
    intro!: keeps_rules keeps_refresh keeps_tab keeps_modify)

interpretation open_page: event_machine "page_step srv ly person" "\<lambda>w. page_good (local w)"
  by unfold_locales (auto simp: page_step_def intro: keeps_local [OF keeps_page_do])

lemma new_page_good: "page_good (new_order_page ly cx v menu categories)"
proof -
  let ?s = "op_tabs (new_order_page ly cx v menu categories)"
  have "tabs_good ?s" by (simp add: new_order_page_def Let_def tabControls_good)
  moreover have "selected ?s = Some 0" "ids ?s = [''order-menu'', ''order-chat'']"
    "disabled ?s = [None, chat_unavailable cx v]"
    by (simp_all add: new_order_page_def Let_def tabControls_def blocked_def at_def select_tab_def)
  ultimately show ?thesis
    by (simp add: page_good_def two_tabs_def) (simp add: new_order_page_def Let_def subscribe_good)
qed

text \<open>An open page after a while: loaded, and then whatever happened to it.\<close>

definition page_after ::
  "order_server \<Rightarrow> log_layout \<Rightarrow> (effect list \<Rightarrow> string \<Rightarrow> bool) \<Rightarrow> page_event list
   \<Rightarrow> effect list \<Rightarrow> order_page \<Rightarrow> order_page world" where
  "page_after srv ly person es done l =
     fold (page_step srv ly person) es (snd (first_drawing srv ly \<lparr>trace = done, local = l\<rparr>))"

lemma page_after_good: "page_good (local (page_after srv ly person es done (new_order_page ly cx v ms cs)))"
proof -
  have "keeps page_good (first_drawing srv ly)"
    unfolding first_drawing_def by (intro keeps_rules)
  then have "page_good (local (snd (first_drawing srv ly \<lparr>trace = done, local = new_order_page ly cx v ms cs\<rparr>)))"
    by (rule keeps_local) (simp add: new_page_good)
  then show ?thesis
    unfolding page_after_def by (rule open_page.good_run)
qed

text \<open>
  C13: whatever happens to an open order page - what the stream says, logging in and out, jobs,
  deletions, filters, tabs and messages, with the server answering anything - the menu can always
  be reached, the tab that is showing can be chosen, its panel is the only one that is visible,
  so nobody is left in a chat they may not read, and the stream is in exactly one of its phases.
\<close>

theorem page_stays_usable:
  "(let l = local (page_after srv ly person es done (new_order_page ly cx v ms cs)); s = op_tabs l
    in disabled s = [None, disabled s ! 1]
       \<and> op_chat_open l = (disabled s ! 1 = None)
       \<and> (selected s = Some 0 \<or> selected s = Some 1 \<and> disabled s ! 1 = None)
       \<and> views s = [view_for (selected s) 0, view_for (selected s) 1]
       \<and> timer (op_stream l) = (phase_of (op_stream l) = Pausing)
       \<and> connected (op_stream l) = (phase_of (op_stream l) = Listening))"
proof -
  let ?l = "local (page_after srv ly person es done (new_order_page ly cx v ms cs))"
  have g: "page_good ?l" by (rule page_after_good)
  then have t: "two_tabs (op_tabs ?l)" and st: "stream_good (op_stream ?l)" by (simp_all add: page_good_def)
  from t obtain n where n: "selected (op_tabs ?l) = Some n" "n < 2" "disabled (op_tabs ?l) ! n = None"
    by (auto simp: two_tabs_def tabs_good_def)
  have d: "disabled (op_tabs ?l) = [None, disabled (op_tabs ?l) ! 1]"
    using t two_tabs_length [OF t] by (auto simp: two_tabs_def list_eq_iff_nth_eq less_2_cases_iff)
  have sel: "selected (op_tabs ?l) = Some 0 \<or> selected (op_tabs ?l) = Some 1 \<and> disabled (op_tabs ?l) ! 1 = None"
    using n by (auto simp: less_2_cases_iff)
  have v: "views (op_tabs ?l) = [view_for (selected (op_tabs ?l)) 0, view_for (selected (op_tabs ?l)) 1]"
    using t by (simp add: two_tabs_def tabs_good_def)
  have ph: "timer (op_stream ?l) = (phase_of (op_stream ?l) = Pausing)
      \<and> connected (op_stream ?l) = (phase_of (op_stream ?l) = Listening)"
    using st by (auto simp: stream_good_def phase_of_def connected_def split: if_splits)
  show ?thesis using d sel v ph g unfolding Let_def page_good_def by blast
qed

section \<open>A refresh, and what the events ask for\<close>

definition get_order :: "order_context \<Rightarrow> http_call" where
  "get_order cx = Call ''GET'' (''/orders/'' @ cx_id cx) None"

lemma reload_chat_ends:
  "fst (reload_chat srv ly cx v w) = Inr ()"
  "trace (snd (reload_chat srv ly cx v w)) =
     trace w @ (if isParticipant cx v then [Sent (messages_call cx ''GET'' None)] else [])"
  by (auto simp: reload_chat_run Let_def split: sum.split)

definition chat_read :: "order_server \<Rightarrow> log_layout \<Rightarrow> order_context \<Rightarrow> order_view \<Rightarrow> order_page world \<Rightarrow> chat" where
  "chat_read srv ly cx v w = local (snd (reload_chat srv ly cx v \<lparr>trace = trace w, local = op_chat (local w)\<rparr>))"

lemma chat_reload_world:
  "chat_reload srv ly cx v w =
     (Inr (), w\<lparr>trace := trace w @ (if isParticipant cx v then [Sent (messages_call cx ''GET'' None)] else []),
       local := relabel ((local w)\<lparr>op_chat := chat_read srv ly cx v w\<rparr>)\<rparr>)"
  using reload_chat_ends [of srv ly cx v "\<lparr>trace = trace w, local = op_chat (local w)\<rparr>"]
  by (cases "reload_chat srv ly cx v \<lparr>trace = trace w, local = op_chat (local w)\<rparr>")
    (simp add: chat_reload_def in_chat_def zoom_def act_simps chat_read_def)

lemma relabelled: "two_tabs (op_tabs l) \<Longrightarrow>
   labels (op_tabs (relabel l)) ! Suc 0 = chatLabel (op_context l) (os_order l) (op_chat l)"
  using two_tabs_length [of "op_tabs l"]
  by (auto simp: relabel_def setLabel_def chat_tab_index two_tabs_def)

lemma relabel_parts [simp]:
  "op_context (relabel l) = op_context l" "os_order (relabel l) = os_order l" "op_chat (relabel l) = op_chat l"
  "op_chat_open (relabel l) = op_chat_open l" "op_stream (relabel l) = op_stream l"
  "ui_status (relabel l) = ui_status l" "disabled (op_tabs (relabel l)) = disabled (op_tabs l)"
  "two_tabs (op_tabs l) \<Longrightarrow> two_tabs (op_tabs (relabel l))"
  by (simp_all add: relabel_def)

lemma participant_available:
  "(chat_unavailable cx v = None) = (isAuthenticated (app_session (cx_app cx)) \<and> isParticipant cx v)"
  by (simp add: chat_unavailable_def)

lemma participant_authenticated: "isParticipant cx v \<Longrightarrow> isAuthenticated (app_session (cx_app cx))"
  by (auto simp: isParticipant_def participates_def me_authenticated split: option.splits)

lemma renderChatTab_run:
  "renderChatTab srv ly w =
     (let l = local w; cx = op_context l; v = os_order l; reason = chat_unavailable cx v;
          w' = w\<lparr>local := relabel (l\<lparr>op_tabs := setDisabled ''order-chat'' reason (op_tabs l),
                 op_chat_open := (reason = None)\<rparr>)\<rparr>
      in if reason = None \<and> \<not> op_chat_open l then chat_reload srv ly cx v w' else (Inr (), w'))"
  by (simp add: renderChatTab_def act_simps Let_def)

lemma chat_tab_result:
  assumes "two_tabs (op_tabs (local w))"
  shows "let l = local w; cx = op_context l; v = os_order l; out = renderChatTab srv ly w; l' = local (snd out)
    in fst out = Inr ()
       \<and> trace (snd out) = trace w @ (if isParticipant cx v \<and> \<not> op_chat_open l then [Sent (messages_call cx ''GET'' None)] else [])
       \<and> os_order l' = v \<and> op_left l' = op_left l \<and> ui_status l' = ui_status l
       \<and> disabled (op_tabs l') = [None, chat_unavailable cx v] \<and> op_chat_open l' = isParticipant cx v
       \<and> labels (op_tabs l') ! 1 = chatLabel cx v (op_chat l')"
proof -
  have left: "op_left (relabel l) = op_left l" for l by (simp add: relabel_def)
  have status: "ui_status (l\<lparr>op_chat := c\<rparr>) = ui_status l" "ui_status (l\<lparr>op_tabs := s, op_chat_open := b\<rparr>) = ui_status l"
    for l :: order_page and c s b by (cases l; simp)+
  have avail: "(chat_unavailable (op_context (local w)) (os_order (local w)) = None)
      = isParticipant (op_context (local w)) (os_order (local w))"
    using participant_authenticated participant_available by blast
  have d: "disabled (setDisabled ''order-chat'' r (op_tabs (local w))) = [None, r]" for r
    using two_tabs_disabled [OF assms] .
  have "two_tabs (setDisabled ''order-chat'' r (op_tabs (local w)))" for r
    using assms by simp
  with avail show ?thesis
    by (simp add: renderChatTab_run Let_def chat_reload_world left status d relabelled del: setDisabled_parts)
qed

text \<open>
  C9: a refresh asks for the order once; if it cannot be read, the page stays as it is and says
  why. If it can, the left column, the tab of the chat and its label all show the order that was
  answered, and the lines of the chat are asked for exactly when the answer has just made somebody
  a participant.
\<close>

theorem refreshed_page_agrees:
  "(let w = page_after srv ly person es done (new_order_page ly cx0 v0 ms cs); cx = op_context (local w);
        out = page_refresh srv ly w; l = local (snd out)
    in fst out = Inr ()
       \<and> (case sv_order srv (trace w) (get_order cx) of
            Inl e \<Rightarrow> trace (snd out) = trace w @ [Sent (get_order cx)]
                \<and> l = (local w)\<lparr>ui_status := \<lparr>st_text = errorMessage (cx_t cx) e, st_error = True\<rparr>\<rparr>
          | Inr v \<Rightarrow> trace (snd out) = trace w @ Sent (get_order cx)
                  # (if isParticipant cx v \<and> \<not> op_chat_open (local w) then [Sent (messages_call cx ''GET'' None)] else [])
                \<and> os_order l = v \<and> op_left l = redraw (left_cards cx (ui_status l) v) (op_left (local w))
                \<and> disabled (op_tabs l) = [None, chat_unavailable cx v] \<and> op_chat_open l = isParticipant cx v
                \<and> labels (op_tabs l) ! 1 = chatLabel cx v (op_chat l)))"
proof -
  define w where "w = page_after srv ly person es done (new_order_page ly cx0 v0 ms cs)"
  have t: "two_tabs (op_tabs (local w))"
    using page_after_good [of srv ly person es "done" cx0 v0 ms cs] by (simp add: page_good_def w_def)
  let ?cx = "op_context (local w)"
  let ?c = "clear_status (ui_status (local w))"
  show ?thesis
  proof (cases "sv_order srv (trace w) (get_order ?cx)")
    case (Inl e)
    then show ?thesis
      unfolding w_def [symmetric]
      by (simp add: page_refresh_def refresh_order_def act_simps runAction_run action_start_def released_def Let_def
          get_order_def fail_with_def)
  next
    case (Inr v)
    define w' where "w' = w\<lparr>trace := trace w @ [Sent (get_order ?cx)],
        local := renderMenuPanel (renderLeft ((local w)\<lparr>ui_status := ?c, os_order := v\<rparr>))\<rparr>"
    have parts: "op_tabs (local w') = op_tabs (local w)" "op_chat_open (local w') = op_chat_open (local w)"
      "os_order (local w') = v" "op_context (local w') = ?cx" "ui_status (local w') = ?c"
      "op_left (local w') = redraw (left_cards ?cx ?c v) (op_left (local w))"
      "trace w' = trace w @ [Sent (get_order ?cx)]"
      by (simp_all add: w'_def) (simp_all add: renderMenuPanel_def renderLeft_def Let_def split: prod.split)
    obtain u w'' where run: "renderChatTab srv ly w' = (u, w'')" by (cases "renderChatTab srv ly w'")
    have res: "page_refresh srv ly w = (Inr (), w'')" if "u = Inr ()"
      using Inr run that
      by (simp add: page_refresh_def refresh_order_def act_simps runAction_run action_start_def released_def Let_def
          get_order_def render_order_def w'_def)
    from chat_tab_result [of w' srv ly] t run have r: "u = Inr ()"
      "trace w'' = trace w' @ (if isParticipant ?cx v \<and> \<not> op_chat_open (local w)
         then [Sent (messages_call ?cx ''GET'' None)] else [])"
      "os_order (local w'') = v" "op_left (local w'') = op_left (local w')" "ui_status (local w'') = ?c"
      "disabled (op_tabs (local w'')) = [None, chat_unavailable ?cx v]" "op_chat_open (local w'') = isParticipant ?cx v"
      "labels (op_tabs (local w'')) ! Suc 0 = chatLabel ?cx v (op_chat (local w''))"
      by (simp_all add: Let_def parts)
    show ?thesis
      unfolding w_def [symmetric] Let_def res [OF r(1)] Inr by (simp add: r parts)
  qed
qed


end
