(* ===== verification/Summary.thy ===== *)
theory Summary
  imports OrderDetails
begin

text \<open>
  The summary of an order (\<open>src/pages/summary.ts\<close>): what somebody reads down the telephone, who owes
  what, and the text to copy. The summary comes from its own request; the order and the restaurant
  only add to its header and may be missing.
\<close>

section \<open>What the server answers\<close>

record aggregated_line =
  ag_item_name :: string
  ag_external_id :: string
  ag_modifications :: "string list"
  ag_note :: "string option"
  ag_count :: int
  ag_unit_price_cents :: int
  ag_total_cents :: int

record person_item =
  pi_id :: string
  pi_quantity :: int
  pi_item_name :: string
  pi_note :: string
  pi_modifications :: "string list"
  pi_line_total_cents :: int
  pi_paid :: bool

record person_line =
  pl_user_id :: string
  pl_display_name :: string
  pl_items :: "person_item list"
  pl_total_cents :: int
  pl_paid_cents :: int

record order_summary =
  sm_order_id :: string
  sm_title :: string
  sm_restaurant_name :: string
  sm_fulfilment_at :: string
  sm_currency_code :: string
  sm_aggregated :: "aggregated_line list"
  sm_per_person :: "person_line list"
  sm_item_total_cents :: int
  sm_unpaid_total_cents :: int
  sm_paid_total_cents :: int
  sm_delivery_fee_cents :: "int option"
  sm_grand_total_cents :: int
  sm_min_order_value_cents :: "int option"
  sm_below_minimum :: bool
  sm_plain_text :: string

record summary_server =
  ss_summary :: "order_summary server"
  ss_order :: "order_view server"
  ss_restaurant :: "restaurant_detail server"

text \<open>What does not change while the page is open.\<close>

record summary_context =
  sc_app :: app
  sc_id :: string
  sc_order :: "order_view option"
  sc_restaurant :: "restaurant_detail option"
  sc_money :: money_format

datatype summary_action = TickLine string | CopySummary | PrintSummary

definition sc_t :: "summary_context \<Rightarrow> translator" where
  "sc_t sc = app_t (sc_app sc)"

definition summary_title :: "app \<Rightarrow> order_summary \<Rightarrow> string" where
  "summary_title a s =
     sm_restaurant_name s @ '' '' @ em_dash @ '' ''
     @ formatDateTime (app_intl a) (language a) (Stamp (sm_fulfilment_at s))"

definition summary_money :: "summary_context \<Rightarrow> order_summary \<Rightarrow> int \<Rightarrow> string" where
  "summary_money sc s cents =
     formatMoney (app_intl (sc_app sc)) (language (sc_app sc)) cents (sm_currency_code s) (sc_money sc)"

section \<open>The cards\<close>

definition muted :: "string \<Rightarrow> 'a child" where
  "muted txt = CNode (el ''p'' [(''class'', AStr ''muted''), (''text'', AStr txt)] [])"

definition phone_row :: "translator \<Rightarrow> contact list \<Rightarrow> 'a child" where
  "phone_row t contacts =
     (case List.find (\<lambda>c. render_as c = ''tel'') contacts of
        Some c \<Rightarrow> CNode (el ''a'' [(''class'', AStr ''phone''),
            (''href'', AStr (case contactTarget c of Some tg \<Rightarrow> tg_href tg | None \<Rightarrow> ''tel:'' @ contact_value c)),
            (''text'', AStr (contact_value c))] [])
      | None \<Rightarrow> CNode (el ''span'' [(''class'', AStr ''muted''),
            (''text'', AStr (translate t ''restaurant.no_contact'' []))] []))"

definition address_entry :: "contact \<Rightarrow> 'a child" where
  "address_entry c =
     (case contactTarget c of
        Some tg \<Rightarrow> CNode (el ''a'' [(''class'', AStr ''link''), (''href'', AStr (tg_href tg)),
            (''rel'', AStr ''noreferrer''), (''target'', AStr ''_blank''), (''text'', AStr (contact_value c))] [])
      | None \<Rightarrow> CNode (el ''span'' [(''text'', AStr (contact_value c))] []))"

definition header_rows :: "summary_context \<Rightarrow> (string \<times> 'a child) list" where
  "header_rows sc =
     (let a = sc_app sc; t = sc_t sc; i = app_intl a; l = language a;
          contacts = (case sc_restaurant sc of None \<Rightarrow> [] | Some r \<Rightarrow> rd_contacts r);
          addresses = filter (\<lambda>c. render_as c = ''address'') contacts;
          name = (case (sc_restaurant sc, sc_order sc) of
                    (Some r, _) \<Rightarrow> r_name r | (None, Some v) \<Rightarrow> o_restaurant_name (header_of v) | (None, None) \<Rightarrow> [])
      in [(translate t ''restaurant.data'' [], CStr name)]
         @ (case sc_order sc of
              None \<Rightarrow> []
            | Some v \<Rightarrow>
                let order = header_of v
                in [(translate t ''order.fulfilment.type'' [], CStr (fulfilmentLabel t (o_fulfilment order))),
                    (translate t ''order.fulfilment.label'' [], CStr (formatDateTime i l (Stamp (o_fulfilment_at order)))),
                    (translate t ''order.deadline.label'' [],
                       CStr (formatDateTime i l (Stamp (o_deadline_at order)) @ '' '' @ mid_dot @ '' ''
                         @ translate t (if isActive a order then ''order.status.active'' else ''order.status.expired'') []
                         @ '' ('' @ formatRelativeTime i l (Stamp (o_deadline_at order)) (app_now a) @ '')''))])
         @ [(translate t ''contact_type.phone'' [], phone_row t contacts)]
         @ (if addresses \<noteq> []
            then [(translate t ''contact_type.address'' [],
                   CNode (el ''div'' [(''class'', AStr ''summary-addresses'')] (map address_entry addresses)))]
            else []))"

definition headerCard :: "summary_context \<Rightarrow> order_summary \<Rightarrow> 'a node" where
  "headerCard sc s = section_card (summary_title (sc_app sc) s) [CNode (definitionList (header_rows sc) ''definitions'')]"

definition dictation_line :: "(int \<Rightarrow> string) \<Rightarrow> aggregated_line \<Rightarrow> 'a node" where
  "dictation_line money ln =
     (let details =
            (if ag_modifications ln \<noteq> []
             then [CNode (el ''span'' [(''class'', AStr ''muted''),
                     (''text'', AStr (join_with '', '' (ag_modifications ln)))] [])] else [])
            @ (if truthy (ag_note ln)
               then [CNode (el ''span'' [(''class'', AStr ''muted item-note''), (''text'', AStr (the (ag_note ln)))] [])]
               else [])
      in el ''li'' [(''class'', AStr ''dictation-line'')]
        [CNode (el ''span'' [(''class'', AStr ''dictation-count''),
           (''text'', AStr (string_of_int (ag_count ln) @ times_sign))] []),
         CNode (el ''span'' [(''class'', AStr ''dictation-item'')]
           [if ag_external_id ln \<noteq> []
            then CNode (el ''span'' [(''class'', AStr ''menu-number''), (''text'', AStr (ag_external_id ln))] []) else CNull,
            CNode (el ''span'' [(''text'', AStr (ag_item_name ln))] []),
            if details \<noteq> [] then CNode (el ''span'' [(''class'', AStr ''dictation-details'')] details) else CNull]),
         CNode (el ''span'' [(''class'', AStr ''dictation-total''), (''text'', AStr (money (ag_total_cents ln)))] [])])"

definition aggregatedCard :: "summary_context \<Rightarrow> order_summary \<Rightarrow> 'a node" where
  "aggregatedCard sc s =
     (let t = sc_t sc; title = translate t ''summary.what_to_order'' []
      in if sm_aggregated s = [] then section_card title [muted (translate t ''order.empty'' [])]
         else section_card title
           [CNode (el ''ul'' [(''class'', AStr ''plain-list dictation'')]
              (map (\<lambda>ln. CNode (dictation_line (summary_money sc s) ln)) (sm_aggregated s)))])"

definition may_tick :: "summary_context \<Rightarrow> string \<Rightarrow> bool" where
  "may_tick sc userID =
     (let own = (case sc_order sc of None \<Rightarrow> None | Some v \<Rightarrow> detail v)
      in mayTickPaid (sc_app sc) userID (map_option od_creator_id own)
           (case own of None \<Rightarrow> None | Some d \<Rightarrow> od_money_collector_id d))"

definition person_row :: "summary_context \<Rightarrow> order_summary \<Rightarrow> string \<Rightarrow> person_item \<Rightarrow> summary_action node" where
  "person_row sc s userID it =
     el ''li'' [(''class'', AStr ''order-item'')]
       [CNode (el ''span'' [(''class'', AStr ''item-quantity''),
          (''text'', AStr (string_of_int (pi_quantity it) @ times_sign))] []),
        CNode (el ''span'' [(''class'', AStr ''order-item-text'')]
          [CNode (el ''span'' [(''text'', AStr (pi_item_name it))] []),
           if pi_modifications it \<noteq> []
           then CNode (el ''span'' [(''class'', AStr ''muted''),
                  (''text'', AStr ('' '' @ join_with '', '' (pi_modifications it)))] []) else CNull,
           if pi_note it \<noteq> []
           then CNode (el ''span'' [(''class'', AStr ''muted item-note''), (''text'', AStr ('' '' @ pi_note it))] [])
           else CNull]),
        CNode (paidCheckbox (sc_app sc) (pi_id it) (pi_item_name it) (pi_paid it) (may_tick sc userID) (TickLine (pi_id it))),
        CNode (el ''span'' [(''class'', AStr ''menu-price''), (''text'', AStr (summary_money sc s (pi_line_total_cents it)))] [])]"

definition person_block :: "summary_context \<Rightarrow> order_summary \<Rightarrow> person_line \<Rightarrow> summary_action node" where
  "person_block sc s p =
     el ''div'' [(''class'', AStr ''person-group'')]
       [CNode (el ''h3'' [(''class'', AStr ''person-name'')]
          [CStr (pl_display_name p),
           CNode (el ''span'' [(''class'', AStr ''person-amounts'')]
             [if 0 < pl_paid_cents p
              then CNode (el ''span'' [(''class'', AStr ''person-paid''),
                (''text'', AStr (translate (sc_t sc) ''summary.already_paid''
                   [(''amount'', PStr (summary_money sc s (pl_paid_cents p)))]))] [])
              else CNull,
              CNode (el ''span'' [(''class'', AStr ''person-total''),
                (''text'', AStr (summary_money sc s (pl_total_cents p)))] [])])]),
        CNode (el ''ul'' [(''class'', AStr ''plain-list'')] (map (\<lambda>it. CNode (person_row sc s (pl_user_id p) it)) (pl_items p)))]"

definition perPersonCard :: "summary_context \<Rightarrow> order_summary \<Rightarrow> summary_action node" where
  "perPersonCard sc s =
     section_card (translate (sc_t sc) ''summary.who_owes_what'' [])
       (map (\<lambda>p. CNode (person_block sc s p)) (sm_per_person s))"

definition total_row :: "string \<Rightarrow> string \<Rightarrow> (string \<times> 'a attr_value) list \<Rightarrow> 'a child list" where
  "total_row label val cls =
     [CNode (el ''dt'' ((''text'', AStr label) # cls) []), CNode (el ''dd'' ((''text'', AStr val) # cls) [])]"

definition summary_totals :: "summary_context \<Rightarrow> order_summary \<Rightarrow> 'a node" where
  "summary_totals sc s =
     (let t = sc_t sc; money = summary_money sc s;
          rows = total_row (translate t ''order.total_unpaid'' []) (money (sm_unpaid_total_cents s)) []
            @ total_row (translate t ''order.total_paid'' []) (money (sm_paid_total_cents s)) []
            @ (case sm_delivery_fee_cents s of
                 None \<Rightarrow> []
               | Some fee \<Rightarrow> if fee = 0 then [] else total_row (translate t ''order.delivery_fee'' []) (money fee) [])
            @ total_row (translate t ''order.total'' []) (money (sm_grand_total_cents s)) [(''class'', AStr ''grand'')];
          below = translate t ''order.below_minimum'' []
                  @ (case sm_min_order_value_cents s of None \<Rightarrow> [] | Some c \<Rightarrow> '' ('' @ money c @ '')'')
      in section_card (translate t ''order.totals'' [])
           [CNode (append (el ''dl'' [(''class'', AStr ''definitions totals'')] []) rows),
            if sm_below_minimum s
            then CNode (el ''p'' [(''class'', AStr ''notice notice-warning notice-spaced''), (''role'', AStr ''status''),
                   (''text'', AStr below)] []) else CNull])"

section \<open>Copying and printing\<close>

text \<open>The text to select by hand is hidden until copying has failed.\<close>

record toolbar = ui +
  tl_fallback_hidden :: bool
  tl_fallback_text :: string

definition new_toolbar :: "order_summary \<Rightarrow> toolbar" where
  "new_toolbar s =
     \<lparr>ui_status = statusLine, ui_busy = False, tl_fallback_hidden = True, tl_fallback_text = sm_plain_text s\<rparr>"

definition copy_summary ::
  "translator \<Rightarrow> (effect list \<Rightarrow> bool) option \<Rightarrow> order_summary \<Rightarrow> ('x toolbar_scheme, unit) act" where
  "copy_summary t clipboard s =
     bind (copyText clipboard (sm_plain_text s))
       (\<lambda>copied. if copied then on_status (say (translate t ''action.copied'' []))
          else andthen (on_status (fail_with (translate t ''summary.copy_failed'' [])))
                 (modify (\<lambda>l. l\<lparr>tl_fallback_hidden := False\<rparr>)))"

definition toolbar_card :: "summary_context \<Rightarrow> toolbar \<Rightarrow> summary_action node" where
  "toolbar_card sc bar =
     (let t = sc_t sc
      in section_card (translate t ''summary.actions'' [])
           [CNode (actions
              [CNode (button ((plain_button (translate t ''summary.copy'' []))\<lparr>bt_onclick := Some CopySummary\<rparr>)),
               CNode (button ((plain_button (translate t ''summary.print'' []))\<lparr>bt_onclick := Some PrintSummary\<rparr>))]),
            CNode (set_property ''value'' (tl_fallback_text bar)
              (el ''textarea'' [(''class'', AStr ''input''), (''rows'', ANum 12), (''readonly'', ABool True),
                 (''hidden'', ABool (tl_fallback_hidden bar)), (''aria-label'', AStr (translate t ''summary.plain_text'' []))] [])),
            CNode (status_element (ui_status bar))])"

section \<open>The page\<close>

definition get_summary :: "string \<Rightarrow> http_call" where
  "get_summary ident = Call ''GET'' (''/orders/'' @ ident @ ''/summary'') None"

text \<open>What somebody sees who may not read it, and what a failure says.\<close>

definition refused :: "app \<Rightarrow> string \<Rightarrow> js_error \<Rightarrow> summary_action node \<times> string" where
  "refused a ident e =
     (let t = app_t a; title = translate t ''order.summary'' [];
          link = (\<lambda>href txt. CNode (el ''p'' [] [CNode (el ''a''
            [(''class'', AStr ''link''), (''href'', AStr href), (''text'', AStr txt)] [])]))
      in if (case e of ApiFailure x \<Rightarrow> ae_code x = 3004 \<or> isAuthentication x | _ \<Rightarrow> False)
         then page title [CNode (section_card title
            [CNode (el ''p'' [(''text'', AStr (translate t ''summary.participants_only'' []))] []),
             if isAuthenticated (app_session a) then CNull
             else link (loginHref (app_path a)) (translate t ''order.join'' []),
             link (''/orders/'' @ ident) (translate t ''summary.back'' [])])]
         else page title [CNode (el ''p'' [(''class'', AStr ''field-error''), (''text'', AStr (errorMessage t e))] [])])"

text \<open>The header and the list to dictate are drawn once, the amounts whenever they are read again.\<close>

record summary_page = toolbar +
  sp_first :: order_summary
  sp_summary :: order_summary
  sp_people :: "summary_action child list"
  sp_totals :: "summary_action child list"

definition summary_render :: "summary_context \<Rightarrow> summary_page \<Rightarrow> summary_page" where
  "summary_render sc l =
     l\<lparr>sp_people := [CNode (perPersonCard sc (sp_summary l))], sp_totals := [CNode (summary_totals sc (sp_summary l))]\<rparr>"

definition summary_refresh :: "summary_server \<Rightarrow> summary_context \<Rightarrow> (summary_page, unit) act" where
  "summary_refresh srv sc =
     try_catch
       (bind (call (ss_summary srv) (get_summary (sc_id sc)))
          (\<lambda>fresh. modify (\<lambda>l. summary_render sc (l\<lparr>sp_summary := fresh\<rparr>))))
       (\<lambda>_. ret ())"

definition new_summary_page :: "summary_context \<Rightarrow> order_summary \<Rightarrow> summary_page" where
  "new_summary_page sc s =
     summary_render sc (toolbar.extend (new_toolbar s)
       \<lparr>sp_first = s, sp_summary = s, sp_people = [], sp_totals = []\<rparr>)"

definition summary_layout :: "summary_context \<Rightarrow> summary_page \<Rightarrow> summary_action node \<times> string" where
  "summary_layout sc l =
     page (summary_title (sc_app sc) (sp_first l))
       [CNode (headerCard sc (sp_first l)), CNode (aggregatedCard sc (sp_first l)),
        CNode (append (el ''div'' [(''class'', AStr ''person-groups'')] []) (sp_people l)),
        CNode (append (el ''div'' [(''class'', AStr ''totals-holder'')] []) (sp_totals l)),
        CNode (toolbar_card sc (toolbar.truncate l))]"

definition summaryPage ::
  "summary_server \<Rightarrow> reference_data option \<Rightarrow> app \<Rightarrow> string
   \<Rightarrow> ('l, (summary_action node \<times> string) + (summary_context \<times> summary_page)) act" where
  "summaryPage srv reference a ident =
     bind (try_catch (bind (call (ss_summary srv) (get_summary ident)) (\<lambda>s. ret (Inr s))) (\<lambda>e. ret (Inl e)))
       (\<lambda>answer. case answer of
          Inl e \<Rightarrow> ret (Inl (refused a ident e))
        | Inr s \<Rightarrow>
            bind (maybe (ss_order srv) (Call ''GET'' (''/orders/'' @ ident) None))
              (\<lambda>order. bind (case order of
                     None \<Rightarrow> ret None
                   | Some v \<Rightarrow> maybe (ss_restaurant srv) (Call ''GET'' (''/restaurants/'' @ o_restaurant_id (header_of v)) None))
                (\<lambda>restaurant.
                   let sc = \<lparr>sc_app = a, sc_id = ident, sc_order = order, sc_restaurant = restaurant,
                             sc_money = moneyFormatOf (case reference of None \<Rightarrow> [] | Some r \<Rightarrow> ref_currencies r)
                               (sm_currency_code s)\<rparr>
                   in ret (Inr (sc, new_summary_page sc s)))))"

section \<open>What it shows\<close>

lemma no_actions_section [node_simps]:
  "actions_of (section_card title cs) = [] \<longleftrightarrow> (\<forall>c \<in> set cs. child_actions c = [])"
proof -
  have "actions_of (section_card title cs) = [] \<longleftrightarrow> set (actions_of (section_card title cs)) = {}"
    by (simp only: set_empty)
  also have "\<dots> \<longleftrightarrow> (\<forall>c \<in> set cs. child_actions c = [])"
    unfolding section_actions by auto
  finally show ?thesis .
qed

lemma no_actions_page [node_simps]:
  "actions_of (fst (page title cs)) = [] \<longleftrightarrow> (\<forall>c \<in> set cs. child_actions c = [])"
proof -
  have "actions_of (fst (page title cs)) = [] \<longleftrightarrow> set (actions_of (fst (page title cs))) = {}"
    by (simp only: set_empty)
  also have "\<dots> \<longleftrightarrow> (\<forall>c \<in> set cs. child_actions c = [])"
    unfolding page_actions by auto
  finally show ?thesis .
qed

lemma muted_actions [node_simps]: "child_actions (muted txt) = []"
  by (simp add: muted_def node_simps)

lemma phone_row_actions [node_simps]: "child_actions (phone_row t cs) = []"
  by (auto simp: phone_row_def node_simps split: option.split)

lemma address_actions [node_simps]: "child_actions (address_entry c) = []"
  by (auto simp: address_entry_def node_simps split: option.split)

lemma header_card_actions [node_simps]: "set (actions_of (headerCard sc s)) = {}"
proof -
  have "r \<in> set (header_rows sc) \<Longrightarrow> child_actions (snd r) = []" for r :: "string \<times> 'a child"
    by (cases "sc_order sc")
      (auto simp: header_rows_def Let_def node_simps split: if_splits)
  then show ?thesis
    by (auto simp: headerCard_def node_simps)
qed

lemma dictation_actions [node_simps]: "actions_of (dictation_line money ln) = []"
  by (simp add: dictation_line_def Let_def no_actions_el node_simps)

lemma aggregated_actions [node_simps]: "set (actions_of (aggregatedCard sc s)) = {}"
  by (simp add: aggregatedCard_def Let_def node_simps)

lemma summary_row_actions [node_simps]:
  "set (actions_of (person_row sc s u it)) = (if may_tick sc u then {TickLine (pi_id it)} else {})"
  by (simp add: person_row_def node_simps if_distrib [of child_actions] split del: if_split cong: if_cong)

lemma person_block_actions [node_simps]:
  "set (actions_of (person_block sc s p)) = (if may_tick sc (pl_user_id p) then TickLine ` pi_id ` set (pl_items p) else {})"
  by (auto simp add: person_block_def node_simps)

lemma per_person_actions [node_simps]:
  "set (actions_of (perPersonCard sc s)) =
     (\<Union>p \<in> set (sm_per_person s). if may_tick sc (pl_user_id p) then TickLine ` pi_id ` set (pl_items p) else {})"
  by (simp add: perPersonCard_def section_actions person_block_actions)

lemma total_row_actions:
  "c \<in> set (total_row label val cls) \<Longrightarrow> (\<And>nv. nv \<in> set cls \<Longrightarrow> attribute_actions nv = []) \<Longrightarrow> child_actions c = []"
  by (auto simp: total_row_def node_simps)

lemma totals_list_actions:
  "(\<And>c. c \<in> set cs \<Longrightarrow> child_actions c = []) \<Longrightarrow>
   actions_of (append (el ''dl'' [(''class'', AStr cls)] []) cs) = []"
  using set_actions_append [of "el ''dl'' [(''class'', AStr cls)] []" cs] by (auto simp: node_simps simp flip: set_empty)

lemma summary_totals_actions [node_simps]: "actions_of (summary_totals sc s) = []"
  unfolding summary_totals_def Let_def no_actions_section
  by (auto intro!: totals_list_actions simp: node_simps dest!: total_row_actions split: option.splits if_splits)

lemma toolbar_actions [node_simps]: "set (actions_of (toolbar_card sc bar)) = {CopySummary, PrintSummary}"
  by (auto simp: toolbar_card_def Let_def node_simps)

lemma toolbar_page_actions: "set (actions_of (fst (summary_layout sc l))) =
   (\<Union>c \<in> set (sp_people l). set (child_actions c)) \<union> (\<Union>c \<in> set (sp_totals l). set (child_actions c))
   \<union> {CopySummary, PrintSummary}"
  by (auto simp: summary_layout_def node_simps set_actions_append)

text \<open>What can happen to the page: it is read again, or its text is copied.\<close>

datatype summary_event = ReadAgain | PressCopy

fun summary_step ::
  "summary_server \<Rightarrow> summary_context \<Rightarrow> (effect list \<Rightarrow> bool) option \<Rightarrow> summary_event
   \<Rightarrow> summary_page world \<Rightarrow> summary_page world" where
  "summary_step srv sc clipboard ReadAgain w = snd (summary_refresh srv sc w)"
| "summary_step srv sc clipboard PressCopy w = snd (copy_summary (sc_t sc) clipboard (sp_first (local w)) w)"

definition summary_good :: "summary_context \<Rightarrow> order_summary \<Rightarrow> summary_page \<Rightarrow> bool" where
  "summary_good sc s l \<longleftrightarrow> sp_first l = s \<and> tl_fallback_text l = sm_plain_text s
     \<and> sp_people l = [CNode (perPersonCard sc (sp_summary l))] \<and> sp_totals l = [CNode (summary_totals sc (sp_summary l))]"

lemma summary_refresh_run:
  "summary_refresh srv sc w =
     (Inr (), case ss_summary srv (trace w) (get_summary (sc_id sc)) of
        Inl e \<Rightarrow> w\<lparr>trace := trace w @ [Sent (get_summary (sc_id sc))]\<rparr>
      | Inr fresh \<Rightarrow> w\<lparr>trace := trace w @ [Sent (get_summary (sc_id sc))],
           local := summary_render sc ((local w)\<lparr>sp_summary := fresh\<rparr>)\<rparr>)"
  by (cases "ss_summary srv (trace w) (get_summary (sc_id sc))") (simp_all add: summary_refresh_def act_simps)

lemma copy_summary_run:
  "copy_summary t clipboard s w =
     (if \<exists>writes. clipboard = Some writes \<and> writes (trace w)
      then (Inr (), w\<lparr>trace := trace w @ [Copied (sm_plain_text s)],
                local := (local w)\<lparr>ui_status := say (translate t ''action.copied'' []) (ui_status (local w))\<rparr>\<rparr>)
      else (Inr (), w\<lparr>local := (local w)\<lparr>ui_status := fail_with (translate t ''summary.copy_failed'' []) (ui_status (local w)),
                tl_fallback_hidden := False\<rparr>\<rparr>))"
  by (cases clipboard) (simp_all add: copy_summary_def copyText_def on_status_def act_simps)

interpretation summary_page: event_machine "summary_step srv sc clipboard" "\<lambda>w. summary_good sc s (local w)"
proof
  fix w :: "summary_page world" and e
  assume "summary_good sc s (local w)"
  then show "summary_good sc s (local (summary_step srv sc clipboard e w))"
    by (cases e) (auto simp: summary_refresh_run copy_summary_run summary_good_def summary_render_def split: sum.split)
qed

text \<open>
  The summary page always shows the amounts of the last summary it could read, and offers its
  ticks to exactly those who may settle each person's lines; reading it again and failing changes
  nothing; copying either puts the server's own text on the clipboard or shows that same text to
  be copied by hand, and says which.
\<close>

theorem summary_stays_readable:
  "(let w = fold (summary_step srv sc clipboard) es \<lparr>trace = done, local = new_summary_page sc s\<rparr>; l = local w;
        again = summary_step srv sc clipboard ReadAgain w; copied = summary_step srv sc clipboard PressCopy w
    in set (actions_of (fst (summary_layout sc l))) = {CopySummary, PrintSummary}
         \<union> {TickLine (pi_id it) |p it. p \<in> set (sm_per_person (sp_summary l)) \<and> it \<in> set (pl_items p)
              \<and> may_tick sc (pl_user_id p)}
       \<and> trace again = trace w @ [Sent (get_summary (sc_id sc))]
       \<and> (case ss_summary srv (trace w) (get_summary (sc_id sc)) of
            Inl e \<Rightarrow> local again = l
          | Inr fresh \<Rightarrow> sp_summary (local again) = fresh \<and> sp_people (local again) = [CNode (perPersonCard sc fresh)]
              \<and> sp_totals (local again) = [CNode (summary_totals sc fresh)])
       \<and> (if trace copied = trace w @ [Copied (sm_plain_text s)]
          then ui_status (local copied) = \<lparr>st_text = translate (sc_t sc) ''action.copied'' [], st_error = False\<rparr>
          else trace copied = trace w \<and> \<not> tl_fallback_hidden (local copied) \<and> tl_fallback_text (local copied) = sm_plain_text s
             \<and> ui_status (local copied) = \<lparr>st_text = translate (sc_t sc) ''summary.copy_failed'' [], st_error = True\<rparr>))"
proof -
  define w where "w = fold (summary_step srv sc clipboard) es \<lparr>trace = done, local = new_summary_page sc s\<rparr>"
  have "summary_good sc s (new_summary_page sc s)"
    by (simp add: new_summary_page_def summary_good_def summary_render_def new_toolbar_def toolbar.defs)
  then have g: "summary_good sc s (local w)"
    unfolding w_def by (intro summary_page.good_run) simp
  have "set (actions_of (fst (summary_layout sc (local w)))) = {CopySummary, PrintSummary}
         \<union> {TickLine (pi_id it) |p it. p \<in> set (sm_per_person (sp_summary (local w))) \<and> it \<in> set (pl_items p)
              \<and> may_tick sc (pl_user_id p)}"
    using g by (auto simp: toolbar_page_actions summary_good_def node_simps split: if_splits)
  with g show ?thesis
    unfolding w_def [symmetric] Let_def
    by (auto simp: summary_refresh_run copy_summary_run summary_good_def summary_render_def say_def fail_with_def
        split: sum.split)
qed

text \<open>
  Opening a summary never fails: the summary is asked for first and nothing else if it cannot be
  had; then the order, and the restaurant only if the order could be read. Somebody who takes no
  part is told so rather than shown an error, with a way to log in exactly when nobody is.
\<close>

theorem summary_page_opens:
  "(let get = get_summary ident; get_order = Call ''GET'' (''/orders/'' @ ident) None;
        out = summaryPage srv reference a ident w
    in case ss_summary srv (trace w) get of
         Inl e \<Rightarrow> out = (Inr (Inl (refused a ident e)), w\<lparr>trace := trace w @ [Sent get]\<rparr>)
           \<and> actions_of (fst (refused a ident e)) = []
       | Inr s \<Rightarrow> (\<exists>sc. fst out = Inr (Inr (sc, new_summary_page sc s)) \<and> sc_app sc = a \<and> sc_id sc = ident)
           \<and> trace (snd out) = trace w @ [Sent get, Sent get_order]
               @ (case ss_order srv (trace w @ [Sent get]) get_order of
                    Inl e \<Rightarrow> []
                  | Inr v \<Rightarrow> [Sent (Call ''GET'' (''/restaurants/'' @ o_restaurant_id (header_of v)) None)]))"
proof -
  have none: "actions_of (fst (refused a ident e)) = []" for e
    by (simp add: refused_def Let_def node_simps)
  show ?thesis
    by (cases "ss_summary srv (trace w) (get_summary ident)")
      (auto simp: summaryPage_def act_simps Let_def none split: sum.split)
qed

end
