(* ===== verification/OrderCreate.thy ===== *)
theory OrderCreate
  imports OrderDetails OpeningHours
begin

text \<open>
  Opening an order (\<open>src/pages/ordercreate.ts\<close>): the form, the two hard rules about its times, the
  warning about opening hours, and creating it. The opening hours of the restaurant that is chosen
  are asked for and arrive later, so a request is one event and its answer another.
\<close>

section \<open>The form\<close>

record create_form = ui +
  nw_restaurant :: string
  nw_fulfilment :: string
  nw_fulfilment_at :: string
  nw_deadline_at :: string
  nw_collector :: string
  nw_pickup :: string
  nw_problem :: "string option"
  nw_warning :: string
  nw_hours :: "opening_period_row list"
  nw_asked :: "string list"

definition inHours :: "int \<Rightarrow> int \<Rightarrow> int" where
  "inHours now hours = now + hours * 60 * 60 * 1000"

definition by_name :: "app \<Rightarrow> restaurant list \<Rightarrow> restaurant list" where
  "by_name a rs = Sorting_Algorithms.sort (by_text (collation (app_intl a) (Some (language a))) r_name) rs"

text \<open>A select without a value shows its first option.\<close>

definition first_value :: "choice list \<Rightarrow> string" where
  "first_value cs = (case cs of [] \<Rightarrow> [] | c # _ \<Rightarrow> ch_value c)"

definition restaurant_choices :: "app \<Rightarrow> restaurant list \<Rightarrow> choice list" where
  "restaurant_choices a rs = map (\<lambda>r. \<lparr>ch_value = r_id r, ch_label = r_name r\<rparr>) (by_name a rs)"

definition fulfilment_choices :: "translator \<Rightarrow> choice list" where
  "fulfilment_choices t =
     [\<lparr>ch_value = ''pickup'', ch_label = translate t ''order.fulfilment.pickup'' []\<rparr>,
      \<lparr>ch_value = ''delivery'', ch_label = translate t ''order.fulfilment.delivery'' []\<rparr>]"

definition new_create_form :: "app \<Rightarrow> restaurant list \<Rightarrow> choice list \<Rightarrow> create_form" where
  "new_create_form a rs people =
     \<lparr>ui_status = statusLine, ui_busy = False, nw_restaurant = first_value (restaurant_choices a rs),
      nw_fulfilment = first_value (fulfilment_choices (app_t a)),
      nw_fulfilment_at = localInputValue (app_intl a) (AtTime (Some (inHours (app_now a) 2))),
      nw_deadline_at = localInputValue (app_intl a) (AtTime (Some (inHours (app_now a) 1))),
      nw_collector = first_value people, nw_pickup = first_value people,
      nw_problem = None, nw_warning = [], nw_hours = [], nw_asked = []\<rparr>"

section \<open>The rules\<close>

definition times_of :: "app \<Rightarrow> 'x create_form_scheme \<Rightarrow> (int \<times> int) option" where
  "times_of a f =
     (case (parse_date (app_intl a) (nw_fulfilment_at f), parse_date (app_intl a) (nw_deadline_at f)) of
        (Some x, Some c) \<Rightarrow> Some (x, c) | _ \<Rightarrow> None)"

definition hours_warning :: "app \<Rightarrow> 'x create_form_scheme \<Rightarrow> string" where
  "hours_warning a f =
     (case times_of a f of
        None \<Rightarrow> []
      | Some (x, c) \<Rightarrow>
          if nw_hours f \<noteq> [] \<and> \<not> isOpen (nw_hours f) (local_time_of (app_intl a) x)
          then translate (app_t a) ''order.outside_hours'' [] else [])"

definition validate :: "app \<Rightarrow> 'x create_form_scheme \<Rightarrow> bool \<times> 'x create_form_scheme" where
  "validate a f =
     (let ordered = (case times_of a f of None \<Rightarrow> False | Some (x, c) \<Rightarrow> c < x);
          future = (case times_of a f of None \<Rightarrow> False | Some (x, c) \<Rightarrow> app_now a < c)
      in (ordered \<and> future,
          f\<lparr>nw_problem := (if \<not> ordered then Some (translate (app_t a) ''order.deadline_before_fulfilment'' [])
                           else if \<not> future then Some (translate (app_t a) ''error.1014'' []) else None),
            nw_warning := hours_warning a f\<rparr>))"

text \<open>
  \<open>loadHours\<close>: the request, and whichever answer arrives next. An answer sets the hours whatever
  restaurant it was asked for.
\<close>

definition ask_hours :: "('x create_form_scheme, unit) act" where
  "ask_hours =
     bind (gets nw_restaurant)
       (\<lambda>r. andthen (emit (Sent (Call ''GET'' (''/restaurants/'' @ r) None)))
              (modify (\<lambda>f. f\<lparr>nw_asked := nw_asked f @ [r]\<rparr>)))"

definition hours_arrive ::
  "app \<Rightarrow> nat \<Rightarrow> js_error + restaurant_detail \<Rightarrow> ('x create_form_scheme, unit) act" where
  "hours_arrive a n answer =
     modify (\<lambda>f. if length (nw_asked f) \<le> n then f
       else snd (validate a (f\<lparr>nw_asked := take n (nw_asked f) @ drop (Suc n) (nw_asked f),
              nw_hours := (case answer of Inl _ \<Rightarrow> [] | Inr r \<Rightarrow> rd_opening_hours r)\<rparr>)))"

text \<open>Each event happens at its own time, which is that of the application it is given.\<close>

datatype create_event =
    ChooseRestaurant string
  | HoursArrive nat "js_error + restaurant_detail"
  | TypeFulfilment string
  | TypeDeadline string

fun create_do :: "app \<Rightarrow> create_event \<Rightarrow> (create_form, unit) act" where
  "create_do a (ChooseRestaurant r) = andthen (modify (\<lambda>f. f\<lparr>nw_restaurant := r\<rparr>)) ask_hours"
| "create_do a (HoursArrive n answer) = hours_arrive a n answer"
| "create_do a (TypeFulfilment v) = modify (\<lambda>f. snd (validate a (f\<lparr>nw_fulfilment_at := v\<rparr>)))"
| "create_do a (TypeDeadline v) = modify (\<lambda>f. snd (validate a (f\<lparr>nw_deadline_at := v\<rparr>)))"

definition create_step :: "app \<Rightarrow> int \<times> create_event \<Rightarrow> create_form world \<Rightarrow> create_form world" where
  "create_step a e w = snd (create_do (a\<lparr>app_now := fst e\<rparr>) (snd e) w)"

section \<open>Creating it\<close>

definition order_post :: "'x create_form_scheme \<Rightarrow> string \<Rightarrow> string \<Rightarrow> http_call" where
  "order_post f fulfils_at closes_at =
     Call ''POST'' ''/orders'' (Some (JObj
       [(''restaurant_id'', JStr (nw_restaurant f)), (''fulfilment'', JStr (nw_fulfilment f)),
        (''fulfilment_at'', JStr fulfils_at), (''deadline_at'', JStr closes_at),
        (''money_collector_id'', JStr (nw_collector f)), (''pickup_person_id'', JStr (nw_pickup f))]))"

definition create_order :: "string server \<Rightarrow> app \<Rightarrow> ('x create_form_scheme, unit) act" where
  "create_order srv a =
     andthen (on_status clear_status)
       (bind (gets (\<lambda>f. fst (validate a f)))
          (\<lambda>ok. andthen (modify (\<lambda>f. snd (validate a f)))
             (if \<not> ok then ret ()
              else andthen (runAction (app_t a) True
                (bind (gets (\<lambda>f. case (toApiTimestamp (app_intl a) (parse_date (app_intl a) (nw_fulfilment_at f)),
                                        toApiTimestamp (app_intl a) (parse_date (app_intl a) (nw_deadline_at f))) of
                                 (Some x, Some c) \<Rightarrow> Some (order_post f x c) | _ \<Rightarrow> None))
                   (\<lambda>request. case request of
                      None \<Rightarrow> raise RangeError
                    | Some c \<Rightarrow> bind (call srv c) (\<lambda>created. emit (Navigated (''/orders/'' @ created)))))) (ret ()))))"

datatype create_action = CreateOrder | RestaurantChosen | TimeTyped

definition create_fields ::
  "app \<Rightarrow> restaurant list \<Rightarrow> choice list \<Rightarrow> create_form \<Rightarrow> nat \<Rightarrow> create_action child list \<times> nat" where
  "create_fields a rs people f seq =
     (let t = app_t a;
          moment = (\<lambda>n v. input (no_input\<lparr>in_type := Some ''datetime-local'', in_name := Some n, in_value := Some v,
                      in_required := True\<rparr>));
          (deadlineAt, n0) = with_id (add_listener ''input'' TimeTyped (moment ''deadline_at'' (nw_deadline_at f))) seq;
          (f1, n1) = field (translate t ''restaurant.data'' [])
                       (add_listener ''change'' RestaurantChosen
                          (select (restaurant_choices a rs) (Some ''restaurant_id'') None False None)) None None None n0;
          (f2, n2) = field (translate t ''order.fulfilment.type'' [])
                       (select (fulfilment_choices t) (Some ''fulfilment'') None False None) None None None n1;
          (f3, n3) = field (translate t ''order.fulfilment.label'' [])
                       (add_listener ''input'' TimeTyped (moment ''fulfilment_at'' (nw_fulfilment_at f))) None None None n2;
          warning = el ''p'' [(''class'', AStr ''field-hint''), (''text'', AStr (nw_warning f))] [];
          (f4, n4) = field (translate t ''order.deadline.label'' []) deadlineAt None (Some (fieldError deadlineAt)) None n3;
          optional = Some (translate t ''auth.optional'' []);
          (f5, n5) = field (translate t ''order.money_collector'' [])
                       (select people (Some ''money_collector_id'') None False None) None None optional n4;
          (f6, n6) = field (translate t ''order.pickup_person'' [])
                       (select people (Some ''pickup_person_id'') None False None) None None optional n5;
          submit = button ((plain_button (translate t ''order.new'' []))
                     \<lparr>bt_variant := Primary, bt_submit := True, bt_disabled := ui_busy f\<rparr>)
      in ([CNode f1, CNode f2, CNode f3, CNode warning, CNode f4, CNode f5, CNode f6, CNode (actions [CNode submit]),
           CNode (status_element (ui_status f))], n6))"

definition create_layout ::
  "app \<Rightarrow> restaurant list \<Rightarrow> choice list \<Rightarrow> create_form \<Rightarrow> nat \<Rightarrow> create_action node \<times> string" where
  "create_layout a rs people f seq =
     (let title = translate (app_t a) ''order.new'' []
      in page title [CNode (section_card title [CNode (form CreateOrder (fst (create_fields a rs people f seq)))])])"

definition nothing_to_order_from :: "app \<Rightarrow> create_action node \<times> string" where
  "nothing_to_order_from a =
     (let t = app_t a
      in page (translate t ''order.new'' [])
           [CNode (el ''p'' [(''class'', AStr ''muted''), (''text'', AStr (translate t ''order.no_restaurants'' []))] []),
            CNode (el ''p'' [] [CNode (el ''a'' [(''class'', AStr ''link''), (''href'', AStr ''/restaurants''),
              (''text'', AStr (translate t ''restaurant.new'' []))] [])])])"

text \<open>The hours of the restaurant that is shown first are asked for at once.\<close>

definition on_created :: "create_form \<Rightarrow> ('l, create_form) act" where
  "on_created f w =
     (case ask_hours \<lparr>trace = trace w, local = f\<rparr> of (_, v) \<Rightarrow> (Inr (local v), w\<lparr>trace := trace v\<rparr>))"

definition createOrderPage ::
  "restaurant list server \<Rightarrow> account list server \<Rightarrow> app
   \<Rightarrow> ('l, (create_action node \<times> string) + (restaurant list \<times> choice list \<times> create_form)) act" where
  "createOrderPage rest_srv acc_srv a =
     bind (try_catch (bind (call rest_srv (Call ''GET'' ''/restaurants'' None)) (\<lambda>rs. ret (Inr rs))) (\<lambda>e. ret (Inl e)))
       (\<lambda>answer. case answer of
          Inl e \<Rightarrow> ret (Inl (failedPage (say_t a ''order.new'') (app_t a) e))
        | Inr rs \<Rightarrow>
            if rs = [] then ret (Inl (nothing_to_order_from a))
            else bind (maybe acc_srv (Call ''GET'' ''/users'' None))
              (\<lambda>accounts.
                 let people = accountChoices (case listAccounts (app_intl a)
                         (case accounts of None \<Rightarrow> Inl TypeError | Some as \<Rightarrow> Inr as) of Inl _ \<Rightarrow> [] | Inr as \<Rightarrow> as)
                       (say_t a ''order.nobody'')
                 in bind (on_created (new_create_form a rs people))
                      (\<lambda>f. ret (Inr (rs, people, f)))))"

section \<open>What is sent, and what is said\<close>

lemma validate_parts [simp]:
  "nw_restaurant (snd (validate a f)) = nw_restaurant f" "nw_fulfilment (snd (validate a f)) = nw_fulfilment f"
  "nw_fulfilment_at (snd (validate a f)) = nw_fulfilment_at f" "nw_deadline_at (snd (validate a f)) = nw_deadline_at f"
  "nw_collector (snd (validate a f)) = nw_collector f" "nw_pickup (snd (validate a f)) = nw_pickup f"
  "nw_hours (snd (validate a f)) = nw_hours f" "nw_warning (snd (validate a f)) = hours_warning a f"
  "ui_status (snd (validate a f)) = ui_status f" "ui_busy (snd (validate a f)) = ui_busy f"
  by (simp_all add: validate_def Let_def)

lemma times_of_cong [simp]:
  "times_of a (snd (validate b f)) = times_of a f" "times_of a (f\<lparr>ui_status := s\<rparr>) = times_of a f"
  "times_of a (f\<lparr>ui_busy := y\<rparr>) = times_of a f" "times_of a (f\<lparr>nw_asked := q\<rparr>) = times_of a f"
  "times_of a (f\<lparr>nw_restaurant := r\<rparr>) = times_of a f"
  by (simp_all add: times_of_def)

lemma hours_warning_now [simp]:
  "hours_warning (a\<lparr>app_now := n\<rparr>) f = hours_warning a f" "times_of (a\<lparr>app_now := n\<rparr>) f = times_of a f"
  by (simp_all add: hours_warning_def times_of_def split: option.split)

definition warned :: "app \<Rightarrow> create_form \<Rightarrow> bool" where
  "warned a f \<longleftrightarrow> nw_warning f = hours_warning a f"

interpretation create_page: event_machine "create_step a" "\<lambda>w. warned a (local w)"
proof
  fix w :: "create_form world" and e
  assume "warned a (local w)"
  moreover have "warned a (snd (validate (a\<lparr>app_now := n\<rparr>) f))" for n f
    by (simp add: warned_def) (simp add: hours_warning_def split: option.split)
  moreover have "hours_warning a (f\<lparr>nw_restaurant := r, nw_asked := q\<rparr>) = hours_warning a f" for r q and f :: create_form
    by (simp add: hours_warning_def times_of_def split: option.split)
  ultimately show "warned a (local (create_step a e w))"
    by (cases e; cases "snd e") (auto simp: create_step_def act_simps ask_hours_def hours_arrive_def warned_def)
qed

text \<open>
  Opening hours only ever warn: whatever has been chosen and typed, in whatever order the
  answers arrived, the warning is there exactly when both times are times, hours are known and the
  restaurant is closed at the moment the food should be there; without hours it says nothing.
\<close>

theorem hours_only_warn:
  "(let f = local (fold (create_step a) es \<lparr>trace = done, local = new_create_form a0 rs people\<rparr>)
    in nw_warning f =
         (case (parse_date (app_intl a) (nw_fulfilment_at f), parse_date (app_intl a) (nw_deadline_at f)) of
            (Some x, Some c) \<Rightarrow>
              if nw_hours f \<noteq> [] \<and> \<not> isOpen (nw_hours f) (local_time_of (app_intl a) x)
              then translate (app_t a) ''order.outside_hours'' [] else []
          | _ \<Rightarrow> []))"
proof -
  let ?w = "\<lparr>trace = done, local = new_create_form a0 rs people\<rparr>"
  have "warned a (local ?w)"
    by (auto simp: warned_def new_create_form_def hours_warning_def split: option.split)
  from create_page.good_run [of a ?w es, OF this]
  show ?thesis
    unfolding warned_def hours_warning_def times_of_def Let_def by (auto split: option.splits)
qed

text \<open>An answer that comes late sets the hours of a restaurant that is no longer the one chosen.\<close>

lemma late_hours_stay:
  "let w = fold (create_step a)
         [(0, ChooseRestaurant ''A''), (1, ChooseRestaurant ''B''), (2, HoursArrive 1 (Inr b)), (3, HoursArrive 0 (Inr r))]
         \<lparr>trace = [], local = new_create_form a rs people\<rparr>
   in nw_restaurant (local w) = ''B'' \<and> nw_hours (local w) = rd_opening_hours r \<and> nw_asked (local w) = []"
  by (simp add: create_step_def act_simps ask_hours_def hours_arrive_def new_create_form_def validate_def Let_def)


end
