(* ===== verification/DishEditor.thy ===== *)
theory DishEditor
  imports OrderDetails
begin

text \<open>
  The editor of a dish (\<open>src/components/menuitem.ts\<close>), which the restaurant page and the order page
  open: its fields, its boxes, what Save sends, and the block of the dish's options, each of which
  is saved, removed and added on its own.
\<close>

section \<open>A group of boxes\<close>

text \<open>The boxes are kept in a map by id; the reader goes over it in the order the ids first came.\<close>

definition box_map :: "(string \<times> bool) list \<Rightarrow> (string \<times> bool) list" where
  "box_map entries = foldl (\<lambda>m (i, b). AList.update i b m) [] entries"

definition ticked_ids :: "(string \<times> bool) list \<Rightarrow> string list" where
  "ticked_ids boxes = map fst (filter snd boxes)"

definition checkboxGroup :: "string \<Rightarrow> (string \<times> bool) list \<Rightarrow> 'a node" where
  "checkboxGroup legend entries =
     el ''fieldset'' [(''class'', AStr ''fieldset'')]
       [CNode (el ''legend'' [(''text'', AStr legend)] []),
        CNode (foldl (\<lambda>x (label, b). add_child (checkbox label None None b False None) x)
          (el ''div'' [(''class'', AStr ''checkbox-grid'')] []) entries)]"

text \<open>A box is ticked or cleared by its place in the group.\<close>

definition set_box :: "string \<Rightarrow> bool \<Rightarrow> (string \<times> bool) list \<Rightarrow> (string \<times> bool) list" where
  "set_box i b boxes = map (\<lambda>(j, c). (j, if j = i then b else c)) boxes"

section \<open>The editor\<close>

record dish_context =
  dc_app :: app
  dc_reference :: reference_data
  dc_restaurant_id :: string
  dc_categories :: "category list"
  dc_money :: money_format
  dc_item :: "menu_item option"
  dc_category :: "string option"

record dish_server =
  ds_dish :: "menu_item server"
  ds_created :: "string server"
  ds_option :: "modification server"
  ds_filters :: "availability_filter list server"
  ds_done :: "unit server"

record dish_editor = dialog +
  de_name :: string
  de_number :: string
  de_price :: string
  de_description :: string
  de_available :: bool
  de_category :: string
  de_image :: "string option"
  de_tags :: "(string \<times> bool) list"
  de_allergens :: "(string \<times> bool) list"
  de_additives :: "(string \<times> bool) list"
  de_picker :: "(availability_filter list \<times> (nat \<Rightarrow> bool)) option"

definition dc_t :: "dish_context \<Rightarrow> translator" where
  "dc_t dc = app_t (dc_app dc)"

definition of_item :: "dish_context \<Rightarrow> 'b \<Rightarrow> (menu_item \<Rightarrow> 'b) \<Rightarrow> 'b" where
  "of_item dc d f = (case dc_item dc of None \<Rightarrow> d | Some item \<Rightarrow> f item)"

definition category_choices :: "dish_context \<Rightarrow> choice list" where
  "category_choices dc =
     \<lparr>ch_value = [], ch_label = translate (dc_t dc) ''menu.category.none'' []\<rparr>
     # map (\<lambda>c. \<lparr>ch_value = ca_id c, ch_label = ca_name c\<rparr>) (dc_categories dc)"

definition dish_editor_of :: "dish_context \<Rightarrow> dish_editor" where
  "dish_editor_of dc =
     (let ref = dc_reference dc
      in \<lparr>ui_status = statusLine, ui_busy = False, dl_open = True, dl_keep = False,
          de_name = of_item dc [] mi_name, de_number = of_item dc [] mi_external_id,
          de_price = of_item dc [] (\<lambda>item. moneyInputValue (mi_price_cents item) (dc_money dc)),
          de_description = of_item dc [] mi_description, de_available = of_item dc True mi_available,
          de_category = select_value (category_choices dc)
            (opt_text (case of_item dc None mi_category_id of Some c \<Rightarrow> Some c | None \<Rightarrow> dc_category dc)),
          de_image = of_item dc None mi_image_id,
          de_tags = box_map (map (\<lambda>tg. (tag_id tg, of_item dc False (\<lambda>item. tag_id tg \<in> tag_id ` set (mi_tags item)))) (ref_tags ref)),
          de_allergens = box_map (map (\<lambda>c. (cl_id c, of_item dc False (\<lambda>item. cl_id c \<in> cl_id ` set (mi_allergens item)))) (ref_allergens ref)),
          de_additives = box_map (map (\<lambda>c. (cl_id c, of_item dc False (\<lambda>item. cl_id c \<in> cl_id ` set (mi_additives item)))) (ref_additives ref)),
          de_picker = None\<rparr>)"

text \<open>The rules of availability arrive later; without any there is no picker.\<close>

definition filters_arrive :: "dish_context \<Rightarrow> availability_filter list \<Rightarrow> dish_editor \<Rightarrow> dish_editor" where
  "filters_arrive dc filters e =
     (if filters = [] then e
      else let attached = map af_id (of_item dc [] (\<lambda>item. case mi_availability item of None \<Rightarrow> [] | Some fs \<Rightarrow> fs))
           in e\<lparr>de_picker := Some (filters, \<lambda>b. af_id (filters ! b) \<in> set attached)\<rparr>)"

definition open_dish_editor :: "dish_server \<Rightarrow> dish_context \<Rightarrow> ('l, dish_editor) act" where
  "open_dish_editor srv dc =
     bind (loadFilters (ds_filters srv) (dc_restaurant_id dc))
       (\<lambda>filters. ret (filters_arrive dc filters (dish_editor_of dc)))"

section \<open>Saving\<close>

definition dish_path :: "dish_context \<Rightarrow> string" where
  "dish_path dc = ''/restaurants/'' @ dc_restaurant_id dc @ ''/menu-items''"

definition dish_payload :: "'x dish_editor_scheme \<Rightarrow> int \<Rightarrow> json" where
  "dish_payload e cents =
     JObj [(''category_id'', if de_category e = [] then JNull else JStr (de_category e)),
           (''external_id'', JStr (js_trim (de_number e))), (''name'', JStr (js_trim (de_name e))),
           (''description'', JStr (js_trim (de_description e))), (''image_id'', json_opt (de_image e)),
           (''price_cents'', JNum cents), (''available'', JBool (de_available e)),
           (''tag_ids'', JArr (map JStr (ticked_ids (de_tags e)))),
           (''allergen_ids'', JArr (map JStr (ticked_ids (de_allergens e)))),
           (''additive_ids'', JArr (map JStr (ticked_ids (de_additives e))))]"

text \<open>The first request saves the dish and says which it is; the second attaches the rules to it.\<close>

definition save_dish :: "dish_server \<Rightarrow> dish_context \<Rightarrow> json \<Rightarrow> (dish_editor, string) act" where
  "save_dish srv dc payload =
     (case dc_item dc of
        Some item \<Rightarrow> andthen (call (ds_done srv) (Call ''PATCH'' (dish_path dc @ ''/'' @ mi_id item) (Some payload)))
                       (ret (mi_id item))
      | None \<Rightarrow> call (ds_created srv) (Call ''POST'' (dish_path dc) (Some payload)))"

definition submit_dish :: "dish_server \<Rightarrow> dish_context \<Rightarrow> (dish_editor, bool) act" where
  "submit_dish srv dc =
     bind (gets id)
       (\<lambda>e. case parseMoney (de_price e) (dc_money dc) of
          None \<Rightarrow> ret False
        | Some cents \<Rightarrow>
            bind (save_dish srv dc (dish_payload e cents))
              (\<lambda>ident. andthen
                 (case de_picker e of
                    None \<Rightarrow> ret ()
                  | Some (filters, ticks) \<Rightarrow>
                      saveAttachments (ds_done srv) (dc_restaurant_id dc) ''menu-items'' ident (picked filters ticks))
                 (ret True)))"

definition press_save_dish ::
  "dish_server \<Rightarrow> dish_context \<Rightarrow> ('l, unit) act \<Rightarrow> dish_editor \<Rightarrow> ('l, dish_editor) act" where
  "press_save_dish srv dc onSaved = submit_on_page (dc_t dc) (submit_dish srv dc) onSaved"

definition dish_removal :: "dish_context \<Rightarrow> menu_item \<Rightarrow> confirm_texts" where
  "dish_removal dc item =
     (let t = dc_t dc
      in confirm_with t (translate t ''confirm.title'' []) (translate t ''menu.item.delete.confirm'' [])
           (mi_name item) (translate t ''action.delete'' []))"

definition remove_dish ::
  "dish_server \<Rightarrow> (effect list \<Rightarrow> string \<Rightarrow> bool) \<Rightarrow> dish_context \<Rightarrow> ('l, unit) act \<Rightarrow> dish_editor
   \<Rightarrow> ('l, dish_editor) act" where
  "remove_dish srv person dc onSaved e =
     (case dc_item dc of
        None \<Rightarrow> ret e
      | Some item \<Rightarrow> bind (confirmed person (dish_removal dc item))
          (\<lambda>agreed w. if \<not> agreed then (Inr e, w)
             else (case runAction (dc_t dc) False
                     (call (ds_done srv) (Call ''DELETE'' (dish_path dc @ ''/'' @ mi_id item) None))
                     \<lparr>trace = trace w, local = e\<rparr> of
                     (r, v) \<Rightarrow> (if r = Inr True then andthen onSaved (ret ((local v)\<lparr>dl_open := False\<rparr>)) else ret (local v))
                                 (w\<lparr>trace := trace v\<rparr>))))"

section \<open>The dialog as it is drawn\<close>

datatype dish_action = RemoveDish | SaveOption nat | RemoveOption nat | AddOption

definition dish_fields :: "dish_context \<Rightarrow> dish_editor \<Rightarrow> dish_action node \<Rightarrow> dish_action child \<Rightarrow> nat \<Rightarrow> dish_action child list \<times> nat" where
  "dish_fields dc e picture options_block seq =
     (let t = dc_t dc; ref = dc_reference dc; optional = Some (translate t ''auth.optional'' []);
          txt = (\<lambda>v. input (no_input\<lparr>in_value := Some v\<rparr>));
          label_of = (\<lambda>ids names i. case map_of (zip ids names) i of None \<Rightarrow> i | Some l \<Rightarrow> l);
          group = (\<lambda>legend ids names boxes. checkboxGroup legend (map (\<lambda>(i, b). (label_of ids names i, b)) boxes));
          (f1, n1) = field (translate t ''menu.item.number'' []) (txt (de_number e)) None None optional seq;
          (f2, n2) = field (translate t ''restaurant.name'' [])
                       (input (no_input\<lparr>in_value := Some (de_name e), in_required := True\<rparr>)) None None None n1;
          (f3, n3) = field (translate t ''menu.item.price'' [])
                       (input (no_input\<lparr>in_mode := Some ''decimal'', in_value := Some (de_price e), in_required := True\<rparr>)) None None None n2;
          (f4, n4) = field (translate t ''menu.item.description'' [])
                       (textarea (no_input\<lparr>in_value := Some (de_description e)\<rparr>) (Some 2)) None None optional n3;
          (f5, n5) = field (translate t ''menu.item.category'' [])
                       (select (category_choices dc) None (Some (de_category e)) False None) None None None n4;
          picker = (case de_picker e of
                      None \<Rightarrow> []
                    | Some (filters, ticks) \<Rightarrow> [CNode (filterPicker (dc_app dc) filters (picked filters ticks))])
      in ([CNode f1, CNode f2, CNode f3, CNode f4, CNode f5, CNode picture,
           CNode (checkbox (translate t ''menu.item.available'' []) None None (de_available e) False None),
           CNode (group (translate t ''menu.tags'' []) (map tag_id (ref_tags ref)) (map (tagName t) (ref_tags ref)) (de_tags e)),
           CNode (group (translate t ''menu.allergens'' []) (map cl_id (ref_allergens ref))
              (map (\<lambda>c. referenceName t ''allergen'' (cl_code c)) (ref_allergens ref)) (de_allergens e)),
           CNode (group (translate t ''menu.additives'' []) (map cl_id (ref_additives ref))
              (map (\<lambda>c. referenceName t ''additive'' (cl_code c)) (ref_additives ref)) (de_additives e)),
           CNode (append (el ''div'' [(''class'', AStr ''stack'')] []) picker),
           (if dc_item dc = None then CNull else options_block)], n5))"

definition dish_extra_actions :: "dish_context \<Rightarrow> dish_action child list" where
  "dish_extra_actions dc =
     (if dc_item dc \<noteq> None \<and> isAdmin (app_session (dc_app dc))
      then [CNode (button ((plain_button (translate (dc_t dc) ''action.delete'' []))
              \<lparr>bt_variant := Danger, bt_onclick := Some RemoveDish\<rparr>))] else [])"

section \<open>The options of a dish\<close>

text \<open>
  The options as they were last read or answered, what is in the inputs of their rows, and what is
  in the inputs of the row for a new one.
\<close>

record option_block = ui +
  ob_options :: "modification list"
  ob_rows :: "(string \<times> string) list"
  ob_new :: "string \<times> string"

definition option_row_of :: "money_format \<Rightarrow> modification \<Rightarrow> string \<times> string" where
  "option_row_of money m = (mo_name m, moneyInputValue (mo_price_delta_cents m) money)"

definition render_options :: "dish_context \<Rightarrow> option_block \<Rightarrow> option_block" where
  "render_options dc b =
     b\<lparr>ob_rows := map (option_row_of (dc_money dc)) (ob_options b), ob_new := ([], moneyInputValue 0 (dc_money dc))\<rparr>"

definition new_option_block :: "dish_context \<Rightarrow> menu_item \<Rightarrow> option_block" where
  "new_option_block dc item =
     render_options dc
       \<lparr>ui_status = statusLine, ui_busy = False,
        ob_options = (case mi_modifications item of None \<Rightarrow> [] | Some ms \<Rightarrow> ms), ob_rows = [], ob_new = ([], [])\<rparr>"

definition options_path :: "dish_context \<Rightarrow> menu_item \<Rightarrow> string" where
  "options_path dc item = dish_path dc @ ''/'' @ mi_id item @ ''/modifications''"

text \<open>A price that cannot be read is sent as nothing.\<close>

definition option_cents :: "dish_context \<Rightarrow> string \<Rightarrow> int" where
  "option_cents dc delta = (case parseMoney delta (dc_money dc) of None \<Rightarrow> 0 | Some c \<Rightarrow> c)"

definition option_members :: "dish_context \<Rightarrow> string \<times> string \<Rightarrow> (string \<times> json) list" where
  "option_members dc row =
     [(''name'', JStr (js_trim (fst row))), (''price_delta_cents'', JNum (option_cents dc (snd row)))]"

definition save_option :: "dish_server \<Rightarrow> dish_context \<Rightarrow> menu_item \<Rightarrow> nat \<Rightarrow> (option_block, unit) act" where
  "save_option srv dc item n =
     bind (gets (\<lambda>b. (at (ob_options b) n, at (ob_rows b) n)))
       (\<lambda>shown. case shown of
          (Some m, Some row) \<Rightarrow> andthen (runAction (dc_t dc) False
            (andthen (call (ds_done srv) (Call ''PATCH'' (options_path dc item @ ''/'' @ mo_id m) (Some (JObj (option_members dc row)))))
               (on_status (say (translate (dc_t dc) ''state.saved'' []))))) (ret ())
        | _ \<Rightarrow> ret ())"

definition remove_option :: "dish_server \<Rightarrow> dish_context \<Rightarrow> menu_item \<Rightarrow> nat \<Rightarrow> (option_block, unit) act" where
  "remove_option srv dc item n =
     bind (gets (\<lambda>b. at (ob_options b) n))
       (\<lambda>shown. case shown of
          None \<Rightarrow> ret ()
        | Some m \<Rightarrow> andthen (runAction (dc_t dc) False
            (andthen (call (ds_done srv) (Call ''DELETE'' (options_path dc item @ ''/'' @ mo_id m) None))
               (modify (\<lambda>b. render_options dc (b\<lparr>ob_options := filter (\<lambda>x. mo_id x \<noteq> mo_id m) (ob_options b)\<rparr>))))) (ret ()))"

definition next_sort_order :: "modification list \<Rightarrow> int" where
  "next_sort_order ms = (case last_of ms of None \<Rightarrow> 0 | Some m \<Rightarrow> mo_sort_order m) + 10"

definition add_option :: "dish_server \<Rightarrow> dish_context \<Rightarrow> menu_item \<Rightarrow> (option_block, unit) act" where
  "add_option srv dc item =
     andthen (on_status clear_status)
       (bind (gets (\<lambda>b. (ob_new b, next_sort_order (ob_options b))))
          (\<lambda>(row, order). if js_trim (fst row) = [] then ret ()
             else andthen (runAction (dc_t dc) False
               (bind (call (ds_option srv) (Call ''POST'' (options_path dc item)
                    (Some (JObj (option_members dc row @ [(''sort_order'', JNum order)])))))
                  (\<lambda>created. modify (\<lambda>b. render_options dc (b\<lparr>ob_options := ob_options b @ [created]\<rparr>))))) (ret ())))"

definition load_options :: "dish_server \<Rightarrow> dish_context \<Rightarrow> menu_item \<Rightarrow> (option_block, unit) act" where
  "load_options srv dc item =
     try_catch
       (bind (call (ds_dish srv) (Call ''GET'' (dish_path dc @ ''/'' @ mi_id item) None))
          (\<lambda>full. modify (\<lambda>b. render_options dc
             (b\<lparr>ob_options := (case mi_modifications full of None \<Rightarrow> [] | Some ms \<Rightarrow> ms)\<rparr>))))
       (\<lambda>e. on_status (fail_with (errorMessage (dc_t dc) e)))"

definition option_row :: "dish_context \<Rightarrow> nat \<Rightarrow> modification \<Rightarrow> string \<times> string \<Rightarrow> nat \<Rightarrow> dish_action node \<times> nat" where
  "option_row dc n m row seq =
     (let t = dc_t dc; admin = isAdmin (app_session (dc_app dc));
          (f1, n1) = field (translate t ''menu.modification.name'' []) (input (no_input\<lparr>in_value := Some (fst row)\<rparr>)) None None None seq;
          (f2, n2) = field (translate t ''menu.modification.price'' [])
                       (input (no_input\<lparr>in_mode := Some ''decimal'', in_value := Some (snd row)\<rparr>)) None None None n1;
          save = button ((plain_button (translate t ''action.save'' []))\<lparr>bt_onclick := Some (SaveOption n)\<rparr>);
          remove = button ((plain_button (translate t ''action.remove'' []))
            \<lparr>bt_variant := Danger, bt_disabled := \<not> admin,
             bt_title := (if admin then None else Some (translate t ''menu.modification.remove.admin_only'' [])),
             bt_aria := Some (translate t ''action.remove'' [] @ '': '' @ mo_name m), bt_onclick := Some (RemoveOption n)\<rparr>)
      in (el ''div'' [(''class'', AStr ''row'')] [CNode f1, CNode f2, CNode (actions [CNode save, CNode remove])], n2))"

definition new_option_row :: "dish_context \<Rightarrow> string \<times> string \<Rightarrow> nat \<Rightarrow> dish_action node \<times> nat" where
  "new_option_row dc row seq =
     (let t = dc_t dc;
          (f1, n1) = field (translate t ''menu.modification.name'' []) (input (no_input\<lparr>in_value := Some (fst row)\<rparr>)) None None None seq;
          (f2, n2) = field (translate t ''menu.modification.price'' [])
                       (input (no_input\<lparr>in_mode := Some ''decimal'', in_value := Some (snd row)\<rparr>)) None None None n1;
          add = button ((plain_button (translate t ''menu.modification.add'' []))\<lparr>bt_onclick := Some AddOption\<rparr>)
      in (el ''div'' [(''class'', AStr ''row row-new'')] [CNode f1, CNode f2, CNode (actions [CNode add])], n2))"

fun option_rows :: "dish_context \<Rightarrow> nat \<Rightarrow> (modification \<times> string \<times> string) list \<Rightarrow> nat \<Rightarrow> dish_action child list \<times> nat" where
  "option_rows dc n [] seq = ([], seq)"
| "option_rows dc n ((m, row) # rest) seq =
     (let (x, n1) = option_row dc n m row seq; (xs, n2) = option_rows dc (Suc n) rest n1 in (CNode x # xs, n2))"

definition options_fieldset :: "dish_context \<Rightarrow> option_block \<Rightarrow> nat \<Rightarrow> dish_action node \<times> nat" where
  "options_fieldset dc b seq =
     (let t = dc_t dc;
          (rows, n1) = (if ob_options b = []
             then ([CNode (el ''p'' [(''class'', AStr ''muted''), (''text'', AStr (translate t ''menu.modification.none'' []))] [])], seq)
             else option_rows dc 0 (zip (ob_options b) (ob_rows b)) seq);
          (last_row, n2) = new_option_row dc (ob_new b) n1
      in (el ''fieldset'' [(''class'', AStr ''fieldset'')]
            [CNode (el ''legend'' [(''text'', AStr (translate t ''menu.modification.title'' []))] []),
             CNode (append (el ''div'' [(''class'', AStr ''rows'')] []) (rows @ [CNode last_row])),
             CNode (status_element (ui_status b))], n2))"

section \<open>What Save sends\<close>

definition dish_call :: "dish_context \<Rightarrow> 'x dish_editor_scheme \<Rightarrow> int \<Rightarrow> http_call" where
  "dish_call dc e cents =
     (case dc_item dc of
        Some item \<Rightarrow> Call ''PATCH'' (dish_path dc @ ''/'' @ mi_id item) (Some (dish_payload e cents))
      | None \<Rightarrow> Call ''POST'' (dish_path dc) (Some (dish_payload e cents)))"

text \<open>What the first request answers: which dish has been saved.\<close>

definition dish_answer :: "dish_server \<Rightarrow> dish_context \<Rightarrow> effect list \<Rightarrow> http_call \<Rightarrow> js_error + string" where
  "dish_answer srv dc done c =
     (case dc_item dc of
        Some item \<Rightarrow> (case ds_done srv done c of Inl e \<Rightarrow> Inl e | Inr _ \<Rightarrow> Inr (mi_id item))
      | None \<Rightarrow> ds_created srv done c)"

definition attach_call :: "dish_context \<Rightarrow> string \<Rightarrow> availability_filter list \<Rightarrow> (nat \<Rightarrow> bool) \<Rightarrow> http_call" where
  "attach_call dc ident filters ticks =
     Call ''PUT'' (dish_path dc @ ''/'' @ ident @ ''/availability'')
       (Some (JObj [(''filter_ids'', JArr (map JStr (picked filters ticks)))]))"

lemma save_dish_run:
  "save_dish srv dc (dish_payload e cents) w =
     (let c = dish_call dc e cents
      in (dish_answer srv dc (trace w) c, w\<lparr>trace := trace w @ [Sent c]\<rparr>))"
  by (cases "dc_item dc"; cases "ds_done srv (trace w) (dish_call dc e cents)")
    (simp_all add: save_dish_def dish_call_def dish_answer_def act_simps Let_def)

lemma form_start_dish [simp]:
  "de_price (local (form_start w e)) = de_price e" "de_picker (local (form_start w e)) = de_picker e"
  "dish_payload (local (form_start w e)) n = dish_payload e n"
  "dish_call dc (local (form_start w e)) n = dish_call dc e n"
  by (simp_all add: submit_start_def action_start_def Let_def dish_payload_def dish_call_def split: option.split)

lemma submit_closes:
  assumes "onSubmit (form_start w d) = (Inr True, v)"
  shows "\<exists>e'. submit_on_page t onSubmit after d w = andthen after (ret e') (w\<lparr>trace := trace v\<rparr>) \<and> \<not> dl_open e'"
  using submit_worked [of onSubmit w d v t after] assms by (intro exI conjI) (simp, simp)

lemma submit_dish_run:
  "submit_dish srv dc v =
     (case parseMoney (de_price (local v)) (dc_money dc) of
        None \<Rightarrow> (Inr False, v)
      | Some cents \<Rightarrow>
          let c = dish_call dc (local v) cents; asked = v\<lparr>trace := trace v @ [Sent c]\<rparr>
          in (case dish_answer srv dc (trace v) c of
                Inl er \<Rightarrow> (Inl er, asked)
              | Inr ident \<Rightarrow>
                  (case de_picker (local v) of
                     None \<Rightarrow> (Inr True, asked)
                   | Some (fs, ticks) \<Rightarrow>
                       let put = attach_call dc ident fs ticks; twice = asked\<lparr>trace := trace asked @ [Sent put]\<rparr>
                       in (case ds_done srv (trace asked) put of Inl er \<Rightarrow> (Inl er, twice) | Inr _ \<Rightarrow> (Inr True, twice)))))"
  by (auto simp: submit_dish_def save_dish_run act_simps saveAttachments_def attach_call_def dish_path_def Let_def
      split: option.split sum.split)

text \<open>
  C32: saving a dish: without a readable price nothing is sent; otherwise the dish itself is sent
  first, and once the server has answered which dish it is, the rules of availability that are
  ticked are attached to exactly that one. The dialog closes, and what follows a save runs, exactly
  when both were accepted; after a failure it is open with everything as it was typed, so Save
  sends the same dish again - also one that has just been created.
\<close>

theorem dish_saved_in_order:
  "(let e = e0\<lparr>dl_open := True\<rparr>; out = press_save_dish srv dc onSaved e w;
        stays = (\<lambda>er sent. \<exists>e'. out = (Inr e', w\<lparr>trace := trace w @ sent\<rparr>) \<and> dl_open e'
          \<and> ui_status e' = \<lparr>st_text = errorMessage (dc_t dc) er, st_error = True\<rparr>
          \<and> de_price e' = de_price e \<and> de_picker e' = de_picker e \<and> (\<forall>n. dish_call dc e' n = dish_call dc e n));
        closes = (\<lambda>sent. \<exists>e'. out = andthen onSaved (ret e') (w\<lparr>trace := trace w @ sent\<rparr>) \<and> \<not> dl_open e')
    in case parseMoney (de_price e) (dc_money dc) of
         None \<Rightarrow> (\<exists>e'. out = (Inr e', w) \<and> dl_open e')
       | Some cents \<Rightarrow>
           let c = dish_call dc e cents
           in (case dish_answer srv dc (trace w) c of
                 Inl er \<Rightarrow> stays er [Sent c]
               | Inr ident \<Rightarrow>
                   (case de_picker e of
                      None \<Rightarrow> closes [Sent c]
                    | Some (fs, ticks) \<Rightarrow>
                        let put = attach_call dc ident fs ticks
                        in (case ds_done srv (trace w @ [Sent c]) put of
                              Inl er \<Rightarrow> stays er [Sent c, Sent put]
                            | Inr _ \<Rightarrow> closes [Sent c, Sent put]))))"
proof -
  define e where "e = e0\<lparr>dl_open := True\<rparr>"
  have op: "dl_open e" by (simp add: e_def)
  note outcome = submit_dish_run [of srv dc "form_start w e", unfolded Let_def]
  note ways = submit_stays [of "submit_dish srv dc" w e] submit_failed [of "submit_dish srv dc" w e]
  have same: "de_price (local (form_start w e)) = de_price e" "de_picker (local (form_start w e)) = de_picker e"
    "dish_call dc ((local (form_start w e))\<lparr>ui_status := s, ui_busy := b\<rparr>) n = dish_call dc e n" for s b n
    by (simp_all add: submit_start_def action_start_def Let_def dish_call_def dish_payload_def split: option.split)
  show ?thesis
  proof (cases "parseMoney (de_price e) (dc_money dc)")
    case None
    then show ?thesis using outcome ways(1) op by (simp add: press_save_dish_def flip: e_def)
  next
    case (Some cents)
    note cents = this
    show ?thesis
    proof (cases "dish_answer srv dc (trace w) (dish_call dc e cents)")
      case (Inl er)
      with cents show ?thesis
        using outcome ways(2) op same by (simp add: press_save_dish_def Let_def flip: e_def)
    next
      case (Inr ident)
      note ident = this
      show ?thesis
      proof (cases "de_picker e")
        case None
        with cents ident have "submit_dish srv dc (form_start w e) =
            (Inr True, (form_start w e)\<lparr>trace := trace w @ [Sent (dish_call dc e cents)]\<rparr>)"
          using outcome by simp
        from submit_closes [of "submit_dish srv dc" w e, OF this] cents ident None show ?thesis
          by (simp add: press_save_dish_def Let_def flip: e_def)
      next
        case (Some p)
        obtain fs ticks where p: "p = (fs, ticks)" by (cases p)
        show ?thesis
        proof (cases "ds_done srv (trace w @ [Sent (dish_call dc e cents)]) (attach_call dc ident fs ticks)")
          case (Inl er)
          with cents ident Some p show ?thesis
            using outcome ways(2) op same by (simp add: press_save_dish_def Let_def flip: e_def)
        next
          case (Inr u)
          with cents ident Some p have "submit_dish srv dc (form_start w e) =
              (Inr True, (form_start w e)\<lparr>trace := trace w @ [Sent (dish_call dc e cents), Sent (attach_call dc ident fs ticks)]\<rparr>)"
            using outcome by simp
          from submit_closes [of "submit_dish srv dc" w e, OF this] cents ident Some p Inr show ?thesis
            by (simp add: press_save_dish_def Let_def flip: e_def)
        qed
      qed
    qed
  qed
qed

section \<open>What the rows of the options send\<close>

datatype option_event =
    LoadOptions
  | TypeRow nat "string \<times> string"
  | TypeNew "string \<times> string"
  | PressSave nat
  | PressRemove nat
  | PressAdd

fun option_do :: "dish_server \<Rightarrow> dish_context \<Rightarrow> menu_item \<Rightarrow> option_event \<Rightarrow> (option_block, unit) act" where
  "option_do srv dc item LoadOptions = load_options srv dc item"
| "option_do srv dc item (TypeRow n row) = modify (\<lambda>b. b\<lparr>ob_rows := (ob_rows b)[n := row]\<rparr>)"
| "option_do srv dc item (TypeNew row) = modify (\<lambda>b. b\<lparr>ob_new := row\<rparr>)"
| "option_do srv dc item (PressSave n) = save_option srv dc item n"
| "option_do srv dc item (PressRemove n) = remove_option srv dc item n"
| "option_do srv dc item PressAdd = add_option srv dc item"

definition option_step ::
  "dish_server \<Rightarrow> dish_context \<Rightarrow> menu_item \<Rightarrow> option_event \<Rightarrow> option_block world \<Rightarrow> option_block world" where
  "option_step srv dc item e w = snd (option_do srv dc item e w)"

definition options_good :: "option_block \<Rightarrow> bool" where
  "options_good b \<longleftrightarrow> length (ob_rows b) = length (ob_options b)"

lemma render_options_parts [simp]:
  "ob_options (render_options dc b) = ob_options b"
  "ob_rows (render_options dc b) = map (option_row_of (dc_money dc)) (ob_options b)"
  "ui_status (render_options dc b) = ui_status b" "options_good (render_options dc b)"
  by (simp_all add: render_options_def options_good_def)

lemma save_option_run:
  "save_option srv dc item n w =
     (case (at (ob_options (local w)) n, at (ob_rows (local w)) n) of
        (Some m, Some row) \<Rightarrow>
          let c = Call ''PATCH'' (options_path dc item @ ''/'' @ mo_id m) (Some (JObj (option_members dc row)))
          in (Inr (), w\<lparr>trace := trace w @ [Sent c],
               local := (local w)\<lparr>ui_status :=
                 (case ds_done srv (trace w) c of
                    Inl e \<Rightarrow> \<lparr>st_text = errorMessage (dc_t dc) e, st_error = True\<rparr>
                  | Inr _ \<Rightarrow> \<lparr>st_text = translate (dc_t dc) ''state.saved'' [], st_error = False\<rparr>)\<rparr>\<rparr>)
      | _ \<Rightarrow> (Inr (), w))"
  by (auto simp: save_option_def act_simps runAction_run action_start_def released_def on_status_def say_def fail_with_def
      Let_def split: option.split sum.split)

lemma add_option_run:
  "add_option srv dc item w =
     (let b = (local w)\<lparr>ui_status := clear_status (ui_status (local w))\<rparr>;
          c = Call ''POST'' (options_path dc item)
                (Some (JObj (option_members dc (ob_new b) @ [(''sort_order'', JNum (next_sort_order (ob_options b)))])));
          b' = b\<lparr>ui_status := clear_status (ui_status b)\<rparr>
      in if js_trim (fst (ob_new b)) = [] then (Inr (), w\<lparr>local := b\<rparr>)
         else (Inr (), w\<lparr>trace := trace w @ [Sent c],
                 local := (case ds_option srv (trace w) c of
                    Inl e \<Rightarrow> b'\<lparr>ui_status := \<lparr>st_text = errorMessage (dc_t dc) e, st_error = True\<rparr>\<rparr>
                  | Inr created \<Rightarrow> render_options dc (b'\<lparr>ob_options := ob_options b @ [created]\<rparr>))\<rparr>))"
  by (auto simp: add_option_def act_simps runAction_run action_start_def released_def on_status_def fail_with_def
      Let_def split: sum.split)

lemma remove_option_good: "options_good (local w) \<Longrightarrow> options_good (local (snd (remove_option srv dc item n w)))"
  by (auto simp: remove_option_def act_simps runAction_run action_start_def released_def on_status_def options_good_def
      Let_def split: option.split sum.split)

interpretation dish_options: event_machine "option_step srv dc item" "\<lambda>w. options_good (local w)"
proof
  fix w :: "option_block world" and e
  assume g: "options_good (local w)"
  show "options_good (local (option_step srv dc item e w))"
  proof (cases e)
    case LoadOptions
    with g show ?thesis
      by (cases "ds_dish srv (trace w) (Call ''GET'' (dish_path dc @ ''/'' @ mi_id item) None)")
        (simp_all add: option_step_def load_options_def on_status_def act_simps options_good_def)
  next
    case (PressSave n)
    with g show ?thesis
      by (auto simp: option_step_def save_option_run options_good_def Let_def split: option.split)
  next
    case PressAdd
    with g show ?thesis
      by (auto simp: option_step_def add_option_run options_good_def Let_def split: sum.split)
  qed (use g in \<open>auto simp: option_step_def act_simps options_good_def [of "_\<lparr>ob_rows := _\<rparr>"]
        options_good_def [of "_\<lparr>ob_new := _\<rparr>"] options_good_def remove_option_good [unfolded options_good_def]\<close>)
qed

text \<open>
  C34: every option has exactly one row, whatever happens to the block: saving a row sends what is
  in it, to the option it stands for, once, and changes no row; a new option is only sent with a
  name, after all the others, and appears once the server has made it. A price that cannot be read
  is sent as nothing; and the block draws itself from what it last read, so adding an option puts
  the old name and price back into a row that has just been saved.
\<close>

theorem option_rows_sent:
  "(let w = fold (option_step srv dc item) es \<lparr>trace = done, local = new_option_block dc item\<rparr>; b = local w;
        saved = option_step srv dc item (PressSave n) w; added = option_step srv dc item PressAdd w
    in length (ob_rows b) = length (ob_options b)
       \<and> (case at (ob_options b) n of
            None \<Rightarrow> saved = w
          | Some m \<Rightarrow>
              trace saved = trace w @ [Sent (Call ''PATCH'' (options_path dc item @ ''/'' @ mo_id m)
                (Some (JObj [(''name'', JStr (js_trim (fst (ob_rows b ! n)))),
                   (''price_delta_cents'', JNum (case parseMoney (snd (ob_rows b ! n)) (dc_money dc) of None \<Rightarrow> 0 | Some c \<Rightarrow> c))])))]
              \<and> ob_rows (local saved) = ob_rows b \<and> ob_options (local saved) = ob_options b)
       \<and> (if js_trim (fst (ob_new b)) = [] then trace added = trace w \<and> ob_rows (local added) = ob_rows b
          else let c = Call ''POST'' (options_path dc item)
                     (Some (JObj (option_members dc (ob_new b) @ [(''sort_order'', JNum (next_sort_order (ob_options b)))])))
               in trace added = trace w @ [Sent c]
                  \<and> (case ds_option srv (trace w) c of
                       Inl e \<Rightarrow> ob_rows (local added) = ob_rows b \<and> ob_new (local added) = ob_new b
                     | Inr m \<Rightarrow> ob_options (local added) = ob_options b @ [m]
                         \<and> ob_rows (local added) = map (option_row_of (dc_money dc)) (ob_options b @ [m]))))"
proof -
  define w where "w = fold (option_step srv dc item) es \<lparr>trace = done, local = new_option_block dc item\<rparr>"
  have "options_good (local w)"
    unfolding w_def by (rule dish_options.good_run) (simp add: new_option_block_def)
  then have len: "length (ob_rows (local w)) = length (ob_options (local w))" by (simp add: options_good_def)
  have row: "at (ob_rows (local w)) n = Some (ob_rows (local w) ! n)" if "at (ob_options (local w)) n = Some m" for m
    using that len by (auto simp: at_def split: if_splits)
  show ?thesis
    unfolding w_def [symmetric] Let_def
    using len by (auto simp: option_step_def save_option_run add_option_run row option_members_def option_cents_def
        Let_def split: option.split sum.split)
qed

end
