(* ===== verification/MenuEditor.thy ===== *)
theory MenuEditor
  imports DishEditor
begin

text \<open>
  The menu of a restaurant as it is edited (\<open>src/pages/menu.ts\<close>): categories and dishes, in the
  order the server gives them; renaming, moving, copying, adding and deleting categories; and the
  dialog that asks for a name.
\<close>

section \<open>The state\<close>

record menu_state = ui +
  mn_categories :: "category list"
  mn_items :: "menu_item list"
  mn_collapsed :: "string list"

record menu_page_context =
  mp_app :: app
  mp_reference :: reference_data
  mp_restaurant :: restaurant

record menu_server =
  ms_categories :: "category list server"
  ms_items :: "menu_item list server"
  ms_done :: "unit server"

datatype menu_action =
    NewDish | NewCategory | EditMenuDish menu_item | CopyDish string
  | RenameCategory category | AttachCategory category | CopyCategory string
  | MoveUp nat | MoveDown nat | DeleteCategory category | FoldCategory string

definition mp_t :: "menu_page_context \<Rightarrow> translator" where
  "mp_t mp = app_t (mp_app mp)"

definition menu_money :: "menu_page_context \<Rightarrow> money_format" where
  "menu_money mp = moneyFormatOf (ref_currencies (mp_reference mp)) (r_currency_code (mp_restaurant mp))"

definition menu_base :: "menu_page_context \<Rightarrow> string" where
  "menu_base mp = ''/restaurants/'' @ r_id (mp_restaurant mp)"

definition category_path :: "menu_page_context \<Rightarrow> category \<Rightarrow> string" where
  "category_path mp c = menu_base mp @ ''/categories/'' @ ca_id c"

definition new_menu_state :: menu_state where
  "new_menu_state =
     \<lparr>ui_status = statusLine, ui_busy = False, mn_categories = [], mn_items = [], mn_collapsed = []\<rparr>"

section \<open>Reading it and changing it\<close>

definition read_menu :: "menu_server \<Rightarrow> menu_page_context \<Rightarrow> (menu_state, unit) act" where
  "read_menu srv mp =
     andthen (runAction (mp_t mp) False
       (bind (both (call (ms_categories srv) (Call ''GET'' (menu_base mp @ ''/categories'') None))
                   (call (ms_items srv) (Call ''GET'' (menu_base mp @ ''/menu-items'') None)))
          (\<lambda>(cs, ds). modify (\<lambda>l. l\<lparr>mn_categories := cs, mn_items := ds\<rparr>)))) (ret ())"

text \<open>
  A change: its requests, reading the menu again, and what is said afterwards. Reading again reports
  its own failure on the same status line, so it never makes the change fail.
\<close>

definition menu_change ::
  "menu_server \<Rightarrow> menu_page_context \<Rightarrow> (menu_state, unit) act \<Rightarrow> string option \<Rightarrow> (menu_state, unit) act" where
  "menu_change srv mp requests said =
     andthen (runAction (mp_t mp) False
       (andthen requests (andthen (read_menu srv mp)
          (case said of None \<Rightarrow> ret () | Some k \<Rightarrow> on_status (say (translate (mp_t mp) k [])))))) (ret ())"

definition duplicate_in_menu :: "menu_server \<Rightarrow> menu_page_context \<Rightarrow> string \<Rightarrow> (menu_state, unit) act" where
  "duplicate_in_menu srv mp path =
     menu_change srv mp
       (call (ms_done srv) (Call ''POST'' (menu_base mp @ ''/'' @ path @ ''/duplicate'')
          (Some (JObj [(''label'', JStr (translate (mp_t mp) ''menu.copy_label'' []))]))))
       (Some ''menu.duplicated'')"

definition rename_category :: "menu_server \<Rightarrow> menu_page_context \<Rightarrow> category \<Rightarrow> string \<Rightarrow> (menu_state, unit) act" where
  "rename_category srv mp c new_name =
     menu_change srv mp
       (andthen (call (ms_done srv) (Call ''PATCH'' (category_path mp c) (Some (JObj [(''name'', JStr new_name)]))))
          (modify (\<lambda>l. l\<lparr>mn_categories := map (\<lambda>x. if x = c then x\<lparr>ca_name := new_name\<rparr> else x) (mn_categories l)\<rparr>)))
       (Some ''state.saved'')"

definition sort_order_call :: "menu_page_context \<Rightarrow> category \<Rightarrow> int \<Rightarrow> http_call" where
  "sort_order_call mp c order = Call ''PATCH'' (category_path mp c) (Some (JObj [(''sort_order'', JNum order)]))"

text \<open>Two categories change places by changing their sort orders.\<close>

definition swap_categories :: "menu_server \<Rightarrow> menu_page_context \<Rightarrow> category \<Rightarrow> category \<Rightarrow> (menu_state, unit) act" where
  "swap_categories srv mp c other =
     menu_change srv mp
       (andthen (both (call (ms_done srv) (sort_order_call mp c (ca_sort_order other)))
                      (call (ms_done srv) (sort_order_call mp other (ca_sort_order c)))) (ret ()))
       None"

definition move_category :: "menu_server \<Rightarrow> menu_page_context \<Rightarrow> nat \<Rightarrow> bool \<Rightarrow> (menu_state, unit) act" where
  "move_category srv mp n down =
     bind (gets mn_categories)
       (\<lambda>cs. case (at cs n, if down then at cs (Suc n) else if n = 0 then None else at cs (n - 1)) of
          (Some c, Some other) \<Rightarrow> swap_categories srv mp c other
        | _ \<Rightarrow> ret ())"

definition category_removal :: "menu_page_context \<Rightarrow> category \<Rightarrow> confirm_texts" where
  "category_removal mp c =
     (let t = mp_t mp
      in confirm_with t (translate t ''confirm.title'' []) (translate t ''menu.category.delete.confirm'' [])
           (ca_name c) (translate t ''action.delete'' []))"

definition remove_category ::
  "menu_server \<Rightarrow> (effect list \<Rightarrow> string \<Rightarrow> bool) \<Rightarrow> menu_page_context \<Rightarrow> category \<Rightarrow> (menu_state, unit) act" where
  "remove_category srv person mp c =
     bind (confirmed person (category_removal mp c))
       (\<lambda>agreed. if \<not> agreed then ret ()
          else menu_change srv mp (call (ms_done srv) (Call ''DELETE'' (category_path mp c) None)) None)"

definition next_category_order :: "category list \<Rightarrow> int" where
  "next_category_order cs = (case last_of cs of None \<Rightarrow> 0 | Some c \<Rightarrow> ca_sort_order c) + 10"

definition add_category :: "menu_server \<Rightarrow> menu_page_context \<Rightarrow> string \<Rightarrow> (menu_state, unit) act" where
  "add_category srv mp name =
     bind (gets (\<lambda>l. next_category_order (mn_categories l)))
       (\<lambda>order. menu_change srv mp
          (call (ms_done srv) (Call ''POST'' (menu_base mp @ ''/categories'')
             (Some (JObj [(''name'', JStr name), (''sort_order'', JNum order)])))) None)"

definition fold_category :: "string \<Rightarrow> menu_state \<Rightarrow> menu_state" where
  "fold_category ident l =
     l\<lparr>mn_collapsed := (if ident \<in> set (mn_collapsed l) then set_delete ident (mn_collapsed l)
                        else set_add ident (mn_collapsed l))\<rparr>"

text \<open>The dialog that asks for a name: it only checks it, and the page does the work once it is closed.\<close>

record name_dialog = dialog +
  nd_name :: string

definition new_name_dialog :: "string \<Rightarrow> name_dialog" where
  "new_name_dialog v =
     \<lparr>ui_status = statusLine, ui_busy = False, dl_open = True, dl_keep = False, nd_name = v\<rparr>"

definition submit_name :: "translator \<Rightarrow> (string \<Rightarrow> (menu_state, unit) act) \<Rightarrow> name_dialog \<Rightarrow> (menu_state, name_dialog) act" where
  "submit_name t onSubmit d =
     submit_on_page t (bind (gets nd_name) (\<lambda>v. ret (js_trim v \<noteq> []))) (onSubmit (js_trim (nd_name d))) d"

section \<open>The section as it is drawn\<close>

definition named_button ::
  "string \<Rightarrow> variant \<Rightarrow> string option \<Rightarrow> string option \<Rightarrow> bool \<Rightarrow> menu_action \<Rightarrow> menu_action child" where
  "named_button label v title aria off act =
     CNode (button ((plain_button label)\<lparr>bt_variant := v, bt_title := title, bt_aria := aria, bt_disabled := off,
       bt_onclick := Some act\<rparr>))"

definition menu_item_row :: "menu_page_context \<Rightarrow> menu_item \<Rightarrow> menu_action node" where
  "menu_item_row mp item =
     (let a = mp_app mp; t = mp_t mp
      in el ''li'' [(''class'', AStr (js_class ''menu-item'' (if mi_available item then [] else ''menu-item-unavailable'')))]
        (map CNode (menuItemParts a item)
         @ [CNode (el ''span'' [(''class'', AStr ''menu-price''),
              (''text'', AStr (formatMoney (app_intl a) (language a) (mi_price_cents item)
                 (r_currency_code (mp_restaurant mp)) (menu_money mp)))] []),
            CNode (actions
              [named_button (translate t ''action.edit'' []) Primary None
                 (Some (translate t ''action.edit'' [] @ '': '' @ mi_name item)) False (EditMenuDish item),
               named_button (translate t ''action.duplicate'' []) Quiet None
                 (Some (translate t ''action.duplicate'' [] @ '': '' @ mi_name item)) False (CopyDish (mi_id item))])]))"

definition menu_item_list :: "menu_page_context \<Rightarrow> bool \<Rightarrow> menu_item list \<Rightarrow> menu_action node" where
  "menu_item_list mp folded own =
     set_flag ''hidden'' folded
       (el ''ul'' [(''class'', AStr ''plain-list menu-items'')] (map (\<lambda>d. CNode (menu_item_row mp d)) own))"

definition category_controls :: "menu_page_context \<Rightarrow> category list \<Rightarrow> nat \<Rightarrow> category \<Rightarrow> menu_action child list" where
  "category_controls mp cs n c =
     (let t = mp_t mp; named = (\<lambda>k. Some (translate t k [] @ '': '' @ ca_name c))
      in [named_button (translate t ''action.edit'' []) Primary (named ''menu.category.rename'') (named ''menu.category.rename'')
            False (RenameCategory c),
          named_button (translate t ''availability.title'' []) Quiet (named ''availability.attached'') (named ''availability.attached'')
            False (AttachCategory c),
          named_button (translate t ''action.duplicate'' []) Quiet (named ''action.duplicate'') (named ''action.duplicate'')
            False (CopyCategory (ca_id c)),
          named_button (translate t ''menu.category.move_up'' []) Quiet None None (n = 0) (MoveUp n),
          named_button (translate t ''menu.category.move_down'' []) Quiet None None (n + 1 = length cs) (MoveDown n)]
         @ (if isAdmin (app_session (mp_app mp))
            then [named_button (translate t ''menu.category.delete'' []) Danger None None False (DeleteCategory c)] else []))"

definition category_group :: "menu_page_context \<Rightarrow> menu_state \<Rightarrow> nat \<Rightarrow> category \<Rightarrow> menu_action node" where
  "category_group mp l n c =
     (let folded = (ca_id c \<in> set (mn_collapsed l));
          toggle = el ''button''
            [(''type'', AStr ''button''), (''class'', AStr ''menu-group-toggle''),
             (''aria-expanded'', AStr (if folded then ''false'' else ''true'')), (''onclick'', AFun (FoldCategory (ca_id c)))]
            [CNode (icon (if folded then ''chevron-right'' else ''chevron-down'') None),
             CNode (el ''h3'' [(''class'', AStr ''menu-group-title''), (''text'', AStr (ca_name c))] [])];
          rule = node_children (availabilityChip (mp_app mp) (case ca_availability c of None \<Rightarrow> [] | Some fs \<Rightarrow> fs))
      in el ''div'' [(''class'', AStr ''menu-group'')]
        [CNode (el ''div'' [(''class'', AStr ''menu-group-header'')]
           ([CNode toggle] @ rule @ [CNode (actions (category_controls mp (mn_categories l) n c))])),
         CNode (menu_item_list mp folded (filter (\<lambda>d. mi_category_id d = Some (ca_id c)) (mn_items l)))])"

definition menu_body :: "menu_page_context \<Rightarrow> menu_state \<Rightarrow> menu_action child list" where
  "menu_body mp l =
     (let t = mp_t mp; cs = mn_categories l; loose = filter (\<lambda>d. mi_category_id d = None) (mn_items l);
          groups = map (\<lambda>(n, c). CNode (category_group mp l n c)) (enumerate 0 cs)
            @ (if loose \<noteq> []
               then [if cs = [] then CNode (menu_item_list mp False loose)
                     else CNode (el ''div'' [(''class'', AStr ''menu-group'')]
                       [CNode (el ''h3'' [(''class'', AStr ''menu-group-title''), (''text'', AStr (translate t ''menu.category.none'' []))] []),
                        CNode (menu_item_list mp False loose)])]
               else [])
      in if groups = [] then [CNode (el ''p'' [(''class'', AStr ''muted''), (''text'', AStr (translate t ''menu.empty'' []))] [])]
         else groups)"

definition menu_toolbar :: "menu_page_context \<Rightarrow> menu_action node" where
  "menu_toolbar mp =
     el ''div'' [(''class'', AStr ''menu-toolbar'')]
       [named_button (translate (mp_t mp) ''item.add'' []) Primary None None False NewDish,
        named_button (translate (mp_t mp) ''menu.category.add'' []) Primary None None False NewCategory]"

definition menuSection :: "menu_page_context \<Rightarrow> menu_state \<Rightarrow> menu_action node" where
  "menuSection mp l =
     card [CNode (menu_toolbar mp), CNode (append (el ''div'' [(''class'', AStr ''menu-editor'')] []) (menu_body mp l)),
           CNode (status_element (ui_status l))]"

text \<open>What the editor of a dish is opened with.\<close>

definition dish_context_of :: "menu_page_context \<Rightarrow> menu_state \<Rightarrow> menu_item option \<Rightarrow> dish_context" where
  "dish_context_of mp l item =
     \<lparr>dc_app = mp_app mp, dc_reference = mp_reference mp, dc_restaurant_id = r_id (mp_restaurant mp),
      dc_categories = mn_categories l, dc_money = menu_money mp, dc_item = item,
      dc_category = (case item of None \<Rightarrow> None | Some d \<Rightarrow> mi_category_id d)\<rparr>"

section \<open>What a change asks for and says\<close>

definition get_categories :: "menu_page_context \<Rightarrow> http_call" where
  "get_categories mp = Call ''GET'' (menu_base mp @ ''/categories'') None"

definition get_items :: "menu_page_context \<Rightarrow> http_call" where
  "get_items mp = Call ''GET'' (menu_base mp @ ''/menu-items'') None"

text \<open>What reading the menu again leaves of the lists, given the trace it starts with.\<close>

definition lists_after :: "menu_server \<Rightarrow> menu_page_context \<Rightarrow> effect list \<Rightarrow> menu_state \<Rightarrow> category list \<times> menu_item list" where
  "lists_after srv mp done l =
     (case (ms_categories srv done (get_categories mp), ms_items srv (done @ [Sent (get_categories mp)]) (get_items mp)) of
        (Inr cs, Inr ds) \<Rightarrow> (cs, ds)
      | _ \<Rightarrow> (mn_categories l, mn_items l))"

lemma read_menu_ends:
  "fst (read_menu srv mp w) = Inr ()"
  "trace (snd (read_menu srv mp w)) = trace w @ [Sent (get_categories mp), Sent (get_items mp)]"
  "(mn_categories (local (snd (read_menu srv mp w))), mn_items (local (snd (read_menu srv mp w)))) = lists_after srv mp (trace w) (local w)"
  "mn_collapsed (local (snd (read_menu srv mp w))) = mn_collapsed (local w)"
  by (auto simp: read_menu_def act_simps runAction_run action_start_def released_def lists_after_def get_categories_def
      get_items_def Let_def split: sum.split prod.split)

lemma menu_change_call:
  "(let out = menu_change srv mp (call (ms_done srv) c) said w; l = local (snd out)
    in fst out = Inr ()
       \<and> (case ms_done srv (trace w) c of
            Inl e \<Rightarrow> trace (snd out) = trace w @ [Sent c]
              \<and> ui_status l = \<lparr>st_text = errorMessage (mp_t mp) e, st_error = True\<rparr>
              \<and> (mn_categories l, mn_items l) = (mn_categories (local w), mn_items (local w))
          | Inr _ \<Rightarrow> trace (snd out) = trace w @ [Sent c, Sent (get_categories mp), Sent (get_items mp)]
              \<and> (case said of None \<Rightarrow> True | Some k \<Rightarrow> ui_status l = \<lparr>st_text = translate (mp_t mp) k [], st_error = False\<rparr>)
              \<and> (mn_categories l, mn_items l) = lists_after srv mp (trace w @ [Sent c]) (local w)))"
proof (cases "ms_done srv (trace w) c")
  case (Inl e)
  then show ?thesis
    by (simp add: menu_change_def act_simps runAction_run action_start_def released_def fail_with_def Let_def)
next
  case (Inr u)
  let ?w = "(action_start False w)\<lparr>trace := trace w @ [Sent c]\<rparr>"
  obtain r w' where run: "read_menu srv mp ?w = (r, w')" by (cases "read_menu srv mp ?w")
  have start: "mn_categories (local ?w) = mn_categories (local w)" "mn_items (local ?w) = mn_items (local w)"
    by (simp_all add: action_start_def Let_def)
  then have lists: "lists_after srv mp tr (local ?w) = lists_after srv mp tr (local w)" for tr
    by (simp only: lists_after_def)
  from read_menu_ends [of srv mp ?w] run start have
    "r = Inr ()" "trace w' = trace w @ [Sent c, Sent (get_categories mp), Sent (get_items mp)]"
    "(mn_categories (local w'), mn_items (local w')) = lists_after srv mp (trace w @ [Sent c]) (local w)"
    using lists by simp_all
  with Inr run show ?thesis
    by (cases said)
      (simp_all add: menu_change_def act_simps runAction_run released_def on_status_def say_def Let_def action_start_def)
qed

text \<open>
  Copying a dish or a category: one request, and the menu is read again exactly when the server
  has made the copy; a refusal is said and leaves the lists as they are. After a copy has been made
  the page says so - also when reading the menu again failed, so that the copy is not on the page.
\<close>

theorem copy_reported:
  "(let c = Call ''POST'' (menu_base mp @ ''/'' @ path @ ''/duplicate'')
              (Some (JObj [(''label'', JStr (translate (mp_t mp) ''menu.copy_label'' []))]));
        out = duplicate_in_menu srv mp path w; l = local (snd out)
    in fst out = Inr ()
       \<and> (case ms_done srv (trace w) c of
            Inl e \<Rightarrow> trace (snd out) = trace w @ [Sent c]
              \<and> ui_status l = \<lparr>st_text = errorMessage (mp_t mp) e, st_error = True\<rparr>
              \<and> (mn_categories l, mn_items l) = (mn_categories (local w), mn_items (local w))
          | Inr _ \<Rightarrow> trace (snd out) = trace w @ [Sent c, Sent (get_categories mp), Sent (get_items mp)]
              \<and> ui_status l = \<lparr>st_text = translate (mp_t mp) ''menu.duplicated'' [], st_error = False\<rparr>
              \<and> (mn_categories l, mn_items l) =
                  (case (ms_categories srv (trace w @ [Sent c]) (get_categories mp),
                         ms_items srv (trace w @ [Sent c, Sent (get_categories mp)]) (get_items mp)) of
                     (Inr cs, Inr ds) \<Rightarrow> (cs, ds)
                   | _ \<Rightarrow> (mn_categories (local w), mn_items (local w)))))"
  using menu_change_call [of srv mp "Call ''POST'' (menu_base mp @ ''/'' @ path @ ''/duplicate'')
              (Some (JObj [(''label'', JStr (translate (mp_t mp) ''menu.copy_label'' []))]))" "Some ''menu.duplicated''" w]
  unfolding duplicate_in_menu_def Let_def lists_after_def option.case append_assoc append_Cons append_Nil .

section \<open>What the section offers\<close>

lemma named_button_actions [node_simps]: "set (child_actions (named_button l v ti ar off act)) = {act}"
  by (simp add: named_button_def node_simps)

lemma menu_item_row_actions [node_simps]:
  "set (actions_of (menu_item_row mp item)) = {EditMenuDish item, CopyDish (mi_id item)}"
proof -
  have parts: "(\<Union>n \<in> set (menuItemParts (mp_app mp) item). set (actions_of (n :: menu_action node))) = {}"
    by (auto simp: parts_no_actions)
  show ?thesis unfolding menu_item_row_def Let_def by (simp add: node_simps parts insert_commute)
qed

lemma menu_item_list_actions [node_simps]:
  "set (actions_of (menu_item_list mp folded own)) = (\<Union>d \<in> set own. {EditMenuDish d, CopyDish (mi_id d)})"
  by (simp add: menu_item_list_def set_flag_def node_simps)

definition category_actions :: "menu_page_context \<Rightarrow> nat \<times> category \<Rightarrow> menu_action set" where
  "category_actions mp nc =
     {RenameCategory (snd nc), AttachCategory (snd nc), CopyCategory (ca_id (snd nc)), MoveUp (fst nc), MoveDown (fst nc),
      FoldCategory (ca_id (snd nc))} \<union> (if isAdmin (app_session (mp_app mp)) then {DeleteCategory (snd nc)} else {})"

lemma category_group_actions [node_simps]:
  "set (actions_of (category_group mp l n c)) = category_actions mp (n, c)
     \<union> (\<Union>d \<in> {d \<in> set (mn_items l). mi_category_id d = Some (ca_id c)}. {EditMenuDish d, CopyDish (mi_id d)})"
proof -
  have rule: "(\<Union>x \<in> set (node_children (availabilityChip (mp_app mp) fs)). set (child_actions (x :: menu_action child))) = {}" for fs
    by (cases "availabilityChip (mp_app mp) fs :: menu_action node option") (auto simp: node_children_def chip_actions)
  show ?thesis
    unfolding category_group_def Let_def
    by (auto simp: node_simps rule category_controls_def Let_def category_actions_def)
qed

text \<open>
  The menu tab shows every dish that has no category or one of the categories that were read, to
  be corrected and copied, and every category to be renamed, copied, moved and folded; only an
  administrator is offered to delete one.
\<close>

theorem menu_tab_offers:
  "set (actions_of (menuSection mp l)) =
     {NewDish, NewCategory} \<union> (\<Union>nc \<in> set (enumerate 0 (mn_categories l)). category_actions mp nc)
     \<union> (\<Union>d \<in> {d \<in> set (mn_items l). case mi_category_id d of None \<Rightarrow> True | Some c \<Rightarrow> c \<in> ca_id ` set (mn_categories l)}.
          {EditMenuDish d, CopyDish (mi_id d)})"
proof -
  have body: "(\<Union>x \<in> set (menu_body mp l). set (child_actions x)) =
     (\<Union>nc \<in> set (enumerate 0 (mn_categories l)). category_actions mp nc)
     \<union> (\<Union>d \<in> {d \<in> set (mn_items l). case mi_category_id d of None \<Rightarrow> True | Some c \<Rightarrow> c \<in> ca_id ` set (mn_categories l)}.
          {EditMenuDish d, CopyDish (mi_id d)})" (is "?body = ?cats \<union> ?dishes")
  proof -
    have cats: "set (mn_categories l) = snd ` set (enumerate 0 (mn_categories l))"
      by (metis list.set_map map_snd_enumerate)
    have split: "?dishes = (\<Union>nc \<in> set (enumerate 0 (mn_categories l)).
          \<Union>d \<in> {d \<in> set (mn_items l). mi_category_id d = Some (ca_id (snd nc))}. {EditMenuDish d, CopyDish (mi_id d)})
        \<union> (\<Union>d \<in> {d \<in> set (mn_items l). mi_category_id d = None}. {EditMenuDish d, CopyDish (mi_id d)})"
    proof -
      have "{d \<in> set (mn_items l). case mi_category_id d of None \<Rightarrow> True | Some c \<Rightarrow> c \<in> ca_id ` set (mn_categories l)}
          = (\<Union>nc \<in> set (enumerate 0 (mn_categories l)). {d \<in> set (mn_items l). mi_category_id d = Some (ca_id (snd nc))})
            \<union> {d \<in> set (mn_items l). mi_category_id d = None}" (is "?listed = ?parts")
      proof (rule set_eqI)
        fix d
        show "d \<in> ?listed \<longleftrightarrow> d \<in> ?parts" unfolding cats by (cases "mi_category_id d") (auto simp: image_iff)
      qed
      then show ?thesis by (simp only: UN_Un UN_UN_flatten)
    qed
    have loose: "(\<Union>d \<in> {d \<in> set (mn_items l). mi_category_id d = None}. {EditMenuDish d, CopyDish (mi_id d)})
        = (\<Union>d \<in> set (filter (\<lambda>d. mi_category_id d = None) (mn_items l)). {EditMenuDish d, CopyDish (mi_id d)})"
      by simp
    have drawn: "(\<Union>x \<in> set (menu_body mp l). set (child_actions x)) =
        (\<Union>nc \<in> set (enumerate 0 (mn_categories l)). set (actions_of (category_group mp l (fst nc) (snd nc))))
        \<union> (\<Union>d \<in> set (filter (\<lambda>d. mi_category_id d = None) (mn_items l)). {EditMenuDish d, CopyDish (mi_id d)})"
    proof (cases "mn_categories l = []"; cases "filter (\<lambda>d. mi_category_id d = None) (mn_items l) = []")
    qed (simp_all add: menu_body_def Let_def node_simps case_prod_unfold Un_commute del: category_group_actions set_filter)
    show ?thesis
      unfolding split drawn loose category_group_actions by (simp add: UN_Un_distrib Un_assoc)
  qed
  show ?thesis
    unfolding menuSection_def menu_toolbar_def by (simp add: node_simps set_actions_append body Un_assoc insert_commute)
qed

end
