(* ===== verification/Chrome.thy ===== *)
theory Chrome
  imports Parts Cookies
begin

text \<open>
  What is on the screen whatever page is open: the title bar with its two panels
  (\<open>src/chrome/titlebar.ts\<close>) and the shell around the page (\<open>src/chrome/shell.ts\<close>). The registry of
  catalogs and the drawing of the mark are files of the build and arguments here.
\<close>

section \<open>A button that opens a panel below it\<close>

datatype panel_focus = FocusElsewhere | FocusOnButton | FocusInPanel

text \<open>
  The panel, what the button says about it, the two listeners on the document, and where the code
  last put the focus. The title of the button is what \<open>onToggle\<close> makes of it.
\<close>

record dropdown =
  dd_hidden :: bool
  dd_expanded :: string
  dd_title :: string
  dd_keydown :: bool
  dd_click :: bool
  dd_focus :: panel_focus

definition new_dropdown :: "string \<Rightarrow> dropdown" where
  "new_dropdown title =
     \<lparr>dd_hidden = True, dd_expanded = ''false'', dd_title = title, dd_keydown = False, dd_click = False,
      dd_focus = FocusElsewhere\<rparr>"

definition setOpen :: "(bool \<Rightarrow> string) option \<Rightarrow> bool \<Rightarrow> bool \<Rightarrow> dropdown \<Rightarrow> dropdown" where
  "setOpen onToggle entries opening d =
     (if opening = (\<not> dd_hidden d) then d
      else let d1 = d\<lparr>dd_hidden := \<not> opening, dd_expanded := (if opening then ''true'' else ''false''),
                     dd_title := (case onToggle of None \<Rightarrow> dd_title d | Some f \<Rightarrow> f opening)\<rparr>
           in if opening
              then d1\<lparr>dd_keydown := True, dd_click := True, dd_focus := (if entries then FocusInPanel else dd_focus d)\<rparr>
              else d1\<lparr>dd_keydown := False, dd_click := False\<rparr>)"

text \<open>
  What the person does. A click reaches the listener of the button or of the panel first and then
  the one on the document, when that is attached by then; inside the container the latter does
  nothing.
\<close>

datatype dropdown_event = PressDropdown | ClickEntry | ClickOutside | KeyEscape | KeyOther | FocusMoves panel_focus

fun dropdown_do :: "(bool \<Rightarrow> string) option \<Rightarrow> bool \<Rightarrow> dropdown_event \<Rightarrow> dropdown \<Rightarrow> dropdown" where
  "dropdown_do f entries PressDropdown d = setOpen f entries (dd_hidden d) d"
| "dropdown_do f entries ClickEntry d = setOpen f entries False d"
| "dropdown_do f entries ClickOutside d = (if dd_click d then setOpen f entries False d else d)"
| "dropdown_do f entries KeyEscape d =
     (if dd_keydown d then (setOpen f entries False d)\<lparr>dd_focus := FocusOnButton\<rparr> else d)"
| "dropdown_do f entries KeyOther d = d"
| "dropdown_do f entries (FocusMoves p) d = d\<lparr>dd_focus := p\<rparr>"

definition title_when :: "(bool \<Rightarrow> string) option \<Rightarrow> string \<Rightarrow> bool \<Rightarrow> string" where
  "title_when f title b = (case f of None \<Rightarrow> title | Some g \<Rightarrow> g b)"

definition dropdown_good :: "(bool \<Rightarrow> string) option \<Rightarrow> string \<Rightarrow> dropdown \<Rightarrow> bool" where
  "dropdown_good f title d \<longleftrightarrow>
     dd_expanded d = (if dd_hidden d then ''false'' else ''true'')
     \<and> dd_keydown d = (\<not> dd_hidden d) \<and> dd_click d = (\<not> dd_hidden d)
     \<and> dd_title d = title_when f title (\<not> dd_hidden d)"

lemma setOpen_same: "dd_hidden d = (\<not> b) \<Longrightarrow> setOpen f n b d = d"
  by (simp add: setOpen_def)

lemma setOpen_parts [simp]:
  assumes "dropdown_good f title d"
  shows "dd_hidden (setOpen f n b d) = (\<not> b)" "dd_keydown (setOpen f n b d) = b" "dd_click (setOpen f n b d) = b"
    "dd_expanded (setOpen f n b d) = (if b then ''true'' else ''false'')"
    "dd_title (setOpen f n b d) = title_when f title b"
    "dd_focus (setOpen f n False d) = dd_focus d"
  using assms by (cases b; cases "dd_hidden d"; simp add: dropdown_good_def setOpen_def title_when_def Let_def split: option.split)+

lemma setOpen_good: "dropdown_good f title d \<Longrightarrow> dropdown_good f title (setOpen f n b d)"
  by (simp add: dropdown_good_def [of f title "setOpen f n b d"])

lemma good_dropdown:
  assumes "dropdown_good f title d"
  shows "dd_expanded d = (if dd_hidden d then ''false'' else ''true'')" "dd_keydown d = (\<not> dd_hidden d)"
    "dd_click d = (\<not> dd_hidden d)" "dd_title d = title_when f title (\<not> dd_hidden d)"
  using assms by (simp_all add: dropdown_good_def)

interpretation panel: event_machine "dropdown_do f n" "dropdown_good f title"
proof
  fix d e
  assume g: "dropdown_good f title d"
  have focus: "dropdown_good f title (x\<lparr>dd_focus := p\<rparr>) = dropdown_good f title x" for x p
    by (simp add: dropdown_good_def)
  show "dropdown_good f title (dropdown_do f n e d)"
    using g by (cases e) (simp_all add: focus setOpen_good)
qed

text \<open>
  The panels of the title bar leave nothing behind: whatever is clicked and typed, the listeners
  on the document are there exactly while the panel is open, the button says which it is, Escape
  closes an open panel and puts the focus on its button, a click elsewhere closes it and leaves the
  focus where it is, and neither does anything while it is closed.
\<close>

theorem panel_leaves_nothing:
  "(let d = fold (dropdown_do f n) es (new_dropdown (title_when f title False));
        escaped = dropdown_do f n KeyEscape d; outside = dropdown_do f n ClickOutside d
    in dd_keydown d = (\<not> dd_hidden d) \<and> dd_click d = (\<not> dd_hidden d)
       \<and> dd_expanded d = (if dd_hidden d then ''false'' else ''true'')
       \<and> (if dd_hidden d then escaped = d \<and> outside = d
          else dd_hidden escaped \<and> \<not> dd_keydown escaped \<and> \<not> dd_click escaped \<and> dd_focus escaped = FocusOnButton
               \<and> dd_hidden outside \<and> \<not> dd_keydown outside \<and> \<not> dd_click outside \<and> dd_focus outside = dd_focus d)
       \<and> dd_hidden (dropdown_do f n PressDropdown d) = (\<not> dd_hidden d)
       \<and> dd_title d = (case f of None \<Rightarrow> title | Some g \<Rightarrow> g (\<not> dd_hidden d)))"
proof -
  define d where "d = fold (dropdown_do f n) es (new_dropdown (title_when f title False))"
  have g: "dropdown_good f title d"
    unfolding d_def
    by (rule panel.good_run) (simp add: dropdown_good_def new_dropdown_def)
  show ?thesis
    unfolding Let_def d_def [symmetric] using g by (simp add: good_dropdown [OF g] title_when_def)
qed

section \<open>The title bar\<close>

datatype panel_name = LanguagePanel | MenuPanel
datatype chrome_action = ChooseLanguage string | SwitchTheme | PressLogout | TogglePanel panel_name | PanelClicked panel_name

text \<open>What drawing the chrome reads of the application and of the document.\<close>

record chrome_view =
  cv_app :: app
  cv_registry :: registry
  cv_theme :: theme
  cv_version :: "version_info option"
  cv_template :: "logo_asset option"

definition cv_t :: "chrome_view \<Rightarrow> translator" where
  "cv_t v = app_t (cv_app v)"

definition available_languages :: "chrome_view \<Rightarrow> catalog_meta list" where
  "available_languages v = languages (app_intl (cv_app v)) (cv_registry v)"

text \<open>The title of the language in force, or its code when no catalog says.\<close>

definition current_endonym :: "chrome_view \<Rightarrow> string" where
  "current_endonym v =
     (case List.find (\<lambda>m. cm_code m = language (cv_app v)) (available_languages v) of
        None \<Rightarrow> language (cv_app v) | Some m \<Rightarrow> cm_endonym m)"

definition dropdown_container :: "panel_name \<Rightarrow> string \<Rightarrow> chrome_action node \<Rightarrow> chrome_action node \<Rightarrow> chrome_action node" where
  "dropdown_container p cls toggle panel =
     el ''div'' [(''class'', AStr cls)]
       [CNode (add_listener ''click'' (TogglePanel p) toggle), CNode (add_listener ''click'' (PanelClicked p) panel)]"

definition panel_button :: "string \<Rightarrow> string \<Rightarrow> string \<Rightarrow> chrome_action child list \<Rightarrow> chrome_action node" where
  "panel_button cls label controls inner =
     el ''button'' [(''type'', AStr ''button''), (''class'', AStr cls), (''aria-label'', AStr label),
       (''aria-haspopup'', AStr ''true''), (''aria-expanded'', AStr ''false''), (''aria-controls'', AStr controls)] inner"

definition language_entry :: "chrome_view \<Rightarrow> catalog_meta \<Rightarrow> chrome_action node" where
  "language_entry v m =
     el ''button''
       ([(''type'', AStr ''button''), (''class'', AStr ''menu-entry''), (''text'', AStr (cm_endonym m)), (''lang'', AStr (cm_code m))]
        @ (if cm_code m = language (cv_app v) then [(''aria-current'', AStr ''true'')] else [])
        @ [(''onclick'', AFun (ChooseLanguage (cm_code m)))]) []"

definition languageSelector :: "chrome_view \<Rightarrow> chrome_action child" where
  "languageSelector v =
     (let available = available_languages v; t = cv_t v; current = current_endonym v
      in if length available < 2 then CNull
         else CNode (dropdown_container LanguagePanel ''language-container''
           (panel_button ''language-button'' (translate t ''language.select'' [] @ '': '' @ current) ''language-menu''
              [CNode (el ''span'' [(''text'', AStr current), (''lang'', AStr (language (cv_app v)))] []),
               CNode (icon ''chevron-down'' None)])
           (append (el ''div'' [(''class'', AStr ''menu language-menu''), (''id'', AStr ''language-menu''), (''hidden'', ABool True)] [])
              (map (\<lambda>m. CNode (language_entry v m)) available))))"

definition themeToggle :: "chrome_view \<Rightarrow> chrome_action node" where
  "themeToggle v =
     (let dark = (cv_theme v = Dark); t = cv_t v
      in el ''button''
           [(''type'', AStr ''button''), (''class'', AStr ''icon-button''), (''aria-label'', AStr (translate t ''theme.toggle'' [])),
            (''title'', AStr (translate t (if dark then ''theme.light'' else ''theme.dark'') [])),
            (''onclick'', AFun SwitchTheme)]
           [CNode (icon (if dark then ''sun'' else ''moon'') None)])"

definition accountControl :: "chrome_view \<Rightarrow> chrome_action node" where
  "accountControl v =
     (let t = cv_t v; a = cv_app v
      in case current (app_session a) of
           None \<Rightarrow> el ''a'' [(''class'', AStr ''button button-quiet''), (''href'', AStr (loginHref (app_path a))),
                     (''text'', AStr (translate t ''auth.login_or_register'' []))] []
         | Some u \<Rightarrow> el ''div'' [(''class'', AStr ''account'')]
             [CNode (el ''a'' [(''class'', AStr ''account-name''), (''href'', AStr ''/account'')]
                [CNode (icon ''user'' None), CNode (el ''span'' [(''text'', AStr (su_display_name u))] [])]),
              CNode (el ''button'' [(''type'', AStr ''button''), (''class'', AStr ''icon-button''),
                (''aria-label'', AStr (translate t ''auth.logout'' [])), (''title'', AStr (translate t ''auth.logout'' [])),
                (''onclick'', AFun PressLogout)] [CNode (icon ''logout'' None)])])"

record menu_entry =
  me_href :: string
  me_label :: string
  me_external :: bool

definition inside :: "translator \<Rightarrow> string \<Rightarrow> string \<Rightarrow> menu_entry" where
  "inside t href k = \<lparr>me_href = href, me_label = translate t k [], me_external = False\<rparr>"

definition menuEntries :: "chrome_view \<Rightarrow> menu_entry list" where
  "menuEntries v =
     (let t = cv_t v; s = app_session (cv_app v)
      in [inside t ''/'' ''nav.orders'', inside t ''/restaurants'' ''nav.restaurants'']
         @ (if isAuthenticated s then [inside t ''/account'' ''nav.account''] else [])
         @ (if isAdmin s then [inside t ''/admin/users'' ''nav.users''] else [])
         @ [inside t ''/version'' ''nav.version'', inside t ''/imprint'' ''nav.imprint'',
            inside t ''/legal-notes'' ''nav.legal_notes'']
         @ (if map_option v_swagger (cv_version v) \<noteq> Some False
            then [\<lparr>me_href = ''/tools/swagger/'', me_label = translate t ''nav.api_docs'' [], me_external = True\<rparr>] else []))"

definition menu_link :: "menu_entry \<Rightarrow> chrome_action node" where
  "menu_link e =
     el ''a'' ([(''class'', AStr ''menu-entry''), (''href'', AStr (me_href e)), (''text'', AStr (me_label e))]
        @ (if me_external e then [(''target'', AStr ''_blank''), (''rel'', AStr ''noreferrer'')] else [])) []"

definition menuButton :: "chrome_view \<Rightarrow> chrome_action node" where
  "menuButton v =
     (let t = cv_t v
      in dropdown_container MenuPanel ''menu-container''
           (panel_button ''icon-button'' (translate t ''nav.open_menu'' []) ''main-menu'' [CNode (icon ''menu'' None)])
           (append (el ''nav'' [(''class'', AStr ''menu''), (''id'', AStr ''main-menu''), (''hidden'', ABool True),
                      (''aria-label'', AStr (translate t ''nav.menu'' []))] [])
              (map (\<lambda>e. CNode (menu_link e)) (menuEntries v))))"

text \<open>The two panels as they start, with what their buttons say about them.\<close>

definition language_panel :: "chrome_view \<Rightarrow> dropdown" where
  "language_panel v = new_dropdown (translate (cv_t v) ''language.select'' [] @ '': '' @ current_endonym v)"

definition menu_title :: "translator \<Rightarrow> bool \<Rightarrow> string" where
  "menu_title t opening = translate t (if opening then ''nav.close_menu'' else ''nav.open_menu'') []"

definition menu_panel :: "chrome_view \<Rightarrow> dropdown" where
  "menu_panel v = new_dropdown (menu_title (cv_t v) False)"

definition renderTitleBar :: "chrome_view \<Rightarrow> chrome_action node" where
  "renderTitleBar v =
     (let t = cv_t v;
          brand = el ''a'' [(''class'', AStr ''brand''), (''href'', AStr ''/''), (''aria-label'', AStr (translate t ''nav.home'' []))]
            [CNode (fst (logoMark (cv_template v) (Some ''logo'') None [])),
             CNode (el ''span'' [(''class'', AStr ''brand-name''), (''text'', AStr (translate t ''app.name'' []))] [])];
          bar = el ''div'' [(''class'', AStr ''titlebar-inner'')]
            [CNode brand, CNode (el ''div'' [(''class'', AStr ''titlebar-spacer'')] []), languageSelector v,
             CNode (themeToggle v), CNode (accountControl v), CNode (menuButton v)]
      in el ''header'' [(''class'', AStr ''titlebar'')] [CNode bar])"

section \<open>The shell\<close>

record shell =
  sh_element :: "chrome_action node"
  sh_outlet :: "chrome_action node"
  sh_live :: "chrome_action node"

definition renderShell :: "chrome_view \<Rightarrow> shell" where
  "renderShell v =
     (let skip = el ''a'' [(''class'', AStr ''skip-link''), (''href'', AStr ''#main''),
                   (''text'', AStr (translate (cv_t v) ''nav.skip'' []))] [];
          out = el ''main'' [(''class'', AStr ''page''), (''id'', AStr ''main''), (''tabindex'', AStr ''-1'')] [];
          live = el ''div'' [(''class'', AStr ''visually-hidden''), (''id'', AStr ''live-region''), (''role'', AStr ''status''),
                   (''aria-live'', AStr ''polite'')] [];
          element = el ''div'' [(''class'', AStr ''shell''), (''id'', AStr ''app-root'')]
            [CNode skip, CNode (renderTitleBar v), CNode out, CNode live]
      in \<lparr>sh_element = element, sh_outlet = out, sh_live = live\<rparr>)"

section \<open>What the title bar offers\<close>

lemma listener_actions [node_simps]:
  "tag_name x \<noteq> [] \<Longrightarrow> set (actions_of (add_listener e f x)) = insert f (set (actions_of x))"
  by (cases x) auto

lemma language_entry_actions [node_simps]: "set (actions_of (language_entry v m)) = {ChooseLanguage (cm_code m)}"
  by (simp add: language_entry_def node_simps)

lemma menu_link_actions [node_simps]: "actions_of (menu_link e) = []"
  by (auto simp: menu_link_def node_simps)

lemma language_selector_actions [node_simps]:
  "set (child_actions (languageSelector v)) =
     (if length (available_languages v) < 2 then {}
      else {TogglePanel LanguagePanel, PanelClicked LanguagePanel} \<union> ChooseLanguage ` cm_code ` set (available_languages v))"
  by (auto simp: languageSelector_def Let_def dropdown_container_def panel_button_def node_simps set_actions_append)

lemma menu_button_actions [node_simps]:
  "set (actions_of (menuButton v)) = {TogglePanel MenuPanel, PanelClicked MenuPanel}"
  by (auto simp: menuButton_def Let_def dropdown_container_def panel_button_def node_simps set_actions_append)

lemma account_control_actions [node_simps]:
  "set (actions_of (accountControl v)) = (if current (app_session (cv_app v)) = None then {} else {PressLogout})"
  by (cases "current (app_session (cv_app v))") (simp_all add: accountControl_def Let_def node_simps)

text \<open>
  The title bar offers what applies: logging out to whoever is logged in and logging in to
  everybody else, exactly the languages of the build when there is a choice, the user
  administration to the administrator alone, one's own account to whoever is logged in, and the
  API documentation unless the server has said that it serves none, in a window of its own.
\<close>

theorem title_bar_offers:
  "(let s = app_session (cv_app v); langs = available_languages v
    in set (actions_of (renderTitleBar v)) =
         {SwitchTheme, TogglePanel MenuPanel, PanelClicked MenuPanel}
         \<union> (if current s = None then {} else {PressLogout})
         \<union> (if length langs < 2 then {}
            else {TogglePanel LanguagePanel, PanelClicked LanguagePanel} \<union> ChooseLanguage ` cm_code ` set langs)
       \<and> tag_name (accountControl v) = (if current s = None then ''a'' else ''div'')
       \<and> me_href ` set (menuEntries v) =
           {''/'', ''/restaurants'', ''/version'', ''/imprint'', ''/legal-notes''}
           \<union> (if current s = None then {} else {''/account''})
           \<union> (case current s of None \<Rightarrow> {} | Some u \<Rightarrow> if su_is_admin u then {''/admin/users''} else {})
           \<union> (case cv_version v of None \<Rightarrow> {''/tools/swagger/''}
              | Some info \<Rightarrow> if v_swagger info then {''/tools/swagger/''} else {})
       \<and> me_href ` {e \<in> set (menuEntries v). me_external e} \<subseteq> {''/tools/swagger/''})"
proof -
  have "set (actions_of (renderTitleBar v)) =
         {SwitchTheme, TogglePanel MenuPanel, PanelClicked MenuPanel}
         \<union> (if current (app_session (cv_app v)) = None then {} else {PressLogout})
         \<union> (if length (available_languages v) < 2 then {}
            else {TogglePanel LanguagePanel, PanelClicked LanguagePanel} \<union> ChooseLanguage ` cm_code ` set (available_languages v))"
    by (auto simp: renderTitleBar_def Let_def themeToggle_def node_simps)
  moreover have "tag_name (accountControl v) = (if current (app_session (cv_app v)) = None then ''a'' else ''div'')"
    by (simp add: accountControl_def Let_def split: option.split)
  ultimately show ?thesis
    unfolding Let_def
    by (auto simp: menuEntries_def Let_def inside_def isAuthenticated_def isAdmin_def split: option.splits)
qed

end
