(* ===== verification/Pages.thy ===== *)
theory Pages
  imports Chrome Router
begin

text \<open>
  The table of routes and the pages it holds itself (\<open>src/pages/index.ts\<close>): which path shows which
  page, the version of the server, and the page for a path that matches nothing.
\<close>

datatype app_page =
    ShowOrders | ShowCreateOrder | ShowOrder | ShowSummary | ShowRestaurants | ShowRestaurant | ShowAccount
  | ShowResetPassword | ShowUsers | ShowVersion | ShowImprint | ShowLegalNotes

definition app_routes :: "app_page route list" where
  "app_routes =
     [\<lparr>rt_pattern = ''/'', rt_page = ShowOrders\<rparr>,
      \<lparr>rt_pattern = ''/orders/new'', rt_page = ShowCreateOrder\<rparr>,
      \<lparr>rt_pattern = ''/orders/:id'', rt_page = ShowOrder\<rparr>,
      \<lparr>rt_pattern = ''/orders/:id/summary'', rt_page = ShowSummary\<rparr>,
      \<lparr>rt_pattern = ''/restaurants'', rt_page = ShowRestaurants\<rparr>,
      \<lparr>rt_pattern = ''/restaurants/:id'', rt_page = ShowRestaurant\<rparr>,
      \<lparr>rt_pattern = ''/account'', rt_page = ShowAccount\<rparr>,
      \<lparr>rt_pattern = ''/reset-password/:token'', rt_page = ShowResetPassword\<rparr>,
      \<lparr>rt_pattern = ''/admin/users'', rt_page = ShowUsers\<rparr>,
      \<lparr>rt_pattern = ''/version'', rt_page = ShowVersion\<rparr>,
      \<lparr>rt_pattern = ''/imprint'', rt_page = ShowImprint\<rparr>,
      \<lparr>rt_pattern = ''/legal-notes'', rt_page = ShowLegalNotes\<rparr>]"

text \<open>\<open>context.params[name] ?? ""\<close>\<close>

definition param :: "params \<Rightarrow> string \<Rightarrow> string" where
  "param ps name = (case map_of ps name of None \<Rightarrow> [] | Some v \<Rightarrow> v)"

section \<open>The version of the server\<close>

text \<open>What the application already knows is not asked for again, and what is learnt is kept.\<close>

definition known_version :: "version_info server \<Rightarrow> version_info option \<Rightarrow> ('l, version_info option) act" where
  "known_version srv version =
     (case version of
        Some info \<Rightarrow> ret (Some info)
      | None \<Rightarrow> try_catch (bind (call srv (Call ''GET'' ''/version'' None)) (\<lambda>info. ret (Some info))) (\<lambda>e. ret None))"

definition version_rows :: "app \<Rightarrow> version_info \<Rightarrow> (string \<times> 'a child) list" where
  "version_rows a info =
     [(say_t a ''version.application'', CStr (v_version info)), (say_t a ''version.commit'', CStr (v_commit info)),
      (say_t a ''version.built'', CStr (formatDateTime (app_intl a) (language a) (Stamp (v_build_date info))))]"

definition version_page :: "logo_asset option \<Rightarrow> app \<Rightarrow> version_info option \<Rightarrow> 'a node \<times> string" where
  "version_page template a info =
     (case info of
        None \<Rightarrow> page (say_t a ''nav.version'') [CNode (el ''p'' [(''class'', AStr ''muted''), (''text'', AStr (say_t a ''state.offline''))] [])]
      | Some v \<Rightarrow> overviewPage template (say_t a ''nav.version'')
                    [CNode (card [CNode (definitionList (version_rows a v) ''definitions'')])])"

text \<open>The page, and the version the application knows from then on.\<close>

definition versionPage ::
  "logo_asset option \<Rightarrow> version_info server \<Rightarrow> app \<Rightarrow> version_info option
   \<Rightarrow> ('l, ('a node \<times> string) \<times> version_info option) act" where
  "versionPage template srv a version =
     bind (known_version srv version) (\<lambda>info. ret (version_page template a info, info))"

definition notFoundPage :: "app \<Rightarrow> 'a node \<times> string" where
  "notFoundPage a =
     page (say_t a ''error.title'')
       [CNode (el ''p'' [(''text'', AStr (say_t a ''error.4000''))] []),
        CNode (el ''p'' [] [CNode (el ''a'' [(''class'', AStr ''link''), (''href'', AStr ''/''), (''text'', AStr (say_t a ''nav.home''))] [])])]"

section \<open>Every link has its page\<close>

lemma encode_plain: "list_all unreserved s \<Longrightarrow> encodeURIComponent s = s"
  by (induction s) simp_all

lemma segments_two:
  "a \<noteq> [] \<Longrightarrow> b \<noteq> [] \<Longrightarrow> CHR ''/'' \<notin> set a \<Longrightarrow> CHR ''/'' \<notin> set b \<Longrightarrow>
   segments (CHR ''/'' # a @ CHR ''/'' # b) = [a, b]"
  using segments_concat [of "[a, b]"] by simp

lemma segments_three:
  "a \<noteq> [] \<Longrightarrow> b \<noteq> [] \<Longrightarrow> c \<noteq> [] \<Longrightarrow> CHR ''/'' \<notin> set a \<Longrightarrow> CHR ''/'' \<notin> set b \<Longrightarrow> CHR ''/'' \<notin> set c \<Longrightarrow>
   segments (CHR ''/'' # a @ CHR ''/'' # b @ CHR ''/'' # c) = [a, b, c]"
  using segments_concat [of "[a, b, c]"] by simp

lemma route_segments:
  "map (\<lambda>r. segments (rt_pattern r)) app_routes =
     [[], [''orders'', ''new''], [''orders'', '':id''], [''orders'', '':id'', ''summary''], [''restaurants''],
      [''restaurants'', '':id''], [''account''], [''reset-password'', '':token''], [''admin'', ''users''],
      [''version''], [''imprint''], [''legal-notes'']]"
  by code_simp

lemmas pattern_segments = route_segments [unfolded app_routes_def, simplified]

lemma decode_plain:
  assumes "list_all unreserved s"
  shows "decodeURIComponent s = Some s"
proof -
  have "valid_utf8 s"
    using assms by (intro valid_utf8_ascii) (auto simp: list_all_iff unreserved_def ascii_def)
  from decode_encode [OF this] show ?thesis by (simp add: encode_plain [OF assms])
qed

text \<open>What the table says, by the segments of a path.\<close>

definition by_segments :: "string list \<Rightarrow> js_error + (params \<times> app_page) option" where
  "by_segments parts =
     (case parts of
       [] \<Rightarrow> Inr (Some ([], ShowOrders))
     | [a] \<Rightarrow> Inr (if a = ''restaurants'' then Some ([], ShowRestaurants) else if a = ''account'' then Some ([], ShowAccount)
                 else if a = ''version'' then Some ([], ShowVersion) else if a = ''imprint'' then Some ([], ShowImprint)
                 else if a = ''legal-notes'' then Some ([], ShowLegalNotes) else None)
     | [a, b] \<Rightarrow>
         if a = ''orders'' \<and> b = ''new'' then Inr (Some ([], ShowCreateOrder))
         else if a = ''orders'' \<or> a = ''restaurants'' \<or> a = ''reset-password''
         then (case decodeURIComponent b of
                 None \<Rightarrow> Inl UriError
               | Some v \<Rightarrow> Inr (Some (if a = ''orders'' then ([(''id'', v)], ShowOrder)
                    else if a = ''restaurants'' then ([(''id'', v)], ShowRestaurant) else ([(''token'', v)], ShowResetPassword))))
         else Inr (if a = ''admin'' \<and> b = ''users'' then Some ([], ShowUsers) else None)
     | [a, b, c] \<Rightarrow>
         if a = ''orders''
         then (case decodeURIComponent b of
                 None \<Rightarrow> Inl UriError
               | Some v \<Rightarrow> Inr (if c = ''summary'' then Some ([(''id'', v)], ShowSummary) else None))
         else Inr None
     | _ \<Rightarrow> Inr None)"

lemmas route_table = app_routes_def matchPath_def Let_def pattern_segments by_segments_def

lemma find_route_by_segments: "find_route app_routes path = by_segments (segments path)"
proof -
  have none: "[] \<notin> set (segments path)" by (simp add: segments_def)
  show ?thesis
  proof (cases "segments path")
    case Nil
    then show ?thesis by (simp add: route_table)
  next
    case a: (Cons a as)
    show ?thesis
    proof (cases as)
      case Nil
      with a show ?thesis by (simp add: route_table)
    next
      case b: (Cons b bs)
      have full: "b \<noteq> []" using none a b by auto
      show ?thesis
      proof (cases bs)
        case Nil
        with a b full show ?thesis by (cases "decodeURIComponent b") (simp_all add: route_table)
      next
        case c: (Cons c cs)
        show ?thesis
        proof (cases cs)
          case Nil
          with a b c full show ?thesis by (cases "decodeURIComponent b") (simp_all add: route_table)
        next
          case (Cons d ds)
          with a b c show ?thesis by (simp add: route_table)
        qed
      qed
    qed
  qed
qed

text \<open>
  C20: every link has its page: the address of an order, of its summary and of a restaurant leads to
  its page with exactly the id in it, the form for a new order is not taken for an order, a reset
  link hands its token out as it was made, and every entry of the main menu that stays in the
  application leads to a page, whoever is looking.
\<close>

theorem links_have_pages:
  assumes "ident \<noteq> []" and "list_all unreserved ident" and "tok \<noteq> []" and "valid_utf8 tok"
  shows "find_route app_routes (''/orders/'' @ ident)
      = Inr (Some (if ident = ''new'' then ([], ShowCreateOrder) else ([(''id'', ident)], ShowOrder)))
    \<and> find_route app_routes (''/orders/'' @ ident @ ''/summary'') = Inr (Some ([(''id'', ident)], ShowSummary))
    \<and> find_route app_routes (''/restaurants/'' @ ident) = Inr (Some ([(''id'', ident)], ShowRestaurant))
    \<and> find_route app_routes (''/reset-password/'' @ encodeURIComponent tok) = Inr (Some ([(''token'', tok)], ShowResetPassword))
    \<and> list_all (\<lambda>e. if me_external e then True else (\<exists>p. find_route app_routes (me_href e) = Inr (Some ([], p)))) (menuEntries v)"
proof -
  have clean: "CHR ''/'' \<notin> set ident"
    using assms(2) by (auto simp: list_all_iff unreserved_def)
  have enc: "encodeURIComponent tok \<noteq> []" "CHR ''/'' \<notin> set (encodeURIComponent tok)"
    using assms(3) encode_no_separator [of "CHR ''/''" tok] by (simp_all add: unreserved_def is_digit_def)
  have segs: "segments (''/orders/'' @ ident) = [''orders'', ident]"
    "segments (''/orders/'' @ ident @ ''/summary'') = [''orders'', ident, ''summary'']"
    "segments (''/restaurants/'' @ ident) = [''restaurants'', ident]"
    "segments (''/reset-password/'' @ encodeURIComponent tok) = [''reset-password'', encodeURIComponent tok]"
    using segments_two [of "''orders''" ident] segments_three [of "''orders''" ident "''summary''"]
      segments_two [of "''restaurants''" ident] segments_two [of "''reset-password''" "encodeURIComponent tok"] assms(1) clean enc
    by simp_all
  have fixed: "\<exists>p. find_route app_routes ''/'' = Inr (Some ([], p))" "\<exists>p. find_route app_routes ''/restaurants'' = Inr (Some ([], p))"
    "\<exists>p. find_route app_routes ''/account'' = Inr (Some ([], p))" "\<exists>p. find_route app_routes ''/admin/users'' = Inr (Some ([], p))"
    "\<exists>p. find_route app_routes ''/version'' = Inr (Some ([], p))" "\<exists>p. find_route app_routes ''/imprint'' = Inr (Some ([], p))"
    "\<exists>p. find_route app_routes ''/legal-notes'' = Inr (Some ([], p))"
    unfolding find_route_by_segments by (simp_all add: by_segments_def segments_def)
  show ?thesis
    unfolding find_route_by_segments [of "''/orders/'' @ ident"] find_route_by_segments [of "''/orders/'' @ ident @ ''/summary''"]
      find_route_by_segments [of "''/restaurants/'' @ ident"] find_route_by_segments [of "''/reset-password/'' @ encodeURIComponent tok"] segs
    using fixed assms(1,2) decode_encode [OF assms(4)]
    by (simp add: by_segments_def decode_plain menuEntries_def Let_def inside_def)
qed

theorem links_have_pages_witness:
  "find_route app_routes ''/orders/7f-2'' = Inr (Some ([(''id'', ''7f-2'')], ShowOrder))
   \<and> find_route app_routes (''/reset-password/'' @ encodeURIComponent ''a/b'') = Inr (Some ([(''token'', ''a/b'')], ShowResetPassword))"
proof -
  have "list_all unreserved ''7f-2''" "valid_utf8 ''a/b''" by code_simp+
  with links_have_pages [of "''7f-2''" "''a/b''"] show ?thesis by simp
qed

end
