(* ===== verification/Password.thy ===== *)
theory Password
  imports Prelude
begin

text \<open>
  The password rules as the person typing sees them (\<open>src/password.ts\<close>). A password is the list of
  its code points. The Unicode tables are not in the source and are parameters: \<open>nfc\<close> is
  \<open>normalize("NFC")\<close>, \<open>printable\<close> tells the letters, marks, numbers, punctuation and symbols.
\<close>

datatype password_class = Upper | Lower | Digit | Special | Other

text \<open>The order in which the specification lists the classes.\<close>

instantiation password_class :: linorder
begin

fun rank :: "password_class \<Rightarrow> nat" where
  "rank Upper = 0" | "rank Lower = 1" | "rank Digit = 2" | "rank Special = 3" | "rank Other = 4"

definition less_eq_password_class :: "password_class \<Rightarrow> password_class \<Rightarrow> bool" where
  "less_eq_password_class a b \<longleftrightarrow> rank a \<le> rank b"

definition less_password_class :: "password_class \<Rightarrow> password_class \<Rightarrow> bool" where
  "less_password_class a b \<longleftrightarrow> rank a < rank b"

instance
proof
  fix a b :: password_class
  show "a \<le> b \<Longrightarrow> b \<le> a \<Longrightarrow> a = b"
    by (cases a; cases b) (simp_all add: less_eq_password_class_def)
qed (auto simp: less_eq_password_class_def less_password_class_def)

end

definition CLASSES :: "password_class list" where
  "CLASSES = [Upper, Lower, Digit, Special, Other]"

definition MIN_LENGTH :: nat where
  "MIN_LENGTH = 10"

definition MAX_LENGTH :: nat where
  "MAX_LENGTH = 256"

definition REQUIRED_CLASSES :: nat where
  "REQUIRED_CLASSES = 3"

text \<open>The special characters as code points; 34 is the double quote and 167 the section sign.\<close>

definition SPECIAL_CHARACTERS :: "nat list" where
  "SPECIAL_CHARACTERS = map of_char ''<>|-_.:,;#'' @ [39, 33, 34, 167] @ map of_char ''$%&/()[]{}?@''"

definition isExtended :: "(nat \<Rightarrow> bool) \<Rightarrow> nat \<Rightarrow> bool" where
  "isExtended printable c =
     (if c = 32 then False else if \<not> printable c then False else c \<notin> set SPECIAL_CHARACTERS)"

definition add_class :: "(nat \<Rightarrow> bool) \<Rightarrow> password_class list \<Rightarrow> nat \<Rightarrow> password_class list" where
  "add_class printable found c =
     (if 65 \<le> c \<and> c \<le> 90 then set_add Upper found
      else if 97 \<le> c \<and> c \<le> 122 then set_add Lower found
      else if 48 \<le> c \<and> c \<le> 57 then set_add Digit found
      else if c \<in> set SPECIAL_CHARACTERS then set_add Special found
      else if isExtended printable c then set_add Other found
      else found)"

definition satisfiedClasses ::
  "(nat list \<Rightarrow> nat list) \<Rightarrow> (nat \<Rightarrow> bool) \<Rightarrow> nat list \<Rightarrow> password_class list" where
  "satisfiedClasses nfc printable password =
     (let found = foldl (add_class printable) [] (nfc password)
      in filter (\<lambda>name. name \<in> set found) CLASSES)"

definition passwordLength :: "(nat list \<Rightarrow> nat list) \<Rightarrow> nat list \<Rightarrow> nat" where
  "passwordLength nfc password = length (nfc password)"

record verdict =
  satisfied :: "password_class list"
  longEnough :: bool
  tooLong :: bool
  acceptable :: bool

definition checkPassword ::
  "(nat list \<Rightarrow> nat list) \<Rightarrow> (nat \<Rightarrow> bool) \<Rightarrow> nat list \<Rightarrow> verdict" where
  "checkPassword nfc printable password =
     (let sat = satisfiedClasses nfc printable password; n = passwordLength nfc password;
          long = MIN_LENGTH \<le> n; too = MAX_LENGTH < n
      in \<lparr>satisfied = sat, longEnough = long, tooLong = too,
          acceptable = long \<and> \<not> too \<and> REQUIRED_CLASSES \<le> length sat\<rparr>)"

section \<open>The rule\<close>

text \<open>The class of one character: five disjoint classes, and characters that earn nothing.\<close>

definition class_of :: "(nat \<Rightarrow> bool) \<Rightarrow> nat \<Rightarrow> password_class option" where
  "class_of printable c =
     (if c \<in> {65..90} then Some Upper
      else if c \<in> {97..122} then Some Lower
      else if c \<in> {48..57} then Some Digit
      else if c \<in> set SPECIAL_CHARACTERS then Some Special
      else if printable c \<and> c \<noteq> 32 then Some Other
      else None)"

lemma add_class_of: "set (add_class printable found c) = set found \<union> set_option (class_of printable c)"
  by (auto simp: add_class_def class_of_def isExtended_def)

lemma found_classes:
  "set (foldl (add_class printable) found cs) = set found \<union> (\<Union>c \<in> set cs. set_option (class_of printable c))"
  by (induction cs arbitrary: found) (auto simp: add_class_of)

lemma set_CLASSES: "set CLASSES = UNIV"
proof -
  have "c \<in> set CLASSES" for c by (cases c) (simp_all add: CLASSES_def)
  then show ?thesis by blast
qed

lemma sorted_CLASSES: "sorted_wrt (<) CLASSES"
  by (simp add: CLASSES_def less_password_class_def)

text \<open>
  The indicator lists, in the order of the specification and each once, exactly the classes
  that some character of the normalised password belongs to, and calls a password acceptable
  exactly when it has 10 to 256 characters from at least three classes.
\<close>

theorem password_rule:
  "sorted_wrt (<) (satisfied (checkPassword nfc printable p))
   \<and> set (satisfied (checkPassword nfc printable p)) = (\<Union>c \<in> set (nfc p). set_option (class_of printable c))
   \<and> acceptable (checkPassword nfc printable p) =
       (10 \<le> length (nfc p) \<and> length (nfc p) \<le> 256
        \<and> 3 \<le> card (\<Union>c \<in> set (nfc p). set_option (class_of printable c)))"
proof -
  let ?s = "satisfiedClasses nfc printable p"
  let ?classes = "\<Union>c \<in> set (nfc p). set_option (class_of printable c)"
  have set: "set ?s = ?classes"
    by (auto simp: satisfiedClasses_def Let_def found_classes set_CLASSES)
  have sorted: "sorted_wrt (<) ?s"
    using sorted_CLASSES by (simp add: satisfiedClasses_def Let_def sorted_wrt_filter)
  then have "card ?classes = length ?s"
    unfolding set [symmetric] by (simp add: distinct_card strict_sorted_iff)
  with set sorted show ?thesis
    by (auto simp: checkPassword_def Let_def passwordLength_def MIN_LENGTH_def MAX_LENGTH_def
        REQUIRED_CLASSES_def)
qed

end
