(* ===== verification/PasswordField.thy ===== *)
theory PasswordField
  imports Password Forms
begin

text \<open>
  The password field (\<open>src/components/password.ts\<close>): the input, the counter beside it and the list of
  rules that fills in while somebody types. What has been typed is the list of its code points.
\<close>

record password_options =
  po_label :: "string option"
  po_name :: "string option"
  po_autocomplete :: "string option"
  po_indicator :: bool

record rule_entry =
  re_class :: password_class
  re_met :: bool
  re_mark :: string

record password_field =
  pf_value :: "nat list"
  pf_indicator :: bool
  pf_counter :: string
  pf_counter_met :: bool
  pf_rules :: "rule_entry list"

definition class_key :: "password_class \<Rightarrow> string" where
  "class_key c =
     (case c of Upper \<Rightarrow> ''upper'' | Lower \<Rightarrow> ''lower'' | Digit \<Rightarrow> ''digit'' | Special \<Rightarrow> ''special'' | Other \<Rightarrow> ''other'')"

definition counter_text :: "nat \<Rightarrow> string" where
  "counter_text n = string_of_nat n @ ''/'' @ string_of_nat MIN_LENGTH"

text \<open>The function that runs on every keystroke, and once when the field is built.\<close>

definition update_rules ::
  "(nat list \<Rightarrow> nat list) \<Rightarrow> (nat \<Rightarrow> bool) \<Rightarrow> password_field \<Rightarrow> password_field" where
  "update_rules nfc printable f =
     (let verdict = checkPassword nfc printable (pf_value f); met = satisfied verdict
      in f\<lparr>pf_counter := counter_text (passwordLength nfc (pf_value f)), pf_counter_met := longEnough verdict,
           pf_rules := map (\<lambda>e. let ok = (re_class e \<in> set met)
                        in e\<lparr>re_met := ok, re_mark := (if ok then check_mark else mid_dot)\<rparr>) (pf_rules f)\<rparr>)"

definition new_password_field ::
  "(nat list \<Rightarrow> nat list) \<Rightarrow> (nat \<Rightarrow> bool) \<Rightarrow> password_options \<Rightarrow> password_field" where
  "new_password_field nfc printable opts =
     (let f = \<lparr>pf_value = [], pf_indicator = po_indicator opts, pf_counter = counter_text 0, pf_counter_met = False,
               pf_rules = map (\<lambda>c. \<lparr>re_class = c, re_met = False, re_mark = mid_dot\<rparr>) CLASSES\<rparr>
      in if po_indicator opts then update_rules nfc printable f else f\<lparr>pf_rules := []\<rparr>)"

definition type_password ::
  "(nat list \<Rightarrow> nat list) \<Rightarrow> (nat \<Rightarrow> bool) \<Rightarrow> nat list \<Rightarrow> password_field \<Rightarrow> password_field" where
  "type_password nfc printable v f =
     (let f' = f\<lparr>pf_value := v\<rparr> in if pf_indicator f then update_rules nfc printable f' else f')"

definition field_acceptable :: "(nat list \<Rightarrow> nat list) \<Rightarrow> (nat \<Rightarrow> bool) \<Rightarrow> password_field \<Rightarrow> bool" where
  "field_acceptable nfc printable f =
     (if pf_indicator f then acceptable (checkPassword nfc printable (pf_value f)) else pf_value f \<noteq> [])"

definition password_control :: "password_options \<Rightarrow> 'a node" where
  "password_control opts =
     input (no_input\<lparr>in_type := Some ''password'',
       in_name := Some (case po_name opts of None \<Rightarrow> ''password'' | Some n \<Rightarrow> n),
       in_autocomplete := Some (case po_autocomplete opts of None \<Rightarrow> ''new-password'' | Some n \<Rightarrow> n),
       in_required := True\<rparr>)"

definition rule_item :: "translator \<Rightarrow> rule_entry \<Rightarrow> 'a node" where
  "rule_item t e =
     el ''li'' [(''class'', AStr (if re_met e then ''rule rule-met'' else ''rule''))]
       [CNode (el ''span'' [(''class'', AStr ''rule-mark''), (''aria-hidden'', AStr ''true''), (''text'', AStr (re_mark e))] []),
        CNode (el ''span'' [(''text'', AStr (translate t (''password.'' @ class_key (re_class e)) []))] [])]"

text \<open>The input is moved into a row with the counter after the field has been built around it.\<close>

fun put_in_row :: "'a node \<Rightarrow> 'a node \<Rightarrow> 'a node list \<Rightarrow> 'a node list" where
  "put_in_row control row [] = []"
| "put_in_row control row (x # xs) = (if tag_name x = ''input'' then row # xs else x # put_in_row control row xs)"

fun with_row :: "'a node \<Rightarrow> 'a node \<Rightarrow> 'a node \<Rightarrow> 'a node" where
  "with_row control row (TextNode s) = TextNode s"
| "with_row control row (Elem t as ps ls cs) = Elem t as ps ls (put_in_row control row cs)"

definition password_element :: "translator \<Rightarrow> password_options \<Rightarrow> password_field \<Rightarrow> nat \<Rightarrow> 'a node \<times> nat" where
  "password_element t opts f seq =
     (let label = (case po_label opts of None \<Rightarrow> translate t ''auth.password'' [] | Some l \<Rightarrow> l)
      in if \<not> pf_indicator f then field label (password_control opts) None None None seq
         else let (control, n0) = with_id (password_control opts) seq;
                  (whole, n1) = field label control (Some (translate t ''password.requirements'' [(''min'', PNum (int MIN_LENGTH))]))
                                  None None n0;
                  counter = el ''span'' [(''class'', AStr (if pf_counter_met f then ''password-count password-count-met''
                                else ''password-count'')), (''aria-hidden'', AStr ''true''), (''text'', AStr (pf_counter f))] [];
                  hinted = set_attribute ''aria-describedby'' (dom_id control @ ''-hint'') control;
                  row = el ''div'' [(''class'', AStr ''password-row'')] [CNode hinted, CNode counter];
                  rules = el ''ul'' [(''class'', AStr ''rules''), (''aria-live'', AStr ''polite'')]
                            (map (\<lambda>e. CNode (rule_item t e)) (pf_rules f))
              in (append (with_row hinted row whole) [CNode rules], n1))"

section \<open>What the list says\<close>

definition password_good :: "(nat list \<Rightarrow> nat list) \<Rightarrow> (nat \<Rightarrow> bool) \<Rightarrow> password_field \<Rightarrow> bool" where
  "password_good nfc printable f \<longleftrightarrow>
     map re_class (pf_rules f) = (if pf_indicator f then CLASSES else [])
     \<and> (if pf_indicator f then update_rules nfc printable f = f else True)"

lemma update_rules_stable: "update_rules nfc printable (update_rules nfc printable f) = update_rules nfc printable f"
  by (simp add: update_rules_def Let_def comp_def)

lemma update_rules_classes [simp]:
  "map re_class (pf_rules (update_rules nfc printable f)) = map re_class (pf_rules f)"
  "pf_indicator (update_rules nfc printable f) = pf_indicator f" "pf_value (update_rules nfc printable f) = pf_value f"
  by (simp_all add: update_rules_def Let_def comp_def)

interpretation password_typing: event_machine "type_password nfc printable" "password_good nfc printable"
proof
  fix f e
  assume "password_good nfc printable f"
  then show "password_good nfc printable (type_password nfc printable e f)"
    by (auto simp: password_good_def type_password_def Let_def update_rules_stable)
qed

text \<open>
  The list beside a new password always shows the five classes in the order of the specification,
  ticks exactly those that some character of the password belongs to, counts its characters, and
  the form takes it exactly when the rule accepts it.
\<close>

theorem password_list_agrees:
  "(let f = fold (type_password nfc printable) vs (new_password_field nfc printable \<lparr>po_label = l, po_name = n,
          po_autocomplete = c, po_indicator = True\<rparr>);
        p = nfc (pf_value f); classes = (\<Union>x \<in> set p. set_option (class_of printable x))
    in map re_class (pf_rules f) = CLASSES
       \<and> list_all (\<lambda>e. re_met e = (re_class e \<in> classes) \<and> re_mark e = (if re_class e \<in> classes then check_mark else mid_dot)) (pf_rules f)
       \<and> pf_counter f = string_of_nat (length p) @ ''/'' @ string_of_nat 10
       \<and> field_acceptable nfc printable f = acceptable (checkPassword nfc printable (pf_value f)))"
proof -
  let ?classes = "\<lambda>f. \<Union>x \<in> set (nfc (pf_value f)). set_option (class_of printable x)"
  let ?new = "new_password_field nfc printable \<lparr>po_label = l, po_name = n, po_autocomplete = c, po_indicator = True\<rparr>"
  define f where "f = fold (type_password nfc printable) vs ?new"
  have "password_good nfc printable ?new"
    by (simp add: password_good_def new_password_field_def Let_def update_rules_stable comp_def)
  then have g: "password_good nfc printable f" unfolding f_def by (rule password_typing.good_run)
  have ind: "pf_indicator f"
    unfolding f_def by (induction vs rule: rev_induct) (simp_all add: new_password_field_def type_password_def Let_def)
  have up: "update_rules nfc printable f = f" using g ind by (simp add: password_good_def)
  have classes: "set (satisfied (checkPassword nfc printable (pf_value f))) = (\<Union>x \<in> set (nfc (pf_value f)). set_option (class_of printable x))"
    by (auto simp: checkPassword_def satisfiedClasses_def Let_def found_classes set_CLASSES)
  have rules: "map (\<lambda>e. let ok = (re_class e \<in> set (satisfied (checkPassword nfc printable (pf_value f))))
      in e\<lparr>re_met := ok, re_mark := (if ok then check_mark else mid_dot)\<rparr>) (pf_rules f) = pf_rules f"
    and counter: "pf_counter f = counter_text (length (nfc (pf_value f)))"
    using arg_cong [OF up, of pf_rules] arg_cong [OF up, of pf_counter]
    by (simp_all add: update_rules_def Let_def passwordLength_def)
  have "list_all (\<lambda>e. re_met e = (re_class e \<in> ?classes f) \<and> re_mark e = (if re_class e \<in> ?classes f then check_mark else mid_dot))
      (pf_rules f)"
    by (subst rules [symmetric]) (simp add: list_all_iff classes Let_def)
  with g ind counter show ?thesis
    unfolding Let_def f_def [symmetric]
    by (simp add: password_good_def field_acceptable_def counter_text_def MIN_LENGTH_def)
qed

end
