(* ===== verification/Application.thy ===== *)
theory Application
  imports Chrome Router Modal
begin

text \<open>
  The application object (\<open>src/app.ts\<close>) and the entry point (\<open>src/main.ts\<close>): the translator, the
  session, the router, the dialogs, the theme and the chrome in one state, and everything that
  changes more than one of them. Drawing the chrome gives the router a new, empty element to put
  pages into, while a render that has started keeps the element it started with; which of them a
  page ends up in is what the state has to say. The registry of catalogs, the drawing of the mark
  and the browser are an environment.

  Every catalog of a build says what it is (the check of the build refuses one that does not), so
  the direction of the writing can always be read; without it nothing is changed here.
\<close>

section \<open>The state\<close>

record environment =
  env_intl :: intl
  env_registry :: registry
  env_https :: bool
  env_template :: "logo_asset option"

text \<open>
  \<open>ap_drawn\<close> is who was logged in and which path was in the address bar when the chrome was drawn;
  \<open>ap_outlets\<close> counts the elements the router was given, \<open>ap_into\<close> says which of them the render
  with a ticket started with, and \<open>ap_page\<close> is what stands in the last one, the one on the screen.
\<close>

record ('p, 'n) application =
  ap_t :: translator
  ap_version :: "version_info option"
  ap_session :: session
  ap_router :: "('p, 'n) router"
  ap_modals :: modals
  ap_theme :: theme_state
  ap_shell :: "shell option"
  ap_drawn :: "session_user option \<times> string"
  ap_live :: string
  ap_lang :: string
  ap_dir :: string
  ap_outlets :: nat
  ap_into :: "nat \<Rightarrow> nat"
  ap_page :: "(nat \<times> 'n) option"

definition ap_language :: "('p, 'n) application \<Rightarrow> string" where
  "ap_language s = tr_language (ap_t s)"

definition current_path :: "('p, 'n) router \<Rightarrow> string" where
  "current_path r = pathname r @ search r"

text \<open>
  What the chrome is drawn from. Of the session it reads who is logged in and nothing else, and it
  never reads the time.
\<close>

definition chrome_view_of ::
  "environment \<Rightarrow> translator \<Rightarrow> theme \<Rightarrow> version_info option \<Rightarrow> session_user option \<times> string \<Rightarrow> chrome_view" where
  "chrome_view_of env t th version drawn =
     \<lparr>cv_app = \<lparr>app_t = t, app_session = new_session\<lparr>current := fst drawn\<rparr>, app_intl = env_intl env, app_now = 0,
                app_path = snd drawn\<rparr>,
      cv_registry = env_registry env, cv_theme = th, cv_version = version, cv_template = env_template env\<rparr>"

section \<open>Its operations\<close>

definition createApp ::
  "environment \<Rightarrow> string option \<Rightarrow> theme option \<Rightarrow> string list \<Rightarrow> 'p route list \<Rightarrow> string \<Rightarrow> string
   \<Rightarrow> nat \<Rightarrow> jar \<Rightarrow> ('p, 'n) application" where
  "createApp env cookie_language cookie_theme acceptLanguages rs path query focus j =
     \<lparr>ap_t = new_translator (env_intl env) (env_registry env)
               (resolveLanguage (env_registry env) cookie_language acceptLanguages),
      ap_version = None, ap_session = new_session, ap_router = new_router rs path query, ap_modals = no_modals focus,
      ap_theme = initTheme cookie_theme \<lparr>data_theme = None, theme_jar = j\<rparr>, ap_shell = None,
      ap_drawn = (None, []), ap_live = [], ap_lang = [], ap_dir = [], ap_outlets = 0, ap_into = (\<lambda>_. 0), ap_page = None\<rparr>"

text \<open>\<open>App.render\<close>\<close>

definition draw_shell :: "environment \<Rightarrow> ('p, 'n) application \<Rightarrow> ('p, 'n) application" where
  "draw_shell env s =
     (let drawn = (current (ap_session s), current_path (ap_router s))
      in s\<lparr>ap_shell := Some (renderShell (chrome_view_of env (ap_t s) (currentTheme (ap_theme s)) (ap_version s) drawn)),
           ap_drawn := drawn, ap_live := [], ap_router := mount (ap_router s), ap_outlets := Suc (ap_outlets s),
           ap_page := None, ap_lang := ap_language s,
           ap_dir := (case tr_meta (ap_t s) of None \<Rightarrow> ap_dir s | Some m \<Rightarrow> cm_dir m)\<rparr>)"

text \<open>Something the router does: a render it starts keeps the outlet that is mounted now.\<close>

definition with_router :: "(('p, 'n) router \<Rightarrow> ('p, 'n) router) \<Rightarrow> ('p, 'n) application \<Rightarrow> ('p, 'n) application" where
  "with_router f s =
     (let r = f (ap_router s)
      in s\<lparr>ap_router := r,
           ap_into := (\<lambda>t. if ticket (ap_router s) < t \<and> t \<le> ticket r then ap_outlets s else ap_into s t)\<rparr>)"

definition close_dialogs :: "('p, 'n) application \<Rightarrow> ('p, 'n) application" where
  "close_dialogs s = (case closeAllModals (ap_modals s) of None \<Rightarrow> s | Some m \<Rightarrow> s\<lparr>ap_modals := m\<rparr>)"

definition setLanguage :: "environment \<Rightarrow> string \<Rightarrow> ('p, 'n) application \<Rightarrow> ('p, 'n) application" where
  "setLanguage env code s =
     (if \<not> hasLanguage (env_registry env) code \<or> code = ap_language s then s
      else let s1 = s\<lparr>ap_theme := (ap_theme s)\<lparr>theme_jar := writeCookie (env_https env) LANGUAGE_COOKIE code (theme_jar (ap_theme s))\<rparr>,
                      ap_t := new_translator (env_intl env) (env_registry env) code\<rparr>
           in with_router refresh (draw_shell env (close_dialogs s1)))"

definition switchTheme :: "environment \<Rightarrow> ('p, 'n) application \<Rightarrow> ('p, 'n) application" where
  "switchTheme env s =
     with_router refresh (draw_shell env (s\<lparr>ap_theme := snd (toggleTheme (env_https env) (ap_theme s))\<rparr>))"

definition navigate_app :: "string \<Rightarrow> bool \<Rightarrow> ('p, 'n) application \<Rightarrow> ('p, 'n) application" where
  "navigate_app path replacing s = with_router (navigate path replacing) (close_dialogs s)"

definition announce_app :: "string \<Rightarrow> ('p, 'n) application \<Rightarrow> ('p, 'n) application" where
  "announce_app message s = (if ap_shell s = None then s else s\<lparr>ap_live := message\<rparr>)"

text \<open>The page of a render is there: it is put into the outlet the render started with.\<close>

definition page_ready :: "nat \<Rightarrow> 'n \<Rightarrow> ('p, 'n) application \<Rightarrow> ('p, 'n) application" where
  "page_ready t n s =
     (let r = ap_router s; shown = (map_of (building r) t \<noteq> None \<and> t = ticket r \<and> ap_into s t = ap_outlets s)
      in s\<lparr>ap_router := render_finish t n r, ap_page := (if shown then Some (t, n) else ap_page s)\<rparr>)"

section \<open>The entry point\<close>

text \<open>\<open>main\<close> up to the requests: the chrome is drawn and the first render starts.\<close>

definition start_app :: "environment \<Rightarrow> ('p, 'n) application \<Rightarrow> ('p, 'n) application" where
  "start_app env s = with_router refresh (draw_shell env s)"

definition ended_reason :: "translator \<Rightarrow> ended_notice \<Rightarrow> string" where
  "ended_reason t e =
     (let k = ''error.'' @ string_of_int (en_code e)
      in if has_key t k then translate t k [] else translate t ''session.ended.generic'' [])"

text \<open>
  The dialog that says a session has ended, whose first control is \<open>close_button\<close>; the focus ends on
  its Login button.
\<close>

definition announceSessionEnded :: "nat \<Rightarrow> nat \<Rightarrow> ('p, 'n) application \<Rightarrow> string option \<times> ('p, 'n) application" where
  "announceSessionEnded close_button login s =
     (case takeEndedNotice (ap_session s) of
        (None, ses) \<Rightarrow> (None, s\<lparr>ap_session := ses\<rparr>)
      | (Some e, ses) \<Rightarrow> (Some (ended_reason (ap_t s) e),
          s\<lparr>ap_session := ses, ap_modals := (openModal close_button (ap_modals s))\<lparr>focus_on := login\<rparr>\<rparr>))"

text \<open>The rest of \<open>main\<close>: both answers are there.\<close>

definition loaded ::
  "environment \<Rightarrow> js_error + session_body \<Rightarrow> js_error + version_info \<Rightarrow> nat \<Rightarrow> nat \<Rightarrow> ('p, 'n) application
   \<Rightarrow> ('p, 'n) application" where
  "loaded env session_answer version_answer close_button login s =
     (let s1 = s\<lparr>ap_session := snd (load_session session_answer (ap_session s)),
                 ap_version := (case version_answer of Inl _ \<Rightarrow> None | Inr v \<Rightarrow> Some v)\<rparr>
      in snd (announceSessionEnded close_button login (with_router refresh (draw_shell env s1))))"

section \<open>Logging in and out\<close>

text \<open>The title bar's button: what follows a logout is in \<open>then\<close>, so it only follows one that worked.\<close>

definition logout_pressed :: "environment \<Rightarrow> js_error + unit \<Rightarrow> ('p, 'n) application \<Rightarrow> ('p, 'n) application" where
  "logout_pressed env answer s =
     (case logout answer (ap_session s) of
        (Inl _, ses) \<Rightarrow> s\<lparr>ap_session := ses\<rparr>
      | (Inr _, ses) \<Rightarrow> with_router refresh (navigate_app ''/'' False (draw_shell env (s\<lparr>ap_session := ses\<rparr>))))"

text \<open>\<open>finishLogin\<close> of \<open>src/pages/account/auth.ts\<close>\<close>

definition finishLogin ::
  "environment \<Rightarrow> session_user \<Rightarrow> string option \<Rightarrow> ('p, 'n) application \<Rightarrow> ('p, 'n) application" where
  "finishLogin env user returnTo s =
     (let s1 = draw_shell env (s\<lparr>ap_session := set_user (Some user) (ap_session s)\<rparr>)
      in case returnTo of
           Some p \<Rightarrow> with_router (navigate p False) s1
         | None \<Rightarrow> with_router refresh s1)"

text \<open>What saving one's profile does to the application (\<open>src/pages/account/index.ts\<close>).\<close>

definition profile_saved :: "environment \<Rightarrow> session_user \<Rightarrow> ('p, 'n) application \<Rightarrow> ('p, 'n) application" where
  "profile_saved env updated s = draw_shell env (s\<lparr>ap_session := set_user (Some updated) (ap_session s)\<rparr>)"

text \<open>What follows the deletion of one's own account.\<close>

definition account_deleted :: "environment \<Rightarrow> ('p, 'n) application \<Rightarrow> ('p, 'n) application" where
  "account_deleted env s =
     with_router refresh (navigate_app ''/'' False (draw_shell env (s\<lparr>ap_session := set_user None (ap_session s)\<rparr>)))"

section \<open>The events\<close>

datatype 'n app_event =
    SetLanguage string
  | ThemeSwitched
  | NavigateApp string bool
  | FollowLink string
  | HistoryMoves string
  | RefreshPage
  | Loaded "js_error + session_body" "js_error + version_info" nat nat
  | LogoutPressed "js_error + unit"
  | LoggedIn session_user "string option"
  | ProfileSaved session_user
  | AccountDeleted
  | PageReady nat 'n
  | PageThrows nat
  | PageRegisters nat
  | Dialogs modal_event
  | Announce string

fun app_step :: "environment \<Rightarrow> 'n app_event \<Rightarrow> ('p, 'n) application \<Rightarrow> ('p, 'n) application" where
  "app_step env (SetLanguage code) s = setLanguage env code s"
| "app_step env ThemeSwitched s = switchTheme env s"
| "app_step env (NavigateApp path r) s = navigate_app path r s"
| "app_step env (FollowLink path) s = with_router (navigate path False) s"
| "app_step env (HistoryMoves path) s = with_router (on_pop_state path) s"
| "app_step env RefreshPage s = with_router refresh s"
| "app_step env (Loaded a v c l) s = loaded env a v c l s"
| "app_step env (LogoutPressed a) s = logout_pressed env a s"
| "app_step env (LoggedIn u p) s = finishLogin env u p s"
| "app_step env (ProfileSaved u) s = profile_saved env u s"
| "app_step env AccountDeleted s = account_deleted env s"
| "app_step env (PageReady t n) s = page_ready t n s"
| "app_step env (PageThrows t) s = with_router (render_fail t) s"
| "app_step env (PageRegisters t) s = with_router (onCleanup t) s"
| "app_step env (Dialogs e) s = s\<lparr>ap_modals := modal_step e (ap_modals s)\<rparr>"
| "app_step env (Announce m) s = announce_app m s"

section \<open>What holds of every state\<close>

lemma with_router_simps [simp]:
  "ap_router (with_router f s) = f (ap_router s)" "ap_outlets (with_router f s) = ap_outlets s"
  "ap_page (with_router f s) = ap_page s" "ap_modals (with_router f s) = ap_modals s"
  "ap_session (with_router f s) = ap_session s" "ap_shell (with_router f s) = ap_shell s"
  "ap_drawn (with_router f s) = ap_drawn s" "ap_lang (with_router f s) = ap_lang s"
  "ap_t (with_router f s) = ap_t s" "ap_theme (with_router f s) = ap_theme s"
  "ap_version (with_router f s) = ap_version s" "ap_language (with_router f s) = ap_language s"
  by (simp_all add: with_router_def Let_def ap_language_def)

lemma draw_shell_simps [simp]:
  "ap_router (draw_shell env s) = mount (ap_router s)" "ap_outlets (draw_shell env s) = Suc (ap_outlets s)"
  "ap_page (draw_shell env s) = None" "ap_modals (draw_shell env s) = ap_modals s"
  "ap_session (draw_shell env s) = ap_session s" "ap_lang (draw_shell env s) = ap_language s"
  "ap_drawn (draw_shell env s) = (current (ap_session s), current_path (ap_router s))"
  "ap_shell (draw_shell env s) = Some (renderShell (chrome_view_of env (ap_t s) (currentTheme (ap_theme s)) (ap_version s)
     (current (ap_session s), current_path (ap_router s))))"
  "ap_t (draw_shell env s) = ap_t s" "ap_theme (draw_shell env s) = ap_theme s"
  "ap_version (draw_shell env s) = ap_version s" "ap_language (draw_shell env s) = ap_language s"
  by (simp_all add: draw_shell_def Let_def ap_language_def)

lemma close_dialogs_simps [simp]:
  "ap_router (close_dialogs s) = ap_router s" "ap_outlets (close_dialogs s) = ap_outlets s"
  "ap_page (close_dialogs s) = ap_page s" "ap_into (close_dialogs s) = ap_into s"
  "ap_session (close_dialogs s) = ap_session s" "ap_shell (close_dialogs s) = ap_shell s"
  "ap_drawn (close_dialogs s) = ap_drawn s" "ap_lang (close_dialogs s) = ap_lang s"
  "ap_t (close_dialogs s) = ap_t s" "ap_theme (close_dialogs s) = ap_theme s"
  "ap_version (close_dialogs s) = ap_version s" "ap_language (close_dialogs s) = ap_language s"
  by (simp_all add: close_dialogs_def ap_language_def split: option.split)

lemma closed_dialogs:
  assumes "modals_good (ap_modals s)"
  shows "modals_good (ap_modals (close_dialogs s))" "stack (ap_modals (close_dialogs s)) = []"
    "\<not> app_inert (ap_modals (close_dialogs s))"
  using close_all_empties [OF assms order_refl]
  by (auto simp: close_dialogs_def closeAllModals_def modals_good_def)

text \<open>The chrome on the screen is what drawing it now gives, except for who is logged in and where.\<close>

definition chrome_good :: "environment \<Rightarrow> ('p, 'n) application \<Rightarrow> bool" where
  "chrome_good env s \<longleftrightarrow>
     ap_shell s = Some (renderShell (chrome_view_of env (ap_t s) (currentTheme (ap_theme s)) (ap_version s) (ap_drawn s)))
     \<and> ap_lang s = ap_language s
     \<and> (ap_language s = SOURCE_LANGUAGE \<or> hasLanguage (env_registry env) (ap_language s))"

text \<open>No render has started with an outlet that is still to come.\<close>

definition outlets_good :: "('p, 'n) application \<Rightarrow> bool" where
  "outlets_good s \<longleftrightarrow> (\<forall>t. ap_into s t \<le> ap_outlets s)"

lemma outlets_good_kept [simp]:
  "outlets_good (close_dialogs s) = outlets_good s" "outlets_good (s\<lparr>ap_modals := m\<rparr>) = outlets_good s"
  "outlets_good (s\<lparr>ap_session := x\<rparr>) = outlets_good s" "outlets_good (s\<lparr>ap_live := v\<rparr>) = outlets_good s"
  "outlets_good (s\<lparr>ap_router := r, ap_page := q\<rparr>) = outlets_good s"
  "outlets_good s \<Longrightarrow> outlets_good (with_router f s)" "outlets_good s \<Longrightarrow> outlets_good (draw_shell env s)"
  by (auto simp: outlets_good_def with_router_def Let_def draw_shell_def intro: le_SucI)

definition app_good :: "environment \<Rightarrow> ('p, 'n) application \<Rightarrow> bool" where
  "app_good env s \<longleftrightarrow> router_good (ap_router s) \<and> mounted (ap_router s) \<and> modals_good (ap_modals s) \<and> chrome_good env s
     \<and> outlets_good s"

lemma translator_known: "tr_language (new_translator i cs l) = SOURCE_LANGUAGE \<or> hasLanguage cs (tr_language (new_translator i cs l))"
  by (simp add: new_translator_def Let_def)

lemma draw_shell_chrome:
  "chrome_good env (draw_shell env s) \<longleftrightarrow> ap_language s = SOURCE_LANGUAGE \<or> hasLanguage (env_registry env) (ap_language s)"
  by (simp add: chrome_good_def)

lemma chrome_good_kept [simp]:
  "chrome_good env (with_router f s) = chrome_good env s" "chrome_good env (close_dialogs s) = chrome_good env s"
  "chrome_good env (s\<lparr>ap_modals := m\<rparr>) = chrome_good env s" "chrome_good env (s\<lparr>ap_session := x\<rparr>) = chrome_good env s"
  "chrome_good env (s\<lparr>ap_live := v\<rparr>) = chrome_good env s"
  "chrome_good env (s\<lparr>ap_router := r, ap_page := q\<rparr>) = chrome_good env s"
  by (simp_all add: chrome_good_def ap_language_def)

lemma mounted_kept [simp]:
  "mounted (render_start b r) = mounted r" "mounted (navigate q c r) = mounted r" "mounted (refresh r) = mounted r"
  "mounted (on_pop_state q r) = mounted r" "mounted (render_fail t r) = mounted r" "mounted (onCleanup t r) = mounted r"
  "mounted (render_finish t n r) = mounted r" "mounted (mount r)"
  by (simp_all add: render_start_def navigate_def refresh_def on_pop_state_def render_fail_def onCleanup_def
      render_finish_def run_cleanups_def go_to_def mount_def Let_def split: option.split sum.split prod.split)

lemma mount_good [simp]: "router_good (mount r) = router_good r"
  by (simp add: mount_def router_good_def tickets_good_def lists_good_def homes_good_def waiting_def)

lemma router_kept:
  assumes "router_good r"
  shows "router_good (navigate q c r)" "router_good (refresh r)" "router_good (on_pop_state q r)"
    "router_good (render_fail t r)" "router_good (onCleanup t r)" "router_good (render_finish t n r)"
  using router.good_step [OF assms, of "Navigate q c"] router.good_step [OF assms, of Refresh]
    router.good_step [OF assms, of "PopState q"] router.good_step [OF assms, of "Fail t"]
    router.good_step [OF assms, of "Register t"] router.good_step [OF assms, of "Finish t n"] by simp_all

lemma focus_good [simp]: "modals_good (m\<lparr>focus_on := f\<rparr>) = modals_good m"
  by (simp add: modals_good_def)

interpretation application: event_machine "app_step env" "app_good env"
proof
  fix s :: "('p, 'n) application" and e
  assume g: "app_good env s"
  then have r: "router_good (ap_router s)" and m: "modals_good (ap_modals s)" and c: "chrome_good env s"
    and u: "outlets_good s"
    and k: "ap_language s = SOURCE_LANGUAGE \<or> hasLanguage (env_registry env) (ap_language s)"
    by (simp_all add: app_good_def chrome_good_def)
  note rk = router_kept [OF r] and cd = closed_dialogs(1)
  have drawn: "app_good env (with_router f (draw_shell env x))"
    if "router_good (f (mount (ap_router x)))" "mounted (f (mount (ap_router x)))" "modals_good (ap_modals x)" "outlets_good x"
      "ap_language x = SOURCE_LANGUAGE \<or> hasLanguage (env_registry env) (ap_language x)" for f and x :: "('p, 'n) application"
    using that by (simp add: app_good_def draw_shell_chrome)
  have home: "app_good env (with_router refresh (navigate_app ''/'' False (draw_shell env x)))"
    if "ap_router x = ap_router s" "ap_modals x = ap_modals s" "ap_t x = ap_t s" "outlets_good x" for x :: "('p, 'n) application"
    using that r m k router_kept [of "mount (ap_router s)"] router_kept(2) [OF router_kept(1) [of "mount (ap_router s)"]]
      closed_dialogs(1) [of "draw_shell env x"]
    by (simp add: app_good_def navigate_app_def draw_shell_chrome ap_language_def)
  show "app_good env (app_step env e s)"
  proof (cases e)
    case (SetLanguage code)
    define x where "x = s\<lparr>ap_theme := (ap_theme s)\<lparr>theme_jar := writeCookie (env_https env) LANGUAGE_COOKIE code (theme_jar (ap_theme s))\<rparr>,
                      ap_t := new_translator (env_intl env) (env_registry env) code\<rparr>"
    have "app_good env (with_router refresh (draw_shell env (close_dialogs x)))"
      using translator_known [of "env_intl env" "env_registry env" code] u
      by (intro drawn cd) (simp_all add: x_def r m router_kept(2) ap_language_def outlets_good_def)
    with SetLanguage g show ?thesis by (simp add: setLanguage_def Let_def x_def)
  next
    case ThemeSwitched
    then show ?thesis using k u by (simp add: switchTheme_def drawn r m router_kept(2) ap_language_def outlets_good_def)
  next
    case (NavigateApp q b)
    then show ?thesis using g c cd [OF m] rk(1) by (simp add: app_good_def navigate_app_def)
  next
    case (Loaded sa va cb l)
    define x where "x = with_router refresh (draw_shell env
      (s\<lparr>ap_session := snd (load_session sa (ap_session s)), ap_version := (case va of Inl _ \<Rightarrow> None | Inr v \<Rightarrow> Some v)\<rparr>))"
    have x: "app_good env x"
      unfolding x_def using k u by (intro drawn) (simp_all add: r m router_kept(2) ap_language_def outlets_good_def)
    have "app_good env (snd (announceSessionEnded cb l x))"
      using x open_good [of "ap_modals x" cb]
      by (cases "takeEndedNotice (ap_session x)"; cases "fst (takeEndedNotice (ap_session x))")
        (simp_all add: announceSessionEnded_def app_good_def chrome_good_def ap_language_def outlets_good_def)
    with Loaded show ?thesis by (simp add: loaded_def x_def Let_def)
  next
    case (LogoutPressed a)
    with g home show ?thesis
      by (cases a) (simp_all add: logout_pressed_def logout_def app_good_def)
  next
    case (LoggedIn u q)
    with k show ?thesis
      by (cases q) (simp_all add: finishLogin_def Let_def drawn r m u router_kept ap_language_def)
  next
    case (ProfileSaved u)
    with r m u k show ?thesis by (simp add: profile_saved_def app_good_def draw_shell_chrome ap_language_def)
  next
    case AccountDeleted
    with home u show ?thesis by (simp add: account_deleted_def)
  next
    case (PageReady t n)
    with g rk(6) show ?thesis by (simp add: page_ready_def Let_def app_good_def)
  next
    case (Dialogs d)
    with g modal_stack.good_step [OF m, of d] show ?thesis by (simp add: app_good_def)
  next
    case (Announce v)
    with g show ?thesis by (simp add: announce_app_def app_good_def)
  qed (use g rk in \<open>simp_all add: app_good_def\<close>)
qed

definition first_screen ::
  "environment \<Rightarrow> string option \<Rightarrow> theme option \<Rightarrow> string list \<Rightarrow> 'p route list \<Rightarrow> string \<Rightarrow> string \<Rightarrow> nat \<Rightarrow> jar
   \<Rightarrow> ('p, 'n) application" where
  "first_screen env lang th accept rs path query focus j =
     start_app env (createApp env lang th accept rs path query focus j)"

lemma first_screen_good:
  "app_good env (first_screen env lang th accept rs path query focus j :: ('p, 'n) application)"
proof -
  define a :: "('p, 'n) application" where "a = createApp env lang th accept rs path query focus j"
  have parts: "ap_router a = new_router rs path query" "ap_modals a = no_modals focus" "outlets_good a"
    "ap_language a = SOURCE_LANGUAGE \<or> hasLanguage (env_registry env) (ap_language a)"
    by (simp_all add: a_def createApp_def outlets_good_def ap_language_def translator_known)
  have "router_good (refresh (mount (ap_router a)))"
    unfolding parts by (rule router_kept(2)) (rule new_router_good)
  with parts show ?thesis
    by (simp add: first_screen_def start_app_def a_def [symmetric] app_good_def draw_shell_chrome no_modals_good)
qed


section \<open>The page ends up on the screen\<close>

text \<open>
  What draws the chrome anew without starting a render into it: saving one's profile, and a login
  that leads back to the path that is in the address bar by then.
\<close>

fun blanks :: "'n app_event \<Rightarrow> ('p, 'n) application \<Rightarrow> bool" where
  "blanks (ProfileSaved u) s = True"
| "blanks (LoggedIn u (Some p)) s = (p = current_path (ap_router s))"
| "blanks e s = False"

text \<open>The states that are reached as long as nothing of that kind happens.\<close>

inductive app_reach :: "environment \<Rightarrow> ('p, 'n) application \<Rightarrow> ('p, 'n) application \<Rightarrow> bool" for env s0 where
  at_start: "app_reach env s0 s0"
| then_event: "app_reach env s0 s \<Longrightarrow> \<not> blanks e s \<Longrightarrow> app_reach env s0 (app_step env e s)"

definition newest :: "('p, 'n) application \<Rightarrow> nat" where
  "newest s = ticket (ap_router s)"

text \<open>
  The newest render goes into the outlet on the screen, and it is being built, or has failed, or its
  page is there.
\<close>

definition landing :: "('p, 'n) application \<Rightarrow> bool" where
  "landing s \<longleftrightarrow> ap_into s (newest s) = ap_outlets s
     \<and> (newest s \<in> fst ` set (building (ap_router s)) \<or> newest s \<in> set (failed (ap_router s))
        \<or> map_option fst (ap_page s) = Some (newest s))"

lemma render_start_moves:
  assumes "mounted r"
  shows "ticket (render_start b r) = Suc (ticket r)"
    "Suc (ticket r) \<in> fst ` set (building (render_start b r)) \<or> Suc (ticket r) \<in> set (failed (render_start b r))"
  using assms by (auto simp: render_start_def Let_def split: sum.split)

lemma landing_render:
  assumes "mounted r" and "ap_router s = r0" and "ticket r = ticket r0" and "f r0 = render_start b r"
  shows "landing (with_router f s)"
  using render_start_moves [OF assms(1), of b] assms(2-4)
  by (auto simp: landing_def newest_def with_router_def Let_def)

lemma landing_refresh: "mounted (ap_router s) \<Longrightarrow> landing (with_router refresh s)"
  by (rule landing_render [where r = "ap_router s"]) (simp_all add: refresh_def)

lemma go_to_simps [simp]: "ticket (go_to p r) = ticket r" "mounted (go_to p r) = mounted r"
  by (simp_all add: go_to_def)

lemma landing_pop: "mounted (ap_router s) \<Longrightarrow> landing (with_router (on_pop_state p) s)"
  by (rule landing_render [where r = "go_to p (ap_router s)"]) (simp_all add: on_pop_state_def)

lemma landing_navigate:
  assumes "mounted (ap_router s)" and "p \<noteq> current_path (ap_router s) \<or> landing s"
  shows "landing (with_router (navigate p b) s)"
proof (cases "p = current_path (ap_router s)")
  case True
  then have "navigate p b (ap_router s) = ap_router s" by (simp add: navigate_def current_path_def)
  with True assms(2) show ?thesis by (simp add: landing_def newest_def with_router_def Let_def)
next
  case False
  then have f: "navigate p b (ap_router s) = render_start True (if b then go_to p (ap_router s)
      else (go_to p (ap_router s))\<lparr>history_len := history_len (go_to p (ap_router s)) + 1\<rparr>)"
    by (simp add: navigate_def current_path_def Let_def)
  show ?thesis by (rule landing_render [where f = "navigate p b", OF _ refl _ f]) (use assms(1) in simp_all)
qed

lemma landing_close [simp]: "landing (close_dialogs s) = landing s"
  by (simp add: landing_def newest_def)

lemma landing_kept [simp]:
  "landing (s\<lparr>ap_modals := m\<rparr>) = landing s" "landing (s\<lparr>ap_session := x\<rparr>) = landing s"
  "landing (s\<lparr>ap_live := v\<rparr>) = landing s"
  by (simp_all add: landing_def newest_def)

lemma landing_throws: "landing s \<Longrightarrow> landing (with_router (render_fail t) s)"
  by (auto simp: landing_def newest_def with_router_def Let_def render_fail_def split: option.split)

lemma landing_registers: "landing s \<Longrightarrow> landing (with_router (onCleanup t) s)"
  by (auto simp: landing_def newest_def with_router_def Let_def onCleanup_def)

lemma render_finish_kept:
  "ticket (render_finish t n r) = ticket r" "failed (render_finish t n r) = failed r"
  "fst ` set (building (render_finish t n r)) = fst ` set (building r) - {t}"
  by (auto simp: render_finish_def Let_def map_of_eq_None_iff split: option.split)

lemma landing_ready:
  assumes "landing s"
  shows "landing (page_ready t n s)"
  using assms building_keys [of "ap_router s" t]
  by (cases "t = newest s") (auto simp: landing_def newest_def page_ready_def Let_def render_finish_kept)

lemma landing_step:
  fixes s :: "('p, 'n) application"
  assumes "landing s" and "mounted (ap_router s)" and "\<not> blanks e s"
  shows "landing (app_step env e s)"
proof (cases e)
  case (SetLanguage code)
  with assms show ?thesis by (simp add: setLanguage_def Let_def landing_refresh)
next
  case ThemeSwitched
  then show ?thesis by (simp add: switchTheme_def landing_refresh)
next
  case (NavigateApp q b)
  with assms show ?thesis by (simp add: navigate_app_def landing_navigate)
next
  case (Loaded a v c l)
  have "landing (snd (announceSessionEnded c l x)) = landing x" for x :: "('p, 'n) application"
    by (cases "takeEndedNotice (ap_session x)"; cases "fst (takeEndedNotice (ap_session x))")
      (simp_all add: announceSessionEnded_def landing_def newest_def)
  with Loaded show ?thesis by (simp add: loaded_def Let_def landing_refresh)
next
  case (LogoutPressed a)
  with assms show ?thesis
    by (cases a) (simp_all add: logout_pressed_def logout_def landing_refresh navigate_app_def)
next
  case (LoggedIn u q)
  with assms show ?thesis
    by (cases q) (simp_all add: finishLogin_def Let_def landing_refresh landing_navigate mount_def current_path_def)
next
  case (PageReady t n)
  with assms show ?thesis by (simp add: landing_ready)
qed (use assms in \<open>simp_all add: account_deleted_def landing_refresh navigate_app_def landing_navigate landing_pop
    landing_throws landing_registers announce_app_def\<close>)

text \<open>
  C2: the newest page ends up on the screen although every change of language, theme and session
  gives the router a new place to put pages: in every state that is reached without saving a
  profile or logging in back to the very page one is on, the newest page is on the screen unless it
  is still being built or could not be; once it is built it stands there, and no older page ever
  replaces it. Saving one's profile empties the screen: the newest page that was there is gone,
  and one that is still being built goes into the element that is no longer shown.
\<close>

theorem newest_page_on_screen:
  fixes s :: "('p, 'n) application"
  assumes "app_reach env (first_screen env lang th accept rs path query focus j) s"
  shows "(newest s \<in> fst ` set (building (ap_router s)) \<or> newest s \<in> set (failed (ap_router s))
       \<or> map_option fst (ap_page s) = Some (newest s))
     \<and> (newest s \<in> fst ` set (building (ap_router s))
        \<longrightarrow> ap_page (app_step env (PageReady (newest s) n) s) = Some (newest s, n))
     \<and> (t = newest s \<or> ap_page (app_step env (PageReady t n) s) = ap_page s)
     \<and> ap_page (app_step env (PageReady t n) (app_step env (ProfileSaved u) s)) = None"
proof -
  let ?s0 = "first_screen env lang th accept rs path query focus j :: ('p, 'n) application"
  have "landing ?s0"
    by (simp add: first_screen_def start_app_def landing_refresh)
  with first_screen_good [of env lang th accept rs path query focus j]
  have start: "landing ?s0 \<and> app_good env ?s0" by blast
  from assms have g: "landing s \<and> app_good env s"
  proof (induction rule: app_reach.induct)
    case at_start
    from start show ?case .
  next
    case (then_event s e)
    then show ?case using landing_step [of s e env] application.good_step [of env s e] by (simp add: app_good_def)
  qed
  then have "ap_into s t < Suc (ap_outlets s)" for t
    by (simp add: app_good_def outlets_good_def le_imp_less_Suc)
  then have "ap_into s t \<noteq> Suc (ap_outlets s)" by (metis nat_neq_iff)
  then have "ap_page (app_step env (PageReady t n) (app_step env (ProfileSaved u) s)) = None"
    by (simp add: page_ready_def profile_saved_def draw_shell_def Let_def)
  with g show ?thesis
    using building_keys [of "ap_router s" "newest s"]
    by (auto simp: landing_def newest_def page_ready_def Let_def)
qed

definition sample_environment :: environment where
  "sample_environment = \<lparr>env_intl = sample_intl, env_registry = [], env_https = True, env_template = None\<rparr>"

definition sample_screen :: "(nat, nat) application" where
  "sample_screen = first_screen sample_environment None None [] sample_routes ''/orders'' [] 0 []"

theorem newest_page_on_screen_witness:
  "let s = app_step sample_environment (PageReady 2 7) (app_step sample_environment ThemeSwitched sample_screen)
   in (newest s \<in> fst ` set (building (ap_router s)) \<or> newest s \<in> set (failed (ap_router s))
        \<or> map_option fst (ap_page s) = Some (newest s))
      \<and> ap_page (app_step sample_environment (PageReady 1 9)
           (app_step sample_environment (ProfileSaved \<lparr>su_id = ''u'', su_name = ''jo'', su_display_name = ''Jo'', su_is_admin = False\<rparr>) s)) = None"
proof -
  let ?s = "app_step sample_environment (PageReady 2 7) (app_step sample_environment ThemeSwitched sample_screen)"
  have "app_reach sample_environment sample_screen ?s"
    by (intro then_event at_start) simp_all
  from newest_page_on_screen [OF this [unfolded sample_screen_def], folded sample_screen_def,
      where t = 1 and n = 9]
  show ?thesis by (auto simp: Let_def)
qed

text \<open>
  A logout the server could not be told of forgets who was logged in and draws nothing anew: the
  title bar still shows the name, and nothing is said.
\<close>

lemma failed_logout_keeps_name:
  "current (ap_session (app_step env (LogoutPressed (Inl e)) s)) = None
   \<and> ap_shell (app_step env (LogoutPressed (Inl e)) s) = ap_shell s
   \<and> ap_drawn (app_step env (LogoutPressed (Inl e)) s) = ap_drawn s"
  by (simp add: logout_pressed_def logout_def)

text \<open>
  Going to another page does not draw the title bar anew, so the way back its login link holds is the
  path it was drawn on and not the one it is pressed on.
\<close>

lemma login_link_stays:
  "ap_drawn (app_step env (NavigateApp p b) s) = ap_drawn s"
  "ap_drawn (app_step env (FollowLink p) s) = ap_drawn s"
  "get_attribute (accountControl (chrome_view_of env t th v (None, q))) ''href'' = Some (loginHref q)"
  by (simp_all add: navigate_app_def accountControl_def Let_def chrome_view_of_def new_session_def get_attribute_def
      el_def append_def apply_attribute_def attribute_text_def)

lemma notice_keeps_person:
  "fst (ap_drawn x) = current (ap_session x)
   \<Longrightarrow> fst (ap_drawn (snd (announceSessionEnded c l x))) = current (ap_session (snd (announceSessionEnded c l x)))"
  by (simp add: announceSessionEnded_def takeEndedNotice_def split: option.split)

text \<open>
  As long as every logout reaches the server, the chrome shows who is logged in: after whatever
  logins, logouts, changes of the profile and answers of the server.
\<close>

theorem chrome_knows_person:
  assumes "list_all (\<lambda>e. \<not> (\<exists>x. e = LogoutPressed (Inl x))) es"
  shows "(let s = fold (app_step env) es (first_screen env lang th accept rs path query focus j :: ('p, 'n) application)
          in fst (ap_drawn s) = current (ap_session s))"
proof -
  have step: "fst (ap_drawn (app_step env e s)) = current (ap_session (app_step env e s))"
    if "fst (ap_drawn s) = current (ap_session s)" "\<not> (\<exists>x. e = LogoutPressed (Inl x))"
    for e and s :: "('p, 'n) application"
    using that
    by (cases e) (auto simp: setLanguage_def switchTheme_def navigate_app_def loaded_def notice_keeps_person logout_pressed_def logout_def
        finishLogin_def profile_saved_def account_deleted_def page_ready_def announce_app_def Let_def split: sum.split option.split)
  have start: "fst (ap_drawn (first_screen env lang th accept rs path query focus j :: ('p, 'n) application))
      = current (ap_session (first_screen env lang th accept rs path query focus j :: ('p, 'n) application))"
    by (simp add: first_screen_def start_app_def)
  show ?thesis
    using assms start unfolding Let_def
    by (induction es rule: rev_induct) (simp_all add: step)
qed

theorem chrome_knows_person_witness:
  "fst (ap_drawn (fold (app_step sample_environment) [LogoutPressed (Inr ()), PageReady 3 (4 :: nat)] sample_screen)) = None"
  using chrome_knows_person [of "[LogoutPressed (Inr ()), PageReady 3 (4 :: nat)]" sample_environment None None "[]" sample_routes
      "''/orders''" "[]" 0 "[]"]
  by (simp add: sample_screen_def Let_def logout_pressed_def logout_def page_ready_def navigate_app_def)

end
