(* ===== verification/Login.thy ===== *)
theory Login
  imports PasswordField Application OrderDetails Tabs
begin

text \<open>
  The account page for somebody logged out (\<open>src/pages/account/auth.ts\<close>): logging in, registering,
  asking for a reset link, and the page such a link opens. The forms work on the application, which
  is therefore part of their state: a login changes the session, draws the chrome anew and leads
  back. A password is kept as its code points and sent as their UTF-8 encoding. The dialogs that
  only say something are recorded as what was told.
\<close>

definition utf8_point :: "nat \<Rightarrow> string" where
  "utf8_point n =
     (if n < 128 then [char_of n]
      else if n < 2048 then [char_of (192 + n div 64), char_of (128 + n mod 64)]
      else if n < 65536 then [char_of (224 + n div 4096), char_of (128 + n div 64 mod 64), char_of (128 + n mod 64)]
      else [char_of (240 + n div 262144), char_of (128 + n div 4096 mod 64), char_of (128 + n div 64 mod 64),
            char_of (128 + n mod 64)])"

definition password_text :: "password_field \<Rightarrow> string" where
  "password_text f = concat (map utf8_point (pf_value f))"

section \<open>The forms\<close>

record ('p, 'n) login_form = ui +
  lg_name :: string
  lg_password :: password_field
  lg_application :: "('p, 'n) application"

record ('p, 'n) register_form = "('p, 'n) login_form" +
  rg_display_name :: string
  rg_email :: string

text \<open>What a browser does with Unicode: normalising, and which code points can be seen.\<close>

record unicode =
  un_nfc :: "nat list \<Rightarrow> nat list"
  un_printable :: "nat \<Rightarrow> bool"

definition no_options :: password_options where
  "no_options = \<lparr>po_label = None, po_name = None, po_autocomplete = None, po_indicator = False\<rparr>"

text \<open>The form starts with the last name used; reading it throws when the cookie cannot be decoded.\<close>

definition new_login_form :: "unicode \<Rightarrow> ('p, 'n) application \<Rightarrow> js_error + ('p, 'n) login_form" where
  "new_login_form un a =
     (case readCookie (theme_jar (ap_theme a)) NAME_COOKIE of
        Inl e \<Rightarrow> Inl e
      | Inr v \<Rightarrow> Inr \<lparr>ui_status = statusLine, ui_busy = False, lg_name = (case v of None \<Rightarrow> [] | Some n \<Rightarrow> n),
          lg_password = new_password_field (un_nfc un) (un_printable un) (no_options\<lparr>po_autocomplete := Some ''current-password''\<rparr>),
          lg_application = a\<rparr>)"

definition new_register_form :: "unicode \<Rightarrow> ('p, 'n) application \<Rightarrow> ('p, 'n) register_form" where
  "new_register_form un a =
     \<lparr>ui_status = statusLine, ui_busy = False, lg_name = [],
      lg_password = new_password_field (un_nfc un) (un_printable un) (no_options\<lparr>po_indicator := True\<rparr>),
      lg_application = a, rg_display_name = [], rg_email = []\<rparr>"

definition form_t :: "('p, 'n, 'x) login_form_scheme \<Rightarrow> translator" where
  "form_t f = ap_t (lg_application f)"

text \<open>The name is remembered and the login finished.\<close>

definition logged_in ::
  "environment \<Rightarrow> string option \<Rightarrow> session_user \<Rightarrow> ('p, 'n, 'x) login_form_scheme \<Rightarrow> ('p, 'n, 'x) login_form_scheme" where
  "logged_in env returnTo user f =
     (let a = lg_application f; th = ap_theme a
      in f\<lparr>lg_application := finishLogin env user returnTo (a\<lparr>ap_theme :=
           th\<lparr>theme_jar := writeCookie (env_https env) NAME_COOKIE (js_trim (lg_name f)) (theme_jar th)\<rparr>\<rparr>)\<rparr>)"

text \<open>\<open>try\<close> a request with the button held still, \<open>finally\<close> let it go.\<close>

definition submit_held ::
  "translator \<Rightarrow> ('x ui_scheme, unit) act \<Rightarrow> ('x ui_scheme, unit) act" where
  "submit_held t action =
     andthen (modify (ui_busy_update (\<lambda>_. True)))
       (finally_do (try_catch action (\<lambda>e. on_status (fail_with (errorMessage t e))))
          (\<lambda>w. w\<lparr>local := (local w)\<lparr>ui_busy := False\<rparr>\<rparr>))"

definition login_call :: "('p, 'n, 'x) login_form_scheme \<Rightarrow> http_call" where
  "login_call f =
     Call ''POST'' ''/auth/login''
       (Some (JObj [(''name'', JStr (js_trim (lg_name f))), (''password'', JStr (password_text (lg_password f)))]))"

definition send_login ::
  "session_user server \<Rightarrow> environment \<Rightarrow> translator \<Rightarrow> string option \<Rightarrow> (('p, 'n) login_form, unit) act" where
  "send_login srv env t returnTo =
     andthen (on_status clear_status)
       (submit_held t (bind (gets login_call) (\<lambda>c. bind (call srv c) (\<lambda>user. modify (logged_in env returnTo user)))))"

definition register_call :: "('p, 'n) register_form \<Rightarrow> http_call" where
  "register_call f =
     Call ''POST'' ''/auth/register''
       (Some (JObj [(''name'', JStr (js_trim (lg_name f))), (''display_name'', JStr (js_trim (rg_display_name f))),
                    (''email'', JStr (js_trim (rg_email f))), (''password'', JStr (password_text (lg_password f)))]))"

definition send_register ::
  "session_user server \<Rightarrow> environment \<Rightarrow> unicode \<Rightarrow> translator \<Rightarrow> (('p, 'n) register_form, unit) act" where
  "send_register srv env un t =
     andthen (on_status clear_status)
       (bind (gets (\<lambda>f. field_acceptable (un_nfc un) (un_printable un) (lg_password f)))
          (\<lambda>ok. if \<not> ok then ret ()
             else submit_held t (bind (gets register_call)
                (\<lambda>c. bind (call srv c) (\<lambda>user. modify (logged_in env None user))))))"

section \<open>A forgotten password\<close>

record forgotten_dialog = dialog +
  fd_who :: string
  fd_missing :: "string option"

definition new_forgotten_dialog :: "string \<Rightarrow> forgotten_dialog" where
  "new_forgotten_dialog prefill =
     \<lparr>ui_status = statusLine, ui_busy = False, dl_open = True, dl_keep = False, fd_who = js_trim prefill, fd_missing = None\<rparr>"

definition ask_reset :: "unit server \<Rightarrow> translator \<Rightarrow> (forgotten_dialog, bool) act" where
  "ask_reset srv t =
     bind (gets fd_who)
       (\<lambda>who. if js_trim who = []
              then andthen (modify (\<lambda>d. d\<lparr>fd_missing := Some (translate t ''auth.name_or_email_required'' [])\<rparr>)) (ret False)
              else andthen (modify (\<lambda>d. d\<lparr>fd_missing := None\<rparr>))
                (andthen (call srv (Call ''POST'' ''/auth/password-reset'' (Some (JObj [(''name'', JStr (js_trim who))]))))
                   (ret True)))"

definition forgottenPasswordDialog ::
  "unit server \<Rightarrow> translator \<Rightarrow> forgotten_dialog \<Rightarrow> ('l, forgotten_dialog) act" where
  "forgottenPasswordDialog srv t =
     submit_on_page t (ask_reset srv t) (emit (Told ''dialog'' (translate t ''auth.reset_link_sent'' [])))"

section \<open>The page a reset link opens\<close>

record reset_form = ui +
  rs_password :: password_field

definition reset_call :: "string \<Rightarrow> 'x reset_form_scheme \<Rightarrow> http_call" where
  "reset_call tok f =
     Call ''POST'' (''/auth/password-reset/'' @ encodeURIComponent tok)
       (Some (JObj [(''password'', JStr (password_text (rs_password f)))]))"

definition send_reset :: "unit server \<Rightarrow> translator \<Rightarrow> string \<Rightarrow> (reset_form, unit) act" where
  "send_reset srv t tok =
     andthen (on_status clear_status)
       (submit_held t (bind (gets (reset_call tok)) (\<lambda>c. andthen (call srv c)
          (andthen (emit (Navigated ''/account'')) (emit (Told ''dialog'' (translate t ''auth.password_changed'' [])))))))"

section \<open>The forms as they are drawn\<close>

datatype login_action = SendLogin | OpenForgotten | SendRegister | SendReset

definition login_element :: "('p, 'n) login_form \<Rightarrow> nat \<Rightarrow> login_action node \<times> nat" where
  "login_element f seq =
     (let t = form_t f; opts = no_options\<lparr>po_autocomplete := Some ''current-password''\<rparr>;
          (f1, n1) = field (translate t ''auth.name'' [])
             (input (no_input\<lparr>in_name := Some ''name'', in_autocomplete := Some ''username'', in_required := True,
                in_value := Some (lg_name f)\<rparr>)) None None None seq;
          (f2, n2) = password_element t opts (lg_password f) n1;
          submit = button ((plain_button (translate t ''auth.login'' []))
             \<lparr>bt_variant := Primary, bt_submit := True, bt_disabled := ui_busy f\<rparr>);
          forgotten = button ((plain_button (translate t ''auth.forgot_password'' []))\<lparr>bt_onclick := Some OpenForgotten\<rparr>)
      in (el ''div'' [(''class'', AStr ''panel'')]
            [CNode (form SendLogin
               [CNode f1, CNode f2,
                CNode (el ''p'' [(''class'', AStr ''field-hint''), (''text'', AStr (translate t ''auth.session_replaced'' []))] []),
                CNode (actions [CNode submit, CNode forgotten]), CNode (status_element (ui_status f))])], n2))"

definition register_element :: "('p, 'n) register_form \<Rightarrow> nat \<Rightarrow> login_action node \<times> nat" where
  "register_element f seq =
     (let t = form_t f; optional = Some (translate t ''auth.optional'' []);
          (f1, n1) = field (translate t ''auth.name'' [])
             (input (no_input\<lparr>in_name := Some ''name'', in_autocomplete := Some ''username'', in_required := True,
                in_value := Some (lg_name f)\<rparr>)) (Some (translate t ''auth.name_hint'' [])) None None seq;
          (f2, n2) = field (translate t ''auth.display_name'' [])
             (input (no_input\<lparr>in_name := Some ''display_name'', in_autocomplete := Some ''nickname'',
                in_value := Some (rg_display_name f)\<rparr>)) (Some (translate t ''auth.display_name_hint'' [])) None optional n1;
          (f3, n3) = field (translate t ''auth.email'' [])
             (input (no_input\<lparr>in_name := Some ''email'', in_type := Some ''email'', in_autocomplete := Some ''email'',
                in_value := Some (rg_email f)\<rparr>)) (Some (translate t ''auth.email_hint'' [])) None optional n2;
          (f4, n4) = password_element t (no_options\<lparr>po_indicator := True\<rparr>) (lg_password f) n3;
          submit = button ((plain_button (translate t ''auth.register'' []))
             \<lparr>bt_variant := Primary, bt_submit := True, bt_disabled := ui_busy f\<rparr>)
      in (el ''div'' [(''class'', AStr ''panel'')]
            [CNode (form SendRegister
               [CNode f1, CNode f2, CNode f3, CNode f4, CNode (actions [CNode submit]), CNode (status_element (ui_status f))])], n4))"

text \<open>The two tabs of the panel; the first one is chosen.\<close>

definition login_tabs :: "translator \<Rightarrow> tab_spec list" where
  "login_tabs t =
     [\<lparr>tb_id = ''login'', tb_label = translate t ''auth.login'' [], tb_disabled = None\<rparr>,
      \<lparr>tb_id = ''register'', tb_label = translate t ''auth.register'' [], tb_disabled = None\<rparr>]"

definition resetPasswordPage :: "translator \<Rightarrow> reset_form \<Rightarrow> nat \<Rightarrow> login_action node \<times> string" where
  "resetPasswordPage t f seq =
     (let title = translate t ''auth.set_password'' [];
          (f1, n1) = password_element t (no_options\<lparr>po_autocomplete := Some ''new-password''\<rparr>) (rs_password f) seq;
          submit = button ((plain_button title)\<lparr>bt_variant := Primary, bt_submit := True, bt_disabled := ui_busy f\<rparr>)
      in page title [CNode (section_card title [CNode (form SendReset
           [CNode (el ''p'' [(''text'', AStr (translate t ''auth.reset_explain'' []))] []), CNode f1,
            CNode (actions [CNode submit]), CNode (status_element (ui_status f))])])])"

section \<open>What a login does\<close>

lemma submit_held_run:
  "submit_held t action w =
     (case action (w\<lparr>local := (local w)\<lparr>ui_busy := True\<rparr>\<rparr>) of
        (Inr x, v) \<Rightarrow> (Inr (), v\<lparr>local := (local v)\<lparr>ui_busy := False\<rparr>\<rparr>)
      | (Inl e, v) \<Rightarrow> (Inr (), v\<lparr>local := (local v)\<lparr>ui_status := fail_with (errorMessage t e) (ui_status (local v)), ui_busy := False\<rparr>\<rparr>))"
  by (auto simp: submit_held_def on_status_def act_simps split: prod.splits sum.splits)

lemma call_kept [simp]:
  "login_call (f\<lparr>ui_status := s\<rparr>) = login_call f" "login_call (f\<lparr>ui_busy := b\<rparr>) = login_call f"
  by (simp_all add: login_call_def)

lemma register_call_kept [simp]:
  "register_call (f\<lparr>ui_status := s\<rparr>) = register_call f" "register_call (f\<lparr>ui_busy := b\<rparr>) = register_call f"
  by (simp_all add: register_call_def)

lemma current_path_go_to [simp]: "current_path (go_to p r) = p"
  by (simp add: current_path_def go_to_def split_query_def split: option.split)

lemma current_path_render [simp]: "current_path (render_start b r) = current_path r" "current_path (mount r) = current_path r"
  "current_path (r\<lparr>history_len := n\<rparr>) = current_path r"
  by (simp_all add: current_path_def render_start_def mount_def Let_def split: sum.split)

lemma current_path_navigate [simp]: "current_path (navigate p b r) = p" "current_path (refresh r) = current_path r"
  by (simp_all add: navigate_def refresh_def Let_def current_path_def [symmetric])

lemma current_path_new [simp]: "current_path (new_router rs p q) = p @ q"
  by (simp add: current_path_def new_router_def)

text \<open>Where finishing a login leaves the application.\<close>

lemma finishLogin_parts:
  "current (ap_session (finishLogin env user q a)) = Some user" "fst (ap_drawn (finishLogin env user q a)) = Some user"
  "current_path (ap_router (finishLogin env user q a)) = (case q of None \<Rightarrow> current_path (ap_router a) | Some p \<Rightarrow> p)"
  "q \<noteq> Some (current_path (ap_router a)) \<Longrightarrow> landing (finishLogin env user q a)"
  "theme_jar (ap_theme (finishLogin env user q a)) = theme_jar (ap_theme a)"
  by (cases q; simp add: finishLogin_def Let_def landing_refresh landing_navigate)+

lemma send_login_run:
  "send_login srv env t returnTo w =
     (let c = login_call (local w); f = (local w)\<lparr>ui_status := clear_status (ui_status (local w)), ui_busy := True\<rparr>
      in (Inr (), \<lparr>trace = trace w @ [Sent c],
           local = (case srv (trace w) c of
              Inl e \<Rightarrow> f\<lparr>ui_status := fail_with (errorMessage t e) (ui_status f), ui_busy := False\<rparr>
            | Inr user \<Rightarrow> (logged_in env returnTo user f)\<lparr>ui_busy := False\<rparr>)\<rparr>))"
proof -
  obtain tr l where w: "w = \<lparr>trace = tr, local = l\<rparr>" by (cases w) auto
  show ?thesis
    by (cases "srv tr (login_call l)")
      (simp_all add: w send_login_def submit_held_run on_status_def act_simps Let_def)
qed

text \<open>
  Logging in: exactly one request with the name and the password as typed; a refusal is said
  and nothing else changes, so it can be tried again; otherwise the name is remembered, the session
  and the title bar know who is logged in, and the address is the one to go back to, or stays.
  However it went, the button can be pressed again.
\<close>

theorem login_outcome:
  "(let f = local w; c = login_call f; out = send_login srv env t returnTo w; f' = local (snd out);
        a = lg_application f; a' = lg_application f'
    in fst out = Inr () \<and> trace (snd out) = trace w @ [Sent c] \<and> \<not> ui_busy f'
       \<and> (case srv (trace w) c of
            Inl e \<Rightarrow> ui_status f' = \<lparr>st_text = errorMessage t e, st_error = True\<rparr> \<and> login_call f' = c \<and> a' = a
          | Inr user \<Rightarrow> current (ap_session a') = Some user \<and> fst (ap_drawn a') = Some user
              \<and> theme_jar (ap_theme a') = writeCookie (env_https env) NAME_COOKIE (js_trim (lg_name f)) (theme_jar (ap_theme a))
              \<and> current_path (ap_router a') = (case returnTo of None \<Rightarrow> current_path (ap_router a) | Some p \<Rightarrow> p)))"
  by (cases "srv (trace w) (login_call (local w))"; cases returnTo)
    (simp_all add: send_login_run logged_in_def Let_def fail_with_def finishLogin_parts)

text \<open>
  C27: whoever logs in through a login link ends where the link was: for every path of the site that
  is not the account page, a login on the page the link leads to puts that path into the address
  bar and its page is the one that is being built, or is on the screen, or could not be built; and
  another visit finds the name filled in.
\<close>

theorem login_leads_back:
  assumes "isSafeReturnPath p" and "\<not> starts_with p ''/account''"
    and "current_path (ap_router (lg_application (local w))) = loginHref p"
    and "srv (trace w) (login_call (local w)) = Inr user"
    and "plain_jar (theme_jar (ap_theme (lg_application (local w))))" and "valid_utf8 (js_trim (lg_name (local w)))"
  shows "\<exists>query. loginHref p = ''/account?'' @ query
    \<and> (let a = lg_application (local (snd (send_login srv env t (returnPathFrom query) w)))
       in current_path (ap_router a) = p \<and> landing a \<and> current (ap_session a) = Some user
          \<and> (\<exists>f. new_login_form un a = Inr f \<and> lg_name f = js_trim (lg_name (local w))))"
proof -
  obtain query where q: "loginHref p = ''/account?'' @ query" "returnPathFrom query = Some p"
    using login_link_read [OF assms(1,2)] by blast
  have away: "p \<noteq> current_path (ap_router (lg_application (local w)))"
    using assms(2) unfolding assms(3) q(1) by auto
  have name: "readCookie (writeCookie (env_https env) NAME_COOKIE (js_trim (lg_name (local w)))
      (theme_jar (ap_theme (lg_application (local w))))) NAME_COOKIE = Inr (Some (js_trim (lg_name (local w))))"
    using assms(5,6) by (intro cookie_store.get_put) simp_all
  show ?thesis
    by (intro exI [of _ query])
      (use away assms(4) name in \<open>simp add: q send_login_run Let_def logged_in_def finishLogin_parts new_login_form_def\<close>)
qed

definition sample_login :: "(nat, nat) login_form" where
  "sample_login =
     \<lparr>ui_status = statusLine, ui_busy = False, lg_name = ''jo'',
      lg_password = \<lparr>pf_value = [97], pf_indicator = False, pf_counter = [], pf_counter_met = False, pf_rules = []\<rparr>,
      lg_application = first_screen sample_environment None None [] sample_routes ''/account'' ''?next=%2Forder%2F7'' 0 []\<rparr>"

theorem login_leads_back_witness:
  "\<exists>query. loginHref ''/order/7'' = ''/account?'' @ query
    \<and> current_path (ap_router (lg_application (local (snd (send_login
          (\<lambda>_ _. Inr \<lparr>su_id = ''u'', su_name = ''jo'', su_display_name = ''Jo'', su_is_admin = False\<rparr>)
          sample_environment sample_translator (returnPathFrom query) (new_world sample_login)))))) = ''/order/7''"
proof -
  let ?user = "\<lparr>su_id = ''u'', su_name = ''jo'', su_display_name = ''Jo'', su_is_admin = False\<rparr>"
  have facts: "isSafeReturnPath ''/order/7''" "loginHref ''/order/7'' = ''/account?next=%2Forder%2F7''"
    "js_trim ''jo'' = ''jo''" "valid_utf8 ''jo''"
    by code_simp+
  have "current_path (ap_router (lg_application sample_login)) = loginHref ''/order/7''"
    unfolding facts by (simp add: sample_login_def first_screen_def start_app_def createApp_def)
  moreover have "theme_jar (ap_theme (lg_application sample_login)) = []"
    by (simp add: sample_login_def first_screen_def start_app_def createApp_def initTheme_def)
  ultimately show ?thesis
    using login_leads_back [of "''/order/7''" "new_world sample_login" "\<lambda>_ _. Inr ?user" ?user sample_environment
        sample_translator "\<lparr>un_nfc = id, un_printable = \<lambda>_. True\<rparr>"] facts
    by (simp add: new_world_def sample_login_def Let_def plain_jar_def)
qed

text \<open>
  Registering: a password the rule refuses is not sent anywhere; otherwise exactly one request
  goes out, a refusal is said and what was typed stays, and a new account is logged in and stays on
  the account page, whose page is built anew.
\<close>

theorem register_outcome:
  "(let f = local w; c = register_call f; out = send_register srv env un t w; f' = local (snd out);
        a = lg_application f; a' = lg_application f'
    in fst out = Inr ()
       \<and> (if \<not> field_acceptable (un_nfc un) (un_printable un) (lg_password f)
          then trace (snd out) = trace w \<and> a' = a \<and> register_call f' = c
          else trace (snd out) = trace w @ [Sent c] \<and> \<not> ui_busy f'
            \<and> (case srv (trace w) c of
                 Inl e \<Rightarrow> ui_status f' = \<lparr>st_text = errorMessage t e, st_error = True\<rparr> \<and> register_call f' = c \<and> a' = a
               | Inr user \<Rightarrow> current (ap_session a') = Some user \<and> landing a'
                   \<and> current_path (ap_router a') = current_path (ap_router a))))"
proof -
  obtain tr f where w: "w = \<lparr>trace = tr, local = f\<rparr>" by (cases w) auto
  show ?thesis
    unfolding w by (cases "srv tr (register_call f)")
      (simp_all add: send_register_def submit_held_run on_status_def act_simps logged_in_def Let_def fail_with_def
        finishLogin_parts)
qed

text \<open>
  A reset link is spent with the password and leads to the login page, which starts no session; a
  refusal is said on the page. An empty name asks for no link.
\<close>

lemma reset_outcome:
  "(let out = send_reset srv t tok w; c = reset_call tok (local w)
    in fst out = Inr () \<and> \<not> ui_busy (local (snd out))
       \<and> (case srv (trace w) c of
            Inl e \<Rightarrow> trace (snd out) = trace w @ [Sent c]
              \<and> ui_status (local (snd out)) = \<lparr>st_text = errorMessage t e, st_error = True\<rparr>
          | Inr _ \<Rightarrow> trace (snd out) = trace w @ [Sent c, Navigated ''/account'', Told ''dialog'' (translate t ''auth.password_changed'' [])]))"
proof -
  obtain tr f where w: "w = \<lparr>trace = tr, local = f\<rparr>" by (cases w) auto
  have c: "reset_call tok (f\<lparr>ui_status := s, ui_busy := b\<rparr>) = reset_call tok f" for s b
    by (simp add: reset_call_def)
  show ?thesis
    unfolding w by (cases "srv tr (reset_call tok f)")
      (simp_all add: send_reset_def submit_held_run on_status_def act_simps Let_def fail_with_def c)
qed

end
