(* ===== verification/Account.thy ===== *)
theory Account
  imports Login
begin

text \<open>
  The account page for somebody logged in (\<open>src/pages/account/index.ts\<close>): the profile and the
  password, which the Save on the heading writes, the API tokens, and deleting the account. The
  application is part of the page's state, because saving the profile changes the session and draws
  the chrome anew. A save runs to its end before the next thing happens.
\<close>

section \<open>The state\<close>

record profile_form =
  pr_status :: status
  pr_name :: string
  pr_display :: string
  pr_email :: string
  pr_name_off :: bool
  pr_email_off :: bool
  pr_tracker :: "(string \<times> string \<times> string) tracker"

record password_form =
  pw_status :: status
  pw_current :: password_field
  pw_next :: password_field
  pw_tracker :: "nat list tracker"

record ('p, 'n) account_page =
  ag_user :: session_user
  ag_application :: "('p, 'n) application"
  ag_profile :: profile_form
  ag_password :: password_form
  ag_save_disabled :: bool

definition account_t :: "('p, 'n) account_page \<Rightarrow> translator" where
  "account_t l = ap_t (ag_application l)"

definition user_path :: "session_user \<Rightarrow> string" where
  "user_path u = ''/users/'' @ su_id u"

definition snapshot :: "profile_form \<Rightarrow> string \<times> string \<times> string" where
  "snapshot f = (js_trim (pr_name f), js_trim (pr_display f), js_trim (pr_email f))"

definition new_profile_form :: "session_user \<Rightarrow> profile_form" where
  "new_profile_form u =
     \<lparr>pr_status = statusLine, pr_name = su_name u, pr_display = su_display_name u, pr_email = [],
      pr_name_off = su_is_admin u, pr_email_off = False,
      pr_tracker = dirtyTracker (js_trim (su_name u), js_trim (su_display_name u), [])\<rparr>"

definition new_password_form :: "unicode \<Rightarrow> password_form" where
  "new_password_form un =
     \<lparr>pw_status = statusLine, pw_current = new_password_field (un_nfc un) (un_printable un) no_options,
      pw_next = new_password_field (un_nfc un) (un_printable un) (no_options\<lparr>po_indicator := True\<rparr>),
      pw_tracker = dirtyTracker []\<rparr>"

definition new_account_page :: "unicode \<Rightarrow> session_user \<Rightarrow> ('p, 'n) application \<Rightarrow> ('p, 'n) account_page" where
  "new_account_page un u a =
     \<lparr>ag_user = u, ag_application = a, ag_profile = new_profile_form u, ag_password = new_password_form un,
      ag_save_disabled = True\<rparr>"

text \<open>What the heading's Save has heard of the two sections.\<close>

definition profile_dirty :: "('p, 'n) account_page \<Rightarrow> bool" where
  "profile_dirty l = heard_dirty (pr_tracker (ag_profile l))"

definition password_dirty :: "('p, 'n) account_page \<Rightarrow> bool" where
  "password_dirty l = heard_dirty (pw_tracker (ag_password l))"

definition listen :: "('p, 'n) account_page \<Rightarrow> ('p, 'n) account_page" where
  "listen l = l\<lparr>ag_save_disabled := \<not> (profile_dirty l \<or> password_dirty l)\<rparr>"

definition in_profile :: "(profile_form \<Rightarrow> profile_form) \<Rightarrow> ('p, 'n) account_page \<Rightarrow> ('p, 'n) account_page" where
  "in_profile f l = l\<lparr>ag_profile := f (ag_profile l)\<rparr>"

definition in_password :: "(password_form \<Rightarrow> password_form) \<Rightarrow> ('p, 'n) account_page \<Rightarrow> ('p, 'n) account_page" where
  "in_password f l = l\<lparr>ag_password := f (ag_password l)\<rparr>"

section \<open>What is typed and what arrives\<close>

definition profile_touched :: "profile_form \<Rightarrow> profile_form" where
  "profile_touched f = f\<lparr>pr_tracker := touched (snapshot f) (pr_tracker f)\<rparr>"

definition profile_clean :: "profile_form \<Rightarrow> profile_form" where
  "profile_clean f = f\<lparr>pr_tracker := saved ((pr_tracker f)\<lparr>content := snapshot f\<rparr>)\<rparr>"

text \<open>
  The address arrives: what is in the form then is taken for what was loaded. When it cannot be
  read its field is disabled.
\<close>

definition email_arrives :: "js_error + string option \<Rightarrow> ('p, 'n) account_page \<Rightarrow> ('p, 'n) account_page" where
  "email_arrives answer l =
     (case answer of
        Inl _ \<Rightarrow> in_profile (\<lambda>f. f\<lparr>pr_email_off := True\<rparr>) l
      | Inr mail \<Rightarrow> listen (in_profile (\<lambda>f. profile_clean (f\<lparr>pr_email := (case mail of None \<Rightarrow> [] | Some m \<Rightarrow> m)\<rparr>)) l))"

definition type_current :: "unicode \<Rightarrow> nat list \<Rightarrow> password_form \<Rightarrow> password_form" where
  "type_current un v f =
     f\<lparr>pw_current := type_password (un_nfc un) (un_printable un) v (pw_current f),
       pw_tracker := touched (pf_value (pw_next f)) (pw_tracker f)\<rparr>"

definition type_next :: "unicode \<Rightarrow> nat list \<Rightarrow> password_form \<Rightarrow> password_form" where
  "type_next un v f =
     f\<lparr>pw_next := type_password (un_nfc un) (un_printable un) v (pw_next f), pw_tracker := touched v (pw_tracker f)\<rparr>"

section \<open>Saving\<close>

definition profile_call :: "('p, 'n) account_page \<Rightarrow> http_call" where
  "profile_call l =
     (let f = ag_profile l
      in Call ''PATCH'' (user_path (ag_user l)) (Some (JObj
           ((if pr_name_off f then [] else [(''name'', JStr (js_trim (pr_name f)))])
            @ [(''display_name'', JStr (js_trim (pr_display f)))]
            @ (if pr_email_off f then [] else [(''email'', JStr (js_trim (pr_email f)))])))))"

definition save_profile :: "session_user server \<Rightarrow> environment \<Rightarrow> translator \<Rightarrow> (('p, 'n) account_page, unit) act" where
  "save_profile srv env t =
     andthen (modify (in_profile (pr_status_update clear_status)))
       (try_catch
          (bind (gets profile_call) (\<lambda>c. bind (call srv c)
             (\<lambda>updated. modify (\<lambda>l. listen (in_profile (\<lambda>f. profile_clean (f\<lparr>pr_status := say (translate t ''state.saved'' []) (pr_status f)\<rparr>))
                (l\<lparr>ag_application := profile_saved env updated (ag_application l)\<rparr>))))))
          (\<lambda>e. andthen (modify (in_profile (pr_status_update (fail_with (errorMessage t e))))) (raise e)))"

definition password_call :: "('p, 'n) account_page \<Rightarrow> http_call" where
  "password_call l =
     Call ''PATCH'' (user_path (ag_user l)) (Some (JObj
       [(''password'', JStr (password_text (pw_next (ag_password l)))),
        (''current_password'', JStr (password_text (pw_current (ag_password l))))]))"

text \<open>A new password that does not meet the rules is refused with a plain error, which nobody reads.\<close>

definition save_password :: "unit server \<Rightarrow> unicode \<Rightarrow> translator \<Rightarrow> (('p, 'n) account_page, unit) act" where
  "save_password srv un t =
     andthen (modify (in_password (pw_status_update clear_status)))
       (bind (gets (\<lambda>l. field_acceptable (un_nfc un) (un_printable un) (pw_next (ag_password l))))
          (\<lambda>ok. if \<not> ok then raise TypeError
             else try_catch
               (bind (gets password_call) (\<lambda>c. andthen (call srv c)
                  (modify (\<lambda>l. listen (in_password (\<lambda>f. (type_next un [] (f\<lparr>pw_current := type_password (un_nfc un) (un_printable un) [] (pw_current f)\<rparr>))
                     \<lparr>pw_status := say (translate t ''state.saved'' []) (pw_status f)\<rparr>) l)))))
               (\<lambda>e. andthen (modify (in_password (pw_status_update (fail_with (errorMessage t e))))) (raise e))))"

record account_server =
  as_profile :: "session_user server"
  as_done :: "unit server"

definition press_account_save ::
  "account_server \<Rightarrow> environment \<Rightarrow> unicode \<Rightarrow> translator \<Rightarrow> (('p, 'n) account_page, unit) act" where
  "press_account_save srv env un t =
     andthen (modify (ag_save_disabled_update (\<lambda>_. True)))
       (try_catch
          (bind (gets profile_dirty)
             (\<lambda>d. andthen (if d then save_profile (as_profile srv) env t else ret ())
                (bind (gets password_dirty)
                   (\<lambda>d. if d then save_password (as_done srv) un t else ret ()))))
          (\<lambda>e. modify (ag_save_disabled_update (\<lambda>_. False))))"

section \<open>The page as a machine\<close>

datatype account_event =
    EmailArrives "js_error + string option"
  | TypeName string
  | TypeDisplay string
  | TypeEmail string
  | TypeCurrent "nat list"
  | TypeNext "nat list"
  | PressAccountSave
  | SubmitProfile
  | SubmitPassword

text \<open>
  A disabled field cannot be typed into. Enter in a field saves that form alone, and nobody waits
  for what it answers.
\<close>

fun account_do ::
  "account_server \<Rightarrow> environment \<Rightarrow> unicode \<Rightarrow> translator \<Rightarrow> account_event \<Rightarrow> (('p, 'n) account_page, unit) act" where
  "account_do srv env un t (EmailArrives a) = modify (email_arrives a)"
| "account_do srv env un t (TypeName v) =
     modify (\<lambda>l. if pr_name_off (ag_profile l) then l else listen (in_profile (\<lambda>f. profile_touched (f\<lparr>pr_name := v\<rparr>)) l))"
| "account_do srv env un t (TypeDisplay v) = modify (\<lambda>l. listen (in_profile (\<lambda>f. profile_touched (f\<lparr>pr_display := v\<rparr>)) l))"
| "account_do srv env un t (TypeEmail v) =
     modify (\<lambda>l. if pr_email_off (ag_profile l) then l else listen (in_profile (\<lambda>f. profile_touched (f\<lparr>pr_email := v\<rparr>)) l))"
| "account_do srv env un t (TypeCurrent v) = modify (\<lambda>l. listen (in_password (type_current un v) l))"
| "account_do srv env un t (TypeNext v) = modify (\<lambda>l. listen (in_password (type_next un v) l))"
| "account_do srv env un t PressAccountSave = press_account_save srv env un t"
| "account_do srv env un t SubmitProfile = try_catch (save_profile (as_profile srv) env t) (\<lambda>_. ret ())"
| "account_do srv env un t SubmitPassword = try_catch (save_password (as_done srv) un t) (\<lambda>_. ret ())"

definition account_step ::
  "account_server \<Rightarrow> environment \<Rightarrow> unicode \<Rightarrow> translator \<Rightarrow> account_event \<Rightarrow> ('p, 'n) account_page world
   \<Rightarrow> ('p, 'n) account_page world" where
  "account_step srv env un t e w = snd (account_do srv env un t e w)"

section \<open>Save on the heading\<close>

lemma profile_parts [simp]:
  "ag_password (in_profile f l) = ag_password l" "ag_user (in_profile f l) = ag_user l"
  "ag_application (in_profile f l) = ag_application l" "ag_save_disabled (in_profile f l) = ag_save_disabled l"
  "ag_profile (in_profile f l) = f (ag_profile l)" "password_dirty (in_profile f l) = password_dirty l"
  "password_call (in_profile f l) = password_call l"
  by (simp_all add: in_profile_def password_dirty_def password_call_def)

lemma password_parts [simp]:
  "ag_profile (in_password f l) = ag_profile l" "ag_user (in_password f l) = ag_user l"
  "ag_application (in_password f l) = ag_application l" "ag_save_disabled (in_password f l) = ag_save_disabled l"
  "ag_password (in_password f l) = f (ag_password l)" "profile_dirty (in_password f l) = profile_dirty l"
  "profile_call (in_password f l) = profile_call l"
  by (simp_all add: in_password_def profile_dirty_def profile_call_def)

lemma listen_parts [simp]:
  "ag_profile (listen l) = ag_profile l" "ag_password (listen l) = ag_password l" "ag_user (listen l) = ag_user l"
  "ag_application (listen l) = ag_application l" "profile_dirty (listen l) = profile_dirty l"
  "password_dirty (listen l) = password_dirty l" "password_call (listen l) = password_call l"
  "profile_call (listen l) = profile_call l"
  "ag_save_disabled (listen l) = (\<not> (profile_dirty l \<or> password_dirty l))"
  by (simp_all add: listen_def profile_dirty_def password_dirty_def password_call_def profile_call_def)

lemma untouched_parts [simp]:
  "profile_dirty (l\<lparr>ag_application := a\<rparr>) = profile_dirty l" "password_dirty (l\<lparr>ag_application := a\<rparr>) = password_dirty l"
  "profile_dirty (l\<lparr>ag_save_disabled := b\<rparr>) = profile_dirty l" "password_dirty (l\<lparr>ag_save_disabled := b\<rparr>) = password_dirty l"
  "profile_call (l\<lparr>ag_save_disabled := b\<rparr>) = profile_call l" "password_call (l\<lparr>ag_save_disabled := b\<rparr>) = password_call l"
  "password_call (l\<lparr>ag_application := a\<rparr>) = password_call l"
  by (simp_all add: profile_dirty_def password_dirty_def password_call_def profile_call_def)

lemma heard [simp]: "heard_dirty (saved x) = False" "heard_dirty (touched v x) = (v \<noteq> baseline x)"
  "baseline (touched v x) = baseline x"
  by (simp_all add: heard_dirty_def saved_def touched_def report_def)

lemma clean_parts [simp]: "heard_dirty (pr_tracker (profile_clean f)) = False" "pr_status (profile_clean f) = pr_status f"
  by (simp_all add: profile_clean_def)

text \<open>Where saving the profile leaves the page.\<close>

definition after_profile ::
  "environment \<Rightarrow> translator \<Rightarrow> js_error + session_user \<Rightarrow> ('p, 'n) account_page \<Rightarrow> ('p, 'n) account_page" where
  "after_profile env t answer l =
     (case answer of
        Inl e \<Rightarrow> in_profile (pr_status_update (\<lambda>_. \<lparr>st_text = errorMessage t e, st_error = True\<rparr>)) l
      | Inr u \<Rightarrow> listen (in_profile (\<lambda>f. profile_clean (f\<lparr>pr_status := \<lparr>st_text = translate t ''state.saved'' [], st_error = False\<rparr>\<rparr>))
                  (l\<lparr>ag_application := profile_saved env u (ag_application l)\<rparr>)))"

definition after_password :: "unicode \<Rightarrow> translator \<Rightarrow> js_error + unit \<Rightarrow> ('p, 'n) account_page \<Rightarrow> ('p, 'n) account_page" where
  "after_password un t answer l =
     (case answer of
        Inl e \<Rightarrow> in_password (pw_status_update (\<lambda>_. \<lparr>st_text = errorMessage t e, st_error = True\<rparr>)) l
      | Inr u \<Rightarrow> listen (in_password (\<lambda>f. (type_next un [] (f\<lparr>pw_current := type_password (un_nfc un) (un_printable un) [] (pw_current f)\<rparr>))
                     \<lparr>pw_status := \<lparr>st_text = translate t ''state.saved'' [], st_error = False\<rparr>\<rparr>) l))"

lemma save_profile_run:
  "save_profile srv env t w =
     (let c = profile_call (local w); answer = srv (trace w) c
      in (case answer of Inl e \<Rightarrow> Inl e | Inr _ \<Rightarrow> Inr (),
          \<lparr>trace = trace w @ [Sent c], local = after_profile env t answer (local w)\<rparr>))"
proof -
  obtain tr l where w: "w = \<lparr>trace = tr, local = l\<rparr>" by (cases w) auto
  have c: "profile_call (in_profile (pr_status_update f) l) = profile_call l" for f
    by (simp add: profile_call_def Let_def)
  show ?thesis
    unfolding w by (cases "srv tr (profile_call l)")
      (simp_all add: save_profile_def act_simps c c [unfolded in_profile_def] after_profile_def Let_def in_profile_def fail_with_def say_def)
qed

lemma save_password_run:
  "save_password srv un t w =
     (let c = password_call (local w); l = local w; answer = srv (trace w) c
      in if \<not> field_acceptable (un_nfc un) (un_printable un) (pw_next (ag_password l))
         then (Inl TypeError, \<lparr>trace = trace w, local = in_password (pw_status_update clear_status) l\<rparr>)
         else (answer, \<lparr>trace = trace w @ [Sent c], local = after_password un t answer l\<rparr>))"
proof -
  obtain tr l where w: "w = \<lparr>trace = tr, local = l\<rparr>" by (cases w) auto
  have c: "password_call (in_password (pw_status_update f) l) = password_call l" for f
    by (simp add: password_call_def)
  show ?thesis
    unfolding w by (cases "srv tr (password_call l)")
      (simp_all add: save_password_def act_simps c c [unfolded in_password_def] after_password_def Let_def in_password_def type_next_def fail_with_def say_def)
qed

definition account_good :: "('p, 'n) account_page \<Rightarrow> bool" where
  "account_good l \<longleftrightarrow> ag_save_disabled l = (\<not> (profile_dirty l \<or> password_dirty l)) \<and> baseline (pw_tracker (ag_password l)) = []"

lemma after_dirty [simp]:
  "password_dirty (after_profile env t a l) = password_dirty l" "profile_dirty (after_password un t b l) = profile_dirty l"
  "profile_dirty (after_profile env t a l) = (case a of Inl _ \<Rightarrow> profile_dirty l | Inr _ \<Rightarrow> False)"
  "password_call (after_profile env t a l) = password_call l"
  "pw_next (ag_password (after_profile env t a l)) = pw_next (ag_password l)"
  "baseline (pw_tracker (ag_password (after_profile env t a l))) = baseline (pw_tracker (ag_password l))"
  "baseline (pw_tracker (ag_password (after_password un t b l))) = baseline (pw_tracker (ag_password l))"
  by (auto simp: after_profile_def after_password_def profile_dirty_def [of "in_profile _ _"]
      type_next_def split: sum.split) (simp_all add: profile_dirty_def)

lemma after_password_dirty [simp]:
  "baseline (pw_tracker (ag_password l)) = [] \<Longrightarrow>
   password_dirty (after_password un t b l) = (case b of Inl _ \<Rightarrow> password_dirty l | Inr _ \<Rightarrow> False)"
  by (auto simp: after_password_def password_dirty_def type_next_def split: sum.split)

text \<open>What pressing Save leaves, and what it asks of the server.\<close>

lemma press_account_save_run:
  "press_account_save srv env un t w =
     (let l = (local w)\<lparr>ag_save_disabled := True\<rparr>; c = profile_call l;
          first = (if profile_dirty l then [Sent c] else []); answer = as_profile srv (trace w) c;
          l1 = (if profile_dirty l then after_profile env t answer l else l); p = password_call l;
          failed = (\<lambda>x. x\<lparr>ag_save_disabled := False\<rparr>)
      in if profile_dirty l \<and> isl answer then (Inr (), \<lparr>trace = trace w @ first, local = failed l1\<rparr>)
         else if \<not> password_dirty l then (Inr (), \<lparr>trace = trace w @ first, local = l1\<rparr>)
         else if \<not> field_acceptable (un_nfc un) (un_printable un) (pw_next (ag_password l))
         then (Inr (), \<lparr>trace = trace w @ first, local = failed (in_password (pw_status_update clear_status) l1)\<rparr>)
         else let reply = as_done srv (trace w @ first) p; l2 = after_password un t reply l1
              in (Inr (), \<lparr>trace = trace w @ first @ [Sent p], local = (if isl reply then failed l2 else l2)\<rparr>))"
proof -
  obtain tr l where w: "w = \<lparr>trace = tr, local = l\<rparr>" by (cases w) auto
  show ?thesis
    unfolding w
    by (cases "as_profile srv tr (profile_call l)"; cases "profile_dirty l"; cases "password_dirty l")
      (simp_all add: press_account_save_def act_simps save_profile_run save_password_run Let_def split: sum.split)
qed

lemma after_disabled [simp]:
  "ag_save_disabled (after_profile env t (Inr u) l) = (\<not> password_dirty l)"
  "baseline (pw_tracker (ag_password l)) = [] \<Longrightarrow> ag_save_disabled (after_password un t (Inr v) l) = (\<not> profile_dirty l)"
  by (auto simp: after_profile_def after_password_def profile_dirty_def [of "in_profile _ _"]
      password_dirty_def [of "in_password _ _"] type_next_def)

lemma refused_disabled [simp]:
  "ag_save_disabled (after_profile env t (Inl e) l) = ag_save_disabled l"
  "ag_save_disabled (after_password un t (Inl e) l) = ag_save_disabled l"
  by (simp_all add: after_profile_def after_password_def)

lemma press_account_save_good:
  assumes "account_good (local w)"
  shows "account_good (local (snd (press_account_save srv env un t w)))"
proof -
  obtain tr l where w: "w = \<lparr>trace = tr, local = l\<rparr>" by (cases w) auto
  have base: "baseline (pw_tracker (ag_password l)) = []" using assms by (simp add: w account_good_def)
  have cleared: "password_dirty (in_password (pw_status_update clear_status) x) = password_dirty x" for x :: "('p, 'n) account_page"
    by (simp add: password_dirty_def)
  show ?thesis
    using base unfolding w
    by (cases "as_profile srv tr (profile_call l)"; cases "profile_dirty l"; cases "password_dirty l")
      (simp_all add: press_account_save_run Let_def account_good_def cleared split: sum.split)
qed

interpretation account_page: event_machine "account_step srv env un t" "\<lambda>w. account_good (local w)"
proof
  fix w :: "('p, 'n) account_page world" and e
  assume g: "account_good (local w)"
  obtain tr l where w: "w = \<lparr>trace = tr, local = l\<rparr>" by (cases w) auto
  have base: "baseline (pw_tracker (ag_password l)) = []" and off: "ag_save_disabled l = (\<not> (profile_dirty l \<or> password_dirty l))"
    using g by (simp_all add: w account_good_def)
  have status: "password_dirty (in_password (pw_status_update f) x) = password_dirty x"
    "profile_dirty (in_profile (pr_status_update h) x) = profile_dirty x" for f h and x :: "('p, 'n) account_page"
    by (simp_all add: password_dirty_def profile_dirty_def)
  show "account_good (local (account_step srv env un t e w))"
  proof (cases e)
    case PressAccountSave
    with g show ?thesis by (simp add: account_step_def press_account_save_good)
  next
    case SubmitProfile
    with base off show ?thesis
      by (cases "as_profile srv tr (profile_call l)")
        (simp_all add: w account_step_def act_simps save_profile_run Let_def account_good_def)
  next
    case SubmitPassword
    with base off show ?thesis
      by (cases "as_done srv tr (password_call l)")
        (simp_all add: w account_step_def act_simps save_password_run Let_def account_good_def status)
  qed (use base off in \<open>auto simp: w account_step_def act_simps account_good_def email_arrives_def type_current_def type_next_def
      profile_dirty_def profile_touched_def split: sum.split\<close>)
qed

text \<open>
  The Save on the account's heading is enabled exactly while there is something to save,
  whatever has been typed, saved and answered; pressing it sends the profile if it has changed and
  then the password if it has changed, meets the rules and the profile went through, each once;
  afterwards it is disabled exactly when nothing is left to save, and what was refused is still
  there to be tried again.
\<close>

theorem account_saved_in_order:
  "(let w = fold (account_step srv env un t) es \<lparr>trace = done, local = new_account_page un u a\<rparr>; l = local w;
        c = profile_call l; p = password_call l; fits = field_acceptable (un_nfc un) (un_printable un) (pw_next (ag_password l));
        out = account_step srv env un t PressAccountSave w; first = (if profile_dirty l then [Sent c] else []);
        went = (if profile_dirty l then \<not> isl (as_profile srv (trace w) c) else True);
        second = (if went \<and> password_dirty l \<and> fits then [Sent p] else []);
        changed = (if password_dirty l then \<not> (fits \<and> \<not> isl (as_done srv (trace w @ first) p)) else False)
    in ag_save_disabled l = (\<not> (profile_dirty l \<or> password_dirty l))
       \<and> trace out = trace w @ first @ second
       \<and> profile_dirty (local out) = (\<not> went)
       \<and> password_dirty (local out) = (if went then changed else password_dirty l)
       \<and> ag_save_disabled (local out) = (\<not> (profile_dirty (local out) \<or> password_dirty (local out)))
       \<and> (if went \<and> fits then True else pf_value (pw_next (ag_password (local out))) = pf_value (pw_next (ag_password l))))"
proof -
  let ?start = "\<lparr>trace = done, local = new_account_page un u a\<rparr>"
  have "account_good (local ?start)"
    by (simp add: account_good_def new_account_page_def new_profile_form_def new_password_form_def profile_dirty_def
        password_dirty_def dirtyTracker_def heard_dirty_def last_of_def)
  then have g: "account_good (local (fold (account_step srv env un t) es ?start))" by (rule account_page.good_run)
  obtain tr l where w: "fold (account_step srv env un t) es ?start = \<lparr>trace = tr, local = l\<rparr>"
    by (cases "fold (account_step srv env un t) es ?start") auto
  from g have base: "baseline (pw_tracker (ag_password l)) = []" and off: "ag_save_disabled l = (\<not> (profile_dirty l \<or> password_dirty l))"
    by (simp_all add: w account_good_def)
  have cleared: "password_dirty (in_password (pw_status_update clear_status) x) = password_dirty x" for x :: "('p, 'n) account_page"
    by (simp add: password_dirty_def)
  have kept: "pf_value (pw_next (ag_password (after_password un t (Inl e) x))) = pf_value (pw_next (ag_password x))"
    for e and x :: "('p, 'n) account_page"
    by (simp add: after_password_def)
  show ?thesis
    unfolding w Let_def
    using base off
    by (cases "as_profile srv tr (profile_call l)"; cases "profile_dirty l"; cases "password_dirty l")
      (simp_all add: account_step_def press_account_save_run Let_def cleared kept split: sum.split)
qed

text \<open>
  Whoever types before the address has arrived loses the enabled Save: what is in the form then is
  taken for what was loaded.
\<close>

lemma late_email_hides_changes:
  "let l = email_arrives (Inr m) (listen (in_profile (\<lambda>f. profile_touched (f\<lparr>pr_display := v\<rparr>)) (new_account_page un u a)))
   in pr_display (ag_profile l) = v \<and> \<not> profile_dirty l \<and> ag_save_disabled l"
  by (simp add: email_arrives_def Let_def profile_dirty_def profile_clean_def profile_touched_def
      password_dirty_def new_account_page_def new_password_form_def dirtyTracker_def heard_dirty_def [of "\<lparr>baseline = _, content = _, reports = _\<rparr>"]
      last_of_def)

text \<open>A profile that has been saved leaves an empty screen.\<close>

lemma saved_profile_blanks:
  assumes "as_profile srv (trace w) (profile_call (local w)) = Inr u"
  shows "ap_page (ag_application (local (account_step srv env un t SubmitProfile w))) = None
    \<and> ap_router (ag_application (local (account_step srv env un t SubmitProfile w))) = mount (ap_router (ag_application (local w)))"
  using assms
  by (simp add: account_step_def act_simps save_profile_run Let_def after_profile_def profile_saved_def)

end
