(* ===== verification/AccountTokens.thy ===== *)
theory AccountTokens
  imports Account
begin

text \<open>
  The rest of the account page (\<open>src/pages/account/index.ts\<close>): the API tokens, whose value is only
  there once, the deletion of the account, and the page as it is drawn.
\<close>

section \<open>API tokens\<close>

record api_token =
  at_id :: string
  at_name :: string
  at_prefix :: string
  at_created_at :: string
  at_expires_at :: "string option"
  at_last_used_at :: "string option"

text \<open>
  The tokens that were last read, if any have been; the inputs of the form; and the dialog with the
  value of a new token, with whether it has been copied.
\<close>

record token_section = ui +
  tk_rows :: "api_token list option"
  tk_name :: string
  tk_expires :: string
  tk_shown :: "(string \<times> bool) option"

record token_server =
  ts_list :: "api_token list server"
  ts_created :: "string server"
  ts_done :: "unit server"

definition new_token_section :: token_section where
  "new_token_section =
     \<lparr>ui_status = statusLine, ui_busy = False, tk_rows = None, tk_name = [], tk_expires = [], tk_shown = None\<rparr>"

definition tokens_path :: "session_user \<Rightarrow> string" where
  "tokens_path u = user_path u @ ''/tokens''"

definition reload_tokens :: "token_server \<Rightarrow> translator \<Rightarrow> session_user \<Rightarrow> (token_section, unit) act" where
  "reload_tokens srv t u =
     try_catch
       (bind (call (ts_list srv) (Call ''GET'' (tokens_path u) None)) (\<lambda>ts. modify (\<lambda>l. l\<lparr>tk_rows := Some ts\<rparr>)))
       (\<lambda>e. on_status (fail_with (errorMessage t e)))"

definition revoke_texts :: "translator \<Rightarrow> api_token \<Rightarrow> confirm_texts" where
  "revoke_texts t k = confirm_with t (translate t ''confirm.title'' []) (at_name k) [] (translate t ''account.token.revoke'' [])"

definition revoke_token ::
  "token_server \<Rightarrow> (effect list \<Rightarrow> string \<Rightarrow> bool) \<Rightarrow> translator \<Rightarrow> session_user \<Rightarrow> api_token \<Rightarrow> (token_section, unit) act" where
  "revoke_token srv person t u k =
     bind (confirmed person (revoke_texts t k))
       (\<lambda>agreed. if \<not> agreed then ret ()
          else andthen (runAction t False
            (andthen (call (ts_done srv) (Call ''DELETE'' (tokens_path u @ ''/'' @ at_id k) None)) (reload_tokens srv t u))) (ret ()))"

text \<open>The date is the end of that day; without one the token does not expire.\<close>

definition token_expiry :: "string \<Rightarrow> string" where
  "token_expiry day = (if day \<noteq> [] then day @ ''T23:59:59Z'' else [])"

definition token_call :: "session_user \<Rightarrow> 'x token_section_scheme \<Rightarrow> http_call" where
  "token_call u l =
     Call ''POST'' (tokens_path u)
       (Some (JObj [(''name'', JStr (js_trim (tk_name l))), (''expires_at'', JStr (token_expiry (tk_expires l)))]))"

definition create_token :: "token_server \<Rightarrow> translator \<Rightarrow> session_user \<Rightarrow> (token_section, unit) act" where
  "create_token srv t u =
     andthen (runAction t True
       (bind (gets (token_call u)) (\<lambda>c. bind (call (ts_created srv) c)
          (\<lambda>secret. andthen (modify (\<lambda>l. l\<lparr>tk_name := [], tk_expires := [], tk_shown := Some (secret, False)\<rparr>))
             (reload_tokens srv t u))))) (ret ())"

definition copy_token :: "(effect list \<Rightarrow> bool) option \<Rightarrow> (token_section, unit) act" where
  "copy_token clipboard =
     bind (gets tk_shown)
       (\<lambda>shown. case shown of
          None \<Rightarrow> ret ()
        | Some (secret, _) \<Rightarrow> bind (copyText clipboard secret)
            (\<lambda>copied. if copied then modify (\<lambda>l. l\<lparr>tk_shown := Some (secret, True)\<rparr>) else ret ()))"

definition close_token :: "(token_section, unit) act" where
  "close_token = modify (\<lambda>l. l\<lparr>tk_shown := None\<rparr>)"

datatype token_event =
    ReadTokens
  | RevokeToken api_token
  | CreateToken
  | CopyToken
  | CloseToken
  | TypeTokenName string
  | TypeExpiry string

fun token_do ::
  "token_server \<Rightarrow> (effect list \<Rightarrow> string \<Rightarrow> bool) \<Rightarrow> (effect list \<Rightarrow> bool) option \<Rightarrow> translator \<Rightarrow> session_user
   \<Rightarrow> token_event \<Rightarrow> (token_section, unit) act" where
  "token_do srv person clipboard t u ReadTokens = reload_tokens srv t u"
| "token_do srv person clipboard t u (RevokeToken k) = revoke_token srv person t u k"
| "token_do srv person clipboard t u CreateToken = create_token srv t u"
| "token_do srv person clipboard t u CopyToken = copy_token clipboard"
| "token_do srv person clipboard t u CloseToken = close_token"
| "token_do srv person clipboard t u (TypeTokenName v) = modify (\<lambda>l. l\<lparr>tk_name := v\<rparr>)"
| "token_do srv person clipboard t u (TypeExpiry v) = modify (\<lambda>l. l\<lparr>tk_expires := v\<rparr>)"

definition token_step ::
  "token_server \<Rightarrow> (effect list \<Rightarrow> string \<Rightarrow> bool) \<Rightarrow> (effect list \<Rightarrow> bool) option \<Rightarrow> translator \<Rightarrow> session_user
   \<Rightarrow> token_event \<Rightarrow> token_section world \<Rightarrow> token_section world" where
  "token_step srv person clipboard t u e w = snd (token_do srv person clipboard t u e w)"

section \<open>Deleting the account\<close>

text \<open>
  Pressing the button asks what would be deleted; when that cannot be read the dialog that opens only
  says why.
\<close>

definition begin_delete :: "deletion_impact server \<Rightarrow> translator \<Rightarrow> session_user \<Rightarrow> ('l, string + (deletion_impact \<times> delete_dialog)) act" where
  "begin_delete srv t u =
     try_catch
       (bind (call srv (Call ''GET'' (user_path u @ ''/deletion-impact'') None))
          (\<lambda>impact. ret (Inr (impact, \<lparr>ui_status = statusLine, ui_busy = False, dl_open = True, dl_keep = False,
                                       dd_typed = [], dd_mismatch = None\<rparr>))))
       (\<lambda>e. ret (Inl (errorMessage t e)))"

definition delete_own_account ::
  "unit server \<Rightarrow> environment \<Rightarrow> translator \<Rightarrow> session_user \<Rightarrow> delete_dialog \<Rightarrow> (('p, 'n) account_page, delete_dialog) act" where
  "delete_own_account srv env t u =
     submit_on_page t
       (confirm_delete (su_name u) (translate t ''account.delete.name_mismatch'' []) (call srv (Call ''DELETE'' (user_path u) None)))
       (modify (\<lambda>l. l\<lparr>ag_application := account_deleted env (ag_application l)\<rparr>))"

section \<open>The page as it is drawn\<close>

datatype account_action =
    SaveAccount | DeleteAccount | SaveProfileForm | SavePasswordForm | MakeToken | Revoke api_token

definition account_controls :: "translator \<Rightarrow> ('p, 'n) account_page \<Rightarrow> account_action node" where
  "account_controls t l =
     el ''div'' [(''class'', AStr ''page-heading-actions'')]
       ([CNode (button ((plain_button (translate t ''action.save'' []))
            \<lparr>bt_variant := Primary, bt_disabled := ag_save_disabled l, bt_onclick := Some SaveAccount\<rparr>))]
        @ (if su_is_admin (ag_user l) then []
           else [CNode (button ((plain_button (translate t ''account.delete'' []))
                    \<lparr>bt_variant := Danger, bt_onclick := Some DeleteAccount\<rparr>))]))"

definition profile_card :: "translator \<Rightarrow> profile_form \<Rightarrow> nat \<Rightarrow> account_action node \<times> nat" where
  "profile_card t f seq =
     (let optional = Some (translate t ''auth.optional'' []);
          titled = (\<lambda>x. if pr_name_off f then set_attribute ''title'' (translate t ''error.3003'' []) x else x);
          (f1, n1) = field (translate t ''auth.name'' [])
             (titled (input (no_input\<lparr>in_name := Some ''name'', in_value := Some (pr_name f), in_required := True,
                in_disabled := pr_name_off f\<rparr>))) (Some (translate t ''auth.name_hint'' [])) None None seq;
          (f2, n2) = field (translate t ''auth.display_name'' [])
             (input (no_input\<lparr>in_name := Some ''display_name'', in_value := Some (pr_display f)\<rparr>))
             (Some (translate t ''auth.display_name_hint'' [])) None optional n1;
          (f3, n3) = field (translate t ''auth.email'' [])
             (input (no_input\<lparr>in_name := Some ''email'', in_type := Some ''email'', in_value := Some (pr_email f),
                in_disabled := pr_email_off f\<rparr>)) None None optional n2
      in (card [CNode (form SaveProfileForm [CNode f1, CNode f2, CNode f3, CNode (status_element (pr_status f))])], n3))"

definition password_card :: "translator \<Rightarrow> password_form \<Rightarrow> nat \<Rightarrow> account_action node \<times> nat" where
  "password_card t f seq =
     (let (f1, n1) = password_element t (no_options\<lparr>po_label := Some (translate t ''auth.current_password'' []),
              po_name := Some ''current_password'', po_autocomplete := Some ''current-password''\<rparr>) (pw_current f) seq;
          (f2, n2) = password_element t (no_options\<lparr>po_label := Some (translate t ''auth.new_password'' []),
              po_name := Some ''password'', po_indicator := True\<rparr>) (pw_next f) n1
      in (card [CNode (form SavePasswordForm [CNode f1, CNode f2, CNode (status_element (pw_status f))])], n2))"

definition token_row :: "app \<Rightarrow> api_token \<Rightarrow> account_action node" where
  "token_row a k =
     (let t = app_t a; i = app_intl a; at_time = (\<lambda>v. formatDateTime i (language a) (Stamp v));
          dt = (\<lambda>key. CNode (el ''dt'' [(''text'', AStr (translate t key []))] []));
          dd = (\<lambda>v. CNode (el ''dd'' [(''text'', AStr v)] []));
          or_key = (\<lambda>v key. if truthy v then at_time (the v) else translate t key [])
      in el ''li'' [(''class'', AStr ''token'')]
        [CNode (el ''div'' [(''class'', AStr ''token-name'')]
           [CNode (el ''strong'' [(''text'', AStr (at_name k))] []),
            CNode (el ''code'' [(''class'', AStr ''token-prefix''), (''text'', AStr (at_prefix k))] [])]),
         CNode (el ''dl'' [(''class'', AStr ''definitions token-meta'')]
           [dt ''account.token.created'', dd (at_time (at_created_at k)),
            dt ''account.token.expires'', dd (or_key (at_expires_at k) ''account.token.never''),
            dt ''account.token.last_used'', dd (or_key (at_last_used_at k) ''account.token.unused'')]),
         CNode (button ((plain_button (translate t ''account.token.revoke'' []))
           \<lparr>bt_variant := Danger, bt_onclick := Some (Revoke k)\<rparr>))])"

definition token_list :: "app \<Rightarrow> api_token list option \<Rightarrow> account_action node" where
  "token_list a rows =
     append (el ''div'' [(''class'', AStr ''token-list'')] [])
       (case rows of
          None \<Rightarrow> []
        | Some [] \<Rightarrow> [CNode (el ''p'' [(''class'', AStr ''muted''), (''text'', AStr (say_t a ''account.tokens.none''))] [])]
        | Some ks \<Rightarrow> [CNode (el ''ul'' [(''class'', AStr ''plain-list'')] (map (\<lambda>k. CNode (token_row a k)) ks))])"

definition token_card :: "app \<Rightarrow> token_section \<Rightarrow> nat \<Rightarrow> account_action node \<times> nat" where
  "token_card a l seq =
     (let t = app_t a;
          (f1, n1) = field (translate t ''account.token.name'' [])
             (input (no_input\<lparr>in_name := Some ''token_name'', in_required := True, in_value := Some (tk_name l)\<rparr>)) None None None seq;
          (f2, n2) = field (translate t ''account.token.expires'' [])
             (input (no_input\<lparr>in_name := Some ''expires_at'', in_type := Some ''date'', in_value := Some (tk_expires l)\<rparr>))
             None None (Some (translate t ''auth.optional'' [])) n1;
          submit = button ((plain_button (translate t ''account.token.new'' []))\<lparr>bt_submit := True, bt_disabled := ui_busy l\<rparr>)
      in (card [CNode (el ''p'' [(''class'', AStr ''muted''), (''text'', AStr (translate t ''account.tokens.intro'' []))] []),
            CNode (token_list a (tk_rows l)), CNode (form MakeToken [CNode f1, CNode f2, CNode (actions [CNode submit])]),
            CNode (status_element (ui_status l))], n2))"

definition account_tabs :: "translator \<Rightarrow> tab_spec list" where
  "account_tabs t =
     [\<lparr>tb_id = ''profile'', tb_label = translate t ''account.profile'' [], tb_disabled = None\<rparr>,
      \<lparr>tb_id = ''password'', tb_label = translate t ''account.password'' [], tb_disabled = None\<rparr>,
      \<lparr>tb_id = ''tokens'', tb_label = translate t ''account.tokens'' [], tb_disabled = None\<rparr>]"

text \<open>Which of its two shapes the page has: the account of whoever is logged in, or the login panel.\<close>

definition accountPage ::
  "unicode \<Rightarrow> ('p, 'n) application \<Rightarrow> js_error + (('p, 'n) account_page + ('p, 'n) login_form \<times> ('p, 'n) register_form)" where
  "accountPage un a =
     (case current (ap_session a) of
        Some u \<Rightarrow> Inr (Inl (new_account_page un u a))
      | None \<Rightarrow> (case new_login_form un a of Inl e \<Rightarrow> Inl e | Inr f \<Rightarrow> Inr (Inr (f, new_register_form un a))))"

section \<open>What becomes of a token\<close>

lemma reload_tokens_run:
  "reload_tokens srv t u w =
     (let g = Call ''GET'' (tokens_path u) None
      in (Inr (), w\<lparr>trace := trace w @ [Sent g], local := (case ts_list srv (trace w) g of
            Inl e \<Rightarrow> (local w)\<lparr>ui_status := \<lparr>st_text = errorMessage t e, st_error = True\<rparr>\<rparr>
          | Inr ks \<Rightarrow> (local w)\<lparr>tk_rows := Some ks\<rparr>)\<rparr>))"
proof -
  obtain tr l where w: "w = \<lparr>trace = tr, local = l\<rparr>" by (cases w) auto
  show ?thesis
    by (cases "ts_list srv tr (Call ''GET'' (tokens_path u) None)")
      (simp_all add: w reload_tokens_def on_status_def act_simps fail_with_def Let_def)
qed


end
