(* ===== verification/Restaurants.thy ===== *)
theory Restaurants
  imports OrderCreate
begin

text \<open>
  The overview of the restaurants (\<open>src/pages/restaurants.ts\<close>), the selectors the restaurant pages
  share (\<open>src/pages/restaurant/selects.ts\<close>) and the form that creates a restaurant
  (\<open>src/pages/restaurant/create.ts\<close>).
\<close>

section \<open>The overview\<close>

record tile_data =
  td_restaurant :: restaurant
  td_contact :: "contact option"
  td_open :: bool
  td_items :: nat

text \<open>Of the dishes only the number is read.\<close>

record restaurants_server =
  rv_list :: "restaurant list server"
  rv_detail :: "restaurant_detail server"
  rv_items :: "json list server"

definition detail_call :: "restaurant \<Rightarrow> http_call" where
  "detail_call r = Call ''GET'' (''/restaurants/'' @ r_id r) None"

definition items_call :: "restaurant \<Rightarrow> http_call" where
  "items_call r = Call ''GET'' (''/restaurants/'' @ r_id r @ ''/menu-items'') None"

definition tile_of :: "local_time \<Rightarrow> restaurant \<Rightarrow> restaurant_detail option \<Rightarrow> json list \<Rightarrow> tile_data" where
  "tile_of now r found items =
     \<lparr>td_restaurant = r,
      td_contact = (case found of None \<Rightarrow> None | Some d \<Rightarrow> (case rd_contacts d of [] \<Rightarrow> None | c # _ \<Rightarrow> Some c)),
      td_open = isOpen (case found of None \<Rightarrow> [] | Some d \<Rightarrow> rd_opening_hours d) now,
      td_items = length items\<rparr>"

definition gather :: "restaurants_server \<Rightarrow> local_time \<Rightarrow> restaurant \<Rightarrow> ('l, tile_data) act" where
  "gather srv now r =
     bind (both (maybe (rv_detail srv) (detail_call r)) (try_catch (call (rv_items srv) (items_call r)) (\<lambda>_. ret [])))
       (\<lambda>(found, items). ret (tile_of now r found items))"

text \<open>The picture of a restaurant, or the mark for one without.\<close>

definition restaurant_logo :: "logo_asset option \<Rightarrow> app \<Rightarrow> restaurant \<Rightarrow> 'a node" where
  "restaurant_logo template a r =
     (if \<not> truthy (r_logo_image_id r)
      then el ''div'' [(''class'', AStr ''tile-logo tile-logo-fallback'')]
             [CNode (fst (logoMark template None (Some (say_t a ''app.name'')) []))]
      else el ''img'' [(''class'', AStr ''tile-logo''), (''src'', AStr (thumbnailURL (the (r_logo_image_id r)))),
             (''alt'', AStr (say_t a ''image.current'')), (''loading'', AStr ''lazy'')] [])"

definition restaurant_tile :: "logo_asset option \<Rightarrow> app \<Rightarrow> tile_data \<Rightarrow> 'a node" where
  "restaurant_tile template a d =
     (let r = td_restaurant d; t = app_t a
      in tile \<lparr>tl_href = ''/restaurants/'' @ r_id r, tl_title = r_name r, tl_label = None, tl_actions = None,
               tl_media = Some (restaurant_logo template a r), tl_faded = False\<rparr>
           [CNode (el ''span'' [(''class'', AStr ''muted''),
              (''text'', AStr (case td_contact d of None \<Rightarrow> say_t a ''restaurant.no_contact'' | Some c \<Rightarrow> contact_value c))] []),
            CNode (el ''span'' [(''class'', AStr ''muted''),
              (''text'', AStr (translate t ''restaurant.items'' [(''count'', PNum (int (td_items d)))]))] []),
            CNode (el ''span'' [(''class'', AStr (if td_open d then ''badge badge-open'' else ''muted'')),
              (''text'', AStr (say_t a (if td_open d then ''restaurant.open_now'' else ''restaurant.closed'')))] [])])"

definition restaurants_page_of :: "logo_asset option \<Rightarrow> app \<Rightarrow> tile_data list \<Rightarrow> 'a node \<times> string" where
  "restaurants_page_of template a ds =
     overviewPage template (say_t a ''nav.restaurants'')
       [CNode (tileGrid (CNode (addTile (if isAuthenticated (app_session a) then ''/restaurants/new''
                                         else loginHref (app_path a)) (say_t a ''restaurant.new''))
          # map (\<lambda>d. CNode (restaurant_tile template a d)) ds))]"

text \<open>The page; \<open>isOpen\<close> reads the clock when the answers are there.\<close>

definition restaurantsPage ::
  "logo_asset option \<Rightarrow> restaurants_server \<Rightarrow> app \<Rightarrow> ('l, 'a node \<times> string) act" where
  "restaurantsPage template srv a =
     bind (try_catch (bind (call (rv_list srv) (Call ''GET'' ''/restaurants'' None)) (\<lambda>rs. ret (Inr rs))) (\<lambda>e. ret (Inl e)))
       (\<lambda>answer. case answer of
          Inl e \<Rightarrow> ret (failedPage (say_t a ''nav.restaurants'') (app_t a) e)
        | Inr rs \<Rightarrow> bind (all_of (gather srv (local_time_of (app_intl a) (app_now a))) (by_name a rs))
            (\<lambda>ds. ret (restaurants_page_of template a ds)))"

lemma gather_run:
  "gather srv now r w =
     (Inr (tile_of now r
        (case rv_detail srv (trace w) (detail_call r) of Inl _ \<Rightarrow> None | Inr d \<Rightarrow> Some d)
        (case rv_items srv (trace w @ [Sent (detail_call r)]) (items_call r) of Inl _ \<Rightarrow> [] | Inr xs \<Rightarrow> xs)),
      w\<lparr>trace := trace w @ [Sent (detail_call r), Sent (items_call r)]\<rparr>)"
  by (cases "rv_detail srv (trace w) (detail_call r)";
      cases "rv_items srv (trace w @ [Sent (detail_call r)]) (items_call r)")
    (simp_all add: gather_def maybe_def act_simps)

definition gathered :: "restaurant \<Rightarrow> effect list" where
  "gathered r = [Sent (detail_call r), Sent (items_call r)]"

lemma all_of_gather:
  "\<exists>ds. all_of (gather srv now) rs w = (Inr ds, w\<lparr>trace := trace w @ concat (map gathered rs)\<rparr>)
     \<and> map td_restaurant ds = rs"
proof (induction rs arbitrary: w)
  case (Cons r rs)
  let ?w = "w\<lparr>trace := trace w @ gathered r\<rparr>"
  obtain ds where "all_of (gather srv now) rs ?w = (Inr ds, ?w\<lparr>trace := trace ?w @ concat (map gathered rs)\<rparr>)"
    "map td_restaurant ds = rs"
    using Cons.IH [of ?w] by auto
  moreover obtain d where "gather srv now r w = (Inr d, ?w)" "td_restaurant d = r"
    using gather_run [of srv now r w] by (simp add: gathered_def tile_of_def)
  ultimately show ?case by (simp add: act_simps)
qed (simp add: act_simps)

text \<open>
  The overview of the restaurants is complete: it asks for the list once, and for each
  restaurant in it for its details and its dishes once; it shows a tile for every restaurant of the
  list and for nothing else, in the alphabetical order of the reader's language, whichever of those
  requests fail; and a list that cannot be read is a page that says why.
\<close>

theorem restaurants_overview_complete:
  "(let get = Call ''GET'' ''/restaurants'' None; out = restaurantsPage template srv a w
    in case rv_list srv (trace w) get of
         Inl e \<Rightarrow> out = (Inr (failedPage (say_t a ''nav.restaurants'') (app_t a) e), w\<lparr>trace := trace w @ [Sent get]\<rparr>)
       | Inr rs \<Rightarrow> \<exists>ds. out = (Inr (restaurants_page_of template a ds),
             w\<lparr>trace := trace w @ Sent get # concat (map gathered (map td_restaurant ds))\<rparr>)
           \<and> mset (map td_restaurant ds) = mset rs
           \<and> Sorting_Algorithms.sorted (by_text (collation (app_intl a) (Some (language a))) r_name) (map td_restaurant ds))"
proof (cases "rv_list srv (trace w) (Call ''GET'' ''/restaurants'' None)")
  case (Inl e)
  then show ?thesis by (simp add: restaurantsPage_def act_simps Let_def)
next
  case (Inr rs)
  let ?w = "w\<lparr>trace := trace w @ [Sent (Call ''GET'' ''/restaurants'' None)]\<rparr>"
  obtain ds where ds: "all_of (gather srv (local_time_of (app_intl a) (app_now a))) (by_name a rs) ?w
      = (Inr ds, ?w\<lparr>trace := trace ?w @ concat (map gathered (by_name a rs))\<rparr>)"
    "map td_restaurant ds = by_name a rs"
    using all_of_gather by blast
  from Inr ds(1) have "restaurantsPage template srv a w = (Inr (restaurants_page_of template a ds),
      w\<lparr>trace := trace w @ Sent (Call ''GET'' ''/restaurants'' None) # concat (map gathered (map td_restaurant ds))\<rparr>)"
    by (simp add: restaurantsPage_def act_simps ds(2))
  moreover have "mset (map td_restaurant ds) = mset rs"
    "Sorting_Algorithms.sorted (by_text (collation (app_intl a) (Some (language a))) r_name) (map td_restaurant ds)"
    by (simp_all only: ds(2) by_name_def mset_sort sorted_sort)
  ultimately show ?thesis unfolding Let_def Inr sum.case by blast
qed

section \<open>The selectors\<close>

definition currency_choices :: "translator \<Rightarrow> reference_data \<Rightarrow> choice list" where
  "currency_choices t ref =
     map (\<lambda>c. \<lparr>ch_value = cu_code c, ch_label = referenceName t ''currency'' (cu_code c) @ '' ('' @ cu_symbol c @ '')''\<rparr>)
       (ref_currencies ref)"

definition currencySelect :: "translator \<Rightarrow> reference_data \<Rightarrow> string \<Rightarrow> 'a node" where
  "currencySelect t ref v = select (currency_choices t ref) (Some ''currency_code'') (Some v) False None"

definition contact_type_choices :: "translator \<Rightarrow> reference_data \<Rightarrow> choice list" where
  "contact_type_choices t ref =
     map (\<lambda>c. \<lparr>ch_value = ct_id c, ch_label = referenceName t ''contact_type'' (ct_code c)\<rparr>) (ref_contact_types ref)"

definition contactTypeSelect :: "translator \<Rightarrow> reference_data \<Rightarrow> string option \<Rightarrow> 'a node" where
  "contactTypeSelect t ref v =
     select (contact_type_choices t ref) (Some ''contact_type_id'') (if truthy v then v else None) False None"

text \<open>What such a select holds: the value it was given when one of its options has it.\<close>

definition contact_type_value :: "translator \<Rightarrow> reference_data \<Rightarrow> string option \<Rightarrow> string" where
  "contact_type_value t ref v =
     (let cs = contact_type_choices t ref in if truthy v then select_value cs (the v) else first_value cs)"

section \<open>Creating a restaurant\<close>

record restaurant_create = ui +
  rc_name :: string
  rc_currency :: string
  rc_contact_type :: string
  rc_contact_value :: string

definition new_restaurant_create :: "translator \<Rightarrow> reference_data \<Rightarrow> restaurant_create" where
  "new_restaurant_create t ref =
     \<lparr>ui_status = statusLine, ui_busy = False, rc_name = [], rc_currency = select_value (currency_choices t ref) ''EUR'',
      rc_contact_type = contact_type_value t ref None, rc_contact_value = []\<rparr>"

definition contact_body :: "string \<Rightarrow> string \<Rightarrow> string \<Rightarrow> int \<Rightarrow> json" where
  "contact_body type value label order =
     JObj [(''contact_type_id'', JStr type), (''value'', JStr value), (''label'', JStr label), (''sort_order'', JNum order)]"

definition restaurant_post :: "'x restaurant_create_scheme \<Rightarrow> http_call" where
  "restaurant_post f =
     Call ''POST'' ''/restaurants'' (Some (JObj
       [(''name'', JStr (js_trim (rc_name f))), (''currency_code'', JStr (rc_currency f)),
        (''contacts'', JArr [contact_body (rc_contact_type f) (js_trim (rc_contact_value f)) [] 10])]))"

definition create_restaurant :: "restaurant server \<Rightarrow> translator \<Rightarrow> (restaurant_create, unit) act" where
  "create_restaurant srv t =
     andthen (runAction t True
       (bind (gets restaurant_post) (\<lambda>c. bind (call srv c)
          (\<lambda>created. emit (Navigated (''/restaurants/'' @ r_id created)))))) (ret ())"

datatype create_restaurant_action = SubmitRestaurant

definition createPage ::
  "translator \<Rightarrow> reference_data \<Rightarrow> restaurant_create \<Rightarrow> nat \<Rightarrow> create_restaurant_action node \<times> string" where
  "createPage t ref f seq =
     (let (f1, n1) = field (translate t ''restaurant.name'' [])
            (input (no_input\<lparr>in_name := Some ''name'', in_required := True, in_value := Some (rc_name f)\<rparr>)) None None None seq;
          (f2, n2) = field (translate t ''restaurant.currency'' []) (currencySelect t ref (rc_currency f)) None None None n1;
          (f3, n3) = field (translate t ''restaurant.contact.type'' [])
            (contactTypeSelect t ref (Some (rc_contact_type f))) None None None n2;
          (f4, n4) = field (translate t ''restaurant.contact.value'' [])
            (input (no_input\<lparr>in_name := Some ''contact_value'', in_required := True, in_value := Some (rc_contact_value f)\<rparr>))
            (Some (translate t ''restaurant.contact.last'' [])) None None n3;
          submit = button ((plain_button (translate t ''action.create'' []))
            \<lparr>bt_variant := Primary, bt_submit := True, bt_disabled := ui_busy f\<rparr>)
      in page (translate t ''restaurant.new'' [])
           [CNode (section_card (translate t ''restaurant.data'' [])
              [CNode (form SubmitRestaurant [CNode f1, CNode f2, CNode f3, CNode f4, CNode (actions [CNode submit]),
                 CNode (status_element (ui_status f))])])])"

text \<open>
  A restaurant is created by exactly one request, with a contact in it; the page of the new one is
  opened exactly when the server has made it, and otherwise the form says why and can be sent again.
\<close>

theorem restaurant_created_once:
  "(let c = restaurant_post (local w); out = create_restaurant srv t w
    in fst out = Inr () \<and> \<not> ui_busy (local (snd out))
       \<and> (case srv (trace w) c of
            Inr r \<Rightarrow> trace (snd out) = trace w @ [Sent c, Navigated (''/restaurants/'' @ r_id r)]
          | Inl e \<Rightarrow> trace (snd out) = trace w @ [Sent c]
              \<and> ui_status (local (snd out)) = \<lparr>st_text = errorMessage t e, st_error = True\<rparr>
              \<and> restaurant_post (local (snd out)) = c))"
proof -
  obtain tr l where w: "w = \<lparr>trace = tr, local = l\<rparr>" by (cases w) auto
  show ?thesis
    by (cases "srv tr (restaurant_post l)")
      (simp_all add: w create_restaurant_def act_simps runAction_run action_start_def released_def restaurant_post_def
        fail_with_def Let_def)
qed

end
