(* ===== verification/RestaurantHours.thy ===== *)
theory RestaurantHours
  imports Restaurants
begin

text \<open>
  The opening hours of a restaurant as they are edited (\<open>src/pages/restaurant/hours.ts\<close>): rows of a
  day and two times, the hint that a period crosses midnight, and the one request that replaces the
  whole set. A row is known by a number of its own, as an element of the page is by its identity.
\<close>

text \<open>\<open>left < right\<close> on strings of times, which are ASCII.\<close>

fun js_less :: "string \<Rightarrow> string \<Rightarrow> bool" where
  "js_less s [] = False"
| "js_less [] (d # t) = True"
| "js_less (c # s) (d # t) = (byte c < byte d \<or> (byte c = byte d \<and> js_less s t))"

type_synonym hours_entry = "int option \<times> string \<times> string"

record hours_row =
  hr_key :: nat
  hr_day :: string
  hr_start :: string
  hr_end :: string
  hr_hint :: string

record hours_form =
  hf_status :: status
  hf_rows :: "hours_row list"
  hf_next :: nat
  hf_none :: bool
  hf_tracker :: "hours_entry list tracker"

definition day_choices :: "intl \<Rightarrow> string \<Rightarrow> choice list" where
  "day_choices i locale = map (\<lambda>d. \<lparr>ch_value = string_of_nat d, ch_label = formatWeekday i locale d\<rparr>) [1, 2, 3, 4, 5, 6, 7]"

definition hours_hint :: "translator \<Rightarrow> hours_row \<Rightarrow> string" where
  "hours_hint t r = (if js_less (hr_end r) (hr_start r) then translate t ''restaurant.crosses_midnight'' [] else [])"

definition update_hint :: "translator \<Rightarrow> hours_row \<Rightarrow> hours_row" where
  "update_hint t r = r\<lparr>hr_hint := hours_hint t r\<rparr>"

definition hours_row_of :: "translator \<Rightarrow> intl \<Rightarrow> nat \<Rightarrow> 'x opening_period_scheme option \<Rightarrow> hours_row" where
  "hours_row_of t i k period =
     update_hint t
       \<lparr>hr_key = k,
        hr_day = select_value (day_choices i (tr_language t)) (case period of None \<Rightarrow> ''1'' | Some p \<Rightarrow> string_of_nat (op_day_of_week p)),
        hr_start = (case period of None \<Rightarrow> ''11:00'' | Some p \<Rightarrow> op_start p),
        hr_end = (case period of None \<Rightarrow> ''14:00'' | Some p \<Rightarrow> op_end p),
        hr_hint = []\<rparr>"

text \<open>\<open>current\<close>: what the rows say, as the API wants it.\<close>

definition hours_content :: "hours_row list \<Rightarrow> hours_entry list" where
  "hours_content rows = map (\<lambda>r. (parse_int (hr_day r), hr_start r, hr_end r)) rows"

definition hours_json :: "hours_entry list \<Rightarrow> json" where
  "hours_json es =
     JArr (map (\<lambda>(d, s, e). JObj [(''day_of_week'', json_num_opt d), (''start'', JStr s), (''end'', JStr e)]) es)"

definition add_hours_row :: "translator \<Rightarrow> intl \<Rightarrow> 'x opening_period_scheme option \<Rightarrow> hours_form \<Rightarrow> hours_form" where
  "add_hours_row t i period f =
     f\<lparr>hf_rows := hf_rows f @ [hours_row_of t i (hf_next f) period], hf_next := Suc (hf_next f)\<rparr>"

definition new_hours_form :: "translator \<Rightarrow> intl \<Rightarrow> 'x opening_period_scheme list \<Rightarrow> hours_form" where
  "new_hours_form t i periods =
     (let f = fold (\<lambda>p. add_hours_row t i (Some p)) periods
            \<lparr>hf_status = statusLine, hf_rows = [], hf_next = 0, hf_none = (periods = []), hf_tracker = dirtyTracker []\<rparr>
      in f\<lparr>hf_tracker := dirtyTracker (hours_content (hf_rows f))\<rparr>)"

definition hours_touched :: "hours_form \<Rightarrow> hours_form" where
  "hours_touched f = f\<lparr>hf_tracker := touched (hours_content (hf_rows f)) (hf_tracker f)\<rparr>"

definition hours_saved :: "hours_form \<Rightarrow> hours_form" where
  "hours_saved f = f\<lparr>hf_tracker := saved ((hf_tracker f)\<lparr>content := hours_content (hf_rows f)\<rparr>)\<rparr>"

definition change_row :: "nat \<Rightarrow> (hours_row \<Rightarrow> hours_row) \<Rightarrow> hours_form \<Rightarrow> hours_form" where
  "change_row k g f = f\<lparr>hf_rows := map (\<lambda>r. if hr_key r = k then g r else r) (hf_rows f)\<rparr>"

text \<open>
  What is done to the rows. The hint of a row follows its times; then the change bubbles up to the
  list, whose listener compares.
\<close>

datatype hours_event = HoursDay nat string | HoursStart nat string | HoursEnd nat string | HoursAdd | HoursRemove nat

fun hours_do :: "translator \<Rightarrow> intl \<Rightarrow> hours_event \<Rightarrow> hours_form \<Rightarrow> hours_form" where
  "hours_do t i (HoursDay k v) f = hours_touched (change_row k (\<lambda>r. r\<lparr>hr_day := v\<rparr>) f)"
| "hours_do t i (HoursStart k v) f = hours_touched (change_row k (\<lambda>r. update_hint t (r\<lparr>hr_start := v\<rparr>)) f)"
| "hours_do t i (HoursEnd k v) f = hours_touched (change_row k (\<lambda>r. update_hint t (r\<lparr>hr_end := v\<rparr>)) f)"
| "hours_do t i HoursAdd f = hours_touched (add_hours_row t i (None :: opening_period option) (f\<lparr>hf_none := False\<rparr>))"
| "hours_do t i (HoursRemove k) f =
     (if list_ex (\<lambda>r. hr_key r = k) (hf_rows f)
      then hours_touched (f\<lparr>hf_rows := filter (\<lambda>r. hr_key r \<noteq> k) (hf_rows f)\<rparr>) else f)"

section \<open>The section as it is drawn\<close>

datatype hours_action = HoursTouched | HintFollows nat | AddHours | RemoveHours nat

definition time_input :: "nat \<Rightarrow> string \<Rightarrow> hours_action node" where
  "time_input k v =
     add_listener ''input'' (HintFollows k) (input (no_input\<lparr>in_type := Some ''time'', in_value := Some v\<rparr>))"

definition hours_row_element :: "translator \<Rightarrow> intl \<Rightarrow> hours_row \<Rightarrow> nat \<Rightarrow> hours_action node \<times> nat" where
  "hours_row_element t i r seq =
     (let (f1, n1) = field (translate t ''restaurant.hours.day'' [])
            (select (day_choices i (tr_language t)) None (Some (hr_day r)) False None) None None None seq;
          (f2, n2) = field (translate t ''restaurant.hours.from'' []) (time_input (hr_key r) (hr_start r)) None None None n1;
          (f3, n3) = field (translate t ''restaurant.hours.to'' []) (time_input (hr_key r) (hr_end r)) None None None n2
      in (el ''div'' [(''class'', AStr ''row hours-row'')]
            [CNode f1, CNode f2, CNode f3,
             CNode (el ''span'' [(''class'', AStr ''hint-inline hours-hint''), (''text'', AStr (hr_hint r))] []),
             CNode (actions [CNode (button ((plain_button (translate t ''action.remove'' []))
               \<lparr>bt_variant := Danger, bt_onclick := Some (RemoveHours (hr_key r))\<rparr>))])], n3))"

fun hours_rows :: "translator \<Rightarrow> intl \<Rightarrow> hours_row list \<Rightarrow> nat \<Rightarrow> hours_action child list" where
  "hours_rows t i [] seq = []"
| "hours_rows t i (r # rs) seq = (let (x, n) = hours_row_element t i r seq in CNode x # hours_rows t i rs n)"

definition hours_card :: "translator \<Rightarrow> intl \<Rightarrow> hours_form \<Rightarrow> nat \<Rightarrow> hours_action node" where
  "hours_card t i f seq =
     card
       [CNode (add_listener ''change'' HoursTouched (add_listener ''input'' HoursTouched
          (append (el ''div'' [(''class'', AStr ''rows'')] [])
             (if hf_none f
              then CNode (el ''p'' [(''class'', AStr ''muted''), (''text'', AStr (translate t ''restaurant.hours.none'' []))] [])
                     # hours_rows t i (hf_rows f) seq
              else hours_rows t i (hf_rows f) seq)))),
        CNode (actions [CNode (button ((plain_button (translate t ''restaurant.hours.add'' []))
          \<lparr>bt_variant := Primary, bt_onclick := Some AddHours\<rparr>))]),
        CNode (status_element (hf_status f))]"

section \<open>Rows and what is sent\<close>

definition hours_good :: "hours_entry list \<Rightarrow> translator \<Rightarrow> hours_form \<Rightarrow> bool" where
  "hours_good start t f \<longleftrightarrow>
     baseline (hf_tracker f) = start \<and> heard_dirty (hf_tracker f) = (hours_content (hf_rows f) \<noteq> start)
     \<and> list_all (\<lambda>r. hr_hint r = hours_hint t r \<and> hr_key r < hf_next f) (hf_rows f)
     \<and> distinct (map hr_key (hf_rows f))"

lemma heard_trackers [simp]:
  "heard_dirty (touched v x) = (v \<noteq> baseline x)" "baseline (touched v x) = baseline x" "heard_dirty (saved x) = False"
  "heard_dirty (dirtyTracker v) = False" "baseline (dirtyTracker v) = v"
  by (simp_all add: heard_dirty_def saved_def touched_def report_def dirtyTracker_def last_of_def)

lemma update_hint_simps [simp]:
  "hr_key (update_hint t r) = hr_key r" "hr_day (update_hint t r) = hr_day r" "hr_start (update_hint t r) = hr_start r"
  "hr_end (update_hint t r) = hr_end r" "hr_hint (update_hint t r) = hours_hint t r"
  "hours_hint t (update_hint t r) = hours_hint t r" "hours_hint t (r\<lparr>hr_day := v\<rparr>) = hours_hint t r"
  by (simp_all add: update_hint_def hours_hint_def)

lemma touched_good:
  assumes "baseline (hf_tracker f) = start"
    and "list_all (\<lambda>r. hr_hint r = hours_hint t r \<and> hr_key r < hf_next f) (hf_rows f)" and "distinct (map hr_key (hf_rows f))"
  shows "hours_good start t (hours_touched f)"
  using assms by (simp add: hours_good_def hours_touched_def)

lemma change_row_keys:
  "(\<And>r. hr_key (g r) = hr_key r) \<Longrightarrow> map hr_key (hf_rows (change_row k g f)) = map hr_key (hf_rows f)"
  by (simp add: change_row_def)

lemma change_row_good:
  assumes "hours_good start t f" and "\<And>r. hr_key (g r) = hr_key r"
    and "\<And>r. hr_hint r = hours_hint t r \<Longrightarrow> hr_hint (g r) = hours_hint t (g r)"
  shows "hours_good start t (hours_touched (change_row k g f))"
proof (rule touched_good)
  show "distinct (map hr_key (hf_rows (change_row k g f)))"
    using assms(1) change_row_keys [of g k f] assms(2) by (simp add: hours_good_def)
qed (use assms in \<open>auto simp: hours_good_def change_row_def list_all_iff\<close>)

interpretation hours: event_machine "hours_do t i" "hours_good start t"
proof
  fix f e
  assume g: "hours_good start t f"
  show "hours_good start t (hours_do t i e f)"
  proof (cases e)
    case HoursAdd
    have "hours_good start t (hours_touched (add_hours_row t i (None :: opening_period option) (f\<lparr>hf_none := False\<rparr>)))"
      using g by (intro touched_good) (auto simp: hours_good_def add_hours_row_def hours_row_of_def list_all_iff)
    with HoursAdd show ?thesis by simp
  next
    case (HoursRemove k)
    have "hours_good start t (hours_touched (f\<lparr>hf_rows := filter (\<lambda>r. hr_key r \<noteq> k) (hf_rows f)\<rparr>))"
      using g by (intro touched_good) (auto simp: hours_good_def list_all_iff distinct_map_filter)
    with HoursRemove g show ?thesis by simp
  qed (use g in \<open>simp_all add: change_row_good\<close>)
qed

lemma day_number: "1 \<le> d \<Longrightarrow> d \<le> 7 \<Longrightarrow> parse_int (string_of_nat d) = Some (int d) \<and> string_of_nat d \<in> ch_value ` set (day_choices i l)"
proof -
  assume "1 \<le> d" "d \<le> 7"
  then have "d \<in> {1, 2, 3, 4, 5, 6, 7}" by auto
  moreover have "list_all (\<lambda>d. parse_int (string_of_nat d) = Some (int d)) [1, 2, 3, 4, 5, 6, 7]" by code_simp
  ultimately show ?thesis by (auto simp: day_choices_def)
qed

lemma row_of_period:
  fixes p :: "'x opening_period_scheme"
  assumes "1 \<le> op_day_of_week p" and "op_day_of_week p \<le> 7"
  shows "hours_content [hours_row_of t i k (Some p)] = [(Some (int (op_day_of_week p)), op_start p, op_end p)]"
  using day_number [OF assms] by (simp add: hours_content_def hours_row_of_def select_value_def)

lemma loaded_rows:
  fixes periods :: "'x opening_period_scheme list"
  assumes "list_all (\<lambda>p. 1 \<le> op_day_of_week p \<and> op_day_of_week p \<le> 7) periods"
  shows "hours_content (hf_rows (fold (\<lambda>p. add_hours_row t i (Some p)) periods f))
    = hours_content (hf_rows f) @ map (\<lambda>p. (Some (int (op_day_of_week p)), op_start p, op_end p)) periods"
  using assms
proof (induction periods arbitrary: f)
  case (Cons p ps)
  then have "hours_content [hours_row_of t i (hf_next f) (Some p)] = [(Some (int (op_day_of_week p)), op_start p, op_end p)]"
    by (intro row_of_period) simp_all
  with Cons show ?case by (simp add: add_hours_row_def hours_content_def)
qed simp

lemma loaded_keys:
  "list_all (\<lambda>r. hr_hint r = hours_hint t r \<and> hr_key r < hf_next f) (hf_rows f) \<Longrightarrow> distinct (map hr_key (hf_rows f)) \<Longrightarrow>
   list_all (\<lambda>r. hr_hint r = hours_hint t r \<and> hr_key r < hf_next (fold (\<lambda>p. add_hours_row t i (Some p)) ps f))
     (hf_rows (fold (\<lambda>p. add_hours_row t i (Some p)) ps f))
   \<and> distinct (map hr_key (hf_rows (fold (\<lambda>p. add_hours_row t i (Some p)) ps f)))"
proof (induction ps arbitrary: f)
  case (Cons p ps)
  have "list_all (\<lambda>r. hr_hint r = hours_hint t r \<and> hr_key r < hf_next (add_hours_row t i (Some p) f)) (hf_rows (add_hours_row t i (Some p) f))
     \<and> distinct (map hr_key (hf_rows (add_hours_row t i (Some p) f)))"
    using Cons.prems by (auto simp: add_hours_row_def hours_row_of_def list_all_iff)
  with Cons.IH show ?case by simp
qed simp

lemma new_hours_good: "hours_good (hours_content (hf_rows (new_hours_form t i periods))) t (new_hours_form t i periods)"
  using loaded_keys [of t "\<lparr>hf_status = statusLine, hf_rows = [], hf_next = 0, hf_none = (periods = []), hf_tracker = dirtyTracker []\<rparr>"
      i periods]
  by (simp add: hours_good_def new_hours_form_def Let_def)

text \<open>
  C21: opening hours are written as they were read: what the form would send before anything is done
  to it is exactly the periods it was loaded with; whatever rows are then changed, added and
  removed, there is something to save exactly when what would be sent differs from that, no two
  rows are confused, and every row says that it crosses midnight exactly when it ends before it
  starts.
\<close>

theorem opening_hours_roundtrip:
  assumes "list_all (\<lambda>p. 1 \<le> op_day_of_week p \<and> op_day_of_week p \<le> 7) periods"
  shows "(let sent = map (\<lambda>p. (Some (int (op_day_of_week p)), op_start p, op_end p)) periods;
              f = fold (hours_do t i) es (new_hours_form t i periods)
          in hours_content (hf_rows (new_hours_form t i periods)) = sent
             \<and> heard_dirty (hf_tracker f) = (hours_content (hf_rows f) \<noteq> sent)
             \<and> distinct (map hr_key (hf_rows f))
             \<and> list_all (\<lambda>r. hr_hint r = (if js_less (hr_end r) (hr_start r) then translate t ''restaurant.crosses_midnight'' [] else []))
                 (hf_rows f))"
proof -
  have loaded: "hours_content (hf_rows (new_hours_form t i periods))
      = map (\<lambda>p. (Some (int (op_day_of_week p)), op_start p, op_end p)) periods"
    using loaded_rows [OF assms] by (simp add: new_hours_form_def Let_def hours_content_def)
  moreover have "hours_good (hours_content (hf_rows (new_hours_form t i periods))) t
      (fold (hours_do t i) es (new_hours_form t i periods))"
    by (rule hours.good_run [OF new_hours_good])
  ultimately show ?thesis by (simp add: hours_good_def hours_hint_def list_all_iff)
qed

theorem opening_hours_roundtrip_witness:
  "hours_content (hf_rows (new_hours_form sample_translator sample_intl [\<lparr>op_day_of_week = 5, op_start = ''18:00'', op_end = ''02:00''\<rparr>]))
     = [(Some 5, ''18:00'', ''02:00'')]"
  using opening_hours_roundtrip [of "[\<lparr>op_day_of_week = 5, op_start = ''18:00'', op_end = ''02:00''\<rparr>]" sample_translator sample_intl "[]"]
  by (simp add: Let_def)

end
