(* ===== verification/RestaurantPage.thy ===== *)
theory RestaurantPage
  imports RestaurantHours Tabs
begin

text \<open>
  The page of a restaurant: its own fields (\<open>src/pages/restaurant/data.ts\<close>), and the heading whose
  Save covers them and the opening hours and whose Delete says why it cannot be pressed
  (\<open>src/pages/restaurant/index.ts\<close>). A save runs to its end before the next thing happens. The
  picture is the control of the library, which reports a new id.
\<close>

section \<open>The fields\<close>

type_synonym data_snapshot = "string \<times> string \<times> string \<times> string \<times> string \<times> string option"

record data_form =
  rf_status :: status
  rf_name :: string
  rf_currency :: string
  rf_minimum :: string
  rf_fee :: string
  rf_notes :: string
  rf_logo :: "string option"
  rf_money :: money_format
  rf_tracker :: "data_snapshot tracker"

definition data_snapshot_of :: "data_form \<Rightarrow> data_snapshot" where
  "data_snapshot_of f =
     (js_trim (rf_name f), rf_currency f, js_trim (rf_minimum f), js_trim (rf_fee f), js_trim (rf_notes f), rf_logo f)"

definition money_text :: "int option \<Rightarrow> money_format \<Rightarrow> string" where
  "money_text cents money = (case cents of None \<Rightarrow> [] | Some n \<Rightarrow> moneyInputValue n money)"

definition new_data_form :: "translator \<Rightarrow> reference_data \<Rightarrow> 'x restaurant_scheme \<Rightarrow> data_form" where
  "new_data_form t ref r =
     (let money = moneyFormatOf (ref_currencies ref) (r_currency_code r);
          f = \<lparr>rf_status = statusLine, rf_name = r_name r,
               rf_currency = select_value (currency_choices t ref) (r_currency_code r),
               rf_minimum = money_text (r_min_order_value_cents r) money, rf_fee = money_text (r_delivery_fee_cents r) money,
               rf_notes = r_notes r, rf_logo = r_logo_image_id r, rf_money = money,
               rf_tracker = dirtyTracker ([], [], [], [], [], None)\<rparr>
      in f\<lparr>rf_tracker := dirtyTracker (data_snapshot_of f)\<rparr>)"

definition data_touched :: "data_form \<Rightarrow> data_form" where
  "data_touched f = f\<lparr>rf_tracker := touched (data_snapshot_of f) (rf_tracker f)\<rparr>"

definition data_saved :: "data_form \<Rightarrow> data_form" where
  "data_saved f = f\<lparr>rf_tracker := saved ((rf_tracker f)\<lparr>content := data_snapshot_of f\<rparr>)\<rparr>"

text \<open>The amounts are written anew in the minor units of the currency that was chosen.\<close>

definition in_currency :: "money_format \<Rightarrow> money_format \<Rightarrow> string \<Rightarrow> string" where
  "in_currency old new txt = money_text (parseMoney txt old) new"

definition convert_amounts :: "reference_data \<Rightarrow> data_form \<Rightarrow> data_form" where
  "convert_amounts ref f =
     (let new = moneyFormatOf (ref_currencies ref) (rf_currency f); old = rf_money f
      in f\<lparr>rf_minimum := in_currency old new (rf_minimum f), rf_fee := in_currency old new (rf_fee f), rf_money := new\<rparr>)"

text \<open>
  What is done to the fields. Choosing a currency fires \<open>input\<close> and \<open>change\<close>; the listeners that
  compare were attached first, so they run before the one that writes the amounts anew.
\<close>

datatype data_event =
    DataName string | DataMinimum string | DataFee string | DataNotes string | DataLogo "string option"
  | DataCurrency string | DataChanged

fun data_do :: "reference_data \<Rightarrow> data_event \<Rightarrow> data_form \<Rightarrow> data_form" where
  "data_do ref (DataName v) f = data_touched (f\<lparr>rf_name := v\<rparr>)"
| "data_do ref (DataMinimum v) f = data_touched (f\<lparr>rf_minimum := v\<rparr>)"
| "data_do ref (DataFee v) f = data_touched (f\<lparr>rf_fee := v\<rparr>)"
| "data_do ref (DataNotes v) f = data_touched (f\<lparr>rf_notes := v\<rparr>)"
| "data_do ref (DataLogo v) f = data_touched (f\<lparr>rf_logo := v\<rparr>)"
| "data_do ref (DataCurrency v) f = convert_amounts ref (data_touched (data_touched (f\<lparr>rf_currency := v\<rparr>)))"
| "data_do ref DataChanged f = data_touched f"

section \<open>The page\<close>

record restaurant_page =
  rp_restaurant :: restaurant_detail
  rp_data :: data_form
  rp_hours :: hours_form
  rp_save_disabled :: bool
  rp_title :: string

definition data_dirty :: "restaurant_page \<Rightarrow> bool" where
  "data_dirty l = heard_dirty (rf_tracker (rp_data l))"

definition hours_dirty :: "restaurant_page \<Rightarrow> bool" where
  "hours_dirty l = heard_dirty (hf_tracker (rp_hours l))"

definition page_listens :: "restaurant_page \<Rightarrow> restaurant_page" where
  "page_listens l = l\<lparr>rp_save_disabled := \<not> (data_dirty l \<or> hours_dirty l)\<rparr>"

definition in_data :: "(data_form \<Rightarrow> data_form) \<Rightarrow> restaurant_page \<Rightarrow> restaurant_page" where
  "in_data f l = l\<lparr>rp_data := f (rp_data l)\<rparr>"

definition in_hours :: "(hours_form \<Rightarrow> hours_form) \<Rightarrow> restaurant_page \<Rightarrow> restaurant_page" where
  "in_hours f l = l\<lparr>rp_hours := f (rp_hours l)\<rparr>"

definition restaurant_path :: "restaurant_page \<Rightarrow> string" where
  "restaurant_path l = ''/restaurants/'' @ r_id (rp_restaurant l)"

definition new_restaurant_page :: "translator \<Rightarrow> intl \<Rightarrow> reference_data \<Rightarrow> restaurant_detail \<Rightarrow> restaurant_page" where
  "new_restaurant_page t i ref r =
     \<lparr>rp_restaurant = r, rp_data = new_data_form t ref r, rp_hours = new_hours_form t i (rd_opening_hours r),
      rp_save_disabled = True, rp_title = r_name r\<rparr>"

section \<open>Saving\<close>

definition data_call :: "restaurant_page \<Rightarrow> http_call" where
  "data_call l =
     (let f = rp_data l
      in Call ''PATCH'' (restaurant_path l) (Some (JObj
           [(''name'', JStr (js_trim (rf_name f))), (''currency_code'', JStr (rf_currency f)),
            (''logo_image_id'', json_opt (rf_logo f)),
            (''min_order_value_cents'', json_num_opt (parseMoney (rf_minimum f) (rf_money f))),
            (''delivery_fee_cents'', json_num_opt (parseMoney (rf_fee f) (rf_money f))),
            (''notes'', JStr (js_trim (rf_notes f)))])))"

text \<open>What a save leaves: the message, the heading and the tab of the browser, and a new baseline.\<close>

definition data_written :: "translator \<Rightarrow> restaurant_page \<Rightarrow> restaurant_page" where
  "data_written t l =
     page_listens (in_data (\<lambda>f. data_saved (f\<lparr>rf_status := say (translate t ''state.saved'' []) (rf_status f)\<rparr>))
       (l\<lparr>rp_title := js_trim (rf_name (rp_data l))\<rparr>))"

definition save_data :: "unit server \<Rightarrow> translator \<Rightarrow> (restaurant_page, unit) act" where
  "save_data srv t =
     andthen (modify (in_data (rf_status_update clear_status)))
       (try_catch
          (bind (gets data_call) (\<lambda>c. andthen (call srv c) (modify (data_written t))))
          (\<lambda>e. andthen (modify (in_data (rf_status_update (fail_with (errorMessage t e))))) (raise e)))"

definition hours_call :: "restaurant_page \<Rightarrow> http_call" where
  "hours_call l =
     Call ''PUT'' (restaurant_path l @ ''/opening-hours'')
       (Some (JObj [(''opening_hours'', hours_json (hours_content (hf_rows (rp_hours l))))]))"

definition hours_written :: "translator \<Rightarrow> restaurant_page \<Rightarrow> restaurant_page" where
  "hours_written t l =
     page_listens (in_hours (\<lambda>f. hours_saved (f\<lparr>hf_status := say (translate t ''state.saved'' []) (hf_status f)\<rparr>)) l)"

definition save_hours :: "unit server \<Rightarrow> translator \<Rightarrow> (restaurant_page, unit) act" where
  "save_hours srv t =
     andthen (modify (in_hours (hf_status_update clear_status)))
       (try_catch
          (bind (gets hours_call) (\<lambda>c. andthen (call srv c) (modify (hours_written t))))
          (\<lambda>e. andthen (modify (in_hours (hf_status_update (fail_with (errorMessage t e))))) (raise e)))"

text \<open>The heading's Save goes through the sections in order and stops at the first that fails.\<close>

fun save_each :: "(('l \<Rightarrow> bool) \<times> ('l, unit) act) list \<Rightarrow> ('l, unit) act" where
  "save_each [] = ret ()"
| "save_each ((dirty, save) # rest) = bind (gets dirty) (\<lambda>d. andthen (if d then save else ret ()) (save_each rest))"

definition press_restaurant_save :: "unit server \<Rightarrow> translator \<Rightarrow> (restaurant_page, unit) act" where
  "press_restaurant_save srv t =
     andthen (modify (rp_save_disabled_update (\<lambda>_. True)))
       (try_catch (save_each [(data_dirty, save_data srv t), (hours_dirty, save_hours srv t)])
          (\<lambda>e. modify (rp_save_disabled_update (\<lambda>_. False))))"

section \<open>Deleting\<close>

definition restaurant_removal :: "translator \<Rightarrow> 'x restaurant_scheme \<Rightarrow> confirm_texts" where
  "restaurant_removal t r =
     confirm_with t (translate t ''confirm.title'' []) (translate t ''restaurant.delete.confirm'' []) (r_name r)
       (translate t ''action.delete'' [])"

definition remove_restaurant ::
  "unit server \<Rightarrow> (effect list \<Rightarrow> string \<Rightarrow> bool) \<Rightarrow> translator \<Rightarrow> (restaurant_page, unit) act" where
  "remove_restaurant srv person t =
     bind (gets rp_restaurant)
       (\<lambda>r. bind (confirmed person (restaurant_removal t r))
          (\<lambda>agreed. if \<not> agreed then ret ()
             else try_catch
               (andthen (call srv (Call ''DELETE'' (''/restaurants/'' @ r_id r) None)) (emit (Navigated ''/restaurants'')))
               (\<lambda>e. modify (in_data (rf_status_update (fail_with (errorMessage t e)))))))"

text \<open>Why Delete cannot be pressed; nothing when it can.\<close>

definition delete_obstacle :: "app \<Rightarrow> bool \<Rightarrow> string" where
  "delete_obstacle a blocking =
     (if \<not> isAdmin (app_session a) then say_t a ''restaurant.delete.admin_only''
      else if blocking then say_t a ''restaurant.delete.in_use'' else [])"

text \<open>Whether an order points at the restaurant; when the orders cannot be read, none is taken to.\<close>

definition is_blocking :: "order_list_entry list server \<Rightarrow> 'x restaurant_scheme \<Rightarrow> ('l, bool) act" where
  "is_blocking srv r =
     try_catch (bind (call srv (Call ''GET'' ''/orders'' None)) (\<lambda>orders. ret (list_ex (\<lambda>o1. o_restaurant_id o1 = r_id r) orders)))
       (\<lambda>_. ret False)"

section \<open>Opening the page\<close>

text \<open>\<open>referenceData\<close> is an answer here; the page is the form for a new restaurant, the page of one, or says why not.\<close>

definition restaurantPage ::
  "restaurant_detail server \<Rightarrow> order_list_entry list server \<Rightarrow> app \<Rightarrow> js_error + reference_data \<Rightarrow> string
   \<Rightarrow> ('l, js_error + (restaurant_create + (restaurant_page \<times> bool))) act" where
  "restaurantPage srv orders_srv a tables ident =
     (case tables of
        Inl e \<Rightarrow> ret (Inl e)
      | Inr ref \<Rightarrow>
          if ident = ''new'' then ret (Inr (Inl (new_restaurant_create (app_t a) ref)))
          else bind (try_catch (bind (call srv (Call ''GET'' (''/restaurants/'' @ ident) None)) (\<lambda>r. ret (Inr r))) (\<lambda>e. ret (Inl e)))
            (\<lambda>answer. case answer of
               Inl e \<Rightarrow> ret (Inl e)
             | Inr r \<Rightarrow> bind (is_blocking orders_srv r)
                 (\<lambda>blocking. ret (Inr (Inr (new_restaurant_page (app_t a) (app_intl a) ref r, blocking))))))"

section \<open>The page as it is drawn\<close>

datatype restaurant_action = SaveRestaurant | DeleteRestaurant | SubmitData | DataInput | CurrencyChanged

definition restaurant_controls :: "app \<Rightarrow> restaurant_page \<Rightarrow> bool \<Rightarrow> restaurant_action node" where
  "restaurant_controls a l blocking =
     (let t = app_t a; why = delete_obstacle a blocking
      in el ''div'' [(''class'', AStr ''page-heading-actions'')]
        [CNode (button ((plain_button (translate t ''action.save'' []))
           \<lparr>bt_variant := Primary, bt_disabled := rp_save_disabled l, bt_onclick := Some SaveRestaurant\<rparr>)),
         CNode (set_flag ''disabled'' (why \<noteq> []) (button ((plain_button (translate t ''restaurant.delete'' []))
           \<lparr>bt_variant := Danger, bt_title := (if why \<noteq> [] then Some why else None), bt_onclick := Some DeleteRestaurant\<rparr>)))])"

definition data_listeners :: "restaurant_action node \<Rightarrow> restaurant_action node" where
  "data_listeners x = add_listener ''change'' DataInput (add_listener ''input'' DataInput x)"

definition money_input :: "string \<Rightarrow> string \<Rightarrow> restaurant_action node" where
  "money_input name v =
     data_listeners (input (no_input\<lparr>in_name := Some name, in_mode := Some ''decimal'', in_value := Some v\<rparr>))"

definition data_card :: "translator \<Rightarrow> reference_data \<Rightarrow> restaurant_action node \<Rightarrow> data_form \<Rightarrow> nat \<Rightarrow> restaurant_action node \<times> nat" where
  "data_card t ref logo f seq =
     (let optional = Some (translate t ''auth.optional'' []);
          (f1, n1) = field (translate t ''restaurant.name'' [])
            (data_listeners (input (no_input\<lparr>in_name := Some ''name'', in_value := Some (rf_name f), in_required := True\<rparr>))) None None None seq;
          (f2, n2) = field (translate t ''restaurant.currency'' [])
            (add_listener ''change'' CurrencyChanged (data_listeners (currencySelect t ref (rf_currency f)))) None None None n1;
          (f3, n3) = field (translate t ''restaurant.min_order_value'' []) (money_input ''min_order_value'' (rf_minimum f)) None None optional n2;
          (f4, n4) = field (translate t ''restaurant.delivery_fee'' []) (money_input ''delivery_fee'' (rf_fee f)) None None optional n3;
          (f5, n5) = field (translate t ''restaurant.notes'' [])
            (data_listeners (textarea (no_input\<lparr>in_name := Some ''notes'', in_value := Some (rf_notes f)\<rparr>) (Some 3))) None None optional n4
      in (card [CNode (form SubmitData [CNode f1, CNode f2, CNode logo, CNode f3, CNode f4, CNode f5,
            CNode (status_element (rf_status f))])], n5))"

definition restaurant_tabs :: "translator \<Rightarrow> tab_spec list" where
  "restaurant_tabs t =
     [\<lparr>tb_id = ''menu'', tb_label = translate t ''restaurant.menu'' [], tb_disabled = None\<rparr>,
      \<lparr>tb_id = ''data'', tb_label = translate t ''restaurant.data'' [], tb_disabled = None\<rparr>,
      \<lparr>tb_id = ''contacts'', tb_label = translate t ''restaurant.contacts'' [], tb_disabled = None\<rparr>,
      \<lparr>tb_id = ''hours'', tb_label = translate t ''restaurant.opening_hours'' [], tb_disabled = None\<rparr>,
      \<lparr>tb_id = ''availability'', tb_label = translate t ''availability.title'' [], tb_disabled = None\<rparr>]"

section \<open>The page as a machine\<close>

datatype restaurant_event = InData data_event | InHours hours_event | PressRestaurantSave | SubmitDataForm

text \<open>Every change of a section is told to the heading. Enter in a field saves the fields alone.\<close>

fun restaurant_do ::
  "unit server \<Rightarrow> translator \<Rightarrow> intl \<Rightarrow> reference_data \<Rightarrow> restaurant_event \<Rightarrow> (restaurant_page, unit) act" where
  "restaurant_do srv t i ref (InData e) = modify (\<lambda>l. page_listens (in_data (data_do ref e) l))"
| "restaurant_do srv t i ref (InHours e) = modify (\<lambda>l. page_listens (in_hours (hours_do t i e) l))"
| "restaurant_do srv t i ref PressRestaurantSave = press_restaurant_save srv t"
| "restaurant_do srv t i ref SubmitDataForm = try_catch (save_data srv t) (\<lambda>_. ret ())"

definition restaurant_step ::
  "unit server \<Rightarrow> translator \<Rightarrow> intl \<Rightarrow> reference_data \<Rightarrow> restaurant_event \<Rightarrow> restaurant_page world \<Rightarrow> restaurant_page world" where
  "restaurant_step srv t i ref e w = snd (restaurant_do srv t i ref e w)"

section \<open>Save on the heading\<close>

lemma data_parts [simp]:
  "rp_hours (in_data f l) = rp_hours l" "rp_restaurant (in_data f l) = rp_restaurant l" "rp_data (in_data f l) = f (rp_data l)"
  "rp_save_disabled (in_data f l) = rp_save_disabled l" "rp_title (in_data f l) = rp_title l"
  "hours_dirty (in_data f l) = hours_dirty l" "hours_call (in_data f l) = hours_call l"
  by (simp_all add: in_data_def hours_dirty_def hours_call_def restaurant_path_def)

lemma hours_parts [simp]:
  "rp_data (in_hours f l) = rp_data l" "rp_restaurant (in_hours f l) = rp_restaurant l" "rp_hours (in_hours f l) = f (rp_hours l)"
  "rp_save_disabled (in_hours f l) = rp_save_disabled l" "rp_title (in_hours f l) = rp_title l"
  "data_dirty (in_hours f l) = data_dirty l" "data_call (in_hours f l) = data_call l"
  by (simp_all add: in_hours_def data_dirty_def data_call_def restaurant_path_def)

lemma listens_parts [simp]:
  "rp_data (page_listens l) = rp_data l" "rp_hours (page_listens l) = rp_hours l" "rp_title (page_listens l) = rp_title l"
  "data_dirty (page_listens l) = data_dirty l" "hours_dirty (page_listens l) = hours_dirty l"
  "data_call (page_listens l) = data_call l" "hours_call (page_listens l) = hours_call l"
  "rp_save_disabled (page_listens l) = (\<not> (data_dirty l \<or> hours_dirty l))"
  by (simp_all add: page_listens_def data_dirty_def hours_dirty_def data_call_def hours_call_def restaurant_path_def)

lemma aside_parts [simp]:
  "data_dirty (l\<lparr>rp_title := v\<rparr>) = data_dirty l" "hours_dirty (l\<lparr>rp_title := v\<rparr>) = hours_dirty l"
  "data_dirty (l\<lparr>rp_save_disabled := b\<rparr>) = data_dirty l" "hours_dirty (l\<lparr>rp_save_disabled := b\<rparr>) = hours_dirty l"
  "data_call (l\<lparr>rp_title := v\<rparr>) = data_call l" "hours_call (l\<lparr>rp_title := v\<rparr>) = hours_call l"
  "data_call (l\<lparr>rp_save_disabled := b\<rparr>) = data_call l" "hours_call (l\<lparr>rp_save_disabled := b\<rparr>) = hours_call l"
  by (simp_all add: data_dirty_def hours_dirty_def data_call_def hours_call_def restaurant_path_def)

text \<open>Where saving a section leaves the page.\<close>

definition after_data :: "translator \<Rightarrow> js_error + unit \<Rightarrow> restaurant_page \<Rightarrow> restaurant_page" where
  "after_data t answer l =
     (case answer of
        Inl e \<Rightarrow> in_data (rf_status_update (\<lambda>_. \<lparr>st_text = errorMessage t e, st_error = True\<rparr>)) l
      | Inr u \<Rightarrow> data_written t l)"

definition after_hours :: "translator \<Rightarrow> js_error + unit \<Rightarrow> restaurant_page \<Rightarrow> restaurant_page" where
  "after_hours t answer l =
     (case answer of
        Inl e \<Rightarrow> in_hours (hf_status_update (\<lambda>_. \<lparr>st_text = errorMessage t e, st_error = True\<rparr>)) l
      | Inr u \<Rightarrow> hours_written t l)"

lemma status_kept [simp]:
  "data_call (in_data (rf_status_update f) l) = data_call l" "hours_call (in_hours (hf_status_update g) l) = hours_call l"
  by (simp_all add: data_call_def hours_call_def in_data_def in_hours_def restaurant_path_def Let_def)

lemma written_again [simp]:
  "data_written t (in_data (rf_status_update f) l) = data_written t l"
  "hours_written t (in_hours (hf_status_update g) l) = hours_written t l"
  by (simp_all add: data_written_def hours_written_def in_data_def in_hours_def say_def)

lemma save_data_run:
  "save_data srv t w =
     (let c = data_call (local w); answer = srv (trace w) c
      in (answer, \<lparr>trace = trace w @ [Sent c], local = after_data t answer (local w)\<rparr>))"
proof -
  obtain tr l where w: "w = \<lparr>trace = tr, local = l\<rparr>" by (cases w) auto
  show ?thesis
    unfolding w by (cases "srv tr (data_call l)")
      (simp_all add: save_data_def act_simps after_data_def Let_def, simp add: in_data_def fail_with_def)
qed

lemma save_hours_run:
  "save_hours srv t w =
     (let c = hours_call (local w); answer = srv (trace w) c
      in (answer, \<lparr>trace = trace w @ [Sent c], local = after_hours t answer (local w)\<rparr>))"
proof -
  obtain tr l where w: "w = \<lparr>trace = tr, local = l\<rparr>" by (cases w) auto
  show ?thesis
    unfolding w by (cases "srv tr (hours_call l)")
      (simp_all add: save_hours_def act_simps after_hours_def Let_def, simp add: in_hours_def fail_with_def)
qed

lemma after_sections [simp]:
  "data_dirty (after_data t a l) = (case a of Inl _ \<Rightarrow> data_dirty l | Inr _ \<Rightarrow> False)"
  "hours_dirty (after_data t a l) = hours_dirty l" "data_dirty (after_hours t b l) = data_dirty l"
  "hours_dirty (after_hours t b l) = (case b of Inl _ \<Rightarrow> hours_dirty l | Inr _ \<Rightarrow> False)"
  "data_call (after_data t a l) = data_call l" "hours_call (after_data t a l) = hours_call l"
  "data_call (after_hours t b l) = data_call l" "hours_call (after_hours t b l) = hours_call l"
  "rp_title (after_data t a l) = (case a of Inl _ \<Rightarrow> rp_title l | Inr _ \<Rightarrow> js_trim (rf_name (rp_data l)))"
  "rp_title (after_hours t b l) = rp_title l"
  "rp_save_disabled (after_data t (Inl e) l) = rp_save_disabled l" "rp_save_disabled (after_data t (Inr u) l) = (\<not> hours_dirty l)"
  "rp_save_disabled (after_hours t (Inl e) l) = rp_save_disabled l" "rp_save_disabled (after_hours t (Inr u) l) = (\<not> data_dirty l)"
  by (auto simp: after_data_def after_hours_def data_written_def hours_written_def data_saved_def hours_saved_def
      data_dirty_def [of "in_data _ _"] hours_dirty_def [of "in_hours _ _"] data_call_def hours_call_def restaurant_path_def
      page_listens_def in_data_def in_hours_def Let_def split: sum.split)
    (simp_all add: data_dirty_def hours_dirty_def)

lemma press_restaurant_save_run:
  "press_restaurant_save srv t w =
     (let l = (local w)\<lparr>rp_save_disabled := True\<rparr>; c = data_call l; h = hours_call l;
          first = (if data_dirty l then [Sent c] else []); answer = srv (trace w) c;
          l1 = (if data_dirty l then after_data t answer l else l); failed = (\<lambda>x. x\<lparr>rp_save_disabled := False\<rparr>)
      in if data_dirty l \<and> isl answer then (Inr (), \<lparr>trace = trace w @ first, local = failed l1\<rparr>)
         else if \<not> hours_dirty l then (Inr (), \<lparr>trace = trace w @ first, local = l1\<rparr>)
         else let reply = srv (trace w @ first) h; l2 = after_hours t reply l1
              in (Inr (), \<lparr>trace = trace w @ first @ [Sent h], local = (if isl reply then failed l2 else l2)\<rparr>))"
proof -
  obtain tr l where w: "w = \<lparr>trace = tr, local = l\<rparr>" by (cases w) auto
  show ?thesis
    unfolding w
    by (cases "srv tr (data_call l)"; cases "data_dirty l"; cases "hours_dirty l")
      (simp_all add: press_restaurant_save_def act_simps save_data_run save_hours_run Let_def split: sum.split)
qed

definition restaurant_good :: "restaurant_page \<Rightarrow> bool" where
  "restaurant_good l \<longleftrightarrow> rp_save_disabled l = (\<not> (data_dirty l \<or> hours_dirty l))"

interpretation restaurant: event_machine "restaurant_step srv t i ref" "\<lambda>w. restaurant_good (local w)"
proof
  fix w :: "restaurant_page world" and e
  assume g: "restaurant_good (local w)"
  obtain tr l where w: "w = \<lparr>trace = tr, local = l\<rparr>" by (cases w) auto
  from g have off: "rp_save_disabled l = (\<not> (data_dirty l \<or> hours_dirty l))" by (simp add: w restaurant_good_def)
  show "restaurant_good (local (restaurant_step srv t i ref e w))"
  proof (cases e)
    case PressRestaurantSave
    then show ?thesis
      by (cases "srv tr (data_call l)"; cases "data_dirty l"; cases "hours_dirty l")
        (simp_all add: w restaurant_step_def press_restaurant_save_run Let_def restaurant_good_def split: sum.split)
  next
    case SubmitDataForm
    with off show ?thesis
      by (cases "srv tr (data_call l)") (simp_all add: w restaurant_step_def act_simps save_data_run Let_def restaurant_good_def)
  qed (simp_all add: w restaurant_step_def act_simps restaurant_good_def)
qed

text \<open>
  The Save on the heading of a restaurant is enabled exactly while its fields or its opening
  hours have something to save, whatever has been typed, saved and answered; pressing it sends the
  fields if they have changed and then the hours if they have changed and the fields went through,
  each once; what was refused is still there and can be tried again; and the heading says the new
  name exactly when it was saved.
\<close>

theorem restaurant_saved_in_order:
  "(let w = fold (restaurant_step srv t i ref) es \<lparr>trace = done, local = new_restaurant_page t i ref r\<rparr>; l = local w;
        c = data_call l; h = hours_call l; out = restaurant_step srv t i ref PressRestaurantSave w;
        first = (if data_dirty l then [Sent c] else []);
        went = (if data_dirty l then \<not> isl (srv (trace w) c) else True);
        second = (if went \<and> hours_dirty l then [Sent h] else [])
    in rp_save_disabled l = (\<not> (data_dirty l \<or> hours_dirty l))
       \<and> trace out = trace w @ first @ second
       \<and> data_dirty (local out) = (\<not> went)
       \<and> hours_dirty (local out) = (if went \<and> hours_dirty l then isl (srv (trace w @ first) h) else hours_dirty l)
       \<and> rp_save_disabled (local out) = (\<not> (data_dirty (local out) \<or> hours_dirty (local out)))
       \<and> data_call (local out) = c \<and> hours_call (local out) = h
       \<and> rp_title (local out) = (if data_dirty l \<and> went then js_trim (rf_name (rp_data l)) else rp_title l))"
proof -
  let ?start = "\<lparr>trace = done, local = new_restaurant_page t i ref r\<rparr>"
  have "restaurant_good (local ?start)"
    by (simp add: restaurant_good_def new_restaurant_page_def new_data_form_def new_hours_form_def data_dirty_def hours_dirty_def Let_def)
  then have g: "restaurant_good (local (fold (restaurant_step srv t i ref) es ?start))" by (rule restaurant.good_run)
  obtain tr l where w: "fold (restaurant_step srv t i ref) es ?start = \<lparr>trace = tr, local = l\<rparr>"
    by (cases "fold (restaurant_step srv t i ref) es ?start") auto
  from g have "rp_save_disabled l = (\<not> (data_dirty l \<or> hours_dirty l))" by (simp add: w restaurant_good_def)
  then show ?thesis
    unfolding w Let_def
    by (cases "srv tr (data_call l)"; cases "data_dirty l"; cases "hours_dirty l")
      (simp_all add: restaurant_step_def press_restaurant_save_run Let_def split: sum.split)
qed

text \<open>
  The amounts are written anew after the comparison: somebody who goes to another currency, types
  an amount there and comes back has another amount in the form and nothing to save.
\<close>

lemma currency_hides_changes:
  assumes "data_snapshot_of (f\<lparr>rf_currency := v\<rparr>) = baseline (rf_tracker f)"
  shows "\<not> heard_dirty (rf_tracker (data_do ref (DataCurrency v) f))
    \<and> rf_minimum (data_do ref (DataCurrency v) f) = in_currency (rf_money f) (moneyFormatOf (ref_currencies ref) v) (rf_minimum f)"
  using assms by (simp add: convert_amounts_def data_touched_def Let_def data_snapshot_of_def)

lemma currency_changes_amount:
  "in_currency \<lparr>mf_digits = 2, mf_per_major = 100\<rparr> \<lparr>mf_digits = 0, mf_per_major = 1\<rparr> ''5'' = ''500''"
  by code_simp

text \<open>An amount that cannot be read is sent as none.\<close>

lemma unreadable_amount_is_none:
  "parseMoney txt (rf_money (rp_data l)) = None \<Longrightarrow> rf_minimum (rp_data l) = txt \<Longrightarrow>
   (\<exists>b. data_call l = Call ''PATCH'' (restaurant_path l) (Some (JObj b)) \<and> (''min_order_value_cents'', JNull) \<in> set b)"
  by (auto simp: data_call_def Let_def json_num_opt_def)

text \<open>
  Delete can be pressed exactly by an administrator while no known order points at the restaurant,
  and its title says which of the two is missing; pressing it asks first.
\<close>

lemma delete_explains_itself:
  assumes "say_t a ''restaurant.delete.admin_only'' \<noteq> []" and "say_t a ''restaurant.delete.in_use'' \<noteq> []"
  shows "(delete_obstacle a blocking = []) = (isAdmin (app_session a) \<and> \<not> blocking)"
  using assms by (simp add: delete_obstacle_def)

end
