(* ===== verification/RestaurantContacts.thy ===== *)
theory RestaurantContacts
  imports Restaurants Contacts
begin

text \<open>
  The contacts of a restaurant (\<open>src/pages/restaurant/contacts.ts\<close>): a row for each, which saves
  itself, the button behind its value, which follows what is chosen and typed, and the row for a new
  one. Drawing the list makes every row anew from what the page knows of the contacts.
\<close>

section \<open>What a contact opens\<close>

definition codeOf :: "reference_data \<Rightarrow> string \<Rightarrow> string" where
  "codeOf ref ident =
     (case List.find (\<lambda>c. ct_id c = ident) (ref_contact_types ref) of None \<Rightarrow> [] | Some c \<Rightarrow> ct_code c)"

definition renderAsOf :: "reference_data \<Rightarrow> string \<Rightarrow> string" where
  "renderAsOf ref ident =
     (case List.find (\<lambda>c. ct_id c = ident) (ref_contact_types ref) of None \<Rightarrow> ''text'' | Some c \<Rightarrow> ct_render_as c)"

record contact_link =
  ck_href :: string
  ck_external :: bool
  ck_icon :: string
  ck_label :: string

definition contact_open :: "translator \<Rightarrow> reference_data \<Rightarrow> string \<Rightarrow> string \<Rightarrow> contact_link option" where
  "contact_open t ref type value =
     (let c = \<lparr>contact_type_code = codeOf ref type, render_as = renderAsOf ref type, contact_value = value\<rparr>
      in case contactTarget c of
           None \<Rightarrow> None
         | Some tg \<Rightarrow>
             if contactIcon c = [] then None
             else Some \<lparr>ck_href = tg_href tg, ck_external = tg_external tg, ck_icon = contactIcon c,
                   ck_label = translate t ''restaurant.contact.open''
                     [(''type'', PStr (referenceName t ''contact_type'' (contact_type_code c)))]\<rparr>)"

section \<open>The state\<close>

record contact_row =
  cr_contact :: contact
  cr_type :: string
  cr_value :: string
  cr_label :: string
  cr_open :: "contact_link option"
  cr_last :: bool

record contacts_state = ui +
  cn_contacts :: "contact list"
  cn_rows :: "contact_row list"
  cn_new_type :: string
  cn_new_value :: string
  cn_new_label :: string

record contacts_server =
  cs_created :: "contact server"
  cs_done :: "unit server"

text \<open>\<open>contactButton\<close> is refreshed when it is made, when the type changes and when the value is typed.\<close>

definition refresh_open :: "translator \<Rightarrow> reference_data \<Rightarrow> contact_row \<Rightarrow> contact_row" where
  "refresh_open t ref r = r\<lparr>cr_open := contact_open t ref (cr_type r) (cr_value r)\<rparr>"

definition contact_row_of :: "translator \<Rightarrow> reference_data \<Rightarrow> contact list \<Rightarrow> contact \<Rightarrow> contact_row" where
  "contact_row_of t ref cs c =
     refresh_open t ref
       \<lparr>cr_contact = c, cr_type = contact_type_value t ref (Some (co_contact_type_id c)), cr_value = contact_value c,
        cr_label = co_label c, cr_open = None, cr_last = (length cs < 2)\<rparr>"

definition render_contacts :: "translator \<Rightarrow> reference_data \<Rightarrow> contacts_state \<Rightarrow> contacts_state" where
  "render_contacts t ref l =
     l\<lparr>cn_rows := map (contact_row_of t ref (cn_contacts l)) (cn_contacts l),
       cn_new_type := contact_type_value t ref None, cn_new_value := [], cn_new_label := []\<rparr>"

definition new_contacts :: "translator \<Rightarrow> reference_data \<Rightarrow> contact list \<Rightarrow> contacts_state" where
  "new_contacts t ref cs =
     render_contacts t ref
       \<lparr>ui_status = statusLine, ui_busy = False, cn_contacts = cs, cn_rows = [], cn_new_type = [], cn_new_value = [], cn_new_label = []\<rparr>"

section \<open>What can be done\<close>

definition contacts_path :: "string \<Rightarrow> string" where
  "contacts_path restaurant_id = ''/restaurants/'' @ restaurant_id @ ''/contacts''"

definition store_call :: "string \<Rightarrow> contact_row \<Rightarrow> http_call" where
  "store_call rid r =
     Call ''PUT'' (contacts_path rid @ ''/'' @ co_id (cr_contact r))
       (Some (contact_body (cr_type r) (js_trim (cr_value r)) (js_trim (cr_label r)) (co_sort_order (cr_contact r))))"

definition store_contact :: "contacts_server \<Rightarrow> translator \<Rightarrow> string \<Rightarrow> contact_row \<Rightarrow> (contacts_state, unit) act" where
  "store_contact srv t rid r =
     andthen (on_status clear_status)
       (try_catch (andthen (call (cs_done srv) (store_call rid r)) (on_status (say (translate t ''state.saved'' []))))
          (\<lambda>e. on_status (fail_with (errorMessage t e))))"

definition drop_call :: "string \<Rightarrow> contact_row \<Rightarrow> http_call" where
  "drop_call rid r = Call ''DELETE'' (contacts_path rid @ ''/'' @ co_id (cr_contact r)) None"

definition drop_contact ::
  "contacts_server \<Rightarrow> translator \<Rightarrow> reference_data \<Rightarrow> string \<Rightarrow> contact_row \<Rightarrow> (contacts_state, unit) act" where
  "drop_contact srv t ref rid r =
     andthen (runAction t False
       (andthen (call (cs_done srv) (drop_call rid r))
          (modify (\<lambda>l. render_contacts t ref
             (l\<lparr>cn_contacts := filter (\<lambda>c. co_id c \<noteq> co_id (cr_contact r)) (cn_contacts l)\<rparr>))))) (ret ())"

definition new_contact_call :: "string \<Rightarrow> contacts_state \<Rightarrow> http_call" where
  "new_contact_call rid l =
     Call ''POST'' (contacts_path rid)
       (Some (contact_body (cn_new_type l) (js_trim (cn_new_value l)) (js_trim (cn_new_label l))
          ((case last_of (cn_contacts l) of None \<Rightarrow> 0 | Some c \<Rightarrow> co_sort_order c) + 10)))"

definition create_contact :: "contacts_server \<Rightarrow> translator \<Rightarrow> reference_data \<Rightarrow> string \<Rightarrow> (contacts_state, unit) act" where
  "create_contact srv t ref rid =
     andthen (on_status clear_status)
       (bind (gets (\<lambda>l. js_trim (cn_new_value l) = []))
          (\<lambda>missing. if missing then ret ()
             else andthen (runAction t False
               (bind (gets (new_contact_call rid)) (\<lambda>c. bind (call (cs_created srv) c)
                  (\<lambda>created. modify (\<lambda>l. render_contacts t ref (l\<lparr>cn_contacts := cn_contacts l @ [created]\<rparr>)))))) (ret ())))"

datatype contacts_event =
    TypeChosen nat string | ValueTyped nat string | LabelTyped nat string | StoreContact nat | DropContact nat
  | NewTypeChosen string | NewValueTyped string | NewLabelTyped string | CreateContact

definition change_contact_row :: "nat \<Rightarrow> (contact_row \<Rightarrow> contact_row) \<Rightarrow> contacts_state \<Rightarrow> contacts_state" where
  "change_contact_row n f l = (case at (cn_rows l) n of None \<Rightarrow> l | Some r \<Rightarrow> l\<lparr>cn_rows := (cn_rows l)[n := f r]\<rparr>)"

text \<open>A row is known by its place in the list; a disabled button does nothing.\<close>

fun contacts_do ::
  "contacts_server \<Rightarrow> translator \<Rightarrow> reference_data \<Rightarrow> string \<Rightarrow> contacts_event \<Rightarrow> (contacts_state, unit) act" where
  "contacts_do srv t ref rid (TypeChosen n v) = modify (change_contact_row n (\<lambda>r. refresh_open t ref (r\<lparr>cr_type := v\<rparr>)))"
| "contacts_do srv t ref rid (ValueTyped n v) = modify (change_contact_row n (\<lambda>r. refresh_open t ref (r\<lparr>cr_value := v\<rparr>)))"
| "contacts_do srv t ref rid (LabelTyped n v) = modify (change_contact_row n (\<lambda>r. r\<lparr>cr_label := v\<rparr>))"
| "contacts_do srv t ref rid (StoreContact n) =
     bind (gets (\<lambda>l. at (cn_rows l) n)) (\<lambda>row. case row of None \<Rightarrow> ret () | Some r \<Rightarrow> store_contact srv t rid r)"
| "contacts_do srv t ref rid (DropContact n) =
     bind (gets (\<lambda>l. at (cn_rows l) n))
       (\<lambda>row. case row of None \<Rightarrow> ret () | Some r \<Rightarrow> if cr_last r then ret () else drop_contact srv t ref rid r)"
| "contacts_do srv t ref rid (NewTypeChosen v) = modify (\<lambda>l. l\<lparr>cn_new_type := v\<rparr>)"
| "contacts_do srv t ref rid (NewValueTyped v) = modify (\<lambda>l. l\<lparr>cn_new_value := v\<rparr>)"
| "contacts_do srv t ref rid (NewLabelTyped v) = modify (\<lambda>l. l\<lparr>cn_new_label := v\<rparr>)"
| "contacts_do srv t ref rid CreateContact = create_contact srv t ref rid"

definition contacts_step ::
  "contacts_server \<Rightarrow> translator \<Rightarrow> reference_data \<Rightarrow> string \<Rightarrow> contacts_event \<Rightarrow> contacts_state world \<Rightarrow> contacts_state world" where
  "contacts_step srv t ref rid e w = snd (contacts_do srv t ref rid e w)"

section \<open>The section as it is drawn\<close>

datatype contacts_action = SaveContact nat | RemoveContact nat | AddContact | OpenFollows nat

definition contact_button :: "contact_link option \<Rightarrow> contacts_action node" where
  "contact_button link =
     (case link of
        None \<Rightarrow> el ''span'' [(''class'', AStr ''contact-open contact-open-empty'')] []
      | Some k \<Rightarrow> el ''span'' [(''class'', AStr ''contact-open'')]
          [CNode (el ''a'' ([(''class'', AStr ''button button-icon''), (''href'', AStr (ck_href k)),
              (''aria-label'', AStr (ck_label k)), (''title'', AStr (ck_label k))]
             @ (if ck_external k then [(''target'', AStr ''_blank''), (''rel'', AStr ''noreferrer'')] else []))
             [CNode (icon (ck_icon k) None)])])"

definition contact_row_element :: "translator \<Rightarrow> reference_data \<Rightarrow> nat \<Rightarrow> contact_row \<Rightarrow> nat \<Rightarrow> contacts_action node \<times> nat" where
  "contact_row_element t ref n r seq =
     (let (f1, n1) = field (translate t ''restaurant.contact.type'' [])
            (add_listener ''change'' (OpenFollows n) (contactTypeSelect t ref (Some (cr_type r)))) None None None seq;
          (f2, n2) = field (translate t ''restaurant.contact.value'' [])
            (add_listener ''input'' (OpenFollows n) (input (no_input\<lparr>in_value := Some (cr_value r), in_required := True\<rparr>))) None None None n1;
          (f3, n3) = field (translate t ''restaurant.contact.label'' []) (input (no_input\<lparr>in_value := Some (cr_label r)\<rparr>))
            None None (Some (translate t ''auth.optional'' [])) n2;
          save = button ((plain_button (translate t ''action.save'' []))\<lparr>bt_variant := Primary, bt_onclick := Some (SaveContact n)\<rparr>);
          remove = button ((plain_button (translate t ''action.remove'' []))\<lparr>bt_variant := Danger, bt_disabled := cr_last r,
            bt_title := (if cr_last r then Some (translate t ''restaurant.contact.last'' []) else None),
            bt_onclick := Some (RemoveContact n)\<rparr>)
      in (el ''div'' [(''class'', AStr ''row contact-row'')]
            [CNode f1, CNode f2, CNode (contact_button (cr_open r)), CNode f3, CNode (actions [CNode save, CNode remove])], n3))"

definition new_contact_row :: "translator \<Rightarrow> reference_data \<Rightarrow> contacts_state \<Rightarrow> nat \<Rightarrow> contacts_action node \<times> nat" where
  "new_contact_row t ref l seq =
     (let (f1, n1) = field (translate t ''restaurant.contact.type'' []) (contactTypeSelect t ref (Some (cn_new_type l))) None None None seq;
          (f2, n2) = field (translate t ''restaurant.contact.value'' []) (input (no_input\<lparr>in_value := Some (cn_new_value l)\<rparr>)) None None None n1;
          (f3, n3) = field (translate t ''restaurant.contact.label'' []) (input (no_input\<lparr>in_value := Some (cn_new_label l)\<rparr>))
            None None (Some (translate t ''auth.optional'' [])) n2;
          add = button ((plain_button (translate t ''restaurant.contact.add'' []))\<lparr>bt_variant := Primary, bt_onclick := Some AddContact\<rparr>)
      in (el ''div'' [(''class'', AStr ''row row-new contact-row'')]
            [CNode f1, CNode f2,
             CNode (el ''span'' [(''class'', AStr ''contact-open contact-open-empty''), (''aria-hidden'', AStr ''true'')] []),
             CNode f3, CNode (actions [CNode add])], n3))"

fun contact_rows :: "translator \<Rightarrow> reference_data \<Rightarrow> nat \<Rightarrow> contact_row list \<Rightarrow> nat \<Rightarrow> contacts_action child list \<times> nat" where
  "contact_rows t ref n [] seq = ([], seq)"
| "contact_rows t ref n (r # rs) seq =
     (let (x, m) = contact_row_element t ref n r seq; (xs, k) = contact_rows t ref (Suc n) rs m in (CNode x # xs, k))"

definition contactsSection :: "translator \<Rightarrow> reference_data \<Rightarrow> contacts_state \<Rightarrow> nat \<Rightarrow> contacts_action node" where
  "contactsSection t ref l seq =
     (let (rows, n) = contact_rows t ref 0 (cn_rows l) seq
      in card [CNode (append (el ''div'' [(''class'', AStr ''rows'')] []) (rows @ [CNode (fst (new_contact_row t ref l n))])),
               CNode (status_element (ui_status l))])"

section \<open>Rows and contacts\<close>

definition row_good :: "translator \<Rightarrow> reference_data \<Rightarrow> nat \<Rightarrow> contact_row \<Rightarrow> bool" where
  "row_good t ref n r \<longleftrightarrow> cr_last r = (n < 2) \<and> cr_open r = contact_open t ref (cr_type r) (cr_value r)"

definition contacts_good :: "translator \<Rightarrow> reference_data \<Rightarrow> contacts_state \<Rightarrow> bool" where
  "contacts_good t ref l \<longleftrightarrow>
     map cr_contact (cn_rows l) = cn_contacts l \<and> list_all (row_good t ref (length (cn_contacts l))) (cn_rows l)"

lemma render_good: "contacts_good t ref (render_contacts t ref l)"
  by (simp add: contacts_good_def render_contacts_def contact_row_of_def refresh_open_def row_good_def comp_def list_all_iff)

lemma contacts_good_aside [simp]:
  "contacts_good t ref (l\<lparr>ui_status := s\<rparr>) = contacts_good t ref l" "contacts_good t ref (l\<lparr>cn_new_type := v\<rparr>) = contacts_good t ref l"
  "contacts_good t ref (l\<lparr>cn_new_value := v\<rparr>) = contacts_good t ref l" "contacts_good t ref (l\<lparr>cn_new_label := v\<rparr>) = contacts_good t ref l"
  by (simp_all add: contacts_good_def)

lemma change_contact_row_good:
  assumes "contacts_good t ref l" and "\<And>r. cr_contact (f r) = cr_contact r"
    and "\<And>r k. row_good t ref k r \<Longrightarrow> row_good t ref k (f r)"
  shows "contacts_good t ref (change_contact_row n f l)"
proof (cases "n < length (cn_rows l)")
  case True
  have same: "map cr_contact (cn_rows l) = cn_contacts l" using assms(1) by (simp add: contacts_good_def)
  have "(map cr_contact (cn_rows l))[n := cr_contact (cn_rows l ! n)] = cn_contacts l"
    using True list_update_id [of "map cr_contact (cn_rows l)" n] by (simp add: same [symmetric])
  moreover have "row_good t ref (length (cn_contacts l)) (f (cn_rows l ! n))"
    using True assms(1,3) by (simp add: contacts_good_def list_all_length)
  ultimately have "(map cr_contact (cn_rows l))[n := cr_contact (cn_rows l ! n)] = cn_contacts l"
    "row_good t ref (length (cn_contacts l)) (f (cn_rows l ! n))" by simp_all
  with True assms(1) assms(2) [of "cn_rows l ! n"] show ?thesis
    by (auto simp: change_contact_row_def at_def contacts_good_def map_update list_all_iff dest!: set_update_subset_insert [THEN subsetD])
qed (use assms(1) in \<open>simp add: change_contact_row_def at_def\<close>)

lemma store_contact_run:
  "store_contact srv t rid r w =
     (Inr (), w\<lparr>trace := trace w @ [Sent (store_call rid r)],
        local := (local w)\<lparr>ui_status := (case cs_done srv (trace w) (store_call rid r) of
           Inl e \<Rightarrow> \<lparr>st_text = errorMessage t e, st_error = True\<rparr>
         | Inr _ \<Rightarrow> \<lparr>st_text = translate t ''state.saved'' [], st_error = False\<rparr>)\<rparr>\<rparr>)"
proof -
  obtain tr l where w: "w = \<lparr>trace = tr, local = l\<rparr>" by (cases w) auto
  show ?thesis
    by (cases "cs_done srv tr (store_call rid r)") (simp_all add: w store_contact_def on_status_def act_simps fail_with_def say_def)
qed

lemma drop_contact_good:
  assumes "contacts_good t ref (local w)"
  shows "contacts_good t ref (local (snd (drop_contact srv t ref rid r w)))"
  using assms
  by (cases "cs_done srv (trace w) (drop_call rid r)")
    (simp_all add: drop_contact_def act_simps runAction_run action_start_def released_def Let_def render_good)

lemma create_contact_good:
  assumes "contacts_good t ref (local w)"
  shows "contacts_good t ref (local (snd (create_contact srv t ref rid w)))"
  using assms
  by (auto simp: create_contact_def on_status_def act_simps runAction_run action_start_def released_def Let_def render_good
      split: prod.split sum.split)

interpretation contacts: event_machine "contacts_step srv t ref rid" "\<lambda>w. contacts_good t ref (local w)"
proof
  fix w :: "contacts_state world" and e
  assume g: "contacts_good t ref (local w)"
  show "contacts_good t ref (local (contacts_step srv t ref rid e w))"
  proof (cases e)
    case (StoreContact n)
    with g show ?thesis
      by (cases "n < length (cn_rows (local w))") (simp_all add: contacts_step_def act_simps store_contact_run at_def)
  next
    case (DropContact n)
    with g show ?thesis
      by (cases "n < length (cn_rows (local w))") (simp_all add: contacts_step_def act_simps drop_contact_good at_def)
  next
    case CreateContact
    with g show ?thesis by (simp add: contacts_step_def create_contact_good)
  qed (use g in \<open>auto simp: contacts_step_def act_simps refresh_open_def row_good_def intro!: change_contact_row_good\<close>)
qed

text \<open>
  The rows of the contacts agree with the contacts, whatever is typed, saved, added and removed:
  there is one for each, in order; the button behind a value opens what is chosen and typed at that
  moment; and the last contact cannot be removed from the page - while there are fewer than two,
  every remove button is disabled and pressing one does nothing. Saving a row sends what it shows.
\<close>

theorem contact_rows_agree:
  "(let w = fold (contacts_step srv t ref rid) es \<lparr>trace = done, local = new_contacts t ref cs\<rparr>; l = local w
    in map cr_contact (cn_rows l) = cn_contacts l
       \<and> list_all (\<lambda>r. cr_last r = (length (cn_contacts l) < 2) \<and> cr_open r = contact_open t ref (cr_type r) (cr_value r)) (cn_rows l)
       \<and> (if length (cn_contacts l) < 2 then contacts_step srv t ref rid (DropContact n) w = w else True)
       \<and> trace (contacts_step srv t ref rid (StoreContact n) w)
           = trace w @ (case at (cn_rows l) n of None \<Rightarrow> [] | Some r \<Rightarrow> [Sent (store_call rid r)]))"
proof -
  let ?start = "\<lparr>trace = done, local = new_contacts t ref cs\<rparr>"
  have "contacts_good t ref (local ?start)" by (simp add: new_contacts_def render_good)
  then have "contacts_good t ref (local (fold (contacts_step srv t ref rid) es ?start))" by (rule contacts.good_run)
  moreover obtain w where w: "fold (contacts_step srv t ref rid) es ?start = w" by simp
  ultimately have g: "contacts_good t ref (local w)" by simp
  then have last: "length (cn_contacts (local w)) < 2 \<Longrightarrow> at (cn_rows (local w)) n = Some r \<Longrightarrow> cr_last r" for r
    by (auto simp: contacts_good_def row_good_def list_all_length at_def split: if_splits)
  show ?thesis
    unfolding w Let_def using g last
    by (cases "n < length (cn_rows (local w))")
      (auto simp: contacts_good_def row_good_def [abs_def] contacts_step_def act_simps store_contact_run at_def)
qed

text \<open>
  Drawing the list anew shows the contacts as they were read: what another row has saved in the
  meantime is not in them, so after a new contact the saved row shows its old value again.
\<close>

lemma stored_contact_forgotten:
  assumes "cs_created srv (trace w) (new_contact_call rid (local w)) = Inr c" and "js_trim (cn_new_value (local w)) \<noteq> []"
    and "n < length (cn_contacts (local w))"
  shows "cn_contacts (local (contacts_step srv t ref rid (StoreContact n) w)) = cn_contacts (local w)
    \<and> cr_value (cn_rows (local (contacts_step srv t ref rid CreateContact w)) ! n) = contact_value (cn_contacts (local w) ! n)"
proof
  show "cn_contacts (local (contacts_step srv t ref rid (StoreContact n) w)) = cn_contacts (local w)"
    by (cases "n < length (cn_rows (local w))") (simp_all add: contacts_step_def act_simps store_contact_run at_def)
  have c: "new_contact_call rid (l\<lparr>ui_status := s\<rparr>) = new_contact_call rid l" for l s by (simp add: new_contact_call_def)
  show "cr_value (cn_rows (local (contacts_step srv t ref rid CreateContact w)) ! n) = contact_value (cn_contacts (local w) ! n)"
    using assms
    by (simp add: contacts_step_def create_contact_def on_status_def act_simps runAction_run action_start_def released_def Let_def c
        render_contacts_def contact_row_of_def refresh_open_def nth_append)
qed

end
