(* ===== verification/Availability.thy ===== *)
theory Availability
  imports OrderDetails
begin

text \<open>
  When food can be had (\<open>src/pages/availability.ts\<close>): the rules of a restaurant with the dialog that
  defines one, and the dialog that attaches them to a category or a dish. The describing, the boxes
  and the requests of the attachments are those of \<open>src/components/availability.ts\<close>.
\<close>

section \<open>The rules of a restaurant\<close>

definition WEEKDAYS :: "nat list" where
  "WEEKDAYS = [1, 2, 3, 4, 5, 6, 7]"

text \<open>\<open>av_filters\<close> is what the list shows; nothing before the rules have been read.\<close>

record availability_state = ui +
  av_filters :: "availability_filter list option"

record availability_server =
  vs_rules :: "availability_filter list server"
  vs_done :: "unit server"

definition new_availability :: availability_state where
  "new_availability = \<lparr>ui_status = statusLine, ui_busy = False, av_filters = None\<rparr>"

definition filters_path :: "string \<Rightarrow> string" where
  "filters_path restaurantID = ''/restaurants/'' @ restaurantID @ ''/availability''"

definition reload_filters :: "availability_server \<Rightarrow> string \<Rightarrow> (availability_state, unit) act" where
  "reload_filters srv restaurantID =
     bind (loadFilters (vs_rules srv) restaurantID) (\<lambda>fs. modify (\<lambda>l. l\<lparr>av_filters := Some fs\<rparr>))"

definition filter_removal :: "translator \<Rightarrow> availability_filter \<Rightarrow> confirm_texts" where
  "filter_removal t f =
     confirm_with t (translate t ''availability.delete_title'' [])
       (translate t ''availability.delete_warning'' [(''name'', PStr (af_name f))]) [] (translate t ''action.delete'' [])"

definition remove_filter ::
  "availability_server \<Rightarrow> (effect list \<Rightarrow> string \<Rightarrow> bool) \<Rightarrow> translator \<Rightarrow> string \<Rightarrow> availability_filter
   \<Rightarrow> (availability_state, unit) act" where
  "remove_filter srv person t restaurantID f =
     bind (confirmed person (filter_removal t f))
       (\<lambda>agreed. if \<not> agreed then ret ()
          else andthen (runAction t False
            (andthen (call (vs_done srv) (Call ''DELETE'' (filters_path restaurantID @ ''/'' @ af_id f) None))
               (reload_filters srv restaurantID))) (ret ()))"

section \<open>The dialog of a rule\<close>

record filter_editor = dialog +
  fe_name :: string
  fe_on_date :: string
  fe_start :: string
  fe_end :: string
  fe_days :: "(nat \<times> bool) list"

definition of_filter :: "availability_filter option \<Rightarrow> (availability_filter \<Rightarrow> string option) \<Rightarrow> string" where
  "of_filter existing f = (case existing of None \<Rightarrow> [] | Some x \<Rightarrow> (case f x of None \<Rightarrow> [] | Some v \<Rightarrow> v))"

definition new_filter_editor :: "availability_filter option \<Rightarrow> filter_editor" where
  "new_filter_editor existing =
     \<lparr>ui_status = statusLine, ui_busy = False, dl_open = True, dl_keep = False,
      fe_name = of_filter existing (\<lambda>x. Some (af_name x)), fe_on_date = of_filter existing af_on_date,
      fe_start = of_filter existing af_start_time, fe_end = of_filter existing af_end_time,
      fe_days = map (\<lambda>d. (d, case existing of None \<Rightarrow> False | Some x \<Rightarrow> d \<in> set (af_weekdays x))) WEEKDAYS\<rparr>"

definition null_if_empty :: "string \<Rightarrow> json" where
  "null_if_empty v = (if v = [] then JNull else JStr v)"

definition filter_payload :: "'x filter_editor_scheme \<Rightarrow> json" where
  "filter_payload e =
     JObj [(''name'', JStr (js_trim (fe_name e))), (''on_date'', null_if_empty (fe_on_date e)),
           (''weekdays'', JArr (map (\<lambda>(d, b). JNum (int d)) (filter snd (fe_days e)))),
           (''start_time'', null_if_empty (fe_start e)), (''end_time'', null_if_empty (fe_end e))]"

definition filter_call :: "string \<Rightarrow> availability_filter option \<Rightarrow> 'x filter_editor_scheme \<Rightarrow> http_call" where
  "filter_call restaurantID existing e =
     (case existing of
        Some x \<Rightarrow> Call ''PATCH'' (filters_path restaurantID @ ''/'' @ af_id x) (Some (filter_payload e))
      | None \<Rightarrow> Call ''POST'' (filters_path restaurantID) (Some (filter_payload e)))"

definition save_filter ::
  "availability_server \<Rightarrow> translator \<Rightarrow> string \<Rightarrow> availability_filter option \<Rightarrow> filter_editor
   \<Rightarrow> (availability_state, filter_editor) act" where
  "save_filter srv t restaurantID existing =
     submit_on_page t
       (bind (gets (filter_call restaurantID existing)) (\<lambda>c. andthen (call (vs_done srv) c) (ret True)))
       (reload_filters srv restaurantID)"

section \<open>The dialog that attaches rules\<close>

text \<open>
  \<open>ad_filters\<close> are the rules that have arrived, \<open>ad_ticked\<close> says which of their boxes are ticked. The
  submit button is held still until they are there.
\<close>

record attach_dialog = dialog +
  ad_filters :: "availability_filter list option"
  ad_ticked :: "nat \<Rightarrow> bool"

record attach_options =
  ao_restaurant :: string
  ao_kind :: string
  ao_element :: string
  ao_title :: string
  ao_attached :: "availability_filter list"

definition new_attach_dialog :: attach_dialog where
  "new_attach_dialog =
     \<lparr>ui_status = statusLine, ui_busy = True, dl_open = True, dl_keep = False, ad_filters = None, ad_ticked = (\<lambda>_. False)\<rparr>"

definition rules_arrive :: "attach_options \<Rightarrow> availability_filter list \<Rightarrow> attach_dialog \<Rightarrow> attach_dialog" where
  "rules_arrive opts fs d =
     d\<lparr>ad_filters := Some fs, ad_ticked := (\<lambda>b. af_id (fs ! b) \<in> set (map af_id (ao_attached opts))), ui_busy := False\<rparr>"

definition tick_rule :: "nat \<Rightarrow> bool \<Rightarrow> attach_dialog \<Rightarrow> attach_dialog" where
  "tick_rule n b d = d\<lparr>ad_ticked := (ad_ticked d)(n := b)\<rparr>"

definition read_rules :: "'x attach_dialog_scheme \<Rightarrow> string list" where
  "read_rules d = (case ad_filters d of None \<Rightarrow> [] | Some fs \<Rightarrow> picked fs (ad_ticked d))"

definition openAttachmentEditor ::
  "availability_filter list server \<Rightarrow> attach_options \<Rightarrow> ('l, attach_dialog) act" where
  "openAttachmentEditor srv opts =
     bind (loadFilters srv (ao_restaurant opts)) (\<lambda>fs. ret (rules_arrive opts fs new_attach_dialog))"

definition save_attached ::
  "unit server \<Rightarrow> translator \<Rightarrow> attach_options \<Rightarrow> ('l, unit) act \<Rightarrow> attach_dialog \<Rightarrow> ('l, attach_dialog) act" where
  "save_attached srv t opts onSaved =
     submit_on_page t
       (bind (gets read_rules)
          (\<lambda>ids. andthen (saveAttachments srv (ao_restaurant opts) (ao_kind opts) (ao_element opts) ids) (ret True)))
       onSaved"

text \<open>A button that is held still does nothing, and neither does Enter in its form.\<close>

definition press_save_attached ::
  "unit server \<Rightarrow> translator \<Rightarrow> attach_options \<Rightarrow> ('l, unit) act \<Rightarrow> attach_dialog \<Rightarrow> ('l, attach_dialog) act" where
  "press_save_attached srv t opts onSaved d = (if ui_busy d then ret d else save_attached srv t opts onSaved d)"

section \<open>As they are drawn\<close>

datatype availability_action = NewRule | EditRule availability_filter | DeleteRule availability_filter

definition rule_row :: "app \<Rightarrow> availability_filter \<Rightarrow> availability_action node" where
  "rule_row a f =
     (let t = app_t a; named = (\<lambda>k. Some (translate t k [] @ '': '' @ af_name f));
          edit = button ((plain_button (translate t ''action.edit'' []))
            \<lparr>bt_variant := Quiet, bt_aria := named ''action.edit'', bt_onclick := Some (EditRule f)\<rparr>);
          delete = button ((plain_button (translate t ''action.delete'' []))
            \<lparr>bt_variant := Danger, bt_aria := named ''action.delete'', bt_onclick := Some (DeleteRule f)\<rparr>)
      in el ''div'' [(''class'', AStr ''availability-row'')]
        [CNode (el ''div'' [(''class'', AStr ''availability-text'')]
           [CNode (el ''strong'' [(''text'', AStr (af_name f))] []),
            CNode (el ''span'' [(''class'', AStr ''muted''), (''text'', AStr (describeFilter a f))] [])]),
         CNode (el ''div'' [(''class'', AStr ''row'')]
           (CNode edit # (if isAdmin (app_session a) then [CNode delete] else [])))])"

definition rule_list :: "app \<Rightarrow> availability_filter list option \<Rightarrow> availability_action child list" where
  "rule_list a rules =
     (case rules of
        None \<Rightarrow> []
      | Some fs \<Rightarrow> if fs = [] then [CNode (el ''p'' [(''class'', AStr ''muted''), (''text'', AStr (say_t a ''availability.none''))] [])]
                   else map (\<lambda>f. CNode (rule_row a f)) fs)"

definition availabilitySection :: "app \<Rightarrow> availability_state \<Rightarrow> availability_action node" where
  "availabilitySection a l =
     el ''div'' [(''class'', AStr ''stack'')]
       [CNode (el ''p'' [(''class'', AStr ''field-hint''), (''text'', AStr (say_t a ''availability.explain''))] []),
        CNode (append (el ''div'' [(''class'', AStr ''rows'')] []) (rule_list a (av_filters l))),
        CNode (el ''div'' [(''class'', AStr ''row'')]
          [CNode (button ((plain_button (say_t a ''availability.new''))\<lparr>bt_onclick := Some NewRule\<rparr>))]),
        CNode (status_element (ui_status l))]"

definition day_box :: "app \<Rightarrow> nat \<times> bool \<Rightarrow> 'a node" where
  "day_box a db =
     el ''label'' [(''class'', AStr ''checkbox-row'')]
       [CNode (el ''input'' [(''type'', AStr ''checkbox''), (''class'', AStr ''checkbox''), (''checked'', ABool (snd db))] []),
        CNode (el ''span'' [(''text'', AStr (formatWeekday (app_intl a) (language a) (fst db)))] [])]"

definition filter_title :: "translator \<Rightarrow> availability_filter option \<Rightarrow> string" where
  "filter_title t existing = translate t (if existing \<noteq> None then ''availability.edit_title'' else ''availability.new'') []"

definition filter_fields :: "app \<Rightarrow> 'x filter_editor_scheme \<Rightarrow> nat \<Rightarrow> 'a child list \<times> nat" where
  "filter_fields a e seq =
     (let t = app_t a; optional = Some (translate t ''auth.optional'' []);
          timed = (\<lambda>v. input (no_input\<lparr>in_type := Some ''time'', in_value := Some v\<rparr>));
          (f1, n1) = field (translate t ''availability.name'' [])
            (input (no_input\<lparr>in_value := Some (fe_name e), in_required := True\<rparr>)) None None None seq;
          (f2, n2) = field (translate t ''availability.on_date'' [])
            (input (no_input\<lparr>in_type := Some ''date'', in_value := Some (fe_on_date e)\<rparr>)) None None optional n1;
          (f3, n3) = field (translate t ''availability.from'' []) (timed (fe_start e)) None None optional n2;
          (f4, n4) = field (translate t ''availability.until'' []) (timed (fe_end e)) None None optional n3
      in ([CNode f1, CNode (dialogHint (translate t ''availability.name_hint'' [])), CNode f2,
           CNode (el ''fieldset'' [(''class'', AStr ''fieldset'')]
             [CNode (el ''legend'' [(''text'', AStr (translate t ''availability.weekdays'' []))] []),
              CNode (append (el ''div'' [(''class'', AStr ''weekday-row'')] []) (map (\<lambda>db. CNode (day_box a db)) (fe_days e)))]),
           CNode (el ''div'' [(''class'', AStr ''row'')] [CNode f3, CNode f4]),
           CNode (dialogHint (translate t ''availability.time_hint'' []))], n4))"

definition attach_title :: "translator \<Rightarrow> attach_options \<Rightarrow> string" where
  "attach_title t opts = translate t ''availability.attached'' [] @ '': '' @ ao_title opts"

definition attach_holder :: "app \<Rightarrow> attach_options \<Rightarrow> 'x attach_dialog_scheme \<Rightarrow> 'a node" where
  "attach_holder a opts d =
     el ''div'' [(''class'', AStr ''stack'')]
       [CNode (case ad_filters d of
          None \<Rightarrow> el ''p'' [(''class'', AStr ''muted''), (''text'', AStr (say_t a ''app.loading''))] []
        | Some fs \<Rightarrow> filterPicker a fs (map af_id (ao_attached opts)))]"

section \<open>What the dialogs send\<close>

text \<open>A rule that is opened and saved unchanged is sent as it is.\<close>

lemma rule_sent_as_it_is:
  assumes "js_trim (af_name f) = af_name f" and "sorted_wrt (<) (af_weekdays f)"
    and "set (af_weekdays f) \<subseteq> set WEEKDAYS"
    and "af_on_date f \<noteq> Some []" and "af_start_time f \<noteq> Some []" and "af_end_time f \<noteq> Some []"
  shows "filter_payload (new_filter_editor (Some f)) =
    JObj [(''name'', JStr (af_name f)), (''on_date'', json_opt (af_on_date f)),
          (''weekdays'', JArr (map (\<lambda>d. JNum (int d)) (af_weekdays f))),
          (''start_time'', json_opt (af_start_time f)), (''end_time'', json_opt (af_end_time f))]"
proof -
  have "filter (\<lambda>d. d \<in> set (af_weekdays f)) WEEKDAYS = af_weekdays f"
  proof (rule strict_sorted_equal)
    have "sorted_wrt (<) WEEKDAYS" by (simp add: WEEKDAYS_def)
    then show "sorted_wrt (<) (filter (\<lambda>d. d \<in> set (af_weekdays f)) WEEKDAYS)" by (rule sorted_wrt_filter)
  qed (use assms(2,3) in auto)
  then have days: "map (\<lambda>(d, b). JNum (int d)) (filter snd (map (\<lambda>d. (d, d \<in> set (af_weekdays f))) WEEKDAYS))
      = map (\<lambda>d. JNum (int d)) (af_weekdays f)"
    by (simp add: filter_map comp_def)
  have opt: "v \<noteq> Some [] \<Longrightarrow> null_if_empty (case v of None \<Rightarrow> [] | Some x \<Rightarrow> x) = json_opt v" for v
    by (cases v) (simp_all add: null_if_empty_def json_opt_def)
  show ?thesis
    using assms days by (simp add: filter_payload_def new_filter_editor_def of_filter_def opt)
qed

lemma load_filters_run:
  "loadFilters srv rid w =
     (let c = Call ''GET'' (filters_path rid) None
      in (Inr (case srv (trace w) c of Inl _ \<Rightarrow> [] | Inr fs \<Rightarrow> fs), w\<lparr>trace := trace w @ [Sent c]\<rparr>))"
  by (cases "srv (trace w) (Call ''GET'' (filters_path rid) None)")
    (simp_all add: loadFilters_def filters_path_def act_simps Let_def)

definition attached_call :: "attach_options \<Rightarrow> string list \<Rightarrow> http_call" where
  "attached_call opts ids =
     Call ''PUT'' (''/restaurants/'' @ ao_restaurant opts @ ''/'' @ ao_kind opts @ ''/'' @ ao_element opts @ ''/availability'')
       (Some (JObj [(''filter_ids'', JArr (map JStr ids))]))"

lemma save_attached_run:
  fixes w :: "'l world"
  assumes "dl_open d"
  shows "save_attached srv t opts onSaved d w =
    (let c = attached_call opts (read_rules d)
     in case srv (trace w) c of
          Inl e \<Rightarrow> (Inr (d\<lparr>ui_status := \<lparr>st_text = errorMessage t e, st_error = True\<rparr>, ui_busy := False, dl_keep := False\<rparr>),
                    w\<lparr>trace := trace w @ [Sent c]\<rparr>)
        | Inr _ \<Rightarrow> andthen onSaved (ret (d\<lparr>ui_status := \<lparr>st_text = [], st_error = False\<rparr>, ui_busy := False, dl_keep := False, dl_open := False\<rparr>))
                    (w\<lparr>trace := trace w @ [Sent c]\<rparr>))"
proof -
  have read: "read_rules (x\<lparr>ui_busy := b\<rparr>) = read_rules x" "read_rules (x\<lparr>dl_keep := b\<rparr>) = read_rules x"
    "read_rules (x\<lparr>ui_status := s\<rparr>) = read_rules x" for x :: attach_dialog and b s
    by (simp_all add: read_rules_def split: option.split)
  show ?thesis
    using assms
    by (cases "srv (trace w) (attached_call opts (read_rules d))")
      (simp_all add: save_attached_def saveAttachments_def attached_call_def submit_on_page_def send_def act_simps runAction_run
        action_start_def released_def Let_def read fail_with_def clear_status_def split: prod.split sum.split)
qed

text \<open>
  C22: attaching rules changes nothing by itself: before the rules of the restaurant have arrived
  Save sends nothing, and once they have, opening the dialog and pressing Save sends exactly the
  rules that were attached and still exist, each once and in the order of the list. But rules that
  cannot be read count as none: saving then detaches every one of them.
\<close>

theorem attachments_kept:
  assumes "vs_rules srv (trace w) (Call ''GET'' (filters_path (ao_restaurant opts)) None) = answer"
    and "case answer of Inl _ \<Rightarrow> True | Inr fs \<Rightarrow> distinct (map af_id fs)"
  shows "(case openAttachmentEditor (vs_rules srv) opts w of
      (Inl e, v) \<Rightarrow> False
    | (Inr d, v) \<Rightarrow>
        trace v = trace w @ [Sent (Call ''GET'' (filters_path (ao_restaurant opts)) None)] \<and> \<not> ui_busy d
        \<and> (case answer of
             Inr fs \<Rightarrow> read_rules d = filter (\<lambda>x. x \<in> set (map af_id (ao_attached opts))) (map af_id fs)
           | Inl _ \<Rightarrow> read_rules d = [])
        \<and> (case press_save_attached (vs_done srv) t opts (ret ()) d v of
             (r, u) \<Rightarrow> trace u = trace v @ [Sent (attached_call opts (read_rules d))]))
    \<and> press_save_attached (vs_done srv) t opts after new_attach_dialog w = (Inr new_attach_dialog, w)"
proof -
  let ?c = "Call ''GET'' (filters_path (ao_restaurant opts)) None"
  let ?fs = "case answer of Inl _ \<Rightarrow> [] | Inr fs \<Rightarrow> fs"
  let ?d = "rules_arrive opts ?fs new_attach_dialog" and ?v = "w\<lparr>trace := trace w @ [Sent ?c]\<rparr>"
  have run: "openAttachmentEditor (vs_rules srv) opts w = (Inr ?d, ?v)"
    using assms(1) by (simp add: openAttachmentEditor_def act_simps load_filters_run Let_def)
  have rules: "case answer of
       Inr fs \<Rightarrow> read_rules ?d = filter (\<lambda>x. x \<in> set (map af_id (ao_attached opts))) (map af_id fs)
     | Inl _ \<Rightarrow> read_rules ?d = []"
    using assms(2) picked_attached [of _ "map af_id (ao_attached opts)"]
    by (auto simp: read_rules_def rules_arrive_def picked_def split: sum.split)
  have still: "dl_open ?d" "\<not> ui_busy ?d" by (simp_all add: rules_arrive_def new_attach_dialog_def)
  have sent: "trace (snd (press_save_attached (vs_done srv) t opts (ret ()) ?d ?v)) = trace ?v @ [Sent (attached_call opts (read_rules ?d))]"
    using still by (cases "vs_done srv (trace ?v) (attached_call opts (read_rules ?d))")
      (simp_all add: press_save_attached_def save_attached_run act_simps Let_def)
  have held: "press_save_attached (vs_done srv) t opts after new_attach_dialog w = (Inr new_attach_dialog, w)"
    by (simp add: press_save_attached_def new_attach_dialog_def act_simps)
  show ?thesis
    unfolding run prod.case sum.case using rules still(2) sent held by (simp add: split_beta)
qed

definition sample_attach :: attach_options where
  "sample_attach = \<lparr>ao_restaurant = ''r'', ao_kind = ''categories'', ao_element = ''c'', ao_title = ''Pizza'', ao_attached = []\<rparr>"

theorem attachments_kept_witness:
  "(case openAttachmentEditor (\<lambda>_ _. Inr []) sample_attach (new_world ()) of
      (Inl e, v) \<Rightarrow> False | (Inr d, v) \<Rightarrow> \<not> ui_busy d \<and> read_rules d = [])"
proof -
  let ?srv = "\<lparr>vs_rules = (\<lambda>_ _. Inr []), vs_done = (\<lambda>_ _. Inr ())\<rparr>"
  have "vs_rules ?srv (trace (new_world ())) (Call ''GET'' (filters_path (ao_restaurant sample_attach)) None) = Inr []"
    "case (Inr [] :: js_error + availability_filter list) of Inl _ \<Rightarrow> True | Inr fs \<Rightarrow> distinct (map af_id fs)"
    by simp_all
  from attachments_kept [OF this] show ?thesis by (auto split: prod.splits sum.splits)
qed

section \<open>Who may delete a rule\<close>

lemma rule_row_actions [node_simps]:
  "set (actions_of (rule_row a f)) = {EditRule f} \<union> (if isAdmin (app_session a) then {DeleteRule f} else {})"
  by (auto simp: rule_row_def Let_def node_simps)

lemma rule_list_actions:
  "(\<Union>c \<in> set (rule_list a rules). set (child_actions c)) =
     (case rules of None \<Rightarrow> {} | Some fs \<Rightarrow> (\<Union>f \<in> set fs. {EditRule f} \<union> (if isAdmin (app_session a) then {DeleteRule f} else {})))"
proof (cases rules)
  case (Some fs)
  then show ?thesis by (cases "fs = []") (simp_all add: rule_list_def node_simps)
qed (simp add: rule_list_def)

text \<open>Editing a rule is offered to everybody, deleting one to the administrator, and always the rules of the list.\<close>

lemma availability_offers:
  "set (actions_of (availabilitySection a l)) =
     {NewRule} \<union> (case av_filters l of None \<Rightarrow> {} | Some fs \<Rightarrow>
        (\<Union>f \<in> set fs. {EditRule f} \<union> (if isAdmin (app_session a) then {DeleteRule f} else {})))"
  by (simp add: availabilitySection_def set_actions_append node_simps rule_list_actions insert_commute)

end
