(* ===== verification/Admin.thy ===== *)
theory Admin
  imports Login
begin

text \<open>
  The administration (\<open>src/pages/admin.ts\<close>): the list of users with the dialogs that edit an account,
  give it a new password and delete it, and the two pages of content. What a browser makes of HTML
  that is assigned to an element and read back is an argument; a body that is text is sent as a
  string.
\<close>

section \<open>The list of users\<close>

record admin_user =
  au_id :: string
  au_name :: string
  au_display_name :: string
  au_email :: string
  au_is_admin :: bool
  au_created_at :: string
  au_last_login_at :: "string option"

record users_state = ui +
  us_rows :: "admin_user list"

record users_server =
  uv_list :: "admin_user list server"
  uv_impact :: "deletion_impact server"
  uv_done :: "unit server"

definition new_users_state :: users_state where
  "new_users_state = \<lparr>ui_status = statusLine, ui_busy = False, us_rows = []\<rparr>"

definition users_call :: http_call where
  "users_call = Call ''GET'' ''/users'' None"

definition reload_users :: "users_server \<Rightarrow> translator \<Rightarrow> (users_state, unit) act" where
  "reload_users srv t =
     andthen (runAction t False (bind (call (uv_list srv) users_call) (\<lambda>us. modify (\<lambda>l. l\<lparr>us_rows := us\<rparr>)))) (ret ())"

text \<open>\<open>usersPage\<close>: whether the list is shown at all, and what is in it.\<close>

definition usersPage :: "users_server \<Rightarrow> app \<Rightarrow> (users_state, bool) act" where
  "usersPage srv a =
     (if \<not> isAdmin (app_session a) then ret False else andthen (reload_users srv (app_t a)) (ret True))"

definition user_path_of :: "admin_user \<Rightarrow> string" where
  "user_path_of u = ''/users/'' @ au_id u"

definition shown_name :: "admin_user \<Rightarrow> string" where
  "shown_name u = or_else (au_display_name u) (au_name u)"

section \<open>Editing an account\<close>

record user_editor = dialog +
  ue_name :: string
  ue_display :: string
  ue_email :: string

definition new_user_editor :: "admin_user \<Rightarrow> user_editor" where
  "new_user_editor u =
     \<lparr>ui_status = statusLine, ui_busy = False, dl_open = True, dl_keep = False, ue_name = au_name u,
      ue_display = au_display_name u, ue_email = au_email u\<rparr>"

definition user_patch :: "admin_user \<Rightarrow> 'x user_editor_scheme \<Rightarrow> http_call" where
  "user_patch u e =
     Call ''PATCH'' (user_path_of u) (Some (JObj
       [(''name'', JStr (js_trim (ue_name e))), (''display_name'', JStr (js_trim (ue_display e))),
        (''email'', JStr (js_trim (ue_email e)))]))"

definition save_user :: "users_server \<Rightarrow> translator \<Rightarrow> admin_user \<Rightarrow> user_editor \<Rightarrow> (users_state, user_editor) act" where
  "save_user srv t u =
     submit_on_page t (bind (gets (user_patch u)) (\<lambda>c. andthen (call (uv_done srv) c) (ret True))) (reload_users srv t)"

section \<open>A new password for somebody\<close>

text \<open>\<open>pd_sending\<close>: the button that sends a link is held still on its own.\<close>

record password_dialog = dialog +
  pd_password :: password_field
  pd_sending :: bool

definition reset_options :: "translator \<Rightarrow> password_options" where
  "reset_options t =
     \<lparr>po_label = Some (translate t ''admin.new_password'' []), po_name = Some ''new-password'',
      po_autocomplete = Some ''new-password'', po_indicator = True\<rparr>"

definition new_password_dialog :: "unicode \<Rightarrow> translator \<Rightarrow> password_dialog" where
  "new_password_dialog un t =
     \<lparr>ui_status = statusLine, ui_busy = False, dl_open = True, dl_keep = False,
      pd_password = new_password_field (un_nfc un) (un_printable un) (reset_options t), pd_sending = False\<rparr>"

definition resetPassword :: "unicode \<Rightarrow> translator \<Rightarrow> (users_state, password_dialog) act" where
  "resetPassword un t = andthen (on_status clear_status) (ret (new_password_dialog un t))"

definition reset_link_call :: "admin_user \<Rightarrow> http_call" where
  "reset_link_call u = Call ''POST'' ''/auth/password-reset'' (Some (JObj [(''name'', JStr (au_name u))]))"

definition send_link :: "users_server \<Rightarrow> translator \<Rightarrow> admin_user \<Rightarrow> password_dialog \<Rightarrow> (users_state, password_dialog) act" where
  "send_link srv t u d w =
     (case runAction t False (call (uv_done srv) (reset_link_call u)) \<lparr>trace = trace w, local = d\<lparr>pd_sending := True\<rparr>\<rparr> of
        (r, v) \<Rightarrow>
          (let d' = (local v)\<lparr>pd_sending := False\<rparr>; w' = w\<lparr>trace := trace v\<rparr>
           in if r = Inr True
              then andthen (on_status (say (translate t ''admin.reset_password_sent'' [(''email'', PStr (au_email u))])))
                     (ret (d'\<lparr>dl_open := False\<rparr>)) w'
              else (Inr d', w')))"

text \<open>The button is disabled for an account without an address.\<close>

definition press_send_link :: "users_server \<Rightarrow> translator \<Rightarrow> admin_user \<Rightarrow> password_dialog \<Rightarrow> (users_state, password_dialog) act" where
  "press_send_link srv t u d = (if au_email u = [] \<or> pd_sending d then ret d else send_link srv t u d)"

definition password_patch :: "admin_user \<Rightarrow> 'x password_dialog_scheme \<Rightarrow> http_call" where
  "password_patch u d = Call ''PATCH'' (user_path_of u) (Some (JObj [(''password'', JStr (password_text (pd_password d)))]))"

definition set_password :: "users_server \<Rightarrow> translator \<Rightarrow> admin_user \<Rightarrow> password_dialog \<Rightarrow> (users_state, password_dialog) act" where
  "set_password srv t u =
     submit_on_page t (bind (gets (password_patch u)) (\<lambda>c. andthen (call (uv_done srv) c) (ret True)))
       (on_status (say (translate t ''admin.password_set'' [(''name'', PStr (au_name u))])))"

section \<open>Deleting an account\<close>

definition begin_user_delete ::
  "users_server \<Rightarrow> translator \<Rightarrow> admin_user \<Rightarrow> (users_state, (deletion_impact \<times> delete_dialog) option) act" where
  "begin_user_delete srv t u =
     andthen (on_status clear_status)
       (try_catch
          (bind (call (uv_impact srv) (Call ''GET'' (user_path_of u @ ''/deletion-impact'') None))
             (\<lambda>impact. ret (Some (impact, \<lparr>ui_status = statusLine, ui_busy = False, dl_open = True, dl_keep = False,
                                            dd_typed = [], dd_mismatch = None\<rparr>))))
          (\<lambda>e. andthen (on_status (fail_with (errorMessage t e))) (ret None)))"

definition delete_user :: "users_server \<Rightarrow> translator \<Rightarrow> admin_user \<Rightarrow> delete_dialog \<Rightarrow> (users_state, delete_dialog) act" where
  "delete_user srv t u =
     submit_on_page t
       (confirm_delete (au_name u) (translate t ''admin.name_mismatch'' []) (call (uv_done srv) (Call ''DELETE'' (user_path_of u) None)))
       (reload_users srv t)"

section \<open>The page as it is drawn\<close>

datatype admin_action = EditUser admin_user | ResetPassword admin_user | DeleteUser admin_user | ReplaceContent

definition forbidden :: "app \<Rightarrow> admin_action node \<times> string" where
  "forbidden a =
     page (say_t a ''nav.users'')
       [CNode (section_card (say_t a ''error.title'')
          [CNode (el ''p'' [(''text'', AStr (say_t a ''error.3000''))] []),
           if isAuthenticated (app_session a) then CNull
           else CNode (el ''p'' [] [CNode (el ''a'' [(''class'', AStr ''link''), (''href'', AStr (loginHref (app_path a))),
                  (''text'', AStr (say_t a ''auth.login''))] [])])])]"

definition user_controls :: "app \<Rightarrow> admin_user \<Rightarrow> admin_action child list" where
  "user_controls a u =
     [CNode (button ((plain_button (say_t a ''action.edit''))\<lparr>bt_onclick := Some (EditUser u)\<rparr>)),
      CNode (button ((plain_button (say_t a ''admin.reset_password''))\<lparr>bt_onclick := Some (ResetPassword u)\<rparr>)),
      if au_is_admin u \<or> Some (au_id u) = me a then CNull
      else CNode (button ((plain_button (say_t a ''action.delete''))\<lparr>bt_variant := Danger, bt_onclick := Some (DeleteUser u)\<rparr>))]"

definition userRow :: "app \<Rightarrow> admin_user \<Rightarrow> admin_action node" where
  "userRow a u =
     (let at_time = (\<lambda>v. formatDateTime (app_intl a) (language a) (Stamp v));
          dt = (\<lambda>k. CNode (el ''dt'' [(''text'', AStr (say_t a k))] [])); dd = (\<lambda>v. CNode (el ''dd'' [(''text'', AStr v)] []))
      in el ''div'' [(''class'', AStr ''row user-row'')]
        [CNode (el ''div'' [(''class'', AStr ''user-identity'')]
           [CNode (el ''strong'' [(''text'', AStr (shown_name u))] []),
            CNode (el ''span'' [(''class'', AStr ''muted''), (''text'', AStr (au_name u))] []),
            if au_is_admin u then CNode (el ''span'' [(''class'', AStr ''chip''), (''text'', AStr (say_t a ''nav.users''))] []) else CNull]),
         CNode (el ''dl'' [(''class'', AStr ''definitions user-meta'')]
           [dt ''account.token.created'', dd (at_time (au_created_at u)), dt ''admin.last_login'',
            dd (if truthy (au_last_login_at u) then at_time (the (au_last_login_at u)) else say_t a ''admin.never_logged_in'')]),
         CNode (el ''div'' [(''class'', AStr ''actions user-actions'')] (user_controls a u))])"

definition users_page_element :: "app \<Rightarrow> bool \<Rightarrow> users_state \<Rightarrow> admin_action node \<times> string" where
  "users_page_element a allowed l =
     (if \<not> allowed then forbidden a
      else let title = say_t a ''nav.users''
           in page title [CNode (section_card title
                [CNode (append (el ''div'' [(''class'', AStr ''rows'')] []) (map (\<lambda>u. CNode (userRow a u)) (us_rows l))),
                 CNode (status_element (ui_status l))])])"

definition user_editor_fields :: "translator \<Rightarrow> 'x user_editor_scheme \<Rightarrow> nat \<Rightarrow> 'a child list \<times> nat" where
  "user_editor_fields t e seq =
     (let (f1, n1) = field (translate t ''auth.name'' [])
            (input (no_input\<lparr>in_name := Some ''name'', in_required := True, in_value := Some (ue_name e)\<rparr>)) None None None seq;
          (f2, n2) = field (translate t ''auth.display_name'' [])
            (input (no_input\<lparr>in_name := Some ''display_name'', in_value := Some (ue_display e)\<rparr>)) None None None n1;
          (f3, n3) = field (translate t ''auth.email'' [])
            (input (no_input\<lparr>in_name := Some ''email'', in_type := Some ''email'', in_value := Some (ue_email e)\<rparr>)) None None None n2
      in ([CNode f1, CNode f2, CNode f3], n3))"

definition send_button :: "translator \<Rightarrow> admin_user \<Rightarrow> password_dialog \<Rightarrow> admin_user node" where
  "send_button t u d =
     button ((plain_button (translate t ''admin.send_reset_link'' []))
       \<lparr>bt_disabled := (au_email u = [] \<or> pd_sending d),
        bt_title := (if au_email u \<noteq> [] then None else Some (translate t ''admin.reset_password_no_email'' [(''name'', PStr (au_name u))])),
        bt_onclick := Some u\<rparr>)"

definition reset_fields :: "translator \<Rightarrow> admin_user \<Rightarrow> password_dialog \<Rightarrow> nat \<Rightarrow> 'a child list \<times> nat" where
  "reset_fields t u d seq =
     (let (f1, n1) = password_element t (reset_options t) (pd_password d) seq; name = (''name'', PStr (au_name u))
      in ([CNode (el ''p'' [(''text'', AStr (if au_email u \<noteq> []
              then translate t ''admin.reset_password_confirm'' [name, (''email'', PStr (au_email u))]
              else translate t ''admin.reset_password_no_email'' [name]))] []),
           CNode f1, CNode (dialogHint (translate t ''admin.set_password_hint'' [name]))], n1))"

section \<open>The imprint and the legal notes\<close>

datatype content_key = Imprint | LegalNotes

definition key_text :: "content_key \<Rightarrow> string" where
  "key_text k = (case k of Imprint \<Rightarrow> ''imprint'' | LegalNotes \<Rightarrow> ''legal_notes'')"

definition content_title :: "translator \<Rightarrow> content_key \<Rightarrow> string" where
  "content_title t k = translate t (case k of Imprint \<Rightarrow> ''nav.imprint'' | LegalNotes \<Rightarrow> ''nav.legal_notes'') []"

text \<open>
  What reading \<open>innerHTML\<close> gives after some was assigned, and after the body was replaced by the
  paragraph of an error.
\<close>

record html_engine =
  he_parsed :: "string \<Rightarrow> string"
  he_error :: "string \<Rightarrow> string"

record content_state = ui +
  ct_html :: string

record content_editor = dialog +
  ce_html :: string
  ce_kept :: "string option"

definition new_content_state :: content_state where
  "new_content_state = \<lparr>ui_status = statusLine, ui_busy = False, ct_html = []\<rparr>"

definition pages_path :: "content_key \<Rightarrow> string" where
  "pages_path k = ''/pages/'' @ key_text k"

definition load_content :: "string server \<Rightarrow> html_engine \<Rightarrow> translator \<Rightarrow> content_key \<Rightarrow> (content_state, unit) act" where
  "load_content srv he t k =
     try_catch
       (bind (call srv (Call ''GET'' (pages_path k) None)) (\<lambda>html. modify (\<lambda>l. l\<lparr>ct_html := he_parsed he html\<rparr>)))
       (\<lambda>e. modify (\<lambda>l. l\<lparr>ct_html := he_error he (errorMessage t e)\<rparr>))"

definition open_content_editor :: "content_state \<Rightarrow> content_editor" where
  "open_content_editor l =
     \<lparr>ui_status = statusLine, ui_busy = False, dl_open = True, dl_keep = False, ce_html = js_trim (ct_html l), ce_kept = None\<rparr>"

definition content_call :: "content_key \<Rightarrow> 'x content_editor_scheme \<Rightarrow> http_call" where
  "content_call k e = Call ''PUT'' (pages_path k) (Some (JStr (ce_html e)))"

text \<open>The page shows what the server answers: what it kept of what was sent.\<close>

definition save_content ::
  "string server \<Rightarrow> html_engine \<Rightarrow> translator \<Rightarrow> content_key \<Rightarrow> content_editor \<Rightarrow> (content_state, content_editor) act" where
  "save_content srv he t k e =
     bind (submit_on_page t
         (bind (gets (content_call k)) (\<lambda>c. bind (call srv c)
            (\<lambda>kept. andthen (modify (\<lambda>d. d\<lparr>ce_kept := Some kept\<rparr>)) (ret True))))
         (on_status (say (translate t ''state.saved'' []))) e)
       (\<lambda>d. andthen (case ce_kept d of None \<Rightarrow> ret () | Some kept \<Rightarrow> modify (\<lambda>l. l\<lparr>ct_html := he_parsed he kept\<rparr>)) (ret d))"

text \<open>The page around the body, which is drawn by the browser from \<open>ct_html\<close>.\<close>

definition contentPage :: "app \<Rightarrow> content_key \<Rightarrow> admin_action node \<Rightarrow> content_state \<Rightarrow> admin_action node \<times> string" where
  "contentPage a k body l =
     page (content_title (app_t a) k)
       [CNode (append (el ''section'' [(''class'', AStr ''card'')] [])
          [CNode body,
           if isAdmin (app_session a)
           then CNode (actions [CNode (button ((plain_button (say_t a ''admin.replace_content''))\<lparr>bt_onclick := Some ReplaceContent\<rparr>))])
           else CNull,
           CNode (status_element (ui_status l))])]"

definition content_fields :: "translator \<Rightarrow> 'x content_editor_scheme \<Rightarrow> nat \<Rightarrow> 'a child list \<times> nat" where
  "content_fields t e seq =
     (let (f1, n1) = field (translate t ''admin.snippet'' []) (textarea (no_input\<lparr>in_value := Some (ce_html e)\<rparr>) (Some 16))
            (Some (translate t ''admin.snippet_hint'' [])) None None seq
      in ([CNode f1], n1))"

section \<open>Who sees the users and what can be done with them\<close>

lemma usersPage_run:
  "usersPage srv a w =
     (if \<not> isAdmin (app_session a) then (Inr False, w)
      else (Inr True, w\<lparr>trace := trace w @ [Sent users_call],
        local := (case uv_list srv (trace w) users_call of
            Inl e \<Rightarrow> (local w)\<lparr>ui_status := \<lparr>st_text = errorMessage (app_t a) e, st_error = True\<rparr>\<rparr>
          | Inr us \<Rightarrow> (local w)\<lparr>ui_status := \<lparr>st_text = [], st_error = False\<rparr>, us_rows := us\<rparr>)\<rparr>))"
proof -
  obtain tr l where w: "w = \<lparr>trace = tr, local = l\<rparr>" by (cases w) auto
  show ?thesis
    by (cases "uv_list srv tr users_call")
      (simp_all add: w usersPage_def reload_users_def act_simps runAction_run action_start_def released_def Let_def
        fail_with_def clear_status_def)
qed

lemma user_row_actions:
  "set (actions_of (userRow a u)) =
     {EditUser u, ResetPassword u} \<union> (if au_is_admin u \<or> Some (au_id u) = me a then {} else {DeleteUser u})"
  by (auto simp: userRow_def user_controls_def Let_def node_simps)

lemma forbidden_actions: "set (actions_of (fst (forbidden a))) = {}"
  by (auto simp: forbidden_def node_simps)

lemma users_page_actions:
  "set (actions_of (fst (users_page_element a allowed l))) =
     (if allowed then (\<Union>u \<in> set (us_rows l). set (actions_of (userRow a u))) else {})"
  by (simp add: users_page_element_def forbidden_actions Let_def set_actions_append node_simps)


text \<open>
  A reset link is only asked for when the account has an address, by exactly one request; the
  dialog closes and the page says so exactly when the server accepts it, and the button works again.
\<close>

theorem reset_link_outcome:
  assumes "\<not> pd_sending d" and "dl_open d"
  shows "(let c = reset_link_call u; out = press_send_link srv t u d w
    in if au_email u = [] then out = (Inr d, w)
       else trace (snd out) = trace w @ [Sent c]
         \<and> (case fst out of Inl e \<Rightarrow> False | Inr d' \<Rightarrow> \<not> pd_sending d'
              \<and> (case uv_done srv (trace w) c of
                   Inr _ \<Rightarrow> \<not> dl_open d' \<and> local (snd out) = (local w)\<lparr>ui_status :=
                       \<lparr>st_text = translate t ''admin.reset_password_sent'' [(''email'', PStr (au_email u))], st_error = False\<rparr>\<rparr>
                 | Inl e \<Rightarrow> dl_open d' \<and> ui_status d' = \<lparr>st_text = errorMessage t e, st_error = True\<rparr> \<and> local (snd out) = local w)))"
  using assms
  by (cases "uv_done srv (trace w) (reset_link_call u)")
    (simp_all add: press_send_link_def send_link_def act_simps runAction_run action_start_def released_def on_status_def
      say_def fail_with_def Let_def)

text \<open>An account is not deleted without its name having been typed.\<close>

lemma user_deletion_needs_the_name:
  assumes "js_trim (dd_typed d) \<noteq> au_name u" and "dl_open d"
  shows "trace (snd (delete_user srv t u d w)) = trace w \<and> local (snd (delete_user srv t u d w)) = local w
    \<and> (\<exists>d'. fst (delete_user srv t u d w) = Inr d' \<and> dl_open d' \<and> dd_mismatch d' = Some (translate t ''admin.name_mismatch'' []))"
  using assms
  by (simp add: delete_user_def submit_on_page_def send_def confirm_delete_def act_simps runAction_run action_start_def
      released_def Let_def)

section \<open>What the pages of content show\<close>

text \<open>
  The content a page shows is what the server has, and after an edit what the server kept of it; an
  edit that is refused changes nothing and leaves the dialog open with what was typed.
\<close>

lemma content_as_kept:
  assumes "dl_open e" and "ce_kept e = None"
  shows "(let c = content_call k e; out = save_content srv he t k e w
    in trace (snd out) = trace w @ [Sent c]
       \<and> (case srv (trace w) c of
            Inr kept \<Rightarrow> ct_html (local (snd out)) = he_parsed he kept
          | Inl x \<Rightarrow> local (snd out) = local w \<and> (\<exists>e'. fst out = Inr e' \<and> dl_open e' \<and> ce_html e' = ce_html e)))"
proof -
  have c: "content_call k (x\<lparr>ui_busy := b\<rparr>) = content_call k x" "content_call k (x\<lparr>dl_keep := b\<rparr>) = content_call k x"
    "content_call k (x\<lparr>ui_status := s\<rparr>) = content_call k x" for x :: content_editor and b s
    by (simp_all add: content_call_def)
  show ?thesis
    using assms
    by (cases "srv (trace w) (content_call k e)")
      (simp_all add: save_content_def submit_on_page_def send_def act_simps runAction_run action_start_def released_def
        on_status_def Let_def c)
qed

text \<open>When the content cannot be read, the editor starts with the message that says so.\<close>

lemma error_in_editor:
  assumes "srv (trace w) (Call ''GET'' (pages_path k) None) = Inl e"
  shows "ce_html (open_content_editor (local (snd (load_content srv he t k w)))) = js_trim (he_error he (errorMessage t e))"
  using assms by (simp add: load_content_def act_simps open_content_editor_def)

end
