(* ===== verification/Build.thy ===== *)
theory Build
  imports Catalogs Cookies
begin

text \<open>
  The build of the frontend (\<open>frontend/build.mjs\<close>): what it does to the disk and in which order,
  the two pages it writes, the script that applies the theme before the first paint, and the timer
  that regenerates the registry while the build is watching. Paths are relative to the
  repository; \<open>frontend\<close> stands for \<open>here\<close> and \<open>static\<close> for \<open>out\<close>.
\<close>

section \<open>What a build does to the outside\<close>

record esbuild_options =
  entryPoints :: "string list"
  bundled :: bool
  module_format :: string
  es_target :: "string list"
  outfile :: string
  sourcemap :: "string option"
  minify :: bool
  loader :: "(string \<times> string) list"
  logLevel :: string

datatype build_op =
    MakeDir string
  | RemoveDir string
  | WriteFile string string
  | CopyFile string string
  | ReadFile string
  | Resolve string
  | Spawn string "string list"
  | Bundle esbuild_options
  | Context esbuild_options
  | WatchBundle esbuild_options
  | WatchDir string
  | Warn "catalog_warning list"
  | Report "catalog_problem list"
  | Announce "string list"

datatype build_error =
    IncompleteCatalogs "catalog_problem list"
  | Unreadable string
  | Failed build_op

text \<open>
  How a child process ends: it could not be started, it left with a code, if it left one, or it
  has not ended, as a command that watches its input does not.
\<close>

datatype process_end = StartError | Exited "int option" | Running

text \<open>
  The machine the build runs on. Whether an operation succeeds, how a command ends and what the
  catalogs on the disk are may depend on everything done before.
\<close>

record machine =
  op_ok :: "build_op list \<Rightarrow> build_op \<Rightarrow> bool"
  child_of :: "build_op list \<Rightarrow> string \<Rightarrow> string list \<Rightarrow> process_end"
  catalogs_of :: "build_op list \<Rightarrow> build_error + cat_file list"
  swagger_dist :: string

text \<open>Where an awaited step is: done, rejected, or waiting for an operation that has not ended.\<close>

datatype 'a outcome = Done 'a | Rejected build_error | Pending build_op

type_synonym 'a build_act = "build_op list \<Rightarrow> 'a outcome \<times> build_op list"

definition finished :: "'a \<Rightarrow> 'a build_act" where
  "finished x tr = (Done x, tr)"

definition followed :: "'a build_act \<Rightarrow> ('a \<Rightarrow> 'b build_act) \<Rightarrow> 'b build_act" where
  "followed m f tr =
     (case m tr of
        (Done x, tr') \<Rightarrow> f x tr'
      | (Rejected e, tr') \<Rightarrow> (Rejected e, tr')
      | (Pending p, tr') \<Rightarrow> (Pending p, tr'))"

text \<open>\<open>run\<close>: a child that leaves with 0 resolves, one that cannot start or leaves otherwise rejects.\<close>

definition run_child :: "build_op \<Rightarrow> process_end \<Rightarrow> unit outcome" where
  "run_child p c =
     (case c of
        StartError \<Rightarrow> Rejected (Failed p)
      | Exited code \<Rightarrow> if code = Some 0 then Done () else Rejected (Failed p)
      | Running \<Rightarrow> Pending p)"

definition perform :: "machine \<Rightarrow> build_op \<Rightarrow> unit build_act" where
  "perform mc p tr =
     (case p of
        Spawn c args \<Rightarrow> run_child p (child_of mc tr c args)
      | _ \<Rightarrow> if op_ok mc tr p then Done () else Rejected (Failed p),
      tr @ [p])"

fun perform_all :: "machine \<Rightarrow> build_op list \<Rightarrow> unit build_act" where
  "perform_all mc [] = finished ()"
| "perform_all mc (p # ps) = followed (perform mc p) (\<lambda>_. perform_all mc ps)"

text \<open>
  \<open>await Promise.all([m, n])\<close>: both are started, a rejection of either rejects, and it resolves
  only once both have. The operations of the first are written before those of the second.
\<close>

definition both_of :: "unit outcome \<Rightarrow> unit outcome \<Rightarrow> unit outcome" where
  "both_of r s =
     (case r of
        Rejected e \<Rightarrow> Rejected e
      | Done _ \<Rightarrow> s
      | Pending p \<Rightarrow> (case s of Rejected e \<Rightarrow> Rejected e | _ \<Rightarrow> Pending p))"

definition together :: "unit build_act \<Rightarrow> unit build_act \<Rightarrow> unit build_act" where
  "together m n tr = (case m tr of (r, tr') \<Rightarrow> case n tr' of (s, tr'') \<Rightarrow> (both_of r s, tr''))"

section \<open>The pages it writes\<close>

definition lines :: "string list \<Rightarrow> string" where
  "lines ls = concat (map (\<lambda>l. l @ [CHR 0x0A]) ls)"

definition shell_head :: "string list" where
  \<open>shell_head =
    [''<!doctype html>'',
     ''<html lang="en">'',
     ''  <head>'',
     ''    <meta charset="utf-8">'',
     ''    <meta name="viewport" content="width=device-width, initial-scale=1">'',
     ''    <title>doenerstag</title>'',
     ''    <!-- The mark, as the tab icon. Firefox asks for /favicon.ico on every page'',
     ''         whether or not one is declared; naming a real one here means it asks'',
     ''         for something that exists. -->'',
     ''    <link rel="icon" href="/static/img/doenerstag.svg" type="image/svg+xml">'',
     ''    <link rel="stylesheet" href="/static/css/app.css">'',
     ''    <script type="module" src="/static/js/theme.js"></script>'',
     ''  </head>'']\<close>

definition shell_body :: "string list" where
  \<open>shell_body =
    [''  <body>'',
     ''    <noscript>doenerstag needs JavaScript.</noscript>'',
     ''    <!-- The application renders its whole chrome into this element. The lang'',
     ''         attribute above is corrected to the resolved interface language as'',
     ''         soon as the bundle runs. -->'',
     ''    <div id="app"></div>'',
     ''    <script type="module" src="/static/js/app.js"></script>'',
     ''  </body>'',
     ''</html>'']\<close>

definition shell_html :: string where
  "shell_html = lines (shell_head @ shell_body)"

text \<open>The script of the first paint, as it is written; what it does is \<open>theme_script\<close> below.\<close>

definition theme_source :: string where
  \<open>theme_source = lines
    [''// Applies the stored theme before first paint, so switching pages does not'',
     ''// flash the wrong one. Kept out of the bundle because it must run first.'',
     ''const match = document.cookie.match(/(?:^|;'' @ backslash # ''s*)doener_theme=(dark|light)/);'',
     ''if (match) {'',
     ''  document.documentElement.dataset.theme = match[1];'',
     ''}'']\<close>

definition swagger_lines :: "string list" where
  \<open>swagger_lines =
    [''<!doctype html>'',
     ''<html lang="en">'',
     ''  <head>'',
     ''    <meta charset="utf-8">'',
     ''    <meta name="viewport" content="width=device-width, initial-scale=1">'',
     ''    <title>doenerstag API</title>'',
     ''    <link rel="icon" href="/static/swagger/favicon-32x32.png" sizes="32x32">'',
     ''    <link rel="stylesheet" href="/static/swagger/swagger-ui.css">'',
     ''  </head>'',
     ''  <body>'',
     ''    <div id="swagger-ui"></div>'',
     ''    <script src="/static/swagger/swagger-ui-bundle.js"></script>'',
     ''    <script src="/static/swagger/init.js"></script>'',
     ''  </body>'',
     ''</html>'']\<close>

definition swagger_html :: string where
  "swagger_html = lines swagger_lines"

definition swagger_init :: string where
  \<open>swagger_init = lines
    [''// Separate file rather than an inline block: the CSP forbids inline scripts,'',
     ''// and Swagger UI is served under the same policy as everything else.'',
     ''window.SwaggerUIBundle({'',
     ''  url: "/api/v1/openapi.json",'',
     ''  dom_id: "#swagger-ui",'',
     ''  deepLinking: true,'',
     ''  // No "try it out" against another server: the document describes this one.'',
     ''  supportedSubmitMethods: ["get"],'',
     ''});'']\<close>

section \<open>The steps\<close>

definition script_options :: "bool \<Rightarrow> esbuild_options" where
  "script_options watching =
     \<lparr>entryPoints = [''frontend/src/main.ts''], bundled = True, module_format = ''esm'',
      es_target = [''es2022''], outfile = ''static/js/app.js'',
      sourcemap = (if watching then Some ''inline'' else None), minify = (\<not> watching),
      loader = [(''.svg'', ''text'')], logLevel = ''info''\<rparr>"

definition buildScripts :: "machine \<Rightarrow> bool \<Rightarrow> unit build_act" where
  "buildScripts mc watching =
     perform_all mc
       (if watching then [Context (script_options True), WatchBundle (script_options True)]
        else [Bundle (script_options False)])"

definition style_args :: "bool \<Rightarrow> string list" where
  "style_args watching =
     [''@tailwindcss/cli'', ''--input'', ''frontend/styles/app.css'', ''--output'', ''static/css/app.css'']
     @ (if watching then [''--watch''] else [''--minify''])"

definition buildStyles :: "machine \<Rightarrow> bool \<Rightarrow> unit build_act" where
  "buildStyles mc watching = perform mc (Spawn ''npx'' (style_args watching))"

definition shell_ops :: "build_op list" where
  "shell_ops =
     [WriteFile ''static/index.html'' shell_html,
      WriteFile ''static/js/theme.js'' theme_source,
      MakeDir ''static/img'',
      CopyFile ''frontend/assets/doenerstag.svg'' ''static/img/doenerstag.svg'']"

definition buildShell :: "machine \<Rightarrow> unit build_act" where
  "buildShell mc = perform_all mc shell_ops"

definition wanted :: "string list" where
  "wanted =
     [''swagger-ui.css'', ''swagger-ui-bundle.js'', ''swagger-ui-standalone-preset.js'',
      ''favicon-16x16.png'', ''favicon-32x32.png'']"

definition swagger_ops :: "string \<Rightarrow> build_op list" where
  "swagger_ops dist =
     [Resolve ''swagger-ui-dist/package.json'', RemoveDir ''static/swagger'', MakeDir ''static/swagger'']
     @ map (\<lambda>name. CopyFile (dist @ ''/'' @ name) (''static/swagger/'' @ name)) wanted
     @ [WriteFile ''static/swagger/index.html'' swagger_html,
        WriteFile ''static/swagger/init.js'' swagger_init]"

definition buildSwagger :: "machine \<Rightarrow> unit build_act" where
  "buildSwagger mc = perform_all mc (swagger_ops (swagger_dist mc))"

text \<open>
  A language code as an identifier: whatever is no letter and no digit goes, and what follows it is
  raised.
\<close>

definition alphanumeric :: "char \<Rightarrow> bool" where
  "alphanumeric c \<longleftrightarrow>
     is_digit c \<or> (65 \<le> byte c \<and> byte c \<le> 90) \<or> (97 \<le> byte c \<and> byte c \<le> 122)"

definition upper_char :: "char \<Rightarrow> char" where
  "upper_char c = (if 97 \<le> byte c \<and> byte c \<le> 122 then char_of (byte c - 32) else c)"

function js_identifier :: "string \<Rightarrow> string" where
  "js_identifier [] = []"
| "js_identifier (c # s) =
     (if alphanumeric c then c # js_identifier s
      else case dropWhile (\<lambda>d. \<not> alphanumeric d) s of [] \<Rightarrow> [] | d # r \<Rightarrow> upper_char d # js_identifier r)"
  by pat_completeness auto
termination
proof (relation "measure length")
  show "(r, c # s) \<in> measure length" if "dropWhile (\<lambda>d. \<not> alphanumeric d) s = d # r" for c s d r
    using length_dropWhile_le [of "\<lambda>d. \<not> alphanumeric d" s] that by simp
qed auto

text \<open>The module the bundle imports.\<close>

definition quoted :: "string \<Rightarrow> string" where
  "quoted s = CHR 0x22 # s @ [CHR 0x22]"

definition import_line :: "cat_file \<Rightarrow> string" where
  "import_line c = ''import '' @ js_identifier (cf_code c) @ '' from '' @ quoted (''./'' @ cf_name c) @ '';''"

definition entry_line :: "cat_file \<Rightarrow> string" where
  "entry_line c = ''  '' @ quoted (cf_code c) @ '': '' @ js_identifier (cf_code c) @ '',''"

definition registry_types :: "string list" where
  \<open>registry_types =
    [''/** What a catalog says about itself in its reserved '' @ quoted META_KEY @ '' key. */'',
     ''export interface CatalogMeta {'',
     ''  /** The language tag, which is also the file name. */'',
     ''  readonly code: string;'',
     ''  /** The language'' @ CHR 0x27 # ''s own name for itself, e.g. "Deutsch". */'',
     ''  readonly endonym: string;'',
     ''  /** "ltr" or "rtl". The build check rejects anything else. */'',
     ''  readonly dir: string;'',
     ''}'',
     [],
     ''/** One catalog: the metadata block plus flat, dotted message keys. */'',
     ''export type Catalog = Record<string, string | CatalogMeta>;'',
     [],
     ''/** Every catalog in this build, keyed by language code. */'']\<close>

definition registrySource :: "cat_file list \<Rightarrow> string" where
  "registrySource cs = lines
     ([''// Generated by scripts/i18n.mjs from the catalogs in this directory.'',
       ''// Do not edit and do not commit it: every build writes it again.'', [],
       join_with [CHR 0x0A] (map import_line cs), []]
      @ registry_types
      @ [''export const catalogs: Record<string, Catalog> = {'',
         join_with [CHR 0x0A] (map entry_line cs), ''};''])"

definition registryFile :: string where
  "registryFile = ''frontend/src/i18n/registry.generated.ts''"

text \<open>
  \<open>generateRegistry\<close> with the disk: the catalogs are read and checked, what is wrong with them is
  printed or thrown, and the registry is written.
\<close>

definition told :: "catalog_warning list \<Rightarrow> catalog_problem list \<Rightarrow> build_op list" where
  "told warnings problems = only_when (warnings \<noteq> []) (Warn warnings) @ only_when (problems \<noteq> []) (Report problems)"

definition write_registry ::
  "machine \<Rightarrow> (string \<Rightarrow> string list) \<Rightarrow> bool \<Rightarrow> cat_file list build_act" where
  "write_registry mc cats strict tr =
     (case catalogs_of mc tr of
        Inl e \<Rightarrow> (Rejected e, tr)
      | Inr cs \<Rightarrow>
          (let problems = fst (checkCatalogs cats cs); warnings = snd (checkCatalogs cats cs)
           in if problems \<noteq> [] \<and> strict then (Rejected (IncompleteCatalogs problems), tr @ told warnings [])
              else followed (perform mc (WriteFile registryFile (registrySource cs))) (\<lambda>_. finished cs)
                     (tr @ told warnings problems)))"

definition report_build :: "machine \<Rightarrow> cat_file list \<Rightarrow> unit build_act" where
  "report_build mc cs =
     followed (perform mc (ReadFile ''static/js/app.js''))
       (\<lambda>_ tr. (Done (), tr @ [Announce (map cf_code cs)]))"

definition main_build :: "machine \<Rightarrow> (string \<Rightarrow> string list) \<Rightarrow> bool \<Rightarrow> unit build_act" where
  "main_build mc cats watching =
     followed (perform_all mc [MakeDir ''static/js'', MakeDir ''static/css'']) (\<lambda>_.
     followed (write_registry mc cats (\<not> watching)) (\<lambda>cs.
     followed (buildShell mc) (\<lambda>_.
     followed (buildSwagger mc) (\<lambda>_.
     followed (together (buildScripts mc watching) (buildStyles mc watching)) (\<lambda>_.
       if watching then perform mc (WatchDir ''frontend/src/i18n'') else report_build mc cs)))))"

text \<open>\<open>main().catch(...)\<close>: the code the process leaves with, if \<open>main\<close> has ended.\<close>

definition exit_code :: "unit outcome \<Rightarrow> nat option" where
  "exit_code r = (case r of Done _ \<Rightarrow> Some 0 | Rejected _ \<Rightarrow> Some 1 | Pending _ \<Rightarrow> None)"

lemma finished_run [act_simps]: "finished x tr = (Done x, tr)"
  by (simp add: finished_def)

lemma followed_run [act_simps]:
  "followed m f tr =
     (case m tr of
        (Done x, tr') \<Rightarrow> f x tr'
      | (Rejected e, tr') \<Rightarrow> (Rejected e, tr')
      | (Pending p, tr') \<Rightarrow> (Pending p, tr'))"
  by (simp add: followed_def)

lemma followed_Done:
  "followed m f tr = (Done y, tr') \<longleftrightarrow> (\<exists>x tr''. m tr = (Done x, tr'') \<and> f x tr'' = (Done y, tr'))"
  by (auto simp: followed_def split: prod.splits outcome.splits)

lemma perform_Done: "perform mc p tr = (Done x, tr') \<Longrightarrow> tr' = tr @ [p]"
  by (simp add: perform_def)

lemma perform_trace [simp]: "snd (perform mc p tr) = tr @ [p]"
  by (simp add: perform_def)

lemma perform_all_Done: "perform_all mc ps tr = (Done x, tr') \<Longrightarrow> tr' = tr @ ps"
proof (induction ps arbitrary: tr)
  case (Cons p ps)
  then obtain y tr'' where "perform mc p tr = (Done y, tr'')" "perform_all mc ps tr'' = (Done x, tr')"
    by (auto simp: followed_Done)
  then show ?case using Cons.IH [of tr''] by (auto dest: perform_Done)
qed (simp add: finished_def)

lemma together_Done:
  "together m n tr = (Done x, tr') \<longleftrightarrow>
     (\<exists>y z tr''. m tr = (Done y, tr'') \<and> n tr'' = (Done z, tr'))"
  by (auto simp: together_def both_of_def split: prod.splits outcome.splits)

section \<open>What a release ships\<close>

text \<open>The files an operation leaves, and the files there are after some operations.\<close>

fun argument_after :: "string \<Rightarrow> string list \<Rightarrow> string list" where
  "argument_after k (a # b # r) = (if a = k then [b] else argument_after k (b # r))"
| "argument_after k _ = []"

definition outputs :: "build_op \<Rightarrow> string list" where
  "outputs p =
     (case p of
        WriteFile f _ \<Rightarrow> [f]
      | CopyFile _ f \<Rightarrow> [f]
      | Bundle opts \<Rightarrow> [outfile opts]
      | Spawn _ args \<Rightarrow> argument_after ''--output'' args
      | _ \<Rightarrow> [])"

definition file_step :: "string list \<Rightarrow> build_op \<Rightarrow> string list" where
  "file_step fs p =
     (case p of RemoveDir d \<Rightarrow> filter (\<lambda>f. \<not> starts_with f (d @ ''/'')) fs | _ \<Rightarrow> fs) @ outputs p"

definition files_after :: "build_op list \<Rightarrow> string list" where
  "files_after ps = foldl file_step [] ps"

text \<open>What a page refers to: the values of its \<open>href\<close> and \<open>src\<close> attributes.\<close>

fun attribute_values :: "string \<Rightarrow> string \<Rightarrow> string list" where
  "attribute_values k [] = []"
| "attribute_values k (c # s) =
     (if starts_with (c # s) k then takeWhile (\<lambda>d. d \<noteq> CHR 0x22) (drop (length k) (c # s)) # attribute_values k s
      else attribute_values k s)"

definition line_references :: "string \<Rightarrow> string list" where
  "line_references l =
     attribute_values ('' href='' @ [CHR 0x22]) l @ attribute_values ('' src='' @ [CHR 0x22]) l"

definition references :: "string \<Rightarrow> string list" where
  "references page = concat (map line_references (split_on (CHR 0x0A) page))"

lemma split_lines: "list_all (\<lambda>l. CHR 0x0A \<notin> set l) ls \<Longrightarrow> split_on (CHR 0x0A) (lines ls) = ls @ [[]]"
  by (induction ls) (simp_all add: lines_def split_on_append_sep)

lemma references_lines:
  "list_all (\<lambda>l. CHR 0x0A \<notin> set l) ls \<Longrightarrow> references (lines ls) = concat (map line_references ls)"
  by (simp add: references_def split_lines line_references_def)

lemma shell_lines:
  "list_all (\<lambda>l. CHR 0x0A \<notin> set l) (shell_head @ shell_body)"
  "concat (map line_references shell_head) =
     [''/static/img/doenerstag.svg'', ''/static/css/app.css'', ''/static/js/theme.js'']"
  "concat (map line_references shell_body) = [''/static/js/app.js'']"
  by code_simp+

lemma shell_references:
  "references shell_html =
     [''/static/img/doenerstag.svg'', ''/static/css/app.css'', ''/static/js/theme.js'', ''/static/js/app.js'']"
  using shell_lines by (simp add: shell_html_def references_lines)

lemma swagger_line_references:
  "list_all (\<lambda>l. CHR 0x0A \<notin> set l) swagger_lines"
  "concat (map line_references swagger_lines) =
     [''/static/swagger/favicon-32x32.png'', ''/static/swagger/swagger-ui.css'',
      ''/static/swagger/swagger-ui-bundle.js'', ''/static/swagger/init.js'']"
  by code_simp+

lemma swagger_references:
  "references swagger_html =
     [''/static/swagger/favicon-32x32.png'', ''/static/swagger/swagger-ui.css'',
      ''/static/swagger/swagger-ui-bundle.js'', ''/static/swagger/init.js'']"
  using swagger_line_references by (simp add: swagger_html_def references_lines)

definition registry_op :: "cat_file list \<Rightarrow> build_op" where
  "registry_op cs = WriteFile registryFile (registrySource cs)"

definition release_ops :: "string \<Rightarrow> catalog_warning list \<Rightarrow> cat_file list \<Rightarrow> build_op list" where
  "release_ops dist warnings cs =
     [MakeDir ''static/js'', MakeDir ''static/css''] @ told warnings [] @ [registry_op cs]
     @ shell_ops @ swagger_ops dist
     @ [Bundle (script_options False), Spawn ''npx'' (style_args False),
        ReadFile ''static/js/app.js'', Announce (map cf_code cs)]"

lemma told_simps [simp]: "told [] [] = []" "file_step fs (Warn ws) = fs" "file_step fs (Report ps) = fs"
  by (simp_all add: told_def file_step_def outputs_def)

lemma told_files: "foldl file_step fs (told ws ps) = fs"
  by (cases "ws = []"; cases "ps = []") (simp_all add: told_def)

lemma write_registry_strict:
  "write_registry mc cats True tr = (Done cs, tr') \<Longrightarrow>
     catalogs_of mc tr = Inr cs \<and> fst (checkCatalogs cats cs) = []
     \<and> tr' = tr @ told (snd (checkCatalogs cats cs)) [] @ [registry_op cs]"
  by (auto simp: write_registry_def registry_op_def Let_def followed_Done finished_def
      dest: perform_Done split: sum.splits if_splits)

text \<open>The build stops exactly where the check of the catalogs does.\<close>

lemma write_registry_decides:
  assumes "catalogs_of mc tr = Inr cs"
  shows "fst (write_registry mc cats strict tr) = Rejected (IncompleteCatalogs problems)
           \<longleftrightarrow> generateRegistry cats strict cs = Inl problems"
  using assms
  by (auto simp: write_registry_def generateRegistry_def Let_def followed_def finished_def perform_def)

lemma release_trace:
  assumes "main_build mc cats False [] = (Done x, tr)"
  shows "\<exists>cs. catalogs_of mc [MakeDir ''static/js'', MakeDir ''static/css''] = Inr cs
           \<and> fst (checkCatalogs cats cs) = []
           \<and> tr = release_ops (swagger_dist mc) (snd (checkCatalogs cats cs)) cs"
  using assms
  by (auto simp: main_build_def followed_Done together_Done buildShell_def buildSwagger_def
      buildScripts_def buildStyles_def report_build_def release_ops_def finished_def
      dest!: perform_all_Done perform_Done write_registry_strict simp del: perform_all.simps)

lemma release_files:
  "files_after (release_ops dist warnings cs) =
     [registryFile, ''static/index.html'', ''static/js/theme.js'', ''static/img/doenerstag.svg'']
     @ map (\<lambda>name. ''static/swagger/'' @ name) wanted
     @ [''static/swagger/index.html'', ''static/swagger/init.js'', ''static/js/app.js'', ''static/css/app.css'']"
  by (simp add: files_after_def release_ops_def told_files registry_op_def)
    (simp add: shell_ops_def swagger_ops_def wanted_def file_step_def outputs_def script_options_def
      style_args_def registryFile_def)

text \<open>
  A release build that ends without an error has shipped everything its pages ask for: each
  file the application shell and the page of the API refer to is one the build has written, each
  catalog passed the completeness check, and the registry the bundle is made from is written
  before the bundle is.
\<close>

theorem release_ships_what_it_names:
  assumes "fst (main_build mc cats False []) = Done ()"
  shows "list_all (\<lambda>r. r \<in> set (map (\<lambda>f. CHR ''/'' # f) (files_after (snd (main_build mc cats False [])))))
           (references shell_html @ references swagger_html)
       \<and> (\<exists>cs before after. fst (checkCatalogs cats cs) = []
            \<and> snd (main_build mc cats False []) =
                before @ registry_op cs # after
            \<and> Bundle (script_options False) \<in> set after)"
proof -
  obtain tr where "main_build mc cats False [] = (Done (), tr)"
    using assms by (cases "main_build mc cats False []") auto
  from release_trace [OF this] obtain cs where
    ok: "fst (checkCatalogs cats cs) = []" and tr: "snd (main_build mc cats False []) = release_ops (swagger_dist mc) (snd (checkCatalogs cats cs)) cs"
    using \<open>main_build mc cats False [] = (Done (), tr)\<close> by auto
  let ?rest = "shell_ops @ swagger_ops (swagger_dist mc) @
    [Bundle (script_options False), Spawn ''npx'' (style_args False),
     ReadFile ''static/js/app.js'', Announce (map cf_code cs)]"
  have "release_ops (swagger_dist mc) (snd (checkCatalogs cats cs)) cs =
      ([MakeDir ''static/js'', MakeDir ''static/css''] @ told (snd (checkCatalogs cats cs)) []) @ registry_op cs # ?rest"
    by (simp add: release_ops_def)
  moreover have "Bundle (script_options False) \<in> set ?rest" by simp
  ultimately have "\<exists>before after. release_ops (swagger_dist mc) (snd (checkCatalogs cats cs)) cs =
      before @ registry_op cs # after \<and> Bundle (script_options False) \<in> set after"
    by blast
  with ok show ?thesis
    unfolding tr release_files shell_references swagger_references
    by (intro conjI exI [of _ cs]) (simp_all add: wanted_def)
qed

text \<open>A machine on which every step works, with the two catalogs of \<open>Catalogs\<close>.\<close>

definition working_machine :: "cat_file list \<Rightarrow> machine" where
  "working_machine cs =
     \<lparr>op_ok = \<lambda>_ _. True, child_of = \<lambda>_ _ _. Exited (Some 0), catalogs_of = \<lambda>_. Inr cs,
      swagger_dist = ''node_modules/swagger-ui-dist''\<rparr>"

lemma working_performs:
  "perform (working_machine cs) p tr = (Done (), tr @ [p])"
  by (simp add: perform_def working_machine_def run_child_def split: build_op.splits)

lemma working_all: "perform_all (working_machine cs) ps tr = (Done (), tr @ ps)"
  by (induction ps arbitrary: tr) (simp_all add: act_simps working_performs)

lemma working_build:
  assumes "fst (checkCatalogs cats cs) = []"
  shows "fst (main_build (working_machine cs) cats False []) = Done ()"
proof -
  have "catalogs_of (working_machine cs) tr = Inr cs" for tr
    by (simp add: working_machine_def)
  then show ?thesis
    using assms
    by (simp add: main_build_def act_simps working_performs working_all write_registry_def Let_def
        generateRegistry_def buildShell_def buildSwagger_def buildScripts_def buildStyles_def
        together_def both_of_def report_build_def del: perform_all.simps)
qed

lemma sample_checked: "fst (checkCatalogs two_categories sample_files) = []"
  using sample_accepted by (simp add: strict_registry)

theorem release_ships_what_it_names_witness:
  "''static/js/app.js'' \<in>
     set (files_after (snd (main_build (working_machine sample_files) two_categories False [])))"
  using release_ships_what_it_names [OF working_build [OF sample_checked]]
  by (auto simp: shell_references list_all_iff image_iff)

section \<open>Builds that stop, and builds that do not end\<close>

text \<open>
  A release build on incomplete catalogs ends with 1 and has written nothing: all it did was to
  make two directories. While watching, the same catalogs only have their problems printed, and
  the registry is written all the same.
\<close>

lemma incomplete_catalogs_stop:
  assumes "op_ok mc = (\<lambda>_ _. True)"
    and "catalogs_of mc [MakeDir ''static/js'', MakeDir ''static/css''] = Inr cs"
    and "fst (checkCatalogs cats cs) \<noteq> []"
  shows "exit_code (fst (main_build mc cats False [])) = Some 1"
    and "files_after (snd (main_build mc cats False [])) = []"
    and "registry_op cs \<in> set (snd (write_registry mc cats False
           [MakeDir ''static/js'', MakeDir ''static/css'']))"
  using assms
  by (simp_all add: main_build_def act_simps perform_def write_registry_def generateRegistry_def Let_def
      exit_code_def files_after_def told_files registry_op_def, simp_all add: file_step_def outputs_def)

definition keeps_ops :: "(build_op \<Rightarrow> bool) \<Rightarrow> 'a build_act \<Rightarrow> bool" where
  "keeps_ops P m \<longleftrightarrow> (\<forall>tr. list_all P tr \<longrightarrow> list_all P (snd (m tr)))"

lemma keeps_followed:
  "keeps_ops P m \<Longrightarrow> (\<And>x. keeps_ops P (f x)) \<Longrightarrow> keeps_ops P (followed m f)"
  unfolding keeps_ops_def followed_def by (auto split: prod.splits outcome.splits)

lemma keeps_perform: "P p \<Longrightarrow> keeps_ops P (perform mc p)"
  by (simp add: keeps_ops_def)

lemma keeps_all: "list_all P ps \<Longrightarrow> keeps_ops P (perform_all mc ps)"
proof (induction ps)
  case Nil
  show ?case by (simp add: keeps_ops_def finished_def)
next
  case (Cons p ps)
  then show ?case by (auto intro!: keeps_followed keeps_perform)
qed

lemma keeps_together: "keeps_ops P m \<Longrightarrow> keeps_ops P n \<Longrightarrow> keeps_ops P (together m n)"
  unfolding keeps_ops_def together_def by (auto split: prod.splits)

lemma keeps_registry:
  assumes "\<And>cs. P (registry_op cs)" and "\<And>problems. P (Report problems)" and "\<And>warnings. P (Warn warnings)"
  shows "keeps_ops P (write_registry mc cats strict)"
  using assms
  by (auto simp: told_def registry_op_def only_when_def keeps_ops_def write_registry_def Let_def followed_def finished_def perform_def
      split: sum.splits prod.splits outcome.splits if_splits)

lemma pending_styles:
  assumes "\<And>tr. child_of mc tr ''npx'' (style_args True) = Running"
  shows "fst (together (buildScripts mc True) (buildStyles mc True) tr) \<noteq> Done ()"
  using assms
  by (auto simp: together_def both_of_def buildStyles_def perform_def run_child_def
      split: prod.splits outcome.splits)

lemma followed_never: "(\<And>tr. fst (m tr) \<noteq> Done ()) \<Longrightarrow> keeps_ops P m \<Longrightarrow> keeps_ops P (followed m f)"
  unfolding keeps_ops_def followed_def by (auto split: prod.splits outcome.splits) (metis snd_conv fst_conv)+

text \<open>
  While the stylesheet compiler is watching it does not end, and the build waits for it with
  everything after: it never comes to watching the catalogs, so a catalog added to their directory
  goes unnoticed.
\<close>

lemma watching_never_reaches_catalogs:
  assumes "\<And>tr. child_of mc tr ''npx'' (style_args True) = Running"
  shows "WatchDir d \<notin> set (snd (main_build mc cats True [])) \<and> fst (main_build mc cats True []) \<noteq> Done ()"
proof -
  let ?P = "\<lambda>p. p \<noteq> WatchDir d"
  have "keeps_ops ?P (together (buildScripts mc True) (buildStyles mc True))"
    unfolding buildScripts_def buildStyles_def
    by (intro keeps_together keeps_perform keeps_all) simp_all
  then have waits: "keeps_ops ?P (followed (together (buildScripts mc True) (buildStyles mc True)) f)" for f :: "unit \<Rightarrow> unit build_act"
    by (intro followed_never pending_styles assms)
  have "keeps_ops ?P (write_registry mc cats strict)" for strict
    by (rule keeps_registry) (simp_all add: registry_op_def)
  moreover have "list_all ?P shell_ops" and "list_all ?P (swagger_ops dist)" for dist
    by (simp_all add: shell_ops_def swagger_ops_def list_all_iff)
  ultimately have "keeps_ops ?P (main_build mc cats True)"
    unfolding main_build_def buildShell_def buildSwagger_def
    by (intro waits keeps_followed keeps_all) simp_all
  then have "list_all ?P (snd (main_build mc cats True []))"
    unfolding keeps_ops_def by (elim allE [of _ "[]"]) simp
  moreover have "fst (main_build mc cats True []) \<noteq> Done ()"
    using pending_styles [OF assms]
    by (auto simp: main_build_def followed_def split: prod.splits outcome.splits) (metis fst_conv)+
  ultimately show ?thesis by (auto simp: list_all_iff)
qed

section \<open>The theme before the first paint\<close>

text \<open>
  \<open>document.cookie.match(/(?:^|;\<close>, white space, \<open>)doener_theme=(dark|light)/)\<close>: at the start of the
  text, or else after the first semicolon that is followed by a match.
\<close>

definition theme_at :: "string \<Rightarrow> theme option" where
  "theme_at s =
     (if starts_with s (THEME_COOKIE @ ''=dark'') then Some Dark
      else if starts_with s (THEME_COOKIE @ ''=light'') then Some Light else None)"

fun theme_later :: "string \<Rightarrow> theme option" where
  "theme_later [] = None"
| "theme_later (c # s) =
     (if c = CHR '';'' then (case theme_at (trim_start s) of Some th \<Rightarrow> Some th | None \<Rightarrow> theme_later s)
      else theme_later s)"

definition theme_match :: "string \<Rightarrow> theme option" where
  "theme_match s = (case theme_at s of Some th \<Rightarrow> Some th | None \<Rightarrow> theme_later s)"

definition theme_script :: "theme_state \<Rightarrow> theme_state" where
  "theme_script s =
     (case theme_match (document_cookie (theme_jar s)) of
        None \<Rightarrow> s
      | Some th \<Rightarrow> s\<lparr>data_theme := Some (theme_text th)\<rparr>)"

definition theme_of_value :: "string \<Rightarrow> theme option" where
  "theme_of_value v =
     (if starts_with v ''dark'' then Some Dark else if starts_with v ''light'' then Some Light else None)"

lemma starts_with_pair:
  "plain n \<Longrightarrow> plain m \<Longrightarrow>
     starts_with (n @ CHR ''='' # s) (m @ CHR ''='' # t) \<longleftrightarrow> n = m \<and> starts_with s t"
proof (induction n arbitrary: m)
  case Nil
  then show ?case by (cases m) (auto simp: plain_def plain_char_def)
next
  case (Cons c n)
  then show ?case by (cases m) (auto simp: plain_def plain_char_def)
qed

lemma theme_later_skip: "CHR '';'' \<notin> set a \<Longrightarrow> theme_later (a @ s) = theme_later s"
  by (induction a) auto

lemma theme_at_pair:
  "plain n \<Longrightarrow> theme_at (n @ CHR ''='' # s) = (if n = THEME_COOKIE then theme_of_value s else None)"
  by (simp add: theme_at_def theme_of_value_def starts_with_pair)

text \<open>White space before a name is skipped; a plain name has none of its own.\<close>

lemma plain_pair_trim: "plain n \<Longrightarrow> trim_start (CHR '' '' # n @ CHR ''='' # s) = n @ CHR ''='' # s"
proof -
  assume p: "plain n"
  have "white_prefix js_whitespace (n @ CHR ''='' # s) = 0"
  proof (cases n)
    case Nil
    show ?thesis by (simp add: Nil white_prefix_def js_whitespace_def)
  next
    case (Cons c m)
    with p white_none(1) show ?thesis by (simp add: plain_def)
  qed
  then show ?thesis
    by (simp add: trim_start_def strip_start.simps [of _ "CHR '' '' # _"] white_space strip_start_idle)
qed

fun first_theme :: "jar \<Rightarrow> theme option" where
  "first_theme [] = None"
| "first_theme ((n, v) # j) =
     (case if n = THEME_COOKIE then theme_of_value v else None of
        Some th \<Rightarrow> Some th
      | None \<Rightarrow> first_theme j)"

definition cookie_tail :: "jar \<Rightarrow> string" where
  "cookie_tail j = concat (map (\<lambda>(n, v). CHR '';'' # CHR '' '' # n @ CHR ''='' # v) j)"

lemma document_cookie_tail: "document_cookie ((n, v) # j) = n @ CHR ''='' # v @ cookie_tail j"
proof (induction j arbitrary: n v)
  case (Cons mw j)
  then show ?case by (cases mw) (simp add: document_cookie_def cookie_tail_def)
qed (simp add: document_cookie_def cookie_tail_def)

lemma theme_of_value_tail: "theme_of_value (v @ cookie_tail j) = theme_of_value v"
proof -
  have "starts_with (v @ cookie_tail j) w \<longleftrightarrow> starts_with v w" if "CHR '';'' \<notin> set w" for w
    using that
  proof (induction v arbitrary: w)
    case Nil
    then show ?case by (cases w; cases j) (auto simp: cookie_tail_def)
  next
    case (Cons c v)
    then show ?case by (cases w) auto
  qed
  then show ?thesis by (simp add: theme_of_value_def)
qed

lemma theme_later_jar: "plain_jar j \<Longrightarrow> theme_later (cookie_tail j) = first_theme j"
proof (induction j)
  case (Cons nv j)
  obtain n v where nv: "nv = (n, v)" by (cases nv)
  with Cons.prems have p: "plain n" "plain v" "plain_jar j" by (simp_all add: plain_jar_def)
  have "theme_later (n @ CHR ''='' # v @ cookie_tail j) = theme_later (cookie_tail j)"
    using theme_later_skip [of "n @ CHR ''='' # v"] plain_no_sep [OF p(1)] plain_no_sep [OF p(2)] by simp
  moreover have "cookie_tail (nv # j) = CHR '';'' # CHR '' '' # n @ CHR ''='' # v @ cookie_tail j"
    by (simp add: cookie_tail_def nv)
  ultimately show ?case
    using Cons.IH [OF p(3)] p
    by (cases "n = THEME_COOKIE")
      (simp_all add: nv plain_pair_trim theme_at_pair theme_of_value_tail split: option.split)
qed (simp add: cookie_tail_def)

lemma theme_match_jar: "plain_jar j \<Longrightarrow> theme_match (document_cookie j) = first_theme j"
proof (cases j)
  case Nil
  then show ?thesis by (simp add: document_cookie_def theme_match_def theme_at_def THEME_COOKIE_def)
next
  case (Cons nv r)
  assume j: "plain_jar j"
  obtain n v where nv: "nv = (n, v)" by (cases nv)
  with j Cons have p: "plain n" "plain v" "plain_jar r" by (simp_all add: plain_jar_def)
  have "theme_later (n @ CHR ''='' # v @ cookie_tail r) = first_theme r"
    using theme_later_skip [of "n @ CHR ''='' # v"] plain_no_sep [OF p(1)] plain_no_sep [OF p(2)]
      theme_later_jar [OF p(3)] by simp
  with p show ?thesis
    by (cases "n = THEME_COOKIE")
      (simp_all add: Cons nv document_cookie_tail theme_match_def theme_at_pair theme_of_value_tail
        split: option.split)
qed

lemma first_theme_found:
  "map_of j THEME_COOKIE = Some v \<Longrightarrow> theme_of_value v = Some th \<Longrightarrow> first_theme j = Some th"
  by (induction j) (auto split: if_splits)

text \<open>
  The script has no anchor at the end of its pattern: it takes any value that begins with the name
  of a theme, where the application accepts the name alone.
\<close>

lemma script_takes_prefix:
  "theme_match (document_cookie [(THEME_COOKIE, ''lighter'')]) = Some Light"
  "storedTheme [(THEME_COOKIE, ''lighter'')] = Inr None"
  by code_simp+

lemma theme_kept_by_writes:
  assumes "list_all (\<lambda>(n, v). plain n \<and> n \<noteq> THEME_COOKIE) writes"
  shows "map_of (fold (\<lambda>(n, v). writeCookie https n v) writes j) THEME_COOKIE = map_of j THEME_COOKIE"
  using assms by (induction writes arbitrary: j) (auto simp: writeCookie_plain update_conv)

lemma plain_kept_by_writes:
  assumes "list_all (\<lambda>(n, v). plain n \<and> n \<noteq> THEME_COOKIE) writes" and "plain_jar j"
  shows "plain_jar (fold (\<lambda>(n, v). writeCookie https n v) writes j)"
  using assms
  by (induction writes arbitrary: j) (auto simp: writeCookie_plain plain_update plain_encode)

lemma encoded_theme: "encodeURIComponent (theme_text th) = theme_text th"
  by (cases th) (simp_all add: theme_text_def unreserved_def)

lemma theme_of_text: "theme_of_value (theme_text th) = Some th"
  by (cases th) (simp_all add: theme_of_value_def theme_text_def)

text \<open>
  C33: no page is painted in the wrong theme first: once somebody has switched the theme, the script
  of the first paint puts a freshly loaded document into exactly the theme switched to, whatever
  other cookies have been written since, and what the application then reads from the cookie and
  sets again changes nothing.
\<close>

theorem first_paint_has_the_theme:
  assumes "plain_jar (theme_jar s)" and "list_all (\<lambda>(n, v). plain n \<and> n \<noteq> THEME_COOKIE) writes"
    and "j = fold (\<lambda>(n, v). writeCookie https n v) writes (theme_jar (snd (toggleTheme https s)))"
    and "painted = theme_script \<lparr>data_theme = None, theme_jar = j\<rparr>"
  shows "currentTheme painted = fst (toggleTheme https s)
       \<and> (\<exists>stored. storedTheme j = Inr stored \<and> initTheme stored painted = painted)"
proof -
  define th where "th = fst (toggleTheme https s)"
  have jar: "theme_jar (snd (toggleTheme https s)) = AList.update THEME_COOKIE (theme_text th) (theme_jar s)"
    by (simp add: th_def toggleTheme_def Let_def applyTheme_def writeCookie_plain encoded_theme)
  have pj: "plain_jar j"
    unfolding assms(3) jar
    using plain_encode [of "theme_text th"]
    by (intro plain_kept_by_writes assms(2) plain_update assms(1)) (simp_all add: encoded_theme)
  have at: "map_of j THEME_COOKIE = Some (theme_text th)"
    by (simp add: assms(3) theme_kept_by_writes [OF assms(2)] jar update_conv)
  have "theme_match (document_cookie j) = Some th"
    using theme_match_jar [OF pj] first_theme_found [OF at theme_of_text] by simp
  then have painted: "painted = \<lparr>data_theme = Some (theme_text th), theme_jar = j\<rparr>"
    by (simp add: assms(4) theme_script_def)
  have "decodeURIComponent (theme_text th) = Some (theme_text th)"
    using decode_encode [of "theme_text th"] by (simp add: encoded_theme)
  then have "storedTheme j = Inr (Some th)"
    using readCookie_plain [OF pj] at by (cases th) (simp_all add: storedTheme_def theme_text_def)
  then show ?thesis
    unfolding th_def [symmetric] painted
    by (cases th) (simp_all add: currentTheme_def theme_text_def initTheme_def)
qed

theorem first_paint_has_the_theme_witness:
  "currentTheme (theme_script \<lparr>data_theme = None,
     theme_jar = fold (\<lambda>(n, v). writeCookie True n v) [(NAME_COOKIE, ''a; b'')]
       (theme_jar (snd (toggleTheme True \<lparr>data_theme = None, theme_jar = []\<rparr>)))\<rparr>) = Light"
  using first_paint_has_the_theme [of "\<lparr>data_theme = None, theme_jar = []\<rparr>" "[(NAME_COOKIE, ''a; b'')]" _ True]
  by (simp add: plain_jar_def NAME_COOKIE_def THEME_COOKIE_def plain_def plain_char_def
      toggleTheme_def currentTheme_def Let_def)

section \<open>Watching the catalogs\<close>

text \<open>
  The timer of \<open>watchCatalogs\<close>: when it is due, and when the registry has been regenerated. An
  event arrives with its time; a timer that is due by then has fired before.
\<close>

record catalog_watch =
  pending_at :: "nat option"
  regenerated :: "nat list"

definition new_watch :: catalog_watch where
  "new_watch = \<lparr>pending_at = None, regenerated = []\<rparr>"

definition elapse :: "nat \<Rightarrow> catalog_watch \<Rightarrow> catalog_watch" where
  "elapse t w =
     (case pending_at w of
        Some d \<Rightarrow> if d \<le> t then w\<lparr>pending_at := None, regenerated := regenerated w @ [d]\<rparr> else w
      | None \<Rightarrow> w)"

definition directory_event :: "nat \<Rightarrow> string option \<Rightarrow> catalog_watch \<Rightarrow> catalog_watch" where
  "directory_event t name w =
     (let w' = elapse t w
      in case name of
           None \<Rightarrow> w'
         | Some n \<Rightarrow> if n = [] \<or> \<not> ends_with n json_suffix then w' else w'\<lparr>pending_at := Some (t + 50)\<rparr>)"

fun watch_run :: "(nat \<times> string option) list \<Rightarrow> catalog_watch \<Rightarrow> catalog_watch" where
  "watch_run [] w = w"
| "watch_run ((t, name) # es) w = watch_run es (directory_event t name w)"

definition of_catalog :: "string option \<Rightarrow> bool" where
  "of_catalog name \<longleftrightarrow> (case name of None \<Rightarrow> False | Some n \<Rightarrow> n \<noteq> [] \<and> ends_with n json_suffix)"

fun burst :: "nat \<Rightarrow> (nat \<times> string option) list \<Rightarrow> bool" where
  "burst t [] = True"
| "burst t ((u, name) # es) = (t \<le> u \<and> u < t + 50 \<and> of_catalog name \<and> burst u es)"

text \<open>However many events a save fires, one regeneration follows, a beat after the last of them.\<close>

lemma burst_regenerates_once:
  assumes "of_catalog name" and "burst t es" and "last (t # map fst es) + 50 \<le> later"
  shows "regenerated (elapse later (watch_run ((t, name) # es) new_watch)) = [last (t # map fst es) + 50]"
proof -
  have "watch_run es \<lparr>pending_at = Some (t + 50), regenerated = rs\<rparr> =
      \<lparr>pending_at = Some (last (t # map fst es) + 50), regenerated = rs\<rparr>" for rs
    using assms(2)
    by (induction t es rule: burst.induct)
      (auto simp: directory_event_def elapse_def of_catalog_def Let_def split: option.splits)
  moreover have "directory_event t name new_watch = \<lparr>pending_at = Some (t + 50), regenerated = []\<rparr>"
    using assms(1)
    by (auto simp: directory_event_def elapse_def of_catalog_def new_watch_def Let_def split: option.splits)
  ultimately show ?thesis using assms(3) by (simp add: elapse_def)
qed

end
