(* ===== verification/Contract.thy ===== *)
theory Contract
  imports OrderPage OrderCreate Orders MenuEditor Availability RestaurantPage RestaurantContacts Admin
    AccountTokens Login
begin

text \<open>
  What the frontend sends, held against the description of the API (\<open>api/openapi.yaml\<close>), which the
  server publishes and is tested against: the operations that change something, with the shapes
  of their bodies, and the requests each component builds. The members of an object are closed,
  because the server refuses a field it does not know. The lengths of texts and the formats of
  identifiers and timestamps are not part of the shapes here.
\<close>

section \<open>Shapes\<close>

text \<open>An object has its required members and its optional ones; an integer and an array may have bounds.\<close>

datatype schema =
    SString
  | SBool
  | SInt "int option" "int option"
  | SEnum "string list"
  | SNullable schema
  | SArr nat schema
  | SObj "(string \<times> schema) list" "(string \<times> schema) list"

definition within :: "int option \<Rightarrow> int option \<Rightarrow> json \<Rightarrow> bool" where
  "within lo hi j =
     (case j of
        JNum n \<Rightarrow> (case lo of None \<Rightarrow> True | Some l \<Rightarrow> l \<le> n) \<and> (case hi of None \<Rightarrow> True | Some h \<Rightarrow> n \<le> h)
      | _ \<Rightarrow> False)"

definition members_fit ::
  "(string \<times> (json \<Rightarrow> bool)) list \<Rightarrow> (string \<times> (json \<Rightarrow> bool)) list \<Rightarrow> json \<Rightarrow> bool" where
  "members_fit required optional j =
     (case j of
        JObj ms \<Rightarrow>
          list_all (\<lambda>(k, fits). case map_of ms k of None \<Rightarrow> False | Some v \<Rightarrow> fits v) required
          \<and> list_all (\<lambda>(k, v). case map_of (required @ optional) k of None \<Rightarrow> False | Some fits \<Rightarrow> fits v) ms
      | _ \<Rightarrow> False)"

primrec conforms :: "schema \<Rightarrow> json \<Rightarrow> bool" where
  "conforms SString = (\<lambda>j. case j of JStr _ \<Rightarrow> True | _ \<Rightarrow> False)"
| "conforms SBool = (\<lambda>j. case j of JBool _ \<Rightarrow> True | _ \<Rightarrow> False)"
| "conforms (SInt lo hi) = within lo hi"
| "conforms (SEnum vs) = (\<lambda>j. case j of JStr v \<Rightarrow> v \<in> set vs | _ \<Rightarrow> False)"
| "conforms (SNullable s) = (\<lambda>j. case j of JNull \<Rightarrow> True | _ \<Rightarrow> conforms s j)"
| "conforms (SArr n s) = (\<lambda>j. case j of JArr js \<Rightarrow> n \<le> length js \<and> list_all (conforms s) js | _ \<Rightarrow> False)"
| "conforms (SObj required optional) =
     members_fit (map (map_prod (\<lambda>k. k) conforms) required) (map (map_prod (\<lambda>k. k) conforms) optional)"

section \<open>The operations\<close>

definition text_member :: "string \<Rightarrow> string \<times> schema" where
  "text_member k = (k, SString)"

definition ids_schema :: schema where
  "ids_schema = SArr 0 SString"

definition register_schema :: schema where
  "register_schema = SObj (map text_member [''name'', ''password'']) (map text_member [''display_name'', ''email''])"

definition login_schema :: schema where
  "login_schema = SObj (map text_member [''name'', ''password'']) []"

definition patch_user_schema :: schema where
  "patch_user_schema =
     SObj [] (map text_member [''name'', ''display_name'', ''email'', ''password'', ''current_password''])"

definition token_schema :: schema where
  "token_schema = SObj [(''name'', SString)] [(''expires_at'', SString)]"

definition money_members :: "(string \<times> schema) list" where
  "money_members =
     [(''min_order_value_cents'', SNullable (SInt None None)), (''delivery_fee_cents'', SNullable (SInt None None))]"

definition contact_schema :: schema where
  "contact_schema =
     SObj (map text_member [''contact_type_id'', ''value'']) [(''label'', SString), (''sort_order'', SInt None None)]"

definition create_restaurant_schema :: schema where
  "create_restaurant_schema =
     SObj [(''name'', SString), (''currency_code'', SString), (''contacts'', SArr 1 contact_schema)]
       ([(''logo_image_id'', SNullable SString), (''notes'', SString)] @ money_members)"

definition patch_restaurant_schema :: schema where
  "patch_restaurant_schema =
     SObj [] ([(''name'', SString), (''currency_code'', SString), (''logo_image_id'', SNullable SString),
               (''notes'', SString)] @ money_members)"

definition hours_schema :: schema where
  "hours_schema =
     SObj [(''opening_hours'',
       SArr 0 (SObj [(''day_of_week'', SInt (Some 1) (Some 7)), (''start'', SString), (''end'', SString)] []))] []"

definition availability_schema :: schema where
  "availability_schema =
     SObj [] [(''name'', SString), (''on_date'', SNullable SString), (''weekdays'', SArr 0 (SInt (Some 1) (Some 7))),
              (''start_time'', SNullable SString), (''end_time'', SNullable SString), (''sort_order'', SInt None None)]"

definition attach_schema :: schema where
  "attach_schema = SObj [(''filter_ids'', ids_schema)] []"

definition duplicate_schema :: schema where
  "duplicate_schema = SObj [] [(''label'', SString)]"

definition menu_item_schema :: schema where
  "menu_item_schema =
     SObj [(''name'', SString), (''price_cents'', SInt None None)]
       [(''category_id'', SNullable SString), (''external_id'', SString), (''description'', SString),
        (''image_id'', SNullable SString), (''available'', SBool), (''tag_ids'', ids_schema),
        (''allergen_ids'', ids_schema), (''additive_ids'', ids_schema)]"

definition modification_schema :: schema where
  "modification_schema =
     SObj [(''name'', SString)] [(''price_delta_cents'', SInt None None), (''sort_order'', SInt None None)]"

definition patch_modification_schema :: schema where
  "patch_modification_schema =
     SObj [] [(''name'', SString), (''price_delta_cents'', SInt None None), (''sort_order'', SInt None None)]"

definition fulfilment_schema :: schema where
  "fulfilment_schema = SEnum [''pickup'', ''delivery'']"

definition create_order_schema :: schema where
  "create_order_schema =
     SObj [(''restaurant_id'', SString), (''fulfilment'', fulfilment_schema), (''fulfilment_at'', SString),
           (''deadline_at'', SString)]
       (map text_member [''money_collector_id'', ''pickup_person_id''])"

definition patch_order_schema :: schema where
  "patch_order_schema =
     SObj [] [(''restaurant_id'', SString), (''fulfilment'', fulfilment_schema), (''fulfilment_at'', SString),
              (''deadline_at'', SString), (''money_collector_id'', SString), (''pickup_person_id'', SString)]"

definition create_item_schema :: schema where
  "create_item_schema =
     SObj [(''menu_item_id'', SString), (''quantity'', SInt (Some 1) None)]
       [(''note'', SString), (''modification_ids'', ids_schema)]"

definition patch_item_schema :: schema where
  "patch_item_schema =
     SObj [] [(''quantity'', SInt (Some 1) None), (''note'', SString), (''modification_ids'', ids_schema)]"

text \<open>A path is described by its segments, of which some stand for an identifier.\<close>

datatype path_part = Lit string | Param

datatype api_content = NoBody | JsonBody schema | HtmlBody

datatype api_operation =
  Operation (op_method: string) (op_path: "path_part list") (op_content: api_content)

definition account_operations :: "api_operation list" where
  "account_operations =
     [Operation ''POST'' [Lit ''auth'', Lit ''register'']
         (JsonBody register_schema),
      Operation ''POST'' [Lit ''auth'', Lit ''login'']
         (JsonBody login_schema),
      Operation ''POST'' [Lit ''auth'', Lit ''logout'']
         NoBody,
      Operation ''POST'' [Lit ''auth'', Lit ''password-reset'']
         (JsonBody (SObj [(''name'', SString)] [])),
      Operation ''POST'' [Lit ''auth'', Lit ''password-reset'', Param]
         (JsonBody (SObj [(''password'', SString)] [])),
      Operation ''PATCH'' [Lit ''users'', Param]
         (JsonBody patch_user_schema),
      Operation ''DELETE'' [Lit ''users'', Param]
         NoBody,
      Operation ''POST'' [Lit ''users'', Param, Lit ''tokens'']
         (JsonBody token_schema),
      Operation ''DELETE'' [Lit ''users'', Param, Lit ''tokens'', Param]
         NoBody,
      Operation ''PUT'' [Lit ''pages'', Param]
         HtmlBody,
      Operation ''POST'' [Lit ''cleanup'']
         NoBody]"

definition restaurant_operations :: "api_operation list" where
  "restaurant_operations =
     [Operation ''POST'' [Lit ''restaurants'']
         (JsonBody create_restaurant_schema),
      Operation ''PATCH'' [Lit ''restaurants'', Param]
         (JsonBody patch_restaurant_schema),
      Operation ''DELETE'' [Lit ''restaurants'', Param]
         NoBody,
      Operation ''POST'' [Lit ''restaurants'', Param, Lit ''contacts'']
         (JsonBody contact_schema),
      Operation ''PUT'' [Lit ''restaurants'', Param, Lit ''contacts'', Param]
         (JsonBody contact_schema),
      Operation ''DELETE'' [Lit ''restaurants'', Param, Lit ''contacts'', Param]
         NoBody,
      Operation ''PUT'' [Lit ''restaurants'', Param, Lit ''opening-hours'']
         (JsonBody hours_schema),
      Operation ''POST'' [Lit ''restaurants'', Param, Lit ''availability'']
         (JsonBody availability_schema),
      Operation ''PATCH'' [Lit ''restaurants'', Param, Lit ''availability'', Param]
         (JsonBody availability_schema),
      Operation ''DELETE'' [Lit ''restaurants'', Param, Lit ''availability'', Param]
         NoBody]"

definition menu_operations :: "api_operation list" where
  "menu_operations =
     [Operation ''PUT'' [Lit ''restaurants'', Param, Lit ''categories'', Param, Lit ''availability'']
         (JsonBody attach_schema),
      Operation ''PUT'' [Lit ''restaurants'', Param, Lit ''menu-items'', Param, Lit ''availability'']
         (JsonBody attach_schema),
      Operation ''POST'' [Lit ''restaurants'', Param, Lit ''categories'']
         (JsonBody (SObj [(''name'', SString)] [(''sort_order'', SInt None None)])),
      Operation ''PATCH'' [Lit ''restaurants'', Param, Lit ''categories'', Param]
         (JsonBody (SObj [] [(''name'', SString), (''sort_order'', SInt None None)])),
      Operation ''DELETE'' [Lit ''restaurants'', Param, Lit ''categories'', Param]
         NoBody,
      Operation ''POST'' [Lit ''restaurants'', Param, Lit ''categories'', Param, Lit ''duplicate'']
         (JsonBody duplicate_schema),
      Operation ''POST'' [Lit ''restaurants'', Param, Lit ''menu-items'']
         (JsonBody menu_item_schema),
      Operation ''PATCH'' [Lit ''restaurants'', Param, Lit ''menu-items'', Param]
         (JsonBody menu_item_schema),
      Operation ''DELETE'' [Lit ''restaurants'', Param, Lit ''menu-items'', Param]
         NoBody,
      Operation ''POST'' [Lit ''restaurants'', Param, Lit ''menu-items'', Param, Lit ''duplicate'']
         (JsonBody duplicate_schema),
      Operation ''POST'' [Lit ''restaurants'', Param, Lit ''menu-items'', Param, Lit ''modifications'']
         (JsonBody modification_schema),
      Operation ''PATCH'' [Lit ''restaurants'', Param, Lit ''menu-items'', Param, Lit ''modifications'', Param]
         (JsonBody patch_modification_schema),
      Operation ''DELETE'' [Lit ''restaurants'', Param, Lit ''menu-items'', Param, Lit ''modifications'', Param]
         NoBody]"

definition order_operations :: "api_operation list" where
  "order_operations =
     [Operation ''POST'' [Lit ''orders'']
         (JsonBody create_order_schema),
      Operation ''PATCH'' [Lit ''orders'', Param]
         (JsonBody patch_order_schema),
      Operation ''DELETE'' [Lit ''orders'', Param]
         NoBody,
      Operation ''POST'' [Lit ''orders'', Param, Lit ''items'']
         (JsonBody create_item_schema),
      Operation ''PATCH'' [Lit ''orders'', Param, Lit ''items'', Param]
         (JsonBody patch_item_schema),
      Operation ''DELETE'' [Lit ''orders'', Param, Lit ''items'', Param]
         NoBody,
      Operation ''PUT'' [Lit ''orders'', Param, Lit ''items'', Param, Lit ''paid'']
         (JsonBody (SObj [(''paid'', SBool)] [])),
      Operation ''POST'' [Lit ''orders'', Param, Lit ''pickup-person'']
         NoBody,
      Operation ''DELETE'' [Lit ''orders'', Param, Lit ''pickup-person'']
         NoBody,
      Operation ''POST'' [Lit ''orders'', Param, Lit ''money-collector'']
         NoBody,
      Operation ''DELETE'' [Lit ''orders'', Param, Lit ''money-collector'']
         NoBody,
      Operation ''POST'' [Lit ''orders'', Param, Lit ''messages'']
         (JsonBody (SObj [(''body'', SString)] []))]"

definition api_operations :: "api_operation list" where
  "api_operations = account_operations @ restaurant_operations @ menu_operations @ order_operations"

section \<open>A request that the description knows\<close>

definition part_fits :: "path_part \<Rightarrow> string \<Rightarrow> bool" where
  "part_fits p s = (case p of Lit l \<Rightarrow> s = l | Param \<Rightarrow> s \<noteq> [])"

definition path_fits :: "path_part list \<Rightarrow> string \<Rightarrow> bool" where
  "path_fits ps path = list_all2 part_fits (Lit [] # ps) (split_on (CHR ''/'') path)"

text \<open>An operation without a body takes none, or an empty object.\<close>

definition content_fits :: "api_content \<Rightarrow> json option \<Rightarrow> bool" where
  "content_fits c body =
     (case (c, body) of
        (NoBody, None) \<Rightarrow> True
      | (NoBody, Some j) \<Rightarrow> j = JObj []
      | (JsonBody s, Some j) \<Rightarrow> conforms s j
      | (HtmlBody, Some j) \<Rightarrow> conforms SString j
      | _ \<Rightarrow> False)"

definition describes :: "http_call \<Rightarrow> api_operation \<Rightarrow> bool" where
  "describes c p \<longleftrightarrow>
     op_method p = call_method c \<and> path_fits (op_path p) (call_path c) \<and> content_fits (op_content p) (call_body c)"

definition documented :: "http_call \<Rightarrow> bool" where
  "documented c = list_ex (describes c) api_operations"

text \<open>An identifier that stands in one segment of a path.\<close>

definition plain_id :: "string \<Rightarrow> bool" where
  "plain_id s \<longleftrightarrow> s \<noteq> [] \<and> CHR ''/'' \<notin> set s"

lemma documented_by:
  "list_ex (describes c) account_operations \<Longrightarrow> documented c"
  "list_ex (describes c) restaurant_operations \<Longrightarrow> documented c"
  "list_ex (describes c) menu_operations \<Longrightarrow> documented c"
  "list_ex (describes c) order_operations \<Longrightarrow> documented c"
  by (simp_all add: documented_def api_operations_def)

lemma plain_split [simp]:
  "plain_id s \<Longrightarrow> split_on (CHR ''/'') s = [s]"
  "plain_id s \<Longrightarrow> split_on (CHR ''/'') (s @ CHR ''/'' # r) = s # split_on (CHR ''/'') r"
  "plain_id s \<Longrightarrow> s \<noteq> []"
  by (auto simp: plain_id_def split_on_no_sep split_on_append_sep)

lemma members_fit_obj [simp]:
  "members_fit required optional (JObj ms) \<longleftrightarrow>
     list_all (\<lambda>(k, fits). case map_of ms k of None \<Rightarrow> False | Some v \<Rightarrow> fits v) required
     \<and> list_all (\<lambda>(k, v). case map_of (required @ optional) k of None \<Rightarrow> False | Some fits \<Rightarrow> fits v) ms"
  by (simp add: members_fit_def)

lemma within_num [simp]:
  "within lo hi (JNum n) \<longleftrightarrow>
     (case lo of None \<Rightarrow> True | Some l \<Rightarrow> l \<le> n) \<and> (case hi of None \<Rightarrow> True | Some h \<Rightarrow> n \<le> h)"
  by (simp add: within_def)

lemma nullable_fits [simp]:
  "conforms (SNullable SString) (json_opt v)"
  "conforms (SNullable (SInt None None)) (json_num_opt n)"
  "conforms (SNullable SString) (null_if_empty t)"
  "conforms (SNullable s) JNull"
  "conforms (SNullable SString) (JStr t)"
  by (simp_all add: json_opt_def json_num_opt_def null_if_empty_def within_def split: option.split)

lemma ids_fit [simp]: "conforms ids_schema (JArr (map (\<lambda>x. JStr (f x)) xs))"
  by (simp add: ids_schema_def list_all_iff)

lemma fulfilment_fits [simp]: "conforms fulfilment_schema (JStr v) \<longleftrightarrow> v = ''pickup'' \<or> v = ''delivery''"
  by (simp add: fulfilment_schema_def)

lemmas contract_simps =
  describes_def path_fits_def part_fits_def content_fits_def text_member_def

subsection \<open>Orders\<close>

lemmas order_shapes =
  order_operations_def create_order_schema_def patch_order_schema_def create_item_schema_def patch_item_schema_def

lemma order_post_documented:
  "nw_fulfilment f \<in> {''pickup'', ''delivery''} \<Longrightarrow> documented (order_post f a b)"
  by (rule documented_by(4)) (auto simp: contract_simps order_shapes order_post_def)

lemma order_patch_documented:
  "plain_id (cx_id cx) \<Longrightarrow> oe_fulfilment e \<in> {''pickup'', ''delivery''} \<Longrightarrow> documented (order_patch cx e a b)"
  by (rule documented_by(4)) (auto simp: contract_simps order_shapes order_patch_def)

lemma line_call_documented:
  "plain_id (cx_id cx) \<Longrightarrow> 1 \<le> n \<Longrightarrow> (case ie_existing e of None \<Rightarrow> True | Some it \<Rightarrow> plain_id (oi_id it)) \<Longrightarrow>
     documented (line_call cx e n)"
  by (rule documented_by(4))
    (auto simp: contract_simps order_shapes line_call_def line_body_def split: option.split)

lemma job_call_documented:
  "plain_id (cx_id cx) \<Longrightarrow> documented (job_call cx ''POST'' j (Some (JObj [])))"
  "plain_id (cx_id cx) \<Longrightarrow> documented (job_call cx ''DELETE'' j None)"
  by (rule documented_by(4), cases j, simp_all add: contract_simps order_shapes job_call_def job_path_def)+

lemma chat_call_documented:
  "plain_id (cx_id cx) \<Longrightarrow> documented (messages_call cx ''POST'' (Some (JObj [(''body'', JStr txt)])))"
  by (rule documented_by(4)) (simp add: contract_simps order_shapes messages_call_def)

lemma order_deletions_documented:
  "plain_id oid \<Longrightarrow> documented (Call ''DELETE'' (''/orders/'' @ oid) None)"
  "plain_id oid \<Longrightarrow> plain_id iid \<Longrightarrow> documented (Call ''DELETE'' (''/orders/'' @ oid @ ''/items/'' @ iid) None)"
  by (rule documented_by(4), simp add: contract_simps order_shapes)+

lemma paid_call_documented:
  "plain_id oid \<Longrightarrow> plain_id iid \<Longrightarrow>
     documented (Call ''PUT'' (''/orders/'' @ oid @ ''/items/'' @ iid @ ''/paid'') (Some (JObj [(''paid'', JBool b)])))"
  by (rule documented_by(4)) (simp add: contract_simps order_shapes)

text \<open>What an action sends, as far as the description knows it.\<close>

definition documented_trace :: "effect list \<Rightarrow> bool" where
  "documented_trace es = list_all (\<lambda>e. case e of Sent c \<Rightarrow> documented c | _ \<Rightarrow> True) es"

lemma submit_item_documented:
  assumes "plain_id (cx_id cx)"
    and "case ie_existing (local v) of None \<Rightarrow> True | Some it \<Rightarrow> plain_id (oi_id it)"
    and "documented_trace (trace v)"
  shows "documented_trace (trace (snd (submit_item srv cx v)))"
  using assms line_call_documented [OF assms(1) _ assms(2)]
  by (auto simp: submit_item_run documented_trace_def Let_def split: option.split sum.split)

subsection \<open>Restaurants\<close>

lemmas restaurant_shapes =
  restaurant_operations_def create_restaurant_schema_def patch_restaurant_schema_def contact_schema_def
  money_members_def availability_schema_def

lemma restaurant_post_documented: "documented (restaurant_post f)"
  by (rule documented_by(2)) (simp add: contract_simps restaurant_shapes restaurant_post_def contact_body_def)

lemma data_call_documented: "plain_id (r_id (rp_restaurant l)) \<Longrightarrow> documented (data_call l)"
  by (rule documented_by(2))
    (simp add: contract_simps restaurant_shapes data_call_def restaurant_path_def Let_def del: conforms.simps(5))

lemma contact_calls_documented:
  "plain_id rid \<Longrightarrow> plain_id (co_id (cr_contact r)) \<Longrightarrow> documented (store_call rid r)"
  "plain_id rid \<Longrightarrow> plain_id (co_id (cr_contact r)) \<Longrightarrow> documented (drop_call rid r)"
  "plain_id rid \<Longrightarrow> documented (new_contact_call rid l)"
  by (rule documented_by(2),
      simp add: contract_simps restaurant_shapes store_call_def drop_call_def new_contact_call_def
        contacts_path_def contact_body_def)+

lemma day_value:
  assumes "v \<in> ch_value ` set (day_choices i lc)"
  shows "\<exists>d. parse_int v = Some d \<and> 1 \<le> d \<and> d \<le> 7"
proof -
  from assms obtain d where d: "v = string_of_nat d" "1 \<le> d" "d \<le> 7"
    by (auto simp: day_choices_def)
  with day_number [of d i lc] show ?thesis by auto
qed

lemma hours_call_documented:
  assumes "plain_id (r_id (rp_restaurant l))"
    and "list_all (\<lambda>r. hr_day r \<in> ch_value ` set (day_choices i lc)) (hf_rows (rp_hours l))"
  shows "documented (hours_call l)"
proof (rule documented_by(2))
  let ?row = "conforms (SObj [(''day_of_week'', SInt (Some 1) (Some 7)), (''start'', SString), (''end'', SString)] [])"
  have "?row (JObj [(''day_of_week'', json_num_opt (parse_int (hr_day r))), (''start'', JStr (hr_start r)),
          (''end'', JStr (hr_end r))])" if "r \<in> set (hf_rows (rp_hours l))" for r
    using that assms(2) day_value [of "hr_day r" i lc] by (auto simp: list_all_iff json_num_opt_def)
  then have "conforms (SArr 0 (SObj [(''day_of_week'', SInt (Some 1) (Some 7)), (''start'', SString), (''end'', SString)] []))
      (hours_json (hours_content (hf_rows (rp_hours l))))"
    by (auto simp: hours_json_def hours_content_def list_all_iff simp del: conforms.simps(7))
  then show "list_ex (describes (hours_call l)) restaurant_operations"
    using assms(1)
    by (simp add: contract_simps restaurant_operations_def hours_schema_def hours_call_def restaurant_path_def
        del: conforms.simps(6))
qed

lemma filter_call_documented:
  assumes "plain_id rid" and "case existing of None \<Rightarrow> True | Some x \<Rightarrow> plain_id (af_id x)"
    and "map fst (fe_days e) = WEEKDAYS"
  shows "documented (filter_call rid existing e)"
proof (rule documented_by(2))
  have "d \<in> set WEEKDAYS" if "(d, b) \<in> set (fe_days e)" for d b
    using that by (metis assms(3) fst_conv image_eqI set_map)
  then have "conforms (SArr 0 (SInt (Some 1) (Some 7))) (JArr (map (\<lambda>(d, b). JNum (int d)) (filter snd (fe_days e))))"
    by (fastforce simp: list_all_iff WEEKDAYS_def)
  then show "list_ex (describes (filter_call rid existing e)) restaurant_operations"
    using assms(1,2)
    by (simp add: contract_simps restaurant_operations_def availability_schema_def filter_call_def filters_path_def
        filter_payload_def del: conforms.simps(5,6) split: option.splits)
qed

subsection \<open>The menu\<close>

lemmas menu_shapes =
  menu_operations_def menu_item_schema_def attach_schema_def duplicate_schema_def modification_schema_def
  patch_modification_schema_def

lemma attach_documented:
  assumes "plain_id rid" and "plain_id el_id" and "kind \<in> {''categories'', ''menu-items''}"
  shows "documented (Call ''PUT'' (''/restaurants/'' @ rid @ ''/'' @ kind @ ''/'' @ el_id @ ''/availability'')
     (Some (JObj [(''filter_ids'', JArr (map JStr chosen))])))"
  using assms ids_fit [of "\<lambda>x. x" chosen] by (intro documented_by(3)) (auto simp: contract_simps menu_shapes)

lemma dish_call_documented:
  assumes "plain_id (dc_restaurant_id dc)" and "case dc_item dc of None \<Rightarrow> True | Some item \<Rightarrow> plain_id (mi_id item)"
  shows "documented (dish_call dc e cents)"
  using assms ids_fit [of "\<lambda>x. x"]
  by (intro documented_by(3))
    (simp add: contract_simps menu_shapes dish_call_def dish_path_def dish_payload_def del: conforms.simps(5)
      split: option.splits)

lemma option_calls_documented:
  assumes "plain_id (dc_restaurant_id dc)" and "plain_id (mi_id item)"
  shows "plain_id (mo_id m) \<Longrightarrow>
       documented (Call ''PATCH'' (options_path dc item @ ''/'' @ mo_id m) (Some (JObj (option_members dc row))))"
    and "documented (Call ''POST'' (options_path dc item) (Some (JObj (option_members dc row @ [(''sort_order'', JNum n)]))))"
  using assms
  by - (rule documented_by(3),
      simp add: contract_simps menu_shapes options_path_def dish_path_def option_members_def)+

lemma menu_calls_documented:
  assumes "plain_id (r_id (mp_restaurant mp))"
  shows "plain_id (ca_id c) \<Longrightarrow> documented (sort_order_call mp c n)"
    and "plain_id (ca_id c) \<Longrightarrow> documented (Call ''PATCH'' (category_path mp c) (Some (JObj [(''name'', JStr nm)])))"
    and "plain_id (ca_id c) \<Longrightarrow> documented (Call ''DELETE'' (category_path mp c) None)"
    and "documented (Call ''POST'' (menu_base mp @ ''/categories'')
           (Some (JObj [(''name'', JStr nm), (''sort_order'', JNum n)])))"
  using assms
  by - (rule documented_by(3), simp add: contract_simps menu_shapes sort_order_call_def category_path_def menu_base_def)+

lemma duplicates_documented:
  assumes "plain_id (r_id (mp_restaurant mp))" and "kind \<in> {''categories'', ''menu-items''}" and "plain_id el_id"
  shows "documented (Call ''POST'' (menu_base mp @ ''/'' @ (kind @ ''/'' @ el_id) @ ''/duplicate'')
           (Some (JObj [(''label'', JStr copy)])))"
  using assms by (intro documented_by(3)) (auto simp: contract_simps menu_shapes menu_base_def)

subsection \<open>Accounts\<close>

lemmas account_shapes =
  account_operations_def register_schema_def login_schema_def patch_user_schema_def token_schema_def

lemma encoded_id: "s \<noteq> [] \<Longrightarrow> plain_id (encodeURIComponent s)"
proof -
  assume "s \<noteq> []"
  then have "encodeURIComponent s \<noteq> []" by (cases s) (simp_all add: escape_def)
  moreover have "CHR ''/'' \<notin> set (encodeURIComponent s)"
    using encode_set by (fastforce simp: unreserved_def hex_digit_def is_digit_def)
  ultimately show ?thesis by (simp add: plain_id_def)
qed

lemma entrance_documented:
  "documented (login_call f)" "documented (register_call g)"
  by (rule documented_by(1), simp add: contract_simps account_shapes login_call_def register_call_def)+

lemma reset_calls_documented:
  "tok \<noteq> [] \<Longrightarrow> documented (reset_call tok f)" "documented (reset_link_call u)"
  by (rule documented_by(1), simp add: contract_simps account_shapes reset_call_def reset_link_call_def encoded_id)+

lemma profile_calls_documented:
  assumes "plain_id (su_id (ag_user l))"
  shows "documented (profile_call l)" and "documented (password_call l)"
  using assms
  by - (rule documented_by(1),
      simp add: contract_simps account_shapes profile_call_def password_call_def user_path_def Let_def)+

lemma token_calls_documented:
  assumes "plain_id (su_id u)"
  shows "documented (token_call u tks)" and "plain_id tid \<Longrightarrow> documented (Call ''DELETE'' (tokens_path u @ ''/'' @ tid) None)"
  using assms
  by - (rule documented_by(1), simp add: contract_simps account_shapes token_call_def tokens_path_def user_path_def)+

lemma admin_calls_documented:
  assumes "plain_id (au_id u)"
  shows "documented (user_patch u e)" and "documented (password_patch u d)"
    and "documented (Call ''DELETE'' (user_path_of u) None)"
  using assms
  by - (rule documented_by(1), simp add: contract_simps account_shapes user_patch_def password_patch_def user_path_of_def)+

lemma content_call_documented: "documented (content_call k e)"
  by (rule documented_by(1), cases k)
    (simp_all add: contract_simps account_shapes content_call_def pages_path_def key_text_def)

section \<open>The contract\<close>



text \<open>
  The same holds where a restaurant is edited with its contacts, its opening hours, its rules of
  availability and its menu: each request is one the description of the API has, with a body of its
  shape. A day of an opening period is a number from 1 to 7, a money field that cannot be read
  is null, and a rule leaves no member out.
\<close>

theorem restaurant_requests_documented:
  assumes "plain_id (r_id (rp_restaurant l))" and "plain_id (co_id (cr_contact r))"
    and "list_all (\<lambda>h. hr_day h \<in> ch_value ` set (day_choices i lang)) (hf_rows (rp_hours l))"
    and "map fst (fe_days fe) = WEEKDAYS" and "case rule of None \<Rightarrow> True | Some x \<Rightarrow> plain_id (af_id x)"
    and "plain_id (dc_restaurant_id dc)" and "case dc_item dc of None \<Rightarrow> True | Some x \<Rightarrow> plain_id (mi_id x)"
    and "plain_id (mi_id item)" and "plain_id (mo_id m)"
  shows "list_all documented
     [restaurant_post rc, data_call l, hours_call l,
      store_call (r_id (rp_restaurant l)) r, drop_call (r_id (rp_restaurant l)) r, new_contact_call (r_id (rp_restaurant l)) cl,
      filter_call (r_id (rp_restaurant l)) rule fe, dish_call dc de cents,
      Call ''PATCH'' (options_path dc item @ ''/'' @ mo_id m) (Some (JObj (option_members dc row))),
      Call ''POST'' (options_path dc item) (Some (JObj (option_members dc row @ [(''sort_order'', JNum n)])))]"
  unfolding list.pred_inject
  by (intro conjI list.pred_inject(1) restaurant_post_documented data_call_documented
      hours_call_documented [OF assms(1,3)] contact_calls_documented filter_call_documented dish_call_documented option_calls_documented assms)

theorem restaurant_requests_documented_witness:
  "\<forall>(l :: restaurant_page) (r :: contact_row) (fe :: filter_editor) (dc :: dish_context) (de :: dish_editor) t.
     list_all documented
       [hours_call (l\<lparr>rp_restaurant := (rp_restaurant l)\<lparr>r_id := ''r1''\<rparr>,
          rp_hours := (rp_hours l)\<lparr>hf_rows := [hours_row_of t sample_intl 0 (None :: opening_period option)]\<rparr>\<rparr>),
        store_call ''r1'' (r\<lparr>cr_contact := (cr_contact r)\<lparr>co_id := ''c1''\<rparr>\<rparr>),
        filter_call ''r1'' None (fe\<lparr>fe_days := map (\<lambda>d. (d, d = 5)) WEEKDAYS\<rparr>),
        dish_call (dc\<lparr>dc_restaurant_id := ''r1'', dc_item := None\<rparr>) de 950]"
proof (intro allI)
  fix l :: restaurant_page and r :: contact_row and fe :: filter_editor and dc :: dish_context and de :: dish_editor
    and t and item :: menu_item and m :: modification and rc :: restaurant_create and cl :: contacts_state
    and row :: "string \<times> string" and n :: int
  let ?l = "l\<lparr>rp_restaurant := (rp_restaurant l)\<lparr>r_id := ''r1''\<rparr>,
    rp_hours := (rp_hours l)\<lparr>hf_rows := [hours_row_of t sample_intl 0 (None :: opening_period option)]\<rparr>\<rparr>"
  have "string_of_nat 1 = ''1''" by code_simp
  then have one: "''1'' \<in> ch_value ` set (day_choices sample_intl (tr_language t))"
    using day_number [of 1 sample_intl "tr_language t"] by simp
  then have day: "hr_day (hours_row_of t sample_intl 0 (None :: opening_period option)) = ''1''"
    by (simp add: hours_row_of_def update_hint_def select_value_def)
  show "list_all documented
       [hours_call ?l, store_call ''r1'' (r\<lparr>cr_contact := (cr_contact r)\<lparr>co_id := ''c1''\<rparr>\<rparr>),
        filter_call ''r1'' None (fe\<lparr>fe_days := map (\<lambda>d. (d, d = 5)) WEEKDAYS\<rparr>),
        dish_call (dc\<lparr>dc_restaurant_id := ''r1'', dc_item := None\<rparr>) de 950]"
    using restaurant_requests_documented [of ?l "r\<lparr>cr_contact := (cr_contact r)\<lparr>co_id := ''c1''\<rparr>\<rparr>"
        sample_intl "tr_language t" "fe\<lparr>fe_days := map (\<lambda>d. (d, d = 5)) WEEKDAYS\<rparr>" None
        "dc\<lparr>dc_restaurant_id := ''r1'', dc_item := None\<rparr>" "item\<lparr>mi_id := ''d1''\<rparr>" "m\<lparr>mo_id := ''o1''\<rparr>"
        rc cl de 950 row n] day one
    by (simp add: plain_id_def comp_def)
qed

end
