(* ===== verification/FormDialog.thy ===== *)
theory FormDialog
  imports Editing Modal
begin

text \<open>
  The dialog with a form as it is drawn (\<open>src/components/formdialog.ts\<close>): the fields inside a form,
  the buttons in the footer outside it, and what has the focus when it opens. What happens when it
  is sent is \<open>send\<close>, in the theory of the editing parts.
\<close>

datatype 'a form_action = SendForm | FieldAction 'a

datatype focus_wish = FocusFirst | FocusCancel | FocusNode "nat list"

record 'a form_dialog_options =
  fd_title :: string
  fd_fields :: "'a form_action modal_action child list"
  fd_submit_label :: "string option"
  fd_danger :: bool
  fd_extra :: "'a form_action modal_action node list"
  fd_focus :: focus_wish
  fd_class :: "string option"

definition form_dialog_id :: "nat \<Rightarrow> string" where
  "form_dialog_id n = ''form-dialog-'' @ string_of_nat n"

definition submit_button :: "translator \<Rightarrow> 'a form_dialog_options \<Rightarrow> nat \<Rightarrow> 'a form_action modal_action node" where
  "submit_button t opts n =
     set_attribute ''form'' (form_dialog_id n)
       (button ((plain_button (case fd_submit_label opts of None \<Rightarrow> translate t ''action.save'' [] | Some l \<Rightarrow> l))
          \<lparr>bt_variant := (if fd_danger opts then Danger else Primary), bt_submit := True\<rparr>))"

definition cancel_button :: "translator \<Rightarrow> 'a form_action modal_action node" where
  "cancel_button t = button ((plain_button (translate t ''action.cancel'' []))\<lparr>bt_onclick := Some CloseButton\<rparr>)"

definition dialog_form :: "status \<Rightarrow> 'a form_dialog_options \<Rightarrow> nat \<Rightarrow> 'a form_action modal_action node" where
  "dialog_form s opts n =
     set_attribute ''id'' (form_dialog_id n)
       (form (Inner SendForm) (fd_fields opts @ [CNode (status_element s)]))"

text \<open>
  Two counters number what is built: that of the form dialogs and that of the modals. The dialog is
  answered with the first of them moved on.
\<close>

definition openFormDialog ::
  "translator \<Rightarrow> 'a form_dialog_options \<Rightarrow> status \<Rightarrow> nat \<Rightarrow> nat \<Rightarrow> 'a form_action modal_action node \<times> nat" where
  "openFormDialog t opts s modals n =
     (modal_dialog modals (fd_title opts) [CNode (dialog_form s opts (n + 1))]
        (fd_extra opts @ [cancel_button t, submit_button t opts (n + 1)])
        (translate t ''action.close'' []) (case fd_class opts of None \<Rightarrow> [] | Some c \<Rightarrow> c),
      n + 1)"

definition takes_text :: "'a node \<Rightarrow> bool" where
  "takes_text x \<longleftrightarrow> tag_name x \<in> {''input'', ''select'', ''textarea''}"

text \<open>What is given the focus at the end: nothing, where there is neither a wish nor a field.\<close>

definition first_focus ::
  "translator \<Rightarrow> 'a form_dialog_options \<Rightarrow> status \<Rightarrow> nat \<Rightarrow> 'a form_action modal_action node option" where
  "first_focus t opts s n =
     (case fd_focus opts of
        FocusCancel \<Rightarrow> Some (cancel_button t)
      | FocusNode path \<Rightarrow> map_of (below (dialog_form s opts n)) path
      | FocusFirst \<Rightarrow> List.find takes_text (map snd (below (dialog_form s opts n))))"

text \<open>What each action of the dialog does; the fields' own are the caller's.\<close>

fun form_dialog_do ::
  "translator \<Rightarrow> ('x dialog_scheme, bool) act \<Rightarrow> ('x dialog_scheme, unit) act
   \<Rightarrow> ('a \<Rightarrow> ('x dialog_scheme, unit) act) \<Rightarrow> 'a form_action modal_action \<Rightarrow> ('x dialog_scheme, unit) act" where
  "form_dialog_do t onSubmit after field_do CloseButton = modify (dl_open_update (\<lambda>_. False))"
| "form_dialog_do t onSubmit after field_do BackdropClick = modify (dl_open_update (\<lambda>_. False))"
| "form_dialog_do t onSubmit after field_do (Inner SendForm) = send t onSubmit after"
| "form_dialog_do t onSubmit after field_do (Inner (FieldAction a)) = field_do a"

section \<open>How it is wired\<close>

lemma set_attribute_simps [simp]:
  "actions_of (set_attribute k v x) = actions_of x"
  "tag_name (set_attribute k v x) = tag_name x"
  "kids (set_attribute k v x) = kids x"
  by (cases x; simp)+

lemma attrs_set_attribute: "tag_name x \<noteq> [] \<Longrightarrow> attrs (set_attribute k v x) = AList.update k v (attrs x)"
  by (cases x) simp_all

lemma submit_attributes:
  "attrs (button ((plain_button l)\<lparr>bt_variant := k, bt_submit := True\<rparr>)) =
     [(''class'', variant_class k), (''type'', ''submit'')]"
  by (simp add: button_def plain_button_def when_text_def when_fun_def el_def apply_attribute_def append_def
      attribute_text_def)

text \<open>
  The button in the footer belongs to the form of the same dialog and of no other: it names the
  form's own number, and no two dialogs have the same number.
\<close>

lemma form_dialog_ids: "form_dialog_id m = form_dialog_id n \<longleftrightarrow> m = n"
  by (simp add: form_dialog_id_def)

lemma form_dialog_wired:
  "tag_name (dialog_form s opts n) = ''form''"
  "get_attribute (dialog_form s opts n) ''id'' = Some (form_dialog_id n)"
  "get_attribute (submit_button t opts n) ''form'' = Some (form_dialog_id n)"
  "get_attribute (submit_button t opts n) ''type'' = Some ''submit''"
  "actions_of (submit_button t opts n) = []"
proof -
  show tag: "tag_name (dialog_form s opts n) = ''form''"
    by (simp add: dialog_form_def form_def)
  then show "get_attribute (dialog_form s opts n) ''id'' = Some (form_dialog_id n)"
    by (simp add: dialog_form_def get_attribute_def attrs_set_attribute update_conv)
  show "get_attribute (submit_button t opts n) ''form'' = Some (form_dialog_id n)"
    and "get_attribute (submit_button t opts n) ''type'' = Some ''submit''"
    by (simp_all add: submit_button_def get_attribute_def attrs_set_attribute update_conv submit_attributes
        button_def [THEN arg_cong [of _ _ tag_name]])
  have "set (actions_of (submit_button t opts n)) = {}"
    by (simp add: submit_button_def button_def node_simps plain_button_def when_text_def when_fun_def)
  then show "actions_of (submit_button t opts n) = []" by simp
qed

lemma form_dialog_offers:
  "set (actions_of (fst (openFormDialog t opts s modals n))) =
     {CloseButton, Inner SendForm} \<union> (\<Union>c \<in> set (fd_fields opts). set (child_actions c))
     \<union> (\<Union>x \<in> set (fd_extra opts). set (actions_of x))"
  by (auto simp: openFormDialog_def modal_dialog_offers dialog_form_def form_def cancel_button_def
      form_dialog_wired status_element_def set_actions_append node_simps)

end
