(* ===== verification/OrderDish.thy ===== *)
theory OrderDish
  imports OrderMenu DishEditor
begin

text \<open>
  Editing a dish from the menu of an order (\<open>editMenuItem\<close> of \<open>src/pages/order/menu.ts\<close>): the editor
  of the restaurant's menu, opened on the order page, whose menu is read again once it has saved.
\<close>

definition editMenuItem :: "order_context \<Rightarrow> 'x order_state_scheme \<Rightarrow> menu_item \<Rightarrow> dish_context option" where
  "editMenuItem cx l item =
     (case cx_reference cx of
        None \<Rightarrow> None
      | Some ref \<Rightarrow> Some
          \<lparr>dc_app = cx_app cx, dc_reference = ref, dc_restaurant_id = o_restaurant_id (header_of (os_order l)),
           dc_categories = os_categories l, dc_money = cx_money cx, dc_item = Some item,
           dc_category = mi_category_id item\<rparr>)"

definition open_dish_of_order ::
  "dish_server \<Rightarrow> order_context \<Rightarrow> menu_item \<Rightarrow> ('x order_state_scheme, dish_editor option) act" where
  "open_dish_of_order dsrv cx item =
     bind (gets (\<lambda>l. editMenuItem cx l item))
       (\<lambda>opened. case opened of
          None \<Rightarrow> ret None
        | Some dc \<Rightarrow> bind (open_dish_editor dsrv dc) (\<lambda>e. ret (Some e)))"

definition save_dish_of_order ::
  "order_server \<Rightarrow> dish_server \<Rightarrow> dish_context \<Rightarrow> ('x order_state_scheme, unit) act \<Rightarrow> dish_editor
   \<Rightarrow> ('x order_state_scheme, dish_editor) act" where
  "save_dish_of_order srv dsrv dc redraw = press_save_dish dsrv dc (reloadMenu srv redraw)"

section \<open>What a save does to the order's menu\<close>

definition categories_call :: "'x order_state_scheme \<Rightarrow> http_call" where
  "categories_call l = Call ''GET'' (''/restaurants/'' @ o_restaurant_id (header_of (os_order l)) @ ''/categories'') None"

definition menu_call :: "'x order_state_scheme \<Rightarrow> http_call" where
  "menu_call l = Call ''GET'' (menuPath (header_of (os_order l))) None"

lemma reloadMenu_run:
  "reloadMenu srv redraw w =
     (let l = local w; tr = trace w; w' = w\<lparr>trace := tr @ [Sent (categories_call l), Sent (menu_call l)]\<rparr>
      in case sv_categories srv tr (categories_call l) of
           Inl er \<Rightarrow> (Inl er, w')
         | Inr cs \<Rightarrow>
             (case sv_menu srv (tr @ [Sent (categories_call l)]) (menu_call l) of
                Inl er \<Rightarrow> (Inl er, w')
              | Inr ms \<Rightarrow> redraw (w'\<lparr>local := l\<lparr>os_categories := cs, os_menu := ms\<rparr>\<rparr>)))"
  by (simp add: reloadMenu_def act_simps categories_call_def menu_call_def Let_def split: sum.split)

text \<open>
  A dish that is saved from an order is saved in the order's restaurant, whatever the menu it was
  found in; and what the page shows afterwards is the menu as the server then answers it, for the
  time the order is for.
\<close>

lemma dish_of_order_saved:
  assumes "editMenuItem cx (local w) item = Some dc"
    and "submit_dish dsrv dc (form_start w e) = (Inr True, v)"
  shows "\<exists>e'. \<not> dl_open e' \<and> dc_restaurant_id dc = o_restaurant_id (header_of (os_order (local w)))
    \<and> dc_item dc = Some item
    \<and> save_dish_of_order srv dsrv dc redraw e w =
        (let l = local w; tr = trace v; w' = w\<lparr>trace := tr @ [Sent (categories_call l), Sent (menu_call l)]\<rparr>
         in case sv_categories srv tr (categories_call l) of
              Inl er \<Rightarrow> (Inl er, w')
            | Inr cs \<Rightarrow>
                (case sv_menu srv (tr @ [Sent (categories_call l)]) (menu_call l) of
                   Inl er \<Rightarrow> (Inl er, w')
                 | Inr ms \<Rightarrow> andthen redraw (ret e') (w'\<lparr>local := l\<lparr>os_categories := cs, os_menu := ms\<rparr>\<rparr>)))"
proof -
  from submit_closes [of "submit_dish dsrv dc" w e v "dc_t dc" "reloadMenu srv redraw", OF assms(2)]
  obtain e' where e': "save_dish_of_order srv dsrv dc redraw e w =
      andthen (reloadMenu srv redraw) (ret e') (w\<lparr>trace := trace v\<rparr>)" "\<not> dl_open e'"
    by (auto simp: save_dish_of_order_def press_save_dish_def)
  have "dc_restaurant_id dc = o_restaurant_id (header_of (os_order (local w)))" "dc_item dc = Some item"
    using assms(1) by (auto simp: editMenuItem_def split: option.splits)
  with e' show ?thesis
    by (intro exI [of _ e']) (simp add: andthen_run reloadMenu_run Let_def split: sum.split)
qed

text \<open>
  When the menu cannot be read again the dialog has closed all the same, the menu on the page is the
  old one, and its status line says nothing: the failure reaches nobody.
\<close>

lemma dish_of_order_unread:
  assumes "editMenuItem cx (local w) item = Some dc"
    and "submit_dish dsrv dc (form_start w e) = (Inr True, v)"
    and "sv_categories srv (trace v) (categories_call (local w)) = Inl er"
  shows "fst (save_dish_of_order srv dsrv dc redraw e w) = Inl er"
    and "local (snd (save_dish_of_order srv dsrv dc redraw e w)) = local w"
  using dish_of_order_saved [OF assms(1,2), of srv redraw] assms(3) by (auto simp: Let_def)

end
