(* ===== verification/ServerPassword.thy ===== *)
theory ServerPassword
  imports Password
begin

text \<open>
  The password rules as the server applies them (\<open>internal/auth/complexity.go\<close>), and their agreement
  with the indicator the person sees while typing (theory \<open>Password\<close>). A password is the list of its
  code points. \<open>nfc\<close> is the normalisation of \<open>golang.org/x/text\<close>, \<open>is_print\<close> is \<open>unicode.IsPrint\<close>.
\<close>

section \<open>The rules of the server\<close>

definition MinPasswordLength :: nat where
  "MinPasswordLength = 10"

definition MaxPasswordLength :: nat where
  "MaxPasswordLength = 256"

definition RequiredClasses :: nat where
  "RequiredClasses = 3"

definition SpecialCharacters :: "nat list" where
  "SpecialCharacters = map of_char ''<>|-_.:,;#'' @ [39, 33, 34, 167] @ map of_char ''$%&/()[]{}?@''"

datatype server_class = ClassUpper | ClassLower | ClassDigit | ClassSpecial | ClassExtended

definition AllClasses :: "server_class list" where
  "AllClasses = [ClassUpper, ClassLower, ClassDigit, ClassSpecial, ClassExtended]"

text \<open>Why a password is refused; \<open>Length\<close> is only set for a length, \<open>Satisfied\<close> only for the classes.\<close>

record complexity_error =
  TooShort :: bool
  TooLong :: bool
  Length :: nat
  Satisfied :: "server_class list"

definition server_extended :: "(nat \<Rightarrow> bool) \<Rightarrow> nat \<Rightarrow> bool" where
  "server_extended is_print r =
     (if r = 32 then False
      else if \<not> is_print r then False
      else if (65 \<le> r \<and> r \<le> 90) \<or> (97 \<le> r \<and> r \<le> 122) \<or> (48 \<le> r \<and> r \<le> 57) then False
      else r \<notin> set SpecialCharacters)"

text \<open>The five flags of the loop, as a function of the class.\<close>

definition see_rune :: "(nat \<Rightarrow> bool) \<Rightarrow> (server_class \<Rightarrow> bool) \<Rightarrow> nat \<Rightarrow> server_class \<Rightarrow> bool" where
  "see_rune is_print seen r =
     (if 65 \<le> r \<and> r \<le> 90 then seen(ClassUpper := True)
      else if 97 \<le> r \<and> r \<le> 122 then seen(ClassLower := True)
      else if 48 \<le> r \<and> r \<le> 57 then seen(ClassDigit := True)
      else if r \<in> set SpecialCharacters then seen(ClassSpecial := True)
      else if server_extended is_print r then seen(ClassExtended := True)
      else seen)"

definition SatisfiedClasses ::
  "(nat list \<Rightarrow> nat list) \<Rightarrow> (nat \<Rightarrow> bool) \<Rightarrow> nat list \<Rightarrow> server_class list" where
  "SatisfiedClasses nfc is_print password =
     filter (foldl (see_rune is_print) (\<lambda>_. False) (nfc password)) AllClasses"

definition ValidateComplexity ::
  "(nat list \<Rightarrow> nat list) \<Rightarrow> (nat \<Rightarrow> bool) \<Rightarrow> nat list \<Rightarrow> complexity_error option" where
  "ValidateComplexity nfc is_print password =
     (let normalised = nfc password; n = length normalised
      in if n < MinPasswordLength
         then Some \<lparr>TooShort = True, TooLong = False, Length = n, Satisfied = []\<rparr>
         else if MaxPasswordLength < n
         then Some \<lparr>TooShort = False, TooLong = True, Length = n, Satisfied = []\<rparr>
         else let found = SatisfiedClasses nfc is_print normalised
              in if length found < RequiredClasses
                 then Some \<lparr>TooShort = False, TooLong = False, Length = 0, Satisfied = found\<rparr>
                 else None)"

section \<open>The two rules are one\<close>

fun class_name :: "server_class \<Rightarrow> password_class" where
  "class_name ClassUpper = Upper"
| "class_name ClassLower = Lower"
| "class_name ClassDigit = Digit"
| "class_name ClassSpecial = Special"
| "class_name ClassExtended = Other"

lemma names_of_classes: "map class_name AllClasses = CLASSES"
  by (simp add: AllClasses_def CLASSES_def)

lemma special_characters_same: "SpecialCharacters = SPECIAL_CHARACTERS"
  by (simp add: SpecialCharacters_def SPECIAL_CHARACTERS_def)

lemma see_rune_of:
  assumes "\<And>c. c \<noteq> 32 \<Longrightarrow> is_print c = printable c"
  shows "see_rune is_print seen r k \<longleftrightarrow> seen k \<or> class_of printable r = Some (class_name k)"
  using assms [of r]
  by (cases k) (auto simp: see_rune_def class_of_def server_extended_def special_characters_same)

lemma seen_runes:
  assumes "\<And>c. c \<noteq> 32 \<Longrightarrow> is_print c = printable c"
  shows "foldl (see_rune is_print) seen rs k
    \<longleftrightarrow> seen k \<or> class_name k \<in> (\<Union>c \<in> set rs. set_option (class_of printable c))"
  by (induction rs arbitrary: seen) (auto simp: see_rune_of [OF assms])

lemma satisfied_classes_agree:
  assumes "\<And>c. c \<noteq> 32 \<Longrightarrow> is_print c = printable c"
  shows "map class_name (SatisfiedClasses nfc is_print p) = satisfiedClasses nfc printable p"
proof -
  have "SatisfiedClasses nfc is_print p =
      filter (\<lambda>k. class_name k \<in> set (foldl (add_class printable) [] (nfc p))) AllClasses"
    unfolding SatisfiedClasses_def
    by (rule filter_cong) (simp_all add: found_classes seen_runes [OF assms])
  then show ?thesis
    by (simp add: satisfiedClasses_def Let_def names_of_classes [symmetric] filter_map comp_def)
qed

text \<open>
  C19: the browser and the server apply one password rule. The server accepts a password exactly when
  the indicator calls it acceptable; when it refuses one, it says too short, too long, or how many
  classes are met, exactly as the indicator shows them, in the same order. The server normalises
  twice, which is why normalising has to be idempotent, as it is for NFC; the tables of printable
  characters of the two languages need to agree but for the space, which earns nothing in either.
\<close>

theorem password_rules_agree:
  assumes idempotent: "\<And>q. nfc (nfc q) = nfc q"
    and tables: "\<And>c. c \<noteq> 32 \<Longrightarrow> is_print c = printable c"
  shows "(case ValidateComplexity nfc is_print p of
      None \<Rightarrow> acceptable (checkPassword nfc printable p)
    | Some e \<Rightarrow>
        \<not> acceptable (checkPassword nfc printable p)
        \<and> TooShort e = (\<not> longEnough (checkPassword nfc printable p))
        \<and> TooLong e = tooLong (checkPassword nfc printable p)
        \<and> (if TooShort e = TooLong e
            then map class_name (Satisfied e) = satisfied (checkPassword nfc printable p)
            else Length e = length (nfc p)))"
proof -
  have found: "map class_name (SatisfiedClasses nfc is_print (nfc p)) = satisfiedClasses nfc printable p"
    using satisfied_classes_agree [OF tables, where nfc = nfc and p = "nfc p"]
    by (simp add: satisfiedClasses_def Let_def idempotent)
  then have "length (SatisfiedClasses nfc is_print (nfc p)) = length (satisfiedClasses nfc printable p)"
    by (metis length_map)
  with found show ?thesis
    by (auto simp: ValidateComplexity_def checkPassword_def passwordLength_def Let_def MinPasswordLength_def
        MaxPasswordLength_def RequiredClasses_def MIN_LENGTH_def MAX_LENGTH_def REQUIRED_CLASSES_def)
qed

theorem password_rules_agree_witness:
  "let p = map of_char ''lunch at 12''; visible = (\<lambda>c. 33 \<le> c \<and> c < 127)
   in (case ValidateComplexity id (\<lambda>c. 32 \<le> c \<and> c < 127) p of
         None \<Rightarrow> False
       | Some e \<Rightarrow> \<not> acceptable (checkPassword id visible p) \<and> map class_name (Satisfied e) = [Lower, Digit])"
  using password_rules_agree [of id "\<lambda>c. 32 \<le> c \<and> c < 127" "\<lambda>c. 33 \<le> c \<and> c < 127" "map of_char ''lunch at 12''"]
  by (simp add: ValidateComplexity_def checkPassword_def passwordLength_def Let_def MinPasswordLength_def
      MaxPasswordLength_def RequiredClasses_def MIN_LENGTH_def MAX_LENGTH_def REQUIRED_CLASSES_def
      SatisfiedClasses_def satisfiedClasses_def AllClasses_def CLASSES_def see_rune_def add_class_def
      server_extended_def isExtended_def SpecialCharacters_def SPECIAL_CHARACTERS_def set_add_def)

end
