(* ===== verification/ServerErrors.thy ===== *)
theory ServerErrors
  imports Api
begin

text \<open>
  The errors of the server (\<open>internal/api/errors.go\<close>): the registry of its codes, the envelope an error is
  sent in, and what the client makes of that envelope (theory \<open>Api\<close>).
\<close>

section \<open>The registry\<close>

datatype code =
    CodeMalformedJSON | CodeMissingField | CodeInvalidField | CodeDeadlineAfterFulfil
  | CodeQuantityTooSmall | CodeItemWrongRestaurant | CodeModificationWrongItem
  | CodeRestaurantNeedsContact | CodeOpeningHoursZeroLength | CodeUserNameTaken
  | CodePasswordTooWeak | CodeImageTooLarge | CodeImageUnsupportedType | CodeUnknownCurrency
  | CodeDeadlineInThePast | CodeResetInvalid | CodeResetExpired | CodeNotAuthenticated
  | CodeInvalidLogin | CodeSessionExpired | CodeSessionSuperseded | CodeInvalidToken
  | CodeInvalidCSRF | CodeAlreadyLoggedIn | CodeAdminRequired | CodeNotOrderCreator
  | CodeNotItemOwner | CodePlaceholderReadOnly | CodeNotParticipant | CodeNotOwner
  | CodeNotJobHolder | CodeNotFound | CodeOrderClosed | CodeRestaurantLocked
  | CodeRestaurantInUse | CodeItemUnavailable | CodeNameExistsHere | CodeMethodNotAllowed
  | CodeJobTaken | CodeItemNotServedThen | CodeTooManyLogins | CodeInternal
  | CodeDatabaseUnavailable

text \<open>The number the frontend keys its translations on, the HTTP status and the English text.\<close>

primrec number :: "code \<Rightarrow> int" where
  "number CodeMalformedJSON = 1000"
| "number CodeMissingField = 1001"
| "number CodeInvalidField = 1002"
| "number CodeDeadlineAfterFulfil = 1003"
| "number CodeQuantityTooSmall = 1004"
| "number CodeItemWrongRestaurant = 1005"
| "number CodeModificationWrongItem = 1006"
| "number CodeRestaurantNeedsContact = 1007"
| "number CodeOpeningHoursZeroLength = 1008"
| "number CodeUserNameTaken = 1009"
| "number CodePasswordTooWeak = 1010"
| "number CodeImageTooLarge = 1011"
| "number CodeImageUnsupportedType = 1012"
| "number CodeUnknownCurrency = 1013"
| "number CodeDeadlineInThePast = 1014"
| "number CodeResetInvalid = 1015"
| "number CodeResetExpired = 1016"
| "number CodeNotAuthenticated = 2000"
| "number CodeInvalidLogin = 2001"
| "number CodeSessionExpired = 2002"
| "number CodeSessionSuperseded = 2003"
| "number CodeInvalidToken = 2004"
| "number CodeInvalidCSRF = 2005"
| "number CodeAlreadyLoggedIn = 2006"
| "number CodeAdminRequired = 3000"
| "number CodeNotOrderCreator = 3001"
| "number CodeNotItemOwner = 3002"
| "number CodePlaceholderReadOnly = 3003"
| "number CodeNotParticipant = 3004"
| "number CodeNotOwner = 3005"
| "number CodeNotJobHolder = 3006"
| "number CodeNotFound = 4000"
| "number CodeOrderClosed = 4001"
| "number CodeRestaurantLocked = 4002"
| "number CodeRestaurantInUse = 4003"
| "number CodeItemUnavailable = 4004"
| "number CodeNameExistsHere = 4005"
| "number CodeMethodNotAllowed = 4006"
| "number CodeJobTaken = 4007"
| "number CodeItemNotServedThen = 4008"
| "number CodeTooManyLogins = 5000"
| "number CodeInternal = 9000"
| "number CodeDatabaseUnavailable = 9001"

primrec Status :: "code \<Rightarrow> nat" where
  "Status CodeMalformedJSON = 400"
| "Status CodeMissingField = 400"
| "Status CodeInvalidField = 400"
| "Status CodeDeadlineAfterFulfil = 400"
| "Status CodeQuantityTooSmall = 400"
| "Status CodeItemWrongRestaurant = 400"
| "Status CodeModificationWrongItem = 400"
| "Status CodeRestaurantNeedsContact = 400"
| "Status CodeOpeningHoursZeroLength = 400"
| "Status CodeUserNameTaken = 400"
| "Status CodePasswordTooWeak = 400"
| "Status CodeImageTooLarge = 413"
| "Status CodeImageUnsupportedType = 415"
| "Status CodeUnknownCurrency = 400"
| "Status CodeDeadlineInThePast = 400"
| "Status CodeResetInvalid = 400"
| "Status CodeResetExpired = 400"
| "Status CodeNotAuthenticated = 401"
| "Status CodeInvalidLogin = 401"
| "Status CodeSessionExpired = 401"
| "Status CodeSessionSuperseded = 401"
| "Status CodeInvalidToken = 401"
| "Status CodeInvalidCSRF = 403"
| "Status CodeAlreadyLoggedIn = 403"
| "Status CodeAdminRequired = 403"
| "Status CodeNotOrderCreator = 403"
| "Status CodeNotItemOwner = 403"
| "Status CodePlaceholderReadOnly = 403"
| "Status CodeNotParticipant = 403"
| "Status CodeNotOwner = 403"
| "Status CodeNotJobHolder = 403"
| "Status CodeNotFound = 404"
| "Status CodeOrderClosed = 409"
| "Status CodeRestaurantLocked = 409"
| "Status CodeRestaurantInUse = 409"
| "Status CodeItemUnavailable = 409"
| "Status CodeNameExistsHere = 409"
| "Status CodeMethodNotAllowed = 405"
| "Status CodeJobTaken = 409"
| "Status CodeItemNotServedThen = 409"
| "Status CodeTooManyLogins = 429"
| "Status CodeInternal = 500"
| "Status CodeDatabaseUnavailable = 503"

primrec Message :: "code \<Rightarrow> string" where
  "Message CodeMalformedJSON = ''malformed JSON body''"
| "Message CodeMissingField = ''required field missing''"
| "Message CodeInvalidField = ''field value out of range or wrongly formatted''"
| "Message CodeDeadlineAfterFulfil = ''deadline must be before the fulfilment time''"
| "Message CodeQuantityTooSmall = ''quantity must be at least 1''"
| "Message CodeItemWrongRestaurant = ''menu item does not belong to the order's restaurant''"
| "Message CodeModificationWrongItem = ''modification does not belong to the selected menu item''"
| "Message CodeRestaurantNeedsContact = ''restaurant needs at least one contact entry''"
| "Message CodeOpeningHoursZeroLength = ''opening hours entry has equal start and end time''"
| "Message CodeUserNameTaken = ''user name already taken''"
| "Message CodePasswordTooWeak = ''password does not meet the minimum requirements''"
| "Message CodeImageTooLarge = ''uploaded image exceeds the configured maximum size''"
| "Message CodeImageUnsupportedType = ''unsupported image media type''"
| "Message CodeUnknownCurrency = ''unknown currency code''"
| "Message CodeDeadlineInThePast = ''the deadline is already in the past''"
| "Message CodeResetInvalid = ''this password reset link is not valid''"
| "Message CodeResetExpired = ''this password reset link has expired''"
| "Message CodeNotAuthenticated = ''not authenticated''"
| "Message CodeInvalidLogin = ''invalid user name or password''"
| "Message CodeSessionExpired = ''session expired''"
| "Message CodeSessionSuperseded = ''session superseded by a newer login''"
| "Message CodeInvalidToken = ''invalid or revoked API token''"
| "Message CodeInvalidCSRF = ''missing or invalid CSRF token''"
| "Message CodeAlreadyLoggedIn = ''already logged in; log out before registering another account''"
| "Message CodeAdminRequired = ''administrator privileges required''"
| "Message CodeNotOrderCreator = ''only the order creator may change this order''"
| "Message CodeNotItemOwner = ''only the owner may change this order item''"
| "Message CodePlaceholderReadOnly = ''the deleted-user placeholder cannot be modified''"
| "Message CodeNotParticipant = ''only participants of this order may see its summary or its chat''"
| "Message CodeNotOwner = ''only the owner of this resource may act on it''"
| "Message CodeNotJobHolder = ''only the person doing this job, the order's creator or the administrator may do that''"
| "Message CodeNotFound = ''resource not found''"
| "Message CodeOrderClosed = ''order deadline has passed; the order is read-only''"
| "Message CodeRestaurantLocked = ''the restaurant cannot be changed once the order has items''"
| "Message CodeRestaurantInUse = ''the restaurant is still referenced by an order''"
| "Message CodeItemUnavailable = ''menu item is marked unavailable''"
| "Message CodeNameExistsHere = ''name already exists within this restaurant''"
| "Message CodeMethodNotAllowed = ''the HTTP method is not allowed on this path''"
| "Message CodeJobTaken = ''somebody is already doing this''"
| "Message CodeItemNotServedThen = ''the kitchen does not make this at the order's time''"
| "Message CodeTooManyLogins = ''too many login attempts''"
| "Message CodeInternal = ''unexpected server error''"
| "Message CodeDatabaseUnavailable = ''database unavailable''"

text \<open>
  What a handler reports. \<open>er_detail\<close> is the developer's English, empty for the text of the registry; the
  cause is logged and never sent.
\<close>

record server_error =
  er_code :: code
  er_field :: string
  er_detail :: string

definition refuse :: "code \<Rightarrow> server_error" where
  "refuse c = \<lparr>er_code = c, er_field = [], er_detail = []\<rparr>"

definition refuse_field :: "code \<Rightarrow> string \<Rightarrow> string \<Rightarrow> server_error" where
  "refuse_field c f d = \<lparr>er_code = c, er_field = f, er_detail = d\<rparr>"

definition error_text :: "server_error \<Rightarrow> string" where
  "error_text e = (if er_detail e \<noteq> [] then er_detail e else Message (er_code e))"

text \<open>
  The answer: a field that is empty is left out. \<open>status_text\<close> is the reason phrase the HTTP library
  adds, the header with the request's id is set by the middleware before any handler runs.
\<close>

definition envelope :: "string \<Rightarrow> server_error \<Rightarrow> json" where
  "envelope request_id e =
     JObj [(''error'', JObj ([(''code'', JNum (number (er_code e))), (''message'', JStr (error_text e))]
             @ (if er_field e = [] then [] else [(''field'', JStr (er_field e))])
             @ [(''request_id'', JStr request_id)]))]"

definition WriteError :: "string \<Rightarrow> string \<Rightarrow> string \<Rightarrow> server_error \<Rightarrow> response" where
  "WriteError status_text text request_id e =
     \<lparr>rs_status = Status (er_code e), rs_status_text = status_text,
      rs_headers = [(''X-Request-Id'', request_id), (''Content-Type'', ''application/json; charset=utf-8'')],
      rs_json = Some (envelope request_id e), rs_text = text\<rparr>"

section \<open>Read back\<close>

lemma status_is_failure: "400 \<le> Status c \<and> Status c < 600"
  by (cases c) simp_all

definition Codes :: "code list" where
  "Codes = [
    CodeMalformedJSON, CodeMissingField, CodeInvalidField, CodeDeadlineAfterFulfil,
    CodeQuantityTooSmall, CodeItemWrongRestaurant, CodeModificationWrongItem,
    CodeRestaurantNeedsContact, CodeOpeningHoursZeroLength, CodeUserNameTaken,
    CodePasswordTooWeak, CodeImageTooLarge, CodeImageUnsupportedType, CodeUnknownCurrency,
    CodeDeadlineInThePast, CodeResetInvalid, CodeResetExpired, CodeNotAuthenticated,
    CodeInvalidLogin, CodeSessionExpired, CodeSessionSuperseded, CodeInvalidToken,
    CodeInvalidCSRF, CodeAlreadyLoggedIn, CodeAdminRequired, CodeNotOrderCreator,
    CodeNotItemOwner, CodePlaceholderReadOnly, CodeNotParticipant, CodeNotOwner, CodeNotJobHolder,
    CodeNotFound, CodeOrderClosed, CodeRestaurantLocked, CodeRestaurantInUse, CodeItemUnavailable,
    CodeNameExistsHere, CodeMethodNotAllowed, CodeJobTaken, CodeItemNotServedThen,
    CodeTooManyLogins, CodeInternal, CodeDatabaseUnavailable]"

lemma in_Codes: "c \<in> set Codes"
  by (cases c) (simp_all add: Codes_def)

lemma numbers_distinct: "distinct (map number Codes)"
  by (simp add: Codes_def)

lemma number_inj: "number c = number d \<longleftrightarrow> c = d"
  using numbers_distinct in_Codes [of c] in_Codes [of d] unfolding distinct_map inj_on_def by blast

lemma number_positive: "1000 \<le> number c \<and> number c < 10000"
  by (cases c) simp_all

lemma authentication_numbers:
  "2000 \<le> number c \<and> number c < 3000 \<longleftrightarrow>
     c \<in> {CodeNotAuthenticated, CodeInvalidLogin, CodeSessionExpired, CodeSessionSuperseded, CodeInvalidToken,
          CodeInvalidCSRF, CodeAlreadyLoggedIn}"
  by (cases c) simp_all

lemma error_read_back:
  "errorFrom (WriteError st tx rid e) =
     ApiFailure \<lparr>ae_code = number (er_code e), ae_status = Status (er_code e), ae_message = error_text e,
                 ae_field = (if er_field e = [] then None else Some (er_field e)), ae_request_id = rid\<rparr>"
  by (simp add: errorFrom_def WriteError_def envelope_def field_of_def text_of_def coalesce_def)

text \<open>
  C12: an error survives the way from a handler of the server to the page. Whatever request was
  prepared, an answer written by \<open>WriteError\<close> is thrown by the client as a failure with exactly the
  server's code, status, text, field and request id; it is never taken for success or for a lost
  connection, two codes are never confused, and the client treats it as a matter of logging in
  exactly for the codes of the server's authentication group.
\<close>

theorem errors_survive_the_wire:
  assumes "prepare cookies m path extra bd = Inr req" and "fetch req = Answered (WriteError st tx rid e)"
  shows "\<exists>a. request cookies fetch m path extra bd = Inl (ApiFailure a)
      \<and> a = \<lparr>ae_code = number (er_code e), ae_status = Status (er_code e), ae_message = error_text e,
             ae_field = (if er_field e = [] then None else Some (er_field e)), ae_request_id = rid\<rparr>
      \<and> ae_code a \<noteq> NETWORK_ERROR
      \<and> (\<forall>d. ae_code a = number d \<longleftrightarrow> d = er_code e)
      \<and> isAuthentication a =
          (er_code e \<in> {CodeNotAuthenticated, CodeInvalidLogin, CodeSessionExpired, CodeSessionSuperseded,
                     CodeInvalidToken, CodeInvalidCSRF, CodeAlreadyLoggedIn})"
proof -
  have "\<not> rs_ok (WriteError st tx rid e)"
    using status_is_failure [of "er_code e"] by (simp add: rs_ok_def WriteError_def)
  with assms have "request cookies fetch m path extra bd = Inl (errorFrom (WriteError st tx rid e))"
    by (simp add: request_def)
  moreover have "number (er_code e) \<noteq> NETWORK_ERROR"
    using number_positive [of "er_code e"] by (simp add: NETWORK_ERROR_def)
  ultimately show ?thesis
    using number_inj authentication_numbers [of "er_code e"]
    unfolding error_read_back by (auto simp: isAuthentication_def)
qed

theorem errors_survive_the_wire_witness:
  "\<exists>a. request [] (\<lambda>_. Answered (WriteError ''Conflict'' [] ''r1'' (refuse CodeOrderClosed))) ''GET'' ''/orders'' []
        None = Inl (ApiFailure a) \<and> ae_code a = 4001 \<and> \<not> isAuthentication a"
proof -
  have "prepare [] ''GET'' ''/orders'' [] None =
      Inr \<lparr>hr_method = ''GET'', hr_url = BASE_PATH @ ''/orders'', hr_headers = [(''Accept'', ''application/json'')],
           hr_body = None\<rparr>"
    by (simp add: prepare_def with_type_def with_token_def isSafe_def)
  from errors_survive_the_wire [OF this, of "\<lambda>_. Answered (WriteError ''Conflict'' [] ''r1'' (refuse CodeOrderClosed))"
      "''Conflict''" "[]" "''r1''" "refuse CodeOrderClosed"]
  show ?thesis by (auto simp: refuse_def)
qed

end
