(* ===== verification/ServerHub.thy ===== *)
theory ServerHub
  imports Prelude
begin

text \<open>
  The registry of live streams on the server (\<open>internal/sse/hub.go\<close>): a hub for each order somebody is
  watching, its subscribers with the events they have not read yet, and what publishing does.

  A mutex guards the registry and another one each hub, so the sections between locking and
  unlocking are the atomic steps; an operation is their composition, and section
  \<open>Between two sections\<close> looks at what may happen in between. A hub is reached through a pointer, as
  in the code: an operation holds on to the pointer after it has let go of the registry.
\<close>

section \<open>Events and subscribers\<close>

definition EventNames :: "string list" where
  "EventNames =
     [''item.created'', ''item.updated'', ''item.deleted'', ''order.item_count'', ''order.updated'',
      ''order.deleted'', ''order.expired'', ''order.message'', ''ping'']"

datatype audience = Everyone | AuthenticatedOnly | AnonymousOnly

record 'd event =
  ev_name :: string
  ev_audience :: audience
  ev_data :: 'd

definition subscriberBuffer :: nat where
  "subscriberBuffer = 16"

text \<open>\<open>sb_events\<close> is what the channel holds; closing is final.\<close>

record 'd subscriber =
  sb_authenticated :: bool
  sb_events :: "'d event list"
  sb_closed :: bool

definition wants :: "'d subscriber \<Rightarrow> 'd event \<Rightarrow> bool" where
  "wants s e =
     (case ev_audience e of
        Everyone \<Rightarrow> True
      | AuthenticatedOnly \<Rightarrow> sb_authenticated s
      | AnonymousOnly \<Rightarrow> \<not> sb_authenticated s)"

text \<open>
  Hubs and subscribers are objects: \<open>rg_hubs\<close> is the map of the registry, \<open>rg_members\<close> the subscribers
  in the map of a hub, \<open>rg_subs\<close> the subscribers themselves. \<open>rg_next\<close> numbers new objects.
\<close>

record 'd hub_registry =
  rg_hubs :: "string \<Rightarrow> nat option"
  rg_members :: "nat \<Rightarrow> nat list"
  rg_subs :: "nat \<Rightarrow> 'd subscriber"
  rg_next :: nat

definition NewRegistry :: "'d hub_registry" where
  "NewRegistry =
     \<lparr>rg_hubs = Map.empty, rg_members = (\<lambda>_. []),
      rg_subs = (\<lambda>_. \<lparr>sb_authenticated = False, sb_events = [], sb_closed = True\<rparr>), rg_next = 0\<rparr>"

section \<open>The operations\<close>

definition subscribe_lookup :: "string \<Rightarrow> 'd hub_registry \<Rightarrow> nat \<times> 'd hub_registry" where
  "subscribe_lookup orderID g =
     (case rg_hubs g orderID of
        Some h \<Rightarrow> (h, g)
      | None \<Rightarrow>
          (let h = rg_next g
           in (h, g\<lparr>rg_hubs := (rg_hubs g)(orderID \<mapsto> h), rg_members := (rg_members g)(h := []), rg_next := Suc h\<rparr>)))"

definition subscribe_insert :: "nat \<Rightarrow> bool \<Rightarrow> 'd hub_registry \<Rightarrow> nat \<times> 'd hub_registry" where
  "subscribe_insert h authenticated g =
     (let s = rg_next g
      in (s, g\<lparr>rg_subs := (rg_subs g)(s := \<lparr>sb_authenticated = authenticated, sb_events = [], sb_closed = False\<rparr>),
               rg_members := (rg_members g)(h := s # rg_members g h), rg_next := Suc s\<rparr>))"

definition Subscribe :: "string \<Rightarrow> bool \<Rightarrow> 'd hub_registry \<Rightarrow> nat \<times> 'd hub_registry" where
  "Subscribe orderID authenticated g =
     (let (h, g') = subscribe_lookup orderID g in subscribe_insert h authenticated g')"

definition close_subscriber :: "nat \<Rightarrow> 'd hub_registry \<Rightarrow> 'd hub_registry" where
  "close_subscriber s g = g\<lparr>rg_subs := (rg_subs g)(s := (rg_subs g s)\<lparr>sb_closed := True\<rparr>)\<rparr>"

definition delete_member :: "nat \<Rightarrow> nat \<Rightarrow> 'd hub_registry \<Rightarrow> 'd hub_registry" where
  "delete_member h s g = g\<lparr>rg_members := (rg_members g)(h := removeAll s (rg_members g h))\<rparr>"

definition forget_hub :: "string \<Rightarrow> 'd hub_registry \<Rightarrow> 'd hub_registry" where
  "forget_hub orderID g =
     (case rg_hubs g orderID of
        None \<Rightarrow> g
      | Some current \<Rightarrow> if rg_members g current = [] then g\<lparr>rg_hubs := (rg_hubs g)(orderID := None)\<rparr> else g)"

definition Unsubscribe :: "string \<Rightarrow> nat \<Rightarrow> 'd hub_registry \<Rightarrow> 'd hub_registry" where
  "Unsubscribe orderID s g =
     (case rg_hubs g orderID of
        None \<Rightarrow> g
      | Some h \<Rightarrow>
          (let g1 = delete_member h s g; none_left = (rg_members g1 h = []); g2 = close_subscriber s g1
           in if none_left then forget_hub orderID g2 else g2))"

text \<open>
  Offering one event to one subscriber of a hub. Sending on a channel that has been closed panics,
  which is \<open>None\<close>; a full buffer drops the subscriber.
\<close>

definition offer :: "nat \<Rightarrow> nat \<Rightarrow> 'd event \<Rightarrow> 'd hub_registry \<Rightarrow> 'd hub_registry option" where
  "offer h s e g =
     (let sub = rg_subs g s
      in if \<not> wants sub e then Some g
         else if sb_closed sub then None
         else if length (sb_events sub) < subscriberBuffer
         then Some (g\<lparr>rg_subs := (rg_subs g)(s := sub\<lparr>sb_events := sb_events sub @ [e]\<rparr>)\<rparr>)
         else Some (close_subscriber s (delete_member h s g)))"

fun offer_each :: "nat \<Rightarrow> (nat \<times> 'd event) list \<Rightarrow> 'd hub_registry \<Rightarrow> 'd hub_registry option" where
  "offer_each h [] g = Some g"
| "offer_each h ((s, e) # rest) g = (case offer h s e g of None \<Rightarrow> None | Some g' \<Rightarrow> offer_each h rest g')"

definition Publish :: "string \<Rightarrow> 'd event list \<Rightarrow> 'd hub_registry \<Rightarrow> 'd hub_registry option" where
  "Publish orderID events g =
     (case rg_hubs g orderID of
        None \<Rightarrow> Some g
      | Some h \<Rightarrow> offer_each h (List.product (rg_members g h) events) g)"

text \<open>A stream reads the next event it has not read, if there is one.\<close>

definition receive :: "nat \<Rightarrow> 'd hub_registry \<Rightarrow> 'd event option \<times> 'd hub_registry" where
  "receive s g =
     (case sb_events (rg_subs g s) of
        [] \<Rightarrow> (None, g)
      | e # rest \<Rightarrow> (Some e, g\<lparr>rg_subs := (rg_subs g)(s := (rg_subs g s)\<lparr>sb_events := rest\<rparr>)\<rparr>))"

text \<open>Shutting down: the hubs are taken out of the registry first, then each is emptied.\<close>

definition close_hub :: "nat \<Rightarrow> 'd hub_registry \<Rightarrow> 'd hub_registry" where
  "close_hub h g = fold (\<lambda>s. close_subscriber s \<circ> delete_member h s) (rg_members g h) g"

definition CloseAll :: "string list \<Rightarrow> 'd hub_registry \<Rightarrow> 'd hub_registry" where
  "CloseAll orders g =
     fold close_hub (List.map_filter (rg_hubs g) orders)
       (g\<lparr>rg_hubs := (\<lambda>o'. if o' \<in> set orders then None else rg_hubs g o')\<rparr>)"

definition Subscribers :: "string \<Rightarrow> 'd hub_registry \<Rightarrow> nat" where
  "Subscribers orderID g =
     (case rg_hubs g orderID of None \<Rightarrow> 0 | Some h \<Rightarrow> length (rg_members g h))"

section \<open>What publishing does\<close>

text \<open>
  The publishers of the server send together at most one event for each kind of subscriber: one
  for those who are logged in, one for those who are not.
\<close>

definition admits :: "bool \<Rightarrow> 'd event \<Rightarrow> bool" where
  "admits authenticated e =
     (case ev_audience e of Everyone \<Rightarrow> True | AuthenticatedOnly \<Rightarrow> authenticated | AnonymousOnly \<Rightarrow> \<not> authenticated)"

definition separate :: "'d event list \<Rightarrow> bool" where
  "separate events \<longleftrightarrow> length (filter (admits True) events) \<le> 1 \<and> length (filter (admits False) events) \<le> 1"

lemma wants_admits: "wants sub = admits (sb_authenticated sub)"
  by (rule ext) (simp add: wants_def admits_def)

lemma separate_wanted: "separate events \<Longrightarrow> length (filter (wants sub) events) \<le> 1"
  by (cases "sb_authenticated sub") (simp_all add: separate_def wants_admits)

text \<open>What publishing makes of one subscriber, and whether it loses its place.\<close>

definition overrun :: "'d event list \<Rightarrow> 'd subscriber \<Rightarrow> bool" where
  "overrun events sub \<longleftrightarrow> filter (wants sub) events \<noteq> [] \<and> length (sb_events sub) \<ge> subscriberBuffer"

definition served :: "'d event list \<Rightarrow> 'd subscriber \<Rightarrow> 'd subscriber" where
  "served events sub =
     (if overrun events sub then sub\<lparr>sb_closed := True\<rparr>
      else sub\<lparr>sb_events := sb_events sub @ filter (wants sub) events\<rparr>)"

lemma offer_each_append:
  "offer_each h (xs @ ys) g = (case offer_each h xs g of None \<Rightarrow> None | Some g' \<Rightarrow> offer_each h ys g')"
  by (induction xs arbitrary: g) (auto split: option.split)

lemma offer_unwanted: "\<not> wants (rg_subs g s) e \<Longrightarrow> offer h s e g = Some g"
  by (simp add: offer_def Let_def)

lemma offer_none_wanted:
  "filter (wants (rg_subs g s)) events = [] \<Longrightarrow> offer_each h (map (Pair s) events) g = Some g"
  by (induction events) (simp_all add: offer_unwanted split: if_splits)

lemma registry_update_same [simp]:
  "(g :: 'd hub_registry)\<lparr>rg_subs := (rg_subs g)(s := rg_subs g s)\<rparr> = g"
  by simp

lemma offer_one_subscriber:
  assumes "length (filter (wants (rg_subs g s)) events) \<le> 1" and "\<not> sb_closed (rg_subs g s)"
  shows "offer_each h (map (Pair s) events) g =
    Some (g\<lparr>rg_subs := (rg_subs g)(s := served events (rg_subs g s)),
            rg_members := (if overrun events (rg_subs g s)
              then (rg_members g)(h := removeAll s (rg_members g h)) else rg_members g)\<rparr>)"
  using assms
proof (induction events)
  case Nil
  then show ?case by (simp add: served_def overrun_def)
next
  case (Cons e events)
  show ?case
  proof (cases "wants (rg_subs g s) e")
    case False
    then have "overrun (e # events) (rg_subs g s) = overrun events (rg_subs g s)"
      and "served (e # events) (rg_subs g s) = served events (rg_subs g s)"
      by (simp_all add: served_def overrun_def)
    with False Cons show ?thesis by (simp add: offer_unwanted)
  next
    case True
    with Cons.prems have none: "filter (wants (rg_subs g s)) events = []" by simp
    obtain g' where g': "offer h s e g = Some g'" and same: "sb_authenticated (rg_subs g' s) = sb_authenticated (rg_subs g s)"
      and it: "g' = (if overrun (e # events) (rg_subs g s) then close_subscriber s (delete_member h s g)
                 else g\<lparr>rg_subs := (rg_subs g)(s := served (e # events) (rg_subs g s))\<rparr>)"
      using True none Cons.prems(2)
      by (auto simp: offer_def Let_def overrun_def served_def close_subscriber_def delete_member_def)
    from none same have "offer_each h (map (Pair s) events) g' = Some g'"
      by (intro offer_none_wanted) (simp add: wants_admits)
    with g' have "offer_each h (map (Pair s) (e # events)) g = Some g'" by simp
    also have "\<dots> = Some (g\<lparr>rg_subs := (rg_subs g)(s := served (e # events) (rg_subs g s)),
        rg_members := (if overrun (e # events) (rg_subs g s)
          then (rg_members g)(h := removeAll s (rg_members g h)) else rg_members g)\<rparr>)"
      by (intro arg_cong [where f = Some] hub_registry.equality)
        (simp_all add: it close_subscriber_def delete_member_def served_def fun_eq_iff)
    finally show ?thesis .
  qed
qed

lemma offer_each_member:
  assumes "separate events" and "distinct ms" and "\<And>s. s \<in> set ms \<Longrightarrow> \<not> sb_closed (rg_subs g s)"
  shows "offer_each h (List.product ms events) g =
    Some (g\<lparr>rg_subs := (\<lambda>s. if s \<in> set ms then served events (rg_subs g s) else rg_subs g s),
            rg_members := (rg_members g)(h := filter (\<lambda>s. \<not> (s \<in> set ms \<and> overrun events (rg_subs g s))) (rg_members g h))\<rparr>)"
  using assms
proof (induction ms arbitrary: g)
  case Nil
  then show ?case by simp
next
  case (Cons m ms)
  let ?g = "g\<lparr>rg_subs := (rg_subs g)(m := served events (rg_subs g m)),
              rg_members := (if overrun events (rg_subs g m)
                then (rg_members g)(h := removeAll m (rg_members g h)) else rg_members g)\<rparr>"
  have one: "offer_each h (map (Pair m) events) g = Some ?g"
    using Cons.prems by (intro offer_one_subscriber separate_wanted) simp_all
  have rest: "offer_each h (List.product ms events) ?g =
      Some (?g\<lparr>rg_subs := (\<lambda>s. if s \<in> set ms then served events (rg_subs ?g s) else rg_subs ?g s),
        rg_members := (rg_members ?g)(h := filter (\<lambda>s. \<not> (s \<in> set ms \<and> overrun events (rg_subs ?g s))) (rg_members ?g h))\<rparr>)"
    using Cons.prems by (intro Cons.IH) auto
  have "m \<notin> set ms" using Cons.prems(2) by simp
  then have subs: "(\<lambda>s. if s \<in> set ms then served events (rg_subs ?g s) else rg_subs ?g s) =
      (\<lambda>s. if s \<in> set (m # ms) then served events (rg_subs g s) else rg_subs g s)"
    by (intro ext) auto
  have left: "filter (\<lambda>s. \<not> (s \<in> set ms \<and> overrun events (rg_subs ?g s))) (rg_members ?g h) =
      filter (\<lambda>s. \<not> (s \<in> set (m # ms) \<and> overrun events (rg_subs g s))) (rg_members g h)"
    using \<open>m \<notin> set ms\<close> by (auto simp: removeAll_filter_not_eq intro!: filter_cong)
  show ?case
    unfolding product.simps offer_each_append one option.case rest subs left
    by (intro arg_cong [where f = Some] hub_registry.equality) (simp_all add: fun_eq_iff)
qed

lemma publish_run:
  assumes "separate events" and "rg_hubs g orderID = Some h" and "distinct (rg_members g h)"
    and "\<And>s. s \<in> set (rg_members g h) \<Longrightarrow> \<not> sb_closed (rg_subs g s)"
  shows "Publish orderID events g =
    Some (g\<lparr>rg_subs := (\<lambda>s. if s \<in> set (rg_members g h) then served events (rg_subs g s) else rg_subs g s),
            rg_members := (rg_members g)(h := filter (\<lambda>s. \<not> overrun events (rg_subs g s)) (rg_members g h))\<rparr>)"
  using offer_each_member [OF assms(1,3,4), of h]
  by (simp add: Publish_def assms(2) cong: filter_cong)

section \<open>One operation after the other\<close>

text \<open>
  The streams that are open, each with the order it watches: the handler of a stream subscribes when
  it starts, reads, and takes the subscription back when it ends, whatever has become of it.
\<close>

type_synonym streams = "(nat \<times> string) list"

inductive hub_step ::
  "('d event list \<Rightarrow> bool) \<Rightarrow> 'd hub_registry \<times> streams \<Rightarrow> 'd hub_registry \<times> streams \<Rightarrow> bool"
  for published :: "'d event list \<Rightarrow> bool" where
  opens: "Subscribe orderID authenticated g = (s, g') \<Longrightarrow> hub_step published (g, op) (g', (s, orderID) # op)"
| reads: "receive s g = (got, g') \<Longrightarrow> hub_step published (g, op) (g', op)"
| publishes: "published events \<Longrightarrow> Publish orderID events g = Some g' \<Longrightarrow> hub_step published (g, op) (g', op)"
| ends: "(s, orderID) \<in> set op \<Longrightarrow>
    hub_step published (g, op) (Unsubscribe orderID s g, remove1 (s, orderID) op)"
| shuts: "set orders = dom (rg_hubs g) \<Longrightarrow> hub_step published (g, op) (CloseAll orders g, op)"

definition hub_reachable :: "('d event list \<Rightarrow> bool) \<Rightarrow> 'd hub_registry \<times> streams \<Rightarrow> bool" where
  "hub_reachable published = (hub_step published)\<^sup>*\<^sup>* (NewRegistry, [])"

text \<open>
  What is queued was meant for its reader, and was published; a queue never outgrows its buffer. A
  hub is registered only while a stream of its order is open, and holds exactly those of its streams
  that have not been dropped.
\<close>

definition queue_ok :: "('d event list \<Rightarrow> bool) \<Rightarrow> 'd subscriber \<Rightarrow> bool" where
  "queue_ok published sub \<longleftrightarrow>
     length (sb_events sub) \<le> subscriberBuffer
     \<and> (\<forall>e \<in> set (sb_events sub). wants sub e \<and> (\<exists>events. published events \<and> e \<in> set events))"

definition hub_ok :: "'d hub_registry \<Rightarrow> streams \<Rightarrow> string \<Rightarrow> nat \<Rightarrow> bool" where
  "hub_ok g op orderID h \<longleftrightarrow>
     h < rg_next g \<and> distinct (rg_members g h) \<and> (\<exists>s. (s, orderID) \<in> set op)
     \<and> set (rg_members g h) = {s. (s, orderID) \<in> set op \<and> \<not> sb_closed (rg_subs g s)}"

definition hubs_ok :: "'d hub_registry \<Rightarrow> streams \<Rightarrow> bool" where
  "hubs_ok g op \<longleftrightarrow>
     distinct (map fst op) \<and> (\<forall>(s, orderID) \<in> set op. s < rg_next g)
     \<and> inj_on (rg_hubs g) (dom (rg_hubs g))
     \<and> (\<forall>orderID. case rg_hubs g orderID of
          Some h \<Rightarrow> hub_ok g op orderID h
        | None \<Rightarrow> (\<forall>s. (s, orderID) \<in> set op \<longrightarrow> sb_closed (rg_subs g s)))"

lemma queue_closed [simp]: "queue_ok published (sub\<lparr>sb_closed := c\<rparr>) = queue_ok published sub"
  by (simp add: queue_ok_def wants_admits)

lemma queue_new [simp]: "queue_ok published \<lparr>sb_authenticated = a, sb_events = [], sb_closed = c\<rparr>"
  by (simp add: queue_ok_def)

lemma queue_tail:
  "queue_ok published sub \<Longrightarrow> sb_events sub = e # rest \<Longrightarrow> queue_ok published (sub\<lparr>sb_events := rest\<rparr>)"
  by (simp add: queue_ok_def wants_admits)

lemma queue_served:
  "queue_ok published sub \<Longrightarrow> separate events \<Longrightarrow> published events \<Longrightarrow> queue_ok published (served events sub)"
  using separate_wanted [of events sub]
  by (auto simp: served_def queue_ok_def overrun_def wants_admits)

lemma close_members:
  "fold (\<lambda>s. close_subscriber s \<circ> delete_member h s) xs g =
     g\<lparr>rg_subs := (\<lambda>s. if s \<in> set xs then (rg_subs g s)\<lparr>sb_closed := True\<rparr> else rg_subs g s),
       rg_members := (rg_members g)(h := filter (\<lambda>s. s \<notin> set xs) (rg_members g h))\<rparr>"
  by (induction xs arbitrary: g)
    (auto simp: close_subscriber_def delete_member_def removeAll_filter_not_eq intro!: hub_registry.equality filter_cong ext)

lemma close_hub_run:
  "close_hub h g =
     g\<lparr>rg_subs := (\<lambda>s. if s \<in> set (rg_members g h) then (rg_subs g s)\<lparr>sb_closed := True\<rparr> else rg_subs g s),
       rg_members := (rg_members g)(h := [])\<rparr>"
  unfolding close_hub_def close_members by simp

lemma close_hubs_run:
  "fold close_hub hs g =
     g\<lparr>rg_subs := (\<lambda>s. if \<exists>h \<in> set hs. s \<in> set (rg_members g h) then (rg_subs g s)\<lparr>sb_closed := True\<rparr> else rg_subs g s),
       rg_members := (\<lambda>h. if h \<in> set hs then [] else rg_members g h)\<rparr>"
  by (induction hs arbitrary: g) (auto simp: close_hub_run intro!: hub_registry.equality ext)

lemma hubs_okI:
  assumes "distinct (map fst op)" and "\<And>s q. (s, q) \<in> set op \<Longrightarrow> s < rg_next g"
    and "\<And>a b h. rg_hubs g a = Some h \<Longrightarrow> rg_hubs g b = Some h \<Longrightarrow> a = b"
    and "\<And>q h. rg_hubs g q = Some h \<Longrightarrow> hub_ok g op q h"
    and "\<And>s q. rg_hubs g q = None \<Longrightarrow> (s, q) \<in> set op \<Longrightarrow> sb_closed (rg_subs g s)"
  shows "hubs_ok g op"
  using assms by (auto simp: hubs_ok_def inj_on_def dom_def split: option.split)

lemma hubs_okD:
  assumes "hubs_ok g op"
  shows "distinct (map fst op)" and "(s, q) \<in> set op \<Longrightarrow> s < rg_next g"
    and "rg_hubs g a = Some h \<Longrightarrow> rg_hubs g b = Some h \<Longrightarrow> a = b"
    and "rg_hubs g q = Some h \<Longrightarrow> hub_ok g op q h"
    and "rg_hubs g q = None \<Longrightarrow> (s, q) \<in> set op \<Longrightarrow> sb_closed (rg_subs g s)"
proof -
  show "rg_hubs g a = Some h \<Longrightarrow> rg_hubs g b = Some h \<Longrightarrow> a = b"
    using assms unfolding hubs_ok_def inj_on_def dom_def by force
  have "case rg_hubs g q of Some h \<Rightarrow> hub_ok g op q h
      | None \<Rightarrow> (\<forall>s. (s, q) \<in> set op \<longrightarrow> sb_closed (rg_subs g s))"
    using assms by (simp add: hubs_ok_def)
  then show "rg_hubs g q = Some h \<Longrightarrow> hub_ok g op q h"
    and "rg_hubs g q = None \<Longrightarrow> (s, q) \<in> set op \<Longrightarrow> sb_closed (rg_subs g s)"
    by simp_all
qed (use assms in \<open>auto simp: hubs_ok_def\<close>)

text \<open>A stream watches one order.\<close>

lemma one_order: "hubs_ok g op \<Longrightarrow> (s, a) \<in> set op \<Longrightarrow> (s, b) \<in> set op \<Longrightarrow> a = b"
  using hubs_okD(1) by (metis eq_key_imp_eq_value)

lemma hubs_receive:
  assumes "hubs_ok g op" and "receive s g = (got, g')"
  shows "hubs_ok g' op"
proof -
  have same: "rg_hubs g' = rg_hubs g" "rg_members g' = rg_members g" "rg_next g' = rg_next g"
    "\<And>x. sb_closed (rg_subs g' x) = sb_closed (rg_subs g x)"
    using assms(2) by (auto simp: receive_def split: list.splits if_splits)
  then have "hub_ok g' op q h = hub_ok g op q h" for q h by (simp add: hub_ok_def)
  with hubs_okD [OF assms(1)] same show ?thesis by (intro hubs_okI) simp_all
qed

lemma hubs_subscribe:
  assumes ok: "hubs_ok g op" and sub: "Subscribe q a g = (s, g')"
  shows "hubs_ok g' ((s, q) # op)"
proof -
  obtain h g1 where lk: "subscribe_lookup q g = (h, g1)" by (cases "subscribe_lookup q g")
  note D = hubs_okD [OF ok]
  have g1: "rg_hubs g1 = (rg_hubs g)(q \<mapsto> h)" "rg_subs g1 = rg_subs g" "rg_next g \<le> rg_next g1" "h < rg_next g1"
    "\<And>k. k \<noteq> h \<Longrightarrow> rg_members g1 k = rg_members g k"
    "rg_hubs g q \<noteq> None \<Longrightarrow> rg_hubs g q = Some h \<and> g1 = g"
    "rg_hubs g q = None \<Longrightarrow> h = rg_next g \<and> rg_members g1 h = []"
    using lk D(4) by (auto simp: subscribe_lookup_def Let_def hub_ok_def split: option.splits)
  have s: "s = rg_next g1" and g': "rg_hubs g' = rg_hubs g1" "rg_next g' = Suc s"
    "rg_subs g' = (rg_subs g)(s := \<lparr>sb_authenticated = a, sb_events = [], sb_closed = False\<rparr>)"
    "rg_members g' = (rg_members g1)(h := s # rg_members g1 h)"
    using sub lk g1 by (auto simp: Subscribe_def subscribe_insert_def Let_def)
  have new: "(s, p) \<notin> set op" for p using D(2) g1(3) s by fastforce
  have other: "p \<noteq> q \<Longrightarrow> rg_hubs g p = Some k \<Longrightarrow> k \<noteq> h" for p k
    using D(3) D(4) [of p k] g1(6,7) by (cases "rg_hubs g q") (auto simp: hub_ok_def)
  show ?thesis
  proof (rule hubs_okI)
    show "distinct (map fst ((s, q) # op))" using D(1) new by force
    show "x < rg_next g'" if "(x, p) \<in> set ((s, q) # op)" for x p
      using that D(2) [of x p] g1(3) s g' by auto
    show "b = c" if "rg_hubs g' b = Some k" "rg_hubs g' c = Some k" for b c k
      using that D(3) [of b k c] other [of b k] other [of c k] unfolding g' g1 by (auto split: if_splits)
    show "sb_closed (rg_subs g' x)" if "rg_hubs g' p = None" "(x, p) \<in> set ((s, q) # op)" for x p
      using that D(5) [of p x] new unfolding g' g1 by (auto split: if_splits)
    show "hub_ok g' ((s, q) # op) p k" if k: "rg_hubs g' p = Some k" for p k
    proof (cases "p = q")
      case False
      with k have k': "rg_hubs g p = Some k" "k \<noteq> h" using other unfolding g' g1 by auto
      with D(4) have "hub_ok g op p k" by simp
      with False k' new show ?thesis using g1(3) s by (auto simp: hub_ok_def g' g1(5))
    next
      case True
      with k have k': "k = h" unfolding g' g1 by simp
      have mem: "distinct (rg_members g1 h) \<and> set (rg_members g1 h) = {x. (x, q) \<in> set op \<and> \<not> sb_closed (rg_subs g x)}"
      proof (cases "rg_hubs g q")
        case None
        with D(5) g1(7) show ?thesis by auto
      next
        case (Some k)
        with D(4) g1(6) show ?thesis by (auto simp: hub_ok_def)
      qed
      with True k' new show ?thesis using g1(4) s by (auto simp: hub_ok_def g')
    qed
  qed
qed

lemma hubs_publish:
  assumes ok: "hubs_ok g op" and sep: "separate events" and pub: "Publish q events g = Some g'"
  shows "hubs_ok g' op"
proof (cases "rg_hubs g q")
  case None
  with pub ok show ?thesis by (simp add: Publish_def)
next
  case (Some h)
  note D = hubs_okD [OF ok]
  have h: "hub_ok g op q h" using D(4) Some by simp
  have run: "g' = g\<lparr>rg_subs := (\<lambda>s. if s \<in> set (rg_members g h) then served events (rg_subs g s) else rg_subs g s),
      rg_members := (rg_members g)(h := filter (\<lambda>s. \<not> overrun events (rg_subs g s)) (rg_members g h))\<rparr>"
    using publish_run [OF sep Some] h pub by (auto simp: hub_ok_def)
  have closed: "sb_closed (served events sub) \<longleftrightarrow> sb_closed sub \<or> overrun events sub" for sub
    by (simp add: served_def)
  show ?thesis
  proof (rule hubs_okI)
    show "hub_ok g' op p k" if k: "rg_hubs g' p = Some k" for p k
    proof (cases "p = q")
      case True
      with k Some have "k = h" by (simp add: run)
      with True h show ?thesis by (auto simp: hub_ok_def run closed)
    next
      case False
      from k have k': "rg_hubs g p = Some k" by (simp add: run)
      then have "hub_ok g op p k" and "k \<noteq> h" using D(4) D(3) [of p k q] Some False by auto
      moreover have "(s, p) \<notin> set op" if "s \<in> set (rg_members g h)" for s
        using that h one_order [OF ok] False by (auto simp: hub_ok_def)
      ultimately show ?thesis by (auto simp: hub_ok_def run)
    qed
  qed (use D in \<open>auto simp: run closed\<close>)
qed

lemma hubs_end:
  assumes ok: "hubs_ok g op" and s: "(s, q) \<in> set op"
  shows "hubs_ok (Unsubscribe q s g) (remove1 (s, q) op)"
proof -
  note D = hubs_okD [OF ok]
  have dist: "distinct op" using D(1) by (simp add: distinct_map)
  have left: "set (remove1 (s, q) op) = set op - {(s, q)}" using dist by simp
  have keys: "distinct (map fst (remove1 (s, q) op))"
    using D(1) by (metis distinct_map distinct_remove1 inj_on_subset set_remove1_subset)
  have only: "(s, p) \<in> set op \<longleftrightarrow> p = q" for p using one_order [OF ok] s by blast
  show ?thesis
  proof (cases "rg_hubs g q")
    case None
    then have same: "Unsubscribe q s g = g" by (simp add: Unsubscribe_def)
    have "hub_ok g (remove1 (s, q) op) p k" if "rg_hubs g p = Some k" for p k
    proof -
      from that None have "p \<noteq> q" by auto
      with D(4) [OF that] show ?thesis by (auto simp: hub_ok_def left)
    qed
    with D keys left show ?thesis unfolding same by (intro hubs_okI) auto
  next
    case (Some h)
    have h: "hub_ok g op q h" using D(4) Some by simp
    let ?rest = "removeAll s (rg_members g h)"
    have fields: "rg_hubs (Unsubscribe q s g) = (if ?rest = [] then (rg_hubs g)(q := None) else rg_hubs g)"
      "rg_members (Unsubscribe q s g) = (rg_members g)(h := ?rest)" "rg_next (Unsubscribe q s g) = rg_next g"
      "sb_closed (rg_subs (Unsubscribe q s g) x) \<longleftrightarrow> sb_closed (rg_subs g x) \<or> x = s" for x
      using Some by (auto simp: Unsubscribe_def forget_hub_def delete_member_def close_subscriber_def Let_def)
    have rest: "set ?rest = {x. (x, q) \<in> set op - {(s, q)} \<and> \<not> (sb_closed (rg_subs g x) \<or> x = s)}"
      using h by (auto simp: hub_ok_def)
    show ?thesis
    proof (rule hubs_okI)
      show "a = b" if "rg_hubs (Unsubscribe q s g) a = Some k" "rg_hubs (Unsubscribe q s g) b = Some k" for a b k
        using that D(3) unfolding fields by (auto split: if_splits)
      show "sb_closed (rg_subs (Unsubscribe q s g) x)"
        if "rg_hubs (Unsubscribe q s g) p = None" "(x, p) \<in> set (remove1 (s, q) op)" for x p
      proof (cases "p = q")
        case True
        with that Some have "?rest = []" unfolding fields by (simp split: if_splits)
        with rest have "\<not> ((x, q) \<in> set op - {(s, q)} \<and> \<not> (sb_closed (rg_subs g x) \<or> x = s))" by auto
        with that True show ?thesis unfolding left fields by auto
      next
        case False
        with that have "rg_hubs g p = None" "(x, p) \<in> set op" unfolding left fields by (simp_all split: if_splits)
        with D(5) show ?thesis unfolding fields by simp
      qed
      show "hub_ok (Unsubscribe q s g) (remove1 (s, q) op) p k"
        if k: "rg_hubs (Unsubscribe q s g) p = Some k" for p k
      proof (cases "p = q")
        case True
        with k Some have kh: "k = h" and some: "?rest \<noteq> []" unfolding fields by (auto split: if_splits)
        from some obtain x where "x \<in> set ?rest" by (metis list.set_intros(1) neq_Nil_conv)
        with rest have "\<exists>x. (x, q) \<in> set op - {(s, q)}" by blast
        with h rest True kh show ?thesis by (simp add: hub_ok_def fields left distinct_removeAll)
      next
        case False
        with k have k': "rg_hubs g p = Some k" unfolding fields by (auto split: if_splits)
        with D(4) D(3) [of p k q] Some False have "hub_ok g op p k" "k \<noteq> h" by auto
        with False show ?thesis by (auto simp: hub_ok_def fields left only)
      qed
    qed (use keys D(2) left in \<open>auto simp: fields\<close>)
  qed
qed

lemma hubs_shut:
  assumes ok: "hubs_ok g op" and all: "set orders = dom (rg_hubs g)"
  shows "hubs_ok (CloseAll orders g) op"
proof -
  note D = hubs_okD [OF ok]
  have hs: "h \<in> set (List.map_filter (rg_hubs g) orders) \<longleftrightarrow> (\<exists>q. rg_hubs g q = Some h)" for h
    using all by (force simp: map_filter_def)
  have none: "rg_hubs (CloseAll orders g) q = None" for q
    using all by (auto simp: CloseAll_def close_hubs_run)
  have "sb_closed (rg_subs (CloseAll orders g) s)" if "(s, q) \<in> set op" for s q
  proof (cases "rg_hubs g q")
    case None
    with that D(5) show ?thesis by (auto simp: CloseAll_def close_hubs_run)
  next
    case (Some h)
    with that D(4) have "s \<in> set (rg_members g h) \<or> sb_closed (rg_subs g s)" by (auto simp: hub_ok_def)
    with Some hs show ?thesis by (auto simp: CloseAll_def close_hubs_run)
  qed
  with D none show ?thesis by (intro hubs_okI) (auto simp: CloseAll_def close_hubs_run)
qed

lemma queues_step:
  assumes step: "hub_step published c c'" and sep: "\<And>events. published events \<Longrightarrow> separate events"
    and ok: "hubs_ok (fst c) (snd c)" and queues: "\<forall>s. queue_ok published (rg_subs (fst c) s)"
  shows "\<forall>s. queue_ok published (rg_subs (fst c') s)"
  using step
proof cases
  case (opens orderID authenticated g s g' op)
  with queues show ?thesis
    by (auto simp: Subscribe_def subscribe_lookup_def subscribe_insert_def Let_def split: option.splits)
next
  case (reads s g got g' op)
  with queues show ?thesis
    by (auto simp: receive_def queue_tail split: list.splits)
next
  case (publishes events orderID g g' op)
  show ?thesis
  proof (cases "rg_hubs g orderID")
    case None
    with publishes queues show ?thesis by (simp add: Publish_def)
  next
    case (Some h)
    with publishes hubs_okD(4) ok have "hub_ok g op orderID h" by simp
    with publishes publish_run [OF sep Some] queues sep queue_served [of published _ events]
    show ?thesis by (auto simp: hub_ok_def)
  qed
next
  case (ends s orderID op g)
  with queues show ?thesis
    by (auto simp: Unsubscribe_def forget_hub_def delete_member_def close_subscriber_def Let_def split: option.splits)
next
  case (shuts orders g op)
  with queues show ?thesis by (simp add: CloseAll_def close_hubs_run)
qed

lemma hubs_step:
  assumes "hub_step published c c'" and "\<And>events. published events \<Longrightarrow> separate events"
    and "hubs_ok (fst c) (snd c)"
  shows "hubs_ok (fst c') (snd c')"
  using assms(1)
proof cases
  case opens
  with assms(3) show ?thesis using hubs_subscribe by fastforce
next
  case reads
  with assms(3) show ?thesis using hubs_receive by fastforce
next
  case publishes
  with assms(2,3) show ?thesis using hubs_publish by fastforce
next
  case ends
  with assms(3) show ?thesis using hubs_end by fastforce
next
  case shuts
  with assms(3) show ?thesis using hubs_shut by fastforce
qed

lemma hub_reachable_ok:
  assumes "hub_reachable published c" and sep: "\<And>events. published events \<Longrightarrow> separate events"
  shows "hubs_ok (fst c) (snd c) \<and> (\<forall>s. queue_ok published (rg_subs (fst c) s))"
  using assms(1) unfolding hub_reachable_def
proof (induction rule: rtranclp_induct)
  case base
  show ?case by (auto simp: NewRegistry_def queue_ok_def intro!: hubs_okI)
next
  case (step c c')
  with hubs_step [OF step(2) sep] queues_step [OF step(2) sep] show ?case by blast
qed

text \<open>
  C6: as long as the operations on the registry follow one another, every open stream is served and
  nobody is served what was not meant for them. Whatever streams have come, read, fallen behind and
  gone, each holds at most sixteen events, all published and all for its kind of reader; and the next
  publication for an order does not panic, and reaches exactly the open streams of that order that
  have not been dropped: it appends to each what that stream wants, or drops it when its buffer is
  full. A hub stays registered only while some stream of its order is open.
\<close>

theorem streams_served:
  assumes "hub_reachable published (g, op)" and "\<forall>events. published events \<longrightarrow> separate events"
    and "published events"
  shows "length (sb_events (rg_subs g s)) \<le> 16
    \<and> list_all (\<lambda>e. admits (sb_authenticated (rg_subs g s)) e \<and> (\<exists>es. published es \<and> e \<in> set es)) (sb_events (rg_subs g s))
    \<and> (rg_hubs g orderID = None \<or> (\<exists>s. (s, orderID) \<in> set op))
    \<and> (case Publish orderID events g of
         None \<Rightarrow> False
       | Some g' \<Rightarrow> rg_subs g' s =
           (if (s, orderID) \<in> set op \<and> \<not> sb_closed (rg_subs g s) then served events (rg_subs g s) else rg_subs g s))"
proof -
  have sep: "separate events" if "published events" for events using assms(2) that by simp
  from hub_reachable_ok [OF assms(1) sep]
  have ok: "hubs_ok g op" and queue: "queue_ok published (rg_subs g s)" by simp_all
  have "case Publish orderID events g of
       None \<Rightarrow> False
     | Some g' \<Rightarrow> rg_subs g' s =
         (if (s, orderID) \<in> set op \<and> \<not> sb_closed (rg_subs g s) then served events (rg_subs g s) else rg_subs g s)"
  proof (cases "rg_hubs g orderID")
    case None
    with hubs_okD(5) [OF ok] show ?thesis by (auto simp: Publish_def)
  next
    case (Some h)
    with hubs_okD(4) [OF ok] have h: "hub_ok g op orderID h" by simp
    with publish_run [OF sep [OF assms(3)] Some] show ?thesis by (auto simp: hub_ok_def)
  qed
  moreover have "rg_hubs g orderID = None \<or> (\<exists>s. (s, orderID) \<in> set op)"
    using hubs_okD(4) [OF ok] by (cases "rg_hubs g orderID") (auto simp: hub_ok_def)
  ultimately show ?thesis
    using queue by (simp add: queue_ok_def wants_admits list_all_iff subscriberBuffer_def)
qed

theorem streams_served_witness:
  "let e = \<lparr>ev_name = ''item.created'', ev_audience = AuthenticatedOnly, ev_data = ()\<rparr>
   in (case Publish ''o1'' [e] (snd (Subscribe ''o1'' True NewRegistry)) of
         None \<Rightarrow> False
       | Some g' \<Rightarrow> sb_events (rg_subs g' 1) = [e])"
proof -
  let ?e = "\<lparr>ev_name = ''item.created'', ev_audience = AuthenticatedOnly, ev_data = ()\<rparr>"
  let ?g = "snd (Subscribe ''o1'' True NewRegistry) :: unit hub_registry"
  have sub: "Subscribe ''o1'' True (NewRegistry :: unit hub_registry) = (1, ?g)"
    by (simp add: Subscribe_def subscribe_lookup_def subscribe_insert_def NewRegistry_def Let_def)
  have sep: "\<forall>events :: unit event list. separate events \<longrightarrow> separate events" by simp
  have reach: "hub_reachable separate (?g, [(1, ''o1'')])"
    unfolding hub_reachable_def by (rule r_into_rtranclp) (rule hub_step.opens [OF sub])
  have one: "separate [?e]" by (simp add: separate_def admits_def)
  have "case Publish ''o1'' [?e] ?g of
      None \<Rightarrow> False
    | Some g' \<Rightarrow> rg_subs g' 1 =
        (if (1::nat, ''o1'') \<in> set [(1, ''o1'')] \<and> \<not> sb_closed (rg_subs ?g 1) then served [?e] (rg_subs ?g 1) else rg_subs ?g 1)"
    using streams_served [OF reach sep one, where s = 1 and orderID = "''o1''"] by blast
  moreover have "rg_subs ?g 1 = \<lparr>sb_authenticated = True, sb_events = [], sb_closed = False\<rparr>"
    by (simp add: Subscribe_def subscribe_lookup_def subscribe_insert_def NewRegistry_def Let_def)
  ultimately show ?thesis
    by (simp add: served_def overrun_def wants_def subscriberBuffer_def Let_def split: option.splits)
qed

section \<open>Between two sections\<close>

text \<open>
  \<open>Subscribe\<close> lets go of the registry before it takes the hub. When the last stream of an order ends in
  between, the hub it has found is forgotten, and the new stream becomes a member of a hub nothing
  leads to: it is open, it has not been dropped, and no publication reaches it, now or when others
  have opened a new hub for the order.
\<close>

theorem stream_lost_between:
  "let (first, g0) = Subscribe orderID a NewRegistry;
       (h, g1) = subscribe_lookup orderID g0;
       g2 = Unsubscribe orderID first g1;
       (late, g3) = subscribe_insert h b g2;
       (other, g4) = Subscribe orderID c g3
   in \<not> sb_closed (rg_subs g3 late) \<and> Subscribers orderID g3 = 0
      \<and> Publish orderID events g3 = Some g3
      \<and> late \<noteq> other \<and> late \<notin> set (rg_members g4 (the (rg_hubs g4 orderID)))"
  by (simp add: Subscribe_def subscribe_lookup_def subscribe_insert_def NewRegistry_def Let_def Unsubscribe_def
      delete_member_def close_subscriber_def forget_hub_def Subscribers_def Publish_def)

end
