(* ===== verification/ServerStore.thy ===== *)
theory ServerStore
  imports ServerErrors ServerHub
begin

text \<open>
  What the server keeps about orders and how it reads and writes it (\<open>internal/model\<close>,
  \<open>internal/db\<close>): rows of the database as records, and one definition per query or statement. The
  database answers every query or none (\<open>st_up\<close>); an identifier is its canonical text. Amounts are
  integers, not 64-bit words. A row has the columns that the operations on orders read; when it was
  made and changed, and by whom, is left out.
\<close>

section \<open>The runtime\<close>

text \<open>
  What the libraries of the server provide: the clock in nanoseconds since the epoch; \<open>uuid.Parse\<close> as the
  canonical text, \<open>None\<close> where it fails; \<open>time.Parse\<close> of RFC 3339; the two formats of a time; the
  local time of an instant; the identifiers the new rows of a request get; \<open>strings.ToLower\<close>; and
  \<open>ORDER BY name\<close> in the collation of the database.
\<close>

record runtime =
  rt_now :: int
  rt_uuid :: "string \<Rightarrow> string option"
  rt_parse_time :: "string \<Rightarrow> int option"
  rt_rfc3339 :: "int \<Rightarrow> string"
  rt_title_time :: "int \<Rightarrow> string"
  rt_local :: "int \<Rightarrow> local_time"
  rt_new_id :: "nat \<Rightarrow> string"
  rt_to_lower :: "string \<Rightarrow> string"
  rt_by_name :: "item_modification list \<Rightarrow> item_modification list"

section \<open>Rows\<close>

definition DeletedUserID :: string where
  "DeletedUserID = ''00000000-0000-7000-8000-000000000000''"

record user =
  us_id :: string
  us_name :: string
  us_display_name :: string
  us_is_admin :: bool

definition Label :: "user \<Rightarrow> string" where
  "Label u = (if us_display_name u \<noteq> [] then us_display_name u else us_name u)"

record order_row =
  or_id :: string
  or_creator_id :: string
  or_restaurant_id :: string
  or_fulfilment :: string
  or_fulfilment_at :: int
  or_deadline_at :: int
  or_money_collector_id :: "string option"
  or_pickup_person_id :: "string option"
  or_money_collector_drawn :: bool
  or_pickup_person_drawn :: bool
  or_jobs_drawn :: bool
  or_currency_code :: string
  or_min_order_value_cents :: "int option"
  or_delivery_fee_cents :: "int option"

text \<open>An order as it is read: the row, with the names that are joined in and the number of its items.\<close>

record model_order = order_row +
  mo_creator_name :: string
  mo_restaurant_name :: string
  mo_restaurant_logo :: "string option"
  mo_money_collector_name :: string
  mo_pickup_person_name :: string
  mo_item_count :: nat

definition Active :: "'x order_row_scheme \<Rightarrow> int \<Rightarrow> bool" where
  "Active o' now \<longleftrightarrow> now < or_deadline_at o'"

definition order_status :: "'x order_row_scheme \<Rightarrow> int \<Rightarrow> string" where
  "order_status o' now = (if Active o' now then ''active'' else ''expired'')"

text \<open>The dash is the em dash in UTF-8.\<close>

definition Title :: "runtime \<Rightarrow> model_order \<Rightarrow> string" where
  "Title rt o' =
     mo_restaurant_name o' @ [CHR '' '', CHR 0xE2, CHR 0x80, CHR 0x94, CHR '' ''] @ rt_title_time rt (or_fulfilment_at o')"

record item_row =
  ir_id :: string
  ir_order_id :: string
  ir_user_id :: string
  ir_menu_item_id :: string
  ir_quantity :: int
  ir_item_name :: string
  ir_unit_price_cents :: int
  ir_note :: string
  ir_modifications :: "item_modification list"
  ir_paid :: bool

definition LineTotalCents :: "'x item_row_scheme \<Rightarrow> int" where
  "LineTotalCents i =
     ir_quantity i * foldl (\<lambda>unit m. unit + im_price_delta_cents m) (ir_unit_price_cents i) (ir_modifications i)"

record restaurant_row =
  rr_id :: string
  rr_name :: string
  rr_logo :: "string option"
  rr_currency_code :: string
  rr_min_order_value_cents :: "int option"
  rr_delivery_fee_cents :: "int option"
  rr_deleted :: bool

text \<open>A rule about when food can be had; \<open>vr_on_date\<close> is a year, month and day.\<close>

record availability_row =
  vr_on_date :: "(int \<times> nat \<times> nat) option"
  vr_weekdays :: "nat list"
  vr_start_time :: "nat option"
  vr_end_time :: "nat option"

record choice_row =
  xr_id :: string
  xr_name :: string
  xr_price_delta_cents :: int
  xr_deleted :: bool

record dish_row =
  dr_id :: string
  dr_restaurant_id :: string
  dr_name :: string
  dr_external_id :: string
  dr_price_cents :: int
  dr_available :: bool
  dr_deleted :: bool
  dr_filters :: "availability_row list"
  dr_category_filters :: "availability_row list"
  dr_options :: "choice_row list"

record message_row =
  mr_id :: string
  mr_order_id :: string
  mr_user_id :: string
  mr_body :: string

text \<open>What a live event carries, and the events that have been handed to the registry, oldest first.\<close>

datatype payload =
    ItemPayload order_item
  | IdPayload string
  | ItemCountPayload nat
  | HeaderPayload order_header
  | EntryPayload order_list_entry
  | MessageCountPayload nat

record store =
  st_up :: bool
  st_users :: "user list"
  st_restaurants :: "restaurant_row list"
  st_dishes :: "dish_row list"
  st_orders :: "order_row list"
  st_items :: "item_row list"
  st_messages :: "message_row list"
  st_published :: "(string \<times> payload event list) list"

section \<open>When a dish can be had\<close>

definition isoWeekday :: "local_time \<Rightarrow> nat" where
  "isoWeekday t = (if lt_day t \<noteq> 0 then lt_day t else 7)"

definition minutesOfDay :: "local_time \<Rightarrow> nat" where
  "minutesOfDay t = lt_hours t * 60 + lt_minutes t"

definition withinDayWindow :: "nat \<Rightarrow> nat \<Rightarrow> nat \<Rightarrow> bool" where
  "withinDayWindow start en minute =
     (if start < en then start \<le> minute \<and> minute < en else start \<le> minute \<or> minute < en)"

definition Matches :: "availability_row \<Rightarrow> local_time \<Rightarrow> bool" where
  "Matches f t =
     (if (case vr_on_date f of None \<Rightarrow> False | Some d \<Rightarrow> d \<noteq> (lt_year t, lt_month t, lt_date t)) then False
      else if vr_weekdays f \<noteq> [] \<and> isoWeekday t \<notin> set (vr_weekdays f) then False
      else (case (vr_start_time f, vr_end_time f) of
              (Some start, Some en) \<Rightarrow> withinDayWindow start en (minutesOfDay t)
            | _ \<Rightarrow> True))"

definition AvailableAt :: "availability_row list \<Rightarrow> local_time \<Rightarrow> bool" where
  "AvailableAt filters t = (filters = [] \<or> list_ex (\<lambda>f. Matches f t) filters)"

definition ItemAvailableAt :: "availability_row list \<Rightarrow> availability_row list \<Rightarrow> local_time \<Rightarrow> bool" where
  "ItemAvailableAt category item t \<longleftrightarrow> AvailableAt category t \<and> AvailableAt item t"

section \<open>Queries\<close>

datatype db_error =
    ErrNotFound | ErrUnknownReference | ErrRestaurantLocked | ErrWrongRestaurant | ErrItemUnavailable
  | ErrItemNotServedThen | ErrModificationWrongItem | ErrUnavailable

type_synonym 'a query = "db_error + 'a"

definition answered :: "store \<Rightarrow> 'a query \<Rightarrow> 'a query" where
  "answered st q = (if st_up st then q else Inl ErrUnavailable)"

definition one_row :: "'a option \<Rightarrow> 'a query" where
  "one_row r = (case r of None \<Rightarrow> Inl ErrNotFound | Some x \<Rightarrow> Inr x)"

definition UserByID :: "store \<Rightarrow> string \<Rightarrow> user query" where
  "UserByID st i = answered st (one_row (find (\<lambda>u. us_id u = i) (st_users st)))"

definition label_of :: "store \<Rightarrow> string \<Rightarrow> string" where
  "label_of st i = (case find (\<lambda>u. us_id u = i) (st_users st) of None \<Rightarrow> [] | Some u \<Rightarrow> Label u)"

definition items_of :: "store \<Rightarrow> string \<Rightarrow> item_row list" where
  "items_of st i = filter (\<lambda>x. ir_order_id x = i) (st_items st)"

definition scanOrder :: "store \<Rightarrow> order_row \<Rightarrow> model_order" where
  "scanOrder st r =
     (let rest = find (\<lambda>x. rr_id x = or_restaurant_id r) (st_restaurants st);
          name = (\<lambda>i. case i of None \<Rightarrow> [] | Some u \<Rightarrow> label_of st u)
      in order_row.extend r
           \<lparr>mo_creator_name = label_of st (or_creator_id r),
            mo_restaurant_name = (case rest of None \<Rightarrow> [] | Some x \<Rightarrow> rr_name x),
            mo_restaurant_logo = (case rest of None \<Rightarrow> None | Some x \<Rightarrow> rr_logo x),
            mo_money_collector_name = name (or_money_collector_id r),
            mo_pickup_person_name = name (or_pickup_person_id r),
            mo_item_count = length (items_of st (or_id r))\<rparr>)"

definition find_order :: "store \<Rightarrow> string \<Rightarrow> order_row option" where
  "find_order st i = find (\<lambda>r. or_id r = i) (st_orders st)"

definition OrderByID :: "store \<Rightarrow> string \<Rightarrow> model_order query" where
  "OrderByID st i = answered st (one_row (map_option (scanOrder st) (find_order st i)))"

definition IsParticipant :: "store \<Rightarrow> string \<Rightarrow> string \<Rightarrow> bool query" where
  "IsParticipant st orderID userID =
     answered st (one_row (map_option
       (\<lambda>r. or_creator_id r = userID \<or> or_money_collector_id r = Some userID \<or> or_pickup_person_id r = Some userID
            \<or> list_ex (\<lambda>i. ir_order_id i = or_id r \<and> ir_user_id i = userID) (st_items st))
       (find_order st orderID)))"

definition ListOrderItems :: "store \<Rightarrow> string \<Rightarrow> item_row list query" where
  "ListOrderItems st i = answered st (Inr (items_of st i))"

definition CountOrderItems :: "store \<Rightarrow> string \<Rightarrow> nat query" where
  "CountOrderItems st i = answered st (Inr (length (items_of st i)))"

definition CountMessages :: "store \<Rightarrow> string \<Rightarrow> nat query" where
  "CountMessages st i = answered st (Inr (length (filter (\<lambda>m. mr_order_id m = i) (st_messages st))))"

definition ListMessages :: "store \<Rightarrow> string \<Rightarrow> message_row list query" where
  "ListMessages st i = answered st (Inr (filter (\<lambda>m. mr_order_id m = i) (st_messages st)))"

definition OrderItemByID :: "store \<Rightarrow> string \<Rightarrow> item_row query" where
  "OrderItemByID st i = answered st (one_row (find (\<lambda>x. ir_id x = i) (st_items st)))"

definition RestaurantExists :: "store \<Rightarrow> string \<Rightarrow> bool query" where
  "RestaurantExists st i = answered st (Inr (list_ex (\<lambda>x. rr_id x = i \<and> \<not> rr_deleted x) (st_restaurants st)))"

section \<open>Statements\<close>

text \<open>A statement that wrote something gives the new store.\<close>

definition is_user :: "store \<Rightarrow> string \<Rightarrow> bool" where
  "is_user st i = list_ex (\<lambda>u. us_id u = i) (st_users st)"

definition known_users :: "store \<Rightarrow> string option list \<Rightarrow> bool" where
  "known_users st = list_all (\<lambda>r. case r of None \<Rightarrow> True | Some i \<Rightarrow> is_user st i)"

record new_order =
  no_creator_id :: string
  no_restaurant_id :: string
  no_fulfilment :: string
  no_fulfilment_at :: int
  no_deadline_at :: int
  no_money_collector_id :: "string option"
  no_pickup_person_id :: "string option"

definition CreateOrder :: "runtime \<Rightarrow> store \<Rightarrow> new_order \<Rightarrow> (model_order \<times> store) query" where
  "CreateOrder rt st n =
     answered st
       (case find (\<lambda>x. rr_id x = no_restaurant_id n \<and> \<not> rr_deleted x) (st_restaurants st) of
          None \<Rightarrow> Inl ErrNotFound
        | Some x \<Rightarrow>
            if \<not> known_users st [Some (no_creator_id n), no_money_collector_id n, no_pickup_person_id n]
            then Inl ErrUnavailable
            else
              (let r = \<lparr>or_id = rt_new_id rt 0, or_creator_id = no_creator_id n, or_restaurant_id = rr_id x,
                        or_fulfilment = no_fulfilment n, or_fulfilment_at = no_fulfilment_at n,
                        or_deadline_at = no_deadline_at n, or_money_collector_id = no_money_collector_id n,
                        or_pickup_person_id = no_pickup_person_id n, or_money_collector_drawn = False,
                        or_pickup_person_drawn = False, or_jobs_drawn = False, or_currency_code = rr_currency_code x,
                        or_min_order_value_cents = rr_min_order_value_cents x,
                        or_delivery_fee_cents = rr_delivery_fee_cents x\<rparr>;
                   st' = st\<lparr>st_orders := st_orders st @ [r]\<rparr>
               in Inr (scanOrder st' r, st')))"

text \<open>The fields a change names; a job's holder may be changed to nobody.\<close>

record order_update =
  ou_restaurant_id :: "string option"
  ou_fulfilment :: "string option"
  ou_fulfilment_at :: "int option"
  ou_deadline_at :: "int option"
  ou_money_collector_id :: "string option option"
  ou_pickup_person_id :: "string option option"

definition no_update :: order_update where
  "no_update =
     \<lparr>ou_restaurant_id = None, ou_fulfilment = None, ou_fulfilment_at = None, ou_deadline_at = None,
      ou_money_collector_id = None, ou_pickup_person_id = None\<rparr>"

definition set_to :: "'a option \<Rightarrow> 'a \<Rightarrow> 'a" where
  "set_to new old = (case new of None \<Rightarrow> old | Some x \<Rightarrow> x)"

definition updated_row :: "store \<Rightarrow> order_update \<Rightarrow> order_row \<Rightarrow> order_row" where
  "updated_row st u r =
     (let r1 = (case ou_restaurant_id u of
                  None \<Rightarrow> r
                | Some i \<Rightarrow>
                    (case find (\<lambda>x. rr_id x = i) (st_restaurants st) of
                       None \<Rightarrow> r\<lparr>or_restaurant_id := i\<rparr>
                     | Some x \<Rightarrow> r\<lparr>or_restaurant_id := i, or_currency_code := rr_currency_code x,
                         or_min_order_value_cents := rr_min_order_value_cents x,
                         or_delivery_fee_cents := rr_delivery_fee_cents x\<rparr>))
      in r1\<lparr>or_fulfilment := set_to (ou_fulfilment u) (or_fulfilment r1),
            or_fulfilment_at := set_to (ou_fulfilment_at u) (or_fulfilment_at r1),
            or_deadline_at := set_to (ou_deadline_at u) (or_deadline_at r1),
            or_money_collector_id := set_to (ou_money_collector_id u) (or_money_collector_id r1),
            or_pickup_person_id := set_to (ou_pickup_person_id u) (or_pickup_person_id r1)\<rparr>)"

definition references_known :: "store \<Rightarrow> order_update \<Rightarrow> bool" where
  "references_known st u \<longleftrightarrow>
     (case ou_restaurant_id u of None \<Rightarrow> True | Some i \<Rightarrow> list_ex (\<lambda>x. rr_id x = i) (st_restaurants st))
     \<and> known_users st [set_to (ou_money_collector_id u) None, set_to (ou_pickup_person_id u) None]"

definition put_row :: "order_row \<Rightarrow> store \<Rightarrow> store" where
  "put_row r st = st\<lparr>st_orders := map (\<lambda>x. if or_id x = or_id r then r else x) (st_orders st)\<rparr>"

definition UpdateOrder :: "store \<Rightarrow> string \<Rightarrow> order_update \<Rightarrow> (model_order \<times> store) query" where
  "UpdateOrder st i u =
     answered st
       (case find_order st i of
          None \<Rightarrow> Inl ErrNotFound
        | Some r \<Rightarrow>
            if u = no_update then Inr (scanOrder st r, st)
            else if ou_restaurant_id u \<noteq> None \<and> items_of st i \<noteq> [] then Inl ErrRestaurantLocked
            else if \<not> references_known st u then Inl ErrUnknownReference
            else (let r' = updated_row st u r; st' = put_row r' st in Inr (scanOrder st' r', st')))"

definition DeleteOrder :: "store \<Rightarrow> string \<Rightarrow> store query" where
  "DeleteOrder st i =
     answered st
       (case find_order st i of
          None \<Rightarrow> Inl ErrNotFound
        | Some _ \<Rightarrow> Inr (st\<lparr>st_orders := filter (\<lambda>r. or_id r \<noteq> i) (st_orders st),
                         st_items := filter (\<lambda>x. ir_order_id x \<noteq> i) (st_items st),
                         st_messages := filter (\<lambda>m. mr_order_id m \<noteq> i) (st_messages st)\<rparr>))"

record new_item =
  ni_order_id :: string
  ni_user_id :: string
  ni_menu_item_id :: string
  ni_quantity :: int
  ni_note :: string
  ni_modification_ids :: "string list"

text \<open>
  The options of a dish that are selected, as they are copied onto a line; a selection that names
  one twice, or one of another dish, matches fewer rows than it has entries. The rows are read back
  in the order of their names.
\<close>

definition insertModifications :: "runtime \<Rightarrow> dish_row \<Rightarrow> string list \<Rightarrow> item_modification list query" where
  "insertModifications rt d wanted =
     (let found = filter (\<lambda>x. xr_id x \<in> set wanted \<and> \<not> xr_deleted x) (dr_options d)
      in if length found \<noteq> length wanted then Inl ErrModificationWrongItem
         else Inr (rt_by_name rt
                (map2 (\<lambda>n x. \<lparr>im_id = rt_new_id rt n, im_modification_id = Some (xr_id x), im_name = xr_name x,
                            im_price_delta_cents = xr_price_delta_cents x\<rparr>)
                   [1..<Suc (length found)] found)))"

definition AddOrderItem :: "runtime \<Rightarrow> store \<Rightarrow> new_item \<Rightarrow> (item_row \<times> store) query" where
  "AddOrderItem rt st n =
     answered st
       (case find_order st (ni_order_id n) of
          None \<Rightarrow> Inl ErrWrongRestaurant
        | Some r \<Rightarrow>
            (case find (\<lambda>d. dr_id d = ni_menu_item_id n \<and> \<not> dr_deleted d
                            \<and> dr_restaurant_id d = or_restaurant_id r) (st_dishes st) of
               None \<Rightarrow> Inl ErrWrongRestaurant
             | Some d \<Rightarrow>
                 if \<not> dr_available d then Inl ErrItemUnavailable
                 else if \<not> ItemAvailableAt (dr_category_filters d) (dr_filters d) (rt_local rt (or_fulfilment_at r))
                 then Inl ErrItemNotServedThen
                 else
                   (case insertModifications rt d (ni_modification_ids n) of
                      Inl e \<Rightarrow> Inl e
                    | Inr mods \<Rightarrow>
                        (let row = \<lparr>ir_id = rt_new_id rt 0, ir_order_id = ni_order_id n, ir_user_id = ni_user_id n,
                                    ir_menu_item_id = ni_menu_item_id n, ir_quantity = ni_quantity n,
                                    ir_item_name = dr_name d, ir_unit_price_cents = dr_price_cents d,
                                    ir_note = ni_note n, ir_modifications = mods, ir_paid = False\<rparr>
                         in Inr (row, st\<lparr>st_items := st_items st @ [row]\<rparr>)))))"

record item_update =
  iu_quantity :: "int option"
  iu_note :: "string option"
  iu_modification_ids :: "string list option"

definition put_item :: "item_row \<Rightarrow> store \<Rightarrow> store" where
  "put_item x st = st\<lparr>st_items := map (\<lambda>y. if ir_id y = ir_id x then x else y) (st_items st)\<rparr>"

text \<open>Choosing options again copies them from the menu as it is now.\<close>

definition UpdateOrderItem :: "runtime \<Rightarrow> store \<Rightarrow> string \<Rightarrow> item_update \<Rightarrow> (item_row \<times> store) query" where
  "UpdateOrderItem rt st i u =
     answered st
       (case find (\<lambda>x. ir_id x = i) (st_items st) of
          None \<Rightarrow> Inl ErrNotFound
        | Some x \<Rightarrow>
            (let x1 = x\<lparr>ir_quantity := set_to (iu_quantity u) (ir_quantity x), ir_note := set_to (iu_note u) (ir_note x)\<rparr>
             in case iu_modification_ids u of
                  None \<Rightarrow> Inr (x1, put_item x1 st)
                | Some wanted \<Rightarrow>
                    (case (if wanted = [] then Inr []
                           else case find (\<lambda>d. dr_id d = ir_menu_item_id x) (st_dishes st) of
                                  None \<Rightarrow> Inl ErrModificationWrongItem
                                | Some d \<Rightarrow> insertModifications rt d wanted) of
                       Inl e \<Rightarrow> Inl e
                     | Inr mods \<Rightarrow>
                         (let x2 = x1\<lparr>ir_modifications := mods\<rparr> in Inr (x2, put_item x2 st)))))"

definition DeleteOrderItem :: "store \<Rightarrow> string \<Rightarrow> store query" where
  "DeleteOrderItem st i =
     answered st
       (if list_ex (\<lambda>x. ir_id x = i) (st_items st)
        then Inr (st\<lparr>st_items := filter (\<lambda>x. ir_id x \<noteq> i) (st_items st)\<rparr>) else Inl ErrNotFound)"

definition SetOrderItemPaid :: "store \<Rightarrow> string \<Rightarrow> bool \<Rightarrow> store query" where
  "SetOrderItemPaid st i paid =
     answered st
       (case find (\<lambda>x. ir_id x = i) (st_items st) of
          None \<Rightarrow> Inl ErrNotFound
        | Some x \<Rightarrow> Inr (put_item (x\<lparr>ir_paid := paid\<rparr>) st))"

definition CreateMessage :: "runtime \<Rightarrow> store \<Rightarrow> string \<Rightarrow> string \<Rightarrow> string \<Rightarrow> (message_row \<times> store) query" where
  "CreateMessage rt st orderID userID text =
     answered st
       (if find_order st orderID = None \<or> \<not> is_user st userID then Inl ErrNotFound
        else (let m = \<lparr>mr_id = rt_new_id rt 0, mr_order_id = orderID, mr_user_id = userID, mr_body = text\<rparr>
              in Inr (m, st\<lparr>st_messages := st_messages st @ [m]\<rparr>)))"

end
