(* ===== verification/ServerOrders.thy ===== *)
theory ServerOrders
  imports ServerStore
begin

text \<open>
  The handlers of the server for orders, their items, their two jobs and their chat
  (\<open>internal/api/orders.go\<close>, \<open>orderitems.go\<close>, \<open>orderjobs.go\<close>, \<open>messages.go\<close>), with the checks of who may do
  what (\<open>authorize.go\<close>, \<open>internal/db/participants.go\<close>).

  A handler is a function of the runtime, of who is asking, of the request and of the store. It
  answers with an error and leaves the store as it is, or with its answer and the new store. A path
  parameter is the text of the path; a body is what \<open>decodeJSON\<close> made of it, an error included, which
  the handler looks at where the code decodes.
\<close>

section \<open>Who is asking\<close>

record principal =
  pr_user :: user
  pr_via_token :: bool

abbreviation pr_id :: "principal \<Rightarrow> string" where
  "pr_id p \<equiv> us_id (pr_user p)"

abbreviation pr_admin :: "principal \<Rightarrow> bool" where
  "pr_admin p \<equiv> us_is_admin (pr_user p)"

type_synonym 'a checked = "server_error + 'a"

definition check :: "'a checked \<Rightarrow> ('a \<Rightarrow> 'b checked) \<Rightarrow> 'b checked" where
  "check r f = (case r of Inl e \<Rightarrow> Inl e | Inr x \<Rightarrow> f x)"

lemma check_simps [simp]:
  "check (Inl e) f = Inl e" "check (Inr x) f = f x"
  by (simp_all add: check_def)

lemma check_Inr: "check r f = Inr y \<longleftrightarrow> (\<exists>x. r = Inr x \<and> f x = Inr y)"
  by (cases r) simp_all

definition require :: "bool \<Rightarrow> server_error \<Rightarrow> unit checked" where
  "require b e = (if b then Inr () else Inl e)"

lemma check_require [simp]: "check (require b e) f = (if b then f () else Inl e)"
  by (simp add: require_def)

lemma require_Inr [simp]: "require b e = Inr u \<longleftrightarrow> b"
  by (simp add: require_def)

fun dbError :: "db_error \<Rightarrow> server_error" where
  "dbError ErrNotFound = refuse CodeNotFound"
| "dbError ErrUnknownReference = refuse_field CodeInvalidField [] ''a referenced record does not exist''"
| "dbError ErrRestaurantLocked = refuse CodeRestaurantLocked"
| "dbError _ = refuse CodeDatabaseUnavailable"

definition from_db :: "(db_error \<Rightarrow> server_error) \<Rightarrow> 'a query \<Rightarrow> 'a checked" where
  "from_db f q = (case q of Inl e \<Rightarrow> Inl (f e) | Inr x \<Rightarrow> Inr x)"

lemma from_db_simps [simp]:
  "from_db f (Inl e) = Inl (f e)" "from_db f (Inr x) = Inr x"
  by (simp_all add: from_db_def)

lemma from_db_Inr: "from_db f q = Inr y \<longleftrightarrow> q = Inr y"
  by (cases q) simp_all

definition RequireAuthenticated :: "principal option \<Rightarrow> principal checked" where
  "RequireAuthenticated p = (case p of None \<Rightarrow> Inl (refuse CodeNotAuthenticated) | Some x \<Rightarrow> Inr x)"

definition RequireAdmin :: "principal option \<Rightarrow> principal checked" where
  "RequireAdmin p =
     check (RequireAuthenticated p) (\<lambda>x. if \<not> pr_admin x then Inl (refuse CodeAdminRequired) else Inr x)"

definition RequireOwner :: "principal option \<Rightarrow> string \<Rightarrow> principal checked" where
  "RequireOwner p owner =
     check (RequireAuthenticated p)
       (\<lambda>x. if pr_id x \<noteq> owner \<and> \<not> pr_admin x then Inl (refuse CodeNotOwner) else Inr x)"

definition RequireCreator :: "principal option \<Rightarrow> string \<Rightarrow> principal checked" where
  "RequireCreator p creator =
     check (RequireAuthenticated p)
       (\<lambda>x. if pr_id x \<noteq> creator \<and> \<not> pr_admin x then Inl (refuse CodeNotOrderCreator) else Inr x)"

definition RequireParticipant :: "store \<Rightarrow> principal option \<Rightarrow> string \<Rightarrow> principal checked" where
  "RequireParticipant st p orderID =
     check (RequireAuthenticated p)
       (\<lambda>x. if pr_admin x then Inr x
            else check (from_db dbError (IsParticipant st orderID (pr_id x)))
                   (\<lambda>b. if \<not> b then Inl (refuse CodeNotParticipant) else Inr x))"

definition requireItemOwner :: "principal option \<Rightarrow> item_row \<Rightarrow> principal checked" where
  "requireItemOwner p i =
     check (RequireAuthenticated p)
       (\<lambda>x. if pr_id x \<noteq> ir_user_id i \<and> \<not> pr_admin x then Inl (refuse CodeNotItemOwner) else Inr x)"

definition requireActive :: "runtime \<Rightarrow> model_order \<Rightarrow> unit checked" where
  "requireActive rt ord = (if Active ord (rt_now rt) then Inr () else Inl (refuse CodeOrderClosed))"

section \<open>What a request holds\<close>

text \<open>\<open>strings.TrimSpace\<close>: the white space of Unicode, which has the next-line character and no byte order mark.\<close>

definition go_whitespace :: "string list" where
  "go_whitespace = [CHR 0xC2, CHR 0x85] # filter (\<lambda>w. w \<noteq> [CHR 0xEF, CHR 0xBB, CHR 0xBF]) js_whitespace"

definition TrimSpace :: "string \<Rightarrow> string" where
  "TrimSpace s = rev (strip_start (map rev go_whitespace) (rev (strip_start go_whitespace s)))"

text \<open>The characters of a text, which are its bytes that do not continue one.\<close>

definition RuneCount :: "string \<Rightarrow> nat" where
  "RuneCount s = length (filter (\<lambda>c. (of_char c :: nat) div 64 \<noteq> 2) s)"

definition longerThan :: "string \<Rightarrow> nat \<Rightarrow> bool" where
  "longerThan v limit \<longleftrightarrow> limit < RuneCount v"

definition invalidID :: "string \<Rightarrow> server_error" where
  "invalidID f = refuse_field CodeInvalidField f ''this is not a valid identifier''"

definition requiredUUID :: "runtime \<Rightarrow> string \<Rightarrow> string \<Rightarrow> string checked" where
  "requiredUUID rt v f =
     (let t = TrimSpace v
      in if t = [] then Inl (refuse_field CodeMissingField f [])
         else case rt_uuid rt t of None \<Rightarrow> Inl (invalidID f) | Some i \<Rightarrow> Inr i)"

fun parseIDList :: "runtime \<Rightarrow> string list \<Rightarrow> string \<Rightarrow> string list checked" where
  "parseIDList rt [] f = Inr []"
| "parseIDList rt (raw # rest) f =
     (case rt_uuid rt (TrimSpace raw) of
        None \<Rightarrow> Inl (invalidID f)
      | Some i \<Rightarrow> check (parseIDList rt rest f) (\<lambda>ids. Inr (i # ids)))"

definition optionalTime :: "runtime \<Rightarrow> string \<Rightarrow> string \<Rightarrow> int option checked" where
  "optionalTime rt v f =
     (let t = TrimSpace v
      in if t = [] then Inr None
         else case rt_parse_time rt t of
                None \<Rightarrow> Inl (refuse_field CodeInvalidField f ''the time must be an RFC 3339 timestamp'')
              | Some d \<Rightarrow> Inr (Some d))"

definition requiredTime :: "runtime \<Rightarrow> string \<Rightarrow> string \<Rightarrow> int checked" where
  "requiredTime rt v f =
     check (optionalTime rt v f)
       (\<lambda>d. case d of None \<Rightarrow> Inl (refuse_field CodeMissingField f []) | Some x \<Rightarrow> Inr x)"

definition validateFreeText :: "string \<Rightarrow> string \<Rightarrow> nat \<Rightarrow> unit checked" where
  "validateFreeText v f limit =
     require (\<not> longerThan (TrimSpace v) limit) (refuse_field CodeInvalidField f ''this value is too long'')"

text \<open>
  \<open>strings.ToLower\<close>, as far as it can make a word of ASCII letters: besides the capitals, the dotted
  capital I and the Kelvin sign become one.
\<close>

function lower :: "string \<Rightarrow> string" where
  "lower s =
     (if s = [] then []
      else if starts_with s [CHR 0xC4, CHR 0xB0] then CHR ''i'' # lower (drop 2 s)
      else if starts_with s [CHR 0xE2, CHR 0x84, CHR 0xAA] then CHR ''k'' # lower (drop 3 s)
      else (let n = (of_char (hd s) :: nat)
            in (if 65 \<le> n \<and> n \<le> 90 then char_of (n + 32) else hd s) # lower (tl s)))"
  by pat_completeness auto
termination
  by (relation "measure length") auto

declare lower.simps [simp del]

definition validateFulfilment :: "string \<Rightarrow> string checked" where
  "validateFulfilment v =
     (let w = lower (TrimSpace v)
      in if w = ''pickup'' then Inr ''pickup''
         else if w = ''delivery'' then Inr ''delivery''
         else if w = [] then Inl (refuse_field CodeMissingField ''fulfilment'' [])
         else Inl (refuse_field CodeInvalidField ''fulfilment'' ''the fulfilment must be pickup or delivery''))"

definition optionalUserRef :: "runtime \<Rightarrow> store \<Rightarrow> string \<Rightarrow> string \<Rightarrow> string option checked" where
  "optionalUserRef rt st v f =
     (let t = TrimSpace v
      in if t = [] then Inr None
         else case rt_uuid rt t of
                None \<Rightarrow> Inl (invalidID f)
              | Some i \<Rightarrow>
                  if i = DeletedUserID then Inl (refuse_field CodeInvalidField f ''this is not a person'')
                  else (case UserByID st i of
                          Inl ErrNotFound \<Rightarrow> Inl (refuse_field CodeInvalidField f ''no account has this id'')
                        | Inl _ \<Rightarrow> Inl (refuse CodeDatabaseUnavailable)
                        | Inr _ \<Rightarrow> Inr (Some i)))"

definition MaxOrderNoteLength :: nat where
  "MaxOrderNoteLength = 500"

definition MaxOrderItemQuantity :: int where
  "MaxOrderItemQuantity = 99"

definition MaxMessageLength :: nat where
  "MaxMessageLength = 1000"

definition validateQuantity :: "int \<Rightarrow> unit checked" where
  "validateQuantity q =
     (if q < 1 then Inl (refuse_field CodeQuantityTooSmall ''quantity'' [])
      else if MaxOrderItemQuantity < q
      then Inl (refuse_field CodeInvalidField ''quantity'' ''that is more than anybody orders at lunch'')
      else Inr ())"

definition checkDeadline :: "int \<Rightarrow> int \<Rightarrow> unit checked" where
  "checkDeadline deadlineAt fulfilmentAt =
     require (deadlineAt < fulfilmentAt) (refuse_field CodeDeadlineAfterFulfil ''deadline_at'' [])"

section \<open>What an answer holds\<close>

definition publicHeader :: "runtime \<Rightarrow> model_order \<Rightarrow> order_header" where
  "publicHeader rt ord =
     \<lparr>o_id = or_id ord, o_title = Title rt ord, o_restaurant_id = or_restaurant_id ord,
      o_restaurant_name = mo_restaurant_name ord, o_restaurant_logo_image_id = mo_restaurant_logo ord,
      o_fulfilment = or_fulfilment ord, o_fulfilment_at = rt_rfc3339 rt (or_fulfilment_at ord),
      o_deadline_at = rt_rfc3339 rt (or_deadline_at ord), o_status = order_status ord (rt_now rt),
      o_currency_code = or_currency_code ord, o_min_order_value_cents = or_min_order_value_cents ord,
      o_delivery_fee_cents = or_delivery_fee_cents ord, o_item_count = int (mo_item_count ord)\<rparr>"

definition publicOrderItem :: "store \<Rightarrow> item_row \<Rightarrow> order_item" where
  "publicOrderItem st i =
     \<lparr>oi_id = ir_id i, oi_user_id = ir_user_id i, oi_user_name = label_of st (ir_user_id i),
      oi_menu_item_id = ir_menu_item_id i, oi_quantity = ir_quantity i, oi_item_name = ir_item_name i,
      oi_unit_price_cents = ir_unit_price_cents i, oi_note = ir_note i, oi_modifications = ir_modifications i,
      oi_line_total_cents = LineTotalCents i, oi_paid = ir_paid i\<rparr>"

definition listEntry :: "runtime \<Rightarrow> model_order \<Rightarrow> order_list_entry" where
  "listEntry rt ord =
     order_header.extend (publicHeader rt ord)
       \<lparr>le_creator_id = Some (or_creator_id ord), le_creator_name = Some (mo_creator_name ord),
        le_money_collector_id = or_money_collector_id ord,
        le_money_collector_name = Some (mo_money_collector_name ord),
        le_pickup_person_id = or_pickup_person_id ord,
        le_pickup_person_name = Some (mo_pickup_person_name ord),
        le_money_collector_drawn = Some (or_money_collector_drawn ord \<and> or_money_collector_id ord \<noteq> None),
        le_pickup_person_drawn = Some (or_pickup_person_drawn ord \<and> or_pickup_person_id ord \<noteq> None)\<rparr>"

text \<open>The totals of the loop over the items: of all, of those that are settled, of those that are not.\<close>

definition add_totals :: "int \<times> int \<times> int \<Rightarrow> order_item \<Rightarrow> int \<times> int \<times> int" where
  "add_totals t i =
     (let (total, paid, unpaid) = t; c = oi_line_total_cents i
      in (total + c, if oi_paid i then paid + c else paid, if oi_paid i then unpaid else unpaid + c))"

definition writeDetail :: "runtime \<Rightarrow> store \<Rightarrow> model_order \<Rightarrow> order_detail checked" where
  "writeDetail rt st ord =
     check (from_db (\<lambda>_. refuse CodeDatabaseUnavailable) (ListOrderItems st (or_id ord))) (\<lambda>rows.
       let entry = listEntry rt ord; rendered = map (publicOrderItem st) rows;
           (total, paid, unpaid) = foldl add_totals (0, 0, 0) rendered
       in check (from_db (\<lambda>_. refuse CodeDatabaseUnavailable) (CountMessages st (or_id ord))) (\<lambda>messages.
         Inr (order_header.extend ((publicHeader rt ord)\<lparr>o_item_count := int (length rows)\<rparr>)
           \<lparr>od_creator_id = or_creator_id ord, od_creator_name = mo_creator_name ord,
            od_money_collector_id = le_money_collector_id entry, od_money_collector_name = mo_money_collector_name ord,
            od_pickup_person_id = le_pickup_person_id entry, od_pickup_person_name = mo_pickup_person_name ord,
            od_money_collector_drawn = (or_money_collector_drawn ord \<and> or_money_collector_id ord \<noteq> None),
            od_pickup_person_drawn = (or_pickup_person_drawn ord \<and> or_pickup_person_id ord \<noteq> None),
            od_items = rendered, od_item_total_cents = total, od_unpaid_total_cents = unpaid,
            od_paid_total_cents = paid,
            od_grand_total_cents = total + (case or_delivery_fee_cents ord of None \<Rightarrow> 0 | Some fee \<Rightarrow> fee),
            od_below_minimum = (case or_min_order_value_cents ord of None \<Rightarrow> False | Some m \<Rightarrow> total < m),
            od_message_count = messages\<rparr>)))"

section \<open>Live events\<close>

definition published :: "string \<Rightarrow> payload event list \<Rightarrow> store \<Rightarrow> store" where
  "published orderID events st = st\<lparr>st_published := st_published st @ [(orderID, events)]\<rparr>"

definition publishItemChange :: "string \<Rightarrow> string \<Rightarrow> payload \<Rightarrow> store \<Rightarrow> store" where
  "publishItemChange orderID name p st =
     published orderID
       ([\<lparr>ev_name = name, ev_audience = AuthenticatedOnly, ev_data = p\<rparr>]
        @ (case CountOrderItems st orderID of
             Inl _ \<Rightarrow> []
           | Inr n \<Rightarrow> [\<lparr>ev_name = ''order.item_count'', ev_audience = AnonymousOnly, ev_data = ItemCountPayload n\<rparr>])) st"

definition publishOrderChange :: "runtime \<Rightarrow> model_order \<Rightarrow> store \<Rightarrow> store" where
  "publishOrderChange rt ord st =
     published (or_id ord)
       [\<lparr>ev_name = ''order.updated'', ev_audience = AnonymousOnly, ev_data = HeaderPayload (publicHeader rt ord)\<rparr>,
        \<lparr>ev_name = ''order.updated'', ev_audience = AuthenticatedOnly, ev_data = EntryPayload (listEntry rt ord)\<rparr>] st"

definition publishOrderGone :: "string \<Rightarrow> string \<Rightarrow> store \<Rightarrow> store" where
  "publishOrderGone orderID name st =
     published orderID [\<lparr>ev_name = name, ev_audience = Everyone, ev_data = IdPayload orderID\<rparr>] st"

definition publishMessageCount :: "string \<Rightarrow> store \<Rightarrow> store" where
  "publishMessageCount orderID st =
     (case CountMessages st orderID of
        Inl _ \<Rightarrow> st
      | Inr n \<Rightarrow> published orderID
          [\<lparr>ev_name = ''order.message'', ev_audience = AuthenticatedOnly, ev_data = MessageCountPayload n\<rparr>] st)"

text \<open>What the handler of a stream sends by itself when the deadline passes.\<close>

definition expired_event :: "string \<Rightarrow> payload event" where
  "expired_event orderID = \<lparr>ev_name = ''order.expired'', ev_audience = Everyone, ev_data = IdPayload orderID\<rparr>"

section \<open>Reading orders\<close>

definition loadParam :: "runtime \<Rightarrow> (string \<Rightarrow> 'a query) \<Rightarrow> string \<Rightarrow> 'a checked" where
  "loadParam rt load param =
     (case rt_uuid rt param of None \<Rightarrow> Inl (refuse CodeNotFound) | Some i \<Rightarrow> from_db dbError (load i))"

definition lookupOrder :: "runtime \<Rightarrow> store \<Rightarrow> string \<Rightarrow> model_order checked" where
  "lookupOrder rt st param = loadParam rt (OrderByID st) param"

definition lookupOrderItem :: "runtime \<Rightarrow> store \<Rightarrow> string \<Rightarrow> string \<Rightarrow> (model_order \<times> item_row) checked" where
  "lookupOrderItem rt st param iparam =
     check (lookupOrder rt st param)
       (\<lambda>ord. check (loadParam rt (OrderItemByID st) iparam)
          (\<lambda>i. if ir_order_id i \<noteq> or_id ord then Inl (refuse CodeNotFound) else Inr (ord, i)))"

text \<open>The detail for somebody who is signed in, the header for everybody else.\<close>

definition get_order_handler :: "runtime \<Rightarrow> principal option \<Rightarrow> string \<Rightarrow> store \<Rightarrow> order_view checked" where
  "get_order_handler rt p param st =
     check (lookupOrder rt st param)
       (\<lambda>ord. if p = None then Inr (Header (publicHeader rt ord))
              else check (writeDetail rt st ord) (\<lambda>d. Inr (Detail d)))"

section \<open>Creating, changing and deleting an order\<close>

record create_request =
  cq_restaurant_id :: string
  cq_fulfilment :: string
  cq_fulfilment_at :: string
  cq_deadline_at :: string
  cq_money_collector_id :: string
  cq_pickup_person_id :: string

definition validateNewOrder :: "runtime \<Rightarrow> store \<Rightarrow> create_request \<Rightarrow> string \<Rightarrow> new_order checked" where
  "validateNewOrder rt st b creator =
     check (requiredUUID rt (cq_restaurant_id b) ''restaurant_id'') (\<lambda>restaurant.
     check (validateFulfilment (cq_fulfilment b)) (\<lambda>fulfil.
     check (requiredTime rt (cq_fulfilment_at b) ''fulfilment_at'') (\<lambda>fulfils.
     check (requiredTime rt (cq_deadline_at b) ''deadline_at'') (\<lambda>closes.
     check (checkDeadline closes fulfils) (\<lambda>_.
     check (require (rt_now rt < closes) (refuse_field CodeDeadlineInThePast ''deadline_at'' [])) (\<lambda>_.
     check (optionalUserRef rt st (cq_money_collector_id b) ''money_collector_id'') (\<lambda>collector.
     check (optionalUserRef rt st (cq_pickup_person_id b) ''pickup_person_id'') (\<lambda>person.
       Inr \<lparr>no_creator_id = creator, no_restaurant_id = restaurant, no_fulfilment = fulfil,
            no_fulfilment_at = fulfils, no_deadline_at = closes, no_money_collector_id = collector,
            no_pickup_person_id = person\<rparr>))))))))"

definition create_handler ::
  "runtime \<Rightarrow> principal option \<Rightarrow> create_request checked \<Rightarrow> store \<Rightarrow> (order_detail \<times> store) checked" where
  "create_handler rt p body st =
     check (RequireAuthenticated p) (\<lambda>x.
     check body (\<lambda>b.
     check (validateNewOrder rt st b (pr_id x)) (\<lambda>n.
       case CreateOrder rt st n of
         Inl ErrNotFound \<Rightarrow> Inl (refuse_field CodeInvalidField ''restaurant_id'' ''no restaurant has this id'')
       | Inl e \<Rightarrow> Inl (dbError e)
       | Inr (ord, st') \<Rightarrow> check (writeDetail rt st' ord) (\<lambda>d. Inr (d, st')))))"

text \<open>A field of a change is absent or given; given and empty clears a job.\<close>

record patch_request =
  pq_restaurant_id :: "string option"
  pq_fulfilment :: "string option"
  pq_fulfilment_at :: "string option"
  pq_deadline_at :: "string option"
  pq_money_collector_id :: "string option"
  pq_pickup_person_id :: "string option"

definition given :: "'a option \<Rightarrow> ('a \<Rightarrow> 'b checked) \<Rightarrow> 'b option checked" where
  "given v f = (case v of None \<Rightarrow> Inr None | Some x \<Rightarrow> check (f x) (\<lambda>y. Inr (Some y)))"

lemma given_simps [simp]:
  "given None f = Inr None" "given (Some x) f = check (f x) (\<lambda>y. Inr (Some y))"
  by (simp_all add: given_def)

definition restaurant_change :: "runtime \<Rightarrow> store \<Rightarrow> model_order \<Rightarrow> string \<Rightarrow> string checked" where
  "restaurant_change rt st ord v =
     check (from_db (\<lambda>_. refuse CodeDatabaseUnavailable) (CountOrderItems st (or_id ord))) (\<lambda>count.
     check (require (count = 0) (refuse CodeRestaurantLocked)) (\<lambda>_.
     check (requiredUUID rt v ''restaurant_id'') (\<lambda>i.
     check (from_db (\<lambda>_. refuse CodeDatabaseUnavailable) (RestaurantExists st i)) (\<lambda>known.
       if \<not> known then Inl (refuse_field CodeInvalidField ''restaurant_id'' ''no restaurant has this id'')
       else Inr i))))"

definition validateOrderPatch :: "runtime \<Rightarrow> store \<Rightarrow> model_order \<Rightarrow> patch_request \<Rightarrow> order_update checked" where
  "validateOrderPatch rt st ord b =
     check (given (pq_restaurant_id b) (restaurant_change rt st ord)) (\<lambda>restaurant.
     check (given (pq_fulfilment b) validateFulfilment) (\<lambda>fulfil.
     check (given (pq_fulfilment_at b) (\<lambda>v. requiredTime rt v ''fulfilment_at'')) (\<lambda>fulfils.
     check (given (pq_deadline_at b) (\<lambda>v. requiredTime rt v ''deadline_at'')) (\<lambda>closes.
     check (checkDeadline (set_to closes (or_deadline_at ord)) (set_to fulfils (or_fulfilment_at ord))) (\<lambda>_.
     check (given (pq_money_collector_id b) (\<lambda>v. optionalUserRef rt st v ''money_collector_id'')) (\<lambda>collector.
     check (given (pq_pickup_person_id b) (\<lambda>v. optionalUserRef rt st v ''pickup_person_id'')) (\<lambda>person.
       Inr \<lparr>ou_restaurant_id = restaurant, ou_fulfilment = fulfil, ou_fulfilment_at = fulfils,
            ou_deadline_at = closes, ou_money_collector_id = collector, ou_pickup_person_id = person\<rparr>)))))))"

definition change_order ::
  "runtime \<Rightarrow> store \<Rightarrow> string \<Rightarrow> order_update \<Rightarrow> (order_detail \<times> store) checked" where
  "change_order rt st i u =
     check (from_db dbError (UpdateOrder st i u)) (\<lambda>(ord, st1).
       let st2 = publishOrderChange rt ord st1
       in check (writeDetail rt st2 ord) (\<lambda>d. Inr (d, st2)))"

definition patch_handler ::
  "runtime \<Rightarrow> principal option \<Rightarrow> string \<Rightarrow> patch_request checked \<Rightarrow> store \<Rightarrow> (order_detail \<times> store) checked" where
  "patch_handler rt p param body st =
     check (lookupOrder rt st param) (\<lambda>ord.
     check (RequireCreator p (or_creator_id ord)) (\<lambda>x.
     check (require (Active ord (rt_now rt)) (refuse CodeOrderClosed)) (\<lambda>_.
     check body (\<lambda>b.
     check (validateOrderPatch rt st ord b) (\<lambda>u. change_order rt st (or_id ord) u)))))"

definition remove_handler :: "runtime \<Rightarrow> principal option \<Rightarrow> string \<Rightarrow> store \<Rightarrow> (unit \<times> store) checked" where
  "remove_handler rt p param st =
     check (lookupOrder rt st param) (\<lambda>ord.
     check (RequireCreator p (or_creator_id ord)) (\<lambda>x.
     check (from_db (\<lambda>e. if e = ErrNotFound then refuse CodeNotFound else refuse CodeDatabaseUnavailable)
              (DeleteOrder st (or_id ord))) (\<lambda>st1.
       Inr ((), publishOrderGone (or_id ord) ''order.deleted'' st1))))"

section \<open>The two jobs\<close>

record order_job =
  jb_field :: string
  jb_holder :: "model_order \<Rightarrow> string option"
  jb_assign :: "order_update \<Rightarrow> string option \<Rightarrow> order_update"

definition fetchingTheFood :: order_job where
  "fetchingTheFood =
     \<lparr>jb_field = ''pickup_person_id'', jb_holder = or_pickup_person_id,
      jb_assign = (\<lambda>u ref. u\<lparr>ou_pickup_person_id := Some ref\<rparr>)\<rparr>"

definition collectingTheMoney :: order_job where
  "collectingTheMoney =
     \<lparr>jb_field = ''money_collector_id'', jb_holder = or_money_collector_id,
      jb_assign = (\<lambda>u ref. u\<lparr>ou_money_collector_id := Some ref\<rparr>)\<rparr>"

definition claimJob ::
  "runtime \<Rightarrow> principal option \<Rightarrow> string \<Rightarrow> order_job \<Rightarrow> store \<Rightarrow> (order_detail \<times> store) checked" where
  "claimJob rt p param job st =
     check (lookupOrder rt st param) (\<lambda>ord.
     check (RequireAuthenticated p) (\<lambda>x.
     check (require (Active ord (rt_now rt)) (refuse CodeOrderClosed)) (\<lambda>_.
     check (require (jb_holder job ord = None) (refuse_field CodeJobTaken (jb_field job) [])) (\<lambda>_.
       change_order rt st (or_id ord) (jb_assign job no_update (Some (pr_id x)))))))"

definition releaseJob ::
  "runtime \<Rightarrow> principal option \<Rightarrow> string \<Rightarrow> order_job \<Rightarrow> store \<Rightarrow> (order_detail \<times> store) checked" where
  "releaseJob rt p param job st =
     check (lookupOrder rt st param) (\<lambda>ord.
     check (RequireAuthenticated p) (\<lambda>x.
     check (require (pr_admin x \<or> or_creator_id ord = pr_id x \<or> jb_holder job ord = Some (pr_id x))
              (refuse_field CodeNotJobHolder (jb_field job) [])) (\<lambda>_.
     check (require (Active ord (rt_now rt)) (refuse CodeOrderClosed)) (\<lambda>_.
       if jb_holder job ord = None then check (writeDetail rt st ord) (\<lambda>d. Inr (d, st))
       else change_order rt st (or_id ord) (jb_assign job no_update None)))))"

section \<open>Items\<close>

fun itemWriteError :: "db_error \<Rightarrow> server_error" where
  "itemWriteError ErrWrongRestaurant = refuse_field CodeItemWrongRestaurant ''menu_item_id'' []"
| "itemWriteError ErrItemUnavailable = refuse_field CodeItemUnavailable ''menu_item_id'' []"
| "itemWriteError ErrItemNotServedThen = refuse_field CodeItemNotServedThen ''menu_item_id'' []"
| "itemWriteError ErrModificationWrongItem = refuse_field CodeModificationWrongItem ''modification_ids'' []"
| "itemWriteError ErrNotFound = refuse CodeNotFound"
| "itemWriteError _ = refuse CodeDatabaseUnavailable"

record item_request =
  iq_menu_item_id :: string
  iq_quantity :: int
  iq_note :: string
  iq_modification_ids :: "string list"

definition addItem ::
  "runtime \<Rightarrow> principal option \<Rightarrow> string \<Rightarrow> item_request checked \<Rightarrow> store \<Rightarrow> (order_item \<times> store) checked" where
  "addItem rt p param body st =
     check (lookupOrder rt st param) (\<lambda>ord.
     check (RequireAuthenticated p) (\<lambda>x.
     check (requireActive rt ord) (\<lambda>_.
     check body (\<lambda>b.
     check (requiredUUID rt (iq_menu_item_id b) ''menu_item_id'') (\<lambda>dish.
     check (validateQuantity (iq_quantity b)) (\<lambda>_.
     check (validateFreeText (iq_note b) ''note'' MaxOrderNoteLength) (\<lambda>_.
     check (parseIDList rt (iq_modification_ids b) ''modification_ids'') (\<lambda>wanted.
     check (from_db itemWriteError (AddOrderItem rt st
              \<lparr>ni_order_id = or_id ord, ni_user_id = pr_id x, ni_menu_item_id = dish, ni_quantity = iq_quantity b,
               ni_note = TrimSpace (iq_note b), ni_modification_ids = wanted\<rparr>)) (\<lambda>(created, st1).
       let answer = publicOrderItem st1 created
       in Inr (answer, publishItemChange (or_id ord) ''item.created'' (ItemPayload answer) st1))))))))))"

record item_patch =
  ip_quantity :: "int option"
  ip_note :: "string option"
  ip_modification_ids :: "string list option"

definition patchItem ::
  "runtime \<Rightarrow> principal option \<Rightarrow> string \<Rightarrow> string \<Rightarrow> item_patch checked \<Rightarrow> store \<Rightarrow> (order_item \<times> store) checked" where
  "patchItem rt p param iparam body st =
     check (lookupOrderItem rt st param iparam) (\<lambda>(ord, item).
     check (RequireAuthenticated p) (\<lambda>_.
     check (requireActive rt ord) (\<lambda>_.
     check (requireItemOwner p item) (\<lambda>x.
     check body (\<lambda>b.
     check (given (ip_quantity b) (\<lambda>q. check (validateQuantity q) (\<lambda>_. Inr q))) (\<lambda>quantity.
     check (given (ip_note b) (\<lambda>v. check (validateFreeText v ''note'' MaxOrderNoteLength) (\<lambda>_. Inr (TrimSpace v)))) (\<lambda>note.
     check (given (ip_modification_ids b) (\<lambda>ids. parseIDList rt ids ''modification_ids'')) (\<lambda>wanted.
     check (from_db itemWriteError (UpdateOrderItem rt st (ir_id item)
              \<lparr>iu_quantity = quantity, iu_note = note, iu_modification_ids = wanted\<rparr>)) (\<lambda>(updated, st1).
       let answer = publicOrderItem st1 updated
       in Inr (answer, publishItemChange (or_id ord) ''item.updated'' (ItemPayload answer) st1))))))))))"

definition deleteItem ::
  "runtime \<Rightarrow> principal option \<Rightarrow> string \<Rightarrow> string \<Rightarrow> store \<Rightarrow> (unit \<times> store) checked" where
  "deleteItem rt p param iparam st =
     check (lookupOrderItem rt st param iparam) (\<lambda>(ord, item).
     check (RequireAuthenticated p) (\<lambda>_.
     check (requireActive rt ord) (\<lambda>_.
     check (requireItemOwner p item) (\<lambda>x.
     check (from_db (\<lambda>e. if e = ErrNotFound then refuse CodeNotFound else refuse CodeDatabaseUnavailable)
              (DeleteOrderItem st (ir_id item))) (\<lambda>st1.
       Inr ((), publishItemChange (or_id ord) ''item.deleted'' (IdPayload (ir_id item)) st1))))))"

definition setItemPaid ::
  "runtime \<Rightarrow> principal option \<Rightarrow> string \<Rightarrow> string \<Rightarrow> bool option checked \<Rightarrow> store \<Rightarrow> (order_item \<times> store) checked" where
  "setItemPaid rt p param iparam body st =
     check (lookupOrderItem rt st param iparam) (\<lambda>(ord, item).
     check (RequireAuthenticated p) (\<lambda>x.
     check (require (pr_admin x \<or> ir_user_id item = pr_id x \<or> or_creator_id ord = pr_id x
                     \<or> or_money_collector_id ord = Some (pr_id x)) (refuse CodeNotItemOwner)) (\<lambda>_.
     check body (\<lambda>b.
       case b of
         None \<Rightarrow> Inl (refuse_field CodeMissingField ''paid'' [])
       | Some paid \<Rightarrow>
           check (from_db (\<lambda>e. if e = ErrNotFound then refuse CodeNotFound else refuse CodeDatabaseUnavailable)
                    (SetOrderItemPaid st (ir_id item) paid)) (\<lambda>st1.
           check (from_db (\<lambda>_. refuse CodeDatabaseUnavailable) (OrderItemByID st1 (ir_id item))) (\<lambda>updated.
             let answer = publicOrderItem st1 updated
             in Inr (answer, publishItemChange (or_id ord) ''item.updated'' (ItemPayload answer) st1)))))))"

section \<open>The chat\<close>

definition listMessages ::
  "runtime \<Rightarrow> principal option \<Rightarrow> string \<Rightarrow> store \<Rightarrow> message_row list checked" where
  "listMessages rt p param st =
     check (lookupOrder rt st param) (\<lambda>ord.
     check (RequireParticipant st p (or_id ord)) (\<lambda>_.
       from_db (\<lambda>_. refuse CodeDatabaseUnavailable) (ListMessages st (or_id ord))))"

definition postMessage ::
  "runtime \<Rightarrow> principal option \<Rightarrow> string \<Rightarrow> string checked \<Rightarrow> store \<Rightarrow> (message_row \<times> store) checked" where
  "postMessage rt p param body st =
     check (lookupOrder rt st param) (\<lambda>ord.
     check (RequireParticipant st p (or_id ord)) (\<lambda>x.
     check body (\<lambda>b.
     let text = TrimSpace b in
     check (require (text \<noteq> []) (refuse_field CodeMissingField ''body'' [])) (\<lambda>_.
     check (require (\<not> longerThan text MaxMessageLength)
              (refuse_field CodeInvalidField ''body'' ''the message may be at most 1000 characters'')) (\<lambda>_.
     check (from_db dbError (CreateMessage rt st (or_id ord) (pr_id x) text)) (\<lambda>(created, st1).
       Inr (created, publishMessageCount (or_id ord) st1)))))))"

end
