(* ===== verification/ServerSummary.thy ===== *)
theory ServerSummary
  imports ServerOrders Summary OrderItems "HOL-Library.Word" "HOL-Library.List_Lexorder" "HOL-Library.Char_ord"
    "HOL-Library.Product_Lexorder"
begin

text \<open>
  How the server sums an order up (\<open>internal/api/summary.go\<close>): equal dishes counted together in the order
  of the menu, what everybody owes, and the text to read out. The answer is the record the summary
  page reads (theory \<open>Summary\<close>).
\<close>

section \<open>Counting together\<close>

definition modificationNames :: "item_row \<Rightarrow> string list" where
  "modificationNames i = sort_key (\<lambda>name. name) (map im_name (ir_modifications i))"

definition normaliseNote :: "runtime \<Rightarrow> string \<Rightarrow> string" where
  "normaliseNote rt note = rt_to_lower rt (TrimSpace note)"

type_synonym line_key = "string \<times> string \<times> string \<times> int"

definition key_of :: "runtime \<Rightarrow> item_row \<Rightarrow> line_key" where
  "key_of rt i =
     (ir_menu_item_id i, join_with [CHR 0x00] (modificationNames i), normaliseNote rt (ir_note i), ir_unit_price_cents i)"

definition new_line :: "(string \<Rightarrow> string) \<Rightarrow> item_row \<Rightarrow> aggregated_line" where
  "new_line external i =
     (let trimmed = TrimSpace (ir_note i)
      in \<lparr>ag_item_name = ir_item_name i, ag_external_id = external (ir_menu_item_id i),
          ag_modifications = modificationNames i, ag_note = (if trimmed \<noteq> [] then Some trimmed else None),
          ag_count = 0, ag_unit_price_cents = ir_unit_price_cents i, ag_total_cents = 0\<rparr>)"

definition count_item ::
  "runtime \<Rightarrow> (string \<Rightarrow> string) \<Rightarrow> (line_key \<times> aggregated_line) list \<Rightarrow> item_row
   \<Rightarrow> (line_key \<times> aggregated_line) list" where
  "count_item rt external ls i =
     (let k = key_of rt i; line = (case map_of ls k of None \<Rightarrow> new_line external i | Some l \<Rightarrow> l)
      in AList.update k (line\<lparr>ag_count := ag_count line + ir_quantity i,
                             ag_total_cents := ag_total_cents line + LineTotalCents i\<rparr>) ls)"

text \<open>A restaurant's number as a number: only digits, and a 64-bit integer that may wrap around.\<close>

definition numericID :: "string \<Rightarrow> 64 word option" where
  "numericID v =
     (if v = [] \<or> \<not> list_all is_digit v then None
      else Some (foldl (\<lambda>n c. n * 10 + of_nat (of_char c - 48)) 0 v))"

definition lessByMenuOrder :: "runtime \<Rightarrow> aggregated_line \<Rightarrow> aggregated_line \<Rightarrow> bool" where
  "lessByMenuOrder rt a b =
     (let x = ag_external_id a; y = ag_external_id b
      in if x = [] \<and> y \<noteq> [] then False
         else if x \<noteq> [] \<and> y = [] then True
         else if (case (numericID x, numericID y) of (Some n, Some m) \<Rightarrow> n \<noteq> m | _ \<Rightarrow> False)
         then sint (the (numericID x)) < sint (the (numericID y))
         else if (numericID x \<noteq> None) \<noteq> (numericID y \<noteq> None) then numericID x \<noteq> None
         else if x \<noteq> y then x < y
         else rt_to_lower rt (ag_item_name a) < rt_to_lower rt (ag_item_name b))"

text \<open>\<open>sort.SliceStable\<close>: elements keep their order unless a later one is less.\<close>

fun insert_stable :: "('a \<Rightarrow> 'a \<Rightarrow> bool) \<Rightarrow> 'a \<Rightarrow> 'a list \<Rightarrow> 'a list" where
  "insert_stable lt x [] = [x]"
| "insert_stable lt x (y # ys) = (if lt y x then y # insert_stable lt x ys else x # y # ys)"

definition SliceStable :: "('a \<Rightarrow> 'a \<Rightarrow> bool) \<Rightarrow> 'a list \<Rightarrow> 'a list" where
  "SliceStable lt xs = foldr (insert_stable lt) xs []"

definition aggregate :: "runtime \<Rightarrow> (string \<Rightarrow> string) \<Rightarrow> item_row list \<Rightarrow> aggregated_line list" where
  "aggregate rt external items =
     SliceStable (lessByMenuOrder rt) (map snd (foldl (count_item rt external) [] items))"

section \<open>Who owes what\<close>

definition person_item_of :: "item_row \<Rightarrow> person_item" where
  "person_item_of i =
     \<lparr>pi_id = ir_id i, pi_quantity = ir_quantity i, pi_item_name = ir_item_name i, pi_note = ir_note i,
      pi_modifications = map im_name (ir_modifications i), pi_line_total_cents = LineTotalCents i, pi_paid = ir_paid i\<rparr>"

definition bill_item ::
  "(string \<Rightarrow> string) \<Rightarrow> (string \<times> person_line) list \<Rightarrow> item_row \<Rightarrow> (string \<times> person_line) list" where
  "bill_item label ps i =
     (let u = ir_user_id i;
          line = (case map_of ps u of
                    None \<Rightarrow> \<lparr>pl_user_id = u, pl_display_name = label u, pl_items = [], pl_total_cents = 0, pl_paid_cents = 0\<rparr>
                  | Some l \<Rightarrow> l);
          line' = line\<lparr>pl_items := pl_items line @ [person_item_of i]\<rparr>
      in AList.update u
           (if ir_paid i then line'\<lparr>pl_paid_cents := pl_paid_cents line + LineTotalCents i\<rparr>
            else line'\<lparr>pl_total_cents := pl_total_cents line + LineTotalCents i\<rparr>) ps)"

definition perPerson :: "runtime \<Rightarrow> (string \<Rightarrow> string) \<Rightarrow> item_row list \<Rightarrow> person_line list" where
  "perPerson rt label items =
     SliceStable (\<lambda>a b. rt_to_lower rt (pl_display_name a) < rt_to_lower rt (pl_display_name b))
       (map snd (foldl (bill_item label) [] items))"

section \<open>The text\<close>

definition plain_line :: "aggregated_line \<Rightarrow> string" where
  "plain_line l =
     (let details = ag_modifications l @ (case ag_note l of None \<Rightarrow> [] | Some n \<Rightarrow> [n])
      in string_of_int (ag_count l) @ ''x ''
         @ (if ag_external_id l \<noteq> [] then ag_external_id l @ '' '' else [])
         @ ag_item_name l
         @ (if details \<noteq> [] then '' ('' @ join_with '', '' details @ '')'' else []) @ [CHR 0x0A])"

definition plainText :: "aggregated_line list \<Rightarrow> string" where
  "plainText ls = concat (map plain_line ls)"

section \<open>The summary\<close>

definition buildSummary ::
  "runtime \<Rightarrow> (string \<Rightarrow> string) \<Rightarrow> (string \<Rightarrow> string) \<Rightarrow> model_order \<Rightarrow> item_row list \<Rightarrow> order_summary" where
  "buildSummary rt label external ord items =
     (let ls = aggregate rt external items;
          total = foldl (\<lambda>t l. t + ag_total_cents l) 0 ls
      in \<lparr>sm_order_id = or_id ord, sm_title = Title rt ord, sm_restaurant_name = mo_restaurant_name ord,
          sm_fulfilment_at = rt_rfc3339 rt (or_fulfilment_at ord), sm_currency_code = or_currency_code ord,
          sm_aggregated = ls, sm_per_person = perPerson rt label items, sm_item_total_cents = total,
          sm_unpaid_total_cents = foldl (\<lambda>t i. if ir_paid i then t else t + LineTotalCents i) 0 items,
          sm_paid_total_cents = foldl (\<lambda>t i. if ir_paid i then t + LineTotalCents i else t) 0 items,
          sm_delivery_fee_cents = or_delivery_fee_cents ord,
          sm_grand_total_cents = total + (case or_delivery_fee_cents ord of None \<Rightarrow> 0 | Some fee \<Rightarrow> fee),
          sm_min_order_value_cents = or_min_order_value_cents ord,
          sm_below_minimum = (case or_min_order_value_cents ord of None \<Rightarrow> False | Some m \<Rightarrow> total < m),
          sm_plain_text = plainText ls\<rparr>)"

definition ExternalIDsForItems :: "store \<Rightarrow> (string \<Rightarrow> string) query" where
  "ExternalIDsForItems st =
     answered st (Inr (\<lambda>i. case find (\<lambda>d. dr_id d = i \<and> \<not> dr_deleted d) (st_dishes st) of
                            None \<Rightarrow> [] | Some d \<Rightarrow> dr_external_id d))"

definition summary_handler :: "runtime \<Rightarrow> principal option \<Rightarrow> string \<Rightarrow> store \<Rightarrow> order_summary checked" where
  "summary_handler rt p param st =
     check (lookupOrder rt st param) (\<lambda>ord.
     check (RequireParticipant st p (or_id ord)) (\<lambda>_.
     check (from_db (\<lambda>_. refuse CodeDatabaseUnavailable) (ListOrderItems st (or_id ord))) (\<lambda>items.
     check (from_db (\<lambda>_. refuse CodeDatabaseUnavailable) (ExternalIDsForItems st)) (\<lambda>external.
       Inr (buildSummary rt (label_of st) external ord items)))))"

section \<open>Sorting\<close>

lemma SliceStable_sort_key:
  assumes "\<And>a b. lt a b \<longleftrightarrow> k a < (k b :: 'k :: linorder)"
  shows "SliceStable lt xs = sort_key k xs"
proof -
  have "insert_stable lt x ys = insort_key k x ys" for x ys
    by (induction ys) (auto simp: assms)
  then have "insert_stable lt = insort_key k" by blast
  then show ?thesis by (simp add: SliceStable_def sort_key_def)
qed

text \<open>The order of the menu as one key: numbered dishes, then other labels, then dishes without one.\<close>

definition menu_key :: "runtime \<Rightarrow> aggregated_line \<Rightarrow> bool \<times> bool \<times> int \<times> string \<times> string" where
  "menu_key rt l =
     (let x = ag_external_id l
      in (x = [], numericID x = None, (case numericID x of None \<Rightarrow> 0 | Some n \<Rightarrow> sint n), x,
          rt_to_lower rt (ag_item_name l)))"

lemma less_by_menu_key: "lessByMenuOrder rt a b \<longleftrightarrow> menu_key rt a < menu_key rt b"
proof -
  have none: "numericID [] = None" by (simp add: numericID_def)
  have strict: "sint n \<le> sint m \<Longrightarrow> n \<noteq> m \<Longrightarrow> sint n < sint m" for n m :: "64 word"
    by (metis order_le_imp_less_or_eq signed_word_eqI)
  show ?thesis
    by (cases "numericID (ag_external_id a)"; cases "numericID (ag_external_id b)")
      (auto simp: lessByMenuOrder_def menu_key_def Let_def none intro: strict)
qed

section \<open>Nothing is lost or counted twice\<close>

text \<open>The line of a key and the bill of a person, each made of the items they stand for.\<close>

definition line_of :: "runtime \<Rightarrow> (string \<Rightarrow> string) \<Rightarrow> item_row list \<Rightarrow> line_key \<Rightarrow> aggregated_line" where
  "line_of rt external items k =
     (let g = filter (\<lambda>i. key_of rt i = k) items
      in (new_line external (hd g))\<lparr>ag_count := sum_list (map ir_quantity g),
            ag_total_cents := sum_list (map LineTotalCents g)\<rparr>)"

definition bill_of :: "(string \<Rightarrow> string) \<Rightarrow> item_row list \<Rightarrow> string \<Rightarrow> person_line" where
  "bill_of label items u =
     (let g = filter (\<lambda>i. ir_user_id i = u) items
      in \<lparr>pl_user_id = u, pl_display_name = label u, pl_items = map person_item_of g,
          pl_total_cents = sum_list (map LineTotalCents (filter (Not \<circ> ir_paid) g)),
          pl_paid_cents = sum_list (map LineTotalCents (filter ir_paid g))\<rparr>)"

lemma counted:
  "foldl (\<lambda>l i. l\<lparr>ag_count := ag_count l + ir_quantity i, ag_total_cents := ag_total_cents l + LineTotalCents i\<rparr>) l g =
     (l :: aggregated_line)\<lparr>ag_count := ag_count l + sum_list (map ir_quantity g),
       ag_total_cents := ag_total_cents l + sum_list (map LineTotalCents g)\<rparr>"
  by (induction g arbitrary: l) (simp_all add: ac_simps)

lemma aggregate_groups:
  "aggregate rt external items =
     sort_key (menu_key rt) (map (line_of rt external items) (first_come (map (key_of rt) items)))"
proof -
  let ?f = "\<lambda>l i. l\<lparr>ag_count := ag_count l + ir_quantity i, ag_total_cents := ag_total_cents l + LineTotalCents i\<rparr>"
  have step: "count_item rt external =
      (\<lambda>m i. AList.update (key_of rt i) (?f (case map_of m (key_of rt i) of None \<Rightarrow> new_line external i | Some g \<Rightarrow> g) i) m)"
    by (intro ext) (simp add: count_item_def Let_def)
  have "foldl (count_item rt external) [] items =
      map (\<lambda>k. (k, let g = filter (\<lambda>i. key_of rt i = k) items in foldl ?f (new_line external (hd g)) g))
        (first_come (map (key_of rt) items))"
    unfolding step by (rule grouped_fold [where f = ?f and key = "key_of rt" and new = "new_line external"])
  moreover have "(let g = filter (\<lambda>i. key_of rt i = k) items in foldl ?f (new_line external (hd g)) g) =
      line_of rt external items k" for k
    by (simp add: counted line_of_def Let_def) (simp add: new_line_def Let_def)
  ultimately show ?thesis
    by (simp add: aggregate_def SliceStable_sort_key [OF less_by_menu_key] comp_def)
qed

lemma billed:
  "foldl (\<lambda>l i. if ir_paid i
       then l\<lparr>pl_items := pl_items l @ [person_item_of i], pl_paid_cents := pl_paid_cents l + LineTotalCents i\<rparr>
       else l\<lparr>pl_items := pl_items l @ [person_item_of i], pl_total_cents := pl_total_cents l + LineTotalCents i\<rparr>) l g =
     (l :: person_line)\<lparr>pl_items := pl_items l @ map person_item_of g,
       pl_total_cents := pl_total_cents l + sum_list (map LineTotalCents (filter (Not \<circ> ir_paid) g)),
       pl_paid_cents := pl_paid_cents l + sum_list (map LineTotalCents (filter ir_paid g))\<rparr>"
  by (induction g arbitrary: l) (simp_all add: ac_simps Let_def)

lemma perPerson_groups:
  "perPerson rt label items =
     sort_key (\<lambda>l. rt_to_lower rt (pl_display_name l)) (map (bill_of label items) (first_come (map ir_user_id items)))"
proof -
  let ?f = "\<lambda>l i. if ir_paid i
       then l\<lparr>pl_items := pl_items l @ [person_item_of i], pl_paid_cents := pl_paid_cents l + LineTotalCents i\<rparr>
       else l\<lparr>pl_items := pl_items l @ [person_item_of i], pl_total_cents := pl_total_cents l + LineTotalCents i\<rparr>"
  let ?new = "\<lambda>i. \<lparr>pl_user_id = ir_user_id i, pl_display_name = label (ir_user_id i), pl_items = [],
      pl_total_cents = 0, pl_paid_cents = 0\<rparr>"
  have step: "bill_item label =
      (\<lambda>m i. AList.update (ir_user_id i) (?f (case map_of m (ir_user_id i) of None \<Rightarrow> ?new i | Some g \<Rightarrow> g) i) m)"
    by (intro ext) (simp add: bill_item_def Let_def)
  have fold: "foldl (bill_item label) [] items =
      map (\<lambda>u. (u, let g = filter (\<lambda>i. ir_user_id i = u) items in foldl ?f (?new (hd g)) g))
        (first_come (map ir_user_id items))"
    unfolding step by (rule grouped_fold [where f = ?f and key = ir_user_id and new = ?new])
  have bill: "(let g = filter (\<lambda>i. ir_user_id i = u) items in foldl ?f (?new (hd g)) g) = bill_of label items u"
    if "u \<in> set (first_come (map ir_user_id items))" for u
  proof -
    from that obtain i where "i \<in> set items" "ir_user_id i = u" by auto
    then have "filter (\<lambda>i. ir_user_id i = u) items \<noteq> []" by (auto simp: filter_empty_conv)
    then have "ir_user_id (hd (filter (\<lambda>i. ir_user_id i = u) items)) = u"
      by (metis (mono_tags, lifting) hd_in_set mem_Collect_eq set_filter)
    then show ?thesis by (simp add: billed bill_of_def Let_def)
  qed
  have "map snd (foldl (bill_item label) [] items) = map (bill_of label items) (first_come (map ir_user_id items))"
    unfolding fold map_map by (rule map_cong) (simp_all only: comp_def snd_conv bill)
  then show ?thesis
    by (simp add: perPerson_def SliceStable_sort_key [where k = "\<lambda>l. rt_to_lower rt (pl_display_name l)"])
qed

text \<open>Adding up group by group is adding up.\<close>

lemma sum_groups:
  fixes f :: "'a \<Rightarrow> int"
  shows "sum_list (map (\<lambda>k. sum_list (map f (filter (\<lambda>i. kf i = k) items))) (first_come (map kf items))) =
    sum_list (map f items)"
proof -
  have all: "filter (\<lambda>i. kf i \<in> set (first_come (map kf items))) items = items" by (simp add: filter_id_conv)
  have "sum_list (map (\<lambda>k. sum_list (map f (filter (\<lambda>i. kf i = k) items))) ks) =
      sum_list (map f (filter (\<lambda>i. kf i \<in> set ks) items))" if "distinct ks" for ks
    using that
  proof (induction ks)
    case (Cons k ks)
    then have "k \<notin> set ks" by simp
    then have "sum_list (map f (filter (\<lambda>i. kf i \<in> set (k # ks)) items)) =
        sum_list (map f (filter (\<lambda>i. kf i = k) items)) + sum_list (map f (filter (\<lambda>i. kf i \<in> set ks) items))"
      by (induction items) auto
    with Cons show ?case by simp
  qed simp
  from this [OF distinct_first_come, of "map kf items"] show ?thesis
    by (simp only: all)
qed

lemma sum_sorted:
  fixes f :: "'a \<Rightarrow> int"
  shows "sum_list (map f (sort_key k xs)) = sum_list (map f xs)"
proof -
  have "sum_mset (mset (map f (sort_key k xs))) = sum_mset (mset (map f xs))" by (simp only: mset_map Multiset.mset_sort)
  then show ?thesis by (simp only: sum_mset_sum_list)
qed

lemma foldl_sum:
  "foldl (\<lambda>t x. t + f x) n xs = n + sum_list (map f xs)"
  "foldl (\<lambda>t x. if P x then t + f x else t) n xs = n + sum_list (map f (filter P xs))"
  "foldl (\<lambda>t x. if P x then t else t + f x) n xs = n + sum_list (map f (filter (Not \<circ> P) xs))" for n :: int
  by (induction xs arbitrary: n) simp_all

lemma sum_split: "sum_list (map f (filter P xs)) + sum_list (map f (filter (Not \<circ> P) xs)) = sum_list (map f xs)"
  for f :: "'a \<Rightarrow> int"
  by (induction xs) simp_all

text \<open>
  C10: a summary neither loses nor invents anything. Its lines are in the order of the menu, one for
  each dish with the same options, note and price, and each counts exactly its items; the people are
  in the order of their names, each with exactly the lines they ordered; and the counts, the lines'
  totals, the bills and the two halves of paid and unpaid all add up to what was ordered, whatever
  was changed on the menu since.
\<close>

theorem summary_adds_up:
  "let s = buildSummary rt label external ord items; total = sum_list (map LineTotalCents items)
   in sm_aggregated s = sort_key (menu_key rt) (map (line_of rt external items) (first_come (map (key_of rt) items)))
      \<and> sm_per_person s = sort_key (\<lambda>l. rt_to_lower rt (pl_display_name l))
          (map (bill_of label items) (first_come (map ir_user_id items)))
      \<and> sum_list (map ag_count (sm_aggregated s)) = sum_list (map ir_quantity items)
      \<and> sum_list (map ag_total_cents (sm_aggregated s)) = total
      \<and> sm_item_total_cents s = total
      \<and> sm_paid_total_cents s + sm_unpaid_total_cents s = total
      \<and> sum_list (map pl_paid_cents (sm_per_person s)) = sm_paid_total_cents s
      \<and> sum_list (map pl_total_cents (sm_per_person s)) = sm_unpaid_total_cents s"
proof -
  let ?s = "buildSummary rt label external ord items"
  let ?lines = "sort_key (menu_key rt) (map (line_of rt external items) (first_come (map (key_of rt) items)))"
  have parts: "sm_aggregated ?s = ?lines"
    "sm_per_person ?s = sort_key (\<lambda>l. rt_to_lower rt (pl_display_name l))
       (map (bill_of label items) (first_come (map ir_user_id items)))"
    "sm_item_total_cents ?s = sum_list (map ag_total_cents ?lines)"
    "sm_paid_total_cents ?s = sum_list (map LineTotalCents (filter ir_paid items))"
    "sm_unpaid_total_cents ?s = sum_list (map LineTotalCents (filter (Not \<circ> ir_paid) items))"
    by (simp_all add: buildSummary_def Let_def aggregate_groups perPerson_groups foldl_sum)
  have lines: "ag_count (line_of rt external items k) = sum_list (map ir_quantity (filter (\<lambda>i. key_of rt i = k) items))"
    "ag_total_cents (line_of rt external items k) = sum_list (map LineTotalCents (filter (\<lambda>i. key_of rt i = k) items))" for k
    by (simp_all add: line_of_def Let_def)
  have bills: "sum_list (map (\<lambda>u. sum_list (map LineTotalCents (filter P (filter (\<lambda>i. ir_user_id i = u) items))))
      (first_come (map ir_user_id items))) = sum_list (map LineTotalCents (filter P items))" for P
  proof -
    have "sum_list (map LineTotalCents (filter P xs)) = sum_list (map (\<lambda>i. if P i then LineTotalCents i else 0) xs)"
      for xs :: "item_row list"
      by (induction xs) simp_all
    then show ?thesis by (simp only: sum_groups)
  qed
  have "sum_list (map ag_count ?lines) = sum_list (map ir_quantity items)"
    "sum_list (map ag_total_cents ?lines) = sum_list (map LineTotalCents items)"
    by (simp_all add: sum_sorted comp_def lines sum_groups)
  moreover have "sum_list (map pl_paid_cents (sm_per_person ?s)) = sm_paid_total_cents ?s"
    "sum_list (map pl_total_cents (sm_per_person ?s)) = sm_unpaid_total_cents ?s"
    unfolding parts sum_sorted using bills [of ir_paid] bills [of "\<lambda>i. \<not> ir_paid i"]
    by (simp_all add: comp_def bill_of_def Let_def)
  ultimately show ?thesis
    by (simp add: parts Let_def sum_split)
qed

end
