(* ===== verification/ServerRoutes.thy ===== *)
theory ServerRoutes
  imports ServerSummary
begin

text \<open>
  From a request to its handler: the strict reading of a JSON body (\<open>internal/api/json.go\<close>), the table of
  the routes below \<open>/orders\<close> (\<open>OrderHandlers.Register\<close>), and the list of all orders. The request is one
  of the client's (theory \<open>Effects\<close>): its media type is right and its body is one JSON value. The
  decoder of the library also takes a field whose name differs in its capitals; here a name is taken
  as it is written.
\<close>

section \<open>Bodies\<close>

definition decode_object :: "string list \<Rightarrow> json option \<Rightarrow> (string \<times> json) list checked" where
  "decode_object known body =
     (case body of
        None \<Rightarrow> Inl (refuse_field CodeMalformedJSON [] ''the request body is empty'')
      | Some JNull \<Rightarrow> Inr []
      | Some (JObj fs) \<Rightarrow>
          (case filter (\<lambda>(k, _). k \<notin> set known) fs of
             [] \<Rightarrow> Inr (rev fs)
           | (k, _) # _ \<Rightarrow> Inl (refuse_field CodeInvalidField k ''unknown field''))
      | Some _ \<Rightarrow> Inl (refuse_field CodeInvalidField [] ''expected an object''))"

text \<open>A field that is absent or null keeps the zero value of its type; the last of several counts.\<close>

definition string_field :: "(string \<times> json) list \<Rightarrow> string \<Rightarrow> string checked" where
  "string_field fs k =
     (case map_of fs k of
        None \<Rightarrow> Inr [] | Some JNull \<Rightarrow> Inr [] | Some (JStr s) \<Rightarrow> Inr s
      | Some _ \<Rightarrow> Inl (refuse_field CodeInvalidField k ''expected a string''))"

definition optional_string :: "(string \<times> json) list \<Rightarrow> string \<Rightarrow> string option checked" where
  "optional_string fs k =
     (case map_of fs k of
        None \<Rightarrow> Inr None | Some JNull \<Rightarrow> Inr None | Some (JStr s) \<Rightarrow> Inr (Some s)
      | Some _ \<Rightarrow> Inl (refuse_field CodeInvalidField k ''expected a string''))"

definition optional_bool :: "(string \<times> json) list \<Rightarrow> string \<Rightarrow> bool option checked" where
  "optional_bool fs k =
     (case map_of fs k of
        None \<Rightarrow> Inr None | Some JNull \<Rightarrow> Inr None | Some (JBool b) \<Rightarrow> Inr (Some b)
      | Some _ \<Rightarrow> Inl (refuse_field CodeInvalidField k ''expected a bool''))"

definition optional_int :: "(string \<times> json) list \<Rightarrow> string \<Rightarrow> int option checked" where
  "optional_int fs k =
     (case map_of fs k of
        None \<Rightarrow> Inr None | Some JNull \<Rightarrow> Inr None
      | Some (JNum n) \<Rightarrow>
          if - (2 ^ 63) \<le> n \<and> n < 2 ^ 63 then Inr (Some n)
          else Inl (refuse_field CodeInvalidField k ''expected a int'')
      | Some _ \<Rightarrow> Inl (refuse_field CodeInvalidField k ''expected a int''))"

fun strings_of :: "string \<Rightarrow> json list \<Rightarrow> string list checked" where
  "strings_of k [] = Inr []"
| "strings_of k (j # js) =
     check (case j of JStr s \<Rightarrow> Inr s | JNull \<Rightarrow> Inr [] | _ \<Rightarrow> Inl (refuse_field CodeInvalidField k ''expected a string''))
       (\<lambda>s. check (strings_of k js) (\<lambda>ss. Inr (s # ss)))"

definition strings_field :: "(string \<times> json) list \<Rightarrow> string \<Rightarrow> string list checked" where
  "strings_field fs k =
     (case map_of fs k of
        None \<Rightarrow> Inr [] | Some JNull \<Rightarrow> Inr [] | Some (JArr js) \<Rightarrow> strings_of k js
      | Some _ \<Rightarrow> Inl (refuse_field CodeInvalidField k ''expected a []string''))"

definition decode_create :: "json option \<Rightarrow> create_request checked" where
  "decode_create body =
     check (decode_object [''restaurant_id'', ''fulfilment'', ''fulfilment_at'', ''deadline_at'',
              ''money_collector_id'', ''pickup_person_id''] body) (\<lambda>fs.
     check (string_field fs ''restaurant_id'') (\<lambda>r. check (string_field fs ''fulfilment'') (\<lambda>f.
     check (string_field fs ''fulfilment_at'') (\<lambda>x. check (string_field fs ''deadline_at'') (\<lambda>c.
     check (string_field fs ''money_collector_id'') (\<lambda>m. check (string_field fs ''pickup_person_id'') (\<lambda>p.
       Inr \<lparr>cq_restaurant_id = r, cq_fulfilment = f, cq_fulfilment_at = x, cq_deadline_at = c,
            cq_money_collector_id = m, cq_pickup_person_id = p\<rparr>)))))))"

definition decode_patch :: "json option \<Rightarrow> patch_request checked" where
  "decode_patch body =
     check (decode_object [''restaurant_id'', ''fulfilment'', ''fulfilment_at'', ''deadline_at'',
              ''money_collector_id'', ''pickup_person_id''] body) (\<lambda>fs.
     check (optional_string fs ''restaurant_id'') (\<lambda>r. check (optional_string fs ''fulfilment'') (\<lambda>f.
     check (optional_string fs ''fulfilment_at'') (\<lambda>x. check (optional_string fs ''deadline_at'') (\<lambda>c.
     check (optional_string fs ''money_collector_id'') (\<lambda>m. check (optional_string fs ''pickup_person_id'') (\<lambda>p.
       Inr \<lparr>pq_restaurant_id = r, pq_fulfilment = f, pq_fulfilment_at = x, pq_deadline_at = c,
            pq_money_collector_id = m, pq_pickup_person_id = p\<rparr>)))))))"

definition decode_item :: "json option \<Rightarrow> item_request checked" where
  "decode_item body =
     check (decode_object [''menu_item_id'', ''quantity'', ''note'', ''modification_ids''] body) (\<lambda>fs.
     check (string_field fs ''menu_item_id'') (\<lambda>d. check (optional_int fs ''quantity'') (\<lambda>q.
     check (string_field fs ''note'') (\<lambda>n. check (strings_field fs ''modification_ids'') (\<lambda>ids.
       Inr \<lparr>iq_menu_item_id = d, iq_quantity = set_to q 0, iq_note = n, iq_modification_ids = ids\<rparr>)))))"

definition decode_item_patch :: "json option \<Rightarrow> item_patch checked" where
  "decode_item_patch body =
     check (decode_object [''quantity'', ''note'', ''modification_ids''] body) (\<lambda>fs.
     check (optional_int fs ''quantity'') (\<lambda>q. check (optional_string fs ''note'') (\<lambda>n.
     check (strings_field fs ''modification_ids'') (\<lambda>ids.
       Inr \<lparr>ip_quantity = q, ip_note = n,
            ip_modification_ids = (if map_of fs ''modification_ids'' = None then None else Some ids)\<rparr>))))"

definition decode_paid :: "json option \<Rightarrow> bool option checked" where
  "decode_paid body = check (decode_object [''paid''] body) (\<lambda>fs. optional_bool fs ''paid'')"

definition decode_message :: "json option \<Rightarrow> string checked" where
  "decode_message body = check (decode_object [''body''] body) (\<lambda>fs. string_field fs ''body'')"

section \<open>The list\<close>

text \<open>Active orders first, the soonest meal first; then those that are over, the latest first.\<close>

definition ListOrders :: "store \<Rightarrow> int \<Rightarrow> model_order list query" where
  "ListOrders st now =
     answered st (Inr (map (scanOrder st)
       (sort_key or_fulfilment_at (filter (\<lambda>r. now < or_deadline_at r) (st_orders st))
        @ sort_key (\<lambda>r. - or_fulfilment_at r) (filter (\<lambda>r. or_deadline_at r \<le> now) (st_orders st)))))"

datatype order_list = HeaderList "order_header list" | EntryList "order_list_entry list"

definition list_handler :: "runtime \<Rightarrow> principal option \<Rightarrow> store \<Rightarrow> order_list checked" where
  "list_handler rt p st =
     check (from_db (\<lambda>_. refuse CodeDatabaseUnavailable) (ListOrders st (rt_now rt))) (\<lambda>orders.
       Inr (if p = None then HeaderList (map (publicHeader rt) orders) else EntryList (map (listEntry rt) orders)))"

section \<open>Routes\<close>

datatype reply =
    ListReply order_list
  | ViewReply order_view
  | DetailReply order_detail
  | ItemReply order_item
  | SummaryReply order_summary
  | MessagesReply "message_row list"
  | MessageReply message_row
  | NoContent

definition unchanged :: "store \<Rightarrow> ('a \<Rightarrow> reply) \<Rightarrow> 'a checked \<Rightarrow> (reply \<times> store) checked" where
  "unchanged st f r = check r (\<lambda>x. Inr (f x, st))"

definition replying :: "('a \<Rightarrow> reply) \<Rightarrow> ('a \<times> store) checked \<Rightarrow> (reply \<times> store) checked" where
  "replying f r = check r (\<lambda>(x, st'). Inr (f x, st'))"

text \<open>
  The parts of a path between its slashes; the first is empty. The live stream of an order, which is
  not answered once but goes on, is theory \<open>ServerHub\<close>'s and has no line here; neither have the paths
  of other handlers.
\<close>

definition serve :: "runtime \<Rightarrow> principal option \<Rightarrow> http_call \<Rightarrow> store \<Rightarrow> (reply \<times> store) checked" where
  "serve rt p c st =
     (let m = call_method c; b = call_body c
      in case split_on (CHR ''/'') (call_path c) of
           [r, w] \<Rightarrow>
             if w \<noteq> ''orders'' \<or> r \<noteq> [] then Inl (refuse CodeNotFound)
             else if m = ''GET'' then unchanged st ListReply (list_handler rt p st)
             else if m = ''POST'' then replying DetailReply (create_handler rt p (decode_create b) st)
             else Inl (refuse CodeMethodNotAllowed)
         | [r, w, i] \<Rightarrow>
             if w \<noteq> ''orders'' \<or> r \<noteq> [] then Inl (refuse CodeNotFound)
             else if m = ''GET'' then unchanged st ViewReply (get_order_handler rt p i st)
             else if m = ''PATCH'' then replying DetailReply (patch_handler rt p i (decode_patch b) st)
             else if m = ''DELETE'' then replying (\<lambda>_. NoContent) (remove_handler rt p i st)
             else Inl (refuse CodeMethodNotAllowed)
         | [r, w, i, a] \<Rightarrow>
             if w \<noteq> ''orders'' \<or> r \<noteq> [] then Inl (refuse CodeNotFound)
             else if a = ''pickup-person'' \<and> m = ''POST'' then replying DetailReply (claimJob rt p i fetchingTheFood st)
             else if a = ''money-collector'' \<and> m = ''POST'' then replying DetailReply (claimJob rt p i collectingTheMoney st)
             else if a = ''pickup-person'' \<and> m = ''DELETE'' then replying DetailReply (releaseJob rt p i fetchingTheFood st)
             else if a = ''money-collector'' \<and> m = ''DELETE'' then replying DetailReply (releaseJob rt p i collectingTheMoney st)
             else if a = ''summary'' \<and> m = ''GET'' then unchanged st SummaryReply (summary_handler rt p i st)
             else if a = ''messages'' \<and> m = ''GET'' then unchanged st MessagesReply (listMessages rt p i st)
             else if a = ''messages'' \<and> m = ''POST'' then replying MessageReply (postMessage rt p i (decode_message b) st)
             else if a = ''items'' \<and> m = ''POST'' then replying ItemReply (addItem rt p i (decode_item b) st)
             else if a \<in> {''pickup-person'', ''money-collector'', ''messages'', ''items'', ''summary''} then Inl (refuse CodeMethodNotAllowed)
             else Inl (refuse CodeNotFound)
         | [r, w, i, a, n] \<Rightarrow>
             if w \<noteq> ''orders'' \<or> r \<noteq> [] \<or> a \<noteq> ''items'' then Inl (refuse CodeNotFound)
             else if m = ''PATCH'' then replying ItemReply (patchItem rt p i n (decode_item_patch b) st)
             else if m = ''DELETE'' then replying (\<lambda>_. NoContent) (deleteItem rt p i n st)
             else Inl (refuse CodeMethodNotAllowed)
         | [r, w, i, a, n, l] \<Rightarrow>
             if w \<noteq> ''orders'' \<or> r \<noteq> [] \<or> a \<noteq> ''items'' \<or> l \<noteq> ''paid'' then Inl (refuse CodeNotFound)
             else if m = ''PUT'' then replying ItemReply (setItemPaid rt p i n (decode_paid b) st)
             else Inl (refuse CodeMethodNotAllowed)
         | _ \<Rightarrow> Inl (refuse CodeNotFound))"

section \<open>Against forged requests\<close>

text \<open>\<open>internal/api/csrf.go\<close>, \<open>internal/auth/csrf.go\<close>: the token of the cookie has to come back in a header.\<close>

definition CSRFCookieName :: string where
  "CSRFCookieName = ''doener_csrf''"

definition CSRFHeaderName :: string where
  "CSRFHeaderName = ''X-CSRF-Token''"

definition isSafeMethod :: "string \<Rightarrow> bool" where
  "isSafeMethod m \<longleftrightarrow> m \<in> {''GET'', ''HEAD'', ''OPTIONS'', ''TRACE''}"

definition csrfRequired :: "principal option \<Rightarrow> string \<Rightarrow> bool" where
  "csrfRequired p m =
     (if isSafeMethod m then False else case p of None \<Rightarrow> False | Some x \<Rightarrow> \<not> pr_via_token x)"

definition EqualCSRFToken :: "string \<Rightarrow> string \<Rightarrow> bool" where
  "EqualCSRFToken cookie header = (if cookie = [] \<or> header = [] then False else cookie = header)"

text \<open>An absent cookie or header reads as empty. \<open>cookie\<close> is what the server reads as the value of the cookie.\<close>

definition RequireCSRF ::
  "principal option \<Rightarrow> string \<Rightarrow> http_request \<Rightarrow> 'a checked \<Rightarrow> 'a checked" where
  "RequireCSRF p cookie req after =
     (if \<not> csrfRequired p (hr_method req) then after
      else if \<not> EqualCSRFToken cookie (case map_of (hr_headers req) CSRFHeaderName of None \<Rightarrow> [] | Some h \<Rightarrow> h)
      then Inl (refuse CodeInvalidCSRF)
      else after)"

end
