(* ===== verification/Agreement.thy ===== *)
theory Agreement
  imports ServerRoutes OrderChat OrderItems OrderCreate Events
begin

text \<open>
  The two sides of the API held against each other: what the pages offer and send, by the theories of
  the frontend, and what the server does with it, by the theories whose names begin with \<open>Server\<close>.
\<close>

section \<open>One person, one clock, one database\<close>

text \<open>The person at the page is the one the server knows the session of, with an account.\<close>

definition looking :: "store \<Rightarrow> app \<Rightarrow> principal \<Rightarrow> bool" where
  "looking st a p \<longleftrightarrow>
     me a = Some (pr_id p) \<and> isAdmin (app_session a) = pr_admin p \<and> is_user st (pr_id p)"

text \<open>
  The clocks agree, the browser's in milliseconds; \<open>Date\<close> reads the server's timestamps, which name
  whole seconds.
\<close>

definition same_clock :: "runtime \<Rightarrow> app \<Rightarrow> bool" where
  "same_clock rt a \<longleftrightarrow>
     app_now a = rt_now rt div 1000000
     \<and> (\<forall>t. parse_date (app_intl a) (rt_rfc3339 rt t) = Some (t div 1000000000 * 1000))"

text \<open>
  What the schema and the handlers keep of the database: accounts have names; an order's jobs are
  done by accounts; its deadline is a whole second; an identifier is unique and its own canonical text.
\<close>

definition store_ok :: "runtime \<Rightarrow> store \<Rightarrow> bool" where
  "store_ok rt st \<longleftrightarrow>
     list_all (\<lambda>u. us_name u \<noteq> []) (st_users st)
     \<and> list_all (\<lambda>r. known_users st [or_money_collector_id r, or_pickup_person_id r]
                    \<and> or_deadline_at r mod 1000000000 = 0) (st_orders st)
     \<and> distinct (map ir_id (st_items st))
     \<and> list_all (\<lambda>i. rt_uuid rt (ir_id i) = Some (ir_id i) \<and> CHR ''/'' \<notin> set (ir_id i)) (st_items st)"

text \<open>A request that is granted, and one whose sender is let through as far as its body.\<close>

definition granted :: "runtime \<Rightarrow> principal \<Rightarrow> http_call \<Rightarrow> store \<Rightarrow> bool" where
  "granted rt p c st = (case serve rt (Some p) c st of Inl _ \<Rightarrow> False | Inr _ \<Rightarrow> True)"

definition admitted :: "runtime \<Rightarrow> principal \<Rightarrow> string \<Rightarrow> string \<Rightarrow> store \<Rightarrow> bool" where
  "admitted rt p m path st \<longleftrightarrow>
     serve rt (Some p) (Call m path None) st = Inl (refuse_field CodeMalformedJSON [] ''the request body is empty'')"

section \<open>What the page was given\<close>

lemma label_nonempty:
  assumes "store_ok rt st" and "is_user st i"
  shows "label_of st i \<noteq> []"
proof -
  from assms(2) obtain u where u: "u \<in> set (st_users st)" "us_id u = i"
    by (auto simp: is_user_def list_ex_iff)
  then have "find (\<lambda>u. us_id u = i) (st_users st) \<noteq> None" by (auto simp: find_None_iff)
  then obtain v where v: "find (\<lambda>u. us_id u = i) (st_users st) = Some v" by blast
  then have "v \<in> set (st_users st)" by (auto simp: find_Some_iff)
  with assms(1) v show ?thesis by (auto simp: label_of_def Label_def store_ok_def list_all_iff)
qed

lemma get_detail:
  assumes "get_order_handler rt (Some p) param st = Inr (Detail own)"
  obtains i r where "rt_uuid rt param = Some i" and "st_up st" and "find_order st i = Some r" and "or_id r = i"
    and "r \<in> set (st_orders st)"
    and "lookupOrder rt st param = Inr (scanOrder st r)" and "writeDetail rt st (scanOrder st r) = Inr own"
proof -
  from assms obtain ord where ord: "lookupOrder rt st param = Inr ord" "writeDetail rt st ord = Inr own"
    by (auto simp: get_order_handler_def check_Inr)
  from ord(1) obtain i where i: "rt_uuid rt param = Some i" "OrderByID st i = Inr ord"
    by (auto simp: lookupOrder_def loadParam_def from_db_Inr split: option.splits)
  then obtain r where r: "st_up st" "find_order st i = Some r" "ord = scanOrder st r"
    by (auto simp: OrderByID_def answered_def one_row_def split: if_splits option.splits)
  moreover from r(2) have "or_id r = i" "r \<in> set (st_orders st)"
    unfolding find_order_def find_Some_iff by auto
  ultimately show ?thesis using that ord i by blast
qed

lemma scan_fields [simp]:
  "or_id (scanOrder st r) = or_id r" "or_creator_id (scanOrder st r) = or_creator_id r"
  "or_deadline_at (scanOrder st r) = or_deadline_at r" "or_fulfilment_at (scanOrder st r) = or_fulfilment_at r"
  "or_money_collector_id (scanOrder st r) = or_money_collector_id r"
  "or_pickup_person_id (scanOrder st r) = or_pickup_person_id r"
  by (simp_all add: scanOrder_def Let_def order_row.defs)

lemma scan_active [simp]: "Active (scanOrder st r) now = Active r now"
  by (simp add: Active_def)

lemma scan_names:
  "mo_money_collector_name (scanOrder st r) = (case or_money_collector_id r of None \<Rightarrow> [] | Some u \<Rightarrow> label_of st u)"
  "mo_pickup_person_name (scanOrder st r) = (case or_pickup_person_id r of None \<Rightarrow> [] | Some u \<Rightarrow> label_of st u)"
  by (simp_all add: scanOrder_def Let_def order_row.defs)

lemma detail_fields:
  assumes "writeDetail rt st ord = Inr own"
  shows "od_creator_id own = or_creator_id ord" "od_money_collector_id own = or_money_collector_id ord"
    "od_pickup_person_id own = or_pickup_person_id ord" "od_money_collector_name own = mo_money_collector_name ord"
    "od_pickup_person_name own = mo_pickup_person_name ord"
    "od_items own = map (publicOrderItem st) (items_of st (or_id ord))"
    "o_deadline_at own = rt_rfc3339 rt (or_deadline_at ord)"
  using assms
  by (auto simp: writeDetail_def check_Inr from_db_Inr ListOrderItems_def CountMessages_def answered_def Let_def
      order_header.defs publicHeader_def listEntry_def split: if_splits prod.splits)

lemma writeDetail_up: "st_up st \<Longrightarrow> \<exists>d. writeDetail rt st ord = Inr d"
  by (auto simp: writeDetail_def ListOrderItems_def CountMessages_def answered_def Let_def split: prod.splits)

lemma deadline_ms:
  fixes n d :: int
  assumes "d mod 1000000000 = 0"
  shows "n div 1000000 < d div 1000000000 * 1000 \<longleftrightarrow> n < d"
proof -
  from assms obtain k where d: "d = 1000000000 * k" by (auto simp: mod_eq_0_iff_dvd dvd_def)
  have "n div 1000000 < 1000 * k \<longleftrightarrow> n < 1000 * k * 1000000" by linarith
  then show ?thesis by (simp add: d mult.commute)
qed

lemma active_agrees:
  assumes "same_clock rt a" and "writeDetail rt st ord = Inr own" and "or_deadline_at ord mod 1000000000 = 0"
  shows "isActive a own = Active ord (rt_now rt)"
  using assms(1) deadline_ms [OF assms(3)]
  by (simp add: isActive_def same_clock_def detail_fields [OF assms(2)] Active_def)

section \<open>Which requests are granted\<close>

fun job_of :: "job \<Rightarrow> order_job" where
  "job_of PickupPerson = fetchingTheFood"
| "job_of MoneyCollector = collectingTheMoney"

lemma job_holder:
  "writeDetail rt st (scanOrder st r) = Inr own \<Longrightarrow> jb_holder (job_of j) (scanOrder st r) = snd (holder own j)"
  by (cases j) (simp_all add: fetchingTheFood_def collectingTheMoney_def detail_fields)

lemma vacant_unnamed:
  assumes "store_ok rt st" and "r \<in> set (st_orders st)" and "writeDetail rt st (scanOrder st r) = Inr own"
  shows "fst (holder own j) = [] \<longleftrightarrow> snd (holder own j) = None"
proof -
  have "known_users st [or_money_collector_id r, or_pickup_person_id r]"
    using assms(1,2) by (auto simp: store_ok_def list_all_iff)
  then show ?thesis
    using label_nonempty [OF assms(1)]
    by (cases j) (auto simp: detail_fields [OF assms(3)] scan_names known_users_def split: option.splits)
qed

lemma assign_changes: "jb_assign (job_of j) no_update ref \<noteq> no_update"
  by (cases j) (simp_all add: fetchingTheFood_def collectingTheMoney_def no_update_def)

lemma job_change:
  assumes "st_up st" and "find_order st i = Some r" and "case ref of None \<Rightarrow> True | Some u \<Rightarrow> is_user st u"
  shows "\<exists>x. change_order rt st i (jb_assign (job_of j) no_update ref) = Inr x"
proof -
  let ?u = "jb_assign (job_of j) no_update ref"
  have "ou_restaurant_id ?u = None" "references_known st ?u"
    using assms(3) by (cases j; simp add: fetchingTheFood_def collectingTheMoney_def no_update_def references_known_def
        known_users_def set_to_def)+
  with assms assign_changes have "\<exists>y. UpdateOrder st i ?u = Inr (y, put_row (updated_row st ?u r) st)"
    by (simp add: UpdateOrder_def answered_def Let_def)
  then obtain y where "UpdateOrder st i ?u = Inr (y, put_row (updated_row st ?u r) st)" ..
  moreover have "st_up (publishOrderChange rt y (put_row (updated_row st ?u r) st))"
    using assms(1) by (simp add: publishOrderChange_def published_def put_row_def)
  moreover obtain d where "writeDetail rt (publishOrderChange rt y (put_row (updated_row st ?u r) st)) y = Inr d"
    using writeDetail_up calculation(2) by blast
  ultimately show ?thesis by (simp add: change_order_def Let_def)
qed

definition is_ok :: "'e + 'a \<Rightarrow> bool" where
  "is_ok r = (case r of Inl _ \<Rightarrow> False | Inr _ \<Rightarrow> True)"

lemma is_ok_simps [simp]:
  "is_ok (Inr x) = True" "is_ok (Inl e) = False"
  "is_ok (replying f r) = is_ok r" "is_ok (unchanged st g q) = is_ok q" "is_ok (from_db h w) = is_ok w"
  by (auto simp: is_ok_def replying_def unchanged_def check_def from_db_def split: sum.split)

lemma is_ok_iff: "is_ok r \<longleftrightarrow> (\<exists>x. r = Inr x)"
  by (cases r) simp_all

lemma claim_granted:
  assumes "lookupOrder rt st param = Inr (scanOrder st r)" and "st_up st" and "find_order st (or_id r) = Some r"
    and "is_user st (pr_id p)"
  shows "is_ok (claimJob rt (Some p) param (job_of j) st) \<longleftrightarrow>
    Active r (rt_now rt) \<and> jb_holder (job_of j) (scanOrder st r) = None"
  using job_change [OF assms(2,3), of "Some (pr_id p)" rt j] assms
  by (auto simp: claimJob_def RequireAuthenticated_def is_ok_iff)

lemma release_granted:
  assumes "lookupOrder rt st param = Inr (scanOrder st r)" and "st_up st" and "find_order st (or_id r) = Some r"
  shows "is_ok (releaseJob rt (Some p) param (job_of j) st) \<longleftrightarrow>
    (pr_admin p \<or> or_creator_id r = pr_id p \<or> jb_holder (job_of j) (scanOrder st r) = Some (pr_id p)) \<and> Active r (rt_now rt)"
  using job_change [OF assms(2,3), of None rt j] assms writeDetail_up [OF assms(2), of rt "scanOrder st r"]
  by (auto simp: releaseJob_def RequireAuthenticated_def is_ok_iff)

lemma remove_granted:
  assumes "lookupOrder rt st param = Inr (scanOrder st r)" and "st_up st" and "find_order st (or_id r) = Some r"
  shows "is_ok (remove_handler rt (Some p) param st) \<longleftrightarrow> pr_admin p \<or> or_creator_id r = pr_id p"
  using assms
  by (auto simp: remove_handler_def RequireCreator_def RequireAuthenticated_def DeleteOrder_def answered_def is_ok_iff)

lemma patch_admitted:
  assumes "lookupOrder rt st param = Inr (scanOrder st r)"
  shows "patch_handler rt (Some p) param (decode_patch None) st =
      Inl (refuse_field CodeMalformedJSON [] ''the request body is empty'')
    \<longleftrightarrow> (pr_admin p \<or> or_creator_id r = pr_id p) \<and> Active r (rt_now rt)"
  using assms
  by (auto simp: patch_handler_def RequireCreator_def RequireAuthenticated_def decode_patch_def decode_object_def
      refuse_def refuse_field_def)

section \<open>The controls over an order\<close>

lemma order_paths:
  assumes "CHR ''/'' \<notin> set i"
  shows "split_on (CHR ''/'') (''/orders/'' @ i) = [[], ''orders'', i]"
    and "CHR ''/'' \<notin> set x \<Longrightarrow> split_on (CHR ''/'') (''/orders/'' @ i @ CHR ''/'' # x) = [[], ''orders'', i, x]"
    and "CHR ''/'' \<notin> set x \<Longrightarrow> CHR ''/'' \<notin> set n \<Longrightarrow>
      split_on (CHR ''/'') (''/orders/'' @ i @ CHR ''/'' # x @ CHR ''/'' # n) = [[], ''orders'', i, x, n]"
    and "CHR ''/'' \<notin> set x \<Longrightarrow> CHR ''/'' \<notin> set n \<Longrightarrow> CHR ''/'' \<notin> set y \<Longrightarrow>
      split_on (CHR ''/'') (''/orders/'' @ i @ CHR ''/'' # x @ CHR ''/'' # n @ CHR ''/'' # y) = [[], ''orders'', i, x, n, y]"
  using assms by (simp_all add: split_on_no_sep split_on_append_sep)

text \<open>The request of a control, as the page sends it when it is pressed (and, to delete, confirmed).\<close>

fun control_call :: "order_context \<Rightarrow> order_action \<Rightarrow> http_call" where
  "control_call cx (Volunteer j) = job_call cx ''POST'' j (Some (JObj []))"
| "control_call cx (Release j) = job_call cx ''DELETE'' j None"
| "control_call cx (DeleteLine it) = Call ''DELETE'' (''/orders/'' @ cx_id cx @ ''/items/'' @ oi_id it) None"
| "control_call cx (EditLine it) = Call ''PATCH'' (''/orders/'' @ cx_id cx @ ''/items/'' @ oi_id it) None"
| "control_call cx (TickPaid i) =
     Call ''PUT'' (''/orders/'' @ cx_id cx @ ''/items/'' @ i @ ''/paid'') (Some (JObj [(''paid'', JBool True)]))"
| "control_call cx EditOrder = Call ''PATCH'' (''/orders/'' @ cx_id cx) None"
| "control_call cx DeleteOrder = Call ''DELETE'' (''/orders/'' @ cx_id cx) None"

lemma controls_send:
  "extends render \<Longrightarrow> begins (Sent (control_call cx (Volunteer j))) (volunteer srv cx render j)"
  "extends render \<Longrightarrow> begins (Sent (control_call cx (Release j))) (release srv cx render j)"
  by (simp_all add: volunteer_def release_def) (intro begins_andthen begins_runAction begins_call extends_refresh extends_basic; simp)+

lemma serve_controls:
  assumes "CHR ''/'' \<notin> set (cx_id cx)"
  shows "is_ok (serve rt (Some p) (control_call cx (Volunteer j)) st) = is_ok (claimJob rt (Some p) (cx_id cx) (job_of j) st)"
    and "is_ok (serve rt (Some p) (control_call cx (Release j)) st) = is_ok (releaseJob rt (Some p) (cx_id cx) (job_of j) st)"
    and "is_ok (serve rt (Some p) (control_call cx DeleteOrder) st) = is_ok (remove_handler rt (Some p) (cx_id cx) st)"
  using order_paths(1) [OF assms] order_paths(2) [OF assms]
  by (cases j; simp add: serve_def job_call_def job_path_def Let_def)+

text \<open>What the server says to each control of the order as a whole.\<close>

fun honoured :: "runtime \<Rightarrow> principal \<Rightarrow> store \<Rightarrow> order_context \<Rightarrow> order_detail \<Rightarrow> order_action \<Rightarrow> bool" where
  "honoured rt p st cx own DeleteOrder \<longleftrightarrow> granted rt p (control_call cx DeleteOrder) st"
| "honoured rt p st cx own (Volunteer j) \<longleftrightarrow> granted rt p (control_call cx (Volunteer j)) st"
| "honoured rt p st cx own (Release j) \<longleftrightarrow>
     snd (holder own j) \<noteq> None \<and> granted rt p (control_call cx (Release j)) st"
| "honoured rt p st cx own EditOrder \<longleftrightarrow>
     od_creator_id own = pr_id p \<and> admitted rt p ''PATCH'' (''/orders/'' @ cx_id cx) st"
| "honoured rt p st cx own _ \<longleftrightarrow> False"

lemma granted_ok: "granted rt p c st = is_ok (serve rt (Some p) c st)"
  by (simp add: granted_def is_ok_def)

lemma shown_order:
  assumes "serve rt (Some p) (Call ''GET'' (''/orders/'' @ cx_id cx) None) st = Inr (ViewReply (Detail own), st)"
    and "CHR ''/'' \<notin> set (cx_id cx)" and "store_ok rt st" and "same_clock rt (cx_app cx)"
  obtains r where "st_up st" and "find_order st (or_id r) = Some r" and "r \<in> set (st_orders st)"
    and "lookupOrder rt st (cx_id cx) = Inr (scanOrder st r)" and "writeDetail rt st (scanOrder st r) = Inr own"
    and "isActive (cx_app cx) own = Active r (rt_now rt)"
proof -
  have "get_order_handler rt (Some p) (cx_id cx) st = Inr (Detail own)"
    using assms(1) order_paths(1) [OF assms(2)]
    by (auto simp: serve_def Let_def unchanged_def check_Inr)
  then show ?thesis
  proof (rule get_detail)
    fix i r
    assume r: "r \<in> set (st_orders st)" "writeDetail rt st (scanOrder st r) = Inr own"
      and "st_up st" "find_order st i = Some r" "or_id r = i" "lookupOrder rt st (cx_id cx) = Inr (scanOrder st r)"
    moreover from assms(3) r have "or_deadline_at (scanOrder st r) mod 1000000000 = 0"
      by (auto simp: store_ok_def list_all_iff)
    then have "isActive (cx_app cx) own = Active r (rt_now rt)"
      using active_agrees [OF assms(4) r(2)] by simp
    ultimately show ?thesis using that by blast
  qed
qed


text \<open>A server and a browser to evaluate on: one order, one account, and timestamps in whole seconds.\<close>

definition sample_stamp :: "int \<Rightarrow> string" where
  "sample_stamp n = (if n < 0 then CHR ''-'' else CHR ''+'') # string_of_nat (nat \<bar>n\<bar>)"

definition sample_unstamp :: "string \<Rightarrow> int" where
  "sample_unstamp s = (if hd s = CHR ''-'' then - 1 else 1) * int (nat_of_digits (tl s))"

lemma unstamp [simp]: "sample_unstamp (sample_stamp n) = n"
  by (simp add: sample_stamp_def sample_unstamp_def)

definition sample_runtime :: runtime where
  "sample_runtime =
     \<lparr>rt_now = 0, rt_uuid = (\<lambda>i. if i = [] then None else Some i),
      rt_parse_time = (\<lambda>s. Some (sample_unstamp s * 1000000000)),
      rt_rfc3339 = (\<lambda>t. sample_stamp (t div 1000000000)), rt_title_time = (\<lambda>_. ''noon''),
      rt_local = local_time_of sample_intl, rt_new_id = (\<lambda>n. ''new'' @ string_of_nat n),
      rt_to_lower = id, rt_by_name = id\<rparr>"

definition sample_person :: principal where
  "sample_person =
     \<lparr>pr_user = \<lparr>us_id = ''u1'', us_name = ''jo'', us_display_name = [], us_is_admin = False\<rparr>, pr_via_token = False\<rparr>"

definition sample_store :: store where
  "sample_store =
     \<lparr>st_up = True, st_users = [pr_user sample_person], st_restaurants = [], st_dishes = [],
      st_orders = [\<lparr>or_id = ''o1'', or_creator_id = ''u1'', or_restaurant_id = ''r1'', or_fulfilment = ''pickup'',
        or_fulfilment_at = 7000000000, or_deadline_at = 5000000000, or_money_collector_id = None,
        or_pickup_person_id = None, or_money_collector_drawn = False, or_pickup_person_drawn = False, or_jobs_drawn = False,
        or_currency_code = ''EUR'', or_min_order_value_cents = None, or_delivery_fee_cents = None\<rparr>],
      st_items = [\<lparr>ir_id = ''i1'', ir_order_id = ''o1'', ir_user_id = ''u1'', ir_menu_item_id = ''m1'', ir_quantity = 2,
        ir_item_name = ''Soup'', ir_unit_price_cents = 450, ir_note = [], ir_modifications = [], ir_paid = False\<rparr>],
      st_messages = [], st_published = []\<rparr>"

definition sample_browser :: order_context where
  "sample_browser =
     sample_context\<lparr>cx_app := sample_app
       \<lparr>app_session := \<lparr>current = Some \<lparr>su_id = ''u1'', su_name = ''jo'', su_display_name = ''jo'', su_is_admin = False\<rparr>,
          subscribers = [], ended = None, told = []\<rparr>,
        app_intl := sample_intl\<lparr>parse_date := \<lambda>s. Some (sample_unstamp s * 1000)\<rparr>\<rparr>\<rparr>"

lemma sample_shown:
  "\<exists>own. serve sample_runtime (Some sample_person) (Call ''GET'' (''/orders/'' @ cx_id sample_browser) None) sample_store
     = Inr (ViewReply (Detail own), sample_store)"
proof -
  have up: "st_up sample_store" by (simp add: sample_store_def)
  have "lookupOrder sample_runtime sample_store ''o1'' = Inr (scanOrder sample_store (hd (st_orders sample_store)))"
    by (simp add: lookupOrder_def loadParam_def OrderByID_def answered_def one_row_def find_order_def
        sample_runtime_def sample_store_def)
  moreover obtain d where "writeDetail sample_runtime sample_store (scanOrder sample_store (hd (st_orders sample_store))) = Inr d"
    using writeDetail_up [OF up] by blast
  ultimately have "get_order_handler sample_runtime (Some sample_person) ''o1'' sample_store = Inr (Detail d)"
    by (simp add: get_order_handler_def)
  then show ?thesis
    using order_paths(1) [of "''o1''"]
    by (simp add: serve_def Let_def unchanged_def sample_browser_def sample_context_def)
qed

lemma sample_sides:
  "CHR ''/'' \<notin> set (cx_id sample_browser)" "looking sample_store (cx_app sample_browser) sample_person"
  "same_clock sample_runtime (cx_app sample_browser)" "store_ok sample_runtime sample_store"
  by (simp_all add: sample_browser_def sample_context_def sample_app_def looking_def me_def isAdmin_def sample_person_def
      sample_store_def is_user_def same_clock_def sample_runtime_def store_ok_def known_users_def)


end
