(* ===== verification/LinesAgree.thy ===== *)
theory LinesAgree
  imports Agreement Summary
begin

text \<open>
  The controls over the lines of an order, and what is open to those who take part in it, held against
  what the server grants, in the same way as the order's own controls in \<open>Agreement\<close>.
\<close>

section \<open>The controls over a line\<close>

lemma find_by_key: "x \<in> set xs \<Longrightarrow> distinct (map f xs) \<Longrightarrow> find (\<lambda>y. f y = f x) xs = Some x"
  by (induction xs) (auto simp: image_iff)

lemma find_replaced:
  "find (\<lambda>y. f y = k) xs = Some x \<Longrightarrow> f x' = k \<Longrightarrow>
    find (\<lambda>y. f y = k) (map (\<lambda>y. if f y = k then x' else y) xs) = Some x'"
  by (induction xs) (auto split: if_splits)

lemma shown_line:
  assumes "store_ok rt st" and "st_up st" and "lookupOrder rt st param = Inr (scanOrder st r)"
    and "x \<in> set (items_of st (or_id r))"
  shows "lookupOrderItem rt st param (ir_id x) = Inr (scanOrder st r, x)"
    and "find (\<lambda>y. ir_id y = ir_id x) (st_items st) = Some x"
    and "CHR ''/'' \<notin> set (ir_id x)"
proof -
  from assms(4) have x: "x \<in> set (st_items st)" "ir_order_id x = or_id r" by (simp_all add: items_of_def)
  from assms(1) x(1) show "CHR ''/'' \<notin> set (ir_id x)" by (simp add: store_ok_def list_all_iff)
  have distinct: "distinct (map ir_id (st_items st))" using assms(1) by (simp add: store_ok_def)
  show found: "find (\<lambda>y. ir_id y = ir_id x) (st_items st) = Some x"
    using x(1) distinct by (rule find_by_key)
  from assms(1) x(1) have "rt_uuid rt (ir_id x) = Some (ir_id x)" by (simp add: store_ok_def list_all_iff)
  with found assms(2,3) x(2) show "lookupOrderItem rt st param (ir_id x) = Inr (scanOrder st r, x)"
    by (simp add: lookupOrderItem_def loadParam_def OrderItemByID_def answered_def one_row_def)
qed

lemma delete_line_granted:
  assumes "lookupOrderItem rt st param n = Inr (scanOrder st r, x)" and "st_up st"
    and "find (\<lambda>y. ir_id y = ir_id x) (st_items st) = Some x"
  shows "is_ok (deleteItem rt (Some p) param n st) \<longleftrightarrow> Active r (rt_now rt) \<and> (ir_user_id x = pr_id p \<or> pr_admin p)"
proof -
  have "list_ex (\<lambda>y. ir_id y = ir_id x) (st_items st)"
    using assms(3) by (auto simp: list_ex_iff find_Some_iff)
  with assms(1,2) show ?thesis
    by (auto simp: deleteItem_def requireItemOwner_def RequireAuthenticated_def requireActive_def DeleteOrderItem_def answered_def is_ok_iff)
qed

lemma edit_line_admitted:
  assumes "lookupOrderItem rt st param n = Inr (scanOrder st r, x)"
  shows "patchItem rt (Some p) param n (decode_item_patch None) st =
      Inl (refuse_field CodeMalformedJSON [] ''the request body is empty'')
    \<longleftrightarrow> Active r (rt_now rt) \<and> (ir_user_id x = pr_id p \<or> pr_admin p)"
  using assms
  by (auto simp: patchItem_def requireItemOwner_def RequireAuthenticated_def requireActive_def decode_item_patch_def
      decode_object_def refuse_def refuse_field_def)

lemma paid_decoded: "decode_paid (Some (JObj [(''paid'', JBool b)])) = Inr (Some b)"
  by (simp add: decode_paid_def decode_object_def optional_bool_def)

lemma tick_line_granted:
  assumes "lookupOrderItem rt st param n = Inr (scanOrder st r, x)" and "st_up st"
    and "find (\<lambda>y. ir_id y = ir_id x) (st_items st) = Some x"
  shows "is_ok (setItemPaid rt (Some p) param n (Inr (Some b)) st) \<longleftrightarrow>
    pr_admin p \<or> ir_user_id x = pr_id p \<or> or_creator_id r = pr_id p \<or> or_money_collector_id r = Some (pr_id p)"
proof -
  have put: "st_up (put_item y st) = st_up st" for y by (simp add: put_item_def)
  have "find (\<lambda>y. ir_id y = ir_id x) (map (\<lambda>y. if ir_id y = ir_id x then x\<lparr>ir_paid := b\<rparr> else y) (st_items st))
      = Some (x\<lparr>ir_paid := b\<rparr>)"
    using assms(3) by (rule find_replaced) simp
  with assms put show ?thesis
    by (auto simp: setItemPaid_def RequireAuthenticated_def SetOrderItemPaid_def OrderItemByID_def answered_def one_row_def
        put_item_def is_ok_iff Let_def)
qed

text \<open>What the server says to each control of a line that is shown.\<close>

fun line_honoured :: "runtime \<Rightarrow> principal \<Rightarrow> store \<Rightarrow> order_context \<Rightarrow> order_detail \<Rightarrow> order_action \<Rightarrow> bool" where
  "line_honoured rt p st cx own (EditLine it) \<longleftrightarrow>
     it \<in> set (od_items own) \<and> oi_user_id it = pr_id p
     \<and> admitted rt p ''PATCH'' (call_path (control_call cx (EditLine it))) st"
| "line_honoured rt p st cx own (DeleteLine it) \<longleftrightarrow>
     it \<in> set (od_items own) \<and> oi_user_id it = pr_id p \<and> granted rt p (control_call cx (DeleteLine it)) st"
| "line_honoured rt p st cx own (TickPaid i) \<longleftrightarrow>
     i \<in> oi_id ` set (od_items own) \<and> granted rt p (control_call cx (TickPaid i)) st"
| "line_honoured rt p st cx own _ \<longleftrightarrow> False"

lemma serve_line:
  assumes "CHR ''/'' \<notin> set (cx_id cx)" and "CHR ''/'' \<notin> set (oi_id it)"
  shows "is_ok (serve rt (Some p) (control_call cx (DeleteLine it)) st) = is_ok (deleteItem rt (Some p) (cx_id cx) (oi_id it) st)"
    and "is_ok (serve rt (Some p) (control_call cx (TickPaid (oi_id it))) st) =
      is_ok (setItemPaid rt (Some p) (cx_id cx) (oi_id it) (Inr (Some True)) st)"
    and "admitted rt p ''PATCH'' (call_path (control_call cx (EditLine it))) st \<longleftrightarrow>
      patchItem rt (Some p) (cx_id cx) (oi_id it) (decode_item_patch None) st =
        Inl (refuse_field CodeMalformedJSON [] ''the request body is empty'')"
  using order_paths(3) [OF assms(1), of "''items''" "oi_id it"] order_paths(4) [OF assms(1), of "''items''" "oi_id it" "''paid''"] assms(2)
  by (auto simp: serve_def admitted_def Let_def paid_decoded replying_def check_def split: sum.splits)



section \<open>Who takes part\<close>

lemma unchanged_Inl: "unchanged st g (Inl e) = Inl e"
  by (simp add: unchanged_def)

lemma participation:
  assumes "find_order st (or_id r) = Some r" and "st_up st" and "writeDetail rt st (scanOrder st r) = Inr own"
    and "looking st a p"
  shows "RequireParticipant st (Some p) (or_id r) =
    (if participates a own then Inr p else Inl (refuse CodeNotParticipant))"
proof -
  have "list_ex (\<lambda>it. oi_user_id it = pr_id p) (od_items own) \<longleftrightarrow>
      list_ex (\<lambda>i. ir_order_id i = or_id r \<and> ir_user_id i = pr_id p) (st_items st)"
    by (auto simp: detail_fields [OF assms(3)] items_of_def publicOrderItem_def list_ex_iff)
  with assms show ?thesis
    by (auto simp: RequireParticipant_def RequireAuthenticated_def IsParticipant_def answered_def one_row_def looking_def
        participates_def detail_fields [OF assms(3)])
qed

text \<open>
  C16: what is open to those who take part in an order is open to the same people on both sides. For
  somebody signed in who is shown an order as the server just answered it, the chat can be opened, and
  the way to the summary is a link, exactly when the server would answer with the messages and with
  the summary; everybody else the server refuses both with the error whose text the closed button
  carries, number 3004.
\<close>

theorem participants_agree:
  assumes shown: "serve rt (Some p) (Call ''GET'' (''/orders/'' @ cx_id cx) None) st = Inr (ViewReply (Detail own), st)"
    and path: "CHR ''/'' \<notin> set (cx_id cx)"
    and who: "looking st (cx_app cx) p" and clock: "same_clock rt (cx_app cx)" and ok: "store_ok rt st"
  shows "(chat_unavailable cx (Detail own) = None) = granted rt p (messages_call cx ''GET'' None) st
    \<and> isParticipant cx (Detail own) = granted rt p (get_summary (cx_id cx)) st
    \<and> (isParticipant cx (Detail own)
       \<or> serve rt (Some p) (messages_call cx ''GET'' None) st = Inl (refuse CodeNotParticipant)
         \<and> serve rt (Some p) (get_summary (cx_id cx)) st = Inl (refuse CodeNotParticipant))
    \<and> number CodeNotParticipant = 3004"
proof -
  obtain r where up: "st_up st" and found: "find_order st (or_id r) = Some r"
    and look: "lookupOrder rt st (cx_id cx) = Inr (scanOrder st r)"
    and own: "writeDetail rt st (scanOrder st r) = Inr own"
    using shown_order [OF shown path ok clock] by blast
  have "me (cx_app cx) = Some (pr_id p)" using who by (simp add: looking_def)
  then have auth: "isAuthenticated (app_session (cx_app cx))" by (simp add: me_authenticated)
  have may: "isParticipant cx (Detail own) = participates (cx_app cx) own" by (simp add: isParticipant_def detail_def)
  have messages: "serve rt (Some p) (messages_call cx ''GET'' None) st = unchanged st MessagesReply (listMessages rt (Some p) (cx_id cx) st)"
    and summary: "serve rt (Some p) (get_summary (cx_id cx)) st = unchanged st SummaryReply (summary_handler rt (Some p) (cx_id cx) st)"
    using order_paths(2) [OF path, of "''messages''"] order_paths(2) [OF path, of "''summary''"]
    by (simp_all add: serve_def messages_call_def get_summary_def Let_def)
  note parts = participation [OF found up own who]
  have "is_ok (listMessages rt (Some p) (cx_id cx) st) = participates (cx_app cx) own"
    "\<not> participates (cx_app cx) own \<Longrightarrow> listMessages rt (Some p) (cx_id cx) st = Inl (refuse CodeNotParticipant)"
    "is_ok (summary_handler rt (Some p) (cx_id cx) st) = participates (cx_app cx) own"
    "\<not> participates (cx_app cx) own \<Longrightarrow> summary_handler rt (Some p) (cx_id cx) st = Inl (refuse CodeNotParticipant)"
    using look parts up
    by (auto simp: listMessages_def summary_handler_def ListMessages_def ListOrderItems_def ExternalIDsForItems_def answered_def is_ok_iff)
  then show ?thesis
    by (cases "participates (cx_app cx) own")
      (simp_all add: granted_ok messages summary may chat_unavailable_def auth unchanged_Inl)
qed

theorem participants_agree_witness:
  "granted sample_runtime sample_person (get_summary (cx_id sample_browser)) sample_store"
proof -
  obtain own where shown: "serve sample_runtime (Some sample_person) (Call ''GET'' (''/orders/'' @ cx_id sample_browser) None) sample_store
      = Inr (ViewReply (Detail own), sample_store)"
    using sample_shown by blast
  obtain r where own: "writeDetail sample_runtime sample_store (scanOrder sample_store r) = Inr own" "r \<in> set (st_orders sample_store)"
    using shown_order [OF shown sample_sides(1,4,3)] by blast
  then have "od_creator_id own = ''u1''" by (simp add: detail_fields [OF own(1)] sample_store_def)
  moreover have "me (cx_app sample_browser) = Some ''u1''" using sample_sides(2) by (simp add: looking_def sample_person_def)
  ultimately have "isParticipant sample_browser (Detail own)" by (simp add: isParticipant_def participates_def detail_def)
  with participants_agree [OF shown sample_sides] show ?thesis by blast
qed

end
