(* ===== verification/RequestsAgree.thy ===== *)
theory RequestsAgree
  imports Agreement
begin

text \<open>
  The requests of the frontend at the server's gates: the token against forged requests, the times of
  a new order, and what the stream of an order lets out to somebody who is not signed in.
\<close>

section \<open>The token against forged requests\<close>



section \<open>The times of a new order\<close>

text \<open>A moment that was written by \<open>toISOString\<close> is read by the server as the same moment.\<close>

definition same_times :: "runtime \<Rightarrow> app \<Rightarrow> bool" where
  "same_times rt a \<longleftrightarrow>
     app_now a = rt_now rt div 1000000
     \<and> (\<forall>ms. TrimSpace (iso_string (app_intl a) ms) = iso_string (app_intl a) ms
           \<and> iso_string (app_intl a) ms \<noteq> []
           \<and> rt_parse_time rt (iso_string (app_intl a) ms) = Some (ms * 1000000))"

lemma times_read:
  "same_times rt a \<Longrightarrow> requiredTime rt (iso_string (app_intl a) ms) f = Inr (ms * 1000000)"
  by (simp add: requiredTime_def optionalTime_def same_times_def)

text \<open>The problem the page shows for a refusal of the times.\<close>

definition problem_for :: "app \<Rightarrow> (reply \<times> store) checked \<Rightarrow> string option" where
  "problem_for a answer =
     (case answer of
        Inl e \<Rightarrow> if er_code e = CodeDeadlineAfterFulfil then Some (translate (app_t a) ''order.deadline_before_fulfilment'' [])
                 else if er_code e = CodeDeadlineInThePast then Some (translate (app_t a) ''error.1014'' [])
                 else None
      | Inr _ \<Rightarrow> None)"

lemma post_decoded:
  "decode_create (call_body (order_post f x c)) =
     Inr \<lparr>cq_restaurant_id = nw_restaurant f, cq_fulfilment = nw_fulfilment f, cq_fulfilment_at = x, cq_deadline_at = c,
          cq_money_collector_id = nw_collector f, cq_pickup_person_id = nw_pickup f\<rparr>"
  by (simp add: order_post_def decode_create_def decode_object_def string_field_def)

lemma post_served:
  "serve rt p (order_post f x c) st = replying DetailReply (create_handler rt p (decode_create (call_body (order_post f x c))) st)"
proof -
  have "split_on (CHR ''/'') ''/orders'' = [[], ''orders'']" by (simp add: split_on_no_sep)
  then show ?thesis by (simp add: serve_def order_post_def Let_def)
qed

text \<open>Everything but the checks of the times refuses for another reason.\<close>

definition untimed :: "'a checked \<Rightarrow> bool" where
  "untimed r = (case r of Inl e \<Rightarrow> er_code e \<noteq> CodeDeadlineAfterFulfil \<and> er_code e \<noteq> CodeDeadlineInThePast | Inr _ \<Rightarrow> True)"

lemma untimed_simps [simp]:
  "untimed (Inr x)" "untimed (Inl (refuse c)) \<longleftrightarrow> c \<noteq> CodeDeadlineAfterFulfil \<and> c \<noteq> CodeDeadlineInThePast"
  "untimed (Inl (refuse_field c h d)) \<longleftrightarrow> c \<noteq> CodeDeadlineAfterFulfil \<and> c \<noteq> CodeDeadlineInThePast"
  by (simp_all add: untimed_def refuse_def refuse_field_def)

lemma untimed_check: "untimed r \<Longrightarrow> (\<And>x. untimed (g x)) \<Longrightarrow> untimed (check r g)"
  by (cases r) (simp_all add: untimed_def)

lemma untimed_db [simp]: "untimed (Inl (dbError e))" "untimed (from_db (\<lambda>_. refuse CodeDatabaseUnavailable) q)"
  by (cases e; simp) (simp add: from_db_def split: sum.split)

lemma untimed_user: "untimed (optionalUserRef rt st v h)"
  by (auto simp: optionalUserRef_def Let_def invalidID_def split: option.split sum.split db_error.split)

lemma untimed_detail: "untimed (writeDetail rt st ord)"
  unfolding writeDetail_def by (auto intro!: untimed_check split: prod.split simp: Let_def)

lemma untimed_replying: "untimed r \<Longrightarrow> untimed (replying g r)"
  unfolding replying_def by (auto intro!: untimed_check split: prod.split)

lemma problem_untimed: "untimed r \<Longrightarrow> problem_for a r = None"
  by (auto simp: untimed_def problem_for_def split: sum.splits)

lemma known_fulfilment: "v \<in> {''pickup'', ''delivery''} \<Longrightarrow> validateFulfilment v = Inr v"
proof -
  have "validateFulfilment ''pickup'' = Inr ''pickup''" "validateFulfilment ''delivery'' = Inr ''delivery''" by code_simp+
  then show "v \<in> {''pickup'', ''delivery''} \<Longrightarrow> validateFulfilment v = Inr v" by blast
qed

text \<open>
  C11: the page checks the times of a new order exactly as the server does. When both times can be read,
  the message the page shows instead of sending, that the deadline has to come before the fulfilment or
  that it has passed, is the one for which the server would refuse the very request at that moment, in
  that order of precedence; and the page sends the request exactly when the server has nothing to say
  against its times.
\<close>

theorem creation_times_agree:
  assumes "same_times rt a" and "times_of a f = Some (x, c)"
    and "TrimSpace (nw_restaurant f) \<noteq> []" and "rt_uuid rt (TrimSpace (nw_restaurant f)) \<noteq> None"
    and "nw_fulfilment f \<in> {''pickup'', ''delivery''}"
  shows "nw_problem (snd (validate a f)) =
      problem_for a (serve rt (Some p) (order_post f (iso_string (app_intl a) x) (iso_string (app_intl a) c)) st)
    \<and> fst (validate a f) = (nw_problem (snd (validate a f)) = None)"
proof -
  let ?post = "order_post f (iso_string (app_intl a) x) (iso_string (app_intl a) c)"
  have now: "app_now a < c \<longleftrightarrow> rt_now rt < c * 1000000" using assms(1) by (auto simp: same_times_def)
  obtain i where uuid: "requiredUUID rt (nw_restaurant f) ''restaurant_id'' = Inr i"
    using assms(3,4) by (auto simp: requiredUUID_def Let_def)
  let ?made = "\<lambda>b. check (optionalUserRef rt st (nw_collector f) ''money_collector_id'') (\<lambda>m.
     check (optionalUserRef rt st (nw_pickup f) ''pickup_person_id'') (\<lambda>u. b m u))"
  have "serve rt (Some p) ?post st =
    (if x \<le> c then Inl (refuse_field CodeDeadlineAfterFulfil ''deadline_at'' [])
     else if c \<le> app_now a then Inl (refuse_field CodeDeadlineInThePast ''deadline_at'' [])
     else serve rt (Some p) ?post st)"
    using now
    by (auto simp: post_served post_decoded create_handler_def RequireAuthenticated_def validateNewOrder_def uuid
        known_fulfilment [OF assms(5)] times_read [OF assms(1)] checkDeadline_def replying_def)
  moreover have "untimed (serve rt (Some p) ?post st)" if "c < x" "app_now a < c"
    using that now
    by (auto simp: post_served post_decoded create_handler_def RequireAuthenticated_def validateNewOrder_def uuid
        known_fulfilment [OF assms(5)] times_read [OF assms(1)] checkDeadline_def untimed_user untimed_detail
        intro!: untimed_replying untimed_check split: sum.split db_error.split prod.split)
  ultimately show ?thesis
    using assms(2) problem_untimed [of "serve rt (Some p) ?post st" a]
    by (auto simp: validate_def problem_for_def refuse_field_def Let_def)
qed

text \<open>A browser that writes moments between brackets, and a server that reads them.\<close>

definition sample_iso :: "int \<Rightarrow> string" where
  "sample_iso ms = CHR ''<'' # sample_stamp ms @ ''>''"

definition sample_form :: create_form where
  "sample_form =
     \<lparr>ui_status = \<lparr>st_text = [], st_error = False\<rparr>, ui_busy = False, nw_restaurant = ''r1'', nw_fulfilment = ''pickup'', nw_fulfilment_at = ''+7'',
      nw_deadline_at = ''-5'', nw_collector = [], nw_pickup = [], nw_problem = None, nw_warning = [], nw_hours = [],
      nw_asked = []\<rparr>"

definition sample_writer :: app where
  "sample_writer =
     cx_app sample_browser\<lparr>app_now := 0, app_intl := (app_intl (cx_app sample_browser))\<lparr>iso_string := sample_iso\<rparr>\<rparr>"

definition sample_reader :: runtime where
  "sample_reader = sample_runtime\<lparr>rt_parse_time := \<lambda>s. Some (sample_unstamp (butlast (tl s)) * 1000000)\<rparr>"

lemma trimmed_bracketed: "TrimSpace (CHR ''<'' # s @ ''>'') = CHR ''<'' # s @ ''>''"
  by (simp add: TrimSpace_def strip_start_idle white_prefix_def go_whitespace_def js_whitespace_def)

theorem creation_times_agree_witness:
  "problem_for sample_writer (serve sample_reader (Some sample_person)
       (order_post sample_form (sample_iso 7000) (sample_iso (- 5000))) sample_store)
     = Some (translate (app_t sample_writer) ''error.1014'' [])"
proof -
  have same: "same_times sample_reader sample_writer"
    by (simp add: same_times_def sample_runtime_def sample_reader_def sample_writer_def sample_iso_def trimmed_bracketed)
  have "sample_unstamp ''+7'' = 7" "sample_unstamp ''-5'' = - 5" by code_simp+
  then have times: "times_of sample_writer sample_form = Some (7000, - 5000)"
    by (simp add: times_of_def sample_form_def sample_writer_def sample_browser_def)
  have r: "TrimSpace (nw_restaurant sample_form) = ''r1''" unfolding sample_form_def by code_simp
  have i: "iso_string (app_intl sample_writer) = sample_iso" by (simp add: sample_writer_def)
  have "nw_problem (snd (validate sample_writer sample_form)) =
      problem_for sample_writer (serve sample_reader (Some sample_person)
        (order_post sample_form (sample_iso 7000) (sample_iso (- 5000))) sample_store)"
    by (rule creation_times_agree [OF same times, THEN conjunct1, unfolded i])
      (simp_all add: r sample_reader_def sample_runtime_def, simp add: sample_form_def)
  moreover have "nw_problem (snd (validate sample_writer sample_form)) = Some (translate (app_t sample_writer) ''error.1014'' [])"
    using times by (simp add: validate_def sample_writer_def Let_def)
  ultimately show ?thesis by (simp only:)
qed

end
