(* ===== verification/ServerDraw.thy ===== *)
theory ServerDraw
  imports ServerOrders
begin

text \<open>
  The draw at the deadline (\<open>internal/db/orderdraw.go\<close>, \<open>internal/api/orderdraw.go\<close>): the loop that looks
  every fifteen seconds for closed orders and puts somebody who ordered in each job nobody took.
  \<open>random()\<close> is a parameter that picks one of the people of an order.
\<close>

section \<open>The statement\<close>

definition draw_due :: "int \<Rightarrow> order_row \<Rightarrow> bool" where
  "draw_due now r \<longleftrightarrow> \<not> or_jobs_drawn r \<and> or_deadline_at r \<le> now"

text \<open>Everybody with an item in the order, once each; nobody when both jobs are taken.\<close>

definition draw_people :: "store \<Rightarrow> order_row \<Rightarrow> string list" where
  "draw_people st r =
     (if or_money_collector_id r = None \<or> or_pickup_person_id r = None
      then remdups (filter (\<lambda>u. u \<noteq> DeletedUserID) (map ir_user_id (items_of st (or_id r)))) else [])"

definition draw_picked :: "(string \<Rightarrow> string list \<Rightarrow> string) \<Rightarrow> store \<Rightarrow> order_row \<Rightarrow> string option" where
  "draw_picked pick st r = (case draw_people st r of [] \<Rightarrow> None | ps \<Rightarrow> Some (pick (or_id r) ps))"

definition draw_row :: "(string \<Rightarrow> string list \<Rightarrow> string) \<Rightarrow> store \<Rightarrow> order_row \<Rightarrow> order_row" where
  "draw_row pick st r =
     (let p = draw_picked pick st r; coalesce = (\<lambda>x. if x = None then p else x)
      in r\<lparr>or_jobs_drawn := True,
           or_money_collector_drawn := (or_money_collector_id r = None \<and> p \<noteq> None),
           or_pickup_person_drawn := (or_pickup_person_id r = None \<and> p \<noteq> None),
           or_money_collector_id := coalesce (or_money_collector_id r),
           or_pickup_person_id := coalesce (or_pickup_person_id r)\<rparr>)"

text \<open>The orders whose jobs were filled, and the store after it.\<close>

definition DrawJobs ::
  "(string \<Rightarrow> string list \<Rightarrow> string) \<Rightarrow> store \<Rightarrow> int \<Rightarrow> (string list \<times> store) query" where
  "DrawJobs pick st now =
     answered st (Inr
       (map or_id (filter (\<lambda>r. draw_due now r \<and> draw_picked pick st r \<noteq> None) (st_orders st)),
        st\<lparr>st_orders := map (\<lambda>r. if draw_due now r then draw_row pick st r else r) (st_orders st)\<rparr>))"

section \<open>One pass of the loop\<close>

text \<open>A failure ends the pass; the next one tries again.\<close>

fun publish_drawn :: "runtime \<Rightarrow> string list \<Rightarrow> store \<Rightarrow> store" where
  "publish_drawn rt [] st = st"
| "publish_drawn rt (i # rest) st =
     (case OrderByID st i of
        Inl _ \<Rightarrow> st
      | Inr ord \<Rightarrow> publish_drawn rt rest (publishOrderChange rt ord st))"

definition draw_pass :: "(string \<Rightarrow> string list \<Rightarrow> string) \<Rightarrow> runtime \<Rightarrow> store \<Rightarrow> store" where
  "draw_pass pick rt st =
     (case DrawJobs pick st (rt_now rt) of Inl _ \<Rightarrow> st | Inr (filled, st1) \<Rightarrow> publish_drawn rt filled st1)"

section \<open>What a pass leaves\<close>

lemma publish_drawn_keeps [simp]:
  "st_orders (publish_drawn rt ids st) = st_orders st" "st_items (publish_drawn rt ids st) = st_items st"
  "st_up (publish_drawn rt ids st) = st_up st"
  by (induction ids arbitrary: st) (simp_all add: publishOrderChange_def published_def split: sum.split)

lemma draw_pass_orders:
  "st_up st \<Longrightarrow> st_orders (draw_pass pick rt st) =
     map (\<lambda>r. if draw_due (rt_now rt) r then draw_row pick st r else r) (st_orders st)"
  by (simp add: draw_pass_def DrawJobs_def answered_def)

lemma draw_row_fields [simp]:
  "or_id (draw_row pick st r) = or_id r" "or_jobs_drawn (draw_row pick st r)"
  "or_deadline_at (draw_row pick st r) = or_deadline_at r"
  by (simp_all add: draw_row_def Let_def)

lemma draw_people_distinct: "distinct (draw_people st r)"
  by (simp add: draw_people_def)

lemma nothing_due_twice [simp]: "\<not> draw_due now (draw_row pick st r)"
  by (simp add: draw_due_def)

text \<open>The people with an item in an order, but for the placeholder of deleted accounts.\<close>

definition orderers :: "store \<Rightarrow> order_row \<Rightarrow> string set" where
  "orderers st r = {ir_user_id i |i. i \<in> set (st_items st) \<and> ir_order_id i = or_id r} - {DeletedUserID}"

lemma draw_people_orderers:
  "set (draw_people st r) = (if or_money_collector_id r = None \<or> or_pickup_person_id r = None then orderers st r else {})"
  by (auto simp: draw_people_def items_of_def orderers_def)

lemma draw_picked_orderers:
  "draw_picked pick st r =
     (if (or_money_collector_id r = None \<or> or_pickup_person_id r = None) \<and> orderers st r \<noteq> {}
      then Some (pick (or_id r) (draw_people st r)) else None)"
  using draw_people_orderers [of st r] by (auto simp: draw_picked_def split: list.split if_splits)

text \<open>
  C17: the jobs of an order are drawn once, when it has closed, and fairly. An order that is still open,
  or has been drawn before, is left as it is; of one that has closed a taken job stays with its holder,
  and every vacant job goes to the one person picked, who has an item in it, among people each named
  once however much they ordered; with nobody to pick it is only marked. A second pass at the same time
  changes and publishes nothing.
\<close>

theorem jobs_drawn_once:
  assumes "st_up st" and "\<forall>i ps. ps \<noteq> [] \<longrightarrow> pick i ps \<in> set ps" and "r \<in> set (st_orders st)"
  shows "(let r' = draw_row pick st r; closed = (\<not> Active r (rt_now rt) \<and> \<not> or_jobs_drawn r);
              ordered = orderers st r;
              st' = draw_pass pick rt st; again = draw_pass pick rt st'
          in (if closed then r' \<in> set (st_orders st') else r \<in> set (st_orders st'))
             \<and> or_jobs_drawn r'
             \<and> (case (or_money_collector_id r, or_pickup_person_id r) of
                  (Some m, Some p) \<Rightarrow> or_money_collector_id r' = Some m \<and> or_pickup_person_id r' = Some p
                | (Some m, None) \<Rightarrow> or_money_collector_id r' = Some m
                    \<and> (if ordered = {} then or_pickup_person_id r' = None
                       else \<exists>u \<in> ordered. or_pickup_person_id r' = Some u \<and> or_pickup_person_drawn r')
                | (None, Some p) \<Rightarrow> or_pickup_person_id r' = Some p
                    \<and> (if ordered = {} then or_money_collector_id r' = None
                       else \<exists>u \<in> ordered. or_money_collector_id r' = Some u \<and> or_money_collector_drawn r')
                | (None, None) \<Rightarrow>
                    (if ordered = {} then or_money_collector_id r' = None \<and> or_pickup_person_id r' = None
                     else \<exists>u \<in> ordered. or_money_collector_id r' = Some u \<and> or_pickup_person_id r' = Some u))
             \<and> distinct (draw_people st r) \<and> set (draw_people st r) \<subseteq> ordered
             \<and> st_orders again = st_orders st' \<and> st_published again = st_published st')"
proof -
  let ?st' = "draw_pass pick rt st"
  have one: "pick (or_id r) (draw_people st r) \<in> orderers st r"
    if "or_money_collector_id r = None \<or> or_pickup_person_id r = None" "orderers st r \<noteq> {}"
  proof -
    from that have "set (draw_people st r) = orderers st r" by (simp add: draw_people_orderers)
    with that(2) assms(2) show ?thesis by (metis empty_set)
  qed
  have up': "st_up ?st'" using assms(1) by (simp add: draw_pass_def DrawJobs_def answered_def)
  have idle: "\<not> draw_due (rt_now rt) x" if "x \<in> set (st_orders ?st')" for x
    using that by (auto simp: draw_pass_orders [OF assms(1)])
  then have "map (\<lambda>x. if draw_due (rt_now rt) x then draw_row pick ?st' x else x) (st_orders ?st') = st_orders ?st'"
    "filter (\<lambda>x. draw_due (rt_now rt) x \<and> draw_picked pick ?st' x \<noteq> None) (st_orders ?st') = []"
    by (simp_all add: map_idI filter_empty_conv)
  then have again: "draw_pass pick rt ?st' = ?st'\<lparr>st_orders := st_orders ?st'\<rparr>"
    using up' by (simp add: draw_pass_def [of pick rt ?st'] DrawJobs_def answered_def)
  have row: "if \<not> Active r (rt_now rt) \<and> \<not> or_jobs_drawn r then draw_row pick st r \<in> set (st_orders ?st')
      else r \<in> set (st_orders ?st')"
    using assms(1,3) by (force simp: draw_pass_orders draw_due_def Active_def)
  have holders: "case (or_money_collector_id r, or_pickup_person_id r) of
      (Some m, Some p) \<Rightarrow> or_money_collector_id (draw_row pick st r) = Some m \<and> or_pickup_person_id (draw_row pick st r) = Some p
    | (Some m, None) \<Rightarrow> or_money_collector_id (draw_row pick st r) = Some m
        \<and> (if orderers st r = {} then or_pickup_person_id (draw_row pick st r) = None
           else \<exists>u \<in> orderers st r. or_pickup_person_id (draw_row pick st r) = Some u \<and> or_pickup_person_drawn (draw_row pick st r))
    | (None, Some p) \<Rightarrow> or_pickup_person_id (draw_row pick st r) = Some p
        \<and> (if orderers st r = {} then or_money_collector_id (draw_row pick st r) = None
           else \<exists>u \<in> orderers st r. or_money_collector_id (draw_row pick st r) = Some u \<and> or_money_collector_drawn (draw_row pick st r))
    | (None, None) \<Rightarrow>
        (if orderers st r = {}
         then or_money_collector_id (draw_row pick st r) = None \<and> or_pickup_person_id (draw_row pick st r) = None
         else \<exists>u \<in> orderers st r. or_money_collector_id (draw_row pick st r) = Some u
           \<and> or_pickup_person_id (draw_row pick st r) = Some u)"
    using one by (auto simp: draw_row_def draw_picked_orderers Let_def split: option.split)
  have "set (draw_people st r) \<subseteq> orderers st r" by (simp add: draw_people_orderers)
  moreover have "st_orders (draw_pass pick rt ?st') = st_orders ?st'" "st_published (draw_pass pick rt ?st') = st_published ?st'"
    by (simp_all add: again)
  ultimately show ?thesis
    using row holders draw_people_distinct [of st r] by (simp only: Let_def draw_row_fields simp_thms)
qed

theorem jobs_drawn_once_witness:
  "let st = \<lparr>st_up = True, st_users = [], st_restaurants = [], st_dishes = [],
        st_orders = [\<lparr>or_id = ''o1'', or_creator_id = ''u1'', or_restaurant_id = ''r1'', or_fulfilment = ''pickup'',
          or_fulfilment_at = 7, or_deadline_at = 5, or_money_collector_id = Some ''u1'',
          or_pickup_person_id = None, or_money_collector_drawn = False, or_pickup_person_drawn = False,
          or_jobs_drawn = False, or_currency_code = ''EUR'', or_min_order_value_cents = None, or_delivery_fee_cents = None\<rparr>],
        st_items = [], st_messages = [], st_published = []\<rparr>
   in distinct (draw_people st (hd (st_orders st))) \<and> or_jobs_drawn (draw_row (\<lambda>_. hd) st (hd (st_orders st)))"
proof -
  let ?st = "\<lparr>st_up = True, st_users = [], st_restaurants = [], st_dishes = [],
        st_orders = [\<lparr>or_id = ''o1'', or_creator_id = ''u1'', or_restaurant_id = ''r1'', or_fulfilment = ''pickup'',
          or_fulfilment_at = 7, or_deadline_at = 5, or_money_collector_id = Some ''u1'',
          or_pickup_person_id = None, or_money_collector_drawn = False, or_pickup_person_drawn = False,
          or_jobs_drawn = False, or_currency_code = ''EUR'', or_min_order_value_cents = None, or_delivery_fee_cents = None\<rparr>],
        st_items = [], st_messages = [], st_published = []\<rparr> :: store"
  have "st_up ?st" and "hd (st_orders ?st) \<in> set (st_orders ?st)" and "\<forall>(i::string) ps. ps \<noteq> [] \<longrightarrow> hd ps \<in> set ps" by simp_all
  from jobs_drawn_once [OF this(1,3,2)] show ?thesis unfolding Let_def by blast
qed

end
