(* ===== verification/StreamsAgree.thy ===== *)
theory StreamsAgree
  imports ServerRoutes ServerDraw Events
begin

text \<open>
  What the streams of an order carry: every publication of the handlers, through the registry of
  \<open>ServerHub\<close>, to the names the frontend's \<open>Events\<close> listens for.
\<close>

section \<open>What the handlers publish\<close>

text \<open>
  What anybody may see: that something is gone, how many lines there are, and an order's header, which
  names no person and no dish.
\<close>

fun public_payload :: "payload \<Rightarrow> bool" where
  "public_payload (IdPayload _) \<longleftrightarrow> True"
| "public_payload (ItemCountPayload _) \<longleftrightarrow> True"
| "public_payload (HeaderPayload _) \<longleftrightarrow> True"
| "public_payload _ \<longleftrightarrow> False"

definition fit_to_publish :: "payload event list \<Rightarrow> bool" where
  "fit_to_publish events \<longleftrightarrow>
     separate events
     \<and> list_all (\<lambda>e. ev_name e \<in> set ORDER_EVENTS \<and> (admits False e \<longrightarrow> public_payload (ev_data e))) events"

definition grown :: "store \<Rightarrow> store \<Rightarrow> bool" where
  "grown st st' \<longleftrightarrow>
     (\<exists>new. st_published st' = st_published st @ new \<and> list_all (\<lambda>(_, events). fit_to_publish events) new)"

lemma grown_refl [simp]: "grown st st" "st_published st' = st_published st \<Longrightarrow> grown st st'"
  by (auto simp: grown_def)

lemma grown_published:
  "st_published st1 = st_published st \<Longrightarrow> fit_to_publish events \<Longrightarrow> grown st (published orderID events st1)"
  by (auto simp: grown_def published_def)

lemma fit_changes:
  "fit_to_publish [expired_event i]"
  "fit_to_publish [\<lparr>ev_name = ''order.deleted'', ev_audience = Everyone, ev_data = IdPayload i\<rparr>]"
  "fit_to_publish [\<lparr>ev_name = ''order.message'', ev_audience = AuthenticatedOnly, ev_data = MessageCountPayload n\<rparr>]"
  "fit_to_publish
     [\<lparr>ev_name = ''order.updated'', ev_audience = AnonymousOnly, ev_data = HeaderPayload h\<rparr>,
      \<lparr>ev_name = ''order.updated'', ev_audience = AuthenticatedOnly, ev_data = EntryPayload en\<rparr>]"
  "name \<in> {''item.created'', ''item.updated'', ''item.deleted''} \<Longrightarrow>
     fit_to_publish [\<lparr>ev_name = name, ev_audience = AuthenticatedOnly, ev_data = q\<rparr>]"
  "name \<in> {''item.created'', ''item.updated'', ''item.deleted''} \<Longrightarrow>
     fit_to_publish [\<lparr>ev_name = name, ev_audience = AuthenticatedOnly, ev_data = q\<rparr>,
       \<lparr>ev_name = ''order.item_count'', ev_audience = AnonymousOnly, ev_data = ItemCountPayload n\<rparr>]"
  by (auto simp: fit_to_publish_def separate_def admits_def expired_event_def ORDER_EVENTS_def)

lemma grown_changes:
  assumes "st_published st1 = st_published st"
  shows "grown st (publishOrderChange rt ord st1)" and "grown st (publishOrderGone orderID ''order.deleted'' st1)"
    and "grown st (publishMessageCount orderID st1)"
    and "name \<in> {''item.created'', ''item.updated'', ''item.deleted''} \<Longrightarrow> grown st (publishItemChange orderID name q st1)"
  using assms
  by (auto simp: publishOrderChange_def publishOrderGone_def publishMessageCount_def publishItemChange_def
      intro!: grown_published fit_changes split: sum.split)

text \<open>The statements themselves publish nothing.\<close>

lemma statements_publish_nothing:
  "CreateOrder rt st n = Inr (ord, st1) \<Longrightarrow> st_published st1 = st_published st"
  "UpdateOrder st i u = Inr (ord, st1) \<Longrightarrow> st_published st1 = st_published st"
  "ServerStore.DeleteOrder st i = Inr st1 \<Longrightarrow> st_published st1 = st_published st"
  "AddOrderItem rt st ni = Inr (row, st1) \<Longrightarrow> st_published st1 = st_published st"
  "UpdateOrderItem rt st i iu = Inr (row, st1) \<Longrightarrow> st_published st1 = st_published st"
  "DeleteOrderItem st i = Inr st1 \<Longrightarrow> st_published st1 = st_published st"
  "SetOrderItemPaid st i b = Inr st1 \<Longrightarrow> st_published st1 = st_published st"
  "CreateMessage rt st i v t = Inr (m, st1) \<Longrightarrow> st_published st1 = st_published st"
  by (auto simp: CreateOrder_def UpdateOrder_def DeleteOrder_def AddOrderItem_def UpdateOrderItem_def DeleteOrderItem_def
      SetOrderItemPaid_def CreateMessage_def put_row_def put_item_def answered_def Let_def
      split: if_splits option.splits sum.splits)

text \<open>A handler's answer, together with what it has published.\<close>

definition emits :: "store \<Rightarrow> ('a \<times> store) checked \<Rightarrow> bool" where
  "emits st r = (case r of Inl _ \<Rightarrow> True | Inr (_, st') \<Rightarrow> grown st st')"

lemma emits_simps [simp]: "emits st (Inl e)" "emits st (Inr (x, st')) = grown st st'"
  by (simp_all add: emits_def)

lemma emits_check: "(\<And>x. r = Inr x \<Longrightarrow> emits st (f x)) \<Longrightarrow> emits st (check r f)"
  by (cases r) simp_all

lemma emits_reply: "emits st r \<Longrightarrow> emits st (replying g r)" "emits st (unchanged st h q)"
  by (auto simp: emits_def replying_def unchanged_def check_def split: sum.splits prod.splits)

lemma emits_change: "emits st (change_order rt st i u)"
  unfolding change_order_def
  by (auto simp: Let_def from_db_Inr dest!: statements_publish_nothing intro!: emits_check grown_changes)

lemmas emits_intros = emits_check emits_change grown_changes

lemma handlers_emit:
  "emits st (create_handler rt p b1 st)" "emits st (patch_handler rt p i b2 st)" "emits st (remove_handler rt p i st)"
  "emits st (claimJob rt p i job st)" "emits st (releaseJob rt p i job st)"
  "emits st (addItem rt p i b3 st)" "emits st (patchItem rt p i n b4 st)" "emits st (deleteItem rt p i n st)"
  "emits st (setItemPaid rt p i n b5 st)" "emits st (postMessage rt p i b6 st)"
  unfolding create_handler_def patch_handler_def remove_handler_def claimJob_def releaseJob_def addItem_def patchItem_def
    deleteItem_def setItemPaid_def postMessage_def
  by (auto simp: Let_def from_db_Inr dest!: statements_publish_nothing intro!: emits_intros
      split: sum.split db_error.split option.split)

lemma emits_if: "emits st a \<Longrightarrow> emits st b \<Longrightarrow> emits st (if c then a else b)"
  by simp

lemma emits_list:
  "emits st a \<Longrightarrow> (\<And>x xs. emits st (f x xs)) \<Longrightarrow> emits st (case l of [] \<Rightarrow> a | x # xs \<Rightarrow> f x xs)"
  by (cases l) simp_all

lemma serve_emits: "emits st (serve rt p c st)"
  unfolding serve_def Let_def
  by (intro emits_list emits_if emits_reply handlers_emit emits_simps(1))

lemma grown_trans: "grown st st1 \<Longrightarrow> grown st1 st2 \<Longrightarrow> grown st st2"
  by (auto simp: grown_def)

lemma publish_drawn_grows: "grown st (publish_drawn rt ids st)"
proof (induction ids arbitrary: st)
  case (Cons i ids)
  have "grown st (publishOrderChange rt ord st)" for ord by (rule grown_changes) simp
  with Cons show ?case by (auto intro: grown_trans split: sum.split)
qed simp

lemma draw_grows: "grown st (draw_pass pick rt st)"
proof (cases "DrawJobs pick st (rt_now rt)")
  case (Inr r)
  then obtain ids st1 where run: "DrawJobs pick st (rt_now rt) = Inr (ids, st1)" by (cases r) simp
  then have "grown st st1" by (auto simp: DrawJobs_def answered_def split: if_splits)
  with publish_drawn_grows show ?thesis by (auto simp: draw_pass_def run intro: grown_trans)
qed (simp add: draw_pass_def)

section \<open>What reaches a reader\<close>

text \<open>
  A publication of some request that was answered, of a pass of the draw, or what a stream tells itself
  when the deadline passes.
\<close>

definition issued :: "runtime \<Rightarrow> payload event list \<Rightarrow> bool" where
  "issued rt events \<longleftrightarrow>
     (\<exists>i. events = [expired_event i])
     \<or> (\<exists>p c st reply st' new orderID. serve rt p c st = Inr (reply, st')
          \<and> st_published st' = st_published st @ new \<and> (orderID, events) \<in> set new)
     \<or> (\<exists>pick st new orderID. st_published (draw_pass pick rt st) = st_published st @ new \<and> (orderID, events) \<in> set new)"

lemma issued_fit: "issued rt events \<Longrightarrow> fit_to_publish events"
  unfolding issued_def
proof (elim disjE exE conjE)
  fix i assume "events = [expired_event i]"
  then show ?thesis by (simp add: fit_changes)
next
  fix p c st reply st' new orderID
  assume run: "serve rt p c st = Inr (reply, st')" and new: "st_published st' = st_published st @ new" "(orderID, events) \<in> set new"
  have "grown st st'" using serve_emits [of st rt p c] by (simp add: run)
  with new show ?thesis by (auto simp: grown_def list_all_iff)
next
  fix pick st new orderID
  assume "st_published (draw_pass pick rt st) = st_published st @ new" "(orderID, events) \<in> set new"
  with draw_grows [of st pick rt] show ?thesis by (auto simp: grown_def list_all_iff)
qed

text \<open>
  C7: nothing about people reaches somebody who is not signed in, and nothing is sent past the page.
  Whatever requests the server has answered and jobs it has drawn, whatever has been published and whoever has come, read
  and gone in between, an event waiting for a reader has a name the frontend listens for, no more than
  sixteen wait, and for a reader who is not signed in each carries an identifier, a number of lines or
  an order's header, never a line, a person, a list entry or the chat; and the names the server knows
  are exactly the frontend's and the ping that keeps a stream alive.
\<close>

theorem streams_tell_no_names:
  assumes "hub_reachable (issued rt) (g, op)"
  shows "length (sb_events (rg_subs g s)) \<le> 16
    \<and> list_all (\<lambda>e. ev_name e \<in> set ORDER_EVENTS
        \<and> (if sb_authenticated (rg_subs g s) then True else public_payload (ev_data e))) (sb_events (rg_subs g s))
    \<and> set EventNames = set ORDER_EVENTS \<union> {''ping''}"
proof -
  have "separate events" if "issued rt events" for events
    using issued_fit [OF that] by (simp add: fit_to_publish_def)
  from hub_reachable_ok [OF assms this] have queue: "queue_ok (issued rt) (rg_subs g s)" by simp
  have "ev_name e \<in> set ORDER_EVENTS \<and> (if sb_authenticated (rg_subs g s) then True else public_payload (ev_data e))"
    if "e \<in> set (sb_events (rg_subs g s))" for e
  proof -
    from queue that obtain events where "issued rt events" "e \<in> set events" and wanted: "wants (rg_subs g s) e"
      by (auto simp: queue_ok_def)
    with issued_fit have "ev_name e \<in> set ORDER_EVENTS" "admits False e \<longrightarrow> public_payload (ev_data e)"
      by (auto simp: fit_to_publish_def list_all_iff)
    with wanted show ?thesis by (auto simp: wants_admits)
  qed
  moreover have "set EventNames = set ORDER_EVENTS \<union> {''ping''}" by (simp add: EventNames_def ORDER_EVENTS_def insert_commute)
  ultimately show ?thesis using queue by (simp add: queue_ok_def list_all_iff subscriberBuffer_def)
qed

theorem streams_tell_no_names_witness:
  "list_all (\<lambda>e. public_payload (ev_data e))
     (sb_events (rg_subs (the (Publish ''o1'' [expired_event ''o1''] (snd (ServerHub.Subscribe ''o1'' False NewRegistry)))) 1))"
proof -
  fix rt
  let ?g = "snd (ServerHub.Subscribe ''o1'' False NewRegistry) :: payload hub_registry"
  have sub: "ServerHub.Subscribe ''o1'' False (NewRegistry :: payload hub_registry) = (1, ?g)"
    by (simp add: Subscribe_def subscribe_lookup_def subscribe_insert_def NewRegistry_def Let_def)
  obtain g' where g': "Publish ''o1'' [expired_event ''o1''] ?g = Some g'" and who: "\<not> sb_authenticated (rg_subs g' 1)"
    by (auto simp: Subscribe_def subscribe_lookup_def subscribe_insert_def NewRegistry_def Publish_def offer_def Let_def
        expired_event_def wants_def subscriberBuffer_def)
  have "hub_step (issued rt) (NewRegistry, []) (?g, [(1, ''o1'')])" by (rule hub_step.opens [OF sub])
  moreover have "hub_step (issued rt) (?g, [(1, ''o1'')]) (g', [(1, ''o1'')])"
    by (rule hub_step.publishes [OF _ g']) (auto simp: issued_def)
  ultimately have "hub_reachable (issued rt) (g', [(1, ''o1'')])"
    unfolding hub_reachable_def by (rule converse_rtranclp_into_rtranclp [OF _ r_into_rtranclp])
  from streams_tell_no_names [OF this, of 1] who g' show ?thesis by (auto simp: list_all_iff)
qed

end
